(* ===== verification/GoPrelude.thy ===== *)
theory GoPrelude
  imports Complex_Main "HOL-Library.AList" "HOL-Library.Char_ord" "HOL-Library.List_Lexorder"
    "HOL-Library.Multiset" "HOL-Library.Sublist"
begin

text \<open>
  The part of Go and of its standard library that the router's packages use, and the
  generic lemmas the component theories share.

  \<^item> Go strings are byte strings: \<open>string\<close>, a list of \<open>char\<close>, with the bytewise
    lexicographic order of \<open>sort.Strings\<close>. \<open>ToLower\<close> and \<open>TrimSpace\<close> treat the ASCII range.
  \<^item> \<open>float64\<close> values are exact rationals: rounding, infinities and NaN are not modelled.
    The components' theorems on scores and costs do not rest on the associativity of sums.
  \<^item> \<open>int64\<close> values are integers, with the wrap-around \<open>i64\<close> written where a sum can
    leave the range.
  \<^item> A Go map is an association list with distinct keys; a nil pointer is \<open>None\<close>, a nil
    slice the empty list. Copies made by the code (its clone functions) are identities on values.
  \<^item> \<open>sort.Slice\<close> and the hand-written insertion sorts are \<open>insertion_sort\<close>; what callers
    rely on is the locale \<open>slice_sorter\<close>.
\<close>

named_theorems go_defs \<open>definitions of the standard library model to unfold on closed terms\<close>
named_theorems clone_simps \<open>clone functions are identities on values\<close>

type_synonym float64 = rat

section \<open>Machine integers\<close>

definition i64 :: "int \<Rightarrow> int" where
  "i64 x = (x + 2 ^ 63) mod 2 ^ 64 - 2 ^ 63"

definition in_i64 :: "int \<Rightarrow> bool" where
  "in_i64 x \<longleftrightarrow> - (2 ^ 63) \<le> x \<and> x < 2 ^ 63"

lemma i64_id [simp]: "in_i64 x \<Longrightarrow> i64 x = x"
  by (simp add: i64_def in_i64_def)

lemma in_i64_i64 [simp]: "in_i64 (i64 x)"
  by (simp add: i64_def in_i64_def)

lemma in_i64_bounds [intro]: "- (2 ^ 63) \<le> x \<Longrightarrow> x < 2 ^ 63 \<Longrightarrow> in_i64 x"
  by (simp add: in_i64_def)

lemma i64_plus: "i64 (i64 x + y) = i64 (x + y)"
proof -
  have "(i64 x + y + 2 ^ 63) mod 2 ^ 64 = ((x + 2 ^ 63) mod 2 ^ 64 + y) mod 2 ^ 64"
    by (simp add: i64_def algebra_simps)
  also have "\<dots> = (x + 2 ^ 63 + y) mod 2 ^ 64"
    by (rule mod_add_left_eq)
  finally show ?thesis
    by (simp only: i64_def [of "i64 x + y"] i64_def [of "x + y"]) (simp add: algebra_simps)
qed

section \<open>Strings\<close>

definition isSpaceByte :: "char \<Rightarrow> bool" where
  "isSpaceByte c \<longleftrightarrow> of_char c \<in> {9, 10, 11, 12, 13, 32 :: nat}"

definition TrimSpace :: "string \<Rightarrow> string" where
  "TrimSpace s = rev (dropWhile isSpaceByte (rev (dropWhile isSpaceByte s)))"

definition toLowerByte :: "char \<Rightarrow> char" where
  "toLowerByte c = (if 65 \<le> (of_char c :: nat) \<and> (of_char c :: nat) \<le> 90
                    then char_of ((of_char c :: nat) + 32) else c)"

definition ToLower :: "string \<Rightarrow> string" where
  "ToLower = map toLowerByte"

fun Contains :: "string \<Rightarrow> string \<Rightarrow> bool" where
  "Contains [] t = (t = [])"
| "Contains (c # s) t = (prefix t (c # s) \<or> Contains s t)"

definition ReplaceByte :: "char \<Rightarrow> char \<Rightarrow> string \<Rightarrow> string" where
  "ReplaceByte old new = map (\<lambda>c. if c = old then new else c)"

lemmas [go_defs] = isSpaceByte_def TrimSpace_def toLowerByte_def ToLower_def ReplaceByte_def

lemma TrimSpace_Nil [simp]: "TrimSpace [] = []"
  by (simp add: TrimSpace_def)

lemma TrimSpace_nonempty: "TrimSpace s \<noteq> [] \<Longrightarrow> s \<noteq> []"
  by auto

lemma toLowerByte_idem [simp]: "toLowerByte (toLowerByte c) = toLowerByte c"
  by (auto simp: toLowerByte_def)

lemma ToLower_idem [simp]: "ToLower (ToLower s) = ToLower s"
  by (simp add: ToLower_def)

lemma Contains_iff: "Contains s t \<longleftrightarrow> (\<exists>a b. s = a @ t @ b)"
proof (induction s)
  case Nil
  show ?case by auto
next
  case (Cons c s)
  have "prefix t (c # s) \<or> (\<exists>a b. s = a @ t @ b) \<longleftrightarrow> (\<exists>a b. c # s = a @ t @ b)"
    by (auto simp: prefix_def Cons_eq_append_conv)
  with Cons.IH show ?case by simp
qed

section \<open>Formatting\<close>

fun digitsAcc :: "nat \<Rightarrow> string \<Rightarrow> string" where
  "digitsAcc n acc =
     (let c = char_of (48 + n mod 10)
      in if n < 10 then c # acc else digitsAcc (n div 10) (c # acc))"

declare digitsAcc.simps [simp del]

definition showNat :: "nat \<Rightarrow> string" where
  "showNat n = digitsAcc n []"

definition showInt :: "int \<Rightarrow> string" where
  "showInt i = (if i < 0 then CHR ''-'' # showNat (nat (- i)) else showNat (nat i))"

text \<open>\<open>%0wd\<close>: the sign counts towards the width, as in package fmt.\<close>

definition padZeros :: "nat \<Rightarrow> string \<Rightarrow> string" where
  "padZeros w s = replicate (w - length s) (CHR ''0'') @ s"

definition fmtPadInt :: "nat \<Rightarrow> int \<Rightarrow> string" where
  "fmtPadInt w i =
     (if i < 0 then CHR ''-'' # padZeros (w - 1) (showNat (nat (- i)))
      else padZeros w (showNat (nat i)))"

text \<open>\<open>%.pf\<close> on an exact value: round half to even at \<open>p\<close> decimals.\<close>

definition roundHalfEven :: "rat \<Rightarrow> int" where
  "roundHalfEven q =
     (let f = \<lfloor>q\<rfloor>; r = q - of_int f
      in if r < 1 / 2 then f else if r > 1 / 2 then f + 1
         else if even f then f else f + 1)"

definition fmtFixed :: "nat \<Rightarrow> rat \<Rightarrow> string" where
  "fmtFixed p q =
     (let m = nat (roundHalfEven (\<bar>q\<bar> * 10 ^ p))
      in (if q < 0 then ''-'' else '''') @ showNat (m div 10 ^ p) @
         (if p = 0 then '''' else ''.'' @ padZeros p (showNat (m mod 10 ^ p))))"

definition showBool :: "bool \<Rightarrow> string" where
  "showBool b = (if b then ''true'' else ''false'')"

text \<open>\<open>%q\<close> for ASCII text: quotes, backslashes and control bytes are escaped.\<close>

definition hexDigit :: "nat \<Rightarrow> char" where
  "hexDigit n = (if n < 10 then char_of (48 + n) else char_of (87 + n))"

definition quoteByte :: "char \<Rightarrow> string" where
  "quoteByte c =
     (let n = (of_char c :: nat) in
      if n = 34 \<or> n = 92 then [char_of (92::nat), c]
      else if n = 7 then [char_of (92::nat), CHR ''a'']
      else if n = 8 then [char_of (92::nat), CHR ''b'']
      else if n = 12 then [char_of (92::nat), CHR ''f'']
      else if n = 10 then [char_of (92::nat), CHR ''n'']
      else if n = 13 then [char_of (92::nat), CHR ''r'']
      else if n = 9 then [char_of (92::nat), CHR ''t'']
      else if n = 11 then [char_of (92::nat), CHR ''v'']
      else if n < 32 \<or> n = 127
           then [char_of (92::nat), CHR ''x'', hexDigit (n div 16), hexDigit (n mod 16)]
      else [c])"

definition fmtQ :: "string \<Rightarrow> string" where
  "fmtQ s = char_of (34::nat) # concat (map quoteByte s) @ [char_of (34::nat)]"

fun joinWith :: "string \<Rightarrow> string list \<Rightarrow> string" where
  "joinWith sep [] = []"
| "joinWith sep [s] = s"
| "joinWith sep (s # ss) = s @ sep @ joinWith sep ss"

lemmas [go_defs] = showNat_def showInt_def padZeros_def fmtPadInt_def roundHalfEven_def fmtFixed_def
  showBool_def hexDigit_def quoteByte_def fmtQ_def digitsAcc.simps

section \<open>Sorting\<close>

text \<open>
  \<open>sink lt x p\<close> moves \<open>x\<close> left over the prefix \<open>p\<close> (kept last element first) while it is
  less than its left neighbour: the inner loop of Go's insertion sort, and of the insertion
  sorts written out in the packages \<open>spend\<close> and \<open>outcomes\<close>.
\<close>

fun sink :: "('a \<Rightarrow> 'a \<Rightarrow> bool) \<Rightarrow> 'a \<Rightarrow> 'a list \<Rightarrow> 'a list" where
  "sink lt x [] = [x]"
| "sink lt x (y # ys) = (if lt x y then y # sink lt x ys else x # y # ys)"

definition insertion_sort :: "('a \<Rightarrow> 'a \<Rightarrow> bool) \<Rightarrow> 'a list \<Rightarrow> 'a list" where
  "insertion_sort lt xs = rev (fold (sink lt) xs [])"

definition strict_weak :: "('a \<Rightarrow> 'a \<Rightarrow> bool) \<Rightarrow> bool" where
  "strict_weak lt \<longleftrightarrow>
     (\<forall>a b. lt a b \<longrightarrow> \<not> lt b a) \<and>
     (\<forall>a b c. \<not> lt a b \<longrightarrow> \<not> lt b c \<longrightarrow> \<not> lt a c)"

lemma strict_weak_asym: "strict_weak lt \<Longrightarrow> lt a b \<Longrightarrow> \<not> lt b a"
  unfolding strict_weak_def by blast

lemma strict_weak_trans:
  "strict_weak lt \<Longrightarrow> \<not> lt a b \<Longrightarrow> \<not> lt b c \<Longrightarrow> \<not> lt a c"
  unfolding strict_weak_def by blast

lemma strict_weak_key [intro]: "strict_weak (\<lambda>a b. (f a :: 'k :: linorder) > f b)"
  by (auto simp: strict_weak_def)

text \<open>What the callers of \<open>sort.Slice\<close> rely on: a reordering, in order for a strict weak order.\<close>

locale slice_sorter =
  fixes srt :: "('a \<Rightarrow> 'a \<Rightarrow> bool) \<Rightarrow> 'a list \<Rightarrow> 'a list"
  assumes srt_mset: "mset (srt lt xs) = mset xs"
    and srt_sorted: "strict_weak lt \<Longrightarrow> sorted_wrt (\<lambda>a b. \<not> lt b a) (srt lt xs)"
begin

lemma srt_set [simp]: "set (srt lt xs) = set xs"
  by (metis srt_mset set_mset_mset)

lemma srt_length [simp]: "length (srt lt xs) = length xs"
  by (metis srt_mset size_mset)

lemma srt_Nil_iff [simp]: "srt lt xs = [] \<longleftrightarrow> xs = []"
  by (metis length_0_conv srt_length)

lemma srt_Nil [simp]: "srt lt [] = []"
  by simp

lemma srt_distinct [simp]: "distinct (map f (srt lt xs)) = distinct (map f xs)"
proof -
  have "mset (map f (srt lt xs)) = mset (map f xs)"
    by (simp add: srt_mset)
  then show ?thesis by (metis mset_eq_imp_distinct_iff)
qed

lemma srt_hd_in: "xs \<noteq> [] \<Longrightarrow> hd (srt lt xs) \<in> set xs"
  by (metis hd_in_set srt_Nil_iff srt_set)

lemma srt_hd_first:
  assumes sw: "strict_weak lt" and x: "x \<in> set xs"
  shows "\<not> lt x (hd (srt lt xs))"
proof (cases "srt lt xs")
  case Nil
  with x show ?thesis by simp
next
  case (Cons y ys)
  have "x = y \<or> x \<in> set ys"
    using x Cons srt_set [of lt xs] by auto
  with Cons srt_sorted [OF sw, of xs] show ?thesis
    using strict_weak_asym [OF sw, of y y] by auto
qed

end

lemma mset_sink: "mset (sink lt x p) = mset p + {#x#}"
  by (induction p) auto

lemma mset_fold_sink: "mset (fold (sink lt) xs p) = mset xs + mset p"
  by (induction xs arbitrary: p) (auto simp: mset_sink)

lemma set_sink: "set (sink lt x p) = insert x (set p)"
  by (induction p) auto

lemma sorted_sink:
  assumes sw: "strict_weak lt"
  shows "sorted_wrt (\<lambda>a b. \<not> lt a b) p \<Longrightarrow> sorted_wrt (\<lambda>a b. \<not> lt a b) (sink lt x p)"
proof (induction p)
  case Nil
  then show ?case by simp
next
  case (Cons y ys)
  show ?case
  proof (cases "lt x y")
    case True
    with Cons strict_weak_asym [OF sw True] show ?thesis by (simp add: set_sink)
  next
    case False
    with Cons.prems show ?thesis by (auto dest: strict_weak_trans [OF sw False])
  qed
qed

lemma sorted_fold_sink:
  assumes "strict_weak lt"
  shows "sorted_wrt (\<lambda>a b. \<not> lt a b) p \<Longrightarrow>
    sorted_wrt (\<lambda>a b. \<not> lt a b) (fold (sink lt) xs p)"
  by (induction xs arbitrary: p) (auto intro: sorted_sink [OF assms])

interpretation insertion: slice_sorter insertion_sort
proof unfold_locales
  fix lt :: "'a \<Rightarrow> 'a \<Rightarrow> bool" and xs
  show "mset (insertion_sort lt xs) = mset xs"
    by (simp add: insertion_sort_def mset_fold_sink)
  show "sorted_wrt (\<lambda>a b. \<not> lt b a) (insertion_sort lt xs)" if "strict_weak lt"
    using sorted_fold_sink [OF that, of "[]" xs]
    by (simp add: insertion_sort_def sorted_wrt_rev)
qed

section \<open>Maps\<close>

text \<open>What the code relies on of a Go map: lookup after store and delete, one entry per key.\<close>

locale go_map =
  fixes get :: "'m \<Rightarrow> 'k \<Rightarrow> 'v option"
    and put :: "'k \<Rightarrow> 'v \<Rightarrow> 'm \<Rightarrow> 'm"
    and del :: "'k \<Rightarrow> 'm \<Rightarrow> 'm"
    and keys :: "'m \<Rightarrow> 'k list"
    and emp :: 'm
    and wf :: "'m \<Rightarrow> bool"
  assumes get_put: "get (put k v m) = (get m)(k \<mapsto> v)"
    and get_del: "wf m \<Longrightarrow> get (del k m) = (get m)(k := None)"
    and get_emp: "get emp = (\<lambda>_. None)"
    and keys_get: "set (keys m) = dom (get m)"
    and keys_distinct: "wf m \<Longrightarrow> distinct (keys m)"
    and wf_emp: "wf emp"
    and wf_put: "wf m \<Longrightarrow> wf (put k v m)"
    and wf_del: "wf m \<Longrightarrow> wf (del k m)"
begin

lemma len_put_new:
  assumes "wf m" and "get m k = None"
  shows "length (keys (put k v m)) = Suc (length (keys m))"
proof -
  have "set (keys (put k v m)) = insert k (set (keys m))"
    by (simp add: keys_get get_put)
  moreover have "k \<notin> set (keys m)"
    using assms(2) by (simp add: keys_get domIff)
  ultimately have "card (set (keys (put k v m))) = Suc (card (set (keys m)))"
    by simp
  with assms(1) show ?thesis
    by (simp add: distinct_card keys_distinct wf_put)
qed

lemma len_put_old:
  assumes "wf m" and "get m k \<noteq> None"
  shows "length (keys (put k v m)) = length (keys m)"
proof -
  have "set (keys (put k v m)) = set (keys m)"
    using assms(2) by (auto simp: keys_get get_put)
  with assms(1) show ?thesis
    by (metis distinct_card keys_distinct wf_put)
qed

lemma len_emp: "length (keys emp) = 0"
  using keys_get [of emp] by (simp add: get_emp)

lemma len_put_le: "wf m \<Longrightarrow> length (keys (put k v m)) \<le> Suc (length (keys m))"
  by (cases "get m k") (simp_all add: len_put_new len_put_old)

end

type_synonym ('k, 'v) gomap = "('k \<times> 'v) list"

definition mget :: "('k, 'v) gomap \<Rightarrow> 'k \<Rightarrow> 'v option" where
  "mget m k = map_of m k"

definition mput :: "'k \<Rightarrow> 'v \<Rightarrow> ('k, 'v) gomap \<Rightarrow> ('k, 'v) gomap" where
  "mput k v m = AList.update k v m"

definition mdel :: "'k \<Rightarrow> ('k, 'v) gomap \<Rightarrow> ('k, 'v) gomap" where
  "mdel k m = AList.delete k m"

definition mkeys :: "('k, 'v) gomap \<Rightarrow> 'k list" where
  "mkeys m = map fst m"

definition mwf :: "('k, 'v) gomap \<Rightarrow> bool" where
  "mwf m \<longleftrightarrow> distinct (map fst m)"

text \<open>\<open>m[k]\<close> with the zero value \<open>z\<close> where the key is absent.\<close>

definition mget0 :: "'v \<Rightarrow> ('k, 'v) gomap \<Rightarrow> 'k \<Rightarrow> 'v" where
  "mget0 z m k = (case mget m k of Some v \<Rightarrow> v | None \<Rightarrow> z)"

lemmas gomap_defs = mget_def mput_def mdel_def mkeys_def mwf_def mget0_def
lemmas [go_defs] = gomap_defs

interpretation gomap: go_map mget mput mdel mkeys "[]" mwf
proof unfold_locales
  fix m :: "('k \<times> 'v) list" and k v
  show "mget (mput k v m) = (mget m)(k \<mapsto> v)"
    by (rule ext) (simp add: mget_def mput_def update_conv)
  show "mget (mdel k m) = (mget m)(k := None)"
    by (rule ext) (simp add: mget_def mdel_def delete_conv)
  show "mget ([] :: ('k \<times> 'v) list) = (\<lambda>_. None)"
    by (rule ext) (simp add: mget_def)
  show "set (mkeys m) = dom (mget m)"
    by (simp add: mkeys_def mget_def [abs_def] dom_map_of_conv_image_fst)
  show "distinct (mkeys m)" if "mwf m"
    using that by (simp add: mkeys_def mwf_def)
  show "mwf ([] :: ('k \<times> 'v) list)"
    by (simp add: mwf_def)
  show "mwf (mput k v m)" if "mwf m"
    using that by (simp add: mwf_def mput_def distinct_update)
  show "mwf (mdel k m)" if "mwf m"
    using that by (simp add: mwf_def mdel_def distinct_delete)
qed

lemmas mget_put [simp] = gomap.get_put
  and mget_del [simp] = gomap.get_del
  and mget_Nil [simp] = gomap.get_emp
  and mwf_Nil [simp] = gomap.wf_emp
  and mwf_put [simp] = gomap.wf_put
  and mwf_del [simp] = gomap.wf_del

lemma set_mkeys: "k \<in> set (mkeys m) \<longleftrightarrow> mget m k \<noteq> None"
  using gomap.keys_get [of m] by auto

text \<open>A property of every value a map holds.\<close>

definition mall :: "('v \<Rightarrow> bool) \<Rightarrow> ('k, 'v) gomap \<Rightarrow> bool" where
  "mall P m \<longleftrightarrow> (\<forall>v \<in> snd ` set m. P v)"

lemma mall_Nil [simp]: "mall P []"
  by (simp add: mall_def)

lemma mall_put [intro]: "mall P m \<Longrightarrow> P v \<Longrightarrow> mall P (mput k v m)"
  unfolding mput_def mall_def by (induction m) auto

lemma mall_get: "mall P m \<Longrightarrow> mget m k = Some v \<Longrightarrow> P v"
  by (force simp: mall_def mget_def dest: map_of_SomeD)

section \<open>Lists\<close>

text \<open>The last \<open>n\<close> elements: \<open>xs[len(xs)-n:]\<close>.\<close>

definition lastN :: "nat \<Rightarrow> 'a list \<Rightarrow> 'a list" where
  "lastN n xs = drop (length xs - n) xs"

lemma length_lastN [simp]: "length (lastN n xs) = min n (length xs)"
  by (auto simp: lastN_def)

lemma lastN_all [simp]: "length xs \<le> n \<Longrightarrow> lastN n xs = xs"
  by (simp add: lastN_def)

lemma lastN_append1: "lastN n (lastN n xs @ [x]) = lastN n (xs @ [x])"
  by (cases "length xs \<le> n") (auto simp: lastN_def Suc_diff_le not_le)

lemma lastN_append: "lastN n (lastN n xs @ ys) = lastN n (xs @ ys)"
  by (cases "length xs \<le> n") (auto simp: lastN_def not_le add.commute)

text \<open>Appending the values not seen yet: the loops that keep a \<open>seen\<close> set beside their output.\<close>

fun addUnique :: "'a list \<Rightarrow> 'a list \<Rightarrow> 'a list" where
  "addUnique out [] = out"
| "addUnique out (v # vs) = (if v \<in> set out then addUnique out vs else addUnique (out @ [v]) vs)"

lemma set_addUnique [simp]: "set (addUnique out vs) = set out \<union> set vs"
  by (induction out vs rule: addUnique.induct) auto

lemma distinct_addUnique [simp]: "distinct (addUnique out vs) = distinct out"
  by (induction out vs rule: addUnique.induct) auto

lemma addUnique_subset [simp]: "set vs \<subseteq> set out \<Longrightarrow> addUnique out vs = out"
  by (induction out vs rule: addUnique.induct) auto

lemma addUnique_append: "addUnique out (us @ vs) = addUnique (addUnique out us) vs"
  by (induction out us rule: addUnique.induct) auto

lemma addUnique_Nil_iff [simp]: "addUnique out vs = [] \<longleftrightarrow> out = [] \<and> vs = []"
  by (metis Un_empty set_addUnique set_empty2)

text \<open>The first present value of a list of optional values.\<close>

fun first_some :: "'a option list \<Rightarrow> 'a option" where
  "first_some [] = None"
| "first_some (x # xs) = (case x of None \<Rightarrow> first_some xs | Some v \<Rightarrow> Some v)"

fun first_nonempty :: "string list \<Rightarrow> string" where
  "first_nonempty [] = []"
| "first_nonempty (x # xs) = (if x = [] then first_nonempty xs else x)"

lemma first_some_append: "first_some (xs @ ys) = (case first_some xs of None \<Rightarrow> first_some ys | Some v \<Rightarrow> Some v)"
  by (induction xs) (auto split: option.split)

lemma first_nonempty_append:
  "first_nonempty (xs @ ys) = (if first_nonempty xs = [] then first_nonempty ys else first_nonempty xs)"
  by (induction xs) auto

section \<open>Results\<close>

text \<open>An early return on error: \<open>if err != nil { return err }\<close>.\<close>

definition bindR :: "'e + 'a \<Rightarrow> ('a \<Rightarrow> 'e + 'b) \<Rightarrow> 'e + 'b" where
  "bindR r f = (case r of Inl e \<Rightarrow> Inl e | Inr x \<Rightarrow> f x)"

lemma bindR_simps [simp]: "bindR (Inr x) f = f x" "bindR (Inl e) f = Inl e"
  by (simp_all add: bindR_def)

lemma bindR_Inr: "bindR r f = Inr y \<longleftrightarrow> (\<exists>x. r = Inr x \<and> f x = Inr y)"
  by (cases r) auto

lemma bindR_Inl: "bindR r f = Inl e \<longleftrightarrow> r = Inl e \<or> (\<exists>x. r = Inr x \<and> f x = Inl e)"
  by (cases r) auto

end
