(* ===== verification/RouterJob.thy ===== *)
theory RouterJob
  imports GoPrelude
begin

text \<open>
  The descriptor of a request (\<open>internal/router/job.go\<close>): the vocabularies shared by the
  classifier, the policy and the engine, the \<open>JobDescriptor\<close>, dynamic values (\<open>any\<close>, as
  decoded from JSON) and the vocabulary parsers.
\<close>

type_synonym TaskType = string
abbreviation TaskSimpleChat :: TaskType where "TaskSimpleChat \<equiv> ''simple_chat''"
abbreviation TaskTrivialGit :: TaskType where "TaskTrivialGit \<equiv> ''trivial_git''"
abbreviation TaskSimpleShell :: TaskType where "TaskSimpleShell \<equiv> ''simple_shell''"
abbreviation TaskSummarization :: TaskType where "TaskSummarization \<equiv> ''summarization''"
abbreviation TaskSimpleCodeEdit :: TaskType where "TaskSimpleCodeEdit \<equiv> ''simple_code_edit''"
abbreviation TaskHardCodeDebugging :: TaskType where "TaskHardCodeDebugging \<equiv> ''hard_code_debugging''"
abbreviation TaskSecurityReview :: TaskType where "TaskSecurityReview \<equiv> ''security_review''"
abbreviation TaskDatabaseMigration :: TaskType where "TaskDatabaseMigration \<equiv> ''database_migration''"
abbreviation TaskLongContextAnalysis :: TaskType where "TaskLongContextAnalysis \<equiv> ''long_context_analysis''"
abbreviation TaskCreativeCopy :: TaskType where "TaskCreativeCopy \<equiv> ''creative_copy''"
abbreviation TaskUnknownHighRisk :: TaskType where "TaskUnknownHighRisk \<equiv> ''unknown_high_risk''"

type_synonym RiskLevel = string
abbreviation RiskLow :: RiskLevel where "RiskLow \<equiv> ''low''"
abbreviation RiskMedium :: RiskLevel where "RiskMedium \<equiv> ''medium''"
abbreviation RiskHigh :: RiskLevel where "RiskHigh \<equiv> ''high''"
abbreviation RiskCritical :: RiskLevel where "RiskCritical \<equiv> ''critical''"

type_synonym Sensitivity = string
abbreviation SensitivityNone :: Sensitivity where "SensitivityNone \<equiv> ''none''"
abbreviation SensitivitySourceCode :: Sensitivity where "SensitivitySourceCode \<equiv> ''source_code''"
abbreviation SensitivityPII :: Sensitivity where "SensitivityPII \<equiv> ''pii''"
abbreviation SensitivitySecretsPossible :: Sensitivity where "SensitivitySecretsPossible \<equiv> ''secrets_possible''"

type_synonym RouterMode = string
abbreviation RouterModeAuto :: RouterMode where "RouterModeAuto \<equiv> ''auto''"
abbreviation RouterModeCheap :: RouterMode where "RouterModeCheap \<equiv> ''cheap''"
abbreviation RouterModeBalanced :: RouterMode where "RouterModeBalanced \<equiv> ''balanced''"
abbreviation RouterModePremium :: RouterMode where "RouterModePremium \<equiv> ''premium''"
abbreviation RouterModeDisabled :: RouterMode where "RouterModeDisabled \<equiv> ''disabled''"

text \<open>
  A value of type \<open>any\<close>. \<open>AOther\<close> stands for the remaining dynamic types, with the text that
  \<open>fmt.Sprint\<close> prints.
\<close>

datatype anyval =
    ANil | ABool bool | AStr string | AList "anyval list" | AMap "(string \<times> anyval) list"
  | AStrMap "(string \<times> string) list" | AStrs "string list" | AMaps "(string \<times> anyval) list list"
  | AOther string

type_synonym metadata = "(string, anyval) gomap"

record JobDescriptor =
  jRequestID :: string
  jTenantID :: string
  jProjectID :: string
  jTenantIDHint :: string
  jProjectIDHint :: string
  jTaskType :: TaskType
  jTaskTypeHint :: TaskType
  jTaskConfidence :: float64
  jConservative :: bool
  jRiskLevel :: RiskLevel
  jRiskLevelHint :: RiskLevel
  jSensitivity :: Sensitivity
  jSensitivityHint :: Sensitivity
  jPromptTokensEstimate :: int
  jMaxOutputTokensEstimate :: int
  jRequiresReasoning :: bool
  jRequiresCode :: bool
  jRequiresToolUse :: bool
  jRequiresJSONSchema :: bool
  jRequiresLargeContext :: bool
  jRequiresVision :: bool
  jLatencyPreference :: string
  jQualityPreference :: string
  jBudgetPreference :: string
  jFilesTouched :: "string list"
  jKeywords :: "string list"
  jRouterMode :: RouterMode
  jExplicitModel :: "string option"
  jMetadata :: metadata

text \<open>The descriptor of an empty request, as \<open>NewJobDescriptor\<close> initialises it.\<close>

definition baseJob :: "string \<Rightarrow> JobDescriptor" where
  "baseJob requestID = \<lparr>jRequestID = requestID, jTenantID = [], jProjectID = [], jTenantIDHint = [],
     jProjectIDHint = [], jTaskType = TaskUnknownHighRisk, jTaskTypeHint = [], jTaskConfidence = 0,
     jConservative = False, jRiskLevel = RiskHigh, jRiskLevelHint = [], jSensitivity = SensitivityNone,
     jSensitivityHint = [], jPromptTokensEstimate = 0, jMaxOutputTokensEstimate = 4096,
     jRequiresReasoning = False, jRequiresCode = False, jRequiresToolUse = False,
     jRequiresJSONSchema = False, jRequiresLargeContext = False, jRequiresVision = False,
     jLatencyPreference = ''balanced'', jQualityPreference = ''balanced'', jBudgetPreference = ''normal'',
     jFilesTouched = [], jKeywords = [], jRouterMode = RouterModeAuto, jExplicitModel = None,
     jMetadata = []\<rparr>"

section \<open>Vocabularies\<close>

definition parseIn :: "string list \<Rightarrow> string \<Rightarrow> string option" where
  "parseIn vocab v = (if v \<in> set vocab then Some v else None)"

definition parseTaskType :: "string \<Rightarrow> TaskType option" where
  "parseTaskType = parseIn [TaskSimpleChat, TaskTrivialGit, TaskSimpleShell, TaskSummarization,
     TaskSimpleCodeEdit, TaskHardCodeDebugging, TaskSecurityReview, TaskDatabaseMigration,
     TaskLongContextAnalysis, TaskCreativeCopy, TaskUnknownHighRisk]"

definition parseRiskLevel :: "string \<Rightarrow> RiskLevel option" where
  "parseRiskLevel = parseIn [RiskLow, RiskMedium, RiskHigh, RiskCritical]"

definition parseSensitivity :: "string \<Rightarrow> Sensitivity option" where
  "parseSensitivity =
     parseIn [SensitivityNone, SensitivitySourceCode, SensitivityPII, SensitivitySecretsPossible]"

definition parseLatencyPreference :: "string \<Rightarrow> string option" where
  "parseLatencyPreference = parseIn [''fast'', ''balanced'', ''quality'']"

definition parseQualityPreference :: "string \<Rightarrow> string option" where
  "parseQualityPreference = parseIn [''cheap'', ''balanced'', ''high'']"

definition parseBudgetPreference :: "string \<Rightarrow> string option" where
  "parseBudgetPreference = parseIn [''cheap'', ''normal'', ''high'']"

definition parseRouterMode :: "string \<Rightarrow> RouterMode option" where
  "parseRouterMode = parseIn [RouterModeAuto, RouterModeCheap, RouterModeBalanced,
     RouterModePremium, RouterModeDisabled]"

lemmas parse_defs = parseIn_def parseTaskType_def parseRiskLevel_def parseSensitivity_def
  parseLatencyPreference_def parseQualityPreference_def parseBudgetPreference_def parseRouterMode_def

end
