(* ===== verification/OpenAI.thy ===== *)
theory OpenAI
  imports RouterJob
begin

text \<open>
  \<open>internal/openai/types.go\<close>: the requests and responses of the public API.
\<close>

record Message =
  msgRole :: string
  msgContent :: string

record ChatRequest =
  reqModel :: string
  reqMessages :: "Message list"
  reqTemperature :: "float64 option"
  reqMaxTokens :: "int option"
  reqMaxCompletionTokens :: "int option"
  reqStream :: bool
  reqStreamOptions :: "bool option"
  reqTools :: "anyval list"
  reqResponseFormat :: anyval
  reqMetadata :: metadata

record Usage =
  PromptTokens :: int
  CompletionTokens :: int
  TotalTokens :: int

record Choice =
  choIndex :: int
  choMessage :: Message
  choFinishReason :: string

record ChatResponse =
  respID :: string
  respObject :: string
  respCreated :: int
  respModel :: string
  respChoices :: "Choice list"
  respUsage :: Usage

definition zeroRequest :: ChatRequest where
  "zeroRequest = \<lparr>reqModel = [], reqMessages = [], reqTemperature = None, reqMaxTokens = None,
     reqMaxCompletionTokens = None, reqStream = False, reqStreamOptions = None, reqTools = [],
     reqResponseFormat = ANil, reqMetadata = []\<rparr>"

end
