(* ===== verification/ProviderRetry.thy ===== *)
theory ProviderRetry
  imports OpenAI
begin

text \<open>
  Package \<open>internal/provider\<close>: the provider-neutral request (\<open>provider.go\<close>) and the retrying
  adapter (\<open>retry.go\<close>). An error is its text with the sentinel errors it wraps, which is what
  \<open>errors.Is\<close> asks for. The wrapped adapter is a function from the number of the attempt to its
  result; \<open>ctxDone\<close> says whether the caller's context is done when the delay before an attempt
  runs, and with which error.
\<close>

datatype sentinel = ErrProviderTimeout | ErrProviderRateLimit | ErrProviderAuth | ErrProvider5xx
  | ErrProviderBadReq | ErrModelUnavailable | ErrProviderBadResp | ErrStreamInterrupted
  | ErrContextCanceled | ErrContextDeadline

datatype provider_error = PErr (wraps: "sentinel list") (errText: string)

definition errIs :: "provider_error \<Rightarrow> sentinel \<Rightarrow> bool" where
  "errIs e s \<longleftrightarrow> s \<in> set (wraps e)"

section \<open>Requests\<close>

record NormalizedModelRequest =
  nrModel :: string
  nrMessages :: "Message list"
  nrTemperature :: "float64 option"
  nrMaxTokens :: "int option"
  nrMaxCompletionTokens :: "int option"
  nrStream :: bool
  nrTools :: "anyval list"
  nrResponseFormat :: anyval
  nrMetadata :: metadata

fun cloneAny :: "anyval \<Rightarrow> anyval" where
  "cloneAny (AMap m) = AMap (map (\<lambda>e. (fst e, cloneAny (snd e))) m)"
| "cloneAny (AList vs) = AList (map cloneAny vs)"
| "cloneAny (AMaps ms) = AMaps (map (map (\<lambda>e. (fst e, cloneAny (snd e)))) ms)"
| "cloneAny v = v"

definition cloneMetadata :: "metadata \<Rightarrow> metadata" where
  "cloneMetadata m = map (\<lambda>e. (fst e, cloneAny (snd e))) m"

definition cloneAnySlice :: "anyval list \<Rightarrow> anyval list" where
  "cloneAnySlice vs = map cloneAny vs"

lemma cloneAny_id [simp, clone_simps]: "cloneAny v = v"
proof (induction v rule: cloneAny.induct)
  case (1 m)
  then have "map (\<lambda>e. (fst e, cloneAny (snd e))) m = m"
    by (intro map_idI) (auto simp: prod_eq_iff)
  then show ?case by simp
next
  case (2 vs)
  then have "map cloneAny vs = vs"
    by (intro map_idI) auto
  then show ?case by simp
next
  case (3 ms)
  have "map (map (\<lambda>e. (fst e, cloneAny (snd e)))) ms = ms"
    by (intro map_idI) (auto simp: prod_eq_iff 3 intro!: map_idI)
  then show ?case by simp
qed simp_all

lemma request_clones_are_ids [simp, clone_simps]: "cloneMetadata m = m" "cloneAnySlice vs = vs"
  by (simp_all add: cloneMetadata_def cloneAnySlice_def map_idI)

definition zeroNormalized :: NormalizedModelRequest where
  "zeroNormalized = \<lparr>nrModel = [], nrMessages = [], nrTemperature = None, nrMaxTokens = None,
     nrMaxCompletionTokens = None, nrStream = False, nrTools = [], nrResponseFormat = ANil, nrMetadata = []\<rparr>"

definition NormalizeChatRequest :: "ChatRequest option \<Rightarrow> NormalizedModelRequest" where
  "NormalizeChatRequest req =
     (case req of None \<Rightarrow> zeroNormalized
      | Some r \<Rightarrow> \<lparr>nrModel = reqModel r, nrMessages = [] @ reqMessages r, nrTemperature = reqTemperature r,
          nrMaxTokens = reqMaxTokens r, nrMaxCompletionTokens = reqMaxCompletionTokens r,
          nrStream = reqStream r, nrTools = cloneAnySlice (reqTools r),
          nrResponseFormat = cloneAny (reqResponseFormat r), nrMetadata = cloneMetadata (reqMetadata r)\<rparr>)"

definition ToOpenAI :: "NormalizedModelRequest option \<Rightarrow> ChatRequest" where
  "ToOpenAI req =
     (case req of None \<Rightarrow> zeroRequest
      | Some r \<Rightarrow> \<lparr>reqModel = nrModel r, reqMessages = [] @ nrMessages r, reqTemperature = nrTemperature r,
          reqMaxTokens = nrMaxTokens r, reqMaxCompletionTokens = nrMaxCompletionTokens r,
          reqStream = nrStream r, reqStreamOptions = None, reqTools = cloneAnySlice (nrTools r),
          reqResponseFormat = cloneAny (nrResponseFormat r), reqMetadata = cloneMetadata (nrMetadata r)\<rparr>)"

definition cloneRequest :: "NormalizedModelRequest option \<Rightarrow> NormalizedModelRequest" where
  "cloneRequest req =
     (case req of None \<Rightarrow> zeroNormalized
      | Some r \<Rightarrow> \<lparr>nrModel = nrModel r, nrMessages = [] @ nrMessages r, nrTemperature = nrTemperature r,
          nrMaxTokens = nrMaxTokens r, nrMaxCompletionTokens = nrMaxCompletionTokens r,
          nrStream = nrStream r, nrTools = cloneAnySlice (nrTools r),
          nrResponseFormat = cloneAny (nrResponseFormat r), nrMetadata = cloneMetadata (nrMetadata r)\<rparr>)"

lemma cloneRequest_id [simp, clone_simps]: "cloneRequest (Some r) = r"
  by (simp add: cloneRequest_def)

section \<open>Retries\<close>

definition isRetriable :: "provider_error \<Rightarrow> bool" where
  "isRetriable e \<longleftrightarrow> errIs e ErrProviderTimeout \<or> errIs e ErrProviderRateLimit \<or> errIs e ErrProvider5xx"

record RetryAdapter =
  raMaxRetries :: int
  raBaseDelay :: int

text \<open>What the loop did: the attempts it made, the delays it waited for, its result.\<close>

record 'r RetryRun =
  rrAttempts :: "nat list"
  rrDelays :: "int list"
  rrResult :: "provider_error + 'r"

definition retryDelay :: "RetryAdapter \<Rightarrow> nat \<Rightarrow> int" where
  "retryDelay r attempt = i64 (raBaseDelay r * 2 ^ (attempt - 1))"

definition exhausted :: "RetryAdapter \<Rightarrow> provider_error option \<Rightarrow> provider_error" where
  "exhausted r lastErr =
     PErr (ErrProviderTimeout # (case lastErr of None \<Rightarrow> [] | Some e \<Rightarrow> wraps e))
       (''provider_timeout (after '' @ showInt (raMaxRetries r + 1) @ '' attempts): '' @
        (case lastErr of None \<Rightarrow> ''%!w(<nil>)'' | Some e \<Rightarrow> errText e))"

text \<open>The loop \<open>for attempt := 0; attempt <= MaxRetries; attempt++\<close>, by the attempts left.\<close>

function retryLoop :: "RetryAdapter \<Rightarrow> (nat \<Rightarrow> provider_error option) \<Rightarrow> (nat \<Rightarrow> provider_error + 'r) \<Rightarrow>
    nat \<Rightarrow> provider_error option \<Rightarrow> nat list \<Rightarrow> int list \<Rightarrow> 'r RetryRun" where
  "retryLoop r ctxDone inner attempt lastErr as ds =
     (if int attempt > raMaxRetries r then \<lparr>rrAttempts = as, rrDelays = ds, rrResult = Inl (exhausted r lastErr)\<rparr>
      else
        let ds' = (if attempt > 0 then ds @ [retryDelay r attempt] else ds) in
        case (if attempt > 0 then ctxDone attempt else None) of
          Some e \<Rightarrow> \<lparr>rrAttempts = as, rrDelays = ds', rrResult = Inl e\<rparr>
        | None \<Rightarrow>
            (case inner attempt of
               Inr resp \<Rightarrow> \<lparr>rrAttempts = as @ [attempt], rrDelays = ds', rrResult = Inr resp\<rparr>
             | Inl e \<Rightarrow>
                 if \<not> isRetriable e then \<lparr>rrAttempts = as @ [attempt], rrDelays = ds', rrResult = Inl e\<rparr>
                 else retryLoop r ctxDone inner (Suc attempt) (Some e) (as @ [attempt]) ds'))"
  by pat_completeness auto
termination
  by (relation "measure (\<lambda>(r, _, _, attempt, _). nat (raMaxRetries r + 1) - attempt)") auto

declare retryLoop.simps [simp del]

definition retryComplete :: "RetryAdapter \<Rightarrow> (nat \<Rightarrow> provider_error option) \<Rightarrow> (nat \<Rightarrow> provider_error + 'r) \<Rightarrow> 'r RetryRun" where
  "retryComplete r ctxDone inner = retryLoop r ctxDone inner 0 None [] []"

section \<open>What the loop does\<close>

lemma retryLoop_attempts:
  "as = [0..<attempt] \<Longrightarrow>
   \<exists>n. attempt \<le> n \<and> rrAttempts (retryLoop r ctxDone inner attempt lastErr as ds) = [0..<n] \<and>
     (attempt < n \<longrightarrow> int n \<le> raMaxRetries r + 1)"
proof (induction r ctxDone inner attempt lastErr as ds rule: retryLoop.induct)
  case (1 r ctxDone inner attempt lastErr as ds)
  let ?ds = "if attempt > 0 then ds @ [retryDelay r attempt] else ds"
  consider (out) "int attempt > raMaxRetries r"
    | (ctx) e where "\<not> int attempt > raMaxRetries r" "(if attempt > 0 then ctxDone attempt else None) = Some e"
    | (ok) resp where "\<not> int attempt > raMaxRetries r" "(if attempt > 0 then ctxDone attempt else None) = None"
        "inner attempt = Inr resp"
    | (fail) e where "\<not> int attempt > raMaxRetries r" "(if attempt > 0 then ctxDone attempt else None) = None"
        "inner attempt = Inl e" "\<not> isRetriable e"
    | (again) e where "\<not> int attempt > raMaxRetries r" "(if attempt > 0 then ctxDone attempt else None) = None"
        "inner attempt = Inl e" "isRetriable e"
    by (cases "int attempt > raMaxRetries r"; cases "if attempt > 0 then ctxDone attempt else None";
        cases "inner attempt") auto
  then show ?case
  proof cases
    case out
    with 1(2) show ?thesis by (auto simp: retryLoop.simps [of r] intro!: exI [of _ attempt])
  next
    case ctx
    with 1(2) show ?thesis by (auto simp: retryLoop.simps [of r] Let_def intro!: exI [of _ attempt])
  next
    case ok
    with 1(2) show ?thesis by (auto simp: retryLoop.simps [of r] Let_def intro!: exI [of _ "Suc attempt"])
  next
    case fail
    with 1(2) show ?thesis by (auto simp: retryLoop.simps [of r] Let_def intro!: exI [of _ "Suc attempt"])
  next
    case again
    have "as @ [attempt] = [0..<Suc attempt]" using 1(2) by simp
    from 1(1) [OF again(1) refl again(2,3) _ this] again(4)
    obtain n where n: "Suc attempt \<le> n"
      "rrAttempts (retryLoop r ctxDone inner (Suc attempt) (Some e) (as @ [attempt]) ?ds) = [0..<n]"
      "Suc attempt < n \<longrightarrow> int n \<le> raMaxRetries r + 1" by auto
    have "retryLoop r ctxDone inner attempt lastErr as ds =
        retryLoop r ctxDone inner (Suc attempt) (Some e) (as @ [attempt]) ?ds"
      using again by (simp add: retryLoop.simps [of r ctxDone inner attempt] Let_def)
    with n again(1) show ?thesis
      by (intro exI [of _ n]) (cases "Suc attempt < n"; auto)
  qed
qed

text \<open>The loop returns a response exactly when some attempt within the budget does, after
  transient errors only, with the context alive before every retry.\<close>

definition transient :: "provider_error + 'r \<Rightarrow> bool" where
  "transient res \<longleftrightarrow> (case res of Inl e \<Rightarrow> isRetriable e | Inr _ \<Rightarrow> False)"

definition succeedsAt :: "RetryAdapter \<Rightarrow> (nat \<Rightarrow> provider_error option) \<Rightarrow> (nat \<Rightarrow> provider_error + 'r) \<Rightarrow>
    nat \<Rightarrow> nat \<Rightarrow> 'r \<Rightarrow> bool" where
  "succeedsAt r ctxDone inner first n x \<longleftrightarrow> first \<le> n \<and> int n \<le> raMaxRetries r \<and> inner n = Inr x \<and>
     (\<forall>k. first \<le> k \<and> k < n \<longrightarrow> transient (inner k)) \<and> (\<forall>k. first \<le> k \<and> k \<le> n \<and> 0 < k \<longrightarrow> ctxDone k = None)"

lemma succeedsAt_unfold:
  "(\<exists>n. succeedsAt r ctxDone inner a n x) \<longleftrightarrow>
     int a \<le> raMaxRetries r \<and> (0 < a \<longrightarrow> ctxDone a = None) \<and>
     (inner a = Inr x \<or> (transient (inner a) \<and> (\<exists>n. succeedsAt r ctxDone inner (Suc a) n x)))"
  (is "?l \<longleftrightarrow> ?r")
proof
  assume ?l
  then obtain n where n: "succeedsAt r ctxDone inner a n x" by blast
  show ?r
  proof (cases "n = a")
    case True
    with n show ?thesis by (auto simp: succeedsAt_def)
  next
    case False
    then have "transient (inner a)" "succeedsAt r ctxDone inner (Suc a) n x" "int a \<le> raMaxRetries r"
      "0 < a \<longrightarrow> ctxDone a = None"
      using n by (auto simp: succeedsAt_def)
    then show ?thesis by blast
  qed
next
  assume ?r
  then consider "inner a = Inr x" "int a \<le> raMaxRetries r" "0 < a \<longrightarrow> ctxDone a = None"
    | n where "transient (inner a)" "succeedsAt r ctxDone inner (Suc a) n x" "0 < a \<longrightarrow> ctxDone a = None"
    by blast
  then show ?l
  proof cases
    case 1
    then show ?thesis by (intro exI [of _ a]) (auto simp: succeedsAt_def le_antisym)
  next
    case 2
    have "transient (inner k)" if "a \<le> k" "k < n" for k
      using that 2 by (cases "k = a") (auto simp: succeedsAt_def)
    moreover have "ctxDone k = None" if "a \<le> k" "k \<le> n" "0 < k" for k
      using that 2 by (cases "k = a") (auto simp: succeedsAt_def)
    ultimately have "succeedsAt r ctxDone inner a n x"
      using 2(2) by (auto simp: succeedsAt_def)
    then show ?thesis by blast
  qed
qed

lemma retryLoop_succeeds:
  "rrResult (retryLoop r ctxDone inner attempt lastErr as ds) = Inr x \<longleftrightarrow>
   (\<exists>n. succeedsAt r ctxDone inner attempt n x)"
proof (induction r ctxDone inner attempt lastErr as ds rule: retryLoop.induct)
  case (1 r ctxDone inner attempt lastErr as ds)
  show ?case
  proof (cases "int attempt > raMaxRetries r \<or> (0 < attempt \<and> ctxDone attempt \<noteq> None)")
    case True
    then show ?thesis
      by (auto simp: retryLoop.simps [of r ctxDone inner attempt] succeedsAt_unfold [of _ _ _ attempt] Let_def
          split: option.split)
  next
    case False
    then have go: "\<not> int attempt > raMaxRetries r" "(if attempt > 0 then ctxDone attempt else None) = None"
      by auto
    show ?thesis
    proof (cases "inner attempt")
      case (Inl e)
      show ?thesis
        using go Inl 1 [OF go(1) refl go(2) Inl]
        by (cases "isRetriable e")
          (simp_all add: retryLoop.simps [of r ctxDone inner attempt] succeedsAt_unfold [of _ _ _ attempt]
            transient_def Let_def split: if_splits)
    next
      case (Inr y)
      then show ?thesis
        using go by (auto simp: retryLoop.simps [of r ctxDone inner attempt]
            succeedsAt_unfold [of _ _ _ attempt] transient_def Let_def split: if_splits)
    qed
  qed
qed

end
