(* ===== verification/ContextProc.thy ===== *)
theory ContextProc
  imports ProviderRetry
begin

text \<open>
  Package \<open>internal/contextproc\<close>: optional processors that rewrite the request before the provider
  call. What the clocks and the goroutine of a processor do is a parameter: for each processor,
  whether the pipeline's time is already up, whether a deadline passes first, or what the
  processor returned and made of its copy of the request. The second part is the prompt adapter
  of \<open>internal/provider/prompt_adapter.go\<close>, which rewrites system messages.
\<close>

section \<open>The pipeline\<close>

record ProcResult =
  pcTokensSaved :: int
  pcAppliedRules :: "string list"
  pcSkippedReason :: string

definition zeroProcResult :: ProcResult where
  "zeroProcResult = \<lparr>pcTokensSaved = 0, pcAppliedRules = [], pcSkippedReason = []\<rparr>"

text \<open>
  The fate of one run: the total deadline or the processor's hard deadline passes before its
  result is read, or it returns (an error, including a recovered panic, with a result; or a
  result and the copy of the request as the processor left it).
\<close>

datatype proc_run =
    TotalDeadline
  | HardDeadline
  | ReturnedError ProcResult string
  | Returned ProcResult NormalizedModelRequest

record Processor =
  pcName :: string
  pcExpiredBefore :: bool
  pcRun :: "NormalizedModelRequest \<Rightarrow> JobDescriptor option \<Rightarrow> proc_run"

record AppliedEntry =
  apName :: string
  apTokensSaved :: int
  apRules :: "string list"

record SkippedEntry =
  skName :: string
  skReason :: string

record PipelineResult =
  plTotalTokensSaved :: int
  plApplied :: "AppliedEntry list"
  plSkipped :: "SkippedEntry list"

definition zeroPipelineResult :: PipelineResult where
  "zeroPipelineResult = \<lparr>plTotalTokensSaved = 0, plApplied = [], plSkipped = []\<rparr>"

definition runOne :: "Processor \<Rightarrow> NormalizedModelRequest \<Rightarrow> JobDescriptor option \<Rightarrow>
    ProcResult \<times> NormalizedModelRequest option \<times> string option" where
  "runOne p req job =
     (case pcRun p (cloneRequest (Some req)) job of
        TotalDeadline \<Rightarrow> (zeroProcResult\<lparr>pcSkippedReason := ''pipeline_timeout''\<rparr>, None, None)
      | HardDeadline \<Rightarrow> (zeroProcResult\<lparr>pcSkippedReason := ''processor_timeout''\<rparr>, None, None)
      | ReturnedError res e \<Rightarrow> (res, None, Some e)
      | Returned res req' \<Rightarrow> (res, Some req', None))"

definition skipProcessor :: "string \<Rightarrow> string \<Rightarrow> PipelineResult \<Rightarrow> PipelineResult" where
  "skipProcessor name reason out = out\<lparr>plSkipped := plSkipped out @ [\<lparr>skName = name, skReason = reason\<rparr>]\<rparr>"

definition pipelineStep :: "JobDescriptor option \<Rightarrow> Processor \<Rightarrow> NormalizedModelRequest \<times> PipelineResult \<Rightarrow>
    NormalizedModelRequest \<times> PipelineResult" where
  "pipelineStep job p st =
     (let (req, out) = st in
      if pcExpiredBefore p then (req, skipProcessor (pcName p) ''pipeline_timeout'' out)
      else
        let (res0, processed, err) = runOne p req job;
            res = (case err of Some e \<Rightarrow> res0\<lparr>pcSkippedReason := e\<rparr> | None \<Rightarrow> res0)
        in if pcSkippedReason res \<noteq> [] then (req, skipProcessor (pcName p) (pcSkippedReason res) out)
           else ((case processed of Some r \<Rightarrow> r | None \<Rightarrow> req),
                 out\<lparr>plTotalTokensSaved := i64 (plTotalTokensSaved out + pcTokensSaved res),
                     plApplied := plApplied out @ [\<lparr>apName = pcName p, apTokensSaved = pcTokensSaved res,
                        apRules = [] @ pcAppliedRules res\<rparr>]\<rparr>))"

definition pipelineRun :: "Processor option list option \<Rightarrow> NormalizedModelRequest \<Rightarrow> JobDescriptor option \<Rightarrow>
    NormalizedModelRequest \<times> PipelineResult" where
  "pipelineRun p req job =
     (case p of None \<Rightarrow> (req, zeroPipelineResult)
      | Some procs \<Rightarrow> if length procs = 0 then (req, zeroPipelineResult)
          else fold (pipelineStep job) (List.map_filter (\<lambda>x. x) procs) (req, zeroPipelineResult))"

text \<open>A processor is applied when it returns without an error and without a reason to skip.\<close>

definition applies :: "JobDescriptor option \<Rightarrow> NormalizedModelRequest \<Rightarrow> Processor \<Rightarrow> NormalizedModelRequest option" where
  "applies job req p =
     (if pcExpiredBefore p then None
      else case pcRun p req job of
        Returned res req' \<Rightarrow> if pcSkippedReason res = [] then Some req' else None
      | ReturnedError res e \<Rightarrow> if e = [] then Some req else None
      | _ \<Rightarrow> None)"

lemma pipelineStep_cases:
  "pipelineStep job p (req, out) =
     (case applies job req p of
        None \<Rightarrow> (req, skipProcessor (pcName p)
          (if pcExpiredBefore p then ''pipeline_timeout'' else case pcRun p req job of
             TotalDeadline \<Rightarrow> ''pipeline_timeout'' | HardDeadline \<Rightarrow> ''processor_timeout''
           | ReturnedError res e \<Rightarrow> e | Returned res r \<Rightarrow> pcSkippedReason res) out)
      | Some req' \<Rightarrow> (req', out\<lparr>
          plTotalTokensSaved := i64 (plTotalTokensSaved out +
            (case pcRun p req job of Returned res r \<Rightarrow> pcTokensSaved res | ReturnedError res e \<Rightarrow> pcTokensSaved res | _ \<Rightarrow> 0)),
          plApplied := plApplied out @ [\<lparr>apName = pcName p,
            apTokensSaved = (case pcRun p req job of Returned res r \<Rightarrow> pcTokensSaved res | ReturnedError res e \<Rightarrow> pcTokensSaved res | _ \<Rightarrow> 0),
            apRules = (case pcRun p req job of Returned res r \<Rightarrow> pcAppliedRules res | ReturnedError res e \<Rightarrow> pcAppliedRules res | _ \<Rightarrow> [])\<rparr>]\<rparr>))"
  by (simp add: pipelineStep_def runOne_def applies_def zeroProcResult_def Let_def split: proc_run.split)

lemma pipeline_totals:
  "plTotalTokensSaved out = i64 (sum_list (map apTokensSaved (plApplied out))) \<Longrightarrow>
   (let out' = snd (fold (pipelineStep job) ps (req, out)) in
    plTotalTokensSaved out' = i64 (sum_list (map apTokensSaved (plApplied out'))) \<and>
    length (plApplied out') + length (plSkipped out') = length (plApplied out) + length (plSkipped out) + length ps)"
proof (induction ps arbitrary: req out)
  case (Cons p ps)
  obtain req' out' where step: "pipelineStep job p (req, out) = (req', out')" by fastforce
  have "plTotalTokensSaved out' = i64 (sum_list (map apTokensSaved (plApplied out')))"
    "length (plApplied out') + length (plSkipped out') = length (plApplied out) + length (plSkipped out) + 1"
    using step Cons.prems by (auto simp: pipelineStep_cases skipProcessor_def i64_plus split: option.splits)
  with Cons.IH [of out' req'] step show ?case by (simp add: Let_def)
qed (simp add: Let_def)

lemma pipeline_request:
  "fst (fold (pipelineStep job) ps (req, out)) =
   fold (\<lambda>p r. case applies job r p of Some r' \<Rightarrow> r' | None \<Rightarrow> r) ps req"
proof (induction ps arbitrary: req out)
  case (Cons p ps)
  then show ?case
    by (cases "applies job req p") (simp_all add: pipelineStep_cases)
qed simp

text \<open>
  The pipeline's report is complete and its effect confined: every processor that is not nil is
  listed once, as applied or as skipped; the total is the sum of what the applied ones saved; and
  the request is what the applied ones made of it, one after the other: one that fails, panics or
  runs out of time leaves no trace in it.
\<close>

lemma pipelineRun_report:
  assumes "pipelineRun (Some procs) req job = (req', out)"
  shows "plTotalTokensSaved out = i64 (sum_list (map apTokensSaved (plApplied out))) \<and>
    length (plApplied out) + length (plSkipped out) = length (List.map_filter (\<lambda>x. x) procs) \<and>
    req' = fold (\<lambda>p r. case applies job r p of Some r' \<Rightarrow> r' | None \<Rightarrow> r) (List.map_filter (\<lambda>x. x) procs) req"
proof (cases "procs = []")
  case True
  with assms show ?thesis
    by (auto simp: pipelineRun_def zeroPipelineResult_def i64_def List.map_filter_def)
next
  case False
  let ?ps = "List.map_filter (\<lambda>x. x) procs"
  from assms False have run: "fold (pipelineStep job) ?ps (req, zeroPipelineResult) = (req', out)"
    by (simp add: pipelineRun_def)
  from pipeline_totals [of zeroPipelineResult job ?ps req] pipeline_request [of job ?ps req zeroPipelineResult]
  show ?thesis unfolding run by (simp add: Let_def zeroPipelineResult_def i64_def)
qed

section \<open>The prompt adapter\<close>

record PromptAdapterMatch =
  pmModelIDs :: "string list"
  pmProviderModelIDs :: "string list"
  pmProfiles :: "string list"

record PromptAdapterRule =
  paName :: string
  paMatch :: PromptAdapterMatch
  paPrefix :: string
  paSuffix :: string

record PromptAdapter =
  paEnabled :: bool
  paModelProfiles :: "(string, string) gomap"
  paRules :: "PromptAdapterRule list"

definition matchesOneOf :: "string \<Rightarrow> string list \<Rightarrow> bool" where
  "matchesOneOf v allowed \<longleftrightarrow> length allowed = 0 \<or> list_ex (\<lambda>c. v = c) allowed"

definition adapterMatches :: "PromptAdapterMatch \<Rightarrow> string \<Rightarrow> string \<Rightarrow> string \<Rightarrow> bool" where
  "adapterMatches m modelID providerModelID profile \<longleftrightarrow>
     matchesOneOf modelID (pmModelIDs m) \<and> matchesOneOf providerModelID (pmProviderModelIDs m) \<and>
     matchesOneOf profile (pmProfiles m)"

definition profileFor :: "PromptAdapter option \<Rightarrow> string \<Rightarrow> string \<Rightarrow> string" where
  "profileFor a modelID providerModelID =
     (case a of None \<Rightarrow> []
      | Some a \<Rightarrow> if length (paModelProfiles a) = 0 then []
          else let profile = TrimSpace (mget0 [] (paModelProfiles a) modelID)
               in if profile \<noteq> [] then profile else TrimSpace (mget0 [] (paModelProfiles a) providerModelID))"

definition systemMessageIndexes :: "Message list \<Rightarrow> nat list" where
  "systemMessageIndexes ms = filter (\<lambda>i. msgRole (ms ! i) = ''system'') [0..<length ms]"

definition editContent :: "nat \<Rightarrow> (string \<Rightarrow> string) \<Rightarrow> Message list \<Rightarrow> Message list" where
  "editContent i f ms = ms[i := (ms ! i)\<lparr>msgContent := f (msgContent (ms ! i))\<rparr>]"

definition applyPromptRule :: "nat list \<Rightarrow> PromptAdapterRule \<Rightarrow> Message list \<Rightarrow> Message list" where
  "applyPromptRule idx r ms =
     (let ms1 = (if paPrefix r \<noteq> [] then editContent (hd idx) (\<lambda>c. paPrefix r @ c) ms else ms)
      in if paSuffix r \<noteq> [] then editContent (last idx) (\<lambda>c. c @ paSuffix r) ms1 else ms1)"

definition ruleTakesPart :: "string \<Rightarrow> string \<Rightarrow> string \<Rightarrow> PromptAdapterRule \<Rightarrow> bool" where
  "ruleTakesPart modelID providerModelID profile r \<longleftrightarrow>
     adapterMatches (paMatch r) modelID providerModelID profile \<and>
     \<not> (TrimSpace (paPrefix r) = [] \<and> TrimSpace (paSuffix r) = [])"

text \<open>The adapted request with the names of the rules applied, or none.\<close>

definition promptApply :: "PromptAdapter option \<Rightarrow> NormalizedModelRequest option \<Rightarrow> string \<Rightarrow> string \<Rightarrow>
    (NormalizedModelRequest \<times> string list) option" where
  "promptApply a req modelID providerModelID =
     (case (a, req) of
        (Some pa, Some r) \<Rightarrow>
          if \<not> paEnabled pa \<or> length (paRules pa) = 0 then None
          else
            let idx = systemMessageIndexes (nrMessages r) in
            if length idx = 0 then None
            else
              let profile = profileFor a modelID providerModelID;
                  rules = filter (ruleTakesPart modelID providerModelID profile) (paRules pa)
              in if rules = [] then None
                 else Some ((cloneRequest req)\<lparr>nrMessages := fold (applyPromptRule idx) rules (nrMessages r)\<rparr>,
                            map paName rules)
      | _ \<Rightarrow> None)"

text \<open>
  What adapting may do: the roles and the messages of other roles stay, and a system message only
  gains text before and after it.
\<close>

definition onlyWraps :: "nat list \<Rightarrow> Message list \<Rightarrow> Message list \<Rightarrow> bool" where
  "onlyWraps idx ms ms' \<longleftrightarrow> map msgRole ms' = map msgRole ms \<and> (\<forall>j. j \<notin> set idx \<longrightarrow> ms' ! j = ms ! j) \<and>
     (\<forall>j < length ms. \<exists>a b. msgContent (ms' ! j) = a @ msgContent (ms ! j) @ b)"

lemma onlyWraps_refl: "onlyWraps idx ms ms"
proof -
  have "\<exists>a b. c = a @ c @ b" for c :: string
    by (intro exI [of _ "[]"]) simp
  then show ?thesis by (simp add: onlyWraps_def)
qed

lemma onlyWraps_trans:
  assumes 1: "onlyWraps idx a b" and 2: "onlyWraps idx b c"
  shows "onlyWraps idx a c"
proof -
  have len: "length b = length a" using 1 by (metis onlyWraps_def length_map)
  have "\<exists>u v. msgContent (c ! j) = u @ msgContent (a ! j) @ v" if "j < length a" for j
  proof -
    from 1 2 that len obtain u v u' v' where "msgContent (b ! j) = u @ msgContent (a ! j) @ v"
      "msgContent (c ! j) = u' @ msgContent (b ! j) @ v'" unfolding onlyWraps_def by metis
    then have "msgContent (c ! j) = (u' @ u) @ msgContent (a ! j) @ (v @ v')" by simp
    then show ?thesis by blast
  qed
  with 1 2 show ?thesis by (simp add: onlyWraps_def)
qed

lemma editContent_wraps:
  assumes i: "i \<in> set idx" "i < length ms" and f: "\<And>c. \<exists>a b. f c = a @ c @ b"
  shows "onlyWraps idx ms (editContent i f ms)"
proof -
  have role: "map msgRole (editContent i f ms) = map msgRole ms"
    using i(2) by (simp add: editContent_def map_update list_update_same_conv)
  have other: "editContent i f ms ! j = ms ! j" if "j \<noteq> i" for j
    using that by (simp add: editContent_def)
  have same: "editContent i f ms ! i = (ms ! i)\<lparr>msgContent := f (msgContent (ms ! i))\<rparr>"
    using i(2) by (simp add: editContent_def)
  have "\<exists>a b. msgContent (editContent i f ms ! j) = a @ msgContent (ms ! j) @ b" for j
  proof (cases "j = i")
    case True
    with f [of "msgContent (ms ! i)"] show ?thesis by (simp add: same)
  next
    case False
    with onlyWraps_refl [of idx ms] show ?thesis
      by (auto simp: other intro: exI [of _ "[]"])
  qed
  moreover have "editContent i f ms ! j = ms ! j" if "j \<notin> set idx" for j
    using that i(1) by (intro other) auto
  ultimately show ?thesis using role unfolding onlyWraps_def by blast
qed

lemma applyPromptRule_wraps:
  assumes "idx \<noteq> []" and "set idx \<subseteq> {..<length ms}"
  shows "onlyWraps idx ms (applyPromptRule idx r ms)"
proof -
  have idx: "hd idx \<in> set idx" "hd idx < length ms" "last idx \<in> set idx" "last idx < length ms"
    using assms hd_in_set [OF assms(1)] last_in_set [OF assms(1)] by blast+
  let ?ms = "if paPrefix r \<noteq> [] then editContent (hd idx) (\<lambda>c. paPrefix r @ c) ms else ms"
  have pre: "\<exists>a b. paPrefix r @ c = a @ c @ b" and suf: "\<exists>a b. c @ paSuffix r = a @ c @ b" for c
    by (intro exI [of _ "paPrefix r"] exI [of _ "[]"]; simp) (intro exI [of _ "[]"] exI [of _ "paSuffix r"]; simp)
  have 1: "onlyWraps idx ms ?ms"
    using editContent_wraps [OF idx(1,2) pre] onlyWraps_refl by simp
  then have "length ?ms = length ms" by (metis onlyWraps_def length_map)
  with idx(4) have "last idx < length ?ms" by simp
  from editContent_wraps [OF idx(3) this suf]
  have "onlyWraps idx ?ms (applyPromptRule idx r ms)"
    using onlyWraps_refl by (simp add: applyPromptRule_def Let_def)
  with 1 show ?thesis by (rule onlyWraps_trans)
qed

lemma fold_applyPromptRule_wraps:
  assumes "idx \<noteq> []"
  shows "set idx \<subseteq> {..<length ms} \<Longrightarrow> onlyWraps idx ms (fold (applyPromptRule idx) rs ms)"
proof (induction rs arbitrary: ms)
  case (Cons r rs)
  have step: "onlyWraps idx ms (applyPromptRule idx r ms)"
    by (rule applyPromptRule_wraps [OF assms Cons.prems])
  then have "length (applyPromptRule idx r ms) = length ms" by (metis onlyWraps_def length_map)
  with Cons.prems have "set idx \<subseteq> {..<length (applyPromptRule idx r ms)}" by simp
  from onlyWraps_trans [OF step Cons.IH [OF this]] show ?case by simp
qed (simp add: onlyWraps_refl)

text \<open>
  The prompt adapter changes nothing of a request but its system messages, to which it only adds
  text before the first and after the last.
\<close>

lemma promptApply_confined:
  assumes "promptApply a (Some r) m p = Some (r', names)"
  shows "r' = r\<lparr>nrMessages := nrMessages r'\<rparr> \<and>
    onlyWraps (systemMessageIndexes (nrMessages r)) (nrMessages r) (nrMessages r') \<and> names \<noteq> []"
proof -
  let ?idx = "systemMessageIndexes (nrMessages r)"
  from assms obtain pa rules where r': "r' = r\<lparr>nrMessages := fold (applyPromptRule ?idx) rules (nrMessages r)\<rparr>"
      and names: "names = map paName rules" "rules \<noteq> []" and idx: "?idx \<noteq> []"
    by (auto simp: promptApply_def Let_def split: option.splits if_splits)
  have "onlyWraps ?idx (nrMessages r) (nrMessages r')"
    unfolding r' using fold_applyPromptRule_wraps [OF idx, of "nrMessages r" rules]
    by (auto simp: systemMessageIndexes_def)
  with names show ?thesis by (simp add: r')
qed

end
