(* ===== verification/Registry.thy ===== *)
theory Registry
  imports GoPrelude
begin

text \<open>
  Package \<open>internal/registry\<close>: the in-memory model and provider registry. A \<open>Definition\<close>
  is validated into an immutable \<open>Snapshot\<close> (\<open>NewSnapshot\<close>); a \<open>Store\<close> holds the active
  snapshot and replaces it on \<open>Reload\<close>. \<open>NewSnapshot_ok_iff\<close> says which definitions are
  accepted, \<open>snapshot_inv\<close> is what every accepted snapshot satisfies, and the query lemmas
  say what each lookup returns in terms of the snapshot's models.
\<close>

section \<open>Data\<close>

type_synonym Tier = string
abbreviation TierCheap :: Tier where "TierCheap \<equiv> ''cheap''"
abbreviation TierBalanced :: Tier where "TierBalanced \<equiv> ''balanced''"
abbreviation TierPremium :: Tier where "TierPremium \<equiv> ''premium''"

type_synonym ProviderStatus = string
abbreviation ProviderStatusActive :: ProviderStatus where "ProviderStatusActive \<equiv> ''active''"
abbreviation ProviderStatusDisabled :: ProviderStatus where "ProviderStatusDisabled \<equiv> ''disabled''"

record Capabilities =
  Chat :: bool
  Streaming :: bool
  ToolCalls :: bool
  JSONSchema :: bool
  Vision :: bool
  LongContext :: bool

definition noCapabilities :: Capabilities where
  "noCapabilities = \<lparr>Chat = False, Streaming = False, ToolCalls = False, JSONSchema = False,
                     Vision = False, LongContext = False\<rparr>"

definition Satisfies :: "Capabilities \<Rightarrow> Capabilities \<Rightarrow> bool" where
  "Satisfies c required =
     (if Chat required \<and> \<not> Chat c then False
      else if Streaming required \<and> \<not> Streaming c then False
      else if ToolCalls required \<and> \<not> ToolCalls c then False
      else if JSONSchema required \<and> \<not> JSONSchema c then False
      else if Vision required \<and> \<not> Vision c then False
      else if LongContext required \<and> \<not> LongContext c then False
      else True)"

definition Merge :: "Capabilities \<Rightarrow> Capabilities \<Rightarrow> Capabilities" where
  "Merge c other =
     \<lparr>Chat = Chat c \<or> Chat other,
      Streaming = Streaming c \<or> Streaming other,
      ToolCalls = ToolCalls c \<or> ToolCalls other,
      JSONSchema = JSONSchema c \<or> JSONSchema other,
      Vision = Vision c \<or> Vision other,
      LongContext = LongContext c \<or> LongContext other\<rparr>"

record CostMetadata =
  Currency :: string
  InputMicrosPerMillionToken :: int
  OutputMicrosPerMillionToken :: int

definition Available :: "CostMetadata \<Rightarrow> bool" where
  "Available c \<longleftrightarrow> Currency c \<noteq> [] \<and>
     (InputMicrosPerMillionToken c > 0 \<or> OutputMicrosPerMillionToken c > 0)"

record LatencyMetadata =
  P50FirstTokenMS :: int
  P95FirstTokenMS :: int

record Provider =
  pID :: string
  pName :: string
  pStatus :: ProviderStatus
  pBaseURL :: string
  pAuthSecretRef :: string

record Model =
  mID :: string
  mProviderID :: string
  mProviderModelID :: string
  mTier :: Tier
  mCapabilities :: Capabilities
  mCost :: CostMetadata
  mContextWindowTokens :: int
  mEnabled :: bool
  mLatency :: LatencyMetadata
  mQualityScores :: "(string, float64) gomap"
  mStrengths :: "string list"
  mWeaknesses :: "string list"

text \<open>The zero value \<open>Model{}\<close>.\<close>

definition zeroModel :: Model where
  "zeroModel = \<lparr>mID = [], mProviderID = [], mProviderModelID = [], mTier = [],
     mCapabilities = noCapabilities,
     mCost = \<lparr>Currency = [], InputMicrosPerMillionToken = 0, OutputMicrosPerMillionToken = 0\<rparr>,
     mContextWindowTokens = 0, mEnabled = False,
     mLatency = \<lparr>P50FirstTokenMS = 0, P95FirstTokenMS = 0\<rparr>,
     mQualityScores = [], mStrengths = [], mWeaknesses = []\<rparr>"

text \<open>Times are integers: nanoseconds since Go's zero time.\<close>

type_synonym gotime = int

record Definition =
  RegistryVersion :: string
  CreatedAt :: gotime
  Providers :: "Provider list"
  Models :: "Model list"

record Snapshot =
  registryVersion :: string
  createdAt :: gotime
  providers :: "(string, Provider) gomap"
  models :: "(string, Model) gomap"
  modelsByProvider :: "(string, string list) gomap"
  providerModelIDs :: "(string, string) gomap"

datatype snapshot_problem =
    VersionRequired | ProvidersRequired | ModelsRequired
  | ProviderIDRequired | DuplicateProvider string
  | ModelIDRequired | DuplicateModel string | MissingProviderID string
  | MissingProvider string string | MissingProviderModelID string
  | NegativeContextWindow string | ProviderModelUsed string string string string

datatype registry_error = ErrNoActiveSnapshot | ErrInvalidSnapshot snapshot_problem

section \<open>Building a snapshot\<close>

definition cloneModel :: "Model \<Rightarrow> Model" where
  "cloneModel m = m\<lparr>mStrengths := [] @ mStrengths m, mWeaknesses := [] @ mWeaknesses m,
                     mQualityScores := map (\<lambda>(k, v). (k, v)) (mQualityScores m)\<rparr>"

lemma cloneModel_id [simp, clone_simps]: "cloneModel m = m"
  by (simp add: cloneModel_def)

definition providerModelKey :: "string \<Rightarrow> string \<Rightarrow> string" where
  "providerModelKey providerID providerModelID = providerID @ [CHR 0x00] @ providerModelID"

fun addProviders :: "Provider list \<Rightarrow> (string, Provider) gomap
    \<Rightarrow> registry_error + (string, Provider) gomap" where
  "addProviders [] ps = Inr ps"
| "addProviders (p # rest) ps =
     (if TrimSpace (pID p) = [] then Inl (ErrInvalidSnapshot ProviderIDRequired)
      else if mget ps (pID p) \<noteq> None then Inl (ErrInvalidSnapshot (DuplicateProvider (pID p)))
      else addProviders rest (mput (pID p) p ps))"

definition checkModel :: "Snapshot \<Rightarrow> Model \<Rightarrow> snapshot_problem option" where
  "checkModel s m =
     (let key = providerModelKey (mProviderID m) (mProviderModelID m);
          existing = mget0 [] (providerModelIDs s) key in
      if TrimSpace (mID m) = [] then Some ModelIDRequired
      else if mget (models s) (mID m) \<noteq> None then Some (DuplicateModel (mID m))
      else if TrimSpace (mProviderID m) = [] then Some (MissingProviderID (mID m))
      else if mget (providers s) (mProviderID m) = None
           then Some (MissingProvider (mID m) (mProviderID m))
      else if TrimSpace (mProviderModelID m) = [] then Some (MissingProviderModelID (mID m))
      else if mContextWindowTokens m < 0 then Some (NegativeContextWindow (mID m))
      else if existing \<noteq> []
           then Some (ProviderModelUsed (mProviderID m) (mProviderModelID m) existing (mID m))
      else None)"

definition addModel :: "Model \<Rightarrow> Snapshot \<Rightarrow> Snapshot" where
  "addModel m s = s\<lparr>
     models := mput (mID m) (cloneModel m) (models s),
     modelsByProvider :=
       mput (mProviderID m) (mget0 [] (modelsByProvider s) (mProviderID m) @ [mID m])
            (modelsByProvider s),
     providerModelIDs :=
       mput (providerModelKey (mProviderID m) (mProviderModelID m)) (mID m) (providerModelIDs s)\<rparr>"

fun addModels :: "Model list \<Rightarrow> Snapshot \<Rightarrow> registry_error + Snapshot" where
  "addModels [] s = Inr s"
| "addModels (m # rest) s =
     (case checkModel s m of
        Some e \<Rightarrow> Inl (ErrInvalidSnapshot e)
      | None \<Rightarrow> addModels rest (addModel m s))"

definition emptySnapshot :: "string \<Rightarrow> gotime \<Rightarrow> (string, Provider) gomap \<Rightarrow> Snapshot" where
  "emptySnapshot v t ps = \<lparr>registryVersion = v, createdAt = t, providers = ps, models = [],
     modelsByProvider = [], providerModelIDs = []\<rparr>"

definition sortByProvider :: "Snapshot \<Rightarrow> Snapshot" where
  "sortByProvider s = s\<lparr>modelsByProvider := map (\<lambda>(p, ids). (p, sort ids)) (modelsByProvider s)\<rparr>"

text \<open>\<open>now\<close> is the clock, read when the definition has no creation time.\<close>

definition NewSnapshot :: "gotime \<Rightarrow> Definition \<Rightarrow> registry_error + Snapshot" where
  "NewSnapshot now def =
     (if TrimSpace (RegistryVersion def) = [] then Inl (ErrInvalidSnapshot VersionRequired)
      else if Providers def = [] then Inl (ErrInvalidSnapshot ProvidersRequired)
      else if Models def = [] then Inl (ErrInvalidSnapshot ModelsRequired)
      else
        let created = (if CreatedAt def = 0 then now else CreatedAt def) in
        (case addProviders (Providers def) [] of
           Inl e \<Rightarrow> Inl e
         | Inr ps \<Rightarrow>
             (case addModels (Models def) (emptySnapshot (RegistryVersion def) created ps) of
                Inl e \<Rightarrow> Inl e
              | Inr s \<Rightarrow> Inr (sortByProvider s))))"

section \<open>Queries\<close>

text \<open>A \<open>*Snapshot\<close> may be nil: \<open>None\<close>. A pair \<open>(value, ok)\<close> is an option.\<close>

definition snapRegistryVersion :: "Snapshot option \<Rightarrow> string" where
  "snapRegistryVersion s = (case s of None \<Rightarrow> [] | Some s \<Rightarrow> registryVersion s)"

definition snapModel :: "Snapshot option \<Rightarrow> string \<Rightarrow> Model option" where
  "snapModel s mid = (case s of None \<Rightarrow> None | Some s \<Rightarrow> map_option cloneModel (mget (models s) mid))"

definition snapProvider :: "Snapshot option \<Rightarrow> string \<Rightarrow> Provider option" where
  "snapProvider s pid = (case s of None \<Rightarrow> None | Some s \<Rightarrow> mget (providers s) pid)"

definition ModelByProviderModelID :: "Snapshot option \<Rightarrow> string \<Rightarrow> string \<Rightarrow> Model option" where
  "ModelByProviderModelID s providerID providerModelID =
     (case s of None \<Rightarrow> None
      | Some sn \<Rightarrow>
          let mid = mget0 [] (providerModelIDs sn) (providerModelKey providerID providerModelID)
          in if mid = [] then None else snapModel s mid)"

definition ModelsForProvider :: "Snapshot option \<Rightarrow> string \<Rightarrow> Model list" where
  "ModelsForProvider s providerID =
     (case s of None \<Rightarrow> []
      | Some sn \<Rightarrow> map (\<lambda>i. cloneModel (mget0 zeroModel (models sn) i))
                      (mget0 [] (modelsByProvider sn) providerID))"

definition modelSelectable :: "Snapshot \<Rightarrow> Model \<Rightarrow> bool" where
  "modelSelectable s m =
     (case mget (providers s) (mProviderID m) of
        None \<Rightarrow> False
      | Some p \<Rightarrow> pStatus p = ProviderStatusActive \<and> mEnabled m)"

definition ModelSelectable :: "Snapshot option \<Rightarrow> Model \<Rightarrow> bool" where
  "ModelSelectable s m = (case s of None \<Rightarrow> False | Some s \<Rightarrow> modelSelectable s m)"

definition EnabledModelsWithCapabilities :: "Snapshot option \<Rightarrow> Capabilities \<Rightarrow> Model list" where
  "EnabledModelsWithCapabilities s required =
     (case s of None \<Rightarrow> []
      | Some sn \<Rightarrow>
          filter (\<lambda>m. modelSelectable sn m \<and> Satisfies (mCapabilities m) required)
            (map (\<lambda>i. mget0 zeroModel (models sn) i) (sort (mkeys (models sn)))))"

section \<open>The store\<close>

record Store =
  storeActive :: "Snapshot option"

definition NewStore :: "Snapshot option \<Rightarrow> registry_error + Store" where
  "NewStore initial = (case initial of None \<Rightarrow> Inl ErrNoActiveSnapshot
                       | Some s \<Rightarrow> Inr \<lparr>storeActive = Some s\<rparr>)"

definition storeGet :: "Store option \<Rightarrow> registry_error + Snapshot" where
  "storeGet st = (case st of None \<Rightarrow> Inl ErrNoActiveSnapshot
     | Some st \<Rightarrow> (case storeActive st of None \<Rightarrow> Inl ErrNoActiveSnapshot | Some s \<Rightarrow> Inr s))"

text \<open>\<open>Reload\<close> returns the new store beside its result.\<close>

definition Reload :: "gotime \<Rightarrow> Store option \<Rightarrow> Definition \<Rightarrow> (registry_error + Snapshot) \<times> Store option" where
  "Reload now st candidate =
     (case st of None \<Rightarrow> (Inl ErrNoActiveSnapshot, None)
      | Some st' \<Rightarrow>
          (case NewSnapshot now candidate of
             Inl e \<Rightarrow> (Inl e, st)
           | Inr snap \<Rightarrow> (Inr snap, Some (st'\<lparr>storeActive := Some snap\<rparr>))))"

definition overrideModel :: "(Tier, string) gomap \<Rightarrow> Model \<Rightarrow> Model" where
  "overrideModel overrides m =
     (case mget overrides (mTier m) of
        None \<Rightarrow> m
      | Some slug \<Rightarrow> if slug \<noteq> [] then m\<lparr>mProviderModelID := slug\<rparr> else m)"

definition ApplyProviderModelOverrides :: "Definition \<Rightarrow> (Tier, string) gomap \<Rightarrow> Definition" where
  "ApplyProviderModelOverrides def overrides =
     def\<lparr>Models := map (overrideModel overrides) (Models def)\<rparr>"

section \<open>Capabilities\<close>

lemma Satisfies_iff:
  "Satisfies c r \<longleftrightarrow> (Chat r \<longrightarrow> Chat c) \<and> (Streaming r \<longrightarrow> Streaming c) \<and>
     (ToolCalls r \<longrightarrow> ToolCalls c) \<and> (JSONSchema r \<longrightarrow> JSONSchema c) \<and>
     (Vision r \<longrightarrow> Vision c) \<and> (LongContext r \<longrightarrow> LongContext c)"
  by (auto simp: Satisfies_def)

lemma Satisfies_Merge: "Satisfies c (Merge a b) \<longleftrightarrow> Satisfies c a \<and> Satisfies c b"
  by (auto simp: Satisfies_iff Merge_def)

section \<open>The snapshot invariant\<close>

definition modelKey :: "Model \<Rightarrow> string" where
  "modelKey m = providerModelKey (mProviderID m) (mProviderModelID m)"

definition model_ok :: "Snapshot \<Rightarrow> string \<Rightarrow> Model \<Rightarrow> bool" where
  "model_ok s i m \<longleftrightarrow> mID m = i \<and> TrimSpace i \<noteq> [] \<and> TrimSpace (mProviderID m) \<noteq> [] \<and>
     mget (providers s) (mProviderID m) \<noteq> None \<and> TrimSpace (mProviderModelID m) \<noteq> [] \<and>
     0 \<le> mContextWindowTokens m"

definition provider_ids :: "Snapshot \<Rightarrow> string \<Rightarrow> string set" where
  "provider_ids s p = {i. \<exists>m. mget (models s) i = Some m \<and> mProviderID m = p}"

definition snapshot_inv :: "Snapshot \<Rightarrow> bool" where
  "snapshot_inv s \<longleftrightarrow>
     mwf (providers s) \<and> mwf (models s) \<and>
     (\<forall>i p. mget (providers s) i = Some p \<longrightarrow> pID p = i \<and> TrimSpace i \<noteq> []) \<and>
     (\<forall>i m. mget (models s) i = Some m \<longrightarrow> model_ok s i m) \<and>
     (\<forall>k i. mget (providerModelIDs s) k = Some i \<longleftrightarrow>
            (\<exists>m. mget (models s) i = Some m \<and> modelKey m = k)) \<and>
     (\<forall>p. distinct (mget0 [] (modelsByProvider s) p) \<and>
          set (mget0 [] (modelsByProvider s) p) = provider_ids s p)"

lemma snapshot_inv_model: "snapshot_inv s \<Longrightarrow> mget (models s) i = Some m \<Longrightarrow> model_ok s i m"
  by (simp add: snapshot_inv_def)

lemma mget0_put [simp]: "mget0 z (mput k v m) k' = (if k' = k then v else mget0 z m k')"
  by (simp add: mget0_def)

definition providers_ok :: "(string, Provider) gomap \<Rightarrow> bool" where
  "providers_ok ps \<longleftrightarrow> mwf ps \<and> (\<forall>i p. mget ps i = Some p \<longrightarrow> pID p = i \<and> TrimSpace i \<noteq> [])"

lemma providers_ok_put: "providers_ok ps \<Longrightarrow> TrimSpace (pID p) \<noteq> [] \<Longrightarrow> providers_ok (mput (pID p) p ps)"
  by (auto simp: providers_ok_def)

lemma addProviders_inv: "addProviders xs ps = Inr qs \<Longrightarrow> providers_ok ps \<Longrightarrow> providers_ok qs"
proof (induction xs arbitrary: ps)
  case (Cons p xs)
  then show ?case by (auto split: if_splits intro: providers_ok_put)
qed simp

lemma mget_map_val: "mget (map (\<lambda>(k, v). (k, f v)) m) k = map_option f (mget m k)"
  by (induction m) (auto simp: mget_def)

lemma addModel_inv:
  assumes inv: "snapshot_inv s" and ok: "checkModel s m = None"
  shows "snapshot_inv (addModel m s)"
proof -
  let ?k = "modelKey m"
  from ok have fresh: "mget (models s) (mID m) = None" and name: "TrimSpace (mID m) \<noteq> []"
    and prov: "TrimSpace (mProviderID m) \<noteq> []" "mget (providers s) (mProviderID m) \<noteq> None"
    and pm: "TrimSpace (mProviderModelID m) \<noteq> []" "0 \<le> mContextWindowTokens m"
    and ex: "mget0 [] (providerModelIDs s) ?k = []"
    by (auto simp: checkModel_def Let_def modelKey_def split: if_splits)
  have keyfree: "mget (providerModelIDs s) ?k = None"
  proof (cases "mget (providerModelIDs s) ?k")
    case (Some i)
    then obtain m' where "mget (models s) i = Some m'"
      using inv by (auto simp: snapshot_inv_def)
    then have "TrimSpace i \<noteq> []"
      using snapshot_inv_model [OF inv] by (simp add: model_ok_def)
    with Some ex show ?thesis by (auto simp: mget0_def)
  qed
  have nokey: "modelKey m' \<noteq> ?k" if "mget (models s) i = Some m'" for i m'
  proof
    assume "modelKey m' = ?k"
    with that have "mget (providerModelIDs s) ?k = Some i"
      using inv unfolding snapshot_inv_def by blast
    with keyfree show False by simp
  qed
  have ids: "provider_ids (addModel m s) p =
      (if p = mProviderID m then insert (mID m) (provider_ids s p) else provider_ids s p)" for p
    using fresh by (auto simp: provider_ids_def addModel_def)
  have notin: "mID m \<notin> provider_ids s p" for p
    using fresh by (simp add: provider_ids_def)
  show ?thesis
    unfolding snapshot_inv_def
  proof (intro conjI allI impI)
    fix k i
    show "mget (providerModelIDs (addModel m s)) k = Some i \<longleftrightarrow>
        (\<exists>m'. mget (models (addModel m s)) i = Some m' \<and> modelKey m' = k)"
    proof (cases "k = ?k")
      case True
      then show ?thesis
        using nokey by (auto simp: addModel_def modelKey_def)
    next
      case False
      then have "mget (providerModelIDs (addModel m s)) k = mget (providerModelIDs s) k"
        by (simp add: addModel_def modelKey_def)
      with False fresh inv show ?thesis
        by (auto simp: addModel_def snapshot_inv_def modelKey_def)
    qed
  next
    fix p
    show "distinct (mget0 [] (modelsByProvider (addModel m s)) p)"
      and "set (mget0 [] (modelsByProvider (addModel m s)) p) = provider_ids (addModel m s) p"
      using inv notin ids by (auto simp: addModel_def snapshot_inv_def)
  qed (use inv name prov pm in \<open>auto simp: addModel_def snapshot_inv_def model_ok_def split: if_splits\<close>)
qed

lemma addModels_inv: "addModels ms s = Inr t \<Longrightarrow> snapshot_inv s \<Longrightarrow> snapshot_inv t"
  by (induction ms s rule: addModels.induct) (auto split: option.splits intro: addModel_inv)

lemma sortByProvider_get:
  "mget0 [] (modelsByProvider (sortByProvider s)) p = sort (mget0 [] (modelsByProvider s) p)"
  by (simp add: sortByProvider_def mget0_def mget_map_val split: option.split)

lemma sortByProvider_fields [simp]:
  "models (sortByProvider s) = models s" "providers (sortByProvider s) = providers s"
  "providerModelIDs (sortByProvider s) = providerModelIDs s"
  "registryVersion (sortByProvider s) = registryVersion s"
  "createdAt (sortByProvider s) = createdAt s"
  by (simp_all add: sortByProvider_def)

lemma sortByProvider_inv: "snapshot_inv s \<Longrightarrow> snapshot_inv (sortByProvider s)"
  by (simp add: snapshot_inv_def sortByProvider_get model_ok_def provider_ids_def)

lemma emptySnapshot_inv:
  assumes "providers_ok ps"
  shows "snapshot_inv (emptySnapshot v t ps)"
  using assms by (simp add: snapshot_inv_def providers_ok_def emptySnapshot_def provider_ids_def mget0_def)

lemma NewSnapshot_cases:
  assumes "NewSnapshot now def = Inr s"
  obtains ps t where "addProviders (Providers def) [] = Inr ps"
    and "addModels (Models def)
          (emptySnapshot (RegistryVersion def) (if CreatedAt def = 0 then now else CreatedAt def) ps) = Inr t"
    and "s = sortByProvider t" and "TrimSpace (RegistryVersion def) \<noteq> []"
    and "Providers def \<noteq> []" and "Models def \<noteq> []"
  using assms by (auto simp: NewSnapshot_def Let_def split: if_splits sum.splits)

lemma NewSnapshot_inv: "NewSnapshot now def = Inr s \<Longrightarrow> snapshot_inv s"
proof (elim NewSnapshot_cases)
  fix ps t
  assume "addProviders (Providers def) [] = Inr ps"
    and t: "addModels (Models def) (emptySnapshot (RegistryVersion def)
      (if CreatedAt def = 0 then now else CreatedAt def) ps) = Inr t"
    and s: "s = sortByProvider t"
  then have "snapshot_inv (emptySnapshot v u ps)" for v u
    using addProviders_inv [of "Providers def" "[]" ps]
    by (intro emptySnapshot_inv) (simp add: providers_ok_def)
  with t s show "snapshot_inv s"
    by (auto intro: sortByProvider_inv addModels_inv)
qed

section \<open>Which definitions are accepted\<close>

lemma addProviders_get:
  "addProviders xs ps = Inr qs \<Longrightarrow>
   mget qs i = Some p \<longleftrightarrow> mget ps i = Some p \<or> p \<in> set xs \<and> pID p = i"
proof (induction xs arbitrary: ps)
  case (Cons x xs)
  then have "mget ps (pID x) = None" and
    rec: "addProviders xs (mput (pID x) x ps) = Inr qs"
    by (auto split: if_splits)
  with Cons.IH [OF rec] show ?case by auto
qed simp

lemma addProviders_ok:
  "(\<exists>qs. addProviders xs ps = Inr qs) \<longleftrightarrow>
   (\<forall>p\<in>set xs. TrimSpace (pID p) \<noteq> [] \<and> mget ps (pID p) = None) \<and> distinct (map pID xs)"
proof (induction xs arbitrary: ps)
  case (Cons x xs)
  then show ?case by (auto simp: image_iff)
qed simp

definition model_valid :: "Snapshot \<Rightarrow> Model \<Rightarrow> bool" where
  "model_valid s m \<longleftrightarrow> TrimSpace (mID m) \<noteq> [] \<and> TrimSpace (mProviderID m) \<noteq> [] \<and>
     mget (providers s) (mProviderID m) \<noteq> None \<and> TrimSpace (mProviderModelID m) \<noteq> [] \<and>
     0 \<le> mContextWindowTokens m"

lemma key_taken_iff:
  "snapshot_inv s \<Longrightarrow> mget0 [] (providerModelIDs s) k = [] \<longleftrightarrow> mget (providerModelIDs s) k = None"
proof (cases "mget (providerModelIDs s) k")
  case (Some i)
  assume inv: "snapshot_inv s"
  with Some obtain m where "mget (models s) i = Some m"
    by (auto simp: snapshot_inv_def)
  then have "TrimSpace i \<noteq> []"
    using snapshot_inv_model [OF inv] by (simp add: model_ok_def)
  with Some show ?thesis by (auto simp: mget0_def)
qed (simp add: mget0_def)

lemma checkModel_None:
  "snapshot_inv s \<Longrightarrow> checkModel s m = None \<longleftrightarrow>
   model_valid s m \<and> mget (models s) (mID m) = None \<and> mget (providerModelIDs s) (modelKey m) = None"
  by (auto simp: checkModel_def Let_def model_valid_def modelKey_def key_taken_iff)

lemma addModel_fields:
  "providers (addModel m s) = providers s"
  "registryVersion (addModel m s) = registryVersion s"
  "mget (models (addModel m s)) i = (if i = mID m then Some m else mget (models s) i)"
  "mget (providerModelIDs (addModel m s)) k =
     (if k = modelKey m then Some (mID m) else mget (providerModelIDs s) k)"
  by (auto simp: addModel_def modelKey_def)

lemma model_valid_addModel [simp]: "model_valid (addModel m s) = model_valid s"
  by (simp add: fun_eq_iff model_valid_def addModel_fields)

lemma addModels_ok:
  "snapshot_inv s \<Longrightarrow> (\<exists>t. addModels ms s = Inr t) \<longleftrightarrow>
   (\<forall>m\<in>set ms. model_valid s m \<and> mget (models s) (mID m) = None \<and>
      mget (providerModelIDs s) (modelKey m) = None) \<and>
   distinct (map mID ms) \<and> distinct (map modelKey ms)"
proof (induction ms arbitrary: s)
  case (Cons m ms)
  show ?case
  proof (cases "checkModel s m")
    case None
    with Cons.prems have inv: "snapshot_inv (addModel m s)"
      by (rule addModel_inv)
    from None show ?thesis
      using checkModel_None [OF Cons.prems, of m] Cons.IH [OF inv]
      by (auto simp: addModel_fields image_iff split: if_splits)
  next
    case (Some e)
    then show ?thesis
      using checkModel_None [OF Cons.prems, of m] by auto
  qed
qed simp

lemma addModels_get:
  "addModels ms s = Inr t \<Longrightarrow> snapshot_inv s \<Longrightarrow>
   mget (models t) i = Some m \<longleftrightarrow> mget (models s) i = Some m \<or> m \<in> set ms \<and> mID m = i"
proof (induction ms arbitrary: s)
  case (Cons x ms)
  from Cons.prems have ok: "checkModel s x = None" and rec: "addModels ms (addModel x s) = Inr t"
    by (auto split: option.splits)
  have inv: "snapshot_inv (addModel x s)"
    using Cons.prems(2) ok by (rule addModel_inv)
  from ok have "mget (models s) (mID x) = None"
    using checkModel_None [OF Cons.prems(2)] by simp
  with Cons.IH [OF rec inv] show ?case by (auto simp: addModel_fields)
qed simp

lemma addModels_providers: "addModels ms s = Inr t \<Longrightarrow> providers t = providers s"
  by (induction ms s rule: addModels.induct) (auto simp: addModel_fields split: option.splits)

lemma addModels_version: "addModels ms s = Inr t \<Longrightarrow> registryVersion t = registryVersion s"
  by (induction ms s rule: addModels.induct) (auto simp: addModel_fields split: option.splits)

lemma NewSnapshot_providers:
  "NewSnapshot now def = Inr s \<Longrightarrow> mget (providers s) i = Some p \<longleftrightarrow> p \<in> set (Providers def) \<and> pID p = i"
proof (elim NewSnapshot_cases)
  fix ps t
  assume "addProviders (Providers def) [] = Inr ps" and "s = sortByProvider t"
    and "addModels (Models def) (emptySnapshot (RegistryVersion def)
      (if CreatedAt def = 0 then now else CreatedAt def) ps) = Inr t"
  note ps = this(1) and st = this(2) and t = this(3)
  have "providers s = ps"
    using addModels_providers [OF t] st by (simp add: emptySnapshot_def)
  then show ?thesis
    using addProviders_get [OF ps, of i p] by simp
qed

lemma NewSnapshot_models:
  assumes "NewSnapshot now def = Inr s"
  shows "mget (models s) i = Some m \<longleftrightarrow> m \<in> set (Models def) \<and> mID m = i"
  using assms
proof (elim NewSnapshot_cases)
  fix ps t
  assume ps: "addProviders (Providers def) [] = Inr ps" and s: "s = sortByProvider t"
    and t: "addModels (Models def) (emptySnapshot (RegistryVersion def)
      (if CreatedAt def = 0 then now else CreatedAt def) ps) = Inr t"
  have "providers_ok ps"
    using addProviders_inv [OF ps] by (simp add: providers_ok_def)
  then have "snapshot_inv (emptySnapshot v u ps)" for v u
    by (rule emptySnapshot_inv)
  from addModels_get [OF t this, of i m] s show ?thesis by (simp add: emptySnapshot_def)
qed

lemma NewSnapshot_version: "NewSnapshot now def = Inr s \<Longrightarrow> registryVersion s = RegistryVersion def"
  by (elim NewSnapshot_cases) (auto dest: addModels_version simp: emptySnapshot_def)

text \<open>A valid definition, read off the data alone.\<close>

definition valid_definition :: "Definition \<Rightarrow> bool" where
  "valid_definition def \<longleftrightarrow>
     TrimSpace (RegistryVersion def) \<noteq> [] \<and> Providers def \<noteq> [] \<and> Models def \<noteq> [] \<and>
     (\<forall>p\<in>set (Providers def). TrimSpace (pID p) \<noteq> []) \<and> distinct (map pID (Providers def)) \<and>
     (\<forall>m\<in>set (Models def). TrimSpace (mID m) \<noteq> [] \<and> mProviderID m \<in> pID ` set (Providers def) \<and>
        TrimSpace (mProviderModelID m) \<noteq> [] \<and> 0 \<le> mContextWindowTokens m) \<and>
     distinct (map mID (Models def)) \<and> distinct (map modelKey (Models def))"

lemma NewSnapshot_accepts_iff:
  "(\<exists>s. NewSnapshot now def = Inr s) \<longleftrightarrow> valid_definition def"
proof (cases "\<exists>ps. addProviders (Providers def) [] = Inr ps")
  case False
  then show ?thesis
    using addProviders_ok [of "Providers def" "[]"]
    by (auto simp: NewSnapshot_def valid_definition_def Let_def split: sum.splits)
next
  case True
  then obtain ps where ps: "addProviders (Providers def) [] = Inr ps" by blast
  then have pinv: "providers_ok ps"
    using addProviders_inv [of "Providers def" "[]" ps] by (simp add: providers_ok_def)
  define s0 where "s0 = emptySnapshot (RegistryVersion def)
      (if CreatedAt def = 0 then now else CreatedAt def) ps"
  have inv: "snapshot_inv s0"
    using pinv by (simp add: s0_def emptySnapshot_inv)
  have none: "mget (models s0) i = None" "mget (providerModelIDs s0) k = None" for i k
    by (simp_all add: s0_def emptySnapshot_def)
  have mp: "mget (providers s0) i \<noteq> None \<longleftrightarrow> i \<in> pID ` set (Providers def)" for i
    using addProviders_get [OF ps, of i] by (auto simp: s0_def emptySnapshot_def)
  have blank: "TrimSpace i \<noteq> []" if "i \<in> pID ` set (Providers def)" for i
    using that True addProviders_ok [of "Providers def" "[]"] by auto
  have mv: "model_valid s0 m \<longleftrightarrow> TrimSpace (mID m) \<noteq> [] \<and> mProviderID m \<in> pID ` set (Providers def) \<and>
        TrimSpace (mProviderModelID m) \<noteq> [] \<and> 0 \<le> mContextWindowTokens m" for m
    using blank mp [of "mProviderID m"] by (auto simp: model_valid_def)
  have "(\<exists>s. NewSnapshot now def = Inr s) \<longleftrightarrow>
      TrimSpace (RegistryVersion def) \<noteq> [] \<and> Providers def \<noteq> [] \<and> Models def \<noteq> [] \<and>
      (\<exists>t. addModels (Models def) s0 = Inr t)"
    by (auto simp: NewSnapshot_def ps s0_def Let_def split: sum.splits)
  with addModels_ok [OF inv, of "Models def"] addProviders_ok [of "Providers def" "[]"] True
  show ?thesis
    by (auto simp: valid_definition_def none mv)
qed

section \<open>What the queries return\<close>

lemma sorted_ids: "snapshot_inv s \<Longrightarrow> sorted_wrt (<) (sort (mkeys (models s)))"
  using gomap.keys_distinct [of "models s"]
  by (simp add: strict_sorted_iff snapshot_inv_def)

lemma snapshot_lookup:
  "snapshot_inv s \<Longrightarrow> i \<in> set (mkeys (models s)) \<Longrightarrow>
   mID (mget0 zeroModel (models s) i) = i \<and> mget (models s) i = Some (mget0 zeroModel (models s) i)"
  by (auto simp: set_mkeys mget0_def dest: snapshot_inv_model simp: model_ok_def)

lemma sorted_wrt_filter_map:
  "sorted_wrt (<) xs \<Longrightarrow> (\<And>x. x \<in> set xs \<Longrightarrow> g (f x) = x) \<Longrightarrow>
   sorted_wrt (\<lambda>a b. g a < g b) (filter P (map f xs))"
  by (induction xs) auto

lemma Enabled_sorted:
  assumes "snapshot_inv s"
  shows "sorted_wrt (\<lambda>a b. mID a < mID b) (EnabledModelsWithCapabilities (Some s) req)"
  unfolding EnabledModelsWithCapabilities_def option.case
  by (rule sorted_wrt_filter_map [OF sorted_ids [OF assms]])
     (simp add: snapshot_lookup [OF assms])

lemma Enabled_set:
  assumes inv: "snapshot_inv s"
  shows "m \<in> set (EnabledModelsWithCapabilities (Some s) req) \<longleftrightarrow>
    mget (models s) (mID m) = Some m \<and> modelSelectable s m \<and> Satisfies (mCapabilities m) req"
proof -
  have "m \<in> set (map (\<lambda>i. mget0 zeroModel (models s) i) (sort (mkeys (models s)))) \<longleftrightarrow>
      mget (models s) (mID m) = Some m"
  proof
    assume "m \<in> set (map (\<lambda>i. mget0 zeroModel (models s) i) (sort (mkeys (models s))))"
    then show "mget (models s) (mID m) = Some m"
      using snapshot_lookup [OF inv] by auto
  next
    assume "mget (models s) (mID m) = Some m"
    then have "mID m \<in> set (mkeys (models s))" and "mget0 zeroModel (models s) (mID m) = m"
      by (auto simp: set_mkeys mget0_def)
    then show "m \<in> set (map (\<lambda>i. mget0 zeroModel (models s) i) (sort (mkeys (models s))))"
      by (metis image_eqI list.set_map set_sort)
  qed
  then show ?thesis
    by (auto simp: EnabledModelsWithCapabilities_def)
qed

lemma distinct_if_sorted_ids: "sorted_wrt (\<lambda>a b. mID a < mID b) ms \<Longrightarrow> distinct (map mID ms)"
  by (induction ms) fastforce+

lemma modelSelectable_iff:
  "modelSelectable s m \<longleftrightarrow> (\<exists>p. mget (providers s) (mProviderID m) = Some p \<and>
     pStatus p = ProviderStatusActive \<and> mEnabled m)"
  by (auto simp: modelSelectable_def split: option.split)

lemma snapModel_Some: "snapModel (Some s) i = mget (models s) i"
  by (simp add: snapModel_def option.map_ident cong: map_option_cong)

lemma ModelByProviderModelID_Some:
  assumes inv: "snapshot_inv s"
  shows "ModelByProviderModelID (Some s) pid pmid = Some m \<longleftrightarrow>
    mget (models s) (mID m) = Some m \<and> modelKey m = providerModelKey pid pmid"
proof -
  let ?k = "providerModelKey pid pmid"
  have *: "ModelByProviderModelID (Some s) pid pmid =
      (case mget (providerModelIDs s) ?k of None \<Rightarrow> None | Some i \<Rightarrow> mget (models s) i)"
    using key_taken_iff [OF inv, of ?k]
    by (cases "mget (providerModelIDs s) ?k")
       (simp_all add: ModelByProviderModelID_def Let_def mget0_def snapModel_Some)
  have mid: "mID m' = i" if "mget (models s) i = Some m'" for i m'
    using snapshot_inv_model [OF inv that] by (simp add: model_ok_def)
  have key: "mget (providerModelIDs s) ?k = Some i \<longleftrightarrow>
      (\<exists>m. mget (models s) i = Some m \<and> modelKey m = ?k)" for i
    using inv by (simp add: snapshot_inv_def)
  show ?thesis
  proof
    assume "ModelByProviderModelID (Some s) pid pmid = Some m"
    then obtain i where i: "mget (providerModelIDs s) ?k = Some i" "mget (models s) i = Some m"
      by (auto simp: * split: option.splits)
    then show "mget (models s) (mID m) = Some m \<and> modelKey m = ?k"
      using key [of i] mid [OF i(2)] by auto
  next
    assume m: "mget (models s) (mID m) = Some m \<and> modelKey m = ?k"
    then have "mget (providerModelIDs s) ?k = Some (mID m)"
      using key [of "mID m"] by auto
    with m show "ModelByProviderModelID (Some s) pid pmid = Some m" by (simp add: *)
  qed
qed

end
