(* ===== verification/PolicyTypes.thy ===== *)
theory PolicyTypes
  imports Registry
begin

text \<open>
  Package \<open>internal/policy\<close>, \<open>types.go\<close> and the data of \<open>compiled.go\<close>: a parsed policy
  document, its rules with their conditions (\<open>When\<close>) and actions (\<open>Route\<close>), the compiled
  matchers and the result of an evaluation. Enumerations are strings, as in the code: an
  unset field is the empty string. Field names carry the initial of their struct.
\<close>

type_synonym ModelProfile = string
abbreviation ProfileCheap :: ModelProfile where "ProfileCheap \<equiv> ''cheap''"
abbreviation ProfileBalanced :: ModelProfile where "ProfileBalanced \<equiv> ''balanced''"
abbreviation ProfilePremium :: ModelProfile where "ProfilePremium \<equiv> ''premium''"

type_synonym Retention = string
abbreviation RetentionStandard :: Retention where "RetentionStandard \<equiv> ''standard''"
abbreviation RetentionNone :: Retention where "RetentionNone \<equiv> ''none''"

type_synonym Capability = string
abbreviation CapStreaming :: Capability where "CapStreaming \<equiv> ''streaming''"
abbreviation CapToolUse :: Capability where "CapToolUse \<equiv> ''tool_use''"
abbreviation CapJSONSchema :: Capability where "CapJSONSchema \<equiv> ''json_schema''"
abbreviation CapVision :: Capability where "CapVision \<equiv> ''vision''"
abbreviation CapLongContext :: Capability where "CapLongContext \<equiv> ''long_context''"

definition routerModes :: "string list" where
  "routerModes = [''auto'', ''cheap'', ''balanced'', ''premium'', ''disabled'']"

definition validTaskTypes :: "string list" where
  "validTaskTypes = [''simple_chat'', ''trivial_git'', ''simple_shell'', ''summarization'',
     ''simple_code_edit'', ''hard_code_debugging'', ''security_review'', ''database_migration'',
     ''long_context_analysis'', ''creative_copy'', ''unknown_high_risk'']"

definition validRiskLevels :: "string list" where
  "validRiskLevels = [''low'', ''medium'', ''high'', ''critical'']"

definition validSensitivities :: "string list" where
  "validSensitivities = [''none'', ''source_code'', ''pii'', ''secrets_possible'']"

lemmas vocab_defs = routerModes_def validTaskTypes_def validRiskLevels_def validSensitivities_def

type_synonym EnumMatch = "string list"

record When =
  wEmpty :: bool
  wTaskType :: "EnumMatch option"
  wRiskLevel :: "EnumMatch option"
  wTenant :: "EnumMatch option"
  wProject :: "EnumMatch option"
  wPromptTokensGT :: "int option"
  wPromptTokensLT :: "int option"
  wContainsAny :: "string list"
  wAnyFileMatches :: "string list"
  wRequiresToolUse :: "bool option"
  wRequiresJSONSchema :: "bool option"
  wRequiresVision :: "bool option"
  wSensitivity :: "EnumMatch option"
  wRouterMode :: "EnumMatch option"

record Block =
  bCode :: string
  bReason :: string
  bStatus :: int

record Force =
  fModelProfile :: ModelProfile
  fModelProfileName :: string
  fProvider :: string
  fModel :: string
  fVerifier :: "bool option"
  fContextPipeline :: "bool option"
  fTimeoutMS :: "int option"
  fRetention :: Retention

record Constraints =
  cAllowedProviders :: "string list"
  cDeniedProviders :: "string list"
  cAllowedModels :: "string list"
  cDeniedModels :: "string list"
  cRequireCapabilities :: "Capability list"
  cDenyCapabilities :: "Capability list"
  cMaxCostUSD :: "float64 option"
  cMaxLatencyMS :: "int option"
  cRetention :: Retention
  cFallbackModelProfiles :: "ModelProfile list"

record Defaults =
  dModelProfile :: ModelProfile
  dModelProfileName :: string
  dProvider :: string
  dModel :: string
  dVerifier :: "bool option"
  dTimeoutMS :: "int option"
  dRetention :: Retention
  dMaxCostUSD :: "float64 option"
  dMaxLatencyMS :: "int option"

record RouteHints =
  hTier :: string
  hModel :: string
  hProvider :: string
  hFallbackTier :: string
  hFallbackModels :: "string list"
  hVerifier :: "bool option"
  hMaxCostUSD :: "float64 option"
  hTimeoutMS :: "int option"
  hRetention :: string
  hRequireCapability :: string

record Route =
  rtBlock :: "Block option"
  rtForce :: "Force option"
  rtConstraints :: "Constraints option"
  rtDefaults :: "Defaults option"
  rtReason :: string
  rtHints :: RouteHints

record Rule =
  ruID :: string
  ruDescription :: string
  ruWhen :: When
  ruRoute :: Route

record Metadata =
  mdOwner :: string
  mdDescription :: string

record Settings =
  sDefaultModelProfile :: ModelProfile
  sConservativeUnknowns :: bool
  sMaxRouterOverheadMS :: int
  sDefaultTimeoutMS :: int
  sDefaultRetention :: Retention

record Policy =
  polVersion :: string
  polMetadata :: Metadata
  polSettings :: Settings
  polRules :: "Rule list"

text \<open>Zero values of the structs.\<close>

definition zeroWhen :: When where
  "zeroWhen = \<lparr>wEmpty = False, wTaskType = None, wRiskLevel = None, wTenant = None, wProject = None,
     wPromptTokensGT = None, wPromptTokensLT = None, wContainsAny = [], wAnyFileMatches = [],
     wRequiresToolUse = None, wRequiresJSONSchema = None, wRequiresVision = None,
     wSensitivity = None, wRouterMode = None\<rparr>"

definition zeroBlock :: Block where
  "zeroBlock = \<lparr>bCode = [], bReason = [], bStatus = 0\<rparr>"

definition zeroForce :: Force where
  "zeroForce = \<lparr>fModelProfile = [], fModelProfileName = [], fProvider = [], fModel = [],
     fVerifier = None, fContextPipeline = None, fTimeoutMS = None, fRetention = []\<rparr>"

definition zeroConstraints :: Constraints where
  "zeroConstraints = \<lparr>cAllowedProviders = [], cDeniedProviders = [], cAllowedModels = [],
     cDeniedModels = [], cRequireCapabilities = [], cDenyCapabilities = [], cMaxCostUSD = None,
     cMaxLatencyMS = None, cRetention = [], cFallbackModelProfiles = []\<rparr>"

definition zeroDefaults :: Defaults where
  "zeroDefaults = \<lparr>dModelProfile = [], dModelProfileName = [], dProvider = [], dModel = [],
     dVerifier = None, dTimeoutMS = None, dRetention = [], dMaxCostUSD = None, dMaxLatencyMS = None\<rparr>"

definition zeroHints :: RouteHints where
  "zeroHints = \<lparr>hTier = [], hModel = [], hProvider = [], hFallbackTier = [], hFallbackModels = [],
     hVerifier = None, hMaxCostUSD = None, hTimeoutMS = None, hRetention = [], hRequireCapability = []\<rparr>"

definition zeroRoute :: Route where
  "zeroRoute = \<lparr>rtBlock = None, rtForce = None, rtConstraints = None, rtDefaults = None,
     rtReason = [], rtHints = zeroHints\<rparr>"

definition zeroSettings :: Settings where
  "zeroSettings = \<lparr>sDefaultModelProfile = [], sConservativeUnknowns = False,
     sMaxRouterOverheadMS = 0, sDefaultTimeoutMS = 0, sDefaultRetention = []\<rparr>"

lemmas zero_defs = zeroWhen_def zeroBlock_def zeroForce_def zeroConstraints_def zeroDefaults_def
  zeroHints_def zeroRoute_def zeroSettings_def

definition HasAction :: "Route \<Rightarrow> bool" where
  "HasAction r =
     (if rtBlock r \<noteq> None \<or> rtForce r \<noteq> None \<or> rtConstraints r \<noteq> None \<or> rtDefaults r \<noteq> None
      then True
      else let h = rtHints r in
        hTier h \<noteq> [] \<or> hModel h \<noteq> [] \<or> hProvider h \<noteq> [] \<or> hFallbackTier h \<noteq> [] \<or>
        length (hFallbackModels h) > 0 \<or> hVerifier h \<noteq> None \<or> hMaxCostUSD h \<noteq> None \<or>
        hTimeoutMS h \<noteq> None \<or> hRetention h \<noteq> [] \<or> hRequireCapability h \<noteq> [])"

definition ContextPipelineEnabled :: "Route \<Rightarrow> bool" where
  "ContextPipelineEnabled r =
     (case rtForce r of None \<Rightarrow> False
      | Some f \<Rightarrow> (case fContextPipeline f of None \<Rightarrow> False | Some b \<Rightarrow> b))"

text \<open>
  Errors of the package: the sentinel \<open>ErrInvalidPolicy\<close> wrapped with the text that follows
  it, or \<open>ErrNoCompiledPolicy\<close>.
\<close>

datatype policy_err = ErrInvalidPolicy string | ErrNoCompiledPolicy

definition policyErrText :: "policy_err \<Rightarrow> string" where
  "policyErrText e = (case e of
     ErrInvalidPolicy m \<Rightarrow> ''policy: invalid policy: '' @ m
   | ErrNoCompiledPolicy \<Rightarrow> ''policy: no compiled policy'')"

section \<open>Compiled policies\<close>

text \<open>
  A compiled file pattern: the tokens that \<open>compileGlob\<close> writes into the regular expression,
  \<open>(?:.*/)?\<close>, \<open>.*\<close>, \<open>[^/]*\<close>, \<open>[^/]\<close> and a quoted literal.
\<close>

datatype globtok = AnyDirs | AnyChars | Segment | OneChar | Lit string

type_synonym stringSet = "string list"

record compiledMatcher =
  cmEmpty :: bool
  cmTaskTypes :: stringSet
  cmRiskLevels :: stringSet
  cmTenants :: stringSet
  cmProjects :: stringSet
  cmPromptTokensGT :: "int option"
  cmPromptTokensLT :: "int option"
  cmContainsAny :: stringSet
  cmFilePatterns :: "globtok list list"
  cmRequiresToolUse :: "bool option"
  cmRequiresJSONSchema :: "bool option"
  cmRequiresVision :: "bool option"
  cmSensitivities :: stringSet
  cmRouterModes :: stringSet

record compiledRule =
  crID :: string
  crDescription :: string
  crMatcher :: compiledMatcher
  crRoute :: Route

record CompiledPolicy =
  cpVersion :: string
  cpRegistryVersion :: string
  cpSettings :: Settings
  cpRules :: "compiledRule list"

record EvaluationInput =
  inTenantID :: string
  inProjectID :: string
  inTaskType :: string
  inRiskLevel :: string
  inSensitivity :: string
  inPromptTokensEstimate :: int
  inContainsText :: string
  inKeywords :: "string list"
  inFilesTouched :: "string list"
  inRequiresToolUse :: bool
  inRequiresJSONSchema :: bool
  inRequiresVision :: bool
  inRouterMode :: string

record Evaluation =
  evPolicyVersion :: string
  evMatchedRuleIDs :: "string list"
  evExplanations :: "string list"
  evRoute :: Route
  evBlocked :: bool

definition zeroEvaluation :: Evaluation where
  "zeroEvaluation = \<lparr>evPolicyVersion = [], evMatchedRuleIDs = [], evExplanations = [],
     evRoute = zeroRoute, evBlocked = False\<rparr>"

record Scope =
  scTenantID :: string
  scProjectID :: string

record Source =
  srcScope :: Scope
  srcPolicy :: "Policy option"
  srcRegistry :: "Snapshot option"

text \<open>\<open>Version\<close> and \<open>Settings\<close> of a possibly nil compiled policy.\<close>

definition cpVersionOf :: "CompiledPolicy option \<Rightarrow> string" where
  "cpVersionOf p = (case p of None \<Rightarrow> [] | Some p \<Rightarrow> cpVersion p)"

definition cpRegistryVersionOf :: "CompiledPolicy option \<Rightarrow> string" where
  "cpRegistryVersionOf p = (case p of None \<Rightarrow> [] | Some p \<Rightarrow> cpRegistryVersion p)"

definition cpSettingsOf :: "CompiledPolicy option \<Rightarrow> Settings" where
  "cpSettingsOf p = (case p of None \<Rightarrow> zeroSettings | Some p \<Rightarrow> cpSettings p)"

definition cpRuleCount :: "CompiledPolicy option \<Rightarrow> nat" where
  "cpRuleCount p = (case p of None \<Rightarrow> 0 | Some p \<Rightarrow> length (cpRules p))"

end
