(* ===== verification/PolicyMerge.thy ===== *)
theory PolicyMerge
  imports PolicyTypes
begin

text \<open>
  \<open>internal/policy/compiled.go\<close>, how the routes of matched rules are combined: the clone
  functions, \<open>mergeForce\<close> (the first rule that sets a field wins, later ones are explained),
  \<open>mergeConstraints\<close> (allow lists are intersected, deny lists united, ceilings minimised),
  \<open>mergeDefaults\<close>, \<open>mergeHints\<close> and \<open>normalizeRouteHints\<close>.
\<close>

section \<open>Copies\<close>

definition cloneForce :: "Force option \<Rightarrow> Force option" where
  "cloneForce f = map_option (\<lambda>f. f\<lparr>fVerifier := fVerifier f, fContextPipeline := fContextPipeline f,
     fTimeoutMS := fTimeoutMS f\<rparr>) f"

definition cloneConstraints :: "Constraints option \<Rightarrow> Constraints option" where
  "cloneConstraints c = map_option (\<lambda>c. c\<lparr>
     cAllowedProviders := [] @ cAllowedProviders c, cDeniedProviders := [] @ cDeniedProviders c,
     cAllowedModels := [] @ cAllowedModels c, cDeniedModels := [] @ cDeniedModels c,
     cRequireCapabilities := [] @ cRequireCapabilities c,
     cDenyCapabilities := [] @ cDenyCapabilities c,
     cMaxCostUSD := cMaxCostUSD c, cMaxLatencyMS := cMaxLatencyMS c,
     cFallbackModelProfiles := [] @ cFallbackModelProfiles c\<rparr>) c"

definition cloneDefaults :: "Defaults option \<Rightarrow> Defaults option" where
  "cloneDefaults d = map_option (\<lambda>d. d\<lparr>dVerifier := dVerifier d, dTimeoutMS := dTimeoutMS d,
     dMaxCostUSD := dMaxCostUSD d, dMaxLatencyMS := dMaxLatencyMS d\<rparr>) d"

definition cloneHints :: "RouteHints \<Rightarrow> RouteHints" where
  "cloneHints h = h\<lparr>hFallbackModels := [] @ hFallbackModels h, hVerifier := hVerifier h,
     hMaxCostUSD := hMaxCostUSD h, hTimeoutMS := hTimeoutMS h\<rparr>"

definition cloneRoute :: "Route \<Rightarrow> Route" where
  "cloneRoute r = \<lparr>rtBlock = rtBlock r, rtForce = cloneForce (rtForce r),
     rtConstraints = cloneConstraints (rtConstraints r), rtDefaults = cloneDefaults (rtDefaults r),
     rtReason = rtReason r, rtHints = cloneHints (rtHints r)\<rparr>"

lemma clone_ids [simp, clone_simps]:
  "cloneForce f = f" "cloneConstraints c = c" "cloneDefaults d = d" "cloneHints h = h"
  "cloneRoute r = r"
  by (simp_all add: cloneForce_def cloneConstraints_def cloneDefaults_def cloneHints_def
      cloneRoute_def option.map_ident)

section \<open>Merging lists\<close>

definition intersectIfBoth :: "string list \<Rightarrow> string list \<Rightarrow> string list" where
  "intersectIfBoth left right =
     (if length left = 0 then right
      else if length right = 0 then left
      else filter (\<lambda>v. v \<in> set right) left)"

definition unionValues :: "'a list \<Rightarrow> 'a list \<Rightarrow> 'a list" where
  "unionValues left right = addUnique (addUnique [] left) right"

definition stricterRetention :: "Retention \<Rightarrow> Retention \<Rightarrow> bool" where
  "stricterRetention new current =
     (if new = [] then False else current = [] \<or> new = RetentionNone)"

lemma set_unionValues [simp]: "set (unionValues l r) = set l \<union> set r"
  by (simp add: unionValues_def)

lemma distinct_unionValues [simp]: "distinct (unionValues l r)"
  by (simp add: unionValues_def)

section \<open>Merging routes\<close>

definition keepFirst :: "string \<Rightarrow> string \<Rightarrow> string" where
  "keepFirst ruleID field = ''Rule '' @ ruleID @ '' force.'' @ field @
     '' ignored because an earlier matched rule already set it''"

text \<open>One field of \<open>mergeForce\<close>: the field after the merge, and the explanation if it is kept.\<close>

definition forceStr :: "string \<Rightarrow> string \<Rightarrow> string \<Rightarrow> string \<Rightarrow> string \<times> string list" where
  "forceStr ruleID field out new =
     (if new \<noteq> [] then (if out = [] then (new, []) else (out, [keepFirst ruleID field]))
      else (out, []))"

definition forceOpt :: "string \<Rightarrow> string \<Rightarrow> 'a option \<Rightarrow> 'a option \<Rightarrow> 'a option \<times> string list" where
  "forceOpt ruleID field out new =
     (if new \<noteq> None then (if out = None then (new, []) else (out, [keepFirst ruleID field]))
      else (out, []))"

definition mergeForce :: "Force option \<Rightarrow> Force \<Rightarrow> string \<Rightarrow> Force \<times> string list" where
  "mergeForce existing new ruleID =
     (case cloneForce existing of
        None \<Rightarrow> (new, [])
      | Some out \<Rightarrow>
          let (profile, e1) = forceStr ruleID ''model_profile'' (fModelProfile out) (fModelProfile new);
              (name, e2) = forceStr ruleID ''model_profile_name'' (fModelProfileName out) (fModelProfileName new);
              (prov, e3) = forceStr ruleID ''provider'' (fProvider out) (fProvider new);
              (model, e4) = forceStr ruleID ''model'' (fModel out) (fModel new);
              (verifier, e5) = forceOpt ruleID ''verifier'' (fVerifier out) (fVerifier new);
              (pipeline, e6) = forceOpt ruleID ''context_pipeline'' (fContextPipeline out) (fContextPipeline new);
              (timeout, e7) = forceOpt ruleID ''timeout_ms'' (fTimeoutMS out) (fTimeoutMS new);
              (retention, e8) = forceStr ruleID ''retention'' (fRetention out) (fRetention new)
          in (\<lparr>fModelProfile = profile, fModelProfileName = name, fProvider = prov, fModel = model,
               fVerifier = verifier, fContextPipeline = pipeline, fTimeoutMS = timeout,
               fRetention = retention\<rparr>,
              e1 @ e2 @ e3 @ e4 @ e5 @ e6 @ e7 @ e8))"

definition minOpt :: "('a :: linorder) option \<Rightarrow> 'a option \<Rightarrow> 'a option" where
  "minOpt out new =
     (case new of None \<Rightarrow> out
      | Some n \<Rightarrow> (case out of None \<Rightarrow> new | Some p \<Rightarrow> if n < p then new else out))"

definition mergeConstraints :: "Constraints option \<Rightarrow> Constraints \<Rightarrow> Constraints" where
  "mergeConstraints existing new =
     (case cloneConstraints existing of
        None \<Rightarrow> new
      | Some out \<Rightarrow>
          \<lparr>cAllowedProviders = intersectIfBoth (cAllowedProviders out) (cAllowedProviders new),
           cDeniedProviders = unionValues (cDeniedProviders out) (cDeniedProviders new),
           cAllowedModels = intersectIfBoth (cAllowedModels out) (cAllowedModels new),
           cDeniedModels = unionValues (cDeniedModels out) (cDeniedModels new),
           cRequireCapabilities = unionValues (cRequireCapabilities out) (cRequireCapabilities new),
           cDenyCapabilities = unionValues (cDenyCapabilities out) (cDenyCapabilities new),
           cMaxCostUSD = minOpt (cMaxCostUSD out) (cMaxCostUSD new),
           cMaxLatencyMS = minOpt (cMaxLatencyMS out) (cMaxLatencyMS new),
           cRetention = (if stricterRetention (cRetention new) (cRetention out)
                         then cRetention new else cRetention out),
           cFallbackModelProfiles =
             unionValues (cFallbackModelProfiles out) (cFallbackModelProfiles new)\<rparr>)"

definition fillStr :: "string \<Rightarrow> string \<Rightarrow> string" where
  "fillStr out new = (if new \<noteq> [] \<and> out = [] then new else out)"

definition fillOpt :: "'a option \<Rightarrow> 'a option \<Rightarrow> 'a option" where
  "fillOpt out new = (if new \<noteq> None \<and> out = None then new else out)"

definition mergeDefaults :: "Defaults option \<Rightarrow> Defaults \<Rightarrow> Defaults" where
  "mergeDefaults existing new =
     (let out = (case cloneDefaults existing of None \<Rightarrow> zeroDefaults | Some d \<Rightarrow> d) in
      \<lparr>dModelProfile = fillStr (dModelProfile out) (dModelProfile new),
       dModelProfileName = fillStr (dModelProfileName out) (dModelProfileName new),
       dProvider = fillStr (dProvider out) (dProvider new),
       dModel = fillStr (dModel out) (dModel new),
       dVerifier = fillOpt (dVerifier out) (dVerifier new),
       dTimeoutMS = fillOpt (dTimeoutMS out) (dTimeoutMS new),
       dRetention = fillStr (dRetention out) (dRetention new),
       dMaxCostUSD = fillOpt (dMaxCostUSD out) (dMaxCostUSD new),
       dMaxLatencyMS = fillOpt (dMaxLatencyMS out) (dMaxLatencyMS new)\<rparr>)"

definition overStr :: "string \<Rightarrow> string \<Rightarrow> string" where
  "overStr out new = (if new \<noteq> [] then new else out)"

definition overOpt :: "'a option \<Rightarrow> 'a option \<Rightarrow> 'a option" where
  "overOpt out new = (if new \<noteq> None then new else out)"

definition mergeHints :: "RouteHints \<Rightarrow> RouteHints \<Rightarrow> RouteHints" where
  "mergeHints existing new =
     (let out = cloneHints existing in
      \<lparr>hTier = overStr (hTier out) (hTier new),
       hModel = overStr (hModel out) (hModel new),
       hProvider = overStr (hProvider out) (hProvider new),
       hFallbackTier = overStr (hFallbackTier out) (hFallbackTier new),
       hFallbackModels = (if length (hFallbackModels new) > 0 then hFallbackModels new
                          else hFallbackModels out),
       hVerifier = overOpt (hVerifier out) (hVerifier new),
       hMaxCostUSD = overOpt (hMaxCostUSD out) (hMaxCostUSD new),
       hTimeoutMS = overOpt (hTimeoutMS out) (hTimeoutMS new),
       hRetention = overStr (hRetention out) (hRetention new),
       hRequireCapability = overStr (hRequireCapability out) (hRequireCapability new)\<rparr>)"

definition mergeRoute :: "Route \<Rightarrow> Route \<Rightarrow> string \<Rightarrow> Route \<times> string list" where
  "mergeRoute dst src ruleID =
     (let block = (case rtBlock src of None \<Rightarrow> rtBlock dst | Some b \<Rightarrow> Some b);
          (force, explanations) =
            (case rtForce src of None \<Rightarrow> (rtForce dst, [])
             | Some f \<Rightarrow> (let (f', e) = mergeForce (rtForce dst) f ruleID in (Some f', e)));
          constraints = (case rtConstraints src of None \<Rightarrow> rtConstraints dst
             | Some c \<Rightarrow> Some (mergeConstraints (rtConstraints dst) c));
          defaults = (case rtDefaults src of None \<Rightarrow> rtDefaults dst
             | Some d \<Rightarrow> Some (mergeDefaults (rtDefaults dst) d));
          reason = (if rtReason src \<noteq> [] then rtReason src else rtReason dst)
      in (\<lparr>rtBlock = block, rtForce = force, rtConstraints = constraints, rtDefaults = defaults,
           rtReason = reason, rtHints = mergeHints (rtHints dst) (rtHints src)\<rparr>, explanations))"

section \<open>Normalising the deprecated hints\<close>

definition ensureForce :: "Route \<Rightarrow> Force" where
  "ensureForce r = (case rtForce r of None \<Rightarrow> zeroForce | Some f \<Rightarrow> f)"

definition ensureConstraints :: "Route \<Rightarrow> Constraints" where
  "ensureConstraints r = (case rtConstraints r of None \<Rightarrow> zeroConstraints | Some c \<Rightarrow> c)"

definition ensureDefaults :: "Route \<Rightarrow> Defaults" where
  "ensureDefaults r = (case rtDefaults r of None \<Rightarrow> zeroDefaults | Some d \<Rightarrow> d)"

definition hintTier :: "Route \<Rightarrow> Route" where
  "hintTier r =
     (let h = rtHints r in
      if hTier h \<noteq> [] then
        (let d = ensureDefaults r in
         r\<lparr>rtDefaults := Some (if dModelProfile d = [] then d\<lparr>dModelProfile := hTier h\<rparr> else d)\<rparr>)
      else r)"

definition hintForce :: "Route \<Rightarrow> Route" where
  "hintForce r =
     (let h = rtHints r in
      if hModel h \<noteq> [] \<or> hProvider h \<noteq> [] \<or> hVerifier h \<noteq> None then
        (let f0 = ensureForce r;
             f1 = (if hModel h \<noteq> [] \<and> fModel f0 = [] then f0\<lparr>fModel := hModel h\<rparr> else f0);
             f2 = (if hProvider h \<noteq> [] \<and> fProvider f1 = [] then f1\<lparr>fProvider := hProvider h\<rparr> else f1);
             f3 = (if hVerifier h \<noteq> None \<and> fVerifier f2 = None
                   then f2\<lparr>fVerifier := hVerifier h\<rparr> else f2)
         in r\<lparr>rtForce := Some f3\<rparr>)
      else r)"

definition hintTimeout :: "Route \<Rightarrow> Route" where
  "hintTimeout r =
     (let h = rtHints r in
      if hTimeoutMS h \<noteq> None then
        (case rtForce r of
           Some f \<Rightarrow> r\<lparr>rtForce := Some (if fTimeoutMS f = None then f\<lparr>fTimeoutMS := hTimeoutMS h\<rparr> else f)\<rparr>
         | None \<Rightarrow>
             (let d = ensureDefaults r in
              r\<lparr>rtDefaults := Some (if dTimeoutMS d = None then d\<lparr>dTimeoutMS := hTimeoutMS h\<rparr> else d)\<rparr>))
      else r)"

definition hintConstraints :: "Route \<Rightarrow> Route" where
  "hintConstraints r =
     (let h = rtHints r in
      if hFallbackTier h \<noteq> [] \<or> length (hFallbackModels h) > 0 \<or> hMaxCostUSD h \<noteq> None \<or>
         hRetention h \<noteq> [] \<or> hRequireCapability h \<noteq> [] then
        (let c0 = ensureConstraints r;
             c1 = (if hFallbackTier h \<noteq> []
                   then c0\<lparr>cFallbackModelProfiles := unionValues (cFallbackModelProfiles c0) [hFallbackTier h]\<rparr>
                   else c0);
             c2 = fold (\<lambda>fb c. c\<lparr>cFallbackModelProfiles := unionValues (cFallbackModelProfiles c) [fb]\<rparr>)
                    (hFallbackModels h) c1;
             c3 = (if hMaxCostUSD h \<noteq> None \<and> cMaxCostUSD c2 = None
                   then c2\<lparr>cMaxCostUSD := hMaxCostUSD h\<rparr> else c2);
             c4 = (if hRetention h \<noteq> [] \<and> cRetention c3 = []
                   then c3\<lparr>cRetention := hRetention h\<rparr> else c3);
             c5 = (if hRequireCapability h \<noteq> []
                   then c4\<lparr>cRequireCapabilities := unionValues (cRequireCapabilities c4) [hRequireCapability h]\<rparr>
                   else c4)
         in r\<lparr>rtConstraints := Some c5\<rparr>)
      else r)"

definition normalizeRouteHints :: "Route \<Rightarrow> Route" where
  "normalizeRouteHints r = hintConstraints (hintTimeout (hintForce (hintTier r)))"

end
