(* ===== verification/PolicyEval.thy ===== *)
theory PolicyEval
  imports PolicyMerge
begin

text \<open>
  \<open>internal/policy/compiled.go\<close> (and \<open>Validate\<close> of \<open>parser.go\<close>): a policy is checked against
  the registry and compiled into matchers (\<open>Compile\<close>); \<open>Evaluate\<close> walks the compiled rules in
  order, collects the matching ones and merges their routes, and stops at the first rule that
  blocks.
\<close>

section \<open>Checking references\<close>

definition checkProvider :: "Snapshot option \<Rightarrow> string \<Rightarrow> string \<Rightarrow> string list" where
  "checkProvider snap ctx i =
     (if i = [] then [] else
      case snapProvider snap i of
        None \<Rightarrow> [ctx @ '': unknown provider '' @ fmtQ i] | Some _ \<Rightarrow> [])"

definition checkModelRef :: "Snapshot option \<Rightarrow> string \<Rightarrow> string \<Rightarrow> string list" where
  "checkModelRef snap ctx i =
     (if i = [] then [] else
      case snapModel snap i of
        None \<Rightarrow> [ctx @ '': unknown model '' @ fmtQ i] | Some _ \<Rightarrow> [])"

definition validateRule :: "Snapshot option \<Rightarrow> Rule \<Rightarrow> string list" where
  "validateRule snap rule =
     (let ctx = ''rule '' @ fmtQ (ruID rule); r = ruRoute rule in
      (case rtForce r of None \<Rightarrow> [] | Some f \<Rightarrow>
         checkProvider snap (ctx @ ''.force'') (fProvider f) @
         checkModelRef snap (ctx @ ''.force'') (fModel f) @
         checkModelRef snap (ctx @ ''.force.model_profile_name'') (fModelProfileName f)) @
      (case rtDefaults r of None \<Rightarrow> [] | Some d \<Rightarrow>
         checkProvider snap (ctx @ ''.defaults'') (dProvider d) @
         checkModelRef snap (ctx @ ''.defaults'') (dModel d) @
         checkModelRef snap (ctx @ ''.defaults.model_profile_name'') (dModelProfileName d)) @
      (case rtConstraints r of None \<Rightarrow> [] | Some c \<Rightarrow>
         concat (map (checkProvider snap (ctx @ ''.constraints.allowed_providers'')) (cAllowedProviders c)) @
         concat (map (checkProvider snap (ctx @ ''.constraints.denied_providers'')) (cDeniedProviders c)) @
         concat (map (checkModelRef snap (ctx @ ''.constraints.allowed_models'')) (cAllowedModels c)) @
         concat (map (checkModelRef snap (ctx @ ''.constraints.denied_models'')) (cDeniedModels c))) @
      (if hProvider (rtHints r) \<noteq> []
       then checkProvider snap (ctx @ ''.route.provider'') (hProvider (rtHints r)) else []) @
      (if hModel (rtHints r) \<noteq> []
       then checkModelRef snap (ctx @ ''.route.model'') (hModel (rtHints r)) else []))"

definition Validate :: "Policy option \<Rightarrow> Snapshot option \<Rightarrow> policy_err option" where
  "Validate p snapshot =
     (case p of None \<Rightarrow> Some (ErrInvalidPolicy ''nil policy'')
      | Some p \<Rightarrow>
          if snapshot = None then Some (ErrInvalidPolicy ''nil registry snapshot'')
          else
            let errs = concat (map (validateRule snapshot) (polRules p)) in
            if length errs > 0 then Some (ErrInvalidPolicy (joinWith ''; '' errs)) else None)"

section \<open>Globs\<close>

text \<open>\<open>string(byte)\<close>: a byte above 127 becomes the two bytes of its code point.\<close>

definition byteString :: "char \<Rightarrow> string" where
  "byteString c = (let n = (of_char c :: nat) in
     if n < 128 then [c] else [char_of (192 + n div 64), char_of (128 + n mod 64)])"

fun globTokens :: "string \<Rightarrow> globtok list" where
  "globTokens [] = []"
| "globTokens (c # r) =
     (if c = CHR ''*'' then
        (if prefix ''*/'' r then AnyDirs # globTokens (drop 2 r)
         else if prefix ''*'' r then AnyChars # globTokens (drop 1 r)
         else Segment # globTokens r)
      else if c = CHR ''?'' then OneChar # globTokens r
      else Lit (byteString c) # globTokens r)"

definition compileGlob :: "string \<Rightarrow> string + globtok list" where
  "compileGlob pattern =
     (if TrimSpace pattern = [] then Inl ''empty file glob'' else Inr (globTokens pattern))"

text \<open>
  Matching the anchored expression. \<open>.\<close> is any byte but a newline; \<open>dirSuffixes s\<close> are the
  rests of \<open>s\<close> after a part that matches \<open>.*/\<close>.
\<close>

fun dirSuffixes :: "string \<Rightarrow> string list" where
  "dirSuffixes [] = []"
| "dirSuffixes (c # s) =
     (if c = CHR ''/'' then [s] else []) @ (if c = CHR 0x0A then [] else dirSuffixes s)"

lemma dirSuffixes_shorter: "t \<in> set (dirSuffixes s) \<Longrightarrow> length t < length s"
  by (induction s) (auto split: if_splits)

function (sequential) globMatch :: "globtok list \<Rightarrow> string \<Rightarrow> bool" where
  "globMatch [] s = (s = [])"
| "globMatch (Lit l # ts) s = (prefix l s \<and> globMatch ts (drop (length l) s))"
| "globMatch (OneChar # ts) s = (case s of [] \<Rightarrow> False | c # cs \<Rightarrow> c \<noteq> CHR ''/'' \<and> globMatch ts cs)"
| "globMatch (Segment # ts) s =
     (globMatch ts s \<or> (case s of [] \<Rightarrow> False | c # cs \<Rightarrow> c \<noteq> CHR ''/'' \<and> globMatch (Segment # ts) cs))"
| "globMatch (AnyChars # ts) s =
     (globMatch ts s \<or> (case s of [] \<Rightarrow> False | c # cs \<Rightarrow> c \<noteq> CHR 0x0A \<and> globMatch (AnyChars # ts) cs))"
| "globMatch (AnyDirs # ts) s = (globMatch ts s \<or> (\<exists>t \<in> set (dirSuffixes s). globMatch ts t))"
  by pat_completeness auto
termination
  by (relation "measures [\<lambda>(ts, s). length ts, \<lambda>(ts, s). length s]") auto

declare globMatch.simps [simp del]

definition matchesAnyFile :: "globtok list list \<Rightarrow> string list \<Rightarrow> bool" where
  "matchesAnyFile patterns files =
     (\<exists>file \<in> set files. \<exists>p \<in> set patterns. globMatch p (ReplaceByte (CHR 0x5C) (CHR ''/'') file))"

section \<open>Matchers\<close>

definition setFromStrings :: "string list \<Rightarrow> bool \<Rightarrow> stringSet" where
  "setFromStrings vals lower = addUnique [] (map (\<lambda>v. if lower then ToLower v else v) vals)"

definition setFromMatch :: "EnumMatch option \<Rightarrow> stringSet" where
  "setFromMatch m = (case m of None \<Rightarrow> [] | Some vals \<Rightarrow> setFromStrings vals False)"

fun compileGlobs :: "string list \<Rightarrow> string + globtok list list" where
  "compileGlobs [] = Inr []"
| "compileGlobs (p # ps) =
     (case compileGlob p of Inl e \<Rightarrow> Inl e
      | Inr g \<Rightarrow> (case compileGlobs ps of Inl e \<Rightarrow> Inl e | Inr gs \<Rightarrow> Inr (g # gs)))"

definition compileMatcher :: "When \<Rightarrow> string + compiledMatcher" where
  "compileMatcher w =
     (case compileGlobs (wAnyFileMatches w) of
        Inl e \<Rightarrow> Inl e
      | Inr patterns \<Rightarrow> Inr
          \<lparr>cmEmpty = wEmpty w,
           cmTaskTypes = setFromMatch (wTaskType w),
           cmRiskLevels = setFromMatch (wRiskLevel w),
           cmTenants = setFromMatch (wTenant w),
           cmProjects = setFromMatch (wProject w),
           cmPromptTokensGT = wPromptTokensGT w,
           cmPromptTokensLT = wPromptTokensLT w,
           cmContainsAny = setFromStrings (wContainsAny w) True,
           cmFilePatterns = patterns,
           cmRequiresToolUse = wRequiresToolUse w,
           cmRequiresJSONSchema = wRequiresJSONSchema w,
           cmRequiresVision = wRequiresVision w,
           cmSensitivities = setFromMatch (wSensitivity w),
           cmRouterModes = setFromMatch (wRouterMode w)\<rparr>)"

definition setMatches :: "stringSet \<Rightarrow> string \<Rightarrow> bool" where
  "setMatches s v = (if length s = 0 then True else v \<in> set s)"

definition matchesTextOrAny :: "stringSet \<Rightarrow> string \<Rightarrow> string list \<Rightarrow> bool" where
  "matchesTextOrAny s txt vals =
     (let lowerText = ToLower txt in
      if \<exists>v \<in> set s. lowerText \<noteq> [] \<and> Contains lowerText v then True
      else \<exists>v \<in> set vals. ToLower v \<in> set s)"

definition optDiffers :: "bool option \<Rightarrow> bool \<Rightarrow> bool" where
  "optDiffers want got = (case want of None \<Rightarrow> False | Some b \<Rightarrow> got \<noteq> b)"

definition matcherMatches :: "compiledMatcher \<Rightarrow> EvaluationInput \<Rightarrow> bool" where
  "matcherMatches m i =
     (if cmEmpty m then True
      else if \<not> setMatches (cmTaskTypes m) (inTaskType i) \<or>
              \<not> setMatches (cmRiskLevels m) (inRiskLevel i) \<or>
              \<not> setMatches (cmTenants m) (inTenantID i) \<or>
              \<not> setMatches (cmProjects m) (inProjectID i) \<or>
              \<not> setMatches (cmSensitivities m) (inSensitivity i) \<or>
              \<not> setMatches (cmRouterModes m) (inRouterMode i) then False
      else if (case cmPromptTokensGT m of None \<Rightarrow> False | Some n \<Rightarrow> inPromptTokensEstimate i \<le> n) then False
      else if (case cmPromptTokensLT m of None \<Rightarrow> False | Some n \<Rightarrow> inPromptTokensEstimate i \<ge> n) then False
      else if optDiffers (cmRequiresToolUse m) (inRequiresToolUse i) then False
      else if optDiffers (cmRequiresJSONSchema m) (inRequiresJSONSchema i) then False
      else if optDiffers (cmRequiresVision m) (inRequiresVision i) then False
      else if length (cmContainsAny m) > 0 \<and>
              \<not> matchesTextOrAny (cmContainsAny m) (inContainsText i) (inKeywords i) then False
      else if length (cmFilePatterns m) > 0 \<and>
              \<not> matchesAnyFile (cmFilePatterns m) (inFilesTouched i) then False
      else True)"

section \<open>Compile and Evaluate\<close>

fun compileRules :: "Rule list \<Rightarrow> policy_err + compiledRule list" where
  "compileRules [] = Inr []"
| "compileRules (rule # rest) =
     (case compileMatcher (ruWhen rule) of
        Inl e \<Rightarrow> Inl (ErrInvalidPolicy (''rule '' @ fmtQ (ruID rule) @ '': '' @ e))
      | Inr matcher \<Rightarrow>
          (case compileRules rest of
             Inl e \<Rightarrow> Inl e
           | Inr rs \<Rightarrow> Inr (\<lparr>crID = ruID rule, crDescription = ruDescription rule, crMatcher = matcher,
                           crRoute = normalizeRouteHints (cloneRoute (ruRoute rule))\<rparr> # rs)))"

definition Compile :: "Policy option \<Rightarrow> Snapshot option \<Rightarrow> policy_err + CompiledPolicy" where
  "Compile p snapshot =
     (case Validate p snapshot of
        Some e \<Rightarrow> Inl e
      | None \<Rightarrow>
          (case p of None \<Rightarrow> Inl (ErrInvalidPolicy ''nil policy'')
           | Some p \<Rightarrow>
               (case compileRules (polRules p) of
                  Inl e \<Rightarrow> Inl e
                | Inr rs \<Rightarrow> Inr \<lparr>cpVersion = polVersion p,
                                cpRegistryVersion = snapRegistryVersion snapshot,
                                cpSettings = polSettings p, cpRules = rs\<rparr>)))"

definition ruleExplanations :: "compiledRule \<Rightarrow> string list" where
  "ruleExplanations r =
     [''Policy rule '' @ crID r @ '' matched''] @
     (if crDescription r \<noteq> [] then [''Rule '' @ crID r @ '' description: '' @ crDescription r] else []) @
     (if rtReason (crRoute r) \<noteq> [] then [''Rule '' @ crID r @ '' reason: '' @ rtReason (crRoute r)] else [])"

definition applyRule :: "compiledRule \<Rightarrow> Evaluation \<Rightarrow> Evaluation" where
  "applyRule rule out =
     (let (route, expl) = mergeRoute (evRoute out) (crRoute rule) (crID rule) in
      out\<lparr>evMatchedRuleIDs := evMatchedRuleIDs out @ [crID rule],
          evExplanations := evExplanations out @ ruleExplanations rule @ expl,
          evRoute := route\<rparr>)"

fun evalRules :: "compiledRule list \<Rightarrow> EvaluationInput \<Rightarrow> Evaluation \<Rightarrow> Evaluation" where
  "evalRules [] i out = out"
| "evalRules (rule # rest) i out =
     (if \<not> matcherMatches (crMatcher rule) i then evalRules rest i out
      else
        let out' = applyRule rule out in
        if rtBlock (crRoute rule) \<noteq> None then out'\<lparr>evBlocked := True\<rparr>
        else evalRules rest i out')"

definition Evaluate :: "CompiledPolicy option \<Rightarrow> EvaluationInput \<Rightarrow> Evaluation" where
  "Evaluate p i =
     (case p of None \<Rightarrow> zeroEvaluation
      | Some p \<Rightarrow> evalRules (cpRules p) i (zeroEvaluation\<lparr>evPolicyVersion := cpVersion p\<rparr>))"

end
