(* ===== verification/Engine.thy ===== *)
theory Engine
  imports PolicyEval RouterJob
begin

text \<open>
  Package \<open>internal/engine\<close>: the routing decision. \<open>FilterCandidates\<close> drops the models that
  break a hard requirement, \<open>ScoreCandidates\<close> ranks the rest, \<open>BuildFallbackChain\<close> picks the
  fallbacks and \<open>Decide\<close> composes them, with the early exits for disabled routing, blocked and
  pinned requests. \<open>CompareDecisions\<close> reports the differences of two decisions.

  A \<open>HealthSnapshot\<close> is a function from providers to scores; nil is \<open>None\<close>. \<open>sort.Slice\<close>, which
  is not stable, is the parameter \<open>srt\<close>.
\<close>

section \<open>Types\<close>

record FallbackEntry =
  feModelID :: string
  feProviderID :: string
  feProviderModelID :: string

record RouteDecision =
  rdRouteID :: string
  rdSelectedModel :: string
  rdSelectedProvider :: string
  rdProviderModelID :: string
  rdFallbacks :: "FallbackEntry list"
  rdTimeoutMS :: int
  rdRequiresVerifier :: bool
  rdDecisionReasons :: "string list"
  rdPolicyVersion :: string
  rdEstimatedCostUSD :: float64
  rdBlocked :: bool
  rdBlockCode :: string
  rdBlockReason :: string
  rdBlockStatus :: int

definition zeroDecision :: RouteDecision where
  "zeroDecision = \<lparr>rdRouteID = [], rdSelectedModel = [], rdSelectedProvider = [],
     rdProviderModelID = [], rdFallbacks = [], rdTimeoutMS = 0, rdRequiresVerifier = False,
     rdDecisionReasons = [], rdPolicyVersion = [], rdEstimatedCostUSD = 0, rdBlocked = False,
     rdBlockCode = [], rdBlockReason = [], rdBlockStatus = 0\<rparr>"

record ScoredCandidate =
  scModel :: Model
  scScore :: float64
  scReasons :: "string list"

record Weights =
  wtQuality :: float64
  wtCapability :: float64
  wtHealth :: float64
  wtCost :: float64
  wtLatency :: float64

definition DefaultWeights :: Weights where
  "DefaultWeights = \<lparr>wtQuality = 35 / 100, wtCapability = 25 / 100, wtHealth = 20 / 100,
     wtCost = 15 / 100, wtLatency = 5 / 100\<rparr>"

type_synonym HealthSnapshot = "string \<Rightarrow> float64"

text \<open>\<open>StaticHealth\<close>: a possibly nil map; providers it does not list are healthy.\<close>

definition staticProviderHealth :: "(string, float64) gomap option \<Rightarrow> HealthSnapshot" where
  "staticProviderHealth h providerID =
     (case h of None \<Rightarrow> 1 | Some m \<Rightarrow> (case mget m providerID of Some v \<Rightarrow> v | None \<Rightarrow> 1))"

definition FullyHealthy :: HealthSnapshot where
  "FullyHealthy = staticProviderHealth None"

definition healthOr :: "HealthSnapshot option \<Rightarrow> HealthSnapshot" where
  "healthOr h = (case h of None \<Rightarrow> FullyHealthy | Some f \<Rightarrow> f)"

record FilterResult =
  frCandidates :: "Model list"
  frExcluded :: "(string, string) gomap"
  frReasons :: "string list"

section \<open>Filtering\<close>

definition TierOrdinal :: "Tier \<Rightarrow> int" where
  "TierOrdinal tier =
     (if tier = TierCheap then 0 else if tier = TierBalanced then 1
      else if tier = TierPremium then 2 else - 1)"

definition TierAtLeast :: "Tier \<Rightarrow> Tier \<Rightarrow> bool" where
  "TierAtLeast tier minimum \<longleftrightarrow> TierOrdinal tier \<ge> TierOrdinal minimum"

definition higherTier :: "Tier \<Rightarrow> Tier \<Rightarrow> Tier" where
  "higherTier a b = (if TierOrdinal b > TierOrdinal a then b else a)"

definition taskMinimumTier :: "TaskType \<Rightarrow> RiskLevel \<Rightarrow> Tier" where
  "taskMinimumTier task risk =
     (if task = TaskSecurityReview \<or> task = TaskDatabaseMigration \<or> task = TaskUnknownHighRisk
      then TierPremium
      else if task = TaskHardCodeDebugging \<or> task = TaskLongContextAnalysis then TierBalanced
      else if risk = RiskCritical \<or> risk = RiskHigh then TierBalanced else TierCheap)"

definition baseMinimumTier :: "TaskType \<Rightarrow> RiskLevel \<Rightarrow> Route \<Rightarrow> Tier" where
  "baseMinimumTier task risk route =
     (case rtForce route of
        None \<Rightarrow> taskMinimumTier task risk
      | Some f \<Rightarrow>
          if fModelProfile f = ProfilePremium then TierPremium
          else if fModelProfile f = ProfileBalanced then TierBalanced
          else if fModelProfile f = ProfileCheap then TierCheap
          else taskMinimumTier task risk)"

definition MinimumTierForTask :: "JobDescriptor \<Rightarrow> Route \<Rightarrow> Tier" where
  "MinimumTierForTask job route =
     (let base = baseMinimumTier (jTaskType job) (jRiskLevel job) route in
      if jConservative job then higherTier base TierBalanced else base)"

definition requiredCapabilities :: "JobDescriptor \<Rightarrow> bool \<Rightarrow> Capabilities" where
  "requiredCapabilities job streaming =
     \<lparr>Chat = True, Streaming = streaming, ToolCalls = jRequiresToolUse job,
      JSONSchema = jRequiresJSONSchema job, Vision = jRequiresVision job,
      LongContext = jRequiresLargeContext job\<rparr>"

definition addCapability :: "Capability \<Rightarrow> Capabilities \<Rightarrow> Capabilities" where
  "addCapability c caps =
     (if c = CapStreaming then caps\<lparr>Streaming := True\<rparr>
      else if c = CapToolUse then caps\<lparr>ToolCalls := True\<rparr>
      else if c = CapJSONSchema then caps\<lparr>JSONSchema := True\<rparr>
      else if c = CapVision then caps\<lparr>Vision := True\<rparr>
      else if c = CapLongContext then caps\<lparr>LongContext := True\<rparr>
      else caps)"

definition capabilitiesFromPolicy :: "Constraints option \<Rightarrow> Capabilities" where
  "capabilitiesFromPolicy c =
     (case c of None \<Rightarrow> noCapabilities | Some c \<Rightarrow> fold addCapability (cRequireCapabilities c) noCapabilities)"

definition mergeCapabilities :: "Capabilities \<Rightarrow> Capabilities \<Rightarrow> Capabilities" where
  "mergeCapabilities a b =
     \<lparr>Chat = Chat a \<or> Chat b, Streaming = Streaming a \<or> Streaming b,
      ToolCalls = ToolCalls a \<or> ToolCalls b, JSONSchema = JSONSchema a \<or> JSONSchema b,
      Vision = Vision a \<or> Vision b, LongContext = LongContext a \<or> LongContext b\<rparr>"

text \<open>An empty string means no reason: the model passes.\<close>

definition providerModelConstraintReason :: "Model \<Rightarrow> Constraints option \<Rightarrow> string" where
  "providerModelConstraintReason model c =
     (case c of None \<Rightarrow> ''''
      | Some c \<Rightarrow>
          if length (cAllowedProviders c) > 0 \<and> mProviderID model \<notin> set (cAllowedProviders c)
          then ''provider '' @ mProviderID model @ '' not in allowed_providers''
          else if mProviderID model \<in> set (cDeniedProviders c)
          then ''provider '' @ mProviderID model @ '' in denied_providers''
          else if length (cAllowedModels c) > 0 \<and> mID model \<notin> set (cAllowedModels c)
          then ''model '' @ mID model @ '' not in allowed_models''
          else if mID model \<in> set (cDeniedModels c)
          then ''model '' @ mID model @ '' in denied_models''
          else '''')"

text \<open>The loop over \<open>DenyCapabilities\<close>: the first capability the model has.\<close>

fun deniedCapabilityReason :: "Capabilities \<Rightarrow> Capability list \<Rightarrow> string" where
  "deniedCapabilityReason caps [] = ''''"
| "deniedCapabilityReason caps (d # ds) =
     (if d = CapStreaming \<and> Streaming caps then ''policy denies streaming capability''
      else if d = CapToolUse \<and> ToolCalls caps then ''policy denies tool_use capability''
      else if d = CapVision \<and> Vision caps then ''policy denies vision capability''
      else if d = CapLongContext \<and> LongContext caps then ''policy denies long_context capability''
      else deniedCapabilityReason caps ds)"

definition constraintReason :: "Model \<Rightarrow> Constraints \<Rightarrow> string" where
  "constraintReason model c =
     (let reason = providerModelConstraintReason model (Some c);
          p95 = P95FirstTokenMS (mLatency model) in
      if reason \<noteq> [] then reason
      else (case cMaxLatencyMS c of
              Some mx \<Rightarrow> if p95 > 0 \<and> p95 > mx
                         then ''p95 latency '' @ showInt p95 @ ''ms exceeds policy max '' @ showInt mx @ ''ms''
                         else deniedCapabilityReason (mCapabilities model) (cDenyCapabilities c)
            | None \<Rightarrow> deniedCapabilityReason (mCapabilities model) (cDenyCapabilities c)))"

definition forceReason :: "Model \<Rightarrow> Force \<Rightarrow> string" where
  "forceReason model f =
     (if fModel f \<noteq> [] \<and> mID model \<noteq> fModel f \<and> mProviderModelID model \<noteq> fModel f
      then ''policy forces model '' @ fModel f
      else if fProvider f \<noteq> [] \<and> mProviderID model \<noteq> fProvider f
      then ''policy forces provider '' @ fProvider f
      else if fModelProfile f \<noteq> [] \<and> mTier model \<noteq> fModelProfile f
      then ''policy forces profile '' @ fModelProfile f
      else '''')"

definition hardFilter :: "Model \<Rightarrow> JobDescriptor \<Rightarrow> Route \<Rightarrow> HealthSnapshot \<Rightarrow> Tier \<Rightarrow> string" where
  "hardFilter model job route health minTier =
     (if \<not> TierAtLeast (mTier model) minTier
      then ''tier '' @ mTier model @ '' below minimum '' @ minTier @ '' for task='' @ jTaskType job @
           '' risk='' @ jRiskLevel job
      else if health (mProviderID model) < 1 / 10
      then ''provider '' @ mProviderID model @ '' health '' @ fmtFixed 2 (health (mProviderID model)) @
           '' below threshold''
      else let cr = (case rtConstraints route of None \<Rightarrow> '''' | Some c \<Rightarrow> constraintReason model c) in
      if cr \<noteq> [] then cr
      else let fr = (case rtForce route of None \<Rightarrow> '''' | Some f \<Rightarrow> forceReason model f) in
      if fr \<noteq> [] then fr
      else if jRouterMode job = RouterModeCheap \<and> minTier \<noteq> TierPremium \<and> mTier model = TierPremium
      then ''router_mode=cheap excludes premium tier''
      else '''')"

fun filterLoop :: "(Model \<Rightarrow> string) \<Rightarrow> Model list \<Rightarrow> FilterResult \<Rightarrow> FilterResult" where
  "filterLoop reason [] res = res"
| "filterLoop reason (m # ms) res =
     (if reason m \<noteq> []
      then filterLoop reason ms (res\<lparr>frExcluded := mput (mID m) (reason m) (frExcluded res)\<rparr>)
      else filterLoop reason ms (res\<lparr>frCandidates := frCandidates res @ [m]\<rparr>))"

definition FilterCandidates :: "JobDescriptor \<Rightarrow> Route \<Rightarrow> Snapshot option \<Rightarrow> HealthSnapshot option
    \<Rightarrow> bool \<Rightarrow> FilterResult" where
  "FilterCandidates job route snapshot health0 streaming =
     (let health = healthOr health0;
          merged = mergeCapabilities (requiredCapabilities job streaming)
                     (capabilitiesFromPolicy (rtConstraints route));
          candidates = EnabledModelsWithCapabilities snapshot merged;
          minTier = MinimumTierForTask job route;
          res = filterLoop (\<lambda>m. hardFilter m job route health minTier) candidates
                  \<lparr>frCandidates = [], frExcluded = [], frReasons = []\<rparr>
      in res\<lparr>frReasons := frReasons res @
           [showNat (length (frCandidates res)) @ '' candidate(s) after filtering (chat='' @
            showBool (Chat merged) @ '' streaming='' @ showBool (Streaming merged) @ '' tools='' @
            showBool (ToolCalls merged) @ '' vision='' @ showBool (Vision merged) @ '' long_context='' @
            showBool (LongContext merged) @ '' min_tier='' @ minTier @ '')'']\<rparr>)"

section \<open>Scoring\<close>

definition estimateCostMicroUSD :: "Model \<Rightarrow> JobDescriptor \<Rightarrow> float64" where
  "estimateCostMicroUSD model job =
     (if \<not> Available (mCost model) then 0
      else of_int (jPromptTokensEstimate job) * of_int (InputMicrosPerMillionToken (mCost model)) / 1000000 +
           of_int (jMaxOutputTokensEstimate job) * of_int (OutputMicrosPerMillionToken (mCost model)) / 1000000)"

definition qualityScore :: "Model \<Rightarrow> TaskType \<Rightarrow> float64" where
  "qualityScore model task =
     (case mget (mQualityScores model) task of
        Some s \<Rightarrow> s
      | None \<Rightarrow> if mTier model = TierCheap then 55 / 100
               else if mTier model = TierBalanced then 70 / 100
               else if mTier model = TierPremium then 85 / 100
               else 60 / 100)"

definition capabilityMatchScore :: "Tier \<Rightarrow> Tier \<Rightarrow> float64" where
  "capabilityMatchScore modelTier minTier =
     (let diff = TierOrdinal modelTier - TierOrdinal minTier in
      if diff < 0 then 1 / 2 else if diff = 0 then 1 else max (85 / 100) (1 - of_int diff * 5 / 100))"

definition riskPenalty :: "Tier \<Rightarrow> RiskLevel \<Rightarrow> float64" where
  "riskPenalty modelTier risk =
     (if risk = RiskCritical then
        (if modelTier = TierCheap then 40 / 100 else if modelTier = TierBalanced then 15 / 100 else 0)
      else if risk = RiskHigh then
        (if modelTier = TierCheap then 30 / 100 else if modelTier = TierBalanced then 5 / 100 else 0)
      else if risk = RiskMedium then (if modelTier = TierCheap then 5 / 100 else 0)
      else 0)"

definition applyRouterModeWeights :: "Weights \<Rightarrow> RouterMode \<Rightarrow> Weights" where
  "applyRouterModeWeights w mode =
     (if mode = RouterModeCheap
      then w\<lparr>wtCost := wtCost w + 15 / 100, wtQuality := wtQuality w - 10 / 100,
             wtLatency := wtLatency w + 5 / 100\<rparr>
      else if mode = RouterModePremium
      then w\<lparr>wtQuality := wtQuality w + 15 / 100, wtCost := wtCost w - 10 / 100\<rparr>
      else w)"

text \<open>The arrow of the messages, as UTF-8 bytes.\<close>

definition arrow :: string where
  "arrow = [CHR 0xE2, CHR 0x86, CHR 0x92]"

definition approx :: string where
  "approx = [CHR 0xE2, CHR 0x89, CHR 0x88]"

definition scoreOne :: "Model \<Rightarrow> JobDescriptor \<Rightarrow> Tier \<Rightarrow> HealthSnapshot \<Rightarrow> Weights \<Rightarrow> float64 \<Rightarrow> float64
    \<Rightarrow> ScoredCandidate" where
  "scoreOne model job minTier health w maxCost maxLatency =
     (let quality = qualityScore model (jTaskType job);
          capability = capabilityMatchScore (mTier model) minTier;
          healthVal = health (mProviderID model);
          normalizedCost = estimateCostMicroUSD model job / maxCost;
          normalizedLatency = of_int (P95FirstTokenMS (mLatency model)) / maxLatency;
          penalty = riskPenalty (mTier model) (jRiskLevel job);
          score = wtQuality w * quality + wtCapability w * capability + wtHealth w * healthVal -
                  wtCost w * normalizedCost - wtLatency w * normalizedLatency - penalty;
          reason = ''quality='' @ fmtFixed 2 quality @ '' capability='' @ fmtFixed 2 capability @
                  '' health='' @ fmtFixed 2 healthVal @ '' cost_norm='' @ fmtFixed 2 normalizedCost @
                  '' latency_norm='' @ fmtFixed 2 normalizedLatency @ '' penalty='' @ fmtFixed 2 penalty @
                  '' '' @ arrow @ '' score='' @ fmtFixed 4 score
      in \<lparr>scModel = model, scScore = score, scReasons = [reason]\<rparr>)"

definition maxOver :: "('a \<Rightarrow> float64) \<Rightarrow> 'a list \<Rightarrow> float64" where
  "maxOver f xs = fold (\<lambda>x mx. if f x > mx then f x else mx) xs 0"

definition ScoreCandidates :: "((ScoredCandidate \<Rightarrow> ScoredCandidate \<Rightarrow> bool) \<Rightarrow> ScoredCandidate list
      \<Rightarrow> ScoredCandidate list) \<Rightarrow> Model list \<Rightarrow> JobDescriptor \<Rightarrow> Tier \<Rightarrow> HealthSnapshot option \<Rightarrow> Weights
    \<Rightarrow> ScoredCandidate list" where
  "ScoreCandidates srt candidates job minTier health0 weights =
     (if length candidates = 0 then []
      else
        let health = healthOr health0;
            maxCost0 = maxOver (\<lambda>m. estimateCostMicroUSD m job) candidates;
            maxLatency0 = maxOver (\<lambda>m. of_int (P95FirstTokenMS (mLatency m))) candidates;
            maxCost = (if maxCost0 = 0 then 1 else maxCost0);
            maxLatency = (if maxLatency0 = 0 then 1 else maxLatency0);
            w = applyRouterModeWeights weights (jRouterMode job)
        in srt (\<lambda>a b. scScore a > scScore b)
             (map (\<lambda>m. scoreOne m job minTier health w maxCost maxLatency) candidates))"

section \<open>The fallback chain\<close>

definition validFallback :: "Model \<Rightarrow> Model \<Rightarrow> JobDescriptor \<Rightarrow> Route \<Rightarrow> bool" where
  "validFallback primary candidate job route =
     (if (jRiskLevel job = RiskHigh \<or> jRiskLevel job = RiskCritical) \<and>
         TierOrdinal (mTier candidate) < TierOrdinal (mTier primary) then False
      else case rtConstraints route of
             None \<Rightarrow> True
           | Some c \<Rightarrow> if length (cFallbackModelProfiles c) > 0
                       then mTier candidate \<in> set (cFallbackModelProfiles c) else True)"

definition fallbackEntry :: "Model \<Rightarrow> FallbackEntry" where
  "fallbackEntry m = \<lparr>feModelID = mID m, feProviderID = mProviderID m, feProviderModelID = mProviderModelID m\<rparr>"

fun fallbackLoop :: "(Model \<Rightarrow> bool) \<Rightarrow> string \<Rightarrow> ScoredCandidate list \<Rightarrow> FallbackEntry list \<Rightarrow> FallbackEntry list" where
  "fallbackLoop valid pid [] chain = chain"
| "fallbackLoop valid pid (sc # rest) chain =
     (if length chain \<ge> 2 then chain
      else if mID (scModel sc) = pid then fallbackLoop valid pid rest chain
      else if \<not> valid (scModel sc) then fallbackLoop valid pid rest chain
      else fallbackLoop valid pid rest (chain @ [fallbackEntry (scModel sc)]))"

definition BuildFallbackChain :: "Model \<Rightarrow> ScoredCandidate list \<Rightarrow> JobDescriptor \<Rightarrow> Route \<Rightarrow> FallbackEntry list" where
  "BuildFallbackChain primary scored job route =
     fallbackLoop (\<lambda>m. validFallback primary m job route) (mID primary) scored []"

definition FallbackChainReason :: "Model \<Rightarrow> FallbackEntry list \<Rightarrow> string" where
  "FallbackChainReason primary chain =
     (if length chain = 0 then ''No fallbacks available beyond primary '' @ mID primary
      else ''Fallback chain: '' @ mID primary @ '' '' @ arrow @ '' '' @
           joinWith ('' '' @ arrow @ '' '') (map feModelID chain))"

section \<open>Decide\<close>

record Engine =
  enRegistry :: "Store option"
  enWeights :: Weights
  enConservative :: bool

definition NewEngine :: "Store option \<Rightarrow> Engine" where
  "NewEngine store = \<lparr>enRegistry = store, enWeights = DefaultWeights, enConservative = False\<rparr>"

definition SetConservative :: "bool \<Rightarrow> Engine \<Rightarrow> Engine" where
  "SetConservative on e = e\<lparr>enConservative := on\<rparr>"

text \<open>\<open>NilPanic\<close> is the dereference of a nil pointer.\<close>

datatype engine_error =
    RegistryUnavailable registry_error | ErrNoRoute string | ErrBlocked | ErrDisabled string
  | ErrModelNotFound string | NilPanic

definition conservativeForJob :: "Engine \<Rightarrow> JobDescriptor \<Rightarrow> bool" where
  "conservativeForJob e job =
     (if \<not> enConservative e then False
      else if jTaskType job = TaskUnknownHighRisk then True
      else jTaskConfidence job > 0 \<and> jTaskConfidence job < 1 / 2)"

definition evaluationInput :: "JobDescriptor \<Rightarrow> EvaluationInput" where
  "evaluationInput job =
     \<lparr>inTenantID = jTenantID job, inProjectID = jProjectID job, inTaskType = jTaskType job,
      inRiskLevel = jRiskLevel job, inSensitivity = jSensitivity job,
      inPromptTokensEstimate = jPromptTokensEstimate job, inContainsText = [],
      inKeywords = jKeywords job, inFilesTouched = jFilesTouched job,
      inRequiresToolUse = jRequiresToolUse job, inRequiresJSONSchema = jRequiresJSONSchema job,
      inRequiresVision = jRequiresVision job, inRouterMode = jRouterMode job\<rparr>"

definition evaluatePolicy :: "CompiledPolicy option \<Rightarrow> JobDescriptor \<Rightarrow> Evaluation" where
  "evaluatePolicy pol job =
     (case pol of None \<Rightarrow> zeroEvaluation | Some p \<Rightarrow> Evaluate (Some p) (evaluationInput job))"

definition routeID :: "JobDescriptor \<Rightarrow> string \<Rightarrow> string" where
  "routeID job modelID =
     (if jRequestID job \<noteq> [] then ''route_'' @ jRequestID job @ ''_'' @ modelID else ''route_'' @ modelID)"

definition findByProviderModelID :: "Snapshot option \<Rightarrow> string \<Rightarrow> Model option" where
  "findByProviderModelID snap providerModelID =
     find (\<lambda>m. mProviderModelID m = providerModelID)
       (EnabledModelsWithCapabilities snap (noCapabilities\<lparr>Chat := True\<rparr>))"

text \<open>A decision and an error, as the function returns them.\<close>

type_synonym outcome = "RouteDecision \<times> engine_error option"

definition decideDisabled :: "JobDescriptor \<Rightarrow> CompiledPolicy option \<Rightarrow> Snapshot option \<Rightarrow> outcome" where
  "decideDisabled job pol snap =
     (case jExplicitModel job of
        None \<Rightarrow> (zeroDecision, Some (ErrDisabled ''router_mode=disabled requires an explicit model field''))
      | Some ref \<Rightarrow>
          let ev = evaluatePolicy pol job;
              pinned = (case snapModel snap ref of
                          Some m \<Rightarrow> m | None \<Rightarrow> zeroModel\<lparr>mID := ref, mProviderModelID := ref\<rparr>);
              reason = providerModelConstraintReason pinned (rtConstraints (evRoute ev))
          in if reason \<noteq> [] then
               (zeroDecision\<lparr>rdBlocked := True, rdBlockCode := ''provider_not_allowed'',
                  rdBlockReason := ''router_mode=disabled model '' @ fmtQ ref @ '' rejected: '' @ reason,
                  rdBlockStatus := 403,
                  rdDecisionReasons := evExplanations ev @
                    [''router_mode=disabled model '' @ fmtQ ref @ '' blocked: '' @ reason],
                  rdPolicyVersion := evPolicyVersion ev\<rparr>, Some ErrBlocked)
             else
               (zeroDecision\<lparr>rdRouteID := routeID job ref, rdSelectedModel := ref,
                  rdProviderModelID := ref,
                  rdDecisionReasons := evExplanations ev @ [''routing disabled, using client model as-is''],
                  rdPolicyVersion := evPolicyVersion ev\<rparr>, None))"

definition decidePinned :: "string \<Rightarrow> string \<Rightarrow> JobDescriptor \<Rightarrow> Evaluation \<Rightarrow> Snapshot option \<Rightarrow> outcome" where
  "decidePinned modelRef source job ev snap =
     (case (case snapModel snap modelRef of Some m \<Rightarrow> Some m | None \<Rightarrow> findByProviderModelID snap modelRef) of
        None \<Rightarrow> (zeroDecision, Some (ErrModelNotFound (source @ '' '' @ fmtQ modelRef @ '' not found in registry'')))
      | Some model \<Rightarrow>
          let reason = providerModelConstraintReason model (rtConstraints (evRoute ev)) in
          if reason \<noteq> [] then
            (zeroDecision\<lparr>rdBlocked := True, rdBlockCode := ''provider_not_allowed'',
               rdBlockReason := source @ '' '' @ fmtQ modelRef @ '' rejected: '' @ reason,
               rdBlockStatus := 403,
               rdDecisionReasons := evExplanations ev @ [source @ '' '' @ fmtQ modelRef @ '' blocked: '' @ reason],
               rdPolicyVersion := evPolicyVersion ev\<rparr>, Some ErrBlocked)
          else
            (zeroDecision\<lparr>rdRouteID := routeID job (mID model), rdSelectedModel := mID model,
               rdSelectedProvider := mProviderID model, rdProviderModelID := mProviderModelID model,
               rdDecisionReasons := evExplanations ev @ [source @ '': '' @ fmtQ modelRef],
               rdPolicyVersion := evPolicyVersion ev\<rparr>, None))"

definition resolveTimeout :: "CompiledPolicy option \<Rightarrow> Route \<Rightarrow> JobDescriptor \<Rightarrow> int" where
  "resolveTimeout pol route job =
     (case Option.bind (rtForce route) fTimeoutMS of Some t \<Rightarrow> t
      | None \<Rightarrow> (case Option.bind (rtDefaults route) dTimeoutMS of Some t \<Rightarrow> t
         | None \<Rightarrow>
             if pol \<noteq> None \<and> sDefaultTimeoutMS (cpSettingsOf pol) > 0
             then sDefaultTimeoutMS (cpSettingsOf pol)
             else if jRequiresLargeContext job then 60000 else 30000))"

definition resolveVerifier :: "JobDescriptor \<Rightarrow> Route \<Rightarrow> bool" where
  "resolveVerifier job route =
     (case Option.bind (rtForce route) fVerifier of Some b \<Rightarrow> b
      | None \<Rightarrow> (case Option.bind (rtDefaults route) dVerifier of Some b \<Rightarrow> b
         | None \<Rightarrow> jTaskType job = TaskSecurityReview \<or> jTaskType job = TaskDatabaseMigration))"

definition buildReasons :: "JobDescriptor \<Rightarrow> Evaluation \<Rightarrow> FilterResult \<Rightarrow> ScoredCandidate list
    \<Rightarrow> Model \<Rightarrow> FallbackEntry list \<Rightarrow> string list" where
  "buildReasons job ev res scored primary fallbacks =
     [''task='' @ jTaskType job @ '' risk='' @ jRiskLevel job @ '' sensitivity='' @ jSensitivity job @
      '' tokens'' @ approx @ showInt (jPromptTokensEstimate job)] @
     frReasons res @ evExplanations ev @
     (case scored of [] \<Rightarrow> []
      | sc # _ \<Rightarrow> (''selected '' @ mID primary @ '' (tier='' @ mTier primary @ '' provider='' @
                 mProviderID primary @ '' score='' @ fmtFixed 4 (scScore sc) @ '')'') # scReasons sc) @
     [FallbackChainReason primary fallbacks]"

text \<open>\<open>Decide\<close> marks the descriptor it is given; the marked descriptor is returned first.\<close>

definition decideBlocked :: "Evaluation \<Rightarrow> outcome" where
  "decideBlocked ev =
     (case rtBlock (evRoute ev) of
        None \<Rightarrow> (zeroDecision, Some NilPanic)
      | Some b \<Rightarrow>
          (zeroDecision\<lparr>rdBlocked := True, rdBlockReason := bReason b,
             rdDecisionReasons := evExplanations ev, rdPolicyVersion := evPolicyVersion ev,
             rdBlockCode := (if bCode b \<noteq> [] then bCode b else []),
             rdBlockStatus := (if bStatus b \<noteq> 0 then bStatus b else 403)\<rparr>, Some ErrBlocked))"

definition decideRouted :: "((ScoredCandidate \<Rightarrow> ScoredCandidate \<Rightarrow> bool) \<Rightarrow> ScoredCandidate list
      \<Rightarrow> ScoredCandidate list) \<Rightarrow> Engine \<Rightarrow> JobDescriptor \<Rightarrow> CompiledPolicy option \<Rightarrow> Evaluation
    \<Rightarrow> Snapshot option \<Rightarrow> HealthSnapshot \<Rightarrow> bool \<Rightarrow> outcome" where
  "decideRouted srt e job pol ev snap health streaming =
     (let res = FilterCandidates job (evRoute ev) snap (Some health) streaming in
      if length (frCandidates res) = 0 then
        (zeroDecision, Some (ErrNoRoute (''no models pass filters (task='' @ jTaskType job @ '' risk='' @
           jRiskLevel job @ '' streaming='' @ showBool streaming @ '' excluded='' @
           showNat (length (frExcluded res)) @ '')'')))
      else
        let minTier = MinimumTierForTask job (evRoute ev);
            scored = ScoreCandidates srt (frCandidates res) job minTier (Some health) (enWeights e);
            primary = scModel (hd scored);
            fallbacks = BuildFallbackChain primary scored job (evRoute ev);
            costUSD = estimateCostMicroUSD primary job / 1000000
        in (\<lparr>rdRouteID = routeID job (mID primary), rdSelectedModel = mID primary,
             rdSelectedProvider = mProviderID primary, rdProviderModelID = mProviderModelID primary,
             rdFallbacks = fallbacks, rdTimeoutMS = resolveTimeout pol (evRoute ev) job,
             rdRequiresVerifier = resolveVerifier job (evRoute ev),
             rdDecisionReasons = buildReasons job ev res scored primary fallbacks,
             rdPolicyVersion = evPolicyVersion ev, rdEstimatedCostUSD = costUSD,
             rdBlocked = False, rdBlockCode = [], rdBlockReason = [], rdBlockStatus = 0\<rparr>, None))"

definition Decide :: "((ScoredCandidate \<Rightarrow> ScoredCandidate \<Rightarrow> bool) \<Rightarrow> ScoredCandidate list
      \<Rightarrow> ScoredCandidate list) \<Rightarrow> Engine \<Rightarrow> JobDescriptor \<Rightarrow> CompiledPolicy option
    \<Rightarrow> HealthSnapshot option \<Rightarrow> bool \<Rightarrow> JobDescriptor \<times> outcome" where
  "Decide srt e job pol health0 streaming =
     (case storeGet (enRegistry e) of
        Inl err \<Rightarrow> (job, zeroDecision, Some (RegistryUnavailable err))
      | Inr sn \<Rightarrow>
          let snap = Some sn; health = healthOr health0 in
          if jRouterMode job = RouterModeDisabled then (job, decideDisabled job pol snap)
          else
            let job' = job\<lparr>jConservative := conservativeForJob e job\<rparr>;
                ev = evaluatePolicy pol job'
            in (job',
                if evBlocked ev then decideBlocked ev
                else case jExplicitModel job' of
                  Some m \<Rightarrow> decidePinned m ''explicit model in request'' job' ev snap
                | None \<Rightarrow>
                    (case rtForce (evRoute ev) of
                       Some f \<Rightarrow> if fModel f \<noteq> [] then decidePinned (fModel f) ''policy force.model'' job' ev snap
                                else decideRouted srt e job' pol ev snap health streaming
                     | None \<Rightarrow> decideRouted srt e job' pol ev snap health streaming)))"

section \<open>Comparing decisions\<close>

record DecisionComparison =
  dcPrimary :: RouteDecision
  dcSecondary :: RouteDecision
  dcChanged :: bool
  dcRouteChanged :: bool
  dcFallbackChanged :: bool
  dcTimeoutChanged :: bool
  dcRequiresVerifierChanged :: bool
  dcPolicyVersionChanged :: bool
  dcCostChanged :: bool
  dcEstimatedCostDeltaMicroUSD :: int
  dcEstimatedCostDeltaUSD :: float64

text \<open>\<open>math.Round\<close>: half away from zero.\<close>

definition mathRound :: "rat \<Rightarrow> int" where
  "mathRound q = (if q < 0 then - \<lfloor>- q + 1 / 2\<rfloor> else \<lfloor>q + 1 / 2\<rfloor>)"

definition estimatedCostMicroUSD :: "float64 \<Rightarrow> int" where
  "estimatedCostMicroUSD costUSD = i64 (mathRound (costUSD * 1000000))"

definition routeChanged :: "RouteDecision \<Rightarrow> RouteDecision \<Rightarrow> bool" where
  "routeChanged p s \<longleftrightarrow> rdBlocked p \<noteq> rdBlocked s \<or> rdBlockCode p \<noteq> rdBlockCode s \<or>
     rdBlockReason p \<noteq> rdBlockReason s \<or> rdBlockStatus p \<noteq> rdBlockStatus s \<or>
     rdSelectedModel p \<noteq> rdSelectedModel s \<or> rdSelectedProvider p \<noteq> rdSelectedProvider s \<or>
     rdProviderModelID p \<noteq> rdProviderModelID s"

definition CompareDecisions :: "RouteDecision \<Rightarrow> RouteDecision \<Rightarrow> DecisionComparison" where
  "CompareDecisions primary secondary =
     (let delta = i64 (estimatedCostMicroUSD (rdEstimatedCostUSD secondary) -
                       estimatedCostMicroUSD (rdEstimatedCostUSD primary));
          rc = routeChanged primary secondary;
          fc = (rdFallbacks primary \<noteq> rdFallbacks secondary);
          tc = (rdTimeoutMS primary \<noteq> rdTimeoutMS secondary);
          vc = (rdRequiresVerifier primary \<noteq> rdRequiresVerifier secondary);
          cc = (delta \<noteq> 0)
      in \<lparr>dcPrimary = primary, dcSecondary = secondary, dcChanged = (rc \<or> fc \<or> tc \<or> vc \<or> cc),
          dcRouteChanged = rc, dcFallbackChanged = fc, dcTimeoutChanged = tc,
          dcRequiresVerifierChanged = vc,
          dcPolicyVersionChanged = (rdPolicyVersion primary \<noteq> rdPolicyVersion secondary),
          dcCostChanged = cc, dcEstimatedCostDeltaMicroUSD = delta,
          dcEstimatedCostDeltaUSD = of_int delta / 1000000\<rparr>)"

end
