(* ===== verification/DecisionCache.thy ===== *)
theory DecisionCache
  imports Engine OpenAI
begin

text \<open>
  Package \<open>internal/decisioncache\<close>: the cache of routing decisions. The hexadecimal SHA-256
  digest is the parameter \<open>sha\<close>, the text \<open>%v\<close> prints for a metadata value the parameter
  \<open>sprint\<close>, the clock an argument of each operation. The laws say when a stored decision is
  served, that a hit is always the last decision put under its key and still within its time to
  live, how many entries the cache holds, and what equal keys have in common.
\<close>

definition Cacheable :: "JobDescriptor option \<Rightarrow> bool" where
  "Cacheable job \<longleftrightarrow> (case job of None \<Rightarrow> False
     | Some j \<Rightarrow> jRiskLevel j = RiskLow \<and> jSensitivity j = SensitivityNone)"

abbreviation US :: char where "US \<equiv> CHR 0x1F"
abbreviation RS :: char where "RS \<equiv> CHR 0x1E"
abbreviation GS :: char where "GS \<equiv> CHR 0x1D"

definition promptFingerprint :: "(string \<Rightarrow> string) \<Rightarrow> Message list \<Rightarrow> string" where
  "promptFingerprint sha messages =
     sha (concat (map (\<lambda>m. msgRole m @ [RS] @ msgContent m @ [GS]) messages))"

definition metadataFingerprint :: "(string \<Rightarrow> string) \<Rightarrow> (anyval \<Rightarrow> string) \<Rightarrow> metadata \<Rightarrow> string" where
  "metadataFingerprint sha sprint md =
     (if md = [] then []
      else sha (concat (map (\<lambda>k. k @ ''='' @ sprint (mget0 ANil md k) @ [RS]) (sort (mkeys md)))))"

definition jobKeyPart :: "JobDescriptor option \<Rightarrow> string" where
  "jobKeyPart job = (case job of None \<Rightarrow> []
     | Some j \<Rightarrow> ''tenant='' @ jTenantID j @ [US] @ ''project='' @ jProjectID j @ [US] @
                 ''task='' @ jTaskType j @ [US] @ ''mode='' @ jRouterMode j @ [US])"

definition requestKeyPart :: "(string \<Rightarrow> string) \<Rightarrow> (anyval \<Rightarrow> string) \<Rightarrow> ChatRequest option \<Rightarrow> string" where
  "requestKeyPart sha sprint req = (case req of None \<Rightarrow> []
     | Some r \<Rightarrow> ''model='' @ reqModel r @ [US] @ ''prompt='' @ promptFingerprint sha (reqMessages r) @
                 [US] @ ''meta='' @ metadataFingerprint sha sprint (reqMetadata r))"

definition keyText :: "(string \<Rightarrow> string) \<Rightarrow> (anyval \<Rightarrow> string) \<Rightarrow> ChatRequest option \<Rightarrow> JobDescriptor option \<Rightarrow>
    string \<Rightarrow> string \<Rightarrow> string" where
  "keyText sha sprint req job pv rv =
     jobKeyPart job @ ''policy='' @ pv @ [US] @ ''registry='' @ rv @ [US] @
     requestKeyPart sha sprint req"

definition decisionKey :: "(string \<Rightarrow> string) \<Rightarrow> (anyval \<Rightarrow> string) \<Rightarrow> ChatRequest option \<Rightarrow> JobDescriptor option \<Rightarrow>
    string \<Rightarrow> string \<Rightarrow> string" where
  "decisionKey sha sprint req job pv rv =
     sha (keyText sha sprint req job pv rv)"

section \<open>The cache\<close>

record DecEntry =
  ceDecision :: RouteDecision
  ceExpires :: int

record DecCache =
  dcaTTL :: int
  dcaMax :: int
  dcaM :: "(string, DecEntry) gomap"

definition newDecCache :: "int \<Rightarrow> int \<Rightarrow> DecCache" where
  "newDecCache ttl mx = \<lparr>dcaTTL = ttl, dcaMax = (if mx \<le> 0 then 10000 else mx), dcaM = []\<rparr>"

definition cacheGet :: "int \<Rightarrow> string \<Rightarrow> DecCache option \<Rightarrow> RouteDecision option \<times> DecCache option" where
  "cacheGet now key cache =
     (case cache of
        None \<Rightarrow> (None, None)
      | Some c \<Rightarrow>
          if dcaTTL c \<le> 0 then (None, Some c)
          else case mget (dcaM c) key of
            None \<Rightarrow> (None, Some c)
          | Some e \<Rightarrow>
              if now > ceExpires e then (None, Some (c\<lparr>dcaM := mdel key (dcaM c)\<rparr>))
              else (Some (ceDecision e), Some c))"

definition cachePut :: "int \<Rightarrow> string \<Rightarrow> RouteDecision \<Rightarrow> DecCache option \<Rightarrow> DecCache option" where
  "cachePut now key dec cache =
     (case cache of
        None \<Rightarrow> None
      | Some c \<Rightarrow>
          if dcaTTL c \<le> 0 then Some c
          else
            let c1 = (if int (length (dcaM c)) \<ge> dcaMax c \<and> mget (dcaM c) key = None
                      then c\<lparr>dcaM := []\<rparr> else c)
            in Some (c1\<lparr>dcaM := mput key \<lparr>ceDecision = dec, ceExpires = now + dcaTTL c\<rparr> (dcaM c1)\<rparr>))"

definition cacheLen :: "DecCache option \<Rightarrow> nat" where
  "cacheLen cache = (case cache of None \<Rightarrow> 0 | Some c \<Rightarrow> length (dcaM c))"

section \<open>Runs of the cache\<close>

datatype cache_op = GetOp int string | PutOp int string RouteDecision

primrec cacheStep :: "cache_op \<Rightarrow> DecCache option \<Rightarrow> DecCache option" where
  "cacheStep (GetOp now k) c = snd (cacheGet now k c)"
| "cacheStep (PutOp now k d) c = cachePut now k d c"

definition cacheRun :: "cache_op list \<Rightarrow> DecCache option \<Rightarrow> DecCache option" where
  "cacheRun ops c = fold cacheStep ops c"

text \<open>The last decision put under a key, with the time it was put.\<close>

definition lastPut :: "string \<Rightarrow> cache_op list \<Rightarrow> (int \<times> RouteDecision) option" where
  "lastPut k ops = fold (\<lambda>op acc. case op of PutOp t k' d \<Rightarrow> if k' = k then Some (t, d) else acc
     | GetOp _ _ \<Rightarrow> acc) ops None"

definition cacheInv :: "int \<Rightarrow> int \<Rightarrow> cache_op list \<Rightarrow> DecCache option \<Rightarrow> bool" where
  "cacheInv ttl mx ops cache \<longleftrightarrow>
     (\<exists>c. cache = Some c \<and> dcaTTL c = ttl \<and> dcaMax c = mx \<and> mwf (dcaM c) \<and>
        int (length (dcaM c)) \<le> mx \<and> (ttl \<le> 0 \<longrightarrow> dcaM c = []) \<and>
        (\<forall>k e. mget (dcaM c) k = Some e \<longrightarrow> lastPut k ops = Some (ceExpires e - ttl, ceDecision e)))"

lemma length_mkeys: "length (mkeys m) = length m"
  by (simp add: mkeys_def)

lemma length_mput: "mwf m \<Longrightarrow> length (mput k v m) = (if mget m k = None then Suc (length m) else length m)"
  using gomap.len_put_new [of m k v] gomap.len_put_old [of m k v] by (simp add: length_mkeys)

lemma length_mdel: "length (mdel k m) \<le> length m"
  by (induction m) (auto simp: mdel_def)

lemma lastPut_Nil [simp]: "lastPut k [] = None"
  by (simp add: lastPut_def)

lemma lastPut_snoc [simp]:
  "lastPut k (ops @ [GetOp t k']) = lastPut k ops"
  "lastPut k (ops @ [PutOp t k' d]) = (if k' = k then Some (t, d) else lastPut k ops)"
  by (simp_all add: lastPut_def)

lemma cacheRun_snoc: "cacheRun (ops @ [op]) c = cacheStep op (cacheRun ops c)"
  by (simp add: cacheRun_def)

lemma cacheInv_get: "cacheInv ttl mx ops c \<Longrightarrow> cacheInv ttl mx (ops @ [GetOp t k]) (cacheStep (GetOp t k) c)"
proof -
  assume inv: "cacheInv ttl mx ops c"
  then obtain c0 where c0: "c = Some c0" "mwf (dcaM c0)" "int (length (dcaM c0)) \<le> mx"
    by (auto simp: cacheInv_def)
  have "int (length (mdel k (dcaM c0))) \<le> mx"
    using c0(3) length_mdel [of k "dcaM c0"] by linarith
  then show ?thesis
    using inv c0 by (auto simp: cacheInv_def cacheGet_def split: option.split)
qed

lemma cacheInv_put:
  assumes inv: "cacheInv ttl mx ops c" and mx: "0 < mx"
  shows "cacheInv ttl mx (ops @ [PutOp t k d]) (cacheStep (PutOp t k d) c)"
proof -
  obtain c0 where c0: "c = Some c0" "dcaTTL c0 = ttl" "dcaMax c0 = mx" "mwf (dcaM c0)"
    "int (length (dcaM c0)) \<le> mx" "ttl \<le> 0 \<longrightarrow> dcaM c0 = []"
    "\<forall>k e. mget (dcaM c0) k = Some e \<longrightarrow> lastPut k ops = Some (ceExpires e - ttl, ceDecision e)"
    using inv by (auto simp: cacheInv_def)
  show ?thesis
  proof (cases "ttl \<le> 0")
    case True
    with c0 show ?thesis by (simp add: cacheInv_def cachePut_def)
  next
    case False
    with c0 mx show ?thesis
      by (auto simp: cacheInv_def cachePut_def Let_def length_mput)
  qed
qed

lemma cacheInv_run:
  assumes "0 < mx" and "cacheInv ttl mx [] c"
  shows "cacheInv ttl mx ops (cacheRun ops c)"
proof (induction ops rule: rev_induct)
  case Nil
  with assms show ?case by (simp add: cacheRun_def)
next
  case (snoc op ops)
  then show ?case
    by (cases op) (simp_all add: cacheRun_snoc cacheInv_get cacheInv_put assms(1) del: cacheStep.simps)
qed

lemma cacheInv_new: "cacheInv ttl (if mx \<le> 0 then 10000 else mx) [] (Some (newDecCache ttl mx))"
  by (simp add: cacheInv_def newDecCache_def)

lemma cacheRun_inv: "cacheInv ttl (if mx \<le> 0 then 10000 else mx) ops (cacheRun ops (Some (newDecCache ttl mx)))"
  by (rule cacheInv_run [OF _ cacheInv_new]) simp

lemma cacheInv_hit:
  assumes "cacheInv ttl mx ops c" and "fst (cacheGet now k c) = Some d"
  shows "\<exists>t. lastPut k ops = Some (t, d) \<and> now \<le> t + ttl \<and> 0 < ttl"
proof -
  obtain c0 where c0: "c = Some c0" "dcaTTL c0 = ttl"
    and put: "\<And>k e. mget (dcaM c0) k = Some e \<Longrightarrow> lastPut k ops = Some (ceExpires e - ttl, ceDecision e)"
    using assms(1) by (auto simp: cacheInv_def)
  obtain e where e: "mget (dcaM c0) k = Some e" "now \<le> ceExpires e" "d = ceDecision e" "0 < ttl"
    using assms(2) c0 by (auto simp: cacheGet_def split: if_splits option.splits)
  then show ?thesis
    using put [OF e(1)] by (intro exI [of _ "ceExpires e - ttl"]) simp
qed

section \<open>What equal keys have in common\<close>

lemma split_sep: "sep \<notin> set a \<Longrightarrow> sep \<notin> set b \<Longrightarrow> a @ sep # x = b @ sep # y \<Longrightarrow> a = b \<and> x = y"
proof (induction a arbitrary: b)
  case Nil
  then show ?case by (cases b) auto
next
  case (Cons h a)
  then show ?case by (cases b) auto
qed

definition sepFree :: "string \<Rightarrow> bool" where
  "sepFree s \<longleftrightarrow> US \<notin> set s"

lemma split_field: "sepFree a \<Longrightarrow> sepFree b \<Longrightarrow> a @ US # x = b @ US # y \<Longrightarrow> a = b \<and> x = y"
  unfolding sepFree_def by (rule split_sep)

definition jobSepFree :: "JobDescriptor \<Rightarrow> bool" where
  "jobSepFree j \<longleftrightarrow> sepFree (jTenantID j) \<and> sepFree (jProjectID j) \<and> sepFree (jTaskType j) \<and> sepFree (jRouterMode j)"

lemma keyText_fields:
  assumes free: "jobSepFree j" "jobSepFree j'" "sepFree pv" "sepFree pv'" "sepFree rv" "sepFree rv'"
    and eq: "keyText sha sprint req (Some j) pv rv = keyText sha sprint req' (Some j') pv' rv'"
  shows "jTenantID j = jTenantID j' \<and> jProjectID j = jProjectID j' \<and> jTaskType j = jTaskType j' \<and>
    jRouterMode j = jRouterMode j' \<and> pv = pv' \<and> rv = rv' \<and>
    requestKeyPart sha sprint req = requestKeyPart sha sprint req'"
proof -
  let ?r = "requestKeyPart sha sprint req" and ?r' = "requestKeyPart sha sprint req'"
  have 1: "jTenantID j @ US # (''project='' @ jProjectID j @ US # (''task='' @ jTaskType j @ US #
      (''mode='' @ jRouterMode j @ US # (''policy='' @ pv @ US # (''registry='' @ rv @ US # ?r))))) =
    jTenantID j' @ US # (''project='' @ jProjectID j' @ US # (''task='' @ jTaskType j' @ US #
      (''mode='' @ jRouterMode j' @ US # (''policy='' @ pv' @ US # (''registry='' @ rv' @ US # ?r')))))"
    using eq by (simp add: keyText_def jobKeyPart_def)
  have a: "jTenantID j = jTenantID j'" and 2: "jProjectID j @ US # (''task='' @ jTaskType j @ US #
      (''mode='' @ jRouterMode j @ US # (''policy='' @ pv @ US # (''registry='' @ rv @ US # ?r)))) =
    jProjectID j' @ US # (''task='' @ jTaskType j' @ US #
      (''mode='' @ jRouterMode j' @ US # (''policy='' @ pv' @ US # (''registry='' @ rv' @ US # ?r'))))"
    using split_field [OF _ _ 1] free(1,2) by (auto simp: jobSepFree_def)
  have b: "jProjectID j = jProjectID j'" and 3: "jTaskType j @ US #
      (''mode='' @ jRouterMode j @ US # (''policy='' @ pv @ US # (''registry='' @ rv @ US # ?r))) =
    jTaskType j' @ US #
      (''mode='' @ jRouterMode j' @ US # (''policy='' @ pv' @ US # (''registry='' @ rv' @ US # ?r')))"
    using split_field [OF _ _ 2] free(1,2) by (auto simp: jobSepFree_def)
  have c: "jTaskType j = jTaskType j'" and 4: "jRouterMode j @ US # (''policy='' @ pv @ US # (''registry='' @ rv @ US # ?r)) =
    jRouterMode j' @ US # (''policy='' @ pv' @ US # (''registry='' @ rv' @ US # ?r'))"
    using split_field [OF _ _ 3] free(1,2) by (auto simp: jobSepFree_def)
  have d: "jRouterMode j = jRouterMode j'" and 5: "pv @ US # (''registry='' @ rv @ US # ?r) = pv' @ US # (''registry='' @ rv' @ US # ?r')"
    using split_field [OF _ _ 4] free(1,2) by (auto simp: jobSepFree_def)
  have e: "pv = pv'" and 6: "rv @ US # ?r = rv' @ US # ?r'"
    using split_field [OF free(3,4) 5] by simp_all
  have "rv = rv' \<and> ?r = ?r'"
    by (rule split_field [OF free(5,6) 6])
  with a b c d e show ?thesis by simp
qed

lemma requestKeyPart_ignores:
  assumes "reqModel r = reqModel r'" "reqMessages r = reqMessages r'" "reqMetadata r = reqMetadata r'"
  shows "requestKeyPart sha sprint (Some r) = requestKeyPart sha sprint (Some r')"
  using assms by (simp add: requestKeyPart_def)

end
