(* ===== verification/Buffers.thy ===== *)
theory Buffers
  imports GoPrelude
begin

text \<open>
  The bounded in-memory logs of the program (\<open>audit.MemorySink\<close>, \<open>eventlog.RequestLog\<close>,
  \<open>eventlog.ComparisonTracker\<close>, the outcome window of \<open>health.Tracker\<close>) share one contract:
  after any number of insertions the buffer holds the most recent ones, oldest first, and
  never more than its capacity. The locale states the step law the providers prove; the
  clients' lemmas follow from it by induction over the insertions.
\<close>

locale recent_buffer =
  fixes add :: "'a \<Rightarrow> 'b \<Rightarrow> 'b"
    and items :: "'b \<Rightarrow> 'a list"
    and cap :: "'b \<Rightarrow> nat"
    and ok :: "'b \<Rightarrow> bool"
  assumes items_add: "ok b \<Longrightarrow> items (add x b) = lastN (cap b) (items b @ [x])"
    and cap_add: "cap (add x b) = cap b"
    and ok_add: "ok b \<Longrightarrow> ok (add x b)"
    and ok_bound: "ok b \<Longrightarrow> length (items b) \<le> cap b"
begin

lemma items_fold: "ok b \<Longrightarrow> items (fold add xs b) = lastN (cap b) (items b @ xs)"
proof (induction xs arbitrary: b)
  case Nil
  then show ?case by (simp add: ok_bound)
next
  case (Cons x xs)
  have "items (fold add (x # xs) b) = lastN (cap b) (lastN (cap b) (items b @ [x]) @ xs)"
    using Cons by (simp add: cap_add ok_add items_add)
  then show ?case by (simp add: lastN_append)
qed

lemma items_from_empty: "ok b \<Longrightarrow> items b = [] \<Longrightarrow> items (fold add xs b) = lastN (cap b) xs"
  by (simp add: items_fold)

lemma cap_fold: "cap (fold add xs b) = cap b"
  by (induction xs arbitrary: b) (simp_all add: cap_add)

lemma ok_fold: "ok b \<Longrightarrow> ok (fold add xs b)"
  by (induction xs arbitrary: b) (simp_all add: ok_add)

lemma length_bounded: "ok b \<Longrightarrow> length (items (fold add xs b)) \<le> cap b"
  by (simp add: items_fold)

lemma newest_kept: "ok b \<Longrightarrow> 0 < cap b \<Longrightarrow> last (items (add x b)) = x"
  by (simp add: items_add lastN_def)

end

end
