(* ===== verification/EventLog.thy ===== *)
theory EventLog
  imports Engine Buffers "HOL-Library.Word"
begin

text \<open>
  Package \<open>internal/eventlog\<close>: the events of the router, the bounded queue that carries them off
  the request path, and the handlers that keep recent history. The queue and its worker are a
  step relation; the handlers are functions on their state. \<open>event_fold\<close> is the contract of the
  handlers that accumulate a total: the total does not depend on the order of the events.
\<close>

abbreviation EventTypeDecision :: string where "EventTypeDecision \<equiv> ''decision''"
abbreviation EventTypeAttempt :: string where "EventTypeAttempt \<equiv> ''attempt''"

record DecisionEvent =
  deRequestID :: string
  deTenantID :: string
  deProjectID :: string
  deTaskType :: string
  deRiskLevel :: string
  deSensitivity :: string
  deSelectedModel :: string
  deSelectedProvider :: string
  deProviderModelID :: string
  dePolicyVersion :: string
  dePromptTokens :: int
  deEstimatedCostUSD :: float64
  deRoutingDurationMs :: int
  deRoutingDurationMicros :: int
  deBlocked :: bool
  deBlockCode :: string
  deShadowComparison :: "DecisionComparison option"
  deDecidedAt :: int

record AttemptEvent =
  aeRequestID :: string
  aeTenantID :: string
  aeProjectID :: string
  aeProviderID :: string
  aeModelID :: string
  aeAttemptIndex :: int
  aeSuccess :: bool
  aeErrorCode :: string
  aeDurationMs :: int
  aeInputTokens :: int
  aeOutputTokens :: int
  aeActualCostUSD :: float64
  aeEstimatedCostUSD :: float64
  aeFirstTokenMs :: int
  aeAttemptedAt :: int

record Event =
  qType :: string
  qDecision :: "DecisionEvent option"
  qAttempt :: "AttemptEvent option"

text \<open>\<open>MultiHandler\<close>: every handler that is not nil sees the event, in order.\<close>

definition MultiHandler :: "(Event \<Rightarrow> 's \<Rightarrow> 's) option list \<Rightarrow> Event \<Rightarrow> 's \<Rightarrow> 's" where
  "MultiHandler hs e s = fold (\<lambda>h s. h e s) (List.map_filter (\<lambda>h. h) hs) s"

section \<open>Accumulating handlers\<close>

locale event_fold =
  fixes handle :: "Event \<Rightarrow> 's \<Rightarrow> 's"
    and total :: "'s \<Rightarrow> 'm :: comm_monoid_add"
    and amount :: "Event \<Rightarrow> 'm"
  assumes handle_total: "total (handle e s) = total s + amount e"
begin

lemma total_fold: "total (fold handle es s) = total s + sum_list (map amount es)"
  by (induction es arbitrary: s) (simp_all add: handle_total ac_simps)

lemma order_irrelevant: "mset es = mset es' \<Longrightarrow> total (fold handle es s) = total (fold handle es' s)"
proof -
  assume "mset es = mset es'"
  then have "mset (map amount es) = mset (map amount es')" by simp
  then have "sum_list (map amount es) = sum_list (map amount es')"
    by (metis sum_mset_sum_list)
  then show ?thesis by (simp add: total_fold)
qed

end

section \<open>The queue\<close>

record Queue =
  qCap :: nat
  qBuf :: "Event list"
  qDropped :: int

definition NewQueue :: "int \<Rightarrow> Queue" where
  "NewQueue sz = (let n = (if sz \<le> 0 then 4096 else sz) in \<lparr>qCap = nat n, qBuf = [], qDropped = 0\<rparr>)"

definition Enqueue :: "Event \<Rightarrow> Queue \<Rightarrow> Queue" where
  "Enqueue e q = (if length (qBuf q) < qCap q then q\<lparr>qBuf := qBuf q @ [e]\<rparr>
                  else q\<lparr>qDropped := i64 (qDropped q + 1)\<rparr>)"

definition Backlog :: "Queue \<Rightarrow> nat" where
  "Backlog q = length (qBuf q)"

definition DroppedTotal :: "Queue \<Rightarrow> int" where
  "DroppedTotal q = qDropped q"

text \<open>
  The worker \<open>Run\<close>. A panic of the handler is recovered while the worker is running; while it
  drains the queue after cancellation it is not, and stops the worker. \<open>panics\<close> says on which
  events the handler panics. The state keeps, beside the queue, the events offered so far and
  those handed to the handler.
\<close>

datatype mode = Running | Draining | Stopped | Crashed

record Worker =
  wkQueue :: Queue
  wkMode :: mode
  wkCancelled :: bool
  wkOffered :: "Event list"
  wkAccepted :: "Event list"
  wkHandled :: "Event list"

definition initWorker :: "int \<Rightarrow> Worker" where
  "initWorker sz = \<lparr>wkQueue = NewQueue sz, wkMode = Running, wkCancelled = False, wkOffered = [],
     wkAccepted = [], wkHandled = []\<rparr>"

definition offer :: "Event \<Rightarrow> Worker \<Rightarrow> Worker" where
  "offer e w = w\<lparr>wkQueue := Enqueue e (wkQueue w), wkOffered := wkOffered w @ [e],
     wkAccepted := (if length (qBuf (wkQueue w)) < qCap (wkQueue w) then wkAccepted w @ [e] else wkAccepted w)\<rparr>"

definition takeHead :: "Event \<Rightarrow> Event list \<Rightarrow> Worker \<Rightarrow> Worker" where
  "takeHead e rest w = w\<lparr>wkQueue := (wkQueue w)\<lparr>qBuf := rest\<rparr>, wkHandled := wkHandled w @ [e]\<rparr>"

inductive run_step :: "(Event \<Rightarrow> bool) \<Rightarrow> Worker \<Rightarrow> Worker \<Rightarrow> bool" for panics where
  enqueue: "run_step panics w (offer e w)"
| cancel: "run_step panics w (w\<lparr>wkCancelled := True\<rparr>)"
| handle: "wkMode w = Running \<Longrightarrow> qBuf (wkQueue w) = e # rest \<Longrightarrow> run_step panics w (takeHead e rest w)"
| stop: "wkMode w = Running \<Longrightarrow> wkCancelled w \<Longrightarrow> run_step panics w (w\<lparr>wkMode := Draining\<rparr>)"
| drain: "wkMode w = Draining \<Longrightarrow> qBuf (wkQueue w) = e # rest \<Longrightarrow> \<not> panics e \<Longrightarrow>
    run_step panics w (takeHead e rest w)"
| crash: "wkMode w = Draining \<Longrightarrow> qBuf (wkQueue w) = e # rest \<Longrightarrow> panics e \<Longrightarrow>
    run_step panics w ((takeHead e rest w)\<lparr>wkMode := Crashed\<rparr>)"
| finish: "wkMode w = Draining \<Longrightarrow> qBuf (wkQueue w) = [] \<Longrightarrow> run_step panics w (w\<lparr>wkMode := Stopped\<rparr>)"

inductive_cases run_stepE [elim]: "run_step panics w w'"

inductive reachable :: "(Event \<Rightarrow> bool) \<Rightarrow> int \<Rightarrow> Worker \<Rightarrow> bool" for panics sz where
  init: "reachable panics sz (initWorker sz)"
| step: "reachable panics sz w \<Longrightarrow> run_step panics w w' \<Longrightarrow> reachable panics sz w'"

definition queue_inv :: "Worker \<Rightarrow> bool" where
  "queue_inv w \<longleftrightarrow>
     wkAccepted w = wkHandled w @ qBuf (wkQueue w) \<and>
     length (qBuf (wkQueue w)) \<le> qCap (wkQueue w) \<and>
     subseq (wkAccepted w) (wkOffered w) \<and>
     qDropped (wkQueue w) = i64 (int (length (wkOffered w)) - int (length (wkAccepted w)))"

lemma queue_inv_init: "queue_inv (initWorker sz)"
  by (simp add: queue_inv_def initWorker_def NewQueue_def Let_def i64_def)

lemma queue_inv_offer: "queue_inv w \<Longrightarrow> queue_inv (offer e w)"
  using i64_plus [of "int (length (wkOffered w)) - int (length (wkAccepted w))" 1]
    list_emb_prefix [of "(=)" "wkAccepted w" "wkOffered w" "[e]"]
    subseq_append [of "wkAccepted w" "[e]" "wkOffered w"]
  by (auto simp: queue_inv_def offer_def Enqueue_def algebra_simps)

lemma queue_inv_step: "run_step panics w w' \<Longrightarrow> queue_inv w \<Longrightarrow> queue_inv w'"
  by (induction rule: run_step.induct) (auto simp: queue_inv_offer, auto simp: queue_inv_def takeHead_def)

lemma reachable_queue_inv: "reachable panics sz w \<Longrightarrow> queue_inv w"
  by (induction rule: reachable.induct) (auto intro: queue_inv_init queue_inv_step)

section \<open>The request log\<close>

record RequestLogRecord =
  rlTime :: int
  rlRequestID :: string
  rlTaskType :: string
  rlRiskLevel :: string
  rlModel :: string
  rlProviderModelID :: string
  rlProvider :: string
  rlInputTokens :: int
  rlOutputTokens :: int
  rlCostUSD :: float64
  rlBlocked :: bool

record RequestLogTracker =
  rltLimit :: nat
  rltRecords :: "RequestLogRecord list"

definition NewRequestLogTracker :: "int \<Rightarrow> RequestLogTracker" where
  "NewRequestLogTracker limit = (let l = (if limit \<le> 0 then 100 else limit) in \<lparr>rltLimit = nat l, rltRecords = []\<rparr>)"

definition requestRecord :: "int \<Rightarrow> DecisionEvent \<Rightarrow> RequestLogRecord" where
  "requestRecord now d =
     (let t = (if deDecidedAt d = 0 then now else deDecidedAt d) in
      \<lparr>rlTime = t, rlRequestID = deRequestID d, rlTaskType = deTaskType d, rlRiskLevel = deRiskLevel d,
       rlModel = deSelectedModel d, rlProviderModelID = deProviderModelID d,
       rlProvider = deSelectedProvider d, rlInputTokens = dePromptTokens d, rlOutputTokens = 0,
       rlCostUSD = deEstimatedCostUSD d, rlBlocked = deBlocked d\<rparr>)"

definition addRecord :: "RequestLogRecord \<Rightarrow> RequestLogTracker \<Rightarrow> RequestLogTracker" where
  "addRecord rec t =
     (let rs = rltRecords t @ [rec] in
      t\<lparr>rltRecords := (if length rs > rltLimit t then drop (length rs - rltLimit t) rs else rs)\<rparr>)"

definition addDecision :: "int \<Rightarrow> DecisionEvent \<Rightarrow> RequestLogTracker \<Rightarrow> RequestLogTracker" where
  "addDecision now d t = addRecord (requestRecord now d) t"

definition fillRecord :: "AttemptEvent \<Rightarrow> RequestLogRecord \<Rightarrow> RequestLogRecord" where
  "fillRecord a r =
     (let r1 = r\<lparr>rlInputTokens := aeInputTokens a, rlOutputTokens := aeOutputTokens a\<rparr>;
          r2 = (if aeActualCostUSD a > 0 then r1\<lparr>rlCostUSD := aeActualCostUSD a\<rparr> else r1);
          r3 = (if aeModelID a \<noteq> [] then r2\<lparr>rlModel := aeModelID a\<rparr> else r2)
      in if aeProviderID a \<noteq> [] then r3\<lparr>rlProvider := aeProviderID a\<rparr> else r3)"

text \<open>The loop from the newest record backwards, on the list newest first.\<close>

fun fillNewest :: "AttemptEvent \<Rightarrow> RequestLogRecord list \<Rightarrow> RequestLogRecord list" where
  "fillNewest a [] = []"
| "fillNewest a (r # rs) = (if rlRequestID r = aeRequestID a then fillRecord a r # rs else r # fillNewest a rs)"

definition fillAttempt :: "AttemptEvent \<Rightarrow> RequestLogTracker \<Rightarrow> RequestLogTracker" where
  "fillAttempt a t = t\<lparr>rltRecords := rev (fillNewest a (rev (rltRecords t)))\<rparr>"

definition requestLogHandle :: "int \<Rightarrow> Event \<Rightarrow> RequestLogTracker \<Rightarrow> RequestLogTracker" where
  "requestLogHandle now e t =
     (if qType e = EventTypeDecision then
        (case qDecision e of None \<Rightarrow> t | Some d \<Rightarrow> addDecision now d t)
      else if qType e = EventTypeAttempt then
        (case qAttempt e of None \<Rightarrow> t | Some a \<Rightarrow> if aeSuccess a then fillAttempt a t else t)
      else t)"

definition recentRequests :: "int \<Rightarrow> RequestLogTracker option \<Rightarrow> RequestLogRecord list" where
  "recentRequests n t =
     (case t of None \<Rightarrow> []
      | Some t \<Rightarrow> if n \<le> 0 then rev (rltRecords t) else take (nat n) (rev (rltRecords t)))"

definition rltOK :: "RequestLogTracker \<Rightarrow> bool" where
  "rltOK t \<longleftrightarrow> length (rltRecords t) \<le> rltLimit t"

interpretation reqlog: recent_buffer addRecord rltRecords rltLimit rltOK
  by unfold_locales (auto simp: addRecord_def rltOK_def lastN_def Let_def)

lemma length_fillNewest [simp]: "length (fillNewest a rs) = length rs"
  by (induction rs) auto

lemma fillAttempt_ok: "rltOK t \<Longrightarrow> rltOK (fillAttempt a t)"
  by (simp add: rltOK_def fillAttempt_def)

lemma fillRecord_id [simp]: "rlRequestID (fillRecord a r) = rlRequestID r" "rlTime (fillRecord a r) = rlTime r"
  "rlBlocked (fillRecord a r) = rlBlocked r"
  by (simp_all add: fillRecord_def Let_def)

lemma fillNewest_ids: "map rlRequestID (fillNewest a rs) = map rlRequestID rs"
  by (induction rs) auto

lemma fillNewest_none: "\<forall>r \<in> set rs. rlRequestID r \<noteq> aeRequestID a \<Longrightarrow> fillNewest a rs = rs"
  by (induction rs) auto

lemma fillNewest_first:
  "\<forall>x \<in> set xs. rlRequestID x \<noteq> aeRequestID a \<Longrightarrow> rlRequestID r = aeRequestID a \<Longrightarrow>
   fillNewest a (xs @ r # ys) = xs @ fillRecord a r # ys"
  by (induction xs) auto

lemma requestLogHandle_ok: "rltOK t \<Longrightarrow> rltOK (requestLogHandle now e t)"
  by (auto simp: requestLogHandle_def addDecision_def fillAttempt_ok reqlog.ok_add split: option.split)

lemma requestLogHandle_fold_ok: "rltOK t \<Longrightarrow> rltOK (fold (requestLogHandle now) es t)"
  by (induction es arbitrary: t) (auto intro: requestLogHandle_ok)

section \<open>The comparison tracker\<close>

record ComparisonSummary =
  csTotal :: int
  csChangedCount :: int
  csRouteChangedCount :: int
  csFallbackChangedCount :: int
  csTimeoutChangedCount :: int
  csVerifierChangedCount :: int
  csPolicyVersionChangedCount :: int
  csCostChangedCount :: int
  csEstimatedCostDeltaMicroUSD :: int
  csEstimatedCostDeltaUSD :: float64

record ComparisonRecord =
  crRequestID :: string
  crTenantID :: string
  crProjectID :: string
  crTaskType :: string
  crRiskLevel :: string
  crDecidedAt :: int
  crComparison :: DecisionComparison

record ComparisonTracker =
  ctMaxRecent :: nat
  ctRecent :: "ComparisonRecord list"
  ctSummary :: ComparisonSummary

definition zeroSummary :: ComparisonSummary where
  "zeroSummary = \<lparr>csTotal = 0, csChangedCount = 0, csRouteChangedCount = 0, csFallbackChangedCount = 0,
     csTimeoutChangedCount = 0, csVerifierChangedCount = 0, csPolicyVersionChangedCount = 0,
     csCostChangedCount = 0, csEstimatedCostDeltaMicroUSD = 0, csEstimatedCostDeltaUSD = 0\<rparr>"

definition NewComparisonTracker :: "int \<Rightarrow> ComparisonTracker" where
  "NewComparisonTracker m =
     (let mx = (if m \<le> 0 then 50 else m) in \<lparr>ctMaxRecent = nat mx, ctRecent = [], ctSummary = zeroSummary\<rparr>)"

definition cloneRouteDecision :: "RouteDecision \<Rightarrow> RouteDecision" where
  "cloneRouteDecision d = d\<lparr>rdFallbacks := [] @ rdFallbacks d, rdDecisionReasons := [] @ rdDecisionReasons d\<rparr>"

definition cloneDecisionComparison :: "DecisionComparison \<Rightarrow> DecisionComparison" where
  "cloneDecisionComparison c = c\<lparr>dcPrimary := cloneRouteDecision (dcPrimary c),
     dcSecondary := cloneRouteDecision (dcSecondary c)\<rparr>"

definition cloneComparisonRecord :: "ComparisonRecord \<Rightarrow> ComparisonRecord" where
  "cloneComparisonRecord r = r\<lparr>crComparison := cloneDecisionComparison (crComparison r)\<rparr>"

lemma comparison_clones [simp, clone_simps]:
  "cloneRouteDecision d = d" "cloneDecisionComparison c = c" "cloneComparisonRecord r = r"
  by (simp_all add: cloneRouteDecision_def cloneDecisionComparison_def cloneComparisonRecord_def)

definition bump :: "bool \<Rightarrow> int \<Rightarrow> int" where
  "bump b n = (if b then i64 (n + 1) else n)"

definition addSummary :: "DecisionComparison \<Rightarrow> ComparisonSummary \<Rightarrow> ComparisonSummary" where
  "addSummary c s =
     (let delta = i64 (csEstimatedCostDeltaMicroUSD s + dcEstimatedCostDeltaMicroUSD c) in
      \<lparr>csTotal = i64 (csTotal s + 1), csChangedCount = bump (dcChanged c) (csChangedCount s),
       csRouteChangedCount = bump (dcRouteChanged c) (csRouteChangedCount s),
       csFallbackChangedCount = bump (dcFallbackChanged c) (csFallbackChangedCount s),
       csTimeoutChangedCount = bump (dcTimeoutChanged c) (csTimeoutChangedCount s),
       csVerifierChangedCount = bump (dcRequiresVerifierChanged c) (csVerifierChangedCount s),
       csPolicyVersionChangedCount = bump (dcPolicyVersionChanged c) (csPolicyVersionChangedCount s),
       csCostChangedCount = bump (dcCostChanged c) (csCostChangedCount s),
       csEstimatedCostDeltaMicroUSD = delta, csEstimatedCostDeltaUSD = of_int delta / 1000000\<rparr>)"

definition pushRecent :: "ComparisonRecord \<Rightarrow> ComparisonTracker \<Rightarrow> ComparisonTracker" where
  "pushRecent r t = t\<lparr>ctRecent := (let rs = r # ctRecent t in
     if length rs > ctMaxRecent t then take (ctMaxRecent t) rs else rs)\<rparr>"

definition recordComparison :: "DecisionEvent \<Rightarrow> DecisionComparison \<Rightarrow> ComparisonTracker \<Rightarrow> ComparisonTracker" where
  "recordComparison d c t =
     (let r = \<lparr>crRequestID = deRequestID d, crTenantID = deTenantID d, crProjectID = deProjectID d,
               crTaskType = deTaskType d, crRiskLevel = deRiskLevel d, crDecidedAt = deDecidedAt d,
               crComparison = cloneDecisionComparison c\<rparr>
      in pushRecent r (t\<lparr>ctSummary := addSummary (crComparison r) (ctSummary t)\<rparr>))"

definition comparisonHandle :: "Event \<Rightarrow> ComparisonTracker \<Rightarrow> ComparisonTracker" where
  "comparisonHandle e t =
     (if qType e \<noteq> EventTypeDecision then t
      else case qDecision e of None \<Rightarrow> t
        | Some d \<Rightarrow> (case deShadowComparison d of None \<Rightarrow> t | Some c \<Rightarrow> recordComparison d c t))"

definition comparisonSummary :: "ComparisonTracker option \<Rightarrow> ComparisonSummary" where
  "comparisonSummary t = (case t of None \<Rightarrow> zeroSummary | Some t \<Rightarrow> ctSummary t)"

definition recentComparisons :: "string \<Rightarrow> ComparisonTracker option \<Rightarrow> ComparisonRecord list" where
  "recentComparisons taskFilter t =
     (case t of None \<Rightarrow> []
      | Some t \<Rightarrow> map cloneComparisonRecord
          (filter (\<lambda>r. \<not> (taskFilter \<noteq> [] \<and> crTaskType r \<noteq> taskFilter)) (ctRecent t)))"

definition ctOK :: "ComparisonTracker \<Rightarrow> bool" where
  "ctOK t \<longleftrightarrow> length (ctRecent t) \<le> ctMaxRecent t"

text \<open>The list of recent comparisons is kept newest first; oldest first it is a recent buffer.\<close>

definition ctOldestFirst :: "ComparisonTracker \<Rightarrow> ComparisonRecord list" where
  "ctOldestFirst t = rev (ctRecent t)"

interpretation shadow: recent_buffer pushRecent ctOldestFirst ctMaxRecent ctOK
proof unfold_locales
  fix t :: ComparisonTracker and r
  assume ok: "ctOK t"
  show "ctOldestFirst (pushRecent r t) = lastN (ctMaxRecent t) (ctOldestFirst t @ [r])"
    by (simp add: pushRecent_def ctOldestFirst_def lastN_def Let_def rev_take drop_Cons' Suc_diff_le)
  show "ctOK (pushRecent r t)"
    using ok by (auto simp: pushRecent_def ctOK_def Let_def)
  show "length (ctOldestFirst t) \<le> ctMaxRecent t"
    using ok by (simp add: ctOK_def ctOldestFirst_def)
qed (simp add: pushRecent_def)

text \<open>The total cost delta, as the machine word it is kept in, and what one event adds to it.\<close>

definition deltaTotal :: "ComparisonTracker \<Rightarrow> 64 word" where
  "deltaTotal t = word_of_int (csEstimatedCostDeltaMicroUSD (ctSummary t))"

definition deltaAmount :: "Event \<Rightarrow> 64 word" where
  "deltaAmount e =
     (if qType e \<noteq> EventTypeDecision then 0
      else case Option.bind (qDecision e) deShadowComparison of None \<Rightarrow> 0
        | Some c \<Rightarrow> word_of_int (dcEstimatedCostDeltaMicroUSD c))"

lemma word_of_i64 [simp]: "(word_of_int (i64 x) :: 64 word) = word_of_int x"
proof -
  have "i64 x mod 2 ^ 64 = (x + 2 ^ 63 - 2 ^ 63) mod 2 ^ 64"
    unfolding i64_def by (rule mod_diff_left_eq)
  then show ?thesis
    by (simp add: word_of_int_eq_iff take_bit_eq_mod)
qed

interpretation delta: event_fold comparisonHandle deltaTotal deltaAmount
  by unfold_locales
     (auto simp: comparisonHandle_def deltaTotal_def deltaAmount_def recordComparison_def pushRecent_def
       addSummary_def Let_def split: option.split)

end
