(* ===== verification/Budget.thy ===== *)
theory Budget
  imports EventLog
begin

text \<open>
  Package \<open>internal/budget\<close>: spend caps per tenant and per project. The ledger accrues
  micro-USD from decision events; the evaluator compares what is accrued with the cap that
  applies. The ledger is an \<open>event_fold\<close>: what a tenant has spent, as the 64-bit word it is
  kept in, does not depend on the order of the events.
\<close>

abbreviation ActionBlock :: string where "ActionBlock \<equiv> ''block''"
abbreviation ActionDowngrade :: string where "ActionDowngrade \<equiv> ''downgrade''"
abbreviation StatusOK :: string where "StatusOK \<equiv> ''ok''"
abbreviation StatusWarn :: string where "StatusWarn \<equiv> ''warn''"
abbreviation StatusOver :: string where "StatusOver \<equiv> ''over''"

definition DefaultWarnThreshold :: float64 where
  "DefaultWarnThreshold = 8 / 10"

record Cap =
  capLimitMicroUSD :: int
  capWarnThreshold :: float64
  capAction :: string

definition capWarn :: "Cap \<Rightarrow> float64" where
  "capWarn c =
     (let w = (if capWarnThreshold c \<le> 0 then DefaultWarnThreshold else capWarnThreshold c)
      in if w > 1 then 1 else w)"

definition capActionOf :: "Cap \<Rightarrow> string" where
  "capActionOf c = (if capAction c = ActionDowngrade then ActionDowngrade else ActionBlock)"

record Verdict =
  vStatus :: string
  vAction :: string
  vSpentMicroUSD :: int
  vLimitMicroUSD :: int
  vFraction :: float64
  vScope :: string

definition okVerdict :: Verdict where
  "okVerdict = \<lparr>vStatus = StatusOK, vAction = [], vSpentMicroUSD = 0, vLimitMicroUSD = 0,
     vFraction = 0, vScope = []\<rparr>"

definition vBlocked :: "Verdict \<Rightarrow> bool" where
  "vBlocked v \<longleftrightarrow> vStatus v = StatusOver \<and> vAction v = ActionBlock"

definition vDowngrade :: "Verdict \<Rightarrow> bool" where
  "vDowngrade v \<longleftrightarrow> vStatus v = StatusOver \<and> vAction v = ActionDowngrade"

section \<open>Caps\<close>

type_synonym scopeKey = "string \<times> string"

record Caps =
  cpTenant :: "(string, Cap) gomap"
  cpProject :: "(scopeKey, Cap) gomap"

definition NewCaps :: Caps where
  "NewCaps = \<lparr>cpTenant = [], cpProject = []\<rparr>"

definition SetTenant :: "string \<Rightarrow> Cap \<Rightarrow> Caps \<Rightarrow> Caps" where
  "SetTenant tenant cp c = (if tenant = [] then c else c\<lparr>cpTenant := mput tenant cp (cpTenant c)\<rparr>)"

definition SetProject :: "string \<Rightarrow> string \<Rightarrow> Cap \<Rightarrow> Caps \<Rightarrow> Caps" where
  "SetProject tenant project cp c =
     (if tenant = [] \<or> project = [] then c
      else c\<lparr>cpProject := mput (tenant, project) cp (cpProject c)\<rparr>)"

text \<open>The cap that applies and whether it is the project's.\<close>

definition capsLookup :: "string \<Rightarrow> string \<Rightarrow> Caps \<Rightarrow> (Cap \<times> bool) option" where
  "capsLookup tenant project c =
     (case (if project \<noteq> [] then mget (cpProject c) (tenant, project) else None) of
        Some cp \<Rightarrow> Some (cp, True)
      | None \<Rightarrow> (case mget (cpTenant c) tenant of Some ct \<Rightarrow> Some (ct, False) | None \<Rightarrow> None))"

section \<open>The ledger\<close>

record Ledger =
  lgByTenant :: "(string, int) gomap"
  lgByScope :: "(scopeKey, int) gomap"

definition NewLedger :: Ledger where
  "NewLedger = \<lparr>lgByTenant = [], lgByScope = []\<rparr>"

definition ledgerAdd :: "string \<Rightarrow> string \<Rightarrow> int \<Rightarrow> Ledger \<Rightarrow> Ledger" where
  "ledgerAdd tenant project micros l =
     (if tenant = [] \<or> micros \<le> 0 then l
      else
        let l1 = l\<lparr>lgByTenant := mput tenant (i64 (mget0 0 (lgByTenant l) tenant + micros)) (lgByTenant l)\<rparr>
        in if project \<noteq> []
           then l1\<lparr>lgByScope := mput (tenant, project)
                  (i64 (mget0 0 (lgByScope l) (tenant, project) + micros)) (lgByScope l)\<rparr>
           else l1)"

definition SpentTenant :: "Ledger \<Rightarrow> string \<Rightarrow> int" where
  "SpentTenant l tenant = mget0 0 (lgByTenant l) tenant"

definition SpentProject :: "Ledger \<Rightarrow> string \<Rightarrow> string \<Rightarrow> int" where
  "SpentProject l tenant project = mget0 0 (lgByScope l) (tenant, project)"

text \<open>The conversion to \<open>int64\<close> of a value out of range is left to the implementation by the
  language; it is the wrapped value here.\<close>

definition usdToMicros :: "float64 \<Rightarrow> int" where
  "usdToMicros usd = (if usd \<le> 0 then 0 else i64 (mathRound (usd * 1000000)))"

definition ledgerHandle :: "Event \<Rightarrow> Ledger \<Rightarrow> Ledger" where
  "ledgerHandle e l =
     (if qType e \<noteq> EventTypeDecision then l
      else case qDecision e of None \<Rightarrow> l
        | Some d \<Rightarrow>
            if deBlocked d then l
            else ledgerAdd (deTenantID d) (deProjectID d) (usdToMicros (deEstimatedCostUSD d)) l)"

section \<open>The evaluator\<close>

record BudgetEvaluator =
  evCaps :: "Caps option"
  evLedger :: "Ledger option"

definition scopeLabel :: "string \<Rightarrow> string \<Rightarrow> bool \<Rightarrow> string" where
  "scopeLabel tenant project projectScoped =
     ''tenant='' @ tenant @ (if projectScoped then '' project='' @ project else [])"

definition budgetVerdict :: "Ledger \<Rightarrow> string \<Rightarrow> string \<Rightarrow> Cap \<Rightarrow> bool \<Rightarrow> Verdict" where
  "budgetVerdict l tenant project cp projectScoped =
     (let spent = (if projectScoped then SpentProject l tenant project else SpentTenant l tenant);
          v = \<lparr>vStatus = [], vAction = [], vSpentMicroUSD = spent, vLimitMicroUSD = capLimitMicroUSD cp,
               vFraction = of_int spent / of_int (capLimitMicroUSD cp),
               vScope = scopeLabel tenant project projectScoped\<rparr>
      in if spent \<ge> capLimitMicroUSD cp then v\<lparr>vStatus := StatusOver, vAction := capActionOf cp\<rparr>
         else if vFraction v \<ge> capWarn cp then v\<lparr>vStatus := StatusWarn\<rparr>
         else v\<lparr>vStatus := StatusOK\<rparr>)"

definition budgetCheck :: "BudgetEvaluator option \<Rightarrow> string \<Rightarrow> string \<Rightarrow> Verdict" where
  "budgetCheck ev tenant project =
     (case ev of None \<Rightarrow> okVerdict
      | Some e \<Rightarrow> (case (evCaps e, evLedger e) of
          (Some caps, Some l) \<Rightarrow>
            (case capsLookup tenant project caps of
               None \<Rightarrow> okVerdict
             | Some (cp, projectScoped) \<Rightarrow>
                 if capLimitMicroUSD cp \<le> 0 then okVerdict
                 else budgetVerdict l tenant project cp projectScoped)
        | _ \<Rightarrow> okVerdict))"

section \<open>Accrual\<close>

text \<open>What one event adds to what a tenant, or a tenant's project, has spent.\<close>

definition billedTo :: "(DecisionEvent \<Rightarrow> bool) \<Rightarrow> Event \<Rightarrow> int" where
  "billedTo sel e =
     (case qDecision e of
        Some d \<Rightarrow> if qType e = EventTypeDecision \<and> \<not> deBlocked d \<and> deTenantID d \<noteq> [] \<and> sel d
                       \<and> 0 < usdToMicros (deEstimatedCostUSD d)
                  then usdToMicros (deEstimatedCostUSD d) else 0
      | None \<Rightarrow> 0)"

definition tenantBill :: "string \<Rightarrow> Event \<Rightarrow> int" where
  "tenantBill t = billedTo (\<lambda>d. deTenantID d = t)"

definition projectBill :: "string \<Rightarrow> string \<Rightarrow> Event \<Rightarrow> int" where
  "projectBill t p = billedTo (\<lambda>d. deTenantID d = t \<and> deProjectID d = p \<and> p \<noteq> [])"

definition tenantWord :: "string \<Rightarrow> Ledger \<Rightarrow> 64 word" where
  "tenantWord t l = word_of_int (SpentTenant l t)"

definition projectWord :: "string \<Rightarrow> string \<Rightarrow> Ledger \<Rightarrow> 64 word" where
  "projectWord t p l = word_of_int (SpentProject l t p)"

lemmas ledger_simps = ledgerHandle_def ledgerAdd_def SpentTenant_def SpentProject_def mget0_def Let_def
  billedTo_def

interpretation tenant_spend: event_fold ledgerHandle "tenantWord t" "\<lambda>e. word_of_int (tenantBill t e)" for t
  by unfold_locales (auto simp: ledger_simps tenantBill_def tenantWord_def split: option.split)

interpretation project_spend: event_fold ledgerHandle "projectWord t p"
  "\<lambda>e. word_of_int (projectBill t p e)" for t p
  by unfold_locales (auto simp: ledger_simps projectBill_def projectWord_def split: option.split)

definition ledgerOK :: "Ledger \<Rightarrow> bool" where
  "ledgerOK l \<longleftrightarrow> mall in_i64 (lgByTenant l) \<and> mall in_i64 (lgByScope l)"

lemma word_sum_list: "sum_list (map (\<lambda>e. word_of_int (f e)) es) = (word_of_int (sum_list (map f es)) :: 64 word)"
  by (induction es) simp_all

lemma i64_of_word:
  assumes "(word_of_int x :: 64 word) = word_of_int y" and "in_i64 x"
  shows "x = i64 y"
proof -
  have "x mod 2 ^ 64 = y mod 2 ^ 64"
    using assms(1) by (simp add: word_of_int_eq_iff take_bit_eq_mod)
  then have "(x + 2 ^ 63) mod 2 ^ 64 = (y + 2 ^ 63) mod 2 ^ 64"
    by (rule mod_add_cong) simp
  then have "i64 x = i64 y"
    by (simp only: i64_def)
  with assms(2) show ?thesis by simp
qed

lemma ledgerOK_add: "ledgerOK l \<Longrightarrow> ledgerOK (ledgerAdd t p m l)"
  by (simp add: ledgerOK_def ledgerAdd_def Let_def mall_put)

lemma ledgerOK_handle: "ledgerOK l \<Longrightarrow> ledgerOK (ledgerHandle e l)"
  by (auto simp: ledgerHandle_def ledgerOK_add split: option.split)

lemma ledgerOK_fold: "ledgerOK l \<Longrightarrow> ledgerOK (fold ledgerHandle es l)"
  by (induction es arbitrary: l) (simp_all add: ledgerOK_handle)

lemma in_i64_zero [simp]: "in_i64 0"
  by (simp add: in_i64_def)

lemma ledgerOK_Spent: "ledgerOK l \<Longrightarrow> in_i64 (SpentTenant l t)" "ledgerOK l \<Longrightarrow> in_i64 (SpentProject l t p)"
  by (auto simp: SpentTenant_def SpentProject_def mget0_def ledgerOK_def split: option.split dest: mall_get)

lemma ledgerOK_New [simp]: "ledgerOK NewLedger"
  by (simp add: ledgerOK_def NewLedger_def)

lemma Spent_New [simp]: "SpentTenant NewLedger t = 0" "SpentProject NewLedger t p = 0"
  by (simp_all add: SpentTenant_def SpentProject_def NewLedger_def mget0_def)

lemma SpentTenant_fold:
  "SpentTenant (fold ledgerHandle es NewLedger) t = i64 (sum_list (map (tenantBill t) es))"
  using tenant_spend.total_fold [of t es NewLedger]
  by (intro i64_of_word ledgerOK_Spent ledgerOK_fold) (simp_all add: tenantWord_def word_sum_list)

lemma SpentProject_fold:
  "SpentProject (fold ledgerHandle es NewLedger) t p = i64 (sum_list (map (projectBill t p) es))"
  using project_spend.total_fold [of t p es NewLedger]
  by (intro i64_of_word ledgerOK_Spent ledgerOK_fold) (simp_all add: projectWord_def word_sum_list)

lemma budgetVerdict_over:
  "vBlocked (budgetVerdict l t p cp ps) \<longleftrightarrow>
     capLimitMicroUSD cp \<le> (if ps then SpentProject l t p else SpentTenant l t) \<and> capAction cp \<noteq> ActionDowngrade"
  "vDowngrade (budgetVerdict l t p cp ps) \<longleftrightarrow>
     capLimitMicroUSD cp \<le> (if ps then SpentProject l t p else SpentTenant l t) \<and> capAction cp = ActionDowngrade"
  by (auto simp: budgetVerdict_def vBlocked_def vDowngrade_def capActionOf_def Let_def)

lemma okVerdict_not_over [simp]: "\<not> vBlocked okVerdict" "\<not> vDowngrade okVerdict"
  by (simp_all add: okVerdict_def vBlocked_def vDowngrade_def)

lemma budgetCheck_configured:
  "budgetCheck (Some \<lparr>evCaps = Some caps, evLedger = Some l\<rparr>) t p =
     (case capsLookup t p caps of None \<Rightarrow> okVerdict
      | Some (cp, ps) \<Rightarrow> if capLimitMicroUSD cp \<le> 0 then okVerdict else budgetVerdict l t p cp ps)"
  by (simp add: budgetCheck_def)

end
