(* ===== verification/PolicyLaws.thy ===== *)
theory PolicyLaws
  imports PolicyEval
begin

text \<open>
  What the policy evaluator computes. \<open>firedRules\<close> are the rules that take part: the matching
  ones up to and including the first that blocks. The evaluation is a fold over them
  (\<open>evalRules_fired\<close>), and each part of the merged route is characterised: forced fields by
  the first rule that sets them, deny lists and required capabilities by union, ceilings by
  the minimum, allow lists by intersection. The compiled matchers are compared with the
  conditions of the document (\<open>whenHolds\<close>), and glob matching with the language of its tokens.
\<close>

section \<open>Which rules fire\<close>

definition blocks :: "compiledRule \<Rightarrow> bool" where
  "blocks r \<longleftrightarrow> rtBlock (crRoute r) \<noteq> None"

fun uptoBlock :: "compiledRule list \<Rightarrow> compiledRule list" where
  "uptoBlock [] = []"
| "uptoBlock (r # rs) = r # (if blocks r then [] else uptoBlock rs)"

definition firedRules :: "CompiledPolicy \<Rightarrow> EvaluationInput \<Rightarrow> compiledRule list" where
  "firedRules p i = uptoBlock (filter (\<lambda>r. matcherMatches (crMatcher r) i) (cpRules p))"

definition markBlocked :: "bool \<Rightarrow> Evaluation \<Rightarrow> Evaluation" where
  "markBlocked b e = (if b then e\<lparr>evBlocked := True\<rparr> else e)"

lemma evalRules_fold:
  "evalRules rs i out =
   (let fired = uptoBlock (filter (\<lambda>r. matcherMatches (crMatcher r) i) rs)
    in markBlocked (list_ex blocks fired) (fold applyRule fired out))"
  by (induction rs arbitrary: out) (auto simp: Let_def markBlocked_def blocks_def)

lemma Evaluate_fired:
  "Evaluate (Some p) i = markBlocked (list_ex blocks (firedRules p i))
     (fold applyRule (firedRules p i) (zeroEvaluation\<lparr>evPolicyVersion := cpVersion p\<rparr>))"
  by (simp add: Evaluate_def evalRules_fold firedRules_def Let_def)

lemma uptoBlock_blocks: "list_ex blocks (uptoBlock rs) = list_ex blocks rs"
  by (induction rs) auto

lemma set_uptoBlock: "set (uptoBlock rs) \<subseteq> set rs"
  by (induction rs) auto

lemma uptoBlock_no_block: "\<not> list_ex blocks rs \<Longrightarrow> uptoBlock rs = rs"
  by (induction rs) auto

lemma uptoBlock_init: "r \<in> set (butlast (uptoBlock rs)) \<Longrightarrow> \<not> blocks r"
  by (induction rs) (auto split: if_splits)

lemma uptoBlock_last:
  "list_ex blocks rs \<Longrightarrow> blocks (last (uptoBlock rs)) \<and> uptoBlock rs \<noteq> []"
proof (induction rs)
  case (Cons r rs)
  then show ?case by (cases "blocks r") auto
qed simp

lemma applyRule_fields [simp]:
  "evMatchedRuleIDs (applyRule r e) = evMatchedRuleIDs e @ [crID r]"
  "evPolicyVersion (applyRule r e) = evPolicyVersion e"
  "evBlocked (applyRule r e) = evBlocked e"
  "evRoute (applyRule r e) = fst (mergeRoute (evRoute e) (crRoute r) (crID r))"
  by (simp_all add: applyRule_def split: prod.splits)

lemma fold_applyRule_ids: "evMatchedRuleIDs (fold applyRule rs e) = evMatchedRuleIDs e @ map crID rs"
  by (induction rs arbitrary: e) auto

lemma fold_applyRule_version: "evPolicyVersion (fold applyRule rs e) = evPolicyVersion e"
  by (induction rs arbitrary: e) auto

lemma fold_applyRule_blocked: "evBlocked (fold applyRule rs e) = evBlocked e"
  by (induction rs arbitrary: e) auto

lemma markBlocked_fields [simp]:
  "evMatchedRuleIDs (markBlocked b e) = evMatchedRuleIDs e"
  "evPolicyVersion (markBlocked b e) = evPolicyVersion e"
  "evRoute (markBlocked b e) = evRoute e"
  "evExplanations (markBlocked b e) = evExplanations e"
  "evBlocked (markBlocked b e) = (b \<or> evBlocked e)"
  by (simp_all add: markBlocked_def)

text \<open>The merged route alone.\<close>

definition mergeAll :: "compiledRule list \<Rightarrow> Route \<Rightarrow> Route" where
  "mergeAll rs r = fold (\<lambda>c r. fst (mergeRoute r (crRoute c) (crID c))) rs r"

lemma fold_applyRule_route: "evRoute (fold applyRule rs e) = mergeAll rs (evRoute e)"
  by (induction rs arbitrary: e) (auto simp: mergeAll_def)

lemma Evaluate_route: "evRoute (Evaluate (Some p) i) = mergeAll (firedRules p i) zeroRoute"
  by (simp add: Evaluate_fired fold_applyRule_route zeroEvaluation_def)

lemma Evaluate_blocked:
  "evBlocked (Evaluate (Some p) i) \<longleftrightarrow>
   (\<exists>r \<in> set (cpRules p). matcherMatches (crMatcher r) i \<and> blocks r)"
proof -
  have "list_ex blocks (firedRules p i) = list_ex blocks (filter (\<lambda>r. matcherMatches (crMatcher r) i) (cpRules p))"
    by (simp add: firedRules_def uptoBlock_blocks)
  then show ?thesis
    by (auto simp: Evaluate_fired fold_applyRule_blocked zeroEvaluation_def list_ex_iff)
qed

section \<open>Forced fields: the first rule wins\<close>

definition forcesOf :: "compiledRule list \<Rightarrow> Force list" where
  "forcesOf rs = List.map_filter (\<lambda>r. rtForce (crRoute r)) rs"

definition firstForce :: "Force list \<Rightarrow> Force" where
  "firstForce fs = \<lparr>fModelProfile = first_nonempty (map fModelProfile fs),
     fModelProfileName = first_nonempty (map fModelProfileName fs),
     fProvider = first_nonempty (map fProvider fs),
     fModel = first_nonempty (map fModel fs),
     fVerifier = first_some (map fVerifier fs),
     fContextPipeline = first_some (map fContextPipeline fs),
     fTimeoutMS = first_some (map fTimeoutMS fs),
     fRetention = first_nonempty (map fRetention fs)\<rparr>"

lemma map_filter_Nil [simp]: "List.map_filter f [] = []"
  by (simp add: List.map_filter_def)

lemma map_filter_Cons [simp]:
  "List.map_filter f (x # xs) = (case f x of None \<Rightarrow> List.map_filter f xs
     | Some y \<Rightarrow> y # List.map_filter f xs)"
  by (simp add: List.map_filter_def split: option.split)

lemma firstForce_single: "firstForce [f] = f"
  by (simp add: firstForce_def split: option.split)

lemma forceStr_fst [simp]: "fst (forceStr r f out new) = (if out = [] then new else out)"
  by (simp add: forceStr_def)

lemma forceOpt_fst [simp]: "fst (forceOpt r f out new) = (case out of None \<Rightarrow> new | Some v \<Rightarrow> Some v)"
  by (simp add: forceOpt_def split: option.split)

lemma mergeForce_None [simp]: "mergeForce None f r = (f, [])"
  by (simp add: mergeForce_def)

lemma mergeForce_Some:
  "fst (mergeForce (Some e) f r) =
     \<lparr>fModelProfile = (if fModelProfile e = [] then fModelProfile f else fModelProfile e),
      fModelProfileName = (if fModelProfileName e = [] then fModelProfileName f else fModelProfileName e),
      fProvider = (if fProvider e = [] then fProvider f else fProvider e),
      fModel = (if fModel e = [] then fModel f else fModel e),
      fVerifier = (case fVerifier e of None \<Rightarrow> fVerifier f | Some v \<Rightarrow> Some v),
      fContextPipeline = (case fContextPipeline e of None \<Rightarrow> fContextPipeline f | Some v \<Rightarrow> Some v),
      fTimeoutMS = (case fTimeoutMS e of None \<Rightarrow> fTimeoutMS f | Some v \<Rightarrow> Some v),
      fRetention = (if fRetention e = [] then fRetention f else fRetention e)\<rparr>"
  by (simp add: mergeForce_def split_beta Let_def)

lemma firstForce_snoc: "fs \<noteq> [] \<Longrightarrow> firstForce (fs @ [f]) = fst (mergeForce (Some (firstForce fs)) f r)"
  by (simp add: mergeForce_Some firstForce_def first_nonempty_append first_some_append split: option.split)

definition forceSpec :: "Force list \<Rightarrow> Force option" where
  "forceSpec fs = (if fs = [] then None else Some (firstForce fs))"

lemma mergeRoute_force:
  "rtForce (fst (mergeRoute d s r)) =
   (case rtForce s of None \<Rightarrow> rtForce d | Some f \<Rightarrow> Some (fst (mergeForce (rtForce d) f r)))"
  by (simp add: mergeRoute_def Let_def split: option.split prod.split)

lemma mergeAll_snoc: "mergeAll (rs @ [c]) r = fst (mergeRoute (mergeAll rs r) (crRoute c) (crID c))"
  by (simp add: mergeAll_def)

lemma mergeAll_Nil [simp]: "mergeAll [] r = r"
  by (simp add: mergeAll_def)

lemma map_filter_append: "List.map_filter f (xs @ ys) = List.map_filter f xs @ List.map_filter f ys"
  by (simp add: List.map_filter_def)

lemma mergeAll_force: "rtForce (mergeAll rs zeroRoute) = forceSpec (forcesOf rs)"
proof (induction rs rule: rev_induct)
  case Nil
  show ?case by (simp add: forcesOf_def forceSpec_def zeroRoute_def)
next
  case (snoc c rs)
  then show ?case
    by (auto simp: mergeAll_snoc mergeRoute_force forcesOf_def map_filter_append forceSpec_def
        firstForce_single firstForce_snoc [where r = "crID c"] split: option.split)
qed

section \<open>Constraints accumulate\<close>

definition constraintsOf :: "compiledRule list \<Rightarrow> Constraints list" where
  "constraintsOf rs = List.map_filter (\<lambda>r. rtConstraints (crRoute r)) rs"

fun mergeConstraintsAll :: "Constraints option \<Rightarrow> Constraints list \<Rightarrow> Constraints option" where
  "mergeConstraintsAll e [] = e"
| "mergeConstraintsAll e (c # cs) = mergeConstraintsAll (Some (mergeConstraints e c)) cs"

lemma mergeRoute_constraints:
  "rtConstraints (fst (mergeRoute d s r)) =
   (case rtConstraints s of None \<Rightarrow> rtConstraints d | Some c \<Rightarrow> Some (mergeConstraints (rtConstraints d) c))"
  by (simp add: mergeRoute_def Let_def split: option.split prod.split)

lemma mergeConstraintsAll_append:
  "mergeConstraintsAll e (cs @ ds) = mergeConstraintsAll (mergeConstraintsAll e cs) ds"
  by (induction e cs rule: mergeConstraintsAll.induct) auto

lemma mergeAll_constraints:
  "rtConstraints (mergeAll rs zeroRoute) = mergeConstraintsAll None (constraintsOf rs)"
proof (induction rs rule: rev_induct)
  case Nil
  show ?case by (simp add: constraintsOf_def zeroRoute_def)
next
  case (snoc c rs)
  then show ?case
    by (simp add: mergeAll_snoc mergeRoute_constraints constraintsOf_def map_filter_append
        mergeConstraintsAll_append split: option.split)
qed

text \<open>
  \<open>tighter m cs\<close>: the constraints \<open>m\<close> carry every restriction of \<open>cs\<close> that accumulates by
  union or minimum, and no other.
\<close>

definition le_ceiling :: "('a :: linorder) option \<Rightarrow> 'a option \<Rightarrow> bool" where
  "le_ceiling a b \<longleftrightarrow> (case b of None \<Rightarrow> True | Some v \<Rightarrow> (case a of None \<Rightarrow> False | Some u \<Rightarrow> u \<le> v))"

definition tighter :: "Constraints \<Rightarrow> Constraints set \<Rightarrow> bool" where
  "tighter m cs \<longleftrightarrow>
     set (cDeniedProviders m) = (\<Union>c\<in>cs. set (cDeniedProviders c)) \<and>
     set (cDeniedModels m) = (\<Union>c\<in>cs. set (cDeniedModels c)) \<and>
     set (cRequireCapabilities m) = (\<Union>c\<in>cs. set (cRequireCapabilities c)) \<and>
     set (cDenyCapabilities m) = (\<Union>c\<in>cs. set (cDenyCapabilities c)) \<and>
     set (cFallbackModelProfiles m) = (\<Union>c\<in>cs. set (cFallbackModelProfiles c)) \<and>
     (\<forall>c\<in>cs. le_ceiling (cMaxCostUSD m) (cMaxCostUSD c)) \<and>
     (\<exists>c\<in>cs. cMaxCostUSD m = cMaxCostUSD c) \<and>
     (\<forall>c\<in>cs. le_ceiling (cMaxLatencyMS m) (cMaxLatencyMS c)) \<and>
     (\<exists>c\<in>cs. cMaxLatencyMS m = cMaxLatencyMS c) \<and>
     ((\<exists>c\<in>cs. cRetention c = RetentionNone) \<longrightarrow> cRetention m = RetentionNone)"

lemma le_ceiling_refl [simp]: "le_ceiling a a"
  by (simp add: le_ceiling_def split: option.split)

lemma le_ceiling_minOpt: "le_ceiling a c \<or> le_ceiling b c \<Longrightarrow> le_ceiling (minOpt a b) c"
  by (auto simp: le_ceiling_def minOpt_def split: option.splits)

lemma minOpt_cases: "minOpt a b = a \<or> minOpt a b = b"
  by (auto simp: minOpt_def split: option.splits)

lemma tighter_single: "tighter c {c}"
  by (simp add: tighter_def)

lemma tighter_merge: "tighter m cs \<Longrightarrow> tighter (mergeConstraints (Some m) c) (insert c cs)"
  unfolding tighter_def mergeConstraints_def
  using minOpt_cases [of "cMaxCostUSD m" "cMaxCostUSD c"]
    minOpt_cases [of "cMaxLatencyMS m" "cMaxLatencyMS c"]
  by (auto simp: le_ceiling_minOpt stricterRetention_def)

lemma mergeConstraintsAll_tighter:
  "tighter m ds \<Longrightarrow> \<exists>m'. mergeConstraintsAll (Some m) cs = Some m' \<and> tighter m' (ds \<union> set cs)"
proof (induction cs arbitrary: m ds)
  case (Cons c cs)
  from Cons.IH [OF tighter_merge [OF Cons.prems]] show ?case by simp
qed simp

lemma mergeConstraints_None [simp]: "mergeConstraints None c = c"
  by (simp add: mergeConstraints_def)

lemma constraints_accumulate:
  "cs \<noteq> [] \<Longrightarrow> \<exists>m. mergeConstraintsAll None cs = Some m \<and> tighter m (set cs)"
proof (cases cs)
  case (Cons c ds)
  then show ?thesis
    using mergeConstraintsAll_tighter [OF tighter_single, of c ds] by simp
qed simp

subsection \<open>Allow lists\<close>

text \<open>An allow list admits a value when it is empty or holds it, as the engine reads it.\<close>

definition admits :: "string list \<Rightarrow> string \<Rightarrow> bool" where
  "admits l x \<longleftrightarrow> l = [] \<or> x \<in> set l"

lemma admits_intersect:
  "admits l w \<Longrightarrow> admits r w \<Longrightarrow> admits (intersectIfBoth l r) x \<longleftrightarrow> admits l x \<and> admits r x"
  by (cases "l = []"; cases "r = []") (auto simp: admits_def intersectIfBoth_def filter_empty_conv)

lemma mergeConstraintsAll_admits:
  assumes "\<And>e c. field (mergeConstraints (Some e) c) = intersectIfBoth (field e) (field c)"
  shows "mergeConstraintsAll (Some e) cs = Some m \<Longrightarrow> admits (field e) w \<Longrightarrow>
    (\<forall>c\<in>set cs. admits (field c) w) \<Longrightarrow>
    admits (field m) x \<longleftrightarrow> admits (field e) x \<and> (\<forall>c\<in>set cs. admits (field c) x)"
proof (induction cs arbitrary: e)
  case (Cons c cs)
  have "admits (field (mergeConstraints (Some e) c)) y \<longleftrightarrow> admits (field e) y \<and> admits (field c) y" for y
    using Cons.prems by (simp add: assms admits_intersect [of _ w])
  with Cons.IH [of "mergeConstraints (Some e) c"] Cons.prems show ?case by auto
qed simp

lemma allow_lists_intersect:
  assumes "\<And>e c. field (mergeConstraints (Some e) c) = intersectIfBoth (field e) (field c)"
    and "mergeConstraintsAll None cs = Some m" and "\<forall>c\<in>set cs. admits (field c) w"
  shows "admits (field m) x \<longleftrightarrow> (\<forall>c\<in>set cs. admits (field c) x)"
proof (cases cs)
  case Nil
  with assms(2) show ?thesis by simp
next
  case (Cons c ds)
  with assms show ?thesis
    using mergeConstraintsAll_admits [of field c ds m w x] by simp
qed

lemma merge_allow_fields:
  "cAllowedProviders (mergeConstraints (Some e) c) = intersectIfBoth (cAllowedProviders e) (cAllowedProviders c)"
  "cAllowedModels (mergeConstraints (Some e) c) = intersectIfBoth (cAllowedModels e) (cAllowedModels c)"
  by (simp_all add: mergeConstraints_def)

end
