(* ===== verification/EngineLaws.thy ===== *)
theory EngineLaws
  imports Engine PolicyLaws
begin

text \<open>
  What a routing decision guarantees. \<open>admissible\<close> collects the hard requirements on a model,
  read off the job, the policy and the health of its provider; \<open>hardFilter_iff\<close> shows that the
  filter accepts exactly those. The candidates are the selectable, capable and admissible models
  of the registry, the primary has the best score among them, and the fallback chain is drawn
  from the rest. Every path of \<open>Decide\<close> but disabled routing keeps the allow and deny lists.
\<close>

section \<open>Hard requirements\<close>

definition lists_admit :: "Constraints option \<Rightarrow> Model \<Rightarrow> bool" where
  "lists_admit c m \<longleftrightarrow> (\<forall>cs. c = Some cs \<longrightarrow>
     admits (cAllowedProviders cs) (mProviderID m) \<and> mProviderID m \<notin> set (cDeniedProviders cs) \<and>
     admits (cAllowedModels cs) (mID m) \<and> mID m \<notin> set (cDeniedModels cs))"

definition latency_within :: "Constraints option \<Rightarrow> Model \<Rightarrow> bool" where
  "latency_within c m \<longleftrightarrow> (\<forall>cs mx. c = Some cs \<longrightarrow> cMaxLatencyMS cs = Some mx \<longrightarrow>
     0 < P95FirstTokenMS (mLatency m) \<longrightarrow> P95FirstTokenMS (mLatency m) \<le> mx)"

definition has_denied :: "Constraints option \<Rightarrow> Model \<Rightarrow> bool" where
  "has_denied c m \<longleftrightarrow> (\<exists>cs. c = Some cs \<and>
     (CapStreaming \<in> set (cDenyCapabilities cs) \<and> Streaming (mCapabilities m) \<or>
      CapToolUse \<in> set (cDenyCapabilities cs) \<and> ToolCalls (mCapabilities m) \<or>
      CapVision \<in> set (cDenyCapabilities cs) \<and> Vision (mCapabilities m) \<or>
      CapLongContext \<in> set (cDenyCapabilities cs) \<and> LongContext (mCapabilities m)))"

definition force_admits :: "Force option \<Rightarrow> Model \<Rightarrow> bool" where
  "force_admits f m \<longleftrightarrow> (\<forall>fs. f = Some fs \<longrightarrow>
     (fModel fs = [] \<or> fModel fs = mID m \<or> fModel fs = mProviderModelID m) \<and>
     (fProvider fs = [] \<or> fProvider fs = mProviderID m) \<and>
     (fModelProfile fs = [] \<or> fModelProfile fs = mTier m))"

definition admissible :: "JobDescriptor \<Rightarrow> Route \<Rightarrow> HealthSnapshot \<Rightarrow> Model \<Rightarrow> bool" where
  "admissible job route health m \<longleftrightarrow>
     TierAtLeast (mTier m) (MinimumTierForTask job route) \<and> 1 / 10 \<le> health (mProviderID m) \<and>
     lists_admit (rtConstraints route) m \<and> latency_within (rtConstraints route) m \<and>
     \<not> has_denied (rtConstraints route) m \<and> force_admits (rtForce route) m \<and>
     \<not> (jRouterMode job = RouterModeCheap \<and> MinimumTierForTask job route \<noteq> TierPremium \<and>
        mTier m = TierPremium)"

lemma providerModelConstraintReason_iff:
  "providerModelConstraintReason m c = [] \<longleftrightarrow> lists_admit c m"
  by (auto simp: providerModelConstraintReason_def lists_admit_def admits_def split: option.split)

lemma deniedCapabilityReason_iff:
  "deniedCapabilityReason (mCapabilities m) ds = [] \<longleftrightarrow>
   \<not> has_denied (Some (c\<lparr>cDenyCapabilities := ds\<rparr>)) m"
  by (induction ds) (auto simp: has_denied_def)

lemma constraintReason_iff:
  "constraintReason m c = [] \<longleftrightarrow>
   lists_admit (Some c) m \<and> latency_within (Some c) m \<and> \<not> has_denied (Some c) m"
  using deniedCapabilityReason_iff [of m "cDenyCapabilities c" c]
  by (auto simp: constraintReason_def Let_def providerModelConstraintReason_iff latency_within_def
      split: option.split)

lemma forceReason_iff: "forceReason m f = [] \<longleftrightarrow> force_admits (Some f) m"
  by (auto simp: forceReason_def force_admits_def)

lemma None_admit [simp]:
  "lists_admit None m" "latency_within None m" "\<not> has_denied None m" "force_admits None m"
  by (simp_all add: lists_admit_def latency_within_def has_denied_def force_admits_def)

lemma hardFilter_iff:
  "hardFilter m job route health (MinimumTierForTask job route) = [] \<longleftrightarrow> admissible job route health m"
  by (auto simp: hardFilter_def admissible_def Let_def constraintReason_iff forceReason_iff not_less
      split: option.split)

section \<open>Candidates\<close>

lemma filterLoop_candidates:
  "frCandidates (filterLoop reason ms res) = frCandidates res @ filter (\<lambda>m. reason m = []) ms"
  by (induction reason ms res rule: filterLoop.induct) auto

definition neededCapabilities :: "JobDescriptor \<Rightarrow> Route \<Rightarrow> bool \<Rightarrow> Capabilities" where
  "neededCapabilities job route streaming =
     mergeCapabilities (requiredCapabilities job streaming) (capabilitiesFromPolicy (rtConstraints route))"

lemma FilterCandidates_candidates:
  "frCandidates (FilterCandidates job route snap (Some health) streaming) =
   filter (admissible job route health)
     (EnabledModelsWithCapabilities snap (neededCapabilities job route streaming))"
  by (simp add: FilterCandidates_def Let_def filterLoop_candidates healthOr_def hardFilter_iff
      neededCapabilities_def)

text \<open>A model that may serve the request.\<close>

definition routable :: "Snapshot \<Rightarrow> JobDescriptor \<Rightarrow> Route \<Rightarrow> HealthSnapshot \<Rightarrow> bool \<Rightarrow> Model \<Rightarrow> bool" where
  "routable sn job route health streaming m \<longleftrightarrow>
     mget (models sn) (mID m) = Some m \<and> modelSelectable sn m \<and>
     Satisfies (mCapabilities m) (neededCapabilities job route streaming) \<and>
     admissible job route health m"

lemma FilterCandidates_set:
  "snapshot_inv sn \<Longrightarrow>
   m \<in> set (frCandidates (FilterCandidates job route (Some sn) (Some health) streaming)) \<longleftrightarrow>
   routable sn job route health streaming m"
  by (auto simp: FilterCandidates_candidates Enabled_set routable_def)

lemma FilterCandidates_distinct:
  "snapshot_inv sn \<Longrightarrow>
   distinct (map mID (frCandidates (FilterCandidates job route (Some sn) (Some health) streaming)))"
  using distinct_if_sorted_ids [OF Enabled_sorted]
  by (simp add: FilterCandidates_candidates distinct_map_filter)

lemma mergeCapabilities_Merge: "mergeCapabilities = Merge"
  by (simp add: fun_eq_iff mergeCapabilities_def Merge_def)

definition capMet :: "Capabilities \<Rightarrow> Capability \<Rightarrow> bool" where
  "capMet caps c \<longleftrightarrow> (c = CapStreaming \<longrightarrow> Streaming caps) \<and> (c = CapToolUse \<longrightarrow> ToolCalls caps) \<and>
     (c = CapJSONSchema \<longrightarrow> JSONSchema caps) \<and> (c = CapVision \<longrightarrow> Vision caps) \<and>
     (c = CapLongContext \<longrightarrow> LongContext caps)"

lemma addCapability_Satisfies: "Satisfies caps (addCapability c base) \<longleftrightarrow> Satisfies caps base \<and> capMet caps c"
  by (simp add: addCapability_def capMet_def Satisfies_iff) blast

lemma addCapability_fold:
  "Satisfies caps (fold addCapability cs base) \<longleftrightarrow> Satisfies caps base \<and> (\<forall>c \<in> set cs. capMet caps c)"
  by (induction cs arbitrary: base) (auto simp: addCapability_Satisfies)

lemma capabilitiesFromPolicy_Satisfies:
  "Satisfies caps (capabilitiesFromPolicy c) \<longleftrightarrow>
   (\<forall>cs. c = Some cs \<longrightarrow> (\<forall>x \<in> set (cRequireCapabilities cs). capMet caps x))"
  by (auto simp: capabilitiesFromPolicy_def addCapability_fold split: option.split)
     (auto simp: Satisfies_iff noCapabilities_def)

lemma Satisfies_needed:
  "Satisfies caps (neededCapabilities job route streaming) \<longleftrightarrow>
   Satisfies caps (requiredCapabilities job streaming) \<and>
   Satisfies caps (capabilitiesFromPolicy (rtConstraints route))"
  by (simp add: neededCapabilities_def mergeCapabilities_Merge Satisfies_Merge)

section \<open>Tiers\<close>

lemma MinimumTier_conservative:
  "TierOrdinal (MinimumTierForTask (job\<lparr>jConservative := False\<rparr>) route) \<le>
   TierOrdinal (MinimumTierForTask (job\<lparr>jConservative := True\<rparr>) route) \<and>
   TierAtLeast (MinimumTierForTask (job\<lparr>jConservative := True\<rparr>) route) TierBalanced"
  by (simp add: MinimumTierForTask_def Let_def higherTier_def TierAtLeast_def)

lemma taskMinimumTier_risk:
  "jRiskLevel job \<in> {RiskHigh, RiskCritical} \<Longrightarrow>
   TierAtLeast (taskMinimumTier (jTaskType job) (jRiskLevel job)) TierBalanced"
  by (auto simp: taskMinimumTier_def TierAtLeast_def TierOrdinal_def)

section \<open>Ranking\<close>

lemma ScoreCandidates_set:
  assumes "slice_sorter srt"
  shows "scModel ` set (ScoreCandidates srt ms job t h w) = set ms"
  using slice_sorter.srt_set [OF assms]
  by (auto simp: ScoreCandidates_def Let_def scoreOne_def image_image image_iff)

lemma ScoreCandidates_length:
  assumes "slice_sorter srt"
  shows "length (ScoreCandidates srt ms job t h w) = length ms"
  using slice_sorter.srt_length [OF assms] by (simp add: ScoreCandidates_def Let_def)

lemma ScoreCandidates_distinct:
  assumes "slice_sorter srt" and "distinct (map mID ms)"
  shows "distinct (map (\<lambda>sc. mID (scModel sc)) (ScoreCandidates srt ms job t h w))"
  using assms(2) slice_sorter.srt_distinct [OF assms(1), of "\<lambda>sc. mID (scModel sc)"]
  by (simp add: ScoreCandidates_def Let_def comp_def scoreOne_def)

lemma ScoreCandidates_sorted:
  assumes "slice_sorter srt"
  shows "sorted_wrt (\<lambda>a b. scScore a \<ge> scScore b) (ScoreCandidates srt ms job t h w)"
  using slice_sorter.srt_sorted [OF assms strict_weak_key [of scScore]]
  by (simp add: ScoreCandidates_def Let_def not_less)

section \<open>Fallbacks\<close>

lemma fallbackLoop_take:
  "length chain \<le> 2 \<Longrightarrow> fallbackLoop valid pid scs chain =
   chain @ take (2 - length chain)
     (map (fallbackEntry \<circ> scModel) (filter (\<lambda>sc. mID (scModel sc) \<noteq> pid \<and> valid (scModel sc)) scs))"
proof (induction valid pid scs chain rule: fallbackLoop.induct)
  case (2 valid pid sc rest chain)
  then show ?case by (auto simp: not_le take_Cons' Suc_diff_le)
qed simp

lemma BuildFallbackChain_take:
  "BuildFallbackChain primary scs job route =
   take 2 (map (fallbackEntry \<circ> scModel)
     (filter (\<lambda>sc. mID (scModel sc) \<noteq> mID primary \<and> validFallback primary (scModel sc) job route) scs))"
  by (simp add: BuildFallbackChain_def fallbackLoop_take)

lemma BuildFallbackChain_length: "length (BuildFallbackChain primary scs job route) \<le> 2"
  by (simp add: BuildFallbackChain_take)

lemma BuildFallbackChain_in:
  "fe \<in> set (BuildFallbackChain primary scs job route) \<Longrightarrow>
   \<exists>sc \<in> set scs. fe = fallbackEntry (scModel sc) \<and> mID (scModel sc) \<noteq> mID primary \<and>
     validFallback primary (scModel sc) job route"
  by (auto simp: BuildFallbackChain_take dest!: in_set_takeD)

lemma validFallback_tier:
  "validFallback primary m job route \<Longrightarrow> jRiskLevel job \<in> {RiskHigh, RiskCritical} \<Longrightarrow>
   TierAtLeast (mTier m) (mTier primary)"
  by (auto simp: validFallback_def TierAtLeast_def split: if_splits)

lemma BuildFallbackChain_distinct:
  "distinct (map (\<lambda>sc. mID (scModel sc)) scs) \<Longrightarrow>
   distinct (map feModelID (BuildFallbackChain primary scs job route))"
  by (simp add: BuildFallbackChain_take take_map [symmetric] comp_def fallbackEntry_def
      distinct_map_filter distinct_take)

section \<open>The decision of a routed request\<close>

lemma decideRouted_cases:
  assumes srt: "slice_sorter srt" and inv: "snapshot_inv sn"
    and ok: "decideRouted srt e job pol ev (Some sn) health streaming = (dec, None)"
  obtains m ms scs where
    "ms = frCandidates (FilterCandidates job (evRoute ev) (Some sn) (Some health) streaming)"
    "scs = ScoreCandidates srt ms job (MinimumTierForTask job (evRoute ev)) (Some health) (enWeights e)"
    "scs \<noteq> []" "m = scModel (hd scs)" "m \<in> set ms"
    "rdSelectedModel dec = mID m" "rdSelectedProvider dec = mProviderID m"
    "rdProviderModelID dec = mProviderModelID m" "\<not> rdBlocked dec"
    "rdFallbacks dec = BuildFallbackChain m scs job (evRoute ev)"
    "rdTimeoutMS dec = resolveTimeout pol (evRoute ev) job"
    "rdRequiresVerifier dec = resolveVerifier job (evRoute ev)"
proof -
  define ms where "ms = frCandidates (FilterCandidates job (evRoute ev) (Some sn) (Some health) streaming)"
  define scs where "scs = ScoreCandidates srt ms job (MinimumTierForTask job (evRoute ev)) (Some health) (enWeights e)"
  from ok have ne: "ms \<noteq> []"
    by (auto simp: decideRouted_def Let_def ms_def)
  then have "scs \<noteq> []"
    using ScoreCandidates_length [OF srt, of ms] by (metis length_0_conv scs_def)
  moreover from this have "scModel (hd scs) \<in> set ms"
    using ScoreCandidates_set [OF srt, of ms] by (metis hd_in_set imageI scs_def)
  ultimately show ?thesis
    using ok ne that [OF ms_def scs_def]
    by (auto simp: decideRouted_def Let_def ms_def [symmetric] scs_def [symmetric])
qed

lemma decideRouted_selected:
  assumes srt: "slice_sorter srt" and inv: "snapshot_inv sn"
    and ok: "decideRouted srt e job pol ev (Some sn) health streaming = (dec, None)"
  shows "\<exists>m. routable sn job (evRoute ev) health streaming m \<and> rdSelectedModel dec = mID m \<and>
    rdSelectedProvider dec = mProviderID m \<and> rdProviderModelID dec = mProviderModelID m"
  using assms by (elim decideRouted_cases) (auto simp: FilterCandidates_set)

lemma decideRouted_fallbacks:
  assumes srt: "slice_sorter srt" and inv: "snapshot_inv sn"
    and ok: "decideRouted srt e job pol ev (Some sn) health streaming = (dec, None)"
  shows "length (rdFallbacks dec) \<le> 2 \<and> distinct (rdSelectedModel dec # map feModelID (rdFallbacks dec)) \<and>
    (\<exists>p. mget (models sn) (rdSelectedModel dec) = Some p \<and>
     (\<forall>fe \<in> set (rdFallbacks dec). \<exists>m. fe = fallbackEntry m \<and>
       routable sn job (evRoute ev) health streaming m \<and> validFallback p m job (evRoute ev)))"
  using assms
proof (elim decideRouted_cases)
  fix m ms scs
  assume ms: "ms = frCandidates (FilterCandidates job (evRoute ev) (Some sn) (Some health) streaming)"
    and scs: "scs = ScoreCandidates srt ms job (MinimumTierForTask job (evRoute ev)) (Some health) (enWeights e)"
    and m: "m \<in> set ms" and sel: "rdSelectedModel dec = mID m"
    and fb: "rdFallbacks dec = BuildFallbackChain m scs job (evRoute ev)"
  have dist: "distinct (map feModelID (rdFallbacks dec))"
    using BuildFallbackChain_distinct ScoreCandidates_distinct [OF srt FilterCandidates_distinct [OF inv]]
    by (simp add: fb scs ms)
  have each: "\<exists>m'. fe = fallbackEntry m' \<and> m' \<in> set ms \<and> mID m' \<noteq> mID m \<and> validFallback m m' job (evRoute ev)"
    if fe: "fe \<in> set (rdFallbacks dec)" for fe
  proof -
    from fe obtain sc where sc: "sc \<in> set scs" "fe = fallbackEntry (scModel sc)"
      "mID (scModel sc) \<noteq> mID m" "validFallback m (scModel sc) job (evRoute ev)"
      unfolding fb by (auto dest!: BuildFallbackChain_in)
    moreover from sc(1) have "scModel sc \<in> set ms"
      using ScoreCandidates_set [OF srt, of ms] by (metis imageI scs)
    ultimately show ?thesis by blast
  qed
  then have "rdSelectedModel dec \<notin> set (map feModelID (rdFallbacks dec))"
    unfolding sel by (auto dest!: each simp: fallbackEntry_def)
  moreover have "mget (models sn) (mID m) = Some m"
    using m by (simp add: ms FilterCandidates_set [OF inv] routable_def)
  ultimately show ?thesis
    using dist each BuildFallbackChain_length [of m scs job "evRoute ev"]
    by (auto simp: fb [symmetric] sel ms FilterCandidates_set [OF inv])
qed

text \<open>The score that ranks a candidate, given all of them.\<close>

definition candidateScore :: "Engine \<Rightarrow> JobDescriptor \<Rightarrow> Route \<Rightarrow> HealthSnapshot \<Rightarrow> Model list \<Rightarrow> Model \<Rightarrow> float64" where
  "candidateScore e job route health ms m =
     (let maxCost0 = maxOver (\<lambda>m. estimateCostMicroUSD m job) ms;
          maxLatency0 = maxOver (\<lambda>m. of_int (P95FirstTokenMS (mLatency m))) ms
      in scScore (scoreOne m job (MinimumTierForTask job route) health
           (applyRouterModeWeights (enWeights e) (jRouterMode job))
           (if maxCost0 = 0 then 1 else maxCost0) (if maxLatency0 = 0 then 1 else maxLatency0)))"

lemma ScoreCandidates_score:
  assumes "slice_sorter srt" and "sc \<in> set (ScoreCandidates srt ms job (MinimumTierForTask job route) (Some health) (enWeights e))"
  shows "scScore sc = candidateScore e job route health ms (scModel sc)"
  using assms(2) slice_sorter.srt_set [OF assms(1)]
  by (auto simp: ScoreCandidates_def candidateScore_def Let_def healthOr_def scoreOne_def split: if_splits)

lemma decideRouted_best:
  assumes srt: "slice_sorter srt" and inv: "snapshot_inv sn"
    and ok: "decideRouted srt e job pol ev (Some sn) health streaming = (dec, None)"
    and ms: "ms = frCandidates (FilterCandidates job (evRoute ev) (Some sn) (Some health) streaming)"
    and m: "mget (models sn) (rdSelectedModel dec) = Some p" and c: "m \<in> set ms"
  shows "candidateScore e job (evRoute ev) health ms m \<le> candidateScore e job (evRoute ev) health ms p"
  using srt inv ok
proof (elim decideRouted_cases)
  fix m' ms' scs
  assume "ms' = frCandidates (FilterCandidates job (evRoute ev) (Some sn) (Some health) streaming)"
    and scs: "scs = ScoreCandidates srt ms' job (MinimumTierForTask job (evRoute ev)) (Some health) (enWeights e)"
    and ne: "scs \<noteq> []" and m': "m' = scModel (hd scs)" "m' \<in> set ms'" "rdSelectedModel dec = mID m'"
  then have [simp]: "ms' = ms" by (simp add: ms)
  have p: "p = m'"
    using m m' by (simp add: ms FilterCandidates_set [OF inv] routable_def)
  obtain sc where sc: "sc \<in> set scs" "scModel sc = m"
    using c ScoreCandidates_set [OF srt, of ms] scs by (metis \<open>ms' = ms\<close> imageE)
  have "scScore sc \<le> scScore (hd scs)"
    using ScoreCandidates_sorted [OF srt, of ms' job "MinimumTierForTask job (evRoute ev)" "Some health" "enWeights e"] sc(1) ne
    unfolding scs [symmetric] by (cases scs) auto
  moreover have "scScore c = candidateScore e job (evRoute ev) health ms (scModel c)" if "c \<in> set scs" for c
    using ScoreCandidates_score [OF srt, of c ms job "evRoute ev" health e] that by (simp add: scs)
  ultimately show ?thesis
    using sc ne by (simp add: p m'(1))
qed

section \<open>Decide\<close>

lemma Evaluate_Block: "evBlocked (Evaluate (Some p) i) \<longleftrightarrow> rtBlock (evRoute (Evaluate (Some p) i)) \<noteq> None"
proof -
  have step: "rtBlock (fst (mergeRoute d s r)) = (case rtBlock s of None \<Rightarrow> rtBlock d | Some b \<Rightarrow> Some b)" for d s r
    by (simp add: mergeRoute_def Let_def split: option.split prod.split)
  have all: "rtBlock (mergeAll rs zeroRoute) \<noteq> None \<longleftrightarrow> (\<exists>c \<in> set rs. blocks c)" for rs
    by (induction rs rule: rev_induct)
       (auto simp: zeroRoute_def mergeAll_snoc step blocks_def split: option.splits)
  show ?thesis
    unfolding Evaluate_route all
    by (simp add: Evaluate_fired fold_applyRule_blocked zeroEvaluation_def list_ex_iff)
qed

lemma evaluationInput_conservative [simp]: "evaluationInput (job\<lparr>jConservative := b\<rparr>) = evaluationInput job"
  by (simp add: evaluationInput_def)

lemma evaluatePolicy_conservative [simp]:
  "evaluatePolicy pol (job\<lparr>jConservative := b\<rparr>) = evaluatePolicy pol job"
  by (cases pol) (simp_all add: evaluatePolicy_def)

lemma evaluatePolicy_Block:
  "evBlocked (evaluatePolicy pol job) \<Longrightarrow> rtBlock (evRoute (evaluatePolicy pol job)) \<noteq> None"
  using Evaluate_Block
  by (auto simp: evaluatePolicy_def zeroEvaluation_def split: option.splits)

lemma decide_pieces_no_panic:
  "snd (decideDisabled job pol snap) \<noteq> Some NilPanic"
  "snd (decidePinned m src job ev snap) \<noteq> Some NilPanic"
  "snd (decideRouted srt e job pol ev snap health streaming) \<noteq> Some NilPanic"
  by (auto simp: decideDisabled_def decidePinned_def decideRouted_def Let_def split: option.split)

lemma decideBlocked_no_panic: "evBlocked (evaluatePolicy pol job) \<Longrightarrow>
   snd (decideBlocked (evaluatePolicy pol job)) \<noteq> Some NilPanic"
  using evaluatePolicy_Block [of pol job] by (auto simp: decideBlocked_def)

lemma Decide_no_panic_aux: "snd (snd (Decide srt e job pol health streaming)) \<noteq> Some NilPanic"
  unfolding Decide_def Let_def
  by (simp add: decide_pieces_no_panic decideBlocked_no_panic split: sum.split option.split)

text \<open>The path a request takes.\<close>

definition routed :: "Engine \<Rightarrow> JobDescriptor \<Rightarrow> CompiledPolicy option \<Rightarrow> bool" where
  "routed e job pol \<longleftrightarrow> jRouterMode job \<noteq> RouterModeDisabled \<and> jExplicitModel job = None \<and>
     (\<forall>f. rtForce (evRoute (evaluatePolicy pol job)) = Some f \<longrightarrow> fModel f = [])"

lemma Decide_routed:
  assumes "routed e job pol" and "storeGet (enRegistry e) = Inr sn"
    and "snd (Decide srt e job pol health streaming) = (dec, None)"
  shows "decideRouted srt e (job\<lparr>jConservative := conservativeForJob e job\<rparr>) pol
    (evaluatePolicy pol job) (Some sn) (healthOr health) streaming = (dec, None)"
  using assms
  by (auto simp: Decide_def routed_def Let_def decideBlocked_def split: option.splits if_splits)

lemma Decide_routed_eq:
  assumes "routed e job pol" and "storeGet (enRegistry e) = Inr sn" and "\<not> evBlocked (evaluatePolicy pol job)"
  shows "snd (Decide srt e job pol health streaming) =
    decideRouted srt e (job\<lparr>jConservative := conservativeForJob e job\<rparr>) pol (evaluatePolicy pol job)
      (Some sn) (healthOr health) streaming"
  using assms by (auto simp: Decide_def Let_def routed_def split: option.split)

lemma snapModel_in: "snapshot_inv sn \<Longrightarrow> snapModel (Some sn) i = Some m \<Longrightarrow> mget (models sn) (mID m) = Some m"
  using snapshot_inv_model [of sn i m] by (auto simp: snapModel_Some model_ok_def)

lemma findByProviderModelID_in:
  "snapshot_inv sn \<Longrightarrow> findByProviderModelID (Some sn) i = Some m \<Longrightarrow>
   mget (models sn) (mID m) = Some m \<and> modelSelectable sn m"
  unfolding findByProviderModelID_def
  by (auto simp: find_Some_iff dest!: nth_mem simp: Enabled_set)

lemma decidePinned_lists:
  assumes "snapshot_inv sn" and "decidePinned ref src job ev (Some sn) = (dec, None)"
  shows "\<exists>m. mget (models sn) (rdSelectedModel dec) = Some m \<and> rdSelectedProvider dec = mProviderID m \<and>
    rdProviderModelID dec = mProviderModelID m \<and> lists_admit (rtConstraints (evRoute ev)) m"
  using assms snapModel_in [OF assms(1)] findByProviderModelID_in [OF assms(1)]
  by (auto simp: decidePinned_def Let_def providerModelConstraintReason_iff split: option.splits if_splits)

lemma Decide_keeps_lists:
  assumes srt: "slice_sorter srt" and sn: "storeGet (enRegistry e) = Inr sn" and inv: "snapshot_inv sn"
    and mode: "jRouterMode job \<noteq> RouterModeDisabled"
    and ok: "snd (Decide srt e job pol health streaming) = (dec, None)"
  shows "\<exists>m. mget (models sn) (rdSelectedModel dec) = Some m \<and> rdSelectedProvider dec = mProviderID m \<and>
    rdProviderModelID dec = mProviderModelID m \<and>
    lists_admit (rtConstraints (evRoute (evaluatePolicy pol job))) m"
proof (cases "routed e job pol")
  case True
  from decideRouted_selected [OF srt inv Decide_routed [OF True sn ok]]
  show ?thesis by (auto simp: routable_def admissible_def)
next
  case False
  then obtain ref src where "decidePinned ref src (job\<lparr>jConservative := conservativeForJob e job\<rparr>)
      (evaluatePolicy pol job) (Some sn) = (dec, None)"
    using ok sn mode
    by (auto simp: Decide_def routed_def Let_def decideBlocked_def split: option.splits if_splits)
  then show ?thesis by (rule decidePinned_lists [OF inv])
qed

lemma Decide_blocked:
  assumes "storeGet (enRegistry e) = Inr sn" and "jRouterMode job \<noteq> RouterModeDisabled"
    and "evBlocked (evaluatePolicy pol job)"
  shows "snd (snd (Decide srt e job pol health streaming)) = Some ErrBlocked \<and>
    rdSelectedModel (fst (snd (Decide srt e job pol health streaming))) = [] \<and>
    rdBlocked (fst (snd (Decide srt e job pol health streaming)))"
  using assms evaluatePolicy_Block [OF assms(3)]
  by (auto simp: Decide_def Let_def decideBlocked_def zeroDecision_def split: option.split)

section \<open>Comparing decisions\<close>

lemma CompareDecisions_self: "\<not> dcChanged (CompareDecisions d d)"
  by (simp add: CompareDecisions_def routeChanged_def Let_def i64_def)

lemma i64_zero_iff: "i64 x = 0 \<longleftrightarrow> 2 ^ 64 dvd x"
proof -
  have "i64 x = 0 \<longleftrightarrow> (x + 2 ^ 63) mod 2 ^ 64 = 2 ^ 63 mod 2 ^ 64"
    by (simp add: i64_def)
  also have "\<dots> \<longleftrightarrow> 2 ^ 64 dvd x"
    by (simp only: mod_eq_dvd_iff add_diff_cancel_right')
  finally show ?thesis .
qed

lemma CompareDecisions_sym: "dcChanged (CompareDecisions a b) = dcChanged (CompareDecisions b a)"
proof -
  have "i64 (x - y) = 0 \<longleftrightarrow> i64 (y - x) = 0" for x y :: int
    by (simp add: i64_zero_iff dvd_diff_commute)
  then have "dcCostChanged (CompareDecisions a b) = dcCostChanged (CompareDecisions b a)"
    by (simp add: CompareDecisions_def Let_def estimatedCostMicroUSD_def)
  then show ?thesis
    by (auto simp: CompareDecisions_def Let_def routeChanged_def)
qed

end
