(* ===== verification/Health.thy ===== *)
theory Health
  imports EngineLaws Buffers
begin

text \<open>
  \<open>internal/health/tracker.go\<close>: per provider, a ring of the last 100 outcomes, read as the share
  of successes once five have been recorded. The ring is a \<open>recent_buffer\<close>: it refines the list
  of the last 100 outcomes. \<open>health_source\<close> is the contract of the engine's \<open>HealthSnapshot\<close>;
  the tracker and the static map of the engine provide it.
\<close>

section \<open>The contract\<close>

locale health_source =
  fixes score :: "'h \<Rightarrow> HealthSnapshot"
    and ok :: "'h \<Rightarrow> bool"
  assumes score_range: "ok h \<Longrightarrow> 0 \<le> score h p \<and> score h p \<le> 1"
begin

text \<open>A provider below the threshold serves nothing.\<close>

lemma unhealthy_excluded:
  "score h (mProviderID m) < 1 / 10 \<Longrightarrow> \<not> routable sn job route (score h) streaming m"
  by (simp add: routable_def admissible_def)

text \<open>Health moves a score by no more than its weight.\<close>

lemma score_health_bounded:
  assumes "ok h" and "ok h'" and "0 \<le> wtHealth w"
  shows "\<bar>scScore (scoreOne m job t (score h) w c l) - scScore (scoreOne m job t (score h') w c l)\<bar> \<le> wtHealth w"
proof -
  have "scScore (scoreOne m job t (score h) w c l) - scScore (scoreOne m job t (score h') w c l) =
      wtHealth w * (score h (mProviderID m) - score h' (mProviderID m))"
    by (simp add: scoreOne_def Let_def algebra_simps)
  moreover have "\<bar>score h (mProviderID m) - score h' (mProviderID m)\<bar> \<le> 1"
    using score_range [OF assms(1), of "mProviderID m"] score_range [OF assms(2), of "mProviderID m"]
    by (simp add: abs_le_iff)
  then have "\<bar>wtHealth w * (score h (mProviderID m) - score h' (mProviderID m))\<bar> \<le> wtHealth w * 1"
    using assms(3) by (simp only: abs_mult abs_of_nonneg) (rule mult_left_mono)
  ultimately show ?thesis by simp
qed

end

definition staticOK :: "(string, float64) gomap option \<Rightarrow> bool" where
  "staticOK h \<longleftrightarrow> (\<forall>m p v. h = Some m \<longrightarrow> mget m p = Some v \<longrightarrow> 0 \<le> v \<and> v \<le> 1)"

interpretation static: health_source staticProviderHealth staticOK
  by unfold_locales (auto simp: staticProviderHealth_def staticOK_def split: option.split)

section \<open>The tracker\<close>

definition windowSize :: nat where
  "windowSize = 100"

definition minAttempts :: nat where
  "minAttempts = 5"

record providerWindow =
  pwBuf :: "bool list"
  pwHead :: nat
  pwTotal :: nat

definition emptyWindow :: providerWindow where
  "emptyWindow = \<lparr>pwBuf = replicate windowSize False, pwHead = 0, pwTotal = 0\<rparr>"

definition pushOutcome :: "bool \<Rightarrow> providerWindow \<Rightarrow> providerWindow" where
  "pushOutcome success w =
     w\<lparr>pwBuf := (pwBuf w)[pwHead w mod windowSize := success], pwHead := pwHead w + 1,
       pwTotal := (if pwTotal w < windowSize then pwTotal w + 1 else pwTotal w)\<rparr>"

type_synonym Tracker = "(string, providerWindow) gomap"

definition record_outcome :: "string \<Rightarrow> bool \<Rightarrow> Tracker \<Rightarrow> Tracker" where
  "record_outcome providerID success t =
     (let w = (case mget t providerID of None \<Rightarrow> emptyWindow | Some w \<Rightarrow> w)
      in mput providerID (pushOutcome success w) t)"

definition RecordSuccess :: "string \<Rightarrow> Tracker \<Rightarrow> Tracker" where
  "RecordSuccess p = record_outcome p True"

definition RecordFailure :: "string \<Rightarrow> Tracker \<Rightarrow> Tracker" where
  "RecordFailure p = record_outcome p False"

definition windowScore :: "providerWindow \<Rightarrow> float64" where
  "windowScore w =
     (if pwTotal w < minAttempts then 1
      else of_nat (length (filter (\<lambda>b. b) (take (pwTotal w) (pwBuf w)))) / of_nat (pwTotal w))"

definition ProviderHealth :: "Tracker \<Rightarrow> HealthSnapshot" where
  "ProviderHealth t providerID =
     (case mget t providerID of None \<Rightarrow> 1 | Some w \<Rightarrow> windowScore w)"

definition trackedProviders :: "Tracker \<Rightarrow> (string, float64) gomap" where
  "trackedProviders t = map (\<lambda>(p, w). (p, windowScore w)) t"

section \<open>The ring holds the most recent outcomes\<close>

definition ringItems :: "providerWindow \<Rightarrow> bool list" where
  "ringItems w =
     (if pwTotal w < windowSize then take (pwTotal w) (pwBuf w)
      else drop (pwHead w mod windowSize) (pwBuf w) @ take (pwHead w mod windowSize) (pwBuf w))"

definition ringOK :: "providerWindow \<Rightarrow> bool" where
  "ringOK w \<longleftrightarrow> length (pwBuf w) = windowSize \<and> pwTotal w \<le> windowSize \<and>
     (pwTotal w < windowSize \<longrightarrow> pwHead w = pwTotal w)"

lemma windowSize_pos [simp]: "0 < windowSize"
  by (simp add: windowSize_def)

lemma ringOK_push: "ringOK w \<Longrightarrow> ringOK (pushOutcome b w)"
  by (auto simp: ringOK_def pushOutcome_def)

lemma ringItems_length: "ringOK w \<Longrightarrow> length (ringItems w) = pwTotal w"
  using mod_less_divisor [OF windowSize_pos, of "pwHead w"]
  by (auto simp: ringItems_def ringOK_def)

lemma take_update_last: "n < length xs \<Longrightarrow> take (Suc n) (xs[n := x]) = take n xs @ [x]"
  by (simp add: take_Suc_conv_app_nth)

lemma ringItems_push_filling:
  assumes ok: "ringOK w" and lt: "pwTotal w < windowSize"
  shows "ringItems (pushOutcome b w) = ringItems w @ [b]"
proof -
  from ok lt have head: "pwHead w = pwTotal w" and len: "length (pwBuf w) = windowSize"
    by (auto simp: ringOK_def)
  have upd: "take (Suc (pwTotal w)) ((pwBuf w)[pwTotal w := b]) = take (pwTotal w) (pwBuf w) @ [b]"
    using lt len by (simp add: take_update_last)
  show ?thesis
  proof (cases "Suc (pwTotal w) < windowSize")
    case True
    with lt upd show ?thesis by (simp add: ringItems_def pushOutcome_def head)
  next
    case False
    with lt have full: "Suc (pwTotal w) = windowSize" by simp
    with lt upd len show ?thesis by (simp add: ringItems_def pushOutcome_def head)
  qed
qed

lemma ringItems_push_full:
  assumes ok: "ringOK w" and full: "pwTotal w = windowSize"
  shows "ringItems (pushOutcome b w) = tl (ringItems w) @ [b]"
proof -
  define k where "k = pwHead w mod windowSize"
  have k: "k < windowSize" by (simp add: k_def)
  have len: "length (pwBuf w) = windowSize"
    using ok by (simp add: ringOK_def)
  have old: "tl (ringItems w) = drop (Suc k) (pwBuf w) @ take k (pwBuf w)"
    using k len full by (simp add: ringItems_def k_def [symmetric] Cons_nth_drop_Suc [symmetric])
  have k': "Suc (pwHead w) mod windowSize = (if Suc k = windowSize then 0 else Suc k)"
    by (simp add: k_def mod_Suc)
  have "ringItems (pushOutcome b w) =
      drop (Suc (pwHead w) mod windowSize) ((pwBuf w)[k := b]) @ take (Suc (pwHead w) mod windowSize) ((pwBuf w)[k := b])"
    by (simp add: ringItems_def pushOutcome_def full k_def [symmetric])
  also have "\<dots> = drop (Suc k) (pwBuf w) @ take k (pwBuf w) @ [b]"
  proof (cases "Suc k = windowSize")
    case True
    then have "(pwBuf w)[k := b] = take k (pwBuf w) @ [b]"
      using take_update_last [of k "pwBuf w" b] len by simp
    with True len show ?thesis unfolding k' by simp
  next
    case False
    with k len take_update_last [of k "pwBuf w" b] show ?thesis
      unfolding k' by simp
  qed
  finally show ?thesis by (simp add: old)
qed

interpretation ring: recent_buffer pushOutcome ringItems "\<lambda>_. windowSize" ringOK
proof unfold_locales
  fix w :: providerWindow and b
  assume ok: "ringOK w"
  note len = ringItems_length [OF ok]
  show "ringItems (pushOutcome b w) = lastN windowSize (ringItems w @ [b])"
  proof (cases "pwTotal w < windowSize")
    case True
    with len show ?thesis by (simp add: ringItems_push_filling [OF ok] lastN_def)
  next
    case False
    with ok have full: "pwTotal w = windowSize" by (simp add: ringOK_def)
    moreover have "ringItems w \<noteq> []"
      using len full windowSize_pos by (metis length_0_conv less_numeral_extra(3))
    moreover have "Suc 0 - windowSize = 0" by (simp add: windowSize_def)
    ultimately show ?thesis
      using len by (simp add: ringItems_push_full [OF ok] lastN_def drop_Suc)
  qed
  show "length (ringItems w) \<le> windowSize"
    using ok len by (simp add: ringOK_def)
qed (simp_all add: ringOK_push)

lemma emptyWindow_ok [simp]: "ringOK emptyWindow" "ringItems emptyWindow = []"
  by (simp_all add: emptyWindow_def ringOK_def ringItems_def)

text \<open>The score, read off the outcomes.\<close>

definition successShare :: "bool list \<Rightarrow> float64" where
  "successShare bs = (if length bs < minAttempts then 1
     else of_nat (length (filter (\<lambda>b. b) bs)) / of_nat (length bs))"

lemma windowScore_ring: "ringOK w \<Longrightarrow> windowScore w = successShare (ringItems w)"
proof -
  assume ok: "ringOK w"
  have "length (filter (\<lambda>b. b) (ringItems w)) = length (filter (\<lambda>b. b) (take (pwTotal w) (pwBuf w)))"
  proof (cases "pwTotal w < windowSize")
    case False
    with ok have "take (pwTotal w) (pwBuf w) = pwBuf w" by (simp add: ringOK_def)
    moreover have "mset (ringItems w) = mset (pwBuf w)"
    proof -
      let ?k = "pwHead w mod windowSize"
      have "mset (ringItems w) = mset (take ?k (pwBuf w) @ drop ?k (pwBuf w))"
        using False by (simp only: ringItems_def if_False mset_append add.commute)
      then show ?thesis by (simp only: append_take_drop_id)
    qed
    then have "size (filter_mset (\<lambda>b. b) (mset (ringItems w))) = size (filter_mset (\<lambda>b. b) (mset (pwBuf w)))"
      by simp
    ultimately show ?thesis
      by (metis mset_filter size_mset)
  qed (simp add: ringItems_def)
  then show ?thesis
    by (simp add: windowScore_def successShare_def ringItems_length [OF ok])
qed

lemma successShare_range: "0 \<le> successShare bs \<and> successShare bs \<le> 1"
  by (auto simp: successShare_def divide_le_eq_1 minAttempts_def)

definition trackerOK :: "Tracker \<Rightarrow> bool" where
  "trackerOK t \<longleftrightarrow> (\<forall>p w. mget t p = Some w \<longrightarrow> ringOK w)"

lemma record_outcome_ok: "trackerOK t \<Longrightarrow> trackerOK (record_outcome p b t)"
  by (auto simp: trackerOK_def record_outcome_def Let_def ringOK_push split: option.split)

text \<open>The outcomes of one provider among those of all.\<close>

definition outcomesOf :: "string \<Rightarrow> (string \<times> bool) list \<Rightarrow> bool list" where
  "outcomesOf p evs = map snd (filter (\<lambda>ev. fst ev = p) evs)"

definition recordAll :: "(string \<times> bool) list \<Rightarrow> Tracker \<Rightarrow> Tracker" where
  "recordAll evs t = fold (\<lambda>(p, b). record_outcome p b) evs t"

lemma recordAll_window:
  "mget (recordAll evs t) p = (if outcomesOf p evs = [] then mget t p
     else Some (fold pushOutcome (outcomesOf p evs) (case mget t p of None \<Rightarrow> emptyWindow | Some w \<Rightarrow> w)))"
proof (induction evs arbitrary: t)
  case Nil
  show ?case by (simp add: recordAll_def outcomesOf_def)
next
  case (Cons ev evs)
  obtain q b where ev: "ev = (q, b)" by (cases ev)
  have "recordAll (ev # evs) t = recordAll evs (record_outcome q b t)"
    by (simp add: recordAll_def ev)
  with Cons.IH [of "record_outcome q b t"] show ?case
    by (auto simp: ev outcomesOf_def record_outcome_def Let_def split: option.split)
qed

lemma ProviderHealth_recordAll:
  "ProviderHealth (recordAll evs []) p = successShare (lastN windowSize (outcomesOf p evs))"
proof (cases "outcomesOf p evs = []")
  case True
  then show ?thesis
    by (simp add: ProviderHealth_def recordAll_window successShare_def minAttempts_def)
next
  case False
  have "ringOK (fold pushOutcome (outcomesOf p evs) emptyWindow)"
    by (rule ring.ok_fold) simp
  with False show ?thesis
    by (simp add: ProviderHealth_def recordAll_window windowScore_ring ring.items_from_empty)
qed

interpretation tracker: health_source ProviderHealth trackerOK
proof unfold_locales
  fix t :: Tracker and p
  assume "trackerOK t"
  then show "0 \<le> ProviderHealth t p \<and> ProviderHealth t p \<le> 1"
    using successShare_range
    by (auto simp: ProviderHealth_def trackerOK_def windowScore_ring split: option.split)
qed

end
