(* ===== verification/PolicyMatch.thy ===== *)
theory PolicyMatch
  imports PolicyEval
begin

text \<open>
  What a compiled matcher accepts, and what compiling guarantees. \<open>globIn\<close> is the language of
  a compiled file pattern and \<open>globMatch_iff\<close> shows the matching procedure decides it.
  \<open>whenHolds\<close> reads the conditions of the document; \<open>compileMatcher_matches\<close> shows that the
  compiled matcher means the same. \<open>refs_ok\<close> says that a route names only registered providers
  and models: compiling establishes it and merging keeps it.
\<close>

section \<open>The language of a file pattern\<close>

inductive globIn :: "globtok list \<Rightarrow> string \<Rightarrow> bool" where
  nil: "globIn [] []"
| lit: "globIn ts s \<Longrightarrow> globIn (Lit l # ts) (l @ s)"
| one: "c \<noteq> CHR ''/'' \<Longrightarrow> globIn ts s \<Longrightarrow> globIn (OneChar # ts) (c # s)"
| seg: "CHR ''/'' \<notin> set p \<Longrightarrow> globIn ts s \<Longrightarrow> globIn (Segment # ts) (p @ s)"
| chars: "CHR 0x0A \<notin> set p \<Longrightarrow> globIn ts s \<Longrightarrow> globIn (AnyChars # ts) (p @ s)"
| dirs0: "globIn ts s \<Longrightarrow> globIn (AnyDirs # ts) s"
| dirs: "CHR 0x0A \<notin> set p \<Longrightarrow> globIn ts s \<Longrightarrow> globIn (AnyDirs # ts) (p @ CHR ''/'' # s)"

inductive_simps globIn_Nil: "globIn [] s"
inductive_simps globIn_Lit: "globIn (Lit l # ts) s"
inductive_simps globIn_One: "globIn (OneChar # ts) s"
inductive_simps globIn_Seg: "globIn (Segment # ts) s"
inductive_simps globIn_Chars: "globIn (AnyChars # ts) s"
inductive_simps globIn_Dirs: "globIn (AnyDirs # ts) s"

lemmas globIn_simps = globIn_Nil globIn_Lit globIn_One globIn_Seg globIn_Chars globIn_Dirs

lemma dirSuffixes_iff: "t \<in> set (dirSuffixes s) \<longleftrightarrow> (\<exists>p. CHR 0x0A \<notin> set p \<and> s = p @ CHR ''/'' # t)"
proof (induction s)
  case Nil
  show ?case by simp
next
  case (Cons c s)
  have "(\<exists>p. CHR 0x0A \<notin> set p \<and> c # s = p @ CHR ''/'' # t) \<longleftrightarrow>
      c = CHR ''/'' \<and> s = t \<or> c \<noteq> CHR 0x0A \<and> (\<exists>p. CHR 0x0A \<notin> set p \<and> s = p @ CHR ''/'' # t)"
    by (auto simp: Cons_eq_append_conv intro: exI [of _ "c # _"])
  with Cons.IH show ?case by auto
qed

text \<open>A star over the bytes other than \<open>sep\<close>, unfolded by one byte.\<close>

lemma star_unfold:
  "(\<exists>p t. s = p @ t \<and> sep \<notin> set p \<and> P t) \<longleftrightarrow>
   P s \<or> (\<exists>c cs. s = c # cs \<and> c \<noteq> sep \<and> (\<exists>p t. cs = p @ t \<and> sep \<notin> set p \<and> P t))"
  (is "?L \<longleftrightarrow> ?R")
proof
  assume ?L
  then obtain p t where p: "s = p @ t" "sep \<notin> set p" "P t" by blast
  then show ?R by (cases p) auto
next
  assume ?R
  then show ?L
  proof (elim disjE exE conjE)
    assume "P s"
    then have "s = [] @ s \<and> sep \<notin> set [] \<and> P s" by simp
    then show ?L by blast
  next
    fix c cs p t
    assume "s = c # cs" "c \<noteq> sep" "cs = p @ t" "sep \<notin> set p" "P t"
    then have "s = (c # p) @ t \<and> sep \<notin> set (c # p) \<and> P t" by simp
    then show ?L by blast
  qed
qed

lemma globIn_Seg_unfold:
  "globIn (Segment # ts) s \<longleftrightarrow> globIn ts s \<or> (\<exists>c cs. s = c # cs \<and> c \<noteq> CHR ''/'' \<and> globIn (Segment # ts) cs)"
  unfolding globIn_Seg by (rule star_unfold)

lemma globIn_Chars_unfold:
  "globIn (AnyChars # ts) s \<longleftrightarrow> globIn ts s \<or> (\<exists>c cs. s = c # cs \<and> c \<noteq> CHR 0x0A \<and> globIn (AnyChars # ts) cs)"
  unfolding globIn_Chars by (rule star_unfold)

lemma globMatch_iff: "globMatch ts s \<longleftrightarrow> globIn ts s"
proof (induction ts s rule: globMatch.induct)
  case (1 s)
  show ?case by (auto simp: globMatch.simps globIn_Nil)
next
  case (2 l ts s)
  then show ?case by (auto simp: globMatch.simps globIn_Lit prefix_def)
next
  case (3 ts s)
  then show ?case by (auto simp: globMatch.simps(3) globIn_One split: list.split)
next
  case (4 ts s)
  then show ?case
    by (subst globIn_Seg_unfold) (auto simp: globMatch.simps(4) split: list.split)
next
  case (5 ts s)
  then show ?case
    by (subst globIn_Chars_unfold) (auto simp: globMatch.simps(5) split: list.split)
next
  case (6 ts s)
  then have "globMatch (AnyDirs # ts) s \<longleftrightarrow> globIn ts s \<or> (\<exists>t \<in> set (dirSuffixes s). globIn ts t)"
    by (simp add: globMatch.simps(6) cong: bex_cong)
  moreover have "globIn (AnyDirs # ts) s \<longleftrightarrow> globIn ts s \<or> (\<exists>t \<in> set (dirSuffixes s). globIn ts t)"
    unfolding globIn_Dirs Bex_def dirSuffixes_iff by blast
  ultimately show ?case by simp
qed

section \<open>Compiled matchers mean what the document says\<close>

definition enumHolds :: "EnumMatch option \<Rightarrow> string \<Rightarrow> bool" where
  "enumHolds m v \<longleftrightarrow> (case m of None \<Rightarrow> True | Some vals \<Rightarrow> vals = [] \<or> v \<in> set vals)"

definition flagHolds :: "bool option \<Rightarrow> bool \<Rightarrow> bool" where
  "flagHolds m b \<longleftrightarrow> (case m of None \<Rightarrow> True | Some want \<Rightarrow> b = want)"

definition termHolds :: "EvaluationInput \<Rightarrow> string \<Rightarrow> bool" where
  "termHolds i v \<longleftrightarrow>
     inContainsText i \<noteq> [] \<and> (\<exists>a b. ToLower (inContainsText i) = a @ ToLower v @ b) \<or>
     (\<exists>k \<in> set (inKeywords i). ToLower k = ToLower v)"

definition fileHolds :: "EvaluationInput \<Rightarrow> string \<Rightarrow> bool" where
  "fileHolds i g \<longleftrightarrow>
     (\<exists>f \<in> set (inFilesTouched i). globIn (globTokens g) (ReplaceByte (CHR 0x5C) (CHR ''/'') f))"

definition whenHolds :: "When \<Rightarrow> EvaluationInput \<Rightarrow> bool" where
  "whenHolds w i \<longleftrightarrow> wEmpty w \<or>
     enumHolds (wTaskType w) (inTaskType i) \<and> enumHolds (wRiskLevel w) (inRiskLevel i) \<and>
     enumHolds (wTenant w) (inTenantID i) \<and> enumHolds (wProject w) (inProjectID i) \<and>
     enumHolds (wSensitivity w) (inSensitivity i) \<and> enumHolds (wRouterMode w) (inRouterMode i) \<and>
     (\<forall>n. wPromptTokensGT w = Some n \<longrightarrow> n < inPromptTokensEstimate i) \<and>
     (\<forall>n. wPromptTokensLT w = Some n \<longrightarrow> inPromptTokensEstimate i < n) \<and>
     flagHolds (wRequiresToolUse w) (inRequiresToolUse i) \<and>
     flagHolds (wRequiresJSONSchema w) (inRequiresJSONSchema i) \<and>
     flagHolds (wRequiresVision w) (inRequiresVision i) \<and>
     (wContainsAny w = [] \<or> (\<exists>v \<in> set (wContainsAny w). termHolds i v)) \<and>
     (wAnyFileMatches w = [] \<or> (\<exists>g \<in> set (wAnyFileMatches w). fileHolds i g))"

lemma setFromMatch_matches: "setMatches (setFromMatch m) v = enumHolds m v"
  by (auto simp: setMatches_def setFromMatch_def enumHolds_def setFromStrings_def split: option.split)

lemma optDiffers_flag: "optDiffers m b \<longleftrightarrow> \<not> flagHolds m b"
  by (auto simp: optDiffers_def flagHolds_def split: option.split)

lemma ToLower_Nil_iff [simp]: "ToLower s = [] \<longleftrightarrow> s = []"
  by (simp add: ToLower_def)

lemma matchesTextOrAny_iff:
  "matchesTextOrAny (setFromStrings vs True) (inContainsText i) (inKeywords i) \<longleftrightarrow>
   (\<exists>v \<in> set vs. termHolds i v)"
  by (auto simp: matchesTextOrAny_def setFromStrings_def termHolds_def Contains_iff Let_def)

lemma compileGlobs_Inr: "compileGlobs ps = Inr gs \<Longrightarrow> gs = map globTokens ps"
  by (induction ps arbitrary: gs) (auto simp: compileGlob_def split: sum.splits if_splits)

lemma compileGlobs_ok_iff: "(\<exists>gs. compileGlobs ps = Inr gs) \<longleftrightarrow> (\<forall>p \<in> set ps. TrimSpace p \<noteq> [])"
  by (induction ps) (auto simp: compileGlob_def split: sum.splits)

lemma matchesAnyFile_iff:
  "matchesAnyFile (map globTokens ps) (inFilesTouched i) \<longleftrightarrow> (\<exists>g \<in> set ps. fileHolds i g)"
  by (auto simp: matchesAnyFile_def fileHolds_def globMatch_iff)

lemma setFromStrings_Nil: "setFromStrings vs l = [] \<longleftrightarrow> vs = []"
  by (simp add: setFromStrings_def)

lemma compileMatcher_matches:
  "compileMatcher w = Inr m \<Longrightarrow> matcherMatches m i = whenHolds w i"
proof -
  assume "compileMatcher w = Inr m"
  then obtain gs where g: "compileGlobs (wAnyFileMatches w) = Inr gs" and m: "m =
          \<lparr>cmEmpty = wEmpty w, cmTaskTypes = setFromMatch (wTaskType w),
           cmRiskLevels = setFromMatch (wRiskLevel w), cmTenants = setFromMatch (wTenant w),
           cmProjects = setFromMatch (wProject w), cmPromptTokensGT = wPromptTokensGT w,
           cmPromptTokensLT = wPromptTokensLT w, cmContainsAny = setFromStrings (wContainsAny w) True,
           cmFilePatterns = gs, cmRequiresToolUse = wRequiresToolUse w,
           cmRequiresJSONSchema = wRequiresJSONSchema w, cmRequiresVision = wRequiresVision w,
           cmSensitivities = setFromMatch (wSensitivity w),
           cmRouterModes = setFromMatch (wRouterMode w)\<rparr>"
    by (auto simp: compileMatcher_def split: sum.splits)
  have gs: "gs = map globTokens (wAnyFileMatches w)"
    using g by (rule compileGlobs_Inr)
  show ?thesis
    unfolding m gs whenHolds_def matcherMatches_def
    by (simp add: setFromMatch_matches optDiffers_flag setFromStrings_Nil matchesTextOrAny_iff
        matchesAnyFile_iff not_le split: option.split) (auto simp: not_le)
qed

section \<open>References\<close>

text \<open>The providers and models a route may name, the empty string standing for none.\<close>

definition force_ok :: "string set \<Rightarrow> string set \<Rightarrow> Force \<Rightarrow> bool" where
  "force_ok P M f \<longleftrightarrow> fProvider f \<in> P \<and> fModel f \<in> M \<and> fModelProfileName f \<in> M"

definition defaults_ok :: "string set \<Rightarrow> string set \<Rightarrow> Defaults \<Rightarrow> bool" where
  "defaults_ok P M d \<longleftrightarrow> dProvider d \<in> P \<and> dModel d \<in> M \<and> dModelProfileName d \<in> M"

definition constraints_ok :: "string set \<Rightarrow> string set \<Rightarrow> Constraints \<Rightarrow> bool" where
  "constraints_ok P M c \<longleftrightarrow> set (cAllowedProviders c) \<subseteq> P \<and> set (cDeniedProviders c) \<subseteq> P \<and>
     set (cAllowedModels c) \<subseteq> M \<and> set (cDeniedModels c) \<subseteq> M"

definition refs_ok :: "string set \<Rightarrow> string set \<Rightarrow> Route \<Rightarrow> bool" where
  "refs_ok P M r \<longleftrightarrow>
     (\<forall>f. rtForce r = Some f \<longrightarrow> force_ok P M f) \<and>
     (\<forall>d. rtDefaults r = Some d \<longrightarrow> defaults_ok P M d) \<and>
     (\<forall>c. rtConstraints r = Some c \<longrightarrow> constraints_ok P M c) \<and>
     hProvider (rtHints r) \<in> P \<and> hModel (rtHints r) \<in> M"

definition knownProviders :: "Snapshot option \<Rightarrow> string set" where
  "knownProviders snap = {i. i = [] \<or> snapProvider snap i \<noteq> None}"

definition knownModels :: "Snapshot option \<Rightarrow> string set" where
  "knownModels snap = {i. i = [] \<or> snapModel snap i \<noteq> None}"

lemma checkProvider_Nil: "checkProvider snap ctx i = [] \<longleftrightarrow> i \<in> knownProviders snap"
  by (auto simp: checkProvider_def knownProviders_def split: option.split)

lemma checkModelRef_Nil: "checkModelRef snap ctx i = [] \<longleftrightarrow> i \<in> knownModels snap"
  by (auto simp: checkModelRef_def knownModels_def split: option.split)

lemma Nil_known [simp]: "[] \<in> knownProviders snap" "[] \<in> knownModels snap"
  by (simp_all add: knownProviders_def knownModels_def)

lemma validateRule_Nil:
  "validateRule snap rule = [] \<longleftrightarrow> refs_ok (knownProviders snap) (knownModels snap) (ruRoute rule)"
  by (auto simp: validateRule_def Let_def refs_ok_def force_ok_def defaults_ok_def constraints_ok_def
      checkProvider_Nil checkModelRef_Nil split: option.split)

lemma Validate_None:
  "Validate p snap = None \<longleftrightarrow> snap \<noteq> None \<and> (\<exists>q. p = Some q \<and>
     (\<forall>r \<in> set (polRules q). refs_ok (knownProviders snap) (knownModels snap) (ruRoute r)))"
  by (auto simp: Validate_def Let_def validateRule_Nil split: option.split)

subsection \<open>Normalising and merging keep them\<close>

lemma hintTier_refs: "refs_ok P M r \<Longrightarrow> [] \<in> P \<Longrightarrow> [] \<in> M \<Longrightarrow> refs_ok P M (hintTier r)"
  by (auto simp: hintTier_def Let_def refs_ok_def ensureDefaults_def defaults_ok_def zeroDefaults_def
      split: option.splits)

lemma hintForce_refs: "refs_ok P M r \<Longrightarrow> [] \<in> P \<Longrightarrow> [] \<in> M \<Longrightarrow> refs_ok P M (hintForce r)"
  by (auto simp: hintForce_def Let_def refs_ok_def ensureForce_def force_ok_def zeroForce_def
      split: option.splits)

lemma hintTimeout_refs: "refs_ok P M r \<Longrightarrow> [] \<in> P \<Longrightarrow> [] \<in> M \<Longrightarrow> refs_ok P M (hintTimeout r)"
  by (auto simp: hintTimeout_def Let_def refs_ok_def ensureDefaults_def defaults_ok_def force_ok_def
      zeroDefaults_def split: option.splits)

lemma fold_fallback_ok:
  "constraints_ok P M c \<Longrightarrow> constraints_ok P M
     (fold (\<lambda>fb c. c\<lparr>cFallbackModelProfiles := unionValues (cFallbackModelProfiles c) [fb]\<rparr>) fbs c)"
  by (induction fbs arbitrary: c) (simp_all add: constraints_ok_def)

lemma hintConstraints_refs: "refs_ok P M r \<Longrightarrow> refs_ok P M (hintConstraints r)"
proof -
  assume r: "refs_ok P M r"
  then have "constraints_ok P M (ensureConstraints r)"
    by (auto simp: refs_ok_def ensureConstraints_def constraints_ok_def zeroConstraints_def split: option.split)
  then have "constraints_ok P M (fold (\<lambda>fb c. c\<lparr>cFallbackModelProfiles := unionValues (cFallbackModelProfiles c) [fb]\<rparr>)
      (hFallbackModels (rtHints r)) (if hFallbackTier (rtHints r) \<noteq> []
        then (ensureConstraints r)\<lparr>cFallbackModelProfiles :=
          unionValues (cFallbackModelProfiles (ensureConstraints r)) [hFallbackTier (rtHints r)]\<rparr>
        else ensureConstraints r))"
    by (intro fold_fallback_ok) (simp add: constraints_ok_def)
  with r show ?thesis
    by (auto simp: hintConstraints_def Let_def refs_ok_def constraints_ok_def)
qed

lemma normalize_refs: "refs_ok P M r \<Longrightarrow> [] \<in> P \<Longrightarrow> [] \<in> M \<Longrightarrow> refs_ok P M (normalizeRouteHints r)"
  by (simp add: normalizeRouteHints_def hintTier_refs hintForce_refs hintTimeout_refs hintConstraints_refs)

lemma set_intersectIfBoth: "set (intersectIfBoth l r) \<subseteq> set l \<union> set r"
  by (auto simp: intersectIfBoth_def)

lemma mergeForce_ok:
  "(\<And>e. o1 = Some e \<Longrightarrow> force_ok P M e) \<Longrightarrow> force_ok P M f \<Longrightarrow> force_ok P M (fst (mergeForce o1 f r))"
  by (cases o1) (auto simp: mergeForce_def force_ok_def forceStr_def split_beta Let_def)

lemma mergeConstraints_ok:
  assumes "\<And>e. o1 = Some e \<Longrightarrow> constraints_ok P M e" and "constraints_ok P M c"
  shows "constraints_ok P M (mergeConstraints o1 c)"
proof (cases o1)
  case None
  with assms(2) show ?thesis by (simp add: mergeConstraints_def)
next
  case (Some e)
  then have "constraints_ok P M e" using assms(1) by simp
  with Some assms(2) set_intersectIfBoth [of "cAllowedProviders e" "cAllowedProviders c"]
    set_intersectIfBoth [of "cAllowedModels e" "cAllowedModels c"]
  show ?thesis
    unfolding mergeConstraints_def constraints_ok_def by simp blast
qed

lemma mergeDefaults_ok:
  "(\<And>e. o1 = Some e \<Longrightarrow> defaults_ok P M e) \<Longrightarrow> defaults_ok P M d \<Longrightarrow> [] \<in> P \<Longrightarrow> [] \<in> M \<Longrightarrow>
   defaults_ok P M (mergeDefaults o1 d)"
  by (cases o1) (auto simp: mergeDefaults_def defaults_ok_def fillStr_def zeroDefaults_def Let_def)

lemma mergeRoute_refs:
  assumes "refs_ok P M dst" "refs_ok P M src" "[] \<in> P" "[] \<in> M"
  shows "refs_ok P M (fst (mergeRoute dst src r))"
  using assms
  by (auto simp: mergeRoute_def Let_def refs_ok_def mergeHints_def overStr_def split_beta
      intro!: mergeForce_ok mergeConstraints_ok mergeDefaults_ok split: option.splits)

lemma applyRule_refs:
  "refs_ok P M (evRoute e) \<Longrightarrow> refs_ok P M (crRoute r) \<Longrightarrow> [] \<in> P \<Longrightarrow> [] \<in> M \<Longrightarrow>
   refs_ok P M (evRoute (applyRule r e))"
  by (simp add: applyRule_def split_beta mergeRoute_refs)

lemma evalRules_refs:
  "refs_ok P M (evRoute e) \<Longrightarrow> (\<forall>r \<in> set rs. refs_ok P M (crRoute r)) \<Longrightarrow> [] \<in> P \<Longrightarrow> [] \<in> M \<Longrightarrow>
   refs_ok P M (evRoute (evalRules rs i e))"
  by (induction rs arbitrary: e) (auto simp: Let_def applyRule_refs)

lemma compileRules_cases:
  "compileRules rules = Inr rs \<Longrightarrow> list_all2 (\<lambda>rule c. crID c = ruID rule \<and>
     crDescription c = ruDescription rule \<and> crRoute c = normalizeRouteHints (ruRoute rule) \<and>
     compileMatcher (ruWhen rule) = Inr (crMatcher c)) rules rs"
  by (induction rules arbitrary: rs) (auto split: sum.splits)

lemma Compile_cases:
  assumes "Compile (Some p) snap = Inr c"
  shows "Validate (Some p) snap = None" and "compileRules (polRules p) = Inr (cpRules c)"
    and "cpVersion c = polVersion p" and "cpRegistryVersion c = snapRegistryVersion snap"
    and "cpSettings c = polSettings p"
  using assms by (auto simp: Compile_def split: option.splits sum.splits)

lemma list_all2_right: "list_all2 P xs ys \<Longrightarrow> y \<in> set ys \<Longrightarrow> \<exists>x \<in> set xs. P x y"
  by (induction rule: list_all2_induct) auto

lemma Compile_rules_refs:
  assumes "Compile (Some p) snap = Inr c" and "r \<in> set (cpRules c)"
  shows "refs_ok (knownProviders snap) (knownModels snap) (crRoute r)"
proof -
  from list_all2_right [OF compileRules_cases [OF Compile_cases(2) [OF assms(1)]] assms(2)]
  obtain rule where "rule \<in> set (polRules p)" "crRoute r = normalizeRouteHints (ruRoute rule)"
    by blast
  with Compile_cases(1) [OF assms(1)] show ?thesis
    by (auto simp: Validate_None intro: normalize_refs)
qed

lemma zeroRoute_refs: "[] \<in> P \<Longrightarrow> [] \<in> M \<Longrightarrow> refs_ok P M zeroRoute"
  by (simp add: refs_ok_def zeroRoute_def zeroHints_def)

lemma Evaluate_refs:
  assumes c: "Compile (Some p) snap = Inr c"
  shows "refs_ok (knownProviders snap) (knownModels snap) (evRoute (Evaluate (Some c) i))"
  unfolding Evaluate_def option.case
proof (rule evalRules_refs)
  show "\<forall>r\<in>set (cpRules c). refs_ok (knownProviders snap) (knownModels snap) (crRoute r)"
    using Compile_rules_refs [OF c] by blast
  show "refs_ok (knownProviders snap) (knownModels snap)
      (evRoute (zeroEvaluation\<lparr>evPolicyVersion := cpVersion c\<rparr>))"
    by (simp add: zeroEvaluation_def zeroRoute_refs)
qed (rule Nil_known)+

lemma compiled_rule_matches:
  assumes "Compile (Some p) snap = Inr c" and "j < length (polRules p)"
  shows "j < length (cpRules c) \<and> crID (cpRules c ! j) = ruID (polRules p ! j) \<and>
    matcherMatches (crMatcher (cpRules c ! j)) i = whenHolds (ruWhen (polRules p ! j)) i"
proof -
  note all = compileRules_cases [OF Compile_cases(2) [OF assms(1)]]
  from list_all2_lengthD [OF all] assms(2) have "j < length (cpRules c)" by simp
  moreover from list_all2_nthD [OF all assms(2)]
  have "crID (cpRules c ! j) = ruID (polRules p ! j)"
    and "compileMatcher (ruWhen (polRules p ! j)) = Inr (crMatcher (cpRules c ! j))" by auto
  ultimately show ?thesis using compileMatcher_matches by simp
qed

text \<open>Which policies compile: no rule names an unknown provider or model, no file pattern is blank.\<close>

lemma compileRules_ok_iff:
  "(\<exists>rs. compileRules rules = Inr rs) \<longleftrightarrow>
   (\<forall>r \<in> set rules. \<forall>g \<in> set (wAnyFileMatches (ruWhen r)). TrimSpace g \<noteq> [])"
proof (induction rules)
  case (Cons r rules)
  have "(\<exists>m. compileMatcher (ruWhen r) = Inr m) \<longleftrightarrow> (\<exists>gs. compileGlobs (wAnyFileMatches (ruWhen r)) = Inr gs)"
    by (auto simp: compileMatcher_def split: sum.splits)
  with Cons.IH show ?case
    by (auto simp: compileGlobs_ok_iff split: sum.splits)
qed simp

lemma Compile_ok_iff:
  "(\<exists>c. Compile (Some p) (Some snap) = Inr c) \<longleftrightarrow>
   (\<forall>r \<in> set (polRules p).
      refs_ok (knownProviders (Some snap)) (knownModels (Some snap)) (ruRoute r) \<and>
      (\<forall>g \<in> set (wAnyFileMatches (ruWhen r)). TrimSpace g \<noteq> []))"
proof -
  have "(\<exists>c. Compile (Some p) (Some snap) = Inr c) \<longleftrightarrow>
      Validate (Some p) (Some snap) = None \<and> (\<exists>rs. compileRules (polRules p) = Inr rs)"
    by (auto simp: Compile_def split: option.splits sum.splits)
  then show ?thesis
    by (auto simp: Validate_None compileRules_ok_iff)
qed

end
