(* ===== verification/AuditTrail.thy ===== *)
theory AuditTrail
  imports Buffers
begin

text \<open>
  Package \<open>internal/audit\<close>: the security audit trail. \<open>Record\<close> fills in the time and the
  outcome of an entry and hands it to a sink, if there is one. The sinks are a log writer, the
  bounded \<open>MemorySink\<close> and the fan-out of \<open>MultiSink\<close>; a sink is a value here, and recording
  returns the sink after the call. \<open>MemorySink\<close> is a \<open>recent_buffer\<close>.
\<close>

abbreviation ActionPolicyReload :: string where "ActionPolicyReload \<equiv> ''policy.reload''"
abbreviation ActionAPIKeyAdd :: string where "ActionAPIKeyAdd \<equiv> ''api_key.add''"
abbreviation ActionAPIKeyDisable :: string where "ActionAPIKeyDisable \<equiv> ''api_key.disable''"
abbreviation ActionRequestBlocked :: string where "ActionRequestBlocked \<equiv> ''request.blocked''"
abbreviation OutcomeSuccess :: string where "OutcomeSuccess \<equiv> ''success''"
abbreviation OutcomeFailure :: string where "OutcomeFailure \<equiv> ''failure''"
abbreviation OutcomeBlocked :: string where "OutcomeBlocked \<equiv> ''blocked''"

record Entry =
  eTime :: int
  eAction :: string
  eActor :: string
  eTenantID :: string
  eProjectID :: string
  eTarget :: string
  eOutcome :: string
  eRequestID :: string
  eReason :: string
  eDetail :: "(string, string) gomap"

definition zeroEntry :: Entry where
  "zeroEntry = \<lparr>eTime = 0, eAction = [], eActor = [], eTenantID = [], eProjectID = [], eTarget = [],
     eOutcome = [], eRequestID = [], eReason = [], eDetail = []\<rparr>"

section \<open>Sinks\<close>

record MemorySink =
  msMax :: nat
  msEntries :: "Entry list"

definition NewMemorySink :: "int \<Rightarrow> MemorySink" where
  "NewMemorySink m = (let mx = (if m \<le> 0 then 1024 else m) in \<lparr>msMax = nat mx, msEntries = []\<rparr>)"

definition memRecord :: "Entry \<Rightarrow> MemorySink \<Rightarrow> MemorySink" where
  "memRecord e s =
     (let es = msEntries s @ [e] in
      s\<lparr>msEntries := (if length es > msMax s then drop (length es - msMax s) es else es)\<rparr>)"

definition memEntries :: "MemorySink \<Rightarrow> Entry list" where
  "memEntries s = msEntries s"

text \<open>The attributes of a log line; the detail keys are sorted.\<close>

definition logAttrs :: "Entry \<Rightarrow> (string \<times> string) list" where
  "logAttrs e =
     [(''audit_action'', eAction e), (''outcome'', eOutcome e)] @
     (if eActor e \<noteq> [] then [(''actor'', eActor e)] else []) @
     (if eTenantID e \<noteq> [] then [(''tenant_id'', eTenantID e)] else []) @
     (if eProjectID e \<noteq> [] then [(''project_id'', eProjectID e)] else []) @
     (if eTarget e \<noteq> [] then [(''target'', eTarget e)] else []) @
     (if eRequestID e \<noteq> [] then [(''request_id'', eRequestID e)] else []) @
     (if eReason e \<noteq> [] then [(''reason'', eReason e)] else []) @
     map (\<lambda>k. (''detail_'' @ k, mget0 [] (eDetail e) k)) (sort (mkeys (eDetail e)))"

datatype Sink =
    LogSink "(string \<times> string) list list"
  | Memory MemorySink
  | Multi "Sink list"

definition MultiSink :: "Sink option list \<Rightarrow> Sink" where
  "MultiSink ss = Multi (List.map_filter (\<lambda>s. s) ss)"

primrec sinkRecord :: "Entry \<Rightarrow> Sink \<Rightarrow> Sink" where
  "sinkRecord e (LogSink ls) = LogSink (ls @ [logAttrs e])"
| "sinkRecord e (Memory m) = Memory (memRecord e m)"
| "sinkRecord e (Multi ss) = Multi (map (sinkRecord e) ss)"

definition stampEntry :: "int \<Rightarrow> Entry \<Rightarrow> Entry" where
  "stampEntry now e =
     (let e1 = (if eTime e = 0 then e\<lparr>eTime := now\<rparr> else e)
      in if eOutcome e1 = [] then e1\<lparr>eOutcome := OutcomeSuccess\<rparr> else e1)"

definition Record :: "int \<Rightarrow> Entry \<Rightarrow> Sink option \<Rightarrow> Sink option" where
  "Record now e snk =
     (case snk of None \<Rightarrow> None | Some s \<Rightarrow> Some (sinkRecord (stampEntry now e) s))"

section \<open>The memory sink keeps the most recent entries\<close>

definition memOK :: "MemorySink \<Rightarrow> bool" where
  "memOK s \<longleftrightarrow> length (msEntries s) \<le> msMax s"

interpretation mem: recent_buffer memRecord memEntries msMax memOK
  by unfold_locales (auto simp: memRecord_def memEntries_def memOK_def lastN_def Let_def)

lemma NewMemorySink_ok [simp]: "memOK (NewMemorySink m)" "memEntries (NewMemorySink m) = []"
  by (simp_all add: NewMemorySink_def memOK_def memEntries_def Let_def)

lemma NewMemorySink_max [simp]: "msMax (NewMemorySink m) = (if m \<le> 0 then 1024 else nat m)"
  by (simp add: NewMemorySink_def Let_def)

lemma MemorySink_retains:
  "memEntries (fold memRecord es (NewMemorySink m)) = lastN (if m \<le> 0 then 1024 else nat m) es"
  using mem.items_from_empty [of "NewMemorySink m" es] by simp

text \<open>A sink's memory buffers, in the order the fan-out visits them.\<close>

primrec sinkMemories :: "Sink \<Rightarrow> MemorySink list" where
  "sinkMemories (LogSink ls) = []"
| "sinkMemories (Memory m) = [m]"
| "sinkMemories (Multi ss) = concat (map sinkMemories ss)"

lemma sinkRecord_memories: "sinkMemories (sinkRecord e s) = map (memRecord e) (sinkMemories s)"
proof (induction s)
  case (Multi ss)
  then show ?case by (induction ss) auto
qed simp_all

end
