(* ===== verification/PolicyCache.thy ===== *)
theory PolicyCache
  imports PolicyMatch AuditTrail
begin

text \<open>
  The policy cache of \<open>internal/policy/compiled.go\<close>: an atomic map from tenant and project
  scopes to compiled policies (\<open>NewCache\<close>, \<open>Active\<close>, \<open>Reload\<close>). A method on the cache returns
  the cache after the call. Ranging over a Go map visits the entries in an unspecified order:
  the permutation \<open>rng\<close>.
\<close>

record Cache =
  active :: "(Scope, CompiledPolicy) gomap"
  auditor :: "Sink option"

definition SetAuditor :: "Cache option \<Rightarrow> Sink option \<Rightarrow> Cache option" where
  "SetAuditor c snk = (case c of None \<Rightarrow> None | Some c \<Rightarrow> Some (c\<lparr>auditor := snk\<rparr>))"

fun compileLoop :: "Source list \<Rightarrow> (Scope, CompiledPolicy) gomap
    \<Rightarrow> policy_err + (Scope, CompiledPolicy) gomap" where
  "compileLoop [] compiled = Inr compiled"
| "compileLoop (s # rest) compiled =
     (if scProjectID (srcScope s) \<noteq> [] \<and> scTenantID (srcScope s) = []
      then Inl (ErrInvalidPolicy ''project-scoped policy requires tenant id'')
      else if mget compiled (srcScope s) \<noteq> None
      then Inl (ErrInvalidPolicy (''duplicate policy scope tenant='' @ fmtQ (scTenantID (srcScope s)) @
             '' project='' @ fmtQ (scProjectID (srcScope s))))
      else (case Compile (srcPolicy s) (srcRegistry s) of
              Inl e \<Rightarrow> Inl e
            | Inr p \<Rightarrow> compileLoop rest (mput (srcScope s) p compiled)))"

definition compileSources :: "Source list \<Rightarrow> policy_err + (Scope, CompiledPolicy) gomap" where
  "compileSources sources =
     (if length sources = 0 then Inl ErrNoCompiledPolicy else compileLoop sources [])"

definition NewCache :: "Source list \<Rightarrow> policy_err + Cache" where
  "NewCache sources =
     (case compileSources sources of Inl e \<Rightarrow> Inl e
      | Inr compiled \<Rightarrow> Inr \<lparr>active = compiled, auditor = None\<rparr>)"

definition Active :: "Cache option \<Rightarrow> Scope \<Rightarrow> CompiledPolicy option" where
  "Active c scope =
     (case c of None \<Rightarrow> None
      | Some c \<Rightarrow>
          let policies = active c;
              base = mget policies \<lparr>scTenantID = [], scProjectID = []\<rparr>
          in (case mget policies scope of Some p \<Rightarrow> Some p
              | None \<Rightarrow>
                  if scProjectID scope \<noteq> [] then
                    (case mget policies \<lparr>scTenantID = scTenantID scope, scProjectID = []\<rparr> of
                       Some p \<Rightarrow> Some p | None \<Rightarrow> base)
                  else base))"

definition reloadFailureEntry :: "policy_err \<Rightarrow> Entry" where
  "reloadFailureEntry e = zeroEntry\<lparr>eAction := ActionPolicyReload, eActor := ''system'',
     eOutcome := OutcomeFailure, eReason := policyErrText e\<rparr>"

definition reloadEntry :: "Scope \<times> CompiledPolicy \<Rightarrow> Entry" where
  "reloadEntry sp = (case sp of (scope, p) \<Rightarrow>
     zeroEntry\<lparr>eAction := ActionPolicyReload, eActor := ''system'',
       eTenantID := scTenantID scope, eProjectID := scProjectID scope, eTarget := cpVersion p,
       eDetail := [(''registry_version'', cpRegistryVersion p)]\<rparr>)"

definition ReloadCache :: "((Scope \<times> CompiledPolicy) list \<Rightarrow> (Scope \<times> CompiledPolicy) list)
    \<Rightarrow> int \<Rightarrow> Cache option \<Rightarrow> Source list \<Rightarrow> policy_err option \<times> Cache option" where
  "ReloadCache rng now c sources =
     (case c of None \<Rightarrow> (Some ErrNoCompiledPolicy, None)
      | Some c \<Rightarrow>
          (case compileSources sources of
             Inl e \<Rightarrow> (Some e, Some (c\<lparr>auditor := Record now (reloadFailureEntry e) (auditor c)\<rparr>))
           | Inr compiled \<Rightarrow>
               (None, Some (c\<lparr>active := compiled,
                  auditor := fold (\<lambda>sp. Record now (reloadEntry sp)) (rng compiled) (auditor c)\<rparr>))))"

section \<open>What the cache holds\<close>

lemma compileLoop_get:
  "compileLoop ss m = Inr m' \<Longrightarrow>
   mget m' sc = Some c \<longleftrightarrow> mget m sc = Some c \<or>
     (\<exists>s \<in> set ss. srcScope s = sc \<and> Compile (srcPolicy s) (srcRegistry s) = Inr c)"
proof (induction ss arbitrary: m)
  case (Cons s ss)
  then obtain p where p: "Compile (srcPolicy s) (srcRegistry s) = Inr p"
    and new: "mget m (srcScope s) = None" and rec: "compileLoop ss (mput (srcScope s) p m) = Inr m'"
    by (auto split: if_splits sum.splits)
  from Cons.IH [OF rec] p new show ?case by auto
qed simp

lemma compileLoop_ok_iff:
  "(\<exists>m'. compileLoop ss m = Inr m') \<longleftrightarrow>
   (\<forall>s \<in> set ss. (scProjectID (srcScope s) = [] \<or> scTenantID (srcScope s) \<noteq> []) \<and>
      mget m (srcScope s) = None \<and> (\<exists>c. Compile (srcPolicy s) (srcRegistry s) = Inr c)) \<and>
   distinct (map srcScope ss)"
proof (induction ss arbitrary: m)
  case (Cons s ss)
  show ?case
  proof (cases "Compile (srcPolicy s) (srcRegistry s)")
    case (Inr p)
    with Cons.IH [of "mput (srcScope s) p m"] show ?thesis
      by (auto simp: image_iff)
  qed auto
qed simp

lemma compileSources_get:
  "compileSources ss = Inr m \<Longrightarrow> mget m sc = Some c \<longleftrightarrow>
   (\<exists>s \<in> set ss. srcScope s = sc \<and> Compile (srcPolicy s) (srcRegistry s) = Inr c)"
  by (auto simp: compileSources_def compileLoop_get split: if_splits)

text \<open>The source that answers for a scope: the scope itself, else its tenant, else the default.\<close>

definition covers :: "Scope \<Rightarrow> Scope list" where
  "covers sc = [sc, \<lparr>scTenantID = scTenantID sc, scProjectID = []\<rparr>, \<lparr>scTenantID = [], scProjectID = []\<rparr>]"

definition sourceFor :: "Source list \<Rightarrow> Scope \<Rightarrow> Source option" where
  "sourceFor ss sc = first_some (map (\<lambda>k. find (\<lambda>s. srcScope s = k) ss) (covers sc))"

lemma compileLoop_find:
  assumes "compileSources ss = Inr m"
  shows "mget m sc = (case find (\<lambda>s. srcScope s = sc) ss of None \<Rightarrow> None
    | Some s \<Rightarrow> (case Compile (srcPolicy s) (srcRegistry s) of Inl e \<Rightarrow> None | Inr c \<Rightarrow> Some c))"
proof (cases "find (\<lambda>s. srcScope s = sc) ss")
  case None
  then have "\<forall>s \<in> set ss. srcScope s \<noteq> sc"
    by (auto simp: find_None_iff)
  with compileSources_get [OF assms, of sc] None show ?thesis
    by (cases "mget m sc") auto
next
  case (Some s)
  then have s: "s \<in> set ss" "srcScope s = sc"
    by (auto simp: find_Some_iff)
  have "\<exists>m'. compileLoop ss [] = Inr m'"
    using assms by (auto simp: compileSources_def split: if_splits)
  with s obtain c where "Compile (srcPolicy s) (srcRegistry s) = Inr c"
    unfolding compileLoop_ok_iff by blast
  with s Some compileSources_get [OF assms, of sc c] show ?thesis by auto
qed

lemma NewCache_Active:
  assumes "NewCache ss = Inr c"
  shows "Active (Some c) sc = (case sourceFor ss sc of None \<Rightarrow> None
    | Some s \<Rightarrow> (case Compile (srcPolicy s) (srcRegistry s) of Inl e \<Rightarrow> None | Inr p \<Rightarrow> Some p))"
proof -
  from assms have m: "compileSources ss = Inr (active c)"
    by (auto simp: NewCache_def split: sum.splits)
  have ok: "\<exists>p. Compile (srcPolicy s) (srcRegistry s) = Inr p" if "find (\<lambda>s. srcScope s = k) ss = Some s" for k s
  proof -
    have "\<exists>m'. compileLoop ss [] = Inr m'"
      using m by (auto simp: compileSources_def split: if_splits)
    with that show ?thesis
      unfolding compileLoop_ok_iff by (auto simp: find_Some_iff)
  qed
  have same: "\<lparr>scTenantID = scTenantID sc, scProjectID = []\<rparr> = sc" if "scProjectID sc = []"
    using that by (cases sc) simp
  show ?thesis
    by (auto simp: Active_def Let_def sourceFor_def covers_def compileLoop_find [OF m] same
        split: option.split sum.split dest: ok)
qed

lemma ReloadCache_failure:
  "compileSources ss = Inl e \<Longrightarrow>
   fst (ReloadCache rng now (Some c) ss) = Some e \<and>
   Active (snd (ReloadCache rng now (Some c) ss)) = Active (Some c)"
  by (auto simp: ReloadCache_def Active_def)

lemma ReloadCache_success:
  assumes "compileSources ss = Inr m"
  shows "fst (ReloadCache rng now (Some c) ss) = None \<and>
   (\<exists>c'. NewCache ss = Inr c' \<and> Active (snd (ReloadCache rng now (Some c) ss)) = Active (Some c'))"
  using assms by (auto simp: ReloadCache_def Active_def NewCache_def)

lemma fold_Record_Some:
  "fold (\<lambda>x. Record now (f x)) xs (Some s) = Some (fold (\<lambda>x. sinkRecord (stampEntry now (f x))) xs s)"
  by (induction xs arbitrary: s) (simp_all add: Record_def)

lemma fold_sinkRecord_Memory:
  "fold (\<lambda>x. sinkRecord (g x)) xs (Memory s) = Memory (fold memRecord (map g xs) s)"
  by (induction xs arbitrary: s) simp_all

text \<open>A successful reload leaves one audit entry per scope in a memory sink large enough for them.\<close>

lemma ReloadCache_audited:
  assumes m: "compileSources ss = Inr m" and s: "auditor c = Some (Memory s)" and ok: "memOK s"
    and rng: "mset (rng m) = mset m"
    and room: "length (memEntries s) + length m \<le> msMax s"
  shows "\<exists>c' s'. snd (ReloadCache rng now (Some c) ss) = Some c' \<and> auditor c' = Some (Memory s') \<and>
    mset (memEntries s') = mset (memEntries s) + mset (map (stampEntry now \<circ> reloadEntry) m)"
proof -
  have len: "length (rng m) = length m"
    using rng by (metis size_mset)
  have "memEntries (fold memRecord (map (\<lambda>x. stampEntry now (reloadEntry x)) (rng m)) s) =
      memEntries s @ map (\<lambda>x. stampEntry now (reloadEntry x)) (rng m)"
    using mem.items_fold [OF ok] room len by simp
  moreover have "mset (map (\<lambda>x. stampEntry now (reloadEntry x)) (rng m)) =
      mset (map (stampEntry now \<circ> reloadEntry) m)"
    by (simp add: rng comp_def)
  ultimately show ?thesis
    by (simp add: ReloadCache_def m s fold_Record_Some fold_sinkRecord_Memory)
qed

end
