(* ===== verification/Retention.thy ===== *)
theory Retention
  imports GoPrelude
begin

text \<open>
  Package \<open>internal/retention\<close>: per-tenant settings (\<open>settings.go\<close>), the sweep (\<open>cleaner.go\<close>) and
  the purger that turns a request into an SQL statement (\<open>purger.go\<close>). The database is a
  parameter: a function from a statement and its arguments to the number of rows removed and the
  next state. Times are nanoseconds in UTC, where \<open>AddDate\<close> moves by whole days.
\<close>

section \<open>Settings\<close>

abbreviation DefaultRetentionDays :: int where "DefaultRetentionDays \<equiv> 30"

record TenantSettings =
  tsRetentionDays :: int
  tsPromptLogging :: "bool option"

record RetSettings =
  rtsDefaultDays :: int
  rtsDefaultPromptLogging :: bool
  rtsTenants :: "(string, TenantSettings) gomap"

definition NewSettings :: "int \<Rightarrow> bool \<Rightarrow> RetSettings" where
  "NewSettings days logging =
     \<lparr>rtsDefaultDays = (if days \<le> 0 then DefaultRetentionDays else days), rtsDefaultPromptLogging = logging,
      rtsTenants = []\<rparr>"

definition SetTenantRetention :: "string \<Rightarrow> TenantSettings \<Rightarrow> RetSettings option \<Rightarrow> RetSettings option" where
  "SetTenantRetention tenant ts s =
     (case s of None \<Rightarrow> None
      | Some st \<Rightarrow> if tenant = [] then s else Some (st\<lparr>rtsTenants := mput tenant ts (rtsTenants st)\<rparr>))"

definition RetentionDays :: "RetSettings option \<Rightarrow> string \<Rightarrow> int" where
  "RetentionDays s tenant =
     (case s of None \<Rightarrow> DefaultRetentionDays
      | Some st \<Rightarrow> (case mget (rtsTenants st) tenant of
          Some ts \<Rightarrow> if tsRetentionDays ts > 0 then tsRetentionDays ts else rtsDefaultDays st
        | None \<Rightarrow> rtsDefaultDays st))"

definition PromptLoggingEnabled :: "RetSettings option \<Rightarrow> string \<Rightarrow> bool" where
  "PromptLoggingEnabled s tenant =
     (case s of None \<Rightarrow> False
      | Some st \<Rightarrow> (case mget (rtsTenants st) tenant of
          Some ts \<Rightarrow> (case tsPromptLogging ts of Some b \<Rightarrow> b | None \<Rightarrow> rtsDefaultPromptLogging st)
        | None \<Rightarrow> rtsDefaultPromptLogging st))"

definition AddDays :: "int \<Rightarrow> int \<Rightarrow> int" where
  "AddDays now days = now + days * 86400000000000"

definition Cutoff :: "RetSettings option \<Rightarrow> string \<Rightarrow> int \<Rightarrow> int" where
  "Cutoff s tenant now = AddDays now (- RetentionDays s tenant)"

definition TenantIDs :: "RetSettings option \<Rightarrow> string list" where
  "TenantIDs s = (case s of None \<Rightarrow> [] | Some st \<Rightarrow> sort (mkeys (rtsTenants st)))"

section \<open>The sweep\<close>

record RetTable =
  tbName :: string
  tbTimestampColumn :: string
  tbHasTenantID :: bool

definition DefaultTables :: "RetTable list" where
  "DefaultTables =
     [\<lparr>tbName = ''request_logs'', tbTimestampColumn = ''created_at'', tbHasTenantID = True\<rparr>,
      \<lparr>tbName = ''audit_log'', tbTimestampColumn = ''created_at'', tbHasTenantID = True\<rparr>,
      \<lparr>tbName = ''route_attempts'', tbTimestampColumn = ''attempted_at'', tbHasTenantID = False\<rparr>]"

record PurgeRequest =
  prTable :: string
  prTimestampColumn :: string
  prTenantID :: string
  prExcludeTenants :: "string list"
  prCutoff :: int

text \<open>A purger returns an error or the number of rows removed, and the state after the call.\<close>

type_synonym 'db purger = "PurgeRequest \<Rightarrow> 'db \<Rightarrow> (string + int) \<times> 'db"

record 'db Cleaner =
  clSettings :: "RetSettings option"
  clPurger :: "'db purger option"
  clTables :: "RetTable list"

definition NewCleaner :: "RetSettings option \<Rightarrow> 'db purger option \<Rightarrow> 'db Cleaner" where
  "NewCleaner s p = \<lparr>clSettings = s, clPurger = p, clTables = DefaultTables\<rparr>"

record SweepResult =
  srRowsPurged :: int
  srRequests :: int
  srErrors :: int

definition requestsFor :: "RetSettings option \<Rightarrow> RetTable \<Rightarrow> string list \<Rightarrow> int \<Rightarrow> PurgeRequest list" where
  "requestsFor s t overrides now =
     (if \<not> tbHasTenantID t
      then [\<lparr>prTable = tbName t, prTimestampColumn = tbTimestampColumn t, prTenantID = [],
             prExcludeTenants = [], prCutoff = Cutoff s [] now\<rparr>]
      else map (\<lambda>tid. \<lparr>prTable = tbName t, prTimestampColumn = tbTimestampColumn t, prTenantID = tid,
             prExcludeTenants = [], prCutoff = Cutoff s tid now\<rparr>) overrides @
           [\<lparr>prTable = tbName t, prTimestampColumn = tbTimestampColumn t, prTenantID = [],
             prExcludeTenants = overrides, prCutoff = Cutoff s [] now\<rparr>])"

definition purgeOne :: "'db purger \<Rightarrow> PurgeRequest \<Rightarrow> SweepResult \<times> 'db \<Rightarrow> SweepResult \<times> 'db" where
  "purgeOne purge req st =
     (let res = (fst st)\<lparr>srRequests := srRequests (fst st) + 1\<rparr>;
          (out, db) = purge req (snd st)
      in (case out of
            Inl e \<Rightarrow> (res\<lparr>srErrors := srErrors res + 1\<rparr>, db)
          | Inr n \<Rightarrow> (res\<lparr>srRowsPurged := i64 (srRowsPurged res + n)\<rparr>, db)))"

definition zeroSweep :: SweepResult where
  "zeroSweep = \<lparr>srRowsPurged = 0, srRequests = 0, srErrors = 0\<rparr>"

definition sweepPlan :: "'db Cleaner \<Rightarrow> int \<Rightarrow> PurgeRequest list" where
  "sweepPlan c now = concat (map (\<lambda>t. requestsFor (clSettings c) t (TenantIDs (clSettings c)) now) (clTables c))"

definition Sweep :: "'db Cleaner option \<Rightarrow> int \<Rightarrow> 'db \<Rightarrow> SweepResult \<times> 'db" where
  "Sweep c now db =
     (case c of None \<Rightarrow> (zeroSweep, db)
      | Some c \<Rightarrow> (case (clSettings c, clPurger c) of
          (Some s, Some purge) \<Rightarrow> fold (purgeOne purge) (sweepPlan c now) (zeroSweep, db)
        | _ \<Rightarrow> (zeroSweep, db)))"

text \<open>\<open>Run\<close> sweeps at once and then at every tick until it is cancelled; \<open>nows\<close> are the times it reads.\<close>

definition cleanerRun :: "'db Cleaner option \<Rightarrow> int list \<Rightarrow> 'db \<Rightarrow> 'db" where
  "cleanerRun c nows db = fold (\<lambda>now db. snd (Sweep c now db)) nows db"

definition dryRunPurge :: "'db purger" where
  "dryRunPurge req db = (Inr 0, db)"

section \<open>The SQL purger\<close>

datatype sqlArg = TimeArg int | TextArg string

definition placeholders :: "nat \<Rightarrow> string" where
  "placeholders n = joinWith '', '' (map (\<lambda>i. CHR ''$'' # showNat (i + 2)) [0..<n])"

definition purgeStatement :: "PurgeRequest \<Rightarrow> string \<times> sqlArg list" where
  "purgeStatement req =
     (let ts = (if prTimestampColumn req = [] then ''created_at'' else prTimestampColumn req);
          base = ''DELETE FROM '' @ prTable req @ '' WHERE '' @ ts @ '' < $1''
      in if prTenantID req \<noteq> []
         then (base @ '' AND tenant_id = $2'', [TimeArg (prCutoff req), TextArg (prTenantID req)])
         else if length (prExcludeTenants req) > 0
         then (base @ '' AND tenant_id NOT IN ('' @ placeholders (length (prExcludeTenants req)) @ '')'',
               TimeArg (prCutoff req) # map TextArg (prExcludeTenants req))
         else (base, [TimeArg (prCutoff req)]))"

text \<open>
  \<open>ExecContext\<close>: an error, or the state after the statement and the number of affected rows if the
  driver reports it.
\<close>

type_synonym 'db execer = "string \<Rightarrow> sqlArg list \<Rightarrow> 'db \<Rightarrow> (string + int option) \<times> 'db"

definition sqlPurge :: "'db execer option \<Rightarrow> 'db purger" where
  "sqlPurge exec req db =
     (case exec of
        None \<Rightarrow> (Inl ''retention: SQLPurger has no database handle'', db)
      | Some ex \<Rightarrow>
          (case ex (fst (purgeStatement req)) (snd (purgeStatement req)) db of
             (Inl e, db') \<Rightarrow> (Inl e, db')
           | (Inr None, db') \<Rightarrow> (Inr 0, db')
           | (Inr (Some n), db') \<Rightarrow> (Inr n, db')))"

section \<open>What a sweep removes\<close>

text \<open>A row of a log table, as far as the statements look at it.\<close>

record LogRow =
  lrTable :: string
  lrTenant :: string
  lrTime :: int

text \<open>
  The documented meaning of the three forms of \<open>DELETE\<close> that the purger writes, on a database that
  is the list of its rows: a row goes when the comparison and the condition on \<open>tenant_id\<close> hold
  (the columns are declared \<open>NOT NULL\<close>).
\<close>

definition deleteStatement :: "string \<Rightarrow> string \<Rightarrow> string" where
  "deleteStatement table ts = ''DELETE FROM '' @ table @ '' WHERE '' @ ts @ '' < $1''"

definition sqlName :: "string \<Rightarrow> bool" where
  "sqlName s \<longleftrightarrow> CHR '' '' \<notin> set s"

definition deletes_rows :: "LogRow list execer \<Rightarrow> bool" where
  "deletes_rows ex \<longleftrightarrow> (\<forall>table ts cut tenant tenants rows. sqlName table \<longrightarrow> sqlName ts \<longrightarrow>
     (\<exists>n. ex (deleteStatement table ts) [TimeArg cut] rows =
        (Inr n, filter (\<lambda>r. \<not> (lrTable r = table \<and> lrTime r < cut)) rows)) \<and>
     (\<exists>n. ex (deleteStatement table ts @ '' AND tenant_id = $2'') [TimeArg cut, TextArg tenant] rows =
        (Inr n, filter (\<lambda>r. \<not> (lrTable r = table \<and> lrTime r < cut \<and> lrTenant r = tenant)) rows)) \<and>
     (tenants \<noteq> [] \<longrightarrow>
      (\<exists>n. ex (deleteStatement table ts @ '' AND tenant_id NOT IN ('' @ placeholders (length tenants) @ '')'')
          (TimeArg cut # map TextArg tenants) rows =
        (Inr n, filter (\<lambda>r. \<not> (lrTable r = table \<and> lrTime r < cut \<and> lrTenant r \<notin> set tenants)) rows))))"

definition purges :: "PurgeRequest \<Rightarrow> LogRow \<Rightarrow> bool" where
  "purges req r \<longleftrightarrow> lrTable r = prTable req \<and> lrTime r < prCutoff req \<and>
     (if prTenantID req \<noteq> [] then lrTenant r = prTenantID req else lrTenant r \<notin> set (prExcludeTenants req))"

lemma sqlPurge_rows:
  assumes "deletes_rows ex" and "sqlName (prTable req)" and "sqlName (prTimestampColumn req)"
  shows "\<exists>n. sqlPurge (Some ex) req rows = (Inr n, filter (\<lambda>r. \<not> purges req r) rows)"
proof -
  let ?ts = "if prTimestampColumn req = [] then ''created_at'' else prTimestampColumn req"
  have "sqlName ?ts" using assms(3) by (simp add: sqlName_def)
  note sem = assms(1) [unfolded deletes_rows_def, rule_format, OF assms(2) this, of "prCutoff req"]
  consider "prTenantID req \<noteq> []" | "prTenantID req = []" "prExcludeTenants req = []"
    | "prTenantID req = []" "prExcludeTenants req \<noteq> []" by blast
  then show ?thesis
  proof cases
    case 1
    with sem [of rows "prTenantID req" "[]"] show ?thesis
      by (auto simp: sqlPurge_def purgeStatement_def purges_def deleteStatement_def Let_def split: option.split)
  next
    case 2
    with sem [of rows "[]" "[]"] show ?thesis
      by (auto simp: sqlPurge_def purgeStatement_def purges_def deleteStatement_def Let_def split: option.split)
  next
    case 3
    with sem [of rows "[]" "prExcludeTenants req"] show ?thesis
      by (auto simp: sqlPurge_def purgeStatement_def purges_def deleteStatement_def Let_def split: option.split)
  qed
qed

lemma fold_purgeOne_rows:
  assumes "deletes_rows ex" and "\<forall>req \<in> set reqs. sqlName (prTable req) \<and> sqlName (prTimestampColumn req)"
  shows "snd (fold (purgeOne (sqlPurge (Some ex))) reqs (res, rows)) =
    filter (\<lambda>r. \<not> (\<exists>req \<in> set reqs. purges req r)) rows"
  using assms(2)
proof (induction reqs arbitrary: res rows)
  case (Cons req reqs)
  obtain n where "sqlPurge (Some ex) req rows = (Inr n, filter (\<lambda>r. \<not> purges req r) rows)"
    using sqlPurge_rows [OF assms(1), of req] Cons.prems by auto
  then obtain res' where "purgeOne (sqlPurge (Some ex)) req (res, rows) = (res', filter (\<lambda>r. \<not> purges req r) rows)"
    by (simp add: purgeOne_def)
  then show ?case
    using Cons.prems by (simp add: Cons.IH conj_commute)
qed simp

text \<open>Settings are built by \<open>NewSettings\<close> and \<open>SetTenant\<close>: no override for the empty tenant.\<close>

definition settingsOK :: "RetSettings \<Rightarrow> bool" where
  "settingsOK s \<longleftrightarrow> mget (rtsTenants s) [] = None \<and> 0 < rtsDefaultDays s"

lemma NewSettings_ok: "settingsOK (NewSettings days b)"
  by (simp add: settingsOK_def NewSettings_def gomap_defs)

lemma SetTenant_ok: "settingsOK s \<Longrightarrow> \<exists>s'. SetTenantRetention t ts (Some s) = Some s' \<and> settingsOK s'"
  by (auto simp: settingsOK_def SetTenantRetention_def)

lemma TenantIDs_set: "t \<in> set (TenantIDs (Some s)) \<longleftrightarrow> mget (rtsTenants s) t \<noteq> None"
  by (simp add: TenantIDs_def set_mkeys)

lemma Cutoff_default: "mget (rtsTenants s) t = None \<Longrightarrow> settingsOK s \<Longrightarrow> Cutoff (Some s) t now = Cutoff (Some s) [] now"
  by (simp add: Cutoff_def RetentionDays_def settingsOK_def)

lemma requestsFor_purges:
  assumes "settingsOK s"
  shows "(\<exists>req \<in> set (requestsFor (Some s) t (TenantIDs (Some s)) now). purges req r) \<longleftrightarrow>
    lrTable r = tbName t \<and> lrTime r < Cutoff (Some s) (if tbHasTenantID t then lrTenant r else []) now"
proof (cases "tbHasTenantID t")
  case False
  then show ?thesis by (simp add: requestsFor_def purges_def)
next
  case True
  have nonempty: "[] \<notin> set (TenantIDs (Some s))"
    using assms by (simp add: TenantIDs_set settingsOK_def)
  have eq: "(\<exists>req \<in> set (requestsFor (Some s) t (TenantIDs (Some s)) now). purges req r) \<longleftrightarrow>
      (\<exists>tid \<in> set (TenantIDs (Some s)). lrTable r = tbName t \<and> lrTime r < Cutoff (Some s) tid now \<and> lrTenant r = tid) \<or>
      lrTable r = tbName t \<and> lrTime r < Cutoff (Some s) [] now \<and> lrTenant r \<notin> set (TenantIDs (Some s))"
  proof -
    have one: "purges \<lparr>prTable = tbName t, prTimestampColumn = tbTimestampColumn t, prTenantID = tid,
          prExcludeTenants = [], prCutoff = Cutoff (Some s) tid now\<rparr> r \<longleftrightarrow>
        lrTable r = tbName t \<and> lrTime r < Cutoff (Some s) tid now \<and> lrTenant r = tid"
      if "tid \<in> set (TenantIDs (Some s))" for tid
      using that nonempty by (cases "tid = []") (simp_all add: purges_def)
    then show ?thesis
      unfolding requestsFor_def using True
      by (simp add: bex_Un one purges_def [of "\<lparr>prTable = _, prTimestampColumn = _, prTenantID = [],
          prExcludeTenants = _, prCutoff = _\<rparr>"] disj_commute cong: bex_cong_simp)
  qed
  show ?thesis
  proof (cases "lrTenant r \<in> set (TenantIDs (Some s))")
    case inside: True
    then show ?thesis unfolding eq by (simp add: True)
  next
    case False
    then have "Cutoff (Some s) (lrTenant r) now = Cutoff (Some s) [] now"
      using assms by (intro Cutoff_default) (simp_all add: TenantIDs_set)
    with False show ?thesis unfolding eq by (auto simp: True)
  qed
qed

text \<open>The row is past the retention of its tenant, or of the default where the table has no tenant.\<close>

definition expired :: "RetSettings \<Rightarrow> RetTable list \<Rightarrow> int \<Rightarrow> LogRow \<Rightarrow> bool" where
  "expired s tables now r \<longleftrightarrow> (\<exists>t \<in> set tables. lrTable r = tbName t \<and>
     lrTime r < Cutoff (Some s) (if tbHasTenantID t then lrTenant r else []) now)"

text \<open>A database that reads the arguments and the last byte of the statement.\<close>

definition deletedTable :: "string \<Rightarrow> string" where
  "deletedTable q = takeWhile (\<lambda>c. c \<noteq> CHR '' '') (drop (length ''DELETE FROM '') q)"

definition argTime :: "sqlArg list \<Rightarrow> int" where
  "argTime as = (case as of TimeArg n # _ \<Rightarrow> n | _ \<Rightarrow> 0)"

definition argTexts :: "sqlArg list \<Rightarrow> string list" where
  "argTexts as = map (\<lambda>a. case a of TextArg t \<Rightarrow> t | TimeArg n \<Rightarrow> []) as"

definition listDB :: "LogRow list execer" where
  "listDB q as rows =
     (Inr None, filter (\<lambda>r. \<not> (lrTable r = deletedTable q \<and> lrTime r < argTime as \<and>
        (if argTexts (tl as) = [] then True
         else if last q = CHR '')'' then lrTenant r \<notin> set (argTexts (tl as))
         else lrTenant r = hd (argTexts (tl as))))) rows)"

lemma deletedTable_statement: "sqlName table \<Longrightarrow> deletedTable (deleteStatement table ts @ rest) = table"
  by (simp add: deletedTable_def deleteStatement_def sqlName_def takeWhile_append)

lemma argTexts_map [simp]: "argTexts (map TextArg ts) = ts" "argTexts [] = []" "argTexts [TextArg t] = [t]"
  by (simp_all add: argTexts_def comp_def)

lemma listDB_deletes: "deletes_rows listDB"
  unfolding deletes_rows_def
proof (intro allI impI conjI)
  fix table ts cut tenant tenants and rows :: "LogRow list"
  assume t: "sqlName table" "sqlName ts"
  show "\<exists>n. listDB (deleteStatement table ts) [TimeArg cut] rows =
        (Inr n, filter (\<lambda>r. \<not> (lrTable r = table \<and> lrTime r < cut)) rows)"
    using deletedTable_statement [OF t(1), of ts "[]"] by (simp add: listDB_def argTime_def)
  show "\<exists>n. listDB (deleteStatement table ts @ '' AND tenant_id = $2'') [TimeArg cut, TextArg tenant] rows =
        (Inr n, filter (\<lambda>r. \<not> (lrTable r = table \<and> lrTime r < cut \<and> lrTenant r = tenant)) rows)"
    by (simp add: listDB_def argTime_def deletedTable_statement [OF t(1)])
  show "\<exists>n. listDB (deleteStatement table ts @ '' AND tenant_id NOT IN ('' @ placeholders (length tenants) @ '')'')
          (TimeArg cut # map TextArg tenants) rows =
        (Inr n, filter (\<lambda>r. \<not> (lrTable r = table \<and> lrTime r < cut \<and> lrTenant r \<notin> set tenants)) rows)"
    if "tenants \<noteq> []"
    using that by (simp add: listDB_def argTime_def deletedTable_statement [OF t(1)])
qed

text \<open>
  over a database that gives the purger's statements their documented meaning, a sweep removes
  exactly the rows that are past the retention of their tenant (its own where it has one, the
  default otherwise; the default for tables without a tenant column) and touches no other row.
\<close>

theorem Sweep_removes_expired:
  assumes "deletes_rows ex" and "settingsOK s" and "clSettings c = Some s" and "clPurger c = Some (sqlPurge (Some ex))"
    and "\<forall>t \<in> set (clTables c). sqlName (tbName t) \<and> sqlName (tbTimestampColumn t)"
  shows "snd (Sweep (Some c) now rows) = filter (\<lambda>r. \<not> expired s (clTables c) now r) rows"
proof -
  have "(\<exists>req \<in> set (sweepPlan c now). purges req r) \<longleftrightarrow> expired s (clTables c) now r" for r
    using requestsFor_purges [OF assms(2)] by (simp add: sweepPlan_def assms(3) expired_def)
  moreover have "\<forall>req \<in> set (sweepPlan c now). sqlName (prTable req) \<and> sqlName (prTimestampColumn req)"
    using assms(5) by (auto simp: sweepPlan_def requestsFor_def split: if_splits)
  ultimately show ?thesis
    by (simp add: Sweep_def assms(3,4) fold_purgeOne_rows [OF assms(1)])
qed

definition longRetention :: RetSettings where
  "longRetention = \<lparr>rtsDefaultDays = 30, rtsDefaultPromptLogging = False,
     rtsTenants = [(''acme'', \<lparr>tsRetentionDays = 90, tsPromptLogging = None\<rparr>)]\<rparr>"

definition oldRow :: "string \<Rightarrow> string \<Rightarrow> LogRow" where
  "oldRow table tenant = \<lparr>lrTable = table, lrTenant = tenant, lrTime = - 60 * 86400000000000\<rparr>"

lemma Sweep_removes_expired_witness:
  "snd (Sweep (Some (NewCleaner (Some longRetention) (Some (sqlPurge (Some listDB))))) 0
     [oldRow ''request_logs'' ''acme'', oldRow ''request_logs'' ''other'', oldRow ''users'' ''other'']) =
   [oldRow ''request_logs'' ''acme'', oldRow ''users'' ''other'']"
proof -
  let ?c = "NewCleaner (Some longRetention) (Some (sqlPurge (Some listDB)))"
  have "settingsOK longRetention" by (simp add: settingsOK_def longRetention_def gomap_defs)
  moreover have "\<forall>t \<in> set (clTables ?c). sqlName (tbName t) \<and> sqlName (tbTimestampColumn t)"
    by (simp add: NewCleaner_def DefaultTables_def sqlName_def)
  ultimately have "snd (Sweep (Some ?c) 0 rows) = filter (\<lambda>r. \<not> expired longRetention (clTables ?c) 0 r) rows" for rows
    by (intro Sweep_removes_expired [OF listDB_deletes]) (simp_all add: NewCleaner_def)
  then show ?thesis
    by (simp add: expired_def NewCleaner_def DefaultTables_def oldRow_def longRetention_def Cutoff_def
        RetentionDays_def AddDays_def gomap_defs)
qed

end
