(* ===== verification/RegexMatch.thy ===== *)
theory RegexMatch
  imports GoPrelude
begin

text \<open>
  The part of package \<open>regexp\<close> that the classifier's patterns use, with the leftmost-first
  semantics the package documents: of the matches that begin leftmost, the one a backtracking
  engine finds first. \<open>ends re s i\<close> lists the ends of the matches of \<open>re\<close> in \<open>s\<close> from \<open>i\<close>, in
  that order of preference. The classes are ASCII; the two non-ASCII letters that \<open>(?i)\<close> folds
  onto \<open>k\<close> and \<open>s\<close> are not modelled.
\<close>

datatype re =
    Cls "char \<Rightarrow> bool"
  | Seqn "re list"
  | Alts "re list"
  | Star re
  | Bol
  | WordB

definition isWordByte :: "char \<Rightarrow> bool" where
  "isWordByte c \<longleftrightarrow> (let n = (of_char c :: nat) in
     (48 \<le> n \<and> n \<le> 57) \<or> (65 \<le> n \<and> n \<le> 90) \<or> (97 \<le> n \<and> n \<le> 122) \<or> n = 95)"

definition wordAt :: "string \<Rightarrow> nat \<Rightarrow> bool" where
  "wordAt s i \<longleftrightarrow> i < length s \<and> isWordByte (s ! i)"

definition wordBoundary :: "string \<Rightarrow> nat \<Rightarrow> bool" where
  "wordBoundary s i \<longleftrightarrow> (0 < i \<and> wordAt s (i - 1)) \<noteq> wordAt s i"

text \<open>Greedy repetition: every iteration has to move on.\<close>

primrec iter :: "(nat \<Rightarrow> nat list) \<Rightarrow> nat \<Rightarrow> nat \<Rightarrow> nat list" where
  "iter f 0 i = [i]"
| "iter f (Suc n) i = concat (map (iter f n) (filter (\<lambda>j. i < j) (f i))) @ [i]"

fun ends :: "re \<Rightarrow> string \<Rightarrow> nat \<Rightarrow> nat list" where
  "ends (Cls P) s i = (if i < length s \<and> P (s ! i) then [Suc i] else [])"
| "ends (Seqn []) s i = [i]"
| "ends (Seqn (r # rs)) s i = concat (map (ends (Seqn rs) s) (ends r s i))"
| "ends (Alts []) s i = []"
| "ends (Alts (r # rs)) s i = ends r s i @ ends (Alts rs) s i"
| "ends (Star r) s i = iter (ends r s) (length s - i) i"
| "ends Bol s i = (if i = 0 then [i] else [])"
| "ends WordB s i = (if wordBoundary s i then [i] else [])"

definition Plus :: "re \<Rightarrow> re" where
  "Plus r = Seqn [r, Star r]"

definition Opt :: "re \<Rightarrow> re" where
  "Opt r = Alts [r, Seqn []]"

definition RLit :: "string \<Rightarrow> re" where
  "RLit s = Seqn (map (\<lambda>c. Cls (\<lambda>d. d = c)) s)"

text \<open>A literal under \<open>(?i)\<close>.\<close>

definition RLitI :: "string \<Rightarrow> re" where
  "RLitI s = Seqn (map (\<lambda>c. Cls (\<lambda>d. toLowerByte d = toLowerByte c)) s)"

definition matchesAnywhere :: "re \<Rightarrow> string \<Rightarrow> bool" where
  "matchesAnywhere r s \<longleftrightarrow> list_ex (\<lambda>i. ends r s i \<noteq> []) [0..<Suc (length s)]"

text \<open>
  The first match from \<open>i\<close> on of a pattern \<open>pre(grp)\<close>: where its group begins and ends.
\<close>

definition groupAt :: "re \<Rightarrow> re \<Rightarrow> string \<Rightarrow> nat \<Rightarrow> (nat \<times> nat) list" where
  "groupAt pre grp s i = concat (map (\<lambda>j. map (\<lambda>e. (j, e)) (ends grp s j)) (ends pre s i))"

definition findGroup :: "re \<Rightarrow> re \<Rightarrow> string \<Rightarrow> nat \<Rightarrow> (nat \<times> nat) option" where
  "findGroup pre grp s i =
     (case concat (map (groupAt pre grp s) [i..<Suc (length s)]) of [] \<Rightarrow> None | m # _ \<Rightarrow> Some m)"

text \<open>The groups of the successive matches; every match found is longer than nothing.\<close>

function findAllGroups :: "re \<Rightarrow> re \<Rightarrow> string \<Rightarrow> nat \<Rightarrow> string list" where
  "findAllGroups pre grp s i =
     (case findGroup pre grp s i of
        None \<Rightarrow> []
      | Some (j, e) \<Rightarrow>
          if e \<le> i \<or> length s < e then []
          else take (e - j) (drop j s) # findAllGroups pre grp s e)"
  by pat_completeness auto
termination
  by (relation "measure (\<lambda>(_, _, s, i). length s - i)") auto

declare findAllGroups.simps [simp del]

section \<open>A match lies within the text\<close>

lemma iter_range:
  assumes "\<And>i j. i \<le> b \<Longrightarrow> j \<in> set (f i) \<Longrightarrow> i \<le> j \<and> j \<le> b"
  shows "i \<le> b \<Longrightarrow> j \<in> set (iter f n i) \<Longrightarrow> i \<le> j \<and> j \<le> b"
proof (induction n arbitrary: i)
  case (Suc n)
  then consider "j = i" | k where "k \<in> set (f i)" "i < k" "j \<in> set (iter f n k)" by auto
  then show ?case
  proof cases
    case 2
    have "k \<le> b" using assms [OF Suc.prems(1) 2(1)] by simp
    from Suc.IH [OF this 2(3)] 2(2) show ?thesis by simp
  qed (use Suc.prems in simp)
qed simp

lemma ends_range: "i \<le> length s \<Longrightarrow> j \<in> set (ends r s i) \<Longrightarrow> i \<le> j \<and> j \<le> length s"
proof (induction r s i arbitrary: j rule: ends.induct)
  case (3 r rs s i)
  from "3.prems"(2) obtain k where k: "k \<in> set (ends r s i)" "j \<in> set (ends (Seqn rs) s k)" by auto
  with "3.IH"(1) [OF "3.prems"(1)] have "i \<le> k" "k \<le> length s" by blast+
  with "3.IH"(2) [OF k(1) \<open>k \<le> length s\<close> k(2)] show ?case by simp
next
  case (6 r s i)
  show ?case
  proof (rule iter_range [where f = "ends r s"])
    fix a b
    assume a: "a \<le> length s" and b: "b \<in> set (ends r s a)"
    show "a \<le> b \<and> b \<le> length s"
      by (rule "6.IH" [OF a b])
  next
    show "i \<le> length s" by (rule "6.prems"(1))
  next
    show "j \<in> set (iter (ends r s) (length s - i) i)"
      using "6.prems"(2) by (simp only: ends.simps)
  qed
qed (auto split: if_splits)

end
