(* ===== verification/Features.thy ===== *)
theory Features
  imports RegexMatch OpenAI
begin

text \<open>
  \<open>internal/classifier/features.go\<close> and \<open>tokens.go\<close>: what is read off a prompt without a model
  call. The patterns are values of the regular expressions of \<open>RegexMatch\<close>; the term search is
  the loop of the code, and \<open>containsTerm_iff\<close> says that skipping past a rejected occurrence
  loses no whole-word occurrence. \<open>strings.ToLower\<close> is the ASCII one.
\<close>

section \<open>Patterns\<close>

definition inBytes :: "string \<Rightarrow> char \<Rightarrow> bool" where
  "inBytes cs c \<longleftrightarrow> c \<in> set cs"

definition isDigitByte :: "char \<Rightarrow> bool" where
  "isDigitByte c \<longleftrightarrow> 48 \<le> (of_char c :: nat) \<and> (of_char c :: nat) \<le> 57"

definition isHexByte :: "char \<Rightarrow> bool" where
  "isHexByte c \<longleftrightarrow> isDigitByte c \<or> (let n = (of_char (toLowerByte c) :: nat) in 97 \<le> n \<and> n \<le> 102)"

text \<open>The class \<open>\s\<close>.\<close>

definition reSpace :: "char \<Rightarrow> bool" where
  "reSpace c \<longleftrightarrow> of_char c \<in> {9, 10, 12, 13, 32 :: nat}"

abbreviation Backquote :: char where "Backquote \<equiv> CHR 0x60"
abbreviation Newline :: char where "Newline \<equiv> CHR 0x0A"
abbreviation DQuote :: char where "DQuote \<equiv> CHR 0x22"
abbreviation SQuote :: char where "SQuote \<equiv> CHR 0x27"

definition fence :: re where
  "fence = RLit [Backquote, Backquote, Backquote]"

definition codeBlockPattern :: re where
  "codeBlockPattern = Seqn [fence, Star (Cls (\<lambda>c. c \<noteq> Backquote)), fence]"

definition inlineCodePattern :: re where
  "inlineCodePattern = Seqn [RLit [Backquote], Plus (Cls (\<lambda>c. c \<noteq> Backquote \<and> c \<noteq> Newline)), RLit [Backquote]]"

definition pathByte :: "char \<Rightarrow> bool" where
  "pathByte c \<longleftrightarrow> isWordByte c \<or> inBytes ''.@-'' c"

definition pathExtensions :: "re list" where
  "pathExtensions = map RLitI [''go'', ''ts'', ''tsx'', ''js'', ''jsx'', ''py'', ''sql'', ''json''] @
     [Seqn [RLitI ''y'', Opt (RLitI ''a''), RLitI ''ml'']] @
     map RLitI [''toml'', ''md'', ''rs'', ''java'', ''kt'', ''swift'', ''rb'', ''php'', ''cs'', ''cpp'',
       ''cc'', ''cxx'', ''c'', ''h'', ''hpp'', ''css'', ''scss'', ''html'', ''svelte'', ''vue'', ''sh'']"

text \<open>What precedes a path, and the path: the group of the pattern.\<close>

definition pathBefore :: re where
  "pathBefore = Alts [Bol, Cls (\<lambda>c. reSpace c \<or> c = DQuote \<or> c = SQuote \<or> inBytes ''(:['' c)]"

definition pathGroup :: re where
  "pathGroup = Alts [
     Seqn [Plus (Seqn [Plus (Cls pathByte), RLit ''/'']), Plus (Cls pathByte), RLit ''.'', Alts pathExtensions],
     Seqn [Alts (map RLitI [''package'', ''tsconfig'', ''go.mod'', ''go.sum'', ''Dockerfile'', ''Makefile'', ''README'']),
           RLit ''.'', Opt (Alts (map RLitI [''json'', ''lock'', ''mod'', ''sum'', ''md'']))],
     Alts (map RLitI [''package.json'', ''go.mod'', ''go.sum'', ''Dockerfile'', ''Makefile'', ''README.md''])]"

definition lineColumn :: re where
  "lineColumn = Seqn [RLit '':'', Plus (Cls isDigitByte), Opt (Seqn [RLit '':'', Plus (Cls isDigitByte)])]"

definition stackLinePatterns :: "re list" where
  "stackLinePatterns =
     [Seqn [WordB, RLitI ''panic:''],
      Seqn [WordB, RLitI ''fatal error:''],
      Seqn [WordB, RLitI ''traceback (most recent call last):''],
      Seqn [WordB, RLit (''File '' @ [DQuote]), Plus (Cls (\<lambda>c. c \<noteq> DQuote)), RLit ([DQuote] @ '', line ''),
            Plus (Cls isDigitByte)],
      Seqn [WordB, RLit ''at'', Plus (Cls reSpace), Plus (Cls (\<lambda>c. c \<noteq> Newline)), RLit ''('',
            Star (Cls (\<lambda>c. c \<noteq> CHR '')'')), lineColumn, RLit '')''],
      Seqn [WordB, RLit ''at'', Plus (Cls reSpace), Plus (Cls (\<lambda>c. \<not> reSpace c)), lineColumn],
      Seqn [WordB, Plus (Cls (\<lambda>c. isWordByte c \<or> inBytes ''./-'' c)), RLit ''.go:'', Plus (Cls isDigitByte),
            Plus (Cls reSpace), RLit ''+0x'', Plus (Cls isHexByte)]]"

text \<open>\<open>FindAllStringIndex\<close> and \<open>ReplaceAllString\<close> for a pattern without a prefix.\<close>

definition countMatches :: "re \<Rightarrow> string \<Rightarrow> nat" where
  "countMatches r s = length (findAllGroups (Seqn []) r s 0)"

function replaceAll :: "re \<Rightarrow> string \<Rightarrow> string \<Rightarrow> nat \<Rightarrow> string" where
  "replaceAll r new s i =
     (case findGroup (Seqn []) r s i of
        None \<Rightarrow> drop i s
      | Some (j, e) \<Rightarrow>
          if e \<le> i \<or> length s < e then drop i s
          else take (j - i) (drop i s) @ new @ replaceAll r new s e)"
  by pat_completeness auto
termination
  by (relation "measure (\<lambda>(_, _, s, i). length s - i)") auto

declare replaceAll.simps [simp del]

fun splitLines :: "string \<Rightarrow> string list" where
  "splitLines [] = [[]]"
| "splitLines (c # s) =
     (if c = Newline then [] # splitLines s
      else case splitLines s of [] \<Rightarrow> [[c]] | l # ls \<Rightarrow> (c # l) # ls)"

definition countStackTraceLines :: "string \<Rightarrow> nat" where
  "countStackTraceLines text =
     length (filter (\<lambda>line. list_ex (\<lambda>p. matchesAnywhere p line) stackLinePatterns) (splitLines text))"

section \<open>Terms\<close>

definition isSearchWordByte :: "char \<Rightarrow> bool" where
  "isSearchWordByte c \<longleftrightarrow> (let n = (of_char c :: nat) in
     (97 \<le> n \<and> n \<le> 122) \<or> (48 \<le> n \<and> n \<le> 57) \<or> n = 95)"

definition hasNonWordSearchChar :: "string \<Rightarrow> bool" where
  "hasNonWordSearchChar t \<longleftrightarrow> list_ex (\<lambda>c. \<not> isSearchWordByte c) t"

definition occursAt :: "string \<Rightarrow> string \<Rightarrow> nat \<Rightarrow> bool" where
  "occursAt s t i \<longleftrightarrow> i + length t \<le> length s \<and> take (length t) (drop i s) = t"

text \<open>\<open>strings.Index(s[start:], t) + start\<close>\<close>

definition indexFrom :: "string \<Rightarrow> string \<Rightarrow> nat \<Rightarrow> nat option" where
  "indexFrom s t start = find (occursAt s t) [start..<Suc (length s)]"

definition wholeWordAt :: "string \<Rightarrow> string \<Rightarrow> nat \<Rightarrow> bool" where
  "wholeWordAt s t i \<longleftrightarrow>
     (i = 0 \<or> \<not> isSearchWordByte (s ! (i - 1))) \<and>
     (i + length t = length s \<or> \<not> isSearchWordByte (s ! (i + length t)))"

function searchTerm :: "string \<Rightarrow> string \<Rightarrow> nat \<Rightarrow> bool" where
  "searchTerm s t start =
     (if t = [] then False
      else case indexFrom s t start of
        None \<Rightarrow> False
      | Some idx \<Rightarrow> if wholeWordAt s t idx then True else searchTerm s t (idx + length t))"
  by pat_completeness auto

lemma indexFrom_Some:
  "indexFrom s t start = Some i \<Longrightarrow> start \<le> i \<and> occursAt s t i \<and> (\<forall>k. start \<le> k \<and> k < i \<longrightarrow> \<not> occursAt s t k)"
proof -
  assume "indexFrom s t start = Some i"
  then obtain n where n: "n < length [start..<Suc (length s)]" "occursAt s t ([start..<Suc (length s)] ! n)"
    "i = [start..<Suc (length s)] ! n" "\<And>m. m < n \<Longrightarrow> \<not> occursAt s t ([start..<Suc (length s)] ! m)"
    by (auto simp: indexFrom_def find_Some_iff simp del: upt_Suc)
  then have i: "i = start + n" by (simp del: upt_Suc)
  have "\<not> occursAt s t k" if "start \<le> k" "k < i" for k
    using n(4) [of "k - start"] that i n(1) by (simp del: upt_Suc)
  with n i show ?thesis by (simp del: upt_Suc)
qed

lemma indexFrom_None: "indexFrom s t start = None \<Longrightarrow> start \<le> k \<Longrightarrow> \<not> occursAt s t k"
  by (cases "k \<le> length s") (auto simp: indexFrom_def find_None_iff occursAt_def simp del: upt_Suc)

termination searchTerm
  by (relation "measure (\<lambda>(s, t, start). Suc (length s) - start)")
    (auto dest!: indexFrom_Some simp: occursAt_def neq_Nil_conv)

declare searchTerm.simps [simp del]

definition containsTerm :: "string \<Rightarrow> string \<Rightarrow> bool" where
  "containsTerm lower term' =
     (if term' = [] then False
      else if hasNonWordSearchChar term' then Contains lower term'
      else searchTerm lower term' 0)"

definition containsAnyTerm :: "string \<Rightarrow> string list \<Rightarrow> bool" where
  "containsAnyTerm lower terms = list_ex (containsTerm lower) terms"

definition hasAnyKeyword :: "string list \<Rightarrow> string list \<Rightarrow> bool" where
  "hasAnyKeyword keywords wanted = list_ex (\<lambda>k. k \<in> set wanted) keywords"

definition keywordRules :: "(string \<times> string list) list" where
  "keywordRules =
     [(''sql'', [''select from'', ''insert into'', ''update set'', ''delete from'', ''alter table'',
       ''create table'', ''create index'', ''drop table'', ''.sql'']),
      (''migration'', [''migration'', ''migrations'', ''schema'', ''rollback'', ''db/migrations'']),
      (''auth'', [''auth'', ''authentication'', ''authorization'', ''oauth'', ''session'', ''jwt'',
       ''token'', ''password'', ''permission'', ''rbac'']),
      (''payment'', [''payment'', ''payments'', ''billing'', ''checkout'', ''stripe'', ''invoice'',
       ''subscription'', ''refund'']),
      (''security'', [''security'', ''vulnerability'', ''xss'', ''csrf'', ''ssrf'', ''injection'', ''secret'',
       ''exploit'', ''cve'']),
      (''debug'', [''debug'', ''debugging'', ''debugger'', ''stack trace'', ''stacktrace'',
       ''stack-trace'', ''traceback'', ''backtrace'', ''back trace'', ''race condition'',
       ''data race'', ''deadlock'', ''dead lock'', ''livelock'', ''panic'', ''segfault'',
       ''seg fault'', ''segmentation fault'', ''null pointer'', ''nil pointer'',
       ''nullpointer'', ''null reference'', ''null pointer exception'',
       ''nil pointer dereference'', ''throws an exception'', ''throws exception'',
       ''exception thrown'', ''exception is thrown'', ''unhandled exception'',
       ''uncaught exception'', ''runtime exception'', ''stack overflow exception'',
       ''core dump'', ''core dumped'', ''memory leak'', ''buffer overflow'',
       ''index out of range'', ''index out of bounds'', ''out of bounds'', ''infinite loop'',
       ''runtime error'', ''syntax error'', ''type error'', ''crashing'', ''crashes'',
       ''crashed'', ''keeps crashing'', ''won't compile'', ''fails to compile'']),
      (''code'', [''concurrent'', ''concurrency'', ''goroutine'', ''goroutines'', ''mutex'',
       ''semaphore'', ''thread-safe'', ''thread safe'', ''multithreaded'', ''multi-threaded'',
       ''go code'', ''golang'', ''rust code'', ''python code'', ''java code'',
       ''javascript code'', ''c++ code'', ''my code'', ''your code'', ''this code'',
       ''the code base'', ''in my code'', ''compile'', ''compiler'', ''compilation'',
       ''recompile'', ''function call'', ''stack frame'', ''unit test'', ''integration test'',
       ''failing test'']),
      (''exploit'', [''exploit'', ''exploited'', ''exploitation'', ''rce'', ''remote code execution'']),
      (''production'', [''production'', ''prod'', ''incident'', ''down'', ''outage'']),
      (''urgent'', [''urgent'', ''asap'', ''hotfix'', ''rollback'']),
      (''change_intent'', [''fix'', ''change'', ''edit'', ''modify'', ''patch'', ''update'', ''implement'',
       ''rollback'']),
      (''json_schema'', [''json schema'', ''json_schema'', ''structured output'', ''return json'',
       ''respond with json'', ''valid json'', ''matching schema'']),
      (''tool_use'', [''tool call'', ''function calling'', ''call the tool'', ''use tools'']),
      (''vision'', [''image'', ''screenshot'', ''photo'', ''diagram'', ''vision'']),
      (''large_context'', [''large context'', ''long context'', ''entire codebase'', ''whole repository'',
       ''full repo'']),
      (''source_code'', [''source code'', ''codebase'', ''repository'', ''repo'']),
      (''pii'', [''ssn'', ''personnummer'', ''email'', ''phone'', ''address'', ''customer data'']),
      (''secret'', [''api key'', ''api_key'', ''secret'', ''private key'', ''password'', ''token''])]"

section \<open>Request hints\<close>

definition isTruthy :: "anyval \<Rightarrow> bool" where
  "isTruthy v =
     (case v of
        ANil \<Rightarrow> False
      | ABool b \<Rightarrow> b
      | AStr s \<Rightarrow> (let t = ToLower (TrimSpace s) in t \<noteq> [] \<and> t \<noteq> ''false'')
      | AList vs \<Rightarrow> vs \<noteq> []
      | AMap m \<Rightarrow> m \<noteq> []
      | AOther printed \<Rightarrow> printed \<noteq> []
      | AStrMap m \<Rightarrow> True
      | AStrs vs \<Rightarrow> True
      | AMaps ms \<Rightarrow> True)"

definition metadataTruthy :: "metadata \<Rightarrow> string list \<Rightarrow> bool" where
  "metadataTruthy md keys =
     list_ex (\<lambda>k. case mget md k of None \<Rightarrow> False | Some v \<Rightarrow> isTruthy v) keys"

definition responseFormatRequiresJSONSchema :: "anyval \<Rightarrow> bool" where
  "responseFormatRequiresJSONSchema fmt =
     (case fmt of
        AMap m \<Rightarrow>
          (let t = (case mget m ''type'' of Some (AStr s) \<Rightarrow> s | _ \<Rightarrow> [])
           in ToLower (TrimSpace t) = ''json_schema'' \<or> mget m ''json_schema'' \<noteq> None)
      | _ \<Rightarrow> False)"

section \<open>Extraction\<close>

abbreviation MaxKeywords :: nat where "MaxKeywords \<equiv> 32"
abbreviation MaxFilesTouched :: nat where "MaxFilesTouched \<equiv> 32"
abbreviation MaxSensitivityHints :: nat where "MaxSensitivityHints \<equiv> 16"

record Features =
  fHasCodeBlock :: bool
  fCodeBlockCount :: nat
  fHasInlineCode :: bool
  fInlineCodeCount :: nat
  fHasStackTrace :: bool
  fStackTraceCount :: nat
  fFilesTouched :: "string list"
  fKeywords :: "string list"
  fSensitivityHints :: "string list"
  fRequiresCode :: bool
  fRequiresToolUse :: bool
  fRequiresJSONSchema :: bool
  fRequiresVision :: bool
  fRequiresLargeContext :: bool

definition zeroFeatures :: Features where
  "zeroFeatures = \<lparr>fHasCodeBlock = False, fCodeBlockCount = 0, fHasInlineCode = False,
     fInlineCodeCount = 0, fHasStackTrace = False, fStackTraceCount = 0, fFilesTouched = [],
     fKeywords = [], fSensitivityHints = [], fRequiresCode = False, fRequiresToolUse = False,
     fRequiresJSONSchema = False, fRequiresVision = False, fRequiresLargeContext = False\<rparr>"

record RequestHints =
  hTools :: "anyval list"
  hHasTools :: bool
  hResponseFormat :: anyval
  hMetadata :: metadata

text \<open>\<open>addCapped\<close> on the values and the keys seen; \<open>value\<close> is what is appended.\<close>

definition addCapped :: "string \<Rightarrow> nat \<Rightarrow> string \<Rightarrow> string list \<times> string list \<Rightarrow> string list \<times> string list" where
  "addCapped key cap val st =
     (if key = [] \<or> key \<in> set (snd st) \<or> cap \<le> length (fst st) then st
      else (fst st @ [val], snd st @ [key]))"

text \<open>The keywords and the sensitivity hints are their own keys.\<close>

definition addKeyword :: "string \<Rightarrow> Features \<Rightarrow> Features" where
  "addKeyword k f =
     f\<lparr>fKeywords := fst (addCapped (ToLower k) MaxKeywords (ToLower k) (fKeywords f, fKeywords f))\<rparr>"

definition addSensitivity :: "string \<Rightarrow> Features \<Rightarrow> Features" where
  "addSensitivity h f =
     f\<lparr>fSensitivityHints := fst (addCapped (ToLower h) MaxSensitivityHints (ToLower h)
        (fSensitivityHints f, fSensitivityHints f))\<rparr>"

definition trimCutset :: "(char \<Rightarrow> bool) \<Rightarrow> string \<Rightarrow> string" where
  "trimCutset P s = rev (dropWhile P (rev (dropWhile P s)))"

definition pathCut :: "char \<Rightarrow> bool" where
  "pathCut c \<longleftrightarrow> of_char c \<in> {32, 9, 13, 10 :: nat} \<or> c = DQuote \<or> c = SQuote \<or> c = Backquote \<or>
     inBytes ''()[]{}<>.,;:'' c"

definition cleanPath :: "string \<Rightarrow> string" where
  "cleanPath path0 =
     (let path = trimCutset pathCut path0
      in if path = ''.'' \<or> path = ''..'' \<or> Contains path ''://'' then [] else path)"

text \<open>One path: the features with the keys of the files seen so far.\<close>

definition addPath :: "string \<Rightarrow> Features \<times> string list \<Rightarrow> Features \<times> string list" where
  "addPath raw st =
     (let path = cleanPath raw in
      if path = [] then st
      else
        let (files, seen) = addCapped (ToLower path) MaxFilesTouched path (fFilesTouched (fst st), snd st);
            f = (fst st)\<lparr>fFilesTouched := files\<rparr>;
            f' = (if suffix ''.sql'' (ToLower path) \<or> Contains (ToLower path) ''/migrations/''
                  then addKeyword ''migration'' (addKeyword ''sql'' f) else f)
        in (f', seen))"

definition extractMessage :: "Message \<Rightarrow> Features \<times> string list \<Rightarrow> Features \<times> string list" where
  "extractMessage msg st =
     (let text = msgContent msg; f = fst st;
          f1 = f\<lparr>fCodeBlockCount := fCodeBlockCount f + countMatches codeBlockPattern text,
                 fInlineCodeCount := fInlineCodeCount f +
                   countMatches inlineCodePattern (replaceAll codeBlockPattern '' '' text 0),
                 fStackTraceCount := fStackTraceCount f + countStackTraceLines text\<rparr>;
          (f2, seen) = fold addPath (findAllGroups pathBefore pathGroup text 0) (f1, snd st);
          lower = ToLower text
      in (fold (\<lambda>r f. if containsAnyTerm lower (snd r) then addKeyword (fst r) f else f) keywordRules f2, seen))"

text \<open>The hints of the request, before the messages are read.\<close>

definition extractHints :: "RequestHints \<Rightarrow> Features" where
  "extractHints h =
     (let f0 = zeroFeatures;
          f1 = (if hHasTools h \<or> hTools h \<noteq> [] \<or>
                   metadataTruthy (hMetadata h) [''tools'', ''tool_choice'', ''function_call'', ''functions'']
                then addKeyword ''tool_use'' (f0\<lparr>fRequiresToolUse := True\<rparr>) else f0);
          f2 = (if responseFormatRequiresJSONSchema (hResponseFormat h) \<or>
                   metadataTruthy (hMetadata h) [''json_schema'', ''schema'']
                then addKeyword ''json_schema'' (f1\<lparr>fRequiresJSONSchema := True\<rparr>) else f1);
          f3 = (if metadataTruthy (hMetadata h) [''vision'', ''image'', ''modalities'']
                then addKeyword ''vision'' (f2\<lparr>fRequiresVision := True\<rparr>) else f2)
      in if metadataTruthy (hMetadata h) [''large_context'', ''long_context'', ''context_tokens'']
         then addKeyword ''large_context'' (f3\<lparr>fRequiresLargeContext := True\<rparr>) else f3)"

definition addSensitivityIf :: "string \<Rightarrow> string \<Rightarrow> Features \<Rightarrow> Features" where
  "addSensitivityIf keyword hint f = (if hasAnyKeyword (fKeywords f) [keyword] then addSensitivity hint f else f)"

text \<open>What follows from the counts and the keywords, one assignment of the code after the other.\<close>

definition setCounted :: "Features \<Rightarrow> Features" where
  "setCounted f = f\<lparr>fHasCodeBlock := 0 < fCodeBlockCount f, fHasInlineCode := 0 < fInlineCodeCount f,
     fHasStackTrace := 0 < fStackTraceCount f\<rparr>"

definition setRequiresCode :: "Features \<Rightarrow> Features" where
  "setRequiresCode f = f\<lparr>fRequiresCode := fHasCodeBlock f \<or> fHasInlineCode f \<or> fHasStackTrace f \<or>
     fFilesTouched f \<noteq> [] \<or>
     hasAnyKeyword (fKeywords f) [''sql'', ''migration'', ''source_code'', ''debug'', ''code'']\<rparr>"

definition setFromKeywords :: "Features \<Rightarrow> Features" where
  "setFromKeywords f = f\<lparr>
     fRequiresJSONSchema := fRequiresJSONSchema f \<or> hasAnyKeyword (fKeywords f) [''json_schema''],
     fRequiresToolUse := fRequiresToolUse f \<or> hasAnyKeyword (fKeywords f) [''tool_use''],
     fRequiresVision := fRequiresVision f \<or> hasAnyKeyword (fKeywords f) [''vision'']\<rparr>"

definition setLargeContext :: "nat \<Rightarrow> Features \<Rightarrow> Features" where
  "setLargeContext totalChars f =
     (if hasAnyKeyword (fKeywords f) [''large_context''] \<or> 32000 \<le> totalChars
      then addKeyword ''large_context'' (f\<lparr>fRequiresLargeContext := True\<rparr>) else f)"

definition addSourceCode :: "Features \<Rightarrow> Features" where
  "addSourceCode f = (if fRequiresCode f then addSensitivity ''source_code'' f else f)"

definition finishFeatures :: "nat \<Rightarrow> Features \<Rightarrow> Features" where
  "finishFeatures totalChars f =
     addSensitivityIf ''security'' ''security'' (addSensitivityIf ''payment'' ''payment''
       (addSensitivityIf ''auth'' ''auth'' (addSensitivityIf ''pii'' ''pii''
         (addSensitivityIf ''secret'' ''secrets_possible'' (addSourceCode
           (setLargeContext totalChars (setFromKeywords (setRequiresCode (setCounted f)))))))))"

definition ExtractFromMessages :: "Message list \<Rightarrow> RequestHints \<Rightarrow> Features" where
  "ExtractFromMessages messages h =
     finishFeatures (sum_list (map (\<lambda>m. length (msgContent m)) messages))
       (fst (fold extractMessage messages (extractHints h, [])))"

definition ExtractFromRequest :: "ChatRequest \<Rightarrow> Features" where
  "ExtractFromRequest req = ExtractFromMessages (reqMessages req)
     \<lparr>hTools = reqTools req, hHasTools = reqTools req \<noteq> [], hResponseFormat = reqResponseFormat req,
      hMetadata = reqMetadata req\<rparr>"

section \<open>The term search finds every whole-word occurrence\<close>

lemma occurs_word: "\<not> hasNonWordSearchChar t \<Longrightarrow> occursAt s t i \<Longrightarrow> i \<le> k \<Longrightarrow> k < i + length t \<Longrightarrow> isSearchWordByte (s ! k)"
proof -
  assume t: "\<not> hasNonWordSearchChar t" and occ: "occursAt s t i" and k: "i \<le> k" "k < i + length t"
  have le: "i + length t \<le> length s" and eq: "take (length t) (drop i s) = t"
    using occ by (simp_all add: occursAt_def)
  have "s ! k = take (length t) (drop i s) ! (k - i)"
    using le k by simp
  then have "s ! k \<in> set t"
    using k by (simp add: eq)
  with t show ?thesis by (auto simp: hasNonWordSearchChar_def list_ex_iff)
qed

lemma searchTerm_iff:
  assumes word: "\<not> hasNonWordSearchChar t" and t: "t \<noteq> []"
  shows "searchTerm s t start \<longleftrightarrow> (\<exists>i. start \<le> i \<and> occursAt s t i \<and> wholeWordAt s t i)"
  using word t
proof (induction s t start rule: searchTerm.induct)
  case (1 s t start)
  show ?case
  proof (cases "indexFrom s t start")
    case None
    with indexFrom_None [OF None] show ?thesis
      by (auto simp: searchTerm.simps [of s t start])
  next
    case (Some idx)
    note first = indexFrom_Some [OF Some]
    show ?thesis
    proof (cases "wholeWordAt s t idx")
      case True
      with first Some 1 show ?thesis by (auto simp: searchTerm.simps [of s t start])
    next
      case False
      have "idx + length t \<le> i" if i: "start \<le> i" "occursAt s t i" "wholeWordAt s t i" for i
      proof (rule ccontr)
        assume "\<not> ?thesis"
        moreover have "idx < i"
          using first i False by (metis linorder_neqE_nat)
        ultimately have "isSearchWordByte (s ! (i - 1))"
          using occurs_word [of t s idx "i - 1"] first 1 by auto
        with i(3) \<open>idx < i\<close> show False by (simp add: wholeWordAt_def)
      qed
      then have "(\<exists>i. start \<le> i \<and> occursAt s t i \<and> wholeWordAt s t i) \<longleftrightarrow>
          (\<exists>i. idx + length t \<le> i \<and> occursAt s t i \<and> wholeWordAt s t i)"
        using first by (meson le_trans trans_le_add1)
      with 1 Some False show ?thesis
        by (simp add: searchTerm.simps [of s t start])
    qed
  qed
qed

lemma containsTerm_iff:
  "containsTerm s t \<longleftrightarrow> t \<noteq> [] \<and>
     (if hasNonWordSearchChar t then \<exists>a b. s = a @ t @ b
      else \<exists>i. occursAt s t i \<and> wholeWordAt s t i)"
  by (simp add: containsTerm_def Contains_iff searchTerm_iff)

section \<open>Caps and distinctness of the extracted lists\<close>

definition capsOK :: "Features \<Rightarrow> bool" where
  "capsOK f \<longleftrightarrow> length (fKeywords f) \<le> MaxKeywords \<and> distinct (fKeywords f) \<and>
     length (fFilesTouched f) \<le> MaxFilesTouched \<and>
     length (fSensitivityHints f) \<le> MaxSensitivityHints \<and> distinct (fSensitivityHints f)"

definition filesOK :: "Features \<times> string list \<Rightarrow> bool" where
  "filesOK st \<longleftrightarrow> capsOK (fst st) \<and> snd st = map ToLower (fFilesTouched (fst st)) \<and> distinct (snd st)"

lemma capsOK_zero: "capsOK zeroFeatures"
  by (simp add: capsOK_def zeroFeatures_def)

lemma capsOK_addKeyword [simp]: "capsOK f \<Longrightarrow> capsOK (addKeyword k f)"
  by (auto simp: capsOK_def addKeyword_def addCapped_def)

lemma capsOK_addSensitivity [simp]: "capsOK f \<Longrightarrow> capsOK (addSensitivity k f)"
  by (auto simp: capsOK_def addSensitivity_def addCapped_def)

lemma capsOK_flags [simp]:
  "capsOK (f\<lparr>fRequiresToolUse := b\<rparr>) = capsOK f" "capsOK (f\<lparr>fRequiresJSONSchema := b\<rparr>) = capsOK f"
  "capsOK (f\<lparr>fRequiresVision := b\<rparr>) = capsOK f" "capsOK (f\<lparr>fRequiresLargeContext := b\<rparr>) = capsOK f"
  "capsOK (f\<lparr>fRequiresCode := b\<rparr>) = capsOK f" "capsOK (f\<lparr>fHasCodeBlock := b\<rparr>) = capsOK f"
  "capsOK (f\<lparr>fHasInlineCode := b\<rparr>) = capsOK f" "capsOK (f\<lparr>fHasStackTrace := b\<rparr>) = capsOK f"
  "capsOK (f\<lparr>fCodeBlockCount := n\<rparr>) = capsOK f" "capsOK (f\<lparr>fInlineCodeCount := n\<rparr>) = capsOK f"
  "capsOK (f\<lparr>fStackTraceCount := n\<rparr>) = capsOK f"
  by (simp_all add: capsOK_def)

lemma capsOK_hints: "capsOK (extractHints h)"
  by (simp add: extractHints_def Let_def capsOK_zero)

lemma addKeyword_files [simp]: "fFilesTouched (addKeyword k f) = fFilesTouched f"
  by (simp add: addKeyword_def)

lemma filesOK_addKeyword: "filesOK (f, seen) \<Longrightarrow> filesOK (addKeyword k f, seen)"
  by (auto simp: filesOK_def)

lemma filesOK_capped:
  "filesOK st \<Longrightarrow> addCapped (ToLower path) MaxFilesTouched path (fFilesTouched (fst st), snd st) = (files, seen) \<Longrightarrow>
   filesOK ((fst st)\<lparr>fFilesTouched := files\<rparr>, seen)"
  by (auto simp: filesOK_def addCapped_def capsOK_def split: if_splits)

lemma filesOK_addPath: "filesOK st \<Longrightarrow> filesOK (addPath raw st)"
  by (auto simp: addPath_def Let_def split: prod.split intro: filesOK_addKeyword filesOK_capped)

lemma filesOK_addPaths: "filesOK st \<Longrightarrow> filesOK (fold addPath ps st)"
  by (induction ps arbitrary: st) (simp_all add: filesOK_addPath)

lemma filesOK_keywords: "filesOK (f, seen) \<Longrightarrow>
  filesOK (fold (\<lambda>r f. if containsAnyTerm lower (snd r) then addKeyword (fst r) f else f) rules f, seen)"
  by (induction rules arbitrary: f) (auto simp: filesOK_def)

lemma filesOK_message: "filesOK st \<Longrightarrow> filesOK (extractMessage m st)"
proof -
  assume ok: "filesOK st"
  let ?f1 = "(fst st)\<lparr>fCodeBlockCount := fCodeBlockCount (fst st) + countMatches codeBlockPattern (msgContent m),
     fInlineCodeCount := fInlineCodeCount (fst st) +
       countMatches inlineCodePattern (replaceAll codeBlockPattern '' '' (msgContent m) 0),
     fStackTraceCount := fStackTraceCount (fst st) + countStackTraceLines (msgContent m)\<rparr>"
  have "filesOK (?f1, snd st)"
    using ok by (auto simp: filesOK_def)
  then have "filesOK (fold addPath (findAllGroups pathBefore pathGroup (msgContent m) 0) (?f1, snd st))"
    by (rule filesOK_addPaths)
  then show ?thesis
    by (auto simp: extractMessage_def Let_def split: prod.split intro: filesOK_keywords)
qed

lemma filesOK_messages: "filesOK st \<Longrightarrow> filesOK (fold extractMessage ms st)"
  by (induction ms arbitrary: st) (simp_all add: filesOK_message)

lemma addSensitivity_files [simp]: "fFilesTouched (addSensitivity k f) = fFilesTouched f"
  by (simp add: addSensitivity_def)

lemma finish_steps [simp]:
  "capsOK (setCounted f) = capsOK f" "capsOK (setRequiresCode f) = capsOK f" "capsOK (setFromKeywords f) = capsOK f"
  "fFilesTouched (setCounted f) = fFilesTouched f" "fFilesTouched (setRequiresCode f) = fFilesTouched f"
  "fFilesTouched (setFromKeywords f) = fFilesTouched f" "fFilesTouched (setLargeContext n f) = fFilesTouched f"
  "fFilesTouched (addSourceCode f) = fFilesTouched f" "fFilesTouched (addSensitivityIf k h f) = fFilesTouched f"
  by (simp_all add: setCounted_def setRequiresCode_def setFromKeywords_def setLargeContext_def
      addSourceCode_def addSensitivityIf_def)

lemma capsOK_steps [simp]:
  "capsOK f \<Longrightarrow> capsOK (setLargeContext n f)" "capsOK f \<Longrightarrow> capsOK (addSourceCode f)"
  "capsOK f \<Longrightarrow> capsOK (addSensitivityIf k h f)"
  by (simp_all add: setLargeContext_def addSourceCode_def addSensitivityIf_def)

lemma capsOK_finish: "capsOK f \<Longrightarrow> capsOK (finishFeatures n f)"
  by (simp add: finishFeatures_def)

lemma finish_files [simp]: "fFilesTouched (finishFeatures n f) = fFilesTouched f"
  by (simp add: finishFeatures_def)

lemma extractHints_files: "filesOK (extractHints h, [])"
  by (simp add: filesOK_def capsOK_hints) (simp add: extractHints_def Let_def zeroFeatures_def)

lemma ExtractFromMessages_ok:
  "capsOK (ExtractFromMessages ms h) \<and> distinct (map ToLower (fFilesTouched (ExtractFromMessages ms h)))"
proof -
  have "filesOK (fold extractMessage ms (extractHints h, []))"
    by (rule filesOK_messages [OF extractHints_files])
  then show ?thesis
    by (auto simp: ExtractFromMessages_def filesOK_def capsOK_finish)
qed

end
