(* ===== verification/Secrets.thy ===== *)
theory Secrets
  imports Features
begin

text \<open>
  Package \<open>internal/secrets\<close>: the rules that mask secret material in outbound text. A rule's
  pattern is kept in three parts, before, inside and after its capture group; a rule without a
  group has its whole pattern inside. \<open>Mask\<close> applies the rules in order.
\<close>

section \<open>Matches with a group\<close>

text \<open>The match that begins at \<open>i\<close>: where its group begins and ends, and where it ends itself.\<close>

definition tripleAt :: "re \<Rightarrow> re \<Rightarrow> re \<Rightarrow> string \<Rightarrow> nat \<Rightarrow> (nat \<times> nat \<times> nat) list" where
  "tripleAt pre grp post s i =
     concat (map (\<lambda>j. concat (map (\<lambda>e. map (\<lambda>x. (j, e, x)) (ends post s e)) (ends grp s j))) (ends pre s i))"

definition findTriple :: "re \<Rightarrow> re \<Rightarrow> re \<Rightarrow> string \<Rightarrow> nat \<Rightarrow> (nat \<times> nat \<times> nat \<times> nat) option" where
  "findTriple pre grp post s i =
     (case concat (map (\<lambda>k. map (Pair k) (tripleAt pre grp post s k)) [i..<Suc (length s)]) of
        [] \<Rightarrow> None | m # _ \<Rightarrow> Some m)"

definition sub :: "string \<Rightarrow> nat \<Rightarrow> nat \<Rightarrow> string" where
  "sub s i j = take (j - i) (drop i s)"

record maskRule =
  mrKind :: string
  mrPre :: re
  mrGroup :: re
  mrPost :: re
  mrReplace :: "string \<Rightarrow> string"

text \<open>\<open>ReplaceAllStringFunc\<close>; no rule matches the empty string.\<close>

function replaceFunc :: "maskRule \<Rightarrow> string \<Rightarrow> nat \<Rightarrow> string" where
  "replaceFunc r s i =
     (case findTriple (mrPre r) (mrGroup r) (mrPost r) s i of
        None \<Rightarrow> drop i s
      | Some (k, j, e, x) \<Rightarrow>
          if x \<le> i \<or> length s < x then drop i s
          else sub s i k @ mrReplace r (sub s k x) @ replaceFunc r s x)"
  by pat_completeness auto
termination
  by (relation "measure (\<lambda>(_, s, i). length s - i)") auto

declare replaceFunc.simps [simp del]

section \<open>The rules\<close>

definition redaction :: "string \<Rightarrow> string" where
  "redaction kind = ''[REDACTED:'' @ kind @ '']''"

definition redactFull :: "string \<Rightarrow> string \<Rightarrow> string" where
  "redactFull kind m = redaction kind"

definition redactGroup :: "string \<Rightarrow> re \<Rightarrow> re \<Rightarrow> re \<Rightarrow> string \<Rightarrow> string" where
  "redactGroup kind pre grp post m =
     (case findTriple pre grp post m 0 of
        None \<Rightarrow> redaction kind
      | Some (k, j, e, x) \<Rightarrow> take j m @ redaction kind @ drop e m)"

definition atLeast :: "nat \<Rightarrow> (char \<Rightarrow> bool) \<Rightarrow> re" where
  "atLeast n P = Seqn (replicate n (Cls P) @ [Star (Cls P)])"

definition exactly :: "nat \<Rightarrow> (char \<Rightarrow> bool) \<Rightarrow> re" where
  "exactly n P = Seqn (replicate n (Cls P))"

definition alnum :: "char \<Rightarrow> bool" where
  "alnum c \<longleftrightarrow> isWordByte c \<and> c \<noteq> CHR ''_''"

definition upperOrDigit :: "char \<Rightarrow> bool" where
  "upperOrDigit c \<longleftrightarrow> (let n = (of_char c :: nat) in (48 \<le> n \<and> n \<le> 57) \<or> (65 \<le> n \<and> n \<le> 90))"

definition base64url :: "char \<Rightarrow> bool" where
  "base64url c \<longleftrightarrow> isWordByte c \<or> c = CHR ''-''"

definition valueClass :: re where
  "valueClass = Plus (Cls (\<lambda>c. \<not> (reSpace c \<or> c = DQuote \<or> c = SQuote \<or> inBytes '',&)[]'' c)))"

definition wholeRule :: "string \<Rightarrow> re \<Rightarrow> maskRule" where
  "wholeRule kind r = \<lparr>mrKind = kind, mrPre = Seqn [], mrGroup = r, mrPost = Seqn [], mrReplace = redactFull kind\<rparr>"

definition groupRule :: "string \<Rightarrow> string \<Rightarrow> re \<Rightarrow> re \<Rightarrow> re \<Rightarrow> maskRule" where
  "groupRule kind label pre grp post =
     \<lparr>mrKind = kind, mrPre = pre, mrGroup = grp, mrPost = post, mrReplace = redactGroup label pre grp post\<rparr>"

definition quoteOpt :: re where
  "quoteOpt = Opt (Cls (\<lambda>c. c = DQuote \<or> c = SQuote))"

definition secretNames :: re where
  "secretNames =
     (let gap = Opt (Cls (inBytes ''_-'')) in
      Alts [RLitI ''password'', RLitI ''passwd'', RLitI ''pwd'', RLitI ''secret'',
        Seqn [RLitI ''api'', gap, RLitI ''key''], RLitI ''apikey'',
        Seqn [RLitI ''access'', gap, RLitI ''token''], Seqn [RLitI ''auth'', gap, RLitI ''token''],
        Seqn [RLitI ''client'', gap, RLitI ''secret''], RLitI ''token''])"

definition maskRules :: "maskRule list" where
  "maskRules =
     [wholeRule ''jwt'' (Seqn [RLit ''eyJ'', atLeast 6 base64url, RLit ''.'', atLeast 6 base64url, RLit ''.'',
        atLeast 6 base64url]),
      wholeRule ''api_key'' (Seqn [RLit ''sk-'', Opt (Alts [RLit ''ant-'', RLit ''proj-'']), atLeast 16 base64url]),
      wholeRule ''aws_key'' (Seqn [RLit ''AKIA'', exactly 16 upperOrDigit]),
      wholeRule ''google_key'' (Seqn [RLit ''AIza'', exactly 35 base64url]),
      wholeRule ''github_token'' (Seqn [RLit ''gh'', Cls (inBytes ''pousr''), RLit ''_'', atLeast 30 alnum]),
      groupRule ''token'' ''token'' (Seqn [RLitI ''bearer'', Plus (Cls reSpace)])
        (atLeast 8 (\<lambda>c. alnum c \<or> inBytes ''._~+/=-'' c)) (Seqn []),
      groupRule ''db_password'' ''db_password''
        (Seqn [Cls (\<lambda>c. alnum c \<and> \<not> isDigitByte c), Star (Cls (\<lambda>c. alnum c \<or> inBytes ''+.-'' c)), RLit ''://'',
               Plus (Cls (\<lambda>c. \<not> (inBytes '':@/'' c \<or> reSpace c))), RLit '':''])
        valueClass (RLit ''@''),
      groupRule ''secret_kv'' ''secret''
        (Seqn [WordB, secretNames, WordB, quoteOpt, Star (Cls reSpace), Cls (inBytes ''=:''), Star (Cls reSpace), quoteOpt])
        valueClass (Seqn [])]"

record MaskResult =
  mkText :: string
  mkKinds :: "string list"

definition applyMaskRule :: "maskRule \<Rightarrow> MaskResult \<Rightarrow> MaskResult" where
  "applyMaskRule r res =
     \<lparr>mkText = replaceFunc r (mkText res) 0,
      mkKinds = (if findTriple (mrPre r) (mrGroup r) (mrPost r) (mkText res) 0 \<noteq> None \<and> mrKind r \<notin> set (mkKinds res)
                 then mkKinds res @ [mrKind r] else mkKinds res)\<rparr>"

definition Mask :: "string \<Rightarrow> MaskResult" where
  "Mask s = (if s = [] then \<lparr>mkText = s, mkKinds = []\<rparr>
             else fold applyMaskRule maskRules \<lparr>mkText = s, mkKinds = []\<rparr>)"

definition MaskString :: "string \<Rightarrow> string" where
  "MaskString s = mkText (Mask s)"

definition maskMasked :: "MaskResult \<Rightarrow> bool" where
  "maskMasked r \<longleftrightarrow> length (mkKinds r) > 0"

definition maskCount :: "MaskResult \<Rightarrow> nat" where
  "maskCount r = length (mkKinds r)"

definition maskTypes :: "MaskResult \<Rightarrow> string list" where
  "maskTypes r = sort (mkKinds r)"

section \<open>Text without a secret is untouched\<close>

definition ruleMatches :: "maskRule \<Rightarrow> string \<Rightarrow> bool" where
  "ruleMatches r s \<longleftrightarrow> findTriple (mrPre r) (mrGroup r) (mrPost r) s 0 \<noteq> None"

lemma applyMaskRule_unmatched: "\<not> ruleMatches r (mkText res) \<Longrightarrow> applyMaskRule r res = res"
proof -
  assume "\<not> ruleMatches r (mkText res)"
  then have none: "findTriple (mrPre r) (mrGroup r) (mrPost r) (mkText res) 0 = None"
    unfolding ruleMatches_def by blast
  then have "replaceFunc r (mkText res) 0 = mkText res"
    by (simp add: replaceFunc.simps [of r "mkText res" 0])
  with none show ?thesis by (cases res) (simp add: applyMaskRule_def)
qed

lemma fold_unmatched: "\<forall>r \<in> set rs. \<not> ruleMatches r (mkText res) \<Longrightarrow> fold applyMaskRule rs res = res"
  by (induction rs) (simp_all add: applyMaskRule_unmatched)

lemma applyMaskRule_kinds: "mkKinds (applyMaskRule r res) = mkKinds res \<longleftrightarrow>
    \<not> ruleMatches r (mkText res) \<or> mrKind r \<in> set (mkKinds res)"
  by (simp add: applyMaskRule_def ruleMatches_def)

lemma kinds_grow: "prefix (mkKinds res) (mkKinds (fold applyMaskRule rs res))"
proof (induction rs arbitrary: res)
  case (Cons r rs)
  have "prefix (mkKinds res) (mkKinds (applyMaskRule r res))"
    by (simp add: applyMaskRule_def)
  also have "prefix \<dots> (mkKinds (fold applyMaskRule rs (applyMaskRule r res)))"
    by (rule Cons.IH)
  finally show ?case by simp
qed simp

lemma fold_no_kinds:
  "mkKinds res = [] \<Longrightarrow> mkKinds (fold applyMaskRule rs res) = [] \<longleftrightarrow> (\<forall>r \<in> set rs. \<not> ruleMatches r (mkText res))"
proof (induction rs)
  case (Cons r rs)
  show ?case
  proof (cases "ruleMatches r (mkText res)")
    case True
    then have "mkKinds (applyMaskRule r res) \<noteq> []"
      using Cons.prems by (simp add: applyMaskRule_def ruleMatches_def)
    then have "mkKinds (fold applyMaskRule rs (applyMaskRule r res)) \<noteq> []"
      using kinds_grow [of "applyMaskRule r res" rs] by auto
    with True show ?thesis by simp
  next
    case False
    with Cons show ?thesis by (simp add: applyMaskRule_unmatched)
  qed
qed simp

text \<open>
  A text is reported as masked exactly when a rule matches it, and is returned unchanged otherwise.
\<close>

lemma Mask_reports:
  assumes "s \<noteq> []"
  shows "maskMasked (Mask s) \<longleftrightarrow> (\<exists>r \<in> set maskRules. ruleMatches r s)"
    and "\<not> maskMasked (Mask s) \<Longrightarrow> MaskString s = s"
proof -
  have kinds: "mkKinds (Mask s) = [] \<longleftrightarrow> (\<forall>r \<in> set maskRules. \<not> ruleMatches r s)"
    using fold_no_kinds [of "\<lparr>mkText = s, mkKinds = []\<rparr>" maskRules] assms by (simp add: Mask_def)
  then show "maskMasked (Mask s) \<longleftrightarrow> (\<exists>r \<in> set maskRules. ruleMatches r s)"
    by (simp add: maskMasked_def)
  assume "\<not> maskMasked (Mask s)"
  with kinds have "\<forall>r \<in> set maskRules. \<not> ruleMatches r s" by (simp add: maskMasked_def)
  then show "MaskString s = s"
    using fold_unmatched [of maskRules "\<lparr>mkText = s, mkKinds = []\<rparr>"] assms by (simp add: MaskString_def Mask_def)
qed

end
