(* ===== verification/Classifier.thy ===== *)
theory Classifier
  imports Features
begin

text \<open>
  \<open>internal/classifier/tokens.go\<close>, \<open>task.go\<close> and \<open>risk.go\<close>: the token estimate, the task
  classification and the risk classification. The risk classifier threads its result through
  escalations; the laws say that no escalation lowers the risk or the sensitivity, so that a
  client's hint can only raise them.
\<close>

section \<open>Tokens\<close>

text \<open>\<open>utf8.RuneCountInString\<close>: a byte that begins no valid encoding counts as one rune.\<close>

definition contByte :: "nat \<Rightarrow> nat \<Rightarrow> string \<Rightarrow> nat \<Rightarrow> bool" where
  "contByte lo hi s i \<longleftrightarrow> i < length s \<and> lo \<le> (of_char (s ! i) :: nat) \<and> (of_char (s ! i) :: nat) \<le> hi"

definition runeLen :: "string \<Rightarrow> nat" where
  "runeLen s =
     (let b = (of_char (s ! 0) :: nat); cont = contByte 128 191 s in
      if 194 \<le> b \<and> b \<le> 223 \<and> cont 1 then 2
      else if (b = 224 \<and> contByte 160 191 s 1 \<or> b = 237 \<and> contByte 128 159 s 1 \<or>
               (225 \<le> b \<and> b \<le> 239 \<and> b \<noteq> 237) \<and> cont 1) \<and> cont 2 then 3
      else if (b = 240 \<and> contByte 144 191 s 1 \<or> b = 244 \<and> contByte 128 143 s 1 \<or>
               (241 \<le> b \<and> b \<le> 243) \<and> cont 1) \<and> cont 2 \<and> cont 3 then 4
      else 1)"

lemma runeLen_pos: "0 < runeLen s"
  by (simp add: runeLen_def Let_def)

function runeCount :: "string \<Rightarrow> nat" where
  "runeCount s = (if s = [] then 0 else Suc (runeCount (drop (runeLen s) s)))"
  by pat_completeness auto
termination
  by (relation "measure length") (auto simp: runeLen_pos)

declare runeCount.simps [simp del]

record TokenEstimate =
  teCharCount :: int
  tePromptTokensEstimate :: int
  teMaxOutputTokensEstimate :: int
  teMaxOutputTokensSource :: string

definition isRelevantChatRole :: "string \<Rightarrow> bool" where
  "isRelevantChatRole role \<longleftrightarrow> role \<in> {''system'', ''developer'', ''user'', ''assistant'', ''tool''}"

definition countPromptChars :: "Message list \<Rightarrow> int" where
  "countPromptChars messages =
     fold (\<lambda>m total. if isRelevantChatRole (msgRole m) then total + int (runeCount (msgContent m)) else total)
       messages 0"

text \<open>The pointer fields that are read by reflection, by their name.\<close>

definition intPointerField :: "ChatRequest option \<Rightarrow> string \<Rightarrow> int option" where
  "intPointerField req name =
     (case req of None \<Rightarrow> None
      | Some r \<Rightarrow> if name = ''MaxCompletionTokens'' then reqMaxCompletionTokens r
                 else if name = ''MaxTokens'' then reqMaxTokens r else None)"

definition maxOutputEstimateFromRequest :: "ChatRequest option \<Rightarrow> int \<times> string" where
  "maxOutputEstimateFromRequest req =
     (case intPointerField req ''MaxCompletionTokens'' of
        Some v \<Rightarrow> (v, ''max_completion_tokens'')
      | None \<Rightarrow> (case intPointerField req ''MaxTokens'' of
          Some v \<Rightarrow> (v, ''max_tokens'') | None \<Rightarrow> (4096, ''default'')))"

text \<open>For positive arguments, as it is called; \<open>/\<close> truncates towards zero.\<close>

definition ceilDiv :: "int \<Rightarrow> int \<Rightarrow> int" where
  "ceilDiv v d = (if v = 0 then 0 else (if v - 1 < 0 then - ((1 - v) div d) else (v - 1) div d) + 1)"

definition EstimateChatRequestTokens :: "ChatRequest option \<Rightarrow> TokenEstimate" where
  "EstimateChatRequestTokens req =
     (let charCount = countPromptChars (case req of None \<Rightarrow> [] | Some r \<Rightarrow> reqMessages r);
          (out, source) = maxOutputEstimateFromRequest req
      in \<lparr>teCharCount = charCount, tePromptTokensEstimate = ceilDiv charCount 4,
          teMaxOutputTokensEstimate = out, teMaxOutputTokensSource = source\<rparr>)"

lemma countPromptChars_sum:
  "countPromptChars ms = (\<Sum>m\<leftarrow>ms. if isRelevantChatRole (msgRole m) then int (runeCount (msgContent m)) else 0)"
proof -
  have "fold (\<lambda>m total. if isRelevantChatRole (msgRole m) then total + int (runeCount (msgContent m)) else total) ms z =
      z + (\<Sum>m\<leftarrow>ms. if isRelevantChatRole (msgRole m) then int (runeCount (msgContent m)) else 0)" for z
    by (induction ms arbitrary: z) auto
  then show ?thesis by (simp add: countPromptChars_def)
qed

lemma countPromptChars_nonneg: "0 \<le> countPromptChars ms"
  unfolding countPromptChars_sum by (rule sum_list_nonneg) auto

lemma ceilDiv_bounds: "0 \<le> v \<Longrightarrow> 0 < d \<Longrightarrow> v \<le> ceilDiv v d * d \<and> ceilDiv v d * d < v + d"
proof -
  assume v: "0 \<le> v" and d: "0 < d"
  show ?thesis
  proof (cases "v = 0")
    case True
    with d show ?thesis by (simp add: ceilDiv_def)
  next
    case False
    define q where "q = (v - 1) div d * d"
    have "q + (v - 1) mod d = v - 1" by (simp add: q_def)
    moreover have "0 \<le> (v - 1) mod d" "(v - 1) mod d < d" using d by simp_all
    ultimately have "v \<le> q + d \<and> q < v" by linarith
    moreover have "ceilDiv v d * d = q + d"
      using False v by (simp add: ceilDiv_def distrib_right q_def)
    ultimately show ?thesis by linarith
  qed
qed

section \<open>Task classification\<close>

record TaskClassification =
  tcTaskType :: string
  tcConfidence :: float64
  tcSignals :: "string list"

record taskContext =
  tcxLower :: string
  tcxCharCount :: nat

definition newTaskContext :: "Message list \<Rightarrow> taskContext" where
  "newTaskContext messages =
     (let step = (\<lambda>m (b, n). if msgContent m = [] then (b, n)
                  else ((if b = [] then [] else b @ [Newline]) @ msgContent m, n + length (msgContent m)));
          (text, count) = fold step messages ([], 0)
      in \<lparr>tcxLower = ToLower text, tcxCharCount = count\<rparr>)"

definition addSignal :: "string \<Rightarrow> string list \<Rightarrow> string list" where
  "addSignal s ss = (if s = [] \<or> s \<in> set ss then ss else ss @ [s])"

definition keywordSignals :: "(string \<times> string) list" where
  "keywordSignals = [(''auth'', ''auth_keyword''), (''payment'', ''payment_keyword''),
     (''security'', ''security_keyword''), (''secret'', ''secret_keyword''), (''pii'', ''pii_keyword''),
     (''migration'', ''migration_keyword''), (''sql'', ''sql_keyword''),
     (''source_code'', ''source_code_keyword''), (''debug'', ''debug_keyword''), (''code'', ''code_keyword'')]"

definition sensitivitySignals :: "(string \<times> string) list" where
  "sensitivitySignals = [(''source_code'', ''source_code_sensitivity''),
     (''secrets_possible'', ''secret_sensitivity''), (''pii'', ''pii_sensitivity''),
     (''auth'', ''auth_sensitivity''), (''payment'', ''payment_sensitivity''),
     (''security'', ''security_sensitivity'')]"

definition addIf :: "bool \<Rightarrow> string \<Rightarrow> string list \<Rightarrow> string list" where
  "addIf b s ss = (if b then addSignal s ss else ss)"

definition addFeatureSignals :: "Features \<Rightarrow> string list \<Rightarrow> string list" where
  "addFeatureSignals f ss =
     (let flags = [(fHasStackTrace f, ''stack_trace''), (fHasCodeBlock f, ''code_block''),
            (fHasInlineCode f, ''inline_code''), (fFilesTouched f \<noteq> [], ''file_path''),
            (fRequiresCode f, ''requires_code''), (fRequiresToolUse f, ''tool_use''),
            (fRequiresJSONSchema f, ''json_schema''), (fRequiresVision f, ''vision''),
            (fRequiresLargeContext f, ''large_context'')];
          s1 = fold (\<lambda>(b, s). addIf b s) flags ss;
          s2 = fold (\<lambda>k. addSignal (mget0 [] keywordSignals k)) (fKeywords f) s1
      in fold (\<lambda>h. addSignal (mget0 [] sensitivitySignals h)) (fSensitivityHints f) s2)"

definition taskResult :: "string \<Rightarrow> float64 \<Rightarrow> string list \<Rightarrow> TaskClassification" where
  "taskResult taskType confidence signals =
     \<lparr>tcTaskType = taskType,
      tcConfidence = (let c = (if confidence < 0 then 0 else confidence) in if c > 1 then 1 else c),
      tcSignals = (if signals = [] then [''no_signal''] else signals)\<rparr>"

definition hasExplicitSecurityReviewSignal :: "taskContext \<Rightarrow> bool" where
  "hasExplicitSecurityReviewSignal ctx \<longleftrightarrow>
     containsAnyTerm (tcxLower ctx) [''xss'', ''csrf'', ''ssrf'', ''vulnerability'', ''security review'',
       ''security audit'', ''threat model'', ''exploit'', ''cve''] \<or>
     (containsAnyTerm (tcxLower ctx) [''review'', ''audit'', ''scan''] \<and>
      containsAnyTerm (tcxLower ctx) [''secret'', ''secrets'', ''injection'', ''auth bypass'', ''permission bypass''])"

definition hasDatabaseMigrationSignal :: "taskContext \<Rightarrow> Features \<Rightarrow> bool" where
  "hasDatabaseMigrationSignal ctx f \<longleftrightarrow>
     (hasAnyKeyword (fKeywords f) [''migration''] \<and> hasAnyKeyword (fKeywords f) [''sql'']) \<or>
     (containsAnyTerm (tcxLower ctx) [''.sql'', ''db/migrations'', ''migration'', ''migrations''] \<and>
      containsAnyTerm (tcxLower ctx) [''alter table'', ''create table'', ''create index'', ''drop table'',
        ''schema'', ''rollback'']) \<or>
     containsAnyTerm (tcxLower ctx) [''alter table'', ''create table'', ''create index'', ''drop table'']"

definition hasTrivialGitSignal :: "taskContext \<Rightarrow> bool" where
  "hasTrivialGitSignal ctx \<longleftrightarrow>
     (let hasCommitMessage = containsAnyTerm (tcxLower ctx) [''commit message'', ''commit title'', ''commit body''];
          hasDiff = containsAnyTerm (tcxLower ctx) [''diff --git'', ''git diff'', ''+++ b/'', ''--- a/'', ''@@''];
          hasGitAction = containsAnyTerm (tcxLower ctx) [''git commit'', ''staged changes'', ''changelog'', ''release notes'']
      in hasCommitMessage \<and> (hasDiff \<or> hasGitAction))"

definition hasDocIntentSignal :: "taskContext \<Rightarrow> bool" where
  "hasDocIntentSignal ctx \<longleftrightarrow> containsAnyTerm (tcxLower ctx)
     [''documentation'', ''docs'', ''docstring'', ''doc comment'', ''document this'', ''document the'',
      ''documenting'', ''readme'', ''changelog'', ''release notes'', ''explain'', ''describe'']"

definition hasSummarizationSignal :: "taskContext \<Rightarrow> bool" where
  "hasSummarizationSignal ctx \<longleftrightarrow>
     containsAnyTerm (tcxLower ctx) [''summarize'', ''summarise'', ''summary'', ''tl;dr'', ''recap'', ''sammanfatta''] \<or>
     hasDocIntentSignal ctx"

definition hasCodeGenSignal :: "taskContext \<Rightarrow> bool" where
  "hasCodeGenSignal ctx \<longleftrightarrow>
     containsAnyTerm (tcxLower ctx) [''create'', ''build'', ''write'', ''implement'', ''generate'', ''develop'',
       ''scaffold'', ''code up'', ''make a'', ''make me''] \<and>
     containsAnyTerm (tcxLower ctx) [''app'', ''application'', ''script'', ''program'', ''function'', ''class'',
       ''component'', ''api'', ''endpoint'', ''rest api'', ''website'', ''web page'', ''webpage'', ''web app'',
       ''game'', ''cli'', ''command-line tool'', ''module'', ''library'', ''server'', ''parser'',
       ''algorithm'', ''bot'', ''crawler'', ''scraper'', ''microservice'', ''html'', ''css'',
       ''javascript'', ''typescript'', ''react'', ''vue'', ''svelte'', ''python script'',
       ''go program'', ''sql query'', ''regex'', ''unit tests'', ''data structure'']"

definition hasSimpleCodeEditSignal :: "taskContext \<Rightarrow> Features \<Rightarrow> bool" where
  "hasSimpleCodeEditSignal ctx f \<longleftrightarrow> \<not> fHasStackTrace f \<and> fRequiresCode f \<and>
     containsAnyTerm (tcxLower ctx) [''fix'', ''change'', ''edit'', ''update'', ''refactor'', ''rename'', ''add'',
       ''remove'', ''modify'', ''convert'', ''optimize'', ''port'', ''rewrite'', ''simplify'', ''clean up'',
       ''improve'', ''review'']"

definition hasSimpleShellSignal :: "taskContext \<Rightarrow> Features \<Rightarrow> bool" where
  "hasSimpleShellSignal ctx f \<longleftrightarrow> \<not> (fRequiresCode f \<or> fHasStackTrace f) \<and>
     containsAnyTerm (tcxLower ctx) [''shell command'', ''terminal command'', ''bash'', ''zsh'', ''cli command'']"

definition hasCreativeCopySignal :: "taskContext \<Rightarrow> bool" where
  "hasCreativeCopySignal ctx \<longleftrightarrow> containsAnyTerm (tcxLower ctx)
     [''write copy'', ''rewrite copy'', ''headline'', ''tagline'', ''landing page copy'', ''ad copy'']"

definition hasStrongTaskIntent :: "taskContext \<Rightarrow> Features \<Rightarrow> bool" where
  "hasStrongTaskIntent ctx f \<longleftrightarrow>
     (fHasStackTrace f \<or> fRequiresLargeContext f \<or> fRequiresToolUse f \<or> fRequiresJSONSchema f) \<or>
     (fRequiresCode f \<or> hasAnyKeyword (fKeywords f) [''debug'', ''code'']) \<or>
     hasCodeGenSignal ctx \<or>
     hasSummarizationSignal ctx \<or> hasSimpleCodeEditSignal ctx f \<or> hasTrivialGitSignal ctx \<or>
     hasDatabaseMigrationSignal ctx f \<or> hasExplicitSecurityReviewSignal ctx \<or>
     hasSimpleShellSignal ctx f \<or> hasCreativeCopySignal ctx"

definition hasTaskRiskSignal :: "taskContext \<Rightarrow> Features \<Rightarrow> bool" where
  "hasTaskRiskSignal ctx f \<longleftrightarrow> fSensitivityHints f \<noteq> [] \<or>
     hasAnyKeyword (fKeywords f) [''auth'', ''payment'', ''security'', ''secret'', ''pii''] \<or>
     containsAnyTerm (tcxLower ctx) [''production'', ''prod'', ''customer data'', ''pii'', ''personnummer'', ''ssn'',
       ''secret'', ''secrets'', ''api key'', ''private key'']"

definition isShortPrompt :: "taskContext \<Rightarrow> bool" where
  "isShortPrompt ctx \<longleftrightarrow> 0 < tcxCharCount ctx \<and> tcxCharCount ctx \<le> 240"

definition ClassifyTask :: "Features \<Rightarrow> Message list \<Rightarrow> TaskClassification" where
  "ClassifyTask f messages =
     (let ctx = newTaskContext messages;
          signals = addFeatureSignals f [];
          securityReview = hasExplicitSecurityReviewSignal ctx \<and> \<not> hasDocIntentSignal ctx;
          debug = (fHasStackTrace f \<or> hasAnyKeyword (fKeywords f) [''debug'']) \<and>
                  (fRequiresCode f \<or> hasAnyKeyword (fKeywords f) [''code'', ''auth'', ''payment'', ''security'']);
          risk = hasTaskRiskSignal ctx f;
          result = (\<lambda>task conf signal. taskResult task conf (addSignal signal signals))
      in if securityReview then result TaskSecurityReview (92 / 100) ''security_review_keyword''
         else if hasDatabaseMigrationSignal ctx f then result TaskDatabaseMigration (90 / 100) ''database_migration_keyword''
         else if debug then result TaskHardCodeDebugging (88 / 100) ''debug_keyword''
         else if hasTrivialGitSignal ctx then result TaskTrivialGit (86 / 100) ''git_keyword''
         else if risk \<and> \<not> hasStrongTaskIntent ctx f then result TaskUnknownHighRisk (34 / 100) ''low_task_confidence''
         else if fRequiresLargeContext f then result TaskLongContextAnalysis (78 / 100) ''large_context''
         else if hasSummarizationSignal ctx then result TaskSummarization (84 / 100) ''summarize_keyword''
         else if hasSimpleCodeEditSignal ctx f then result TaskSimpleCodeEdit (82 / 100) ''edit_keyword''
         else if hasCodeGenSignal ctx then result TaskSimpleCodeEdit (80 / 100) ''codegen_keyword''
         else if hasSimpleShellSignal ctx f then result TaskSimpleShell (76 / 100) ''shell_keyword''
         else if hasCreativeCopySignal ctx then result TaskCreativeCopy (74 / 100) ''creative_keyword''
         else if isShortPrompt ctx \<and> \<not> fRequiresCode f \<and> \<not> fRequiresToolUse f \<and> \<not> risk
              then result TaskSimpleChat (72 / 100) ''short_prompt''
         else if risk then result TaskUnknownHighRisk (32 / 100) ''low_task_confidence''
         else result TaskSimpleChat (45 / 100) ''low_task_confidence'')"

section \<open>Risk classification\<close>

record RiskResult =
  rrRiskLevel :: string
  rrSensitivity :: string
  rrReasons :: "string list"
  rrSignals :: "string list"

definition riskRank :: "string \<Rightarrow> nat" where
  "riskRank level = (if level = RiskCritical then 4 else if level = RiskHigh then 3
     else if level = RiskMedium then 2 else if level = RiskLow then 1 else 0)"

definition sensitivityRank :: "string \<Rightarrow> nat" where
  "sensitivityRank s = (if s = SensitivitySecretsPossible then 3 else if s = SensitivityPII then 2
     else if s = SensitivitySourceCode then 1 else 0)"

definition addReason :: "string \<Rightarrow> RiskResult \<Rightarrow> RiskResult" where
  "addReason reason r =
     (if reason = [] \<or> reason \<in> set (rrReasons r) then r
      else r\<lparr>rrReasons := rrReasons r @ [reason], rrSignals := rrSignals r @ [reason]\<rparr>)"

definition raiseTo :: "string \<Rightarrow> string \<Rightarrow> RiskResult \<Rightarrow> RiskResult" where
  "raiseTo level reason r =
     addReason reason (if riskRank level > riskRank (rrRiskLevel r) then r\<lparr>rrRiskLevel := level\<rparr> else r)"

definition raiseOneStepUpToHigh :: "string \<Rightarrow> RiskResult \<Rightarrow> RiskResult" where
  "raiseOneStepUpToHigh reason r =
     addReason reason (if rrRiskLevel r = RiskLow then r\<lparr>rrRiskLevel := RiskMedium\<rparr>
       else if rrRiskLevel r = RiskMedium then r\<lparr>rrRiskLevel := RiskHigh\<rparr> else r)"

definition setSensitivity :: "string \<Rightarrow> string \<Rightarrow> RiskResult \<Rightarrow> RiskResult" where
  "setSensitivity s reason r =
     addReason reason (if sensitivityRank s > sensitivityRank (rrSensitivity r) then r\<lparr>rrSensitivity := s\<rparr> else r)"

definition normalizedRisk :: "string \<Rightarrow> string option" where
  "normalizedRisk v = (if v \<in> {RiskLow, RiskMedium, RiskHigh, RiskCritical} then Some v else None)"

definition hasSensitivity :: "string list \<Rightarrow> string list \<Rightarrow> bool" where
  "hasSensitivity hints wanted = list_ex (\<lambda>h. h \<in> set wanted) hints"

text \<open>The escalations run in the order of the code; \<open>whenR\<close> guards one of them.\<close>

definition whenR :: "bool \<Rightarrow> (RiskResult \<Rightarrow> RiskResult) \<Rightarrow> RiskResult \<Rightarrow> RiskResult" where
  "whenR b f r = (if b then f r else r)"

definition taskEscalation :: "string \<Rightarrow> RiskResult \<Rightarrow> RiskResult" where
  "taskEscalation taskType =
     (if taskType = TaskSecurityReview then raiseTo RiskHigh ''task_security_review''
      else if taskType = TaskDatabaseMigration then raiseTo RiskHigh ''task_database_migration''
      else if taskType = TaskUnknownHighRisk then raiseTo RiskHigh ''task_unknown_high_risk''
      else if taskType \<in> {TaskHardCodeDebugging, TaskSimpleCodeEdit} then raiseTo RiskMedium ''task_code''
      else if taskType = TaskLongContextAnalysis then raiseTo RiskMedium ''task_long_context''
      else (\<lambda>r. r))"

definition featureEscalations :: "Features \<Rightarrow> string \<Rightarrow> (RiskResult \<Rightarrow> RiskResult) list" where
  "featureEscalations f taskType =
     (let codeOrPath = fRequiresCode f \<or> fFilesTouched f \<noteq> [];
          kw = (\<lambda>ws. hasAnyKeyword (fKeywords f) ws);
          auth = kw [''auth'']; payment = kw [''payment''];
          migration = kw [''migration'', ''sql''] \<or> taskType = TaskDatabaseMigration;
          security = kw [''security''] \<or> taskType = TaskSecurityReview;
          production = kw [''production'']; urgent = kw [''urgent''];
          change = kw [''change_intent'']; exploit = kw [''exploit''];
          secrets = hasSensitivity (fSensitivityHints f) [SensitivitySecretsPossible, ''secret''];
          pii = hasSensitivity (fSensitivityHints f) [SensitivityPII]
      in [whenR codeOrPath (raiseTo RiskMedium ''code_or_path_signal''),
          whenR auth (raiseTo RiskMedium ''auth_signal''),
          whenR (auth \<and> (codeOrPath \<or> production \<or> change)) (raiseTo RiskHigh ''auth_high_risk_context''),
          whenR payment (raiseTo RiskMedium ''payment_signal''),
          whenR (payment \<and> (codeOrPath \<or> production \<or> change)) (raiseTo RiskHigh ''payment_high_risk_context''),
          whenR migration (raiseTo RiskHigh ''migration_signal''),
          whenR security (raiseTo RiskHigh ''security_signal''),
          whenR (production \<or> urgent) (addReason ''production_or_urgent_signal''),
          whenR ((production \<or> urgent) \<and> (codeOrPath \<or> auth \<or> payment \<or> migration \<or> security))
            (raiseOneStepUpToHigh ''production_or_urgent_escalation''),
          whenR secrets (setSensitivity SensitivitySecretsPossible ''sensitivity_secrets_possible''),
          whenR secrets (raiseTo RiskHigh ''secret_signal''),
          whenR pii (setSensitivity SensitivityPII ''sensitivity_pii''),
          whenR pii (raiseTo RiskMedium ''pii_signal''),
          whenR (fRequiresCode f \<or> hasSensitivity (fSensitivityHints f)
              [SensitivitySourceCode, ''auth'', ''payment'', ''security''])
            (setSensitivity SensitivitySourceCode ''sensitivity_source_code''),
          whenR (security \<and> production \<and> (secrets \<or> exploit \<or> urgent))
            (raiseTo RiskCritical ''critical_security_production_signal''),
          whenR (production \<and> secrets \<and> (exploit \<or> urgent))
            (raiseTo RiskCritical ''critical_secret_production_signal'')])"

definition initialRisk :: RiskResult where
  "initialRisk = \<lparr>rrRiskLevel = RiskLow, rrSensitivity = SensitivityNone, rrReasons = [], rrSignals = []\<rparr>"

definition derivedRisk :: "Features \<Rightarrow> string \<Rightarrow> RiskResult" where
  "derivedRisk f taskType = fold (\<lambda>e r. e r) (taskEscalation taskType # featureEscalations f taskType) initialRisk"

definition ClassifyRisk :: "Features \<Rightarrow> string \<Rightarrow> string \<Rightarrow> RiskResult" where
  "ClassifyRisk f taskType clientRiskHint =
     (let r1 = derivedRisk f taskType;
          r2 = (case normalizedRisk clientRiskHint of Some h \<Rightarrow> raiseTo h ''client_risk_hint'' r1 | None \<Rightarrow> r1)
      in if rrReasons r2 = [] then addReason ''no_risk_signals'' r2 else r2)"

section \<open>Escalation only raises\<close>

definition risk_le :: "RiskResult \<Rightarrow> RiskResult \<Rightarrow> bool" where
  "risk_le r r' \<longleftrightarrow> riskRank (rrRiskLevel r) \<le> riskRank (rrRiskLevel r') \<and>
     sensitivityRank (rrSensitivity r) \<le> sensitivityRank (rrSensitivity r')"

definition riskOK :: "RiskResult \<Rightarrow> bool" where
  "riskOK r \<longleftrightarrow> parseRiskLevel (rrRiskLevel r) \<noteq> None \<and> parseSensitivity (rrSensitivity r) \<noteq> None"

definition raising :: "(RiskResult \<Rightarrow> RiskResult) \<Rightarrow> bool" where
  "raising e \<longleftrightarrow> (\<forall>r. risk_le r (e r) \<and> (riskOK r \<longrightarrow> riskOK (e r)))"

lemma addReason_keeps [simp]:
  "rrRiskLevel (addReason x r) = rrRiskLevel r" "rrSensitivity (addReason x r) = rrSensitivity r"
  by (simp_all add: addReason_def)

lemma risk_le_refl [simp]: "risk_le r r"
  by (simp add: risk_le_def)

lemma risk_le_trans: "risk_le a b \<Longrightarrow> risk_le b c \<Longrightarrow> risk_le a c"
  by (auto simp: risk_le_def)

lemma risk_vocab: "riskRank level > 0 \<longleftrightarrow> parseRiskLevel level \<noteq> None"
  by (auto simp: riskRank_def parse_defs)

lemma sensitivity_vocab: "sensitivityRank s > 0 \<Longrightarrow> parseSensitivity s \<noteq> None"
  by (auto simp: sensitivityRank_def parse_defs split: if_splits)

lemma raising_addReason: "raising (addReason x)"
  by (simp add: raising_def risk_le_def riskOK_def)

lemma raising_raiseTo: "raising (raiseTo l x)"
  using risk_vocab [of l] by (auto simp: raising_def raiseTo_def risk_le_def riskOK_def)

lemma raising_oneStep: "raising (raiseOneStepUpToHigh x)"
  by (auto simp: raising_def raiseOneStepUpToHigh_def risk_le_def riskOK_def riskRank_def parse_defs)

lemma raising_setSensitivity: "raising (setSensitivity s x)"
  using sensitivity_vocab [of s] by (auto simp: raising_def setSensitivity_def risk_le_def riskOK_def)

lemma raising_whenR: "raising e \<Longrightarrow> raising (whenR b e)"
  by (auto simp: raising_def whenR_def)

lemma raising_id: "raising (\<lambda>r. r)"
  by (simp add: raising_def)

lemmas raising_intros = raising_addReason raising_raiseTo raising_oneStep raising_setSensitivity raising_whenR
  raising_id

lemma raising_fold: "\<forall>e \<in> set es. raising e \<Longrightarrow> risk_le r (fold (\<lambda>e r. e r) es r) \<and> (riskOK r \<longrightarrow> riskOK (fold (\<lambda>e r. e r) es r))"
proof (induction es arbitrary: r)
  case (Cons e es)
  then show ?case
    using risk_le_trans [of r "e r"] by (auto simp: raising_def)
qed simp

lemma escalations_raising: "\<forall>e \<in> set (taskEscalation t # featureEscalations f t). raising e"
  by (simp add: taskEscalation_def featureEscalations_def Let_def raising_intros)

lemma riskOK_initial: "riskOK initialRisk"
  by (simp add: riskOK_def initialRisk_def parse_defs)

lemma derivedRisk_ok: "riskOK (derivedRisk f t)"
  using raising_fold [OF escalations_raising, of initialRisk t f] riskOK_initial
  by (simp add: derivedRisk_def)

lemma ClassifyRisk_level: "rrRiskLevel (ClassifyRisk f t h) =
    (if normalizedRisk h \<noteq> None \<and> riskRank h > riskRank (rrRiskLevel (derivedRisk f t)) then h
     else rrRiskLevel (derivedRisk f t))"
  "rrSensitivity (ClassifyRisk f t h) = rrSensitivity (derivedRisk f t)"
  by (auto simp: ClassifyRisk_def raiseTo_def normalizedRisk_def Let_def)

end
