(* ===== verification/NewJob.thy ===== *)
theory NewJob
  imports Classifier ProviderRetry
begin

text \<open>
  \<open>NewJobDescriptor\<close> (\<open>internal/router/job.go\<close>): the descriptor the engine routes by, from the
  authenticated tenant, the request and its hints. \<open>http.Header\<close> is a map from canonical names
  to values.
\<close>

type_synonym header = "(string, string list) gomap"

definition toUpperByte :: "char \<Rightarrow> char" where
  "toUpperByte c = (if 97 \<le> (of_char c :: nat) \<and> (of_char c :: nat) \<le> 122
                    then char_of ((of_char c :: nat) - 32) else c)"

text \<open>\<open>CanonicalMIMEHeaderKey\<close> of a name made of letters, digits and hyphens.\<close>

fun canonicalFrom :: "bool \<Rightarrow> string \<Rightarrow> string" where
  "canonicalFrom up [] = []"
| "canonicalFrom up (c # s) = (if up then toUpperByte c else toLowerByte c) # canonicalFrom (c = CHR ''-'') s"

definition headerGet :: "header \<Rightarrow> string \<Rightarrow> string" where
  "headerGet h key = (case mget h (canonicalFrom True key) of Some (v # _) \<Rightarrow> v | _ \<Rightarrow> [])"

definition anyString :: "anyval \<Rightarrow> string" where
  "anyString v = (case v of AStr s \<Rightarrow> TrimSpace s | _ \<Rightarrow> [])"

definition metadataString :: "metadata \<Rightarrow> string \<Rightarrow> string" where
  "metadataString md key =
     (case first_some (map (mget md) [key, ReplaceByte (CHR ''-'') (CHR ''_'') key]) of
        Some v \<Rightarrow> anyString v | None \<Rightarrow> [])"

definition headerString :: "header \<Rightarrow> string \<Rightarrow> string" where
  "headerString h key =
     (if h = [] then []
      else if \<not> prefix ''x-'' (ToLower key) then []
      else TrimSpace (headerGet h key))"

record descriptorHints =
  dhMetadata :: metadata
  dhHeaders :: header

primrec firstString :: "descriptorHints \<Rightarrow> string list \<Rightarrow> string" where
  "firstString h [] = []"
| "firstString h (key # keys) =
     (let v = metadataString (dhMetadata h) key in
      if v \<noteq> [] then v
      else let v = headerString (dhHeaders h) key in
        if v \<noteq> [] then v else firstString h keys)"

declare firstString.simps [simp del]

definition hasTruthyHint :: "metadata \<Rightarrow> string \<Rightarrow> bool" where
  "hasTruthyHint md key =
     (case mget md key of
        Some (ABool b) \<Rightarrow> b
      | Some (AStr s) \<Rightarrow> ToLower (TrimSpace s) = ''true''
      | _ \<Rightarrow> False)"

text \<open>The loop over the feature hints, with the best sensitivity so far.\<close>

fun sensitivityLoop :: "Sensitivity \<Rightarrow> string list \<Rightarrow> Sensitivity" where
  "sensitivityLoop best [] = best"
| "sensitivityLoop best (h # hs) =
     (if h = SensitivitySecretsPossible \<or> h = ''secret'' then SensitivitySecretsPossible
      else if h = SensitivityPII
        then sensitivityLoop (if best \<noteq> SensitivitySecretsPossible then SensitivityPII else best) hs
      else if h \<in> {SensitivitySourceCode, ''auth'', ''payment'', ''security''}
        then sensitivityLoop (if best = SensitivityNone then SensitivitySourceCode else best) hs
      else sensitivityLoop best hs)"

definition sensitivityFromFeatureHints :: "string list \<Rightarrow> Sensitivity" where
  "sensitivityFromFeatureHints hints = sensitivityLoop SensitivityNone hints"

record JobDescriptorInput =
  jiRequestID :: string
  jiTenantID :: string
  jiProjectID :: string
  jiHeaders :: header
  jiRequest :: "ChatRequest option"

definition override :: "'a option \<Rightarrow> 'a \<Rightarrow> 'a" where
  "override parsed default' = (case parsed of Some v \<Rightarrow> v | None \<Rightarrow> default')"

definition NewJobDescriptor :: "JobDescriptorInput \<Rightarrow> JobDescriptor" where
  "NewJobDescriptor inp =
     (case jiRequest inp of
        None \<Rightarrow> baseJob (jiRequestID inp)
      | Some req \<Rightarrow>
          let hints = \<lparr>dhMetadata = reqMetadata req, dhHeaders = jiHeaders inp\<rparr>;
              tokens = EstimateChatRequestTokens (Some req);
              f = ExtractFromRequest req;
              task = ClassifyTask f (reqMessages req);
              taskType = override (parseTaskType (tcTaskType task)) TaskUnknownHighRisk;
              riskHint = override (parseRiskLevel (firstString hints [''risk_level'', ''risk'', ''x-router-risk-level''])) [];
              risk = ClassifyRisk f taskType riskHint
          in (baseJob (jiRequestID inp))\<lparr>
            jTenantID := jiTenantID inp,
            jProjectID := jiProjectID inp,
            jMetadata := cloneMetadata (reqMetadata req),
            jPromptTokensEstimate := tePromptTokensEstimate tokens,
            jMaxOutputTokensEstimate := teMaxOutputTokensEstimate tokens,
            jRequiresCode := fRequiresCode f,
            jRequiresToolUse := fRequiresToolUse f,
            jRequiresJSONSchema := fRequiresJSONSchema f \<or> hasTruthyHint (reqMetadata req) ''requires_json_schema'',
            jRequiresLargeContext := fRequiresLargeContext f,
            jRequiresVision := fRequiresVision f,
            jFilesTouched := fFilesTouched f,
            jKeywords := fKeywords f,
            jTaskConfidence := tcConfidence task,
            jTaskType := taskType,
            jTaskTypeHint := override (parseTaskType (firstString hints [''task_type'', ''task'', ''x-router-task-type''])) [],
            jRiskLevelHint := riskHint,
            jSensitivityHint := override (parseSensitivity (firstString hints [''sensitivity'', ''x-router-sensitivity'']))
              (sensitivityFromFeatureHints (fSensitivityHints f)),
            jRiskLevel := override (parseRiskLevel (rrRiskLevel risk)) RiskHigh,
            jSensitivity := override (parseSensitivity (rrSensitivity risk)) SensitivityNone,
            jTenantIDHint := (if jiTenantID inp = []
              then firstString hints [''tenant_id'', ''tenant'', ''x-router-tenant-id'', ''x-tenant-id''] else []),
            jProjectIDHint := (if jiProjectID inp = []
              then firstString hints [''project_id'', ''project'', ''x-router-project-id'', ''x-project-id''] else []),
            jLatencyPreference := override (parseLatencyPreference
              (firstString hints [''latency_preference'', ''latency'', ''x-router-latency-preference''])) ''balanced'',
            jQualityPreference := override (parseQualityPreference
              (firstString hints [''quality_preference'', ''quality'', ''x-router-quality-preference''])) ''balanced'',
            jBudgetPreference := override (parseBudgetPreference
              (firstString hints [''budget_preference'', ''budget'', ''x-router-budget-preference''])) ''normal'',
            jRouterMode := override (parseRouterMode (firstString hints [''router_mode'', ''x-router-mode''])) RouterModeAuto,
            jExplicitModel := (if reqModel req \<noteq> [] \<and> reqModel req \<noteq> RouterModeAuto then Some (reqModel req) else None)\<rparr>)"

section \<open>Well-formed descriptors\<close>

text \<open>Every field with a vocabulary holds one of its words.\<close>

definition jobOK :: "JobDescriptor \<Rightarrow> bool" where
  "jobOK j \<longleftrightarrow> parseTaskType (jTaskType j) \<noteq> None \<and> parseRiskLevel (jRiskLevel j) \<noteq> None \<and>
     parseSensitivity (jSensitivity j) \<noteq> None \<and> parseLatencyPreference (jLatencyPreference j) \<noteq> None \<and>
     parseQualityPreference (jQualityPreference j) \<noteq> None \<and> parseBudgetPreference (jBudgetPreference j) \<noteq> None \<and>
     parseRouterMode (jRouterMode j) \<noteq> None \<and> (jTaskTypeHint j = [] \<or> parseTaskType (jTaskTypeHint j) \<noteq> None) \<and>
     (jRiskLevelHint j = [] \<or> parseRiskLevel (jRiskLevelHint j) \<noteq> None) \<and> jExplicitModel j \<noteq> Some [] \<and>
     length (jFilesTouched j) \<le> MaxFilesTouched \<and> length (jKeywords j) \<le> MaxKeywords"

lemma parseIn_Some: "parseIn vs x = Some v \<Longrightarrow> v = x \<and> x \<in> set vs"
  by (simp add: parseIn_def split: if_splits)

lemma override_parse: "parseIn vs d \<noteq> None \<Longrightarrow> parseIn vs (override (parseIn vs x) d) \<noteq> None"
  using parseIn_Some [of vs x] by (cases "parseIn vs x") (auto simp: override_def)

lemma override_hint: "override (parseIn vs x) [] = [] \<or> parseIn vs (override (parseIn vs x) []) \<noteq> None"
  using parseIn_Some [of vs x] by (cases "parseIn vs x") (auto simp: override_def)

lemma override_vocab:
  "parseTaskType d \<noteq> None \<Longrightarrow> parseTaskType (override (parseTaskType x) d) \<noteq> None"
  "parseRiskLevel d \<noteq> None \<Longrightarrow> parseRiskLevel (override (parseRiskLevel x) d) \<noteq> None"
  "parseSensitivity d \<noteq> None \<Longrightarrow> parseSensitivity (override (parseSensitivity x) d) \<noteq> None"
  "parseLatencyPreference d \<noteq> None \<Longrightarrow> parseLatencyPreference (override (parseLatencyPreference x) d) \<noteq> None"
  "parseQualityPreference d \<noteq> None \<Longrightarrow> parseQualityPreference (override (parseQualityPreference x) d) \<noteq> None"
  "parseBudgetPreference d \<noteq> None \<Longrightarrow> parseBudgetPreference (override (parseBudgetPreference x) d) \<noteq> None"
  "parseRouterMode d \<noteq> None \<Longrightarrow> parseRouterMode (override (parseRouterMode x) d) \<noteq> None"
  "override (parseTaskType x) [] = [] \<or> parseTaskType (override (parseTaskType x) []) \<noteq> None"
  "override (parseRiskLevel x) [] = [] \<or> parseRiskLevel (override (parseRiskLevel x) []) \<noteq> None"
  unfolding parseTaskType_def parseRiskLevel_def parseSensitivity_def parseLatencyPreference_def
    parseQualityPreference_def parseBudgetPreference_def parseRouterMode_def
  by (rule override_parse override_hint, assumption?)+

lemma default_vocab:
  "parseTaskType TaskUnknownHighRisk \<noteq> None" "parseRiskLevel RiskHigh \<noteq> None"
  "parseSensitivity SensitivityNone \<noteq> None" "parseLatencyPreference ''balanced'' \<noteq> None"
  "parseQualityPreference ''balanced'' \<noteq> None" "parseBudgetPreference ''normal'' \<noteq> None"
  "parseRouterMode RouterModeAuto \<noteq> None"
  by (simp_all add: parse_defs)

lemma ExtractFromRequest_caps: "capsOK (ExtractFromRequest req)"
  using ExtractFromMessages_ok by (simp add: ExtractFromRequest_def)

lemma baseJob_ok: "jobOK (baseJob r)"
  by (simp add: jobOK_def baseJob_def parse_defs)

lemma NewJobDescriptor_ok_aux: "jobOK (NewJobDescriptor inp)"
proof (cases "jiRequest inp")
  case None
  then show ?thesis by (simp add: NewJobDescriptor_def baseJob_ok)
next
  case (Some req)
  then show ?thesis
    using ExtractFromRequest_caps [of req]
    by (simp add: NewJobDescriptor_def Let_def jobOK_def override_vocab default_vocab capsOK_def
        del: not_None_eq)
qed

text \<open>The risk level of the descriptor is the classifier's.\<close>

lemma override_parsed: "parseRiskLevel x \<noteq> None \<Longrightarrow> override (parseRiskLevel x) d = x"
  "parseSensitivity y \<noteq> None \<Longrightarrow> override (parseSensitivity y) d = y"
  by (auto simp: override_def parse_defs split: if_splits)

lemma ClassifyRisk_ok: "riskOK (ClassifyRisk f t h)"
  using derivedRisk_ok [of f t] risk_vocab [of h]
  by (auto simp: riskOK_def ClassifyRisk_level)

lemma NewJobDescriptor_risk:
  assumes "jiRequest inp = Some req"
  shows "jRiskLevel (NewJobDescriptor inp) =
      rrRiskLevel (ClassifyRisk (ExtractFromRequest req) (jTaskType (NewJobDescriptor inp)) (jRiskLevelHint (NewJobDescriptor inp)))"
    "jSensitivity (NewJobDescriptor inp) =
      rrSensitivity (ClassifyRisk (ExtractFromRequest req) (jTaskType (NewJobDescriptor inp)) (jRiskLevelHint (NewJobDescriptor inp)))"
  using assms ClassifyRisk_ok
  by (simp_all add: NewJobDescriptor_def Let_def riskOK_def override_parsed del: not_None_eq)

end
