(* ===== verification/Cost.thy ===== *)
theory Cost
  imports Registry "HOL-Library.Signed_Division"
begin

text \<open>
  \<open>internal/cost/cost.go\<close>: fixed-point cost estimation in micro-USD. Amounts are \<open>int64\<close>:
  integers, with the overflow tests of the code. \<open>big.Int\<close> and \<open>big.Rat\<close> are exact;
  \<open>Rat.SetString\<close> of the standard library, which accepts decimals, fractions and exponents, is
  the parameter \<open>setString\<close>.
\<close>

abbreviation ModeEstimated :: string where "ModeEstimated \<equiv> ''estimated''"
abbreviation ModeActual :: string where "ModeActual \<equiv> ''actual''"

datatype cost_error = ErrMissingMetadata | ErrInvalidUsage | ErrInvalidRate string | ErrOverflow

record TokenUsage =
  tuInputTokens :: int
  tuOutputTokens :: int
  tuMode :: string

record Estimate =
  estModelID :: string
  estProviderID :: string
  estCurrency :: string
  estMode :: string
  estInputTokens :: int
  estOutputTokens :: int
  estInputMicroUSD :: int
  estOutputMicroUSD :: int
  estTotalMicroUSD :: int
  estInputUSDString :: string
  estOutputUSDString :: string
  estTotalUSDString :: string

definition maxInt64 :: int where
  "maxInt64 = 2 ^ 63 - 1"

definition validateMetadata :: "CostMetadata \<Rightarrow> cost_error option" where
  "validateMetadata meta =
     (if TrimSpace (Currency meta) = [] then Some ErrMissingMetadata
      else if InputMicrosPerMillionToken meta < 0 \<or> OutputMicrosPerMillionToken meta < 0
      then Some (ErrInvalidRate [])
      else if InputMicrosPerMillionToken meta = 0 \<and> OutputMicrosPerMillionToken meta = 0
      then Some ErrMissingMetadata
      else None)"

definition microsForTokens :: "int \<Rightarrow> int \<Rightarrow> cost_error + int" where
  "microsForTokens tokens microsPerMillion =
     (if tokens = 0 \<or> microsPerMillion = 0 then Inr 0
      else let product = (tokens * microsPerMillion) sdiv 1000000 in
           if \<not> in_i64 product then Inl ErrOverflow else Inr product)"

text \<open>Go's \<open>/\<close> and \<open>%\<close> truncate towards zero; the remainder has the sign of the dividend.\<close>

definition formatMicroUSD :: "int \<Rightarrow> string" where
  "formatMicroUSD micros =
     (let whole = micros sdiv 1000000; fraction = micros smod 1000000
      in showInt whole @ ''.'' @ fmtPadInt 6 fraction)"

definition EstimateCost :: "string \<Rightarrow> string \<Rightarrow> CostMetadata \<Rightarrow> TokenUsage \<Rightarrow> cost_error + Estimate" where
  "EstimateCost modelID providerID meta usage =
     (case validateMetadata meta of
        Some e \<Rightarrow> Inl e
      | None \<Rightarrow>
          if tuInputTokens usage < 0 \<or> tuOutputTokens usage < 0 then Inl ErrInvalidUsage
          else
            let mode = (if tuMode usage = [] then ModeEstimated else tuMode usage) in
            bindR (microsForTokens (tuInputTokens usage) (InputMicrosPerMillionToken meta)) (\<lambda>input.
            bindR (microsForTokens (tuOutputTokens usage) (OutputMicrosPerMillionToken meta)) (\<lambda>output.
              if input > i64 (maxInt64 - output) then Inl ErrOverflow
              else let total = i64 (input + output) in
                Inr \<lparr>estModelID = modelID, estProviderID = providerID, estCurrency = Currency meta,
                     estMode = mode, estInputTokens = tuInputTokens usage,
                     estOutputTokens = tuOutputTokens usage, estInputMicroUSD = input,
                     estOutputMicroUSD = output, estTotalMicroUSD = total,
                     estInputUSDString = formatMicroUSD input,
                     estOutputUSDString = formatMicroUSD output,
                     estTotalUSDString = formatMicroUSD total\<rparr>)))"

definition EstimateModel :: "Model \<Rightarrow> TokenUsage \<Rightarrow> cost_error + Estimate" where
  "EstimateModel model usage = EstimateCost (mID model) (mProviderID model) (mCost model) usage"

definition parseUSDMicros :: "(string \<Rightarrow> rat option) \<Rightarrow> string \<Rightarrow> string + int" where
  "parseUSDMicros setString rate0 =
     (let rate = TrimSpace rate0 in
      if rate = [] then Inl ''empty rate''
      else case setString rate of
        None \<Rightarrow> Inl ''rate must be a non-negative decimal''
      | Some v \<Rightarrow>
          if v < 0 then Inl ''rate must be a non-negative decimal''
          else let micros = v * 1000000 in
            if of_int \<lfloor>micros\<rfloor> \<noteq> micros then Inl ''rate has precision below one micro-usd''
            else if \<not> in_i64 \<lfloor>micros\<rfloor> then Inl ''cost: micro-usd overflow''
            else Inr \<lfloor>micros\<rfloor>)"

definition USDPerMillion :: "(string \<Rightarrow> rat option) \<Rightarrow> string \<Rightarrow> string \<Rightarrow> cost_error + CostMetadata" where
  "USDPerMillion setString input output =
     (case parseUSDMicros setString input of
        Inl e \<Rightarrow> Inl (ErrInvalidRate (''input: '' @ e))
      | Inr i \<Rightarrow>
          (case parseUSDMicros setString output of
             Inl e \<Rightarrow> Inl (ErrInvalidRate (''output: '' @ e))
           | Inr out \<Rightarrow> Inr \<lparr>Currency = ''USD'', InputMicrosPerMillionToken = i,
                            OutputMicrosPerMillionToken = out\<rparr>))"

section \<open>What an estimate is\<close>

lemma sdiv_nonneg: "0 \<le> x \<Longrightarrow> x sdiv (1000000 :: int) = x div 1000000"
  by (simp add: signed_divide_int_def sgn_if)

lemma smod_nonneg: "0 \<le> x \<Longrightarrow> x smod (1000000 :: int) = x mod 1000000"
  by (cases "x = 0") (simp_all add: signed_modulo_int_def sgn_if)

lemma microsForTokens_spec:
  assumes "0 \<le> t" and "0 \<le> r"
  shows "microsForTokens t r =
    (if t * r div 1000000 \<le> maxInt64 then Inr (t * r div 1000000) else Inl ErrOverflow)"
proof -
  have "0 \<le> t * r div 1000000"
    using assms by (simp add: pos_imp_zdiv_nonneg_iff)
  then show ?thesis
    using assms
    by (auto simp: microsForTokens_def Let_def sdiv_nonneg in_i64_def maxInt64_def)
qed

definition priced :: "CostMetadata \<Rightarrow> bool" where
  "priced meta \<longleftrightarrow> TrimSpace (Currency meta) \<noteq> [] \<and> 0 \<le> InputMicrosPerMillionToken meta \<and>
     0 \<le> OutputMicrosPerMillionToken meta \<and>
     (0 < InputMicrosPerMillionToken meta \<or> 0 < OutputMicrosPerMillionToken meta)"

lemma validateMetadata_None: "validateMetadata meta = None \<longleftrightarrow> priced meta"
  by (auto simp: validateMetadata_def priced_def)

definition exactCost :: "CostMetadata \<Rightarrow> TokenUsage \<Rightarrow> int" where
  "exactCost meta usage =
     tuInputTokens usage * InputMicrosPerMillionToken meta div 1000000 +
     tuOutputTokens usage * OutputMicrosPerMillionToken meta div 1000000"

lemma EstimateCost_spec:
  assumes meta: "priced meta" and u: "0 \<le> tuInputTokens usage" "0 \<le> tuOutputTokens usage"
  shows "map_sum id estTotalMicroUSD (EstimateCost m p meta usage) =
    (if exactCost meta usage \<le> maxInt64 then Inr (exactCost meta usage) else Inl ErrOverflow)"
proof -
  let ?i = "tuInputTokens usage * InputMicrosPerMillionToken meta div 1000000"
  let ?o = "tuOutputTokens usage * OutputMicrosPerMillionToken meta div 1000000"
  have rates: "0 \<le> InputMicrosPerMillionToken meta" "0 \<le> OutputMicrosPerMillionToken meta"
    using meta by (simp_all add: priced_def)
  have i: "0 \<le> ?i" and out: "0 \<le> ?o"
    using u rates by (simp_all add: pos_imp_zdiv_nonneg_iff)
  have diff: "i64 (maxInt64 - ?o) = maxInt64 - ?o" if "?o \<le> maxInt64"
    using out that by (simp add: in_i64_def maxInt64_def)
  have total: "i64 (?i + ?o) = ?i + ?o" if "?i + ?o \<le> maxInt64"
    using i out that by (simp add: in_i64_def maxInt64_def)
  have "validateMetadata meta = None"
    using meta by (simp add: validateMetadata_None)
  then show ?thesis
    using u i out diff total
    by (auto simp: EstimateCost_def exactCost_def microsForTokens_spec rates Let_def)
qed

section \<open>Formatting\<close>

definition digitVal :: "char \<Rightarrow> nat" where
  "digitVal c = of_char c - 48"

definition readNat :: "string \<Rightarrow> nat" where
  "readNat s = fold (\<lambda>c n. n * 10 + digitVal c) s 0"

definition isDigits :: "string \<Rightarrow> bool" where
  "isDigits s \<longleftrightarrow> (\<forall>c \<in> set s. 48 \<le> (of_char c :: nat) \<and> (of_char c :: nat) \<le> 57)"

lemma digit_char: "n < 10 \<Longrightarrow> (of_char (char_of (48 + n) :: char) :: nat) = 48 + n"
  by (simp add: of_char_of)

lemma digitsAcc_append: "digitsAcc n acc = digitsAcc n [] @ acc"
proof (induction n arbitrary: acc rule: less_induct)
  case (less n)
  show ?case
  proof (cases "n < 10")
    case True
    then show ?thesis by (simp add: digitsAcc.simps [of n])
  next
    case False
    then have "n div 10 < n" by simp
    then show ?thesis
      using False less.IH [of "n div 10" "char_of (48 + n mod 10) # acc"] less.IH [of "n div 10" "[char_of (48 + n mod 10)]"]
      by (simp add: digitsAcc.simps [of n] Let_def)
  qed
qed

lemma showNat_rec: "showNat n = (if n < 10 then [char_of (48 + n)] else showNat (n div 10) @ [char_of (48 + n mod 10)])"
  using digitsAcc_append [of "n div 10" "[char_of (48 + n mod 10)]"]
  by (simp add: showNat_def digitsAcc.simps [of n] Let_def)

lemma readNat_snoc: "readNat (s @ [c]) = readNat s * 10 + digitVal c"
  by (simp add: readNat_def)

lemma readNat_showNat: "readNat (showNat n) = n"
proof (induction n rule: less_induct)
  case (less n)
  show ?case
  proof (cases "n < 10")
    case True
    then show ?thesis
      by (simp add: showNat_rec [of n] readNat_def digitVal_def digit_char)
  next
    case False
    then show ?thesis
      using less.IH [of "n div 10"]
      by (simp add: showNat_rec [of n] readNat_snoc digitVal_def digit_char)
  qed
qed

lemma isDigits_showNat: "isDigits (showNat n)"
proof (induction n rule: less_induct)
  case (less n)
  show ?case
  proof (cases "n < 10")
    case True
    then show ?thesis by (simp add: showNat_rec [of n] isDigits_def digit_char)
  next
    case False
    then show ?thesis
      using less.IH [of "n div 10"] by (auto simp: showNat_rec [of n] isDigits_def digit_char)
  qed
qed

lemma showNat_length: "n < 10 ^ k \<Longrightarrow> 0 < k \<Longrightarrow> length (showNat n) \<le> k"
proof (induction k arbitrary: n)
  case (Suc k)
  show ?case
  proof (cases "n < 10")
    case True
    then show ?thesis by (simp add: showNat_rec [of n])
  next
    case False
    then have "0 < k" using Suc.prems by (cases k) auto
    moreover have "n div 10 < 10 ^ k"
      using Suc.prems(1) by (simp add: less_mult_imp_div_less mult.commute)
    ultimately show ?thesis
      using Suc.IH [of "n div 10"] False by (simp add: showNat_rec [of n])
  qed
qed simp

lemma readNat_append_zeros: "readNat (replicate k (CHR ''0'') @ s) = readNat s"
  by (induction k) (simp_all add: readNat_def digitVal_def)

lemma readNat_padZeros: "readNat (padZeros w (showNat n)) = n"
  by (simp add: padZeros_def readNat_append_zeros readNat_showNat)

lemma formatMicroUSD_nonneg:
  assumes "0 \<le> x"
  shows "formatMicroUSD x = showNat (nat (x div 1000000)) @ ''.'' @ padZeros 6 (showNat (nat (x mod 1000000)))"
proof -
  have "\<not> x div 1000000 < 0" and "\<not> x mod 1000000 < 0"
    using assms by (simp_all add: not_less pos_imp_zdiv_nonneg_iff)
  then show ?thesis
    by (simp only: formatMicroUSD_def Let_def sdiv_nonneg [OF assms] smod_nonneg [OF assms]
        showInt_def fmtPadInt_def if_False)
qed

lemma formatMicroUSD_negative: "formatMicroUSD (- 1500000) = ''-1.-500000''"
proof -
  have "char_of (49 :: nat) = CHR ''1''" and "char_of (53 :: nat) = CHR ''5''"
    and "char_of (48 :: nat) = CHR ''0''"
    by code_simp+
  then show ?thesis
    by (simp add: formatMicroUSD_def signed_divide_int_def signed_modulo_int_def showInt_def
        fmtPadInt_def padZeros_def showNat_rec)
qed

end
