(* ===== verification/Auth.thy ===== *)
theory Auth
  imports AuditTrail
begin

text \<open>
  Packages \<open>internal/tenant\<close> and \<open>internal/auth\<close>, and the guards of the routes in
  \<open>internal/server/server.go\<close>: API keys stored by digest, scopes and roles, the middlewares, the
  route table. The digest is the parameter \<open>sha\<close>; the clock that stamps audit entries is an
  argument. The context a handler sees is the tenant the middleware attached: \<open>None\<close> where there is
  no tenant, \<open>Some None\<close> where a nil tenant is attached.
\<close>

section \<open>Tenants\<close>

record Tenant =
  tID :: string
  tProject :: string
  tKeyID :: string
  tRole :: string
  tScopes :: "string list"

abbreviation ScopeWildcard :: string where "ScopeWildcard \<equiv> ''*''"
abbreviation RoleUser :: string where "RoleUser \<equiv> ''user''"
abbreviation RoleAdmin :: string where "RoleAdmin \<equiv> ''admin''"
abbreviation ScopeChatCompletions :: string where "ScopeChatCompletions \<equiv> ''chat:completions''"
abbreviation ScopeRouterDecision :: string where "ScopeRouterDecision \<equiv> ''router:decision''"
abbreviation ScopeRouterOutcomes :: string where "ScopeRouterOutcomes \<equiv> ''router:outcomes''"

definition HasScope :: "Tenant option \<Rightarrow> string \<Rightarrow> bool" where
  "HasScope t req =
     (case t of None \<Rightarrow> False
      | Some t \<Rightarrow> if tScopes t = [] then True else list_ex (\<lambda>s. s = req \<or> s = ScopeWildcard) (tScopes t))"

definition HasRole :: "Tenant option \<Rightarrow> string \<Rightarrow> bool" where
  "HasRole t req =
     (case t of None \<Rightarrow> False
      | Some t \<Rightarrow>
          if req = [] \<or> tRole t = [] then True
          else if req = RoleUser then tRole t = RoleUser \<or> tRole t = RoleAdmin
          else if req = RoleAdmin then tRole t = RoleAdmin
          else tRole t = req)"

definition AllScopes :: "string list" where
  "AllScopes = [ScopeChatCompletions, ScopeRouterDecision, ScopeRouterOutcomes]"

section \<open>The key store\<close>

record KeyStore =
  ksKeys :: "(string, Tenant option) gomap"
  ksAuditor :: "Sink option"

definition NewInMemoryKeyStore :: KeyStore where
  "NewInMemoryKeyStore = \<lparr>ksKeys = [], ksAuditor = None\<rparr>"

definition setKeyAuditor :: "Sink option \<Rightarrow> KeyStore \<Rightarrow> KeyStore" where
  "setKeyAuditor snk s = s\<lparr>ksAuditor := snk\<rparr>"

definition keyEntry :: "string \<Rightarrow> Tenant option \<Rightarrow> Entry" where
  "keyEntry action t =
     (case t of
        None \<Rightarrow> zeroEntry\<lparr>eAction := action, eActor := ''system''\<rparr>
      | Some t \<Rightarrow> zeroEntry\<lparr>eAction := action, eActor := ''system'', eTenantID := tID t,
          eProjectID := tProject t, eTarget := tKeyID t\<rparr>)"

definition keyAdd :: "(string \<Rightarrow> string) \<Rightarrow> int \<Rightarrow> string \<Rightarrow> Tenant option \<Rightarrow> KeyStore \<Rightarrow> KeyStore" where
  "keyAdd sha now plaintext t s =
     (let s1 = s\<lparr>ksKeys := mput (sha plaintext) t (ksKeys s)\<rparr>
      in if t \<noteq> None then s1\<lparr>ksAuditor := Record now (keyEntry ActionAPIKeyAdd t) (ksAuditor s1)\<rparr> else s1)"

definition keyDisable :: "(string \<Rightarrow> string) \<Rightarrow> int \<Rightarrow> string \<Rightarrow> KeyStore \<Rightarrow> bool \<times> KeyStore" where
  "keyDisable sha now plaintext s =
     (let hashed = sha plaintext in
      case mget (ksKeys s) hashed of
        None \<Rightarrow> (False, s)
      | Some t \<Rightarrow>
          let s1 = s\<lparr>ksKeys := mdel hashed (ksKeys s)\<rparr>
          in (True, s1\<lparr>ksAuditor := Record now (keyEntry ActionAPIKeyDisable t) (ksAuditor s1)\<rparr>))"

definition keyLookup :: "string \<Rightarrow> KeyStore \<Rightarrow> Tenant option option" where
  "keyLookup hashed s = mget (ksKeys s) hashed"

section \<open>Middlewares\<close>

datatype 'r served = Unauthorized string | BasicChallenge | Forbidden string string | NotFound | Served 'r

type_synonym 'r handler = "Tenant option option \<Rightarrow> 'r served"

definition authMiddleware :: "(string \<Rightarrow> string) \<Rightarrow> KeyStore \<Rightarrow> string \<Rightarrow> 'r handler \<Rightarrow> 'r handler" where
  "authMiddleware sha store authorization h ctx =
     (if \<not> prefix ''Bearer '' authorization then Unauthorized ''missing bearer token''
      else
        let plaintext = TrimSpace (drop (length ''Bearer '') authorization) in
        if plaintext = [] then Unauthorized ''empty bearer token''
        else case keyLookup (sha plaintext) store of
          None \<Rightarrow> Unauthorized ''invalid api key''
        | Some t \<Rightarrow> h (Some t))"

definition RequireScope :: "string \<Rightarrow> 'r handler \<Rightarrow> 'r handler" where
  "RequireScope scope h ctx =
     (case ctx of
        Some t \<Rightarrow> if HasScope t scope then h ctx
                   else Forbidden (''api key missing required scope: '' @ scope) ''insufficient_scope''
      | None \<Rightarrow> Forbidden (''api key missing required scope: '' @ scope) ''insufficient_scope'')"

definition RequireRole :: "string \<Rightarrow> 'r handler \<Rightarrow> 'r handler" where
  "RequireRole role h ctx =
     (case ctx of
        Some t \<Rightarrow> if HasRole t role then h ctx
                   else Forbidden (''api key missing required role: '' @ role) ''insufficient_role''
      | None \<Rightarrow> Forbidden (''api key missing required role: '' @ role) ''insufficient_role'')"

text \<open>\<open>BasicAuth\<close> of package http decodes the header: a parameter.\<close>

definition dashboardBasicAuth :: "(string \<Rightarrow> (string \<times> string) option) \<Rightarrow> string \<Rightarrow> string \<Rightarrow> 'r handler \<Rightarrow> 'r handler" where
  "dashboardBasicAuth basicAuth password authorization h ctx =
     (case basicAuth authorization of
        None \<Rightarrow> BasicChallenge
      | Some (user, pass) \<Rightarrow> if pass \<noteq> password then BasicChallenge else h ctx)"

section \<open>The routes\<close>

record ServerConfig =
  scKeys :: KeyStore
  scHasEngine :: bool
  scHasOutcomes :: bool
  scDashboardPassword :: string

datatype route_guard = Open | KeyOnly | KeyScope string | KeyRole string | BasicPassword string

definition dashGuard :: "ServerConfig \<Rightarrow> route_guard" where
  "dashGuard cfg = (if scDashboardPassword cfg \<noteq> [] then BasicPassword (scDashboardPassword cfg)
                    else KeyRole RoleAdmin)"

definition serverRoutes :: "ServerConfig \<Rightarrow> (string \<times> string \<times> route_guard) list" where
  "serverRoutes cfg =
     [(''GET'', ''/'', Open), (''GET'', ''/healthz'', Open), (''GET'', ''/readyz'', Open),
      (''GET'', ''/metrics'', Open), (''POST'', ''/v1/chat/completions'', KeyScope ScopeChatCompletions)] @
     (if scHasEngine cfg then [(''GET'', ''/v1/models'', KeyOnly),
        (''POST'', ''/router/decision'', KeyScope ScopeRouterDecision)] else []) @
     (if scHasOutcomes cfg then [(''POST'', ''/router/outcomes'', KeyScope ScopeRouterOutcomes)] else []) @
     [(''GET'', ''/router/dashboard'', dashGuard cfg), (''GET'', ''/router/dashboard/data'', dashGuard cfg)]"

text \<open>A \<open>GET\<close> pattern of \<open>http.ServeMux\<close> also matches \<open>HEAD\<close>; the paths are literal.\<close>

definition methodMatches :: "string \<Rightarrow> string \<Rightarrow> bool" where
  "methodMatches pattern m \<longleftrightarrow> pattern = m \<or> (pattern = ''GET'' \<and> m = ''HEAD'')"

definition guardHandler :: "(string \<Rightarrow> string) \<Rightarrow> (string \<Rightarrow> (string \<times> string) option) \<Rightarrow> KeyStore \<Rightarrow> string \<Rightarrow>
    route_guard \<Rightarrow> 'r handler \<Rightarrow> 'r handler" where
  "guardHandler sha basicAuth store authorization g h =
     (case g of
        Open \<Rightarrow> h
      | KeyOnly \<Rightarrow> authMiddleware sha store authorization h
      | KeyScope s \<Rightarrow> authMiddleware sha store authorization (RequireScope s h)
      | KeyRole r \<Rightarrow> authMiddleware sha store authorization (RequireRole r h)
      | BasicPassword p \<Rightarrow> dashboardBasicAuth basicAuth p authorization h)"

definition serveHTTP :: "(string \<Rightarrow> string) \<Rightarrow> (string \<Rightarrow> (string \<times> string) option) \<Rightarrow> ServerConfig \<Rightarrow>
    string \<Rightarrow> string \<Rightarrow> string \<Rightarrow> (string \<Rightarrow> 'r handler) \<Rightarrow> 'r served" where
  "serveHTTP sha basicAuth cfg m path authorization handlers =
     (case find (\<lambda>(pm, pp, g). methodMatches pm m \<and> pp = path) (serverRoutes cfg) of
        None \<Rightarrow> NotFound
      | Some (pm, pp, g) \<Rightarrow>
          guardHandler sha basicAuth (scKeys cfg) authorization g (handlers path) None)"

section \<open>Who gets in\<close>

definition bearer :: "(string \<Rightarrow> string) \<Rightarrow> KeyStore \<Rightarrow> string \<Rightarrow> Tenant option \<Rightarrow> bool" where
  "bearer sha store authorization t \<longleftrightarrow> (\<exists>rest. authorization = ''Bearer '' @ rest \<and> TrimSpace rest \<noteq> [] \<and>
     keyLookup (sha (TrimSpace rest)) store = Some t)"

lemma authMiddleware_cases:
  "(\<exists>t. bearer sha store authorization t \<and> authMiddleware sha store authorization h ctx = h (Some t)) \<or>
   ((\<nexists>t. bearer sha store authorization t) \<and> (\<exists>msg. authMiddleware sha store authorization h ctx = Unauthorized msg))"
  by (auto simp: authMiddleware_def bearer_def prefix_def Let_def split: option.split)

lemma bearer_unique: "bearer sha store a t \<Longrightarrow> bearer sha store a t' \<Longrightarrow> t = t'"
  by (auto simp: bearer_def)

lemma authMiddleware_served:
  "(\<exists>x. authMiddleware sha store a g ctx = Served x) \<longleftrightarrow>
   (\<exists>t. bearer sha store a t \<and> (\<exists>x. g (Some t) = Served x))"
proof (cases "\<exists>t. bearer sha store a t")
  case True
  then obtain t where t: "bearer sha store a t" by blast
  then have "authMiddleware sha store a g ctx = g (Some t)"
    using authMiddleware_cases [of sha store a g ctx] by (blast dest: bearer_unique [OF t])
  moreover have "(\<exists>t'. bearer sha store a t' \<and> P t') \<longleftrightarrow> P t" for P
    using t by (blast dest: bearer_unique [OF t])
  ultimately show ?thesis by simp
next
  case False
  with authMiddleware_cases [of sha store a g ctx] show ?thesis by auto
qed

lemma RequireScope_served:
  assumes "\<And>c. \<exists>x. h c = Served x"
  shows "(\<exists>x. RequireScope s h (Some t) = Served x) \<longleftrightarrow> HasScope t s"
  using assms [of "Some t"] by (simp add: RequireScope_def)

lemma RequireRole_served:
  assumes "\<And>c. \<exists>x. h c = Served x"
  shows "(\<exists>x. RequireRole s h (Some t) = Served x) \<longleftrightarrow> HasRole t s"
  using assms [of "Some t"] by (simp add: RequireRole_def)

lemmas guarded = authMiddleware_served RequireScope_served RequireRole_served

section \<open>Runs of the key store\<close>

datatype key_op = AddKey string "Tenant option" | DisableKey string

primrec keyStep :: "(string \<Rightarrow> string) \<Rightarrow> int \<Rightarrow> key_op \<Rightarrow> KeyStore \<Rightarrow> KeyStore" where
  "keyStep sha now (AddKey p t) s = keyAdd sha now p t s"
| "keyStep sha now (DisableKey p) s = snd (keyDisable sha now p s)"

text \<open>What the last operation on a digest leaves.\<close>

definition lastKeyOp :: "(string \<Rightarrow> string) \<Rightarrow> string \<Rightarrow> key_op list \<Rightarrow> Tenant option option" where
  "lastKeyOp sha hashed ops = fold (\<lambda>op acc. case op of
       AddKey p t \<Rightarrow> if sha p = hashed then Some t else acc
     | DisableKey p \<Rightarrow> if sha p = hashed then None else acc) ops None"

lemma keyStep_wf: "mwf (ksKeys s) \<Longrightarrow> mwf (ksKeys (keyStep sha now op s))"
  by (cases op) (auto simp: keyAdd_def keyDisable_def Let_def split: option.split)

lemma keyStep_lookup:
  "mwf (ksKeys s) \<Longrightarrow> keyLookup hashed (keyStep sha now op s) =
    (case op of AddKey p t \<Rightarrow> if sha p = hashed then Some t else keyLookup hashed s
     | DisableKey p \<Rightarrow> if sha p = hashed then None else keyLookup hashed s)"
  by (cases op) (auto simp: keyLookup_def keyAdd_def keyDisable_def Let_def split: option.split)

lemma keyRun_lookup:
  "mwf (ksKeys s) \<Longrightarrow> keyLookup hashed (fold (keyStep sha now) ops s) =
    fold (\<lambda>op acc. case op of AddKey p t \<Rightarrow> if sha p = hashed then Some t else acc
     | DisableKey p \<Rightarrow> if sha p = hashed then None else acc) ops (keyLookup hashed s)"
proof (induction ops arbitrary: s)
  case (Cons op ops)
  then show ?case
    by (simp add: keyStep_wf keyStep_lookup split: key_op.split)
qed simp

lemma keyRun_new: "keyLookup hashed (fold (keyStep sha now) ops NewInMemoryKeyStore) = lastKeyOp sha hashed ops"
  using keyRun_lookup [of NewInMemoryKeyStore]
  by (simp add: lastKeyOp_def NewInMemoryKeyStore_def keyLookup_def)

end
