(* ===== verification/Chat.thy ===== *)
theory Chat
  imports ContextProc DecisionCache Budget Health PolicyCache Retention Secrets NewJob Cost Auth
begin

text \<open>
  The chat completions handler, \<open>internal/server/chat.go\<close> (with \<open>lookupPolicy\<close> of \<open>decision.go\<close> and
  \<open>maskOutbound\<close> of \<open>mask.go\<close>): budget, policy, decision cache, engine, shadow comparison, events,
  audit, and the provider call, streamed with fallbacks or not. The handler is a function of its
  options, the clock and the request on an explicit state: the queue, health tracker, decision
  cache and audit sink it shares with other requests, the response headers set so far, the
  provider calls it has made and the prompt lines it has logged. Provider adapters are parameters:
  functions from a request to what they return. Other log lines are left out.
\<close>

section \<open>Providers and options\<close>

record StreamChunk =
  chData :: string
  chDone :: bool
  chErr :: "provider_error option"
  chInputTokens :: int
  chOutputTokens :: int

text \<open>
  What waiting for the first chunk ends with: the channel (a chunk, or closed), the timer, or the
  client going away. A stream is that and the chunks of its channel up to its close.
\<close>

datatype first_wait = ChannelFirst | TimerFirst | ClientGone

record Adapter =
  adName :: string
  adComplete :: "NormalizedModelRequest \<Rightarrow> provider_error + ChatResponse option"
  adStream :: "(nat \<Rightarrow> NormalizedModelRequest \<Rightarrow> provider_error + first_wait \<times> StreamChunk list) option"

record ChatOptions =
  coContextPipeline :: "Processor option list option"
  coContextPipelineEnabled :: bool
  coPromptAdapter :: "PromptAdapter option"
  coEngine :: "Engine option"
  coAdapters :: "(string, Adapter) gomap"
  coPolicyCache :: "Cache option"
  coShadowPolicyCache :: "Cache option"
  coRetention :: "RetSettings option"
  coBudget :: "BudgetEvaluator option"
  coRegistryVersion :: string
  coFlushes :: bool

record ChatState =
  csQueue :: "Queue option"
  csHealth :: "Tracker option"
  csCache :: "DecCache option"
  csAudit :: "Sink option"
  csHeaders :: "(string, string) gomap"
  csCalls :: "(string \<times> NormalizedModelRequest) list"
  csPromptLog :: "(string \<times> string \<times> nat \<times> string \<times> string) list"

text \<open>The clock: the present, the routing time, and per attempt the times to the first token and to the end.\<close>

record ChatClock =
  ckNow :: int
  ckRoutingMs :: int
  ckRoutingMicros :: int
  ckFirstTokenMs :: "nat \<Rightarrow> int"
  ckDurationMs :: "nat \<Rightarrow> int"

text \<open>The routines of other packages that the handler reaches: the sort, the hash and \<open>fmt.Sprint\<close>.\<close>

record ChatEnv =
  ceSort :: "(ScoredCandidate \<Rightarrow> ScoredCandidate \<Rightarrow> bool) \<Rightarrow> ScoredCandidate list \<Rightarrow> ScoredCandidate list"
  ceSha :: "string \<Rightarrow> string"
  ceSprint :: "anyval \<Rightarrow> string"
  ceClock :: ChatClock

datatype body =
    ErrorEnvelope string string
  | ChatBody "ChatResponse option"
  | SseData string
  | SseError string string
  | HandlerPanic

record Reply =
  reStatus :: int
  reHeaders :: "(string, string) gomap"
  reBody :: "body list"

section \<open>Errors\<close>

definition mapProviderError :: "provider_error \<Rightarrow> int \<times> string" where
  "mapProviderError e =
     (if errIs e ErrProviderTimeout then (504, ''provider_timeout'')
      else if errIs e ErrProviderRateLimit then (429, ''provider_rate_limit'')
      else if errIs e ErrProviderAuth then (502, ''provider_auth_error'')
      else if errIs e ErrProvider5xx then (502, ''provider_5xx'')
      else if errIs e ErrProviderBadReq then (400, ''provider_bad_request'')
      else if errIs e ErrProviderBadResp then (502, ''provider_bad_response'')
      else if errIs e ErrModelUnavailable then (502, ''model_unavailable'')
      else if errIs e ErrStreamInterrupted then (502, ''stream_interrupted'')
      else (502, ''provider_error''))"

definition mapProviderErrorCode :: "provider_error \<Rightarrow> string" where
  "mapProviderErrorCode e = snd (mapProviderError e)"

definition setHeader :: "string \<Rightarrow> string \<Rightarrow> ChatState \<Rightarrow> ChatState" where
  "setHeader k v st = st\<lparr>csHeaders := mput k v (csHeaders st)\<rparr>"

definition maskOutbound :: "string \<Rightarrow> string" where
  "maskOutbound msg = mkText (Mask msg)"

definition writeError :: "int \<Rightarrow> string \<Rightarrow> string \<Rightarrow> ChatState \<Rightarrow> Reply \<times> ChatState" where
  "writeError status code msg st =
     (let st1 = setHeader ''Content-Type'' ''application/json'' st
      in (\<lparr>reStatus = status, reHeaders = csHeaders st1, reBody = [ErrorEnvelope code (maskOutbound msg)]\<rparr>, st1))"

text \<open>A nil dereference in the handler: package http closes the connection.\<close>

definition panicReply :: "ChatState \<Rightarrow> Reply \<times> ChatState" where
  "panicReply st = (\<lparr>reStatus = 0, reHeaders = [], reBody = [HandlerPanic]\<rparr>, st)"

definition writeProviderError :: "provider_error \<Rightarrow> ChatState \<Rightarrow> Reply \<times> ChatState" where
  "writeProviderError e st = writeError (fst (mapProviderError e)) (snd (mapProviderError e)) (errText e) st"

definition engineErrText :: "engine_error \<Rightarrow> string" where
  "engineErrText e = (case e of
       RegistryUnavailable r \<Rightarrow> ''engine: registry unavailable: '' @
         (case r of ErrNoActiveSnapshot \<Rightarrow> ''registry: no active snapshot''
          | ErrInvalidSnapshot p \<Rightarrow> ''registry: invalid snapshot'')
     | ErrNoRoute m \<Rightarrow> ''engine: no route found: '' @ m
     | ErrBlocked \<Rightarrow> ''engine: request blocked by policy''
     | ErrDisabled m \<Rightarrow> ''engine: routing disabled: '' @ m
     | ErrModelNotFound m \<Rightarrow> ''engine: model not found in registry: '' @ m
     | NilPanic \<Rightarrow> [])"

section \<open>Events, health and cost\<close>

definition enqueueEvent :: "Event \<Rightarrow> ChatState \<Rightarrow> ChatState" where
  "enqueueEvent e st = st\<lparr>csQueue := map_option (Enqueue e) (csQueue st)\<rparr>"

definition decisionEvent :: "ChatClock \<Rightarrow> JobDescriptor \<Rightarrow> RouteDecision \<Rightarrow> DecisionComparison option \<Rightarrow> Event" where
  "decisionEvent ck job dec shadow =
     \<lparr>qType = EventTypeDecision, qDecision = Some
       \<lparr>deRequestID = jRequestID job, deTenantID = jTenantID job, deProjectID = jProjectID job,
        deTaskType = jTaskType job, deRiskLevel = jRiskLevel job, deSensitivity = jSensitivity job,
        deSelectedModel = rdSelectedModel dec, deSelectedProvider = rdSelectedProvider dec,
        deProviderModelID = rdProviderModelID dec, dePolicyVersion = rdPolicyVersion dec,
        dePromptTokens = jPromptTokensEstimate job, deEstimatedCostUSD = rdEstimatedCostUSD dec,
        deRoutingDurationMs = ckRoutingMs ck, deRoutingDurationMicros = ckRoutingMicros ck,
        deBlocked = rdBlocked dec, deBlockCode = rdBlockCode dec, deShadowComparison = shadow,
        deDecidedAt = ckNow ck\<rparr>, qAttempt = None\<rparr>"

definition recordHealth :: "string \<Rightarrow> bool \<Rightarrow> ChatState \<Rightarrow> ChatState" where
  "recordHealth provider success st =
     st\<lparr>csHealth := map_option (if success then RecordSuccess provider else RecordFailure provider) (csHealth st)\<rparr>"

definition actualCostUSD :: "ChatOptions \<Rightarrow> string \<Rightarrow> string \<Rightarrow> int \<Rightarrow> int \<Rightarrow> float64" where
  "actualCostUSD opts modelID providerID inTok outTok =
     (case coEngine opts of None \<Rightarrow> 0
      | Some e \<Rightarrow> (case enRegistry e of None \<Rightarrow> 0
        | Some store \<Rightarrow> (case storeGet (Some store) of Inl err \<Rightarrow> 0
          | Inr snap \<Rightarrow> (case snapModel (Some snap) modelID of None \<Rightarrow> 0
            | Some m \<Rightarrow> (case EstimateCost modelID providerID (mCost m)
                  \<lparr>tuInputTokens = inTok, tuOutputTokens = outTok, tuMode = ModeActual\<rparr> of
                Inl err \<Rightarrow> 0 | Inr est \<Rightarrow> of_int (estTotalMicroUSD est) / 1000000)))))"

record attemptMeta =
  amTenantID :: string
  amProjectID :: string
  amEstimatedCostUSD :: float64

definition attemptEvent :: "ChatClock \<Rightarrow> string \<Rightarrow> attemptMeta \<Rightarrow> string \<Rightarrow> string \<Rightarrow> nat \<Rightarrow> int \<Rightarrow>
    provider_error option \<Rightarrow> int \<Rightarrow> int \<Rightarrow> float64 \<Rightarrow> Event" where
  "attemptEvent ck requestID meta providerID modelID i firstMs err inTok outTok actual =
     \<lparr>qType = EventTypeAttempt, qDecision = None, qAttempt = Some
       \<lparr>aeRequestID = requestID, aeTenantID = amTenantID meta, aeProjectID = amProjectID meta,
        aeProviderID = providerID, aeModelID = modelID, aeAttemptIndex = int i, aeSuccess = (err = None),
        aeErrorCode = (case err of None \<Rightarrow> [] | Some e \<Rightarrow> mapProviderErrorCode e),
        aeDurationMs = ckDurationMs ck i, aeInputTokens = inTok, aeOutputTokens = outTok,
        aeActualCostUSD = actual, aeEstimatedCostUSD = amEstimatedCostUSD meta,
        aeFirstTokenMs = firstMs, aeAttemptedAt = ckNow ck\<rparr>\<rparr>"

definition recordAttemptResult :: "ChatOptions \<Rightarrow> ChatClock \<Rightarrow> string \<Rightarrow> attemptMeta \<Rightarrow> string \<Rightarrow> string \<Rightarrow>
    provider_error + ChatResponse option \<Rightarrow> ChatState \<Rightarrow> ChatState" where
  "recordAttemptResult opts ck requestID meta providerID modelID res st =
     (let err = (case res of Inl e \<Rightarrow> Some e | Inr r \<Rightarrow> None);
          st1 = recordHealth providerID (err = None) st;
          usage = (case res of Inr (Some r) \<Rightarrow> (PromptTokens (respUsage r), CompletionTokens (respUsage r)) | _ \<Rightarrow> (0, 0));
          actual = (case res of Inr (Some r) \<Rightarrow> actualCostUSD opts modelID providerID (fst usage) (snd usage) | _ \<Rightarrow> 0)
      in enqueueEvent (attemptEvent ck requestID meta providerID modelID 0 0 err (fst usage) (snd usage) actual) st1)"

definition setUsageHeaders :: "ChatOptions \<Rightarrow> string \<Rightarrow> string \<Rightarrow> ChatResponse option \<Rightarrow> ChatState \<Rightarrow> ChatState" where
  "setUsageHeaders opts modelID providerID resp st =
     (case resp of None \<Rightarrow> st
      | Some r \<Rightarrow>
          setHeader ''X-Router-Cost-USD'' (fmtFixed 6 (actualCostUSD opts modelID providerID
              (PromptTokens (respUsage r)) (CompletionTokens (respUsage r))))
            (setHeader ''X-Router-Output-Tokens'' (showInt (CompletionTokens (respUsage r)))
              (setHeader ''X-Router-Input-Tokens'' (showInt (PromptTokens (respUsage r))) st)))"

section \<open>Before routing\<close>

definition logPrompt :: "ChatOptions \<Rightarrow> JobDescriptor \<Rightarrow> ChatRequest \<Rightarrow> ChatState \<Rightarrow> ChatState" where
  "logPrompt opts job req st =
     (if coRetention opts = None \<or> \<not> PromptLoggingEnabled (coRetention opts) (jTenantID job) then st
      else st\<lparr>csPromptLog := csPromptLog st @
        map (\<lambda>(i, m). (jRequestID job, jTenantID job, i, msgRole m, mkText (Mask (msgContent m))))
          (enumerate 0 (reqMessages req))\<rparr>)"

text \<open>A reply when the budget rejects the request; otherwise the job, perhaps downgraded.\<close>

definition applyBudget :: "ChatOptions \<Rightarrow> JobDescriptor \<Rightarrow> ChatState \<Rightarrow> (Reply \<times> ChatState) + (JobDescriptor \<times> ChatState)" where
  "applyBudget opts job st =
     (case coBudget opts of None \<Rightarrow> Inr (job, st)
      | Some b \<Rightarrow>
          let v = budgetCheck (Some b) (jTenantID job) (jProjectID job) in
          if vBlocked v then Inl (writeError 402 ''budget_exceeded'' (''budget cap exceeded for '' @ vScope v) st)
          else if vDowngrade v then
            Inr (job\<lparr>jRouterMode := RouterModeCheap\<rparr>, setHeader ''X-Router-Budget-Action'' ''downgrade'' st)
          else if vStatus v = StatusWarn then Inr (job, setHeader ''X-Router-Budget-Warning'' ''true'' st)
          else Inr (job, st))"

definition lookupPolicy :: "Cache option \<Rightarrow> JobDescriptor \<Rightarrow> CompiledPolicy option" where
  "lookupPolicy cache job =
     (case cache of None \<Rightarrow> None
      | Some c \<Rightarrow> Active (Some c) \<lparr>scTenantID = jTenantID job, scProjectID = jProjectID job\<rparr>)"

definition policyVersionOf :: "CompiledPolicy option \<Rightarrow> string" where
  "policyVersionOf pol = (case pol of None \<Rightarrow> [] | Some p \<Rightarrow> cpVersionOf (Some p))"

definition healthSnapshot :: "ChatState \<Rightarrow> HealthSnapshot" where
  "healthSnapshot st = (case csHealth st of Some t \<Rightarrow> ProviderHealth t | None \<Rightarrow> FullyHealthy)"

definition cacheStatus :: "bool \<Rightarrow> bool \<Rightarrow> string" where
  "cacheStatus cacheable hit = (if \<not> cacheable then ''bypass'' else if hit then ''hit'' else ''miss'')"

definition cloneJobDescriptor :: "JobDescriptor \<Rightarrow> JobDescriptor" where
  "cloneJobDescriptor j = j\<lparr>jFilesTouched := [] @ jFilesTouched j, jKeywords := [] @ jKeywords j,
     jMetadata := map (\<lambda>(k, v). (k, v)) (jMetadata j), jExplicitModel := map_option (\<lambda>m. m) (jExplicitModel j)\<rparr>"

section \<open>Routing\<close>

definition blockedOrFine :: "engine_error option \<Rightarrow> bool" where
  "blockedOrFine err \<longleftrightarrow> err = None \<or> err = Some ErrBlocked"

definition compareShadowDecision :: "ChatEnv \<Rightarrow> ChatOptions \<Rightarrow> JobDescriptor \<Rightarrow> RouteDecision \<Rightarrow> engine_error option \<Rightarrow>
    CompiledPolicy option \<Rightarrow> HealthSnapshot \<Rightarrow> bool \<Rightarrow> DecisionComparison option" where
  "compareShadowDecision env opts job dec err shadowPol health streaming =
     (case (coEngine opts, shadowPol) of
        (Some e, Some sp) \<Rightarrow>
          if \<not> blockedOrFine err then None
          else
            let (j, sdec, serr) = Decide (ceSort env) e (cloneJobDescriptor job) (Some sp) (Some health) streaming
            in if \<not> blockedOrFine serr then None else Some (CompareDecisions dec sdec)
      | _ \<Rightarrow> None)"

record Routing =
  roJob :: JobDescriptor
  roPolicy :: "CompiledPolicy option"
  roDecision :: RouteDecision
  roError :: "engine_error option"

text \<open>From the policy lookup to the decision event.\<close>

definition cacheProbe :: "ChatEnv \<Rightarrow> ChatOptions \<Rightarrow> ChatRequest \<Rightarrow> JobDescriptor \<Rightarrow> CompiledPolicy option \<Rightarrow> ChatState \<Rightarrow>
    bool \<times> string \<times> RouteDecision option \<times> ChatState" where
  "cacheProbe env opts req job pol st =
     (let cacheable = csCache st \<noteq> None \<and> Cacheable (Some job) in
      if \<not> cacheable then (False, [], None, st)
      else
        let key = decisionKey (ceSha env) (ceSprint env) (Some req) (Some job) (policyVersionOf pol) (coRegistryVersion opts);
            (cached, cache) = cacheGet (ckNow (ceClock env)) key (csCache st)
        in (True, key, cached, st\<lparr>csCache := cache\<rparr>))"

definition routeRequest :: "ChatEnv \<Rightarrow> ChatOptions \<Rightarrow> Engine \<Rightarrow> ChatRequest \<Rightarrow> JobDescriptor \<Rightarrow> ChatState \<Rightarrow> Routing \<times> ChatState" where
  "routeRequest env opts e req job st =
     (let pol = lookupPolicy (coPolicyCache opts) job;
          shadowPol = lookupPolicy (coShadowPolicyCache opts) job;
          health = healthSnapshot st;
          (cacheable, key, cached, st1) = cacheProbe env opts req job pol st;
          (job', dec, err) = (case cached of
              Some d \<Rightarrow> (job, d, None)
            | None \<Rightarrow> Decide (ceSort env) e job pol (Some health) (reqStream req));
          shadow = compareShadowDecision env opts job' dec err shadowPol health (reqStream req);
          st2 = (if cacheable \<and> cached = None \<and> err = None \<and> \<not> rdBlocked dec
                 then st1\<lparr>csCache := cachePut (ckNow (ceClock env)) key dec (csCache st1)\<rparr> else st1);
          st3 = (if csCache st2 \<noteq> None
                 then setHeader ''X-Router-Cache'' (cacheStatus cacheable (cached \<noteq> None)) st2 else st2)
      in (\<lparr>roJob = job', roPolicy = pol, roDecision = dec, roError = err\<rparr>,
          enqueueEvent (decisionEvent (ceClock env) job' dec shadow) st3))"

definition blockEntry :: "JobDescriptor \<Rightarrow> RouteDecision \<Rightarrow> Entry" where
  "blockEntry job dec = zeroEntry\<lparr>eAction := ActionRequestBlocked, eActor := jTenantID job,
     eTenantID := jTenantID job, eProjectID := jProjectID job,
     eTarget := (case jExplicitModel job of None \<Rightarrow> [] | Some m \<Rightarrow> m), eOutcome := OutcomeBlocked,
     eRequestID := jRequestID job, eReason := rdBlockReason dec,
     eDetail := [(''block_code'', rdBlockCode dec), (''task_type'', jTaskType job), (''risk_level'', jRiskLevel job)]\<rparr>"

definition auditBlocked :: "int \<Rightarrow> JobDescriptor \<Rightarrow> RouteDecision \<Rightarrow> ChatState \<Rightarrow> ChatState" where
  "auditBlocked now job dec st =
     (if csAudit st = None then st else st\<lparr>csAudit := Record now (blockEntry job dec) (csAudit st)\<rparr>)"

definition writeRouteError :: "ChatEnv \<Rightarrow> Routing \<Rightarrow> engine_error \<Rightarrow> ChatState \<Rightarrow> Reply \<times> ChatState" where
  "writeRouteError env ro err st =
     (case err of
        ErrBlocked \<Rightarrow>
          writeError (if rdBlockStatus (roDecision ro) = 0 then 403 else rdBlockStatus (roDecision ro))
            (rdBlockCode (roDecision ro)) (rdBlockReason (roDecision ro))
            (auditBlocked (ckNow (ceClock env)) (roJob ro) (roDecision ro) st)
      | ErrModelNotFound m \<Rightarrow> writeError 404 ''model_not_found'' (engineErrText err) st
      | NilPanic \<Rightarrow> panicReply st
     | _ \<Rightarrow> writeError 502 ''no_route'' (engineErrText err) st)"

section \<open>The provider call\<close>

definition contextPipelineAllowed :: "bool \<Rightarrow> CompiledPolicy option \<Rightarrow> JobDescriptor option \<Rightarrow> bool \<Rightarrow> bool" where
  "contextPipelineAllowed operatorEnabled pol job streaming =
     (if \<not> operatorEnabled \<or> streaming then False
      else case (pol, job) of
        (Some p, Some j) \<Rightarrow> ContextPipelineEnabled (evRoute (Evaluate (Some p) (evaluationInput j)))
      | _ \<Rightarrow> False)"

definition maybeRunContextPipeline :: "ChatOptions \<Rightarrow> NormalizedModelRequest \<Rightarrow> JobDescriptor \<Rightarrow> CompiledPolicy option \<Rightarrow> bool \<Rightarrow>
    ChatState \<Rightarrow> NormalizedModelRequest \<times> ChatState" where
  "maybeRunContextPipeline opts nreq job pol streaming st =
     (if \<not> contextPipelineAllowed (coContextPipelineEnabled opts) pol (Some job) streaming then (nreq, st)
      else
        let procs = (case coContextPipeline opts of None \<Rightarrow> [] | Some ps \<Rightarrow> ps);
            (nreq', result) = pipelineRun (Some procs) nreq (Some job)
        in (nreq', if plTotalTokensSaved result > 0
                   then setHeader ''X-Router-Context-Savings'' (showInt (plTotalTokensSaved result)) st else st))"

definition maybeRunPromptAdapter :: "ChatOptions \<Rightarrow> NormalizedModelRequest \<Rightarrow> string \<Rightarrow> string \<Rightarrow> NormalizedModelRequest" where
  "maybeRunPromptAdapter opts nreq modelID providerModelID =
     (case coPromptAdapter opts of None \<Rightarrow> nreq
      | Some a \<Rightarrow> (case promptApply (Some a) (Some nreq) modelID providerModelID of
          None \<Rightarrow> nreq | Some (adapted, rules) \<Rightarrow> adapted))"

definition logCall :: "string \<Rightarrow> NormalizedModelRequest \<Rightarrow> ChatState \<Rightarrow> ChatState" where
  "logCall provider nreq st = st\<lparr>csCalls := csCalls st @ [(provider, nreq)]\<rparr>"

definition writeChat :: "ChatResponse option \<Rightarrow> ChatState \<Rightarrow> Reply \<times> ChatState" where
  "writeChat resp st =
     (let st1 = setHeader ''Content-Type'' ''application/json'' st
      in (\<lparr>reStatus = 200, reHeaders = csHeaders st1, reBody = [ChatBody resp]\<rparr>, st1))"

definition metaOf :: "Routing \<Rightarrow> attemptMeta" where
  "metaOf ro = \<lparr>amTenantID = jTenantID (roJob ro), amProjectID = jProjectID (roJob ro),
     amEstimatedCostUSD = rdEstimatedCostUSD (roDecision ro)\<rparr>"

definition completeRouted :: "ChatEnv \<Rightarrow> ChatOptions \<Rightarrow> Routing \<Rightarrow> Adapter \<Rightarrow> NormalizedModelRequest \<Rightarrow> bool \<Rightarrow> ChatState \<Rightarrow>
    Reply \<times> ChatState" where
  "completeRouted env opts ro a nreq streaming st =
     (let dec = roDecision ro;
          (n1, st1) = maybeRunContextPipeline opts (nreq\<lparr>nrModel := rdProviderModelID dec\<rparr>) (roJob ro) (roPolicy ro) streaming st;
          n2 = maybeRunPromptAdapter opts n1 (rdSelectedModel dec) (rdProviderModelID dec);
          st2 = logCall (rdSelectedProvider dec) n2 st1;
          res = adComplete a n2;
          st3 = recordAttemptResult opts (ceClock env) (jRequestID (roJob ro)) (metaOf ro)
                  (rdSelectedProvider dec) (rdSelectedModel dec) res st2
      in case res of
           Inl e \<Rightarrow> writeProviderError e st3
         | Inr resp \<Rightarrow> writeChat resp (setUsageHeaders opts (rdSelectedModel dec) (rdSelectedProvider dec) resp st3))"

section \<open>Streaming\<close>

record streamCandidate =
  scaAdapter :: "nat \<Rightarrow> NormalizedModelRequest \<Rightarrow> provider_error + first_wait \<times> StreamChunk list"
  scaProviderModelID :: string
  scaModelID :: string
  scaProviderID :: string

definition streamAdd :: "(string, Adapter) gomap \<Rightarrow> string \<Rightarrow> string \<Rightarrow> string \<Rightarrow> streamCandidate list" where
  "streamAdd adapters providerID providerModelID modelID =
     (case mget adapters providerID of None \<Rightarrow> []
      | Some a \<Rightarrow> (case adStream a of None \<Rightarrow> []
          | Some s \<Rightarrow> [\<lparr>scaAdapter = s, scaProviderModelID = providerModelID, scaModelID = modelID,
                        scaProviderID = providerID\<rparr>]))"

definition buildStreamCandidates :: "RouteDecision \<Rightarrow> (string, Adapter) gomap \<Rightarrow> streamCandidate list" where
  "buildStreamCandidates dec adapters =
     streamAdd adapters (rdSelectedProvider dec) (rdProviderModelID dec) (rdSelectedModel dec) @
     concat (map (\<lambda>fb. streamAdd adapters (feProviderID fb) (feProviderModelID fb) (feModelID fb)) (rdFallbacks dec))"

definition seenUsage :: "StreamChunk \<Rightarrow> int \<times> int \<Rightarrow> int \<times> int" where
  "seenUsage c u = (if chInputTokens c > 0 \<or> chOutputTokens c > 0 then (chInputTokens c, chOutputTokens c) else u)"

definition sseChunk :: "StreamChunk \<Rightarrow> body list" where
  "sseChunk c = (if length (chData c) > 0 then [SseData (chData c)] else [])"

definition sseInterrupted :: "provider_error \<Rightarrow> body" where
  "sseInterrupted e = SseError ''stream_interrupted'' (maskOutbound (errText e))"

text \<open>The rest of a stream: what is written, the usage seen and how it ends.\<close>

fun drainChunks :: "StreamChunk list \<Rightarrow> int \<times> int \<Rightarrow> body list \<times> (int \<times> int) \<times> provider_error option" where
  "drainChunks [] u = ([], u, None)"
| "drainChunks (c # cs) u =
     (case chErr c of
        Some e \<Rightarrow> ([sseInterrupted e], (0, 0), Some e)
      | None \<Rightarrow>
          if chDone c then ([SseData ''[DONE]''], seenUsage c u, None)
          else let (out, u', err) = drainChunks cs (seenUsage c u) in (sseChunk c @ out, u', err))"

text \<open>What one attempt ends in: nothing was sent and the next candidate is tried, the client is
  gone, the first chunk was an error, or the stream was taken over.\<close>

datatype attempt_end =
    NextCandidate provider_error
  | Gone
  | FirstError provider_error
  | Streamed "body list" "int \<times> int" "provider_error option"

definition attemptStream :: "nat \<Rightarrow> streamCandidate \<Rightarrow> NormalizedModelRequest \<Rightarrow> attempt_end" where
  "attemptStream i c req =
     (case scaAdapter c i req of
        Inl e \<Rightarrow> NextCandidate e
      | Inr (TimerFirst, chunks) \<Rightarrow> NextCandidate (PErr [ErrProviderTimeout] ''provider_timeout'')
      | Inr (ClientGone, chunks) \<Rightarrow> Gone
      | Inr (ChannelFirst, []) \<Rightarrow> NextCandidate (PErr [] ''channel closed'')
      | Inr (ChannelFirst, first # rest) \<Rightarrow>
          (case chErr first of
             Some e \<Rightarrow> FirstError e
           | None \<Rightarrow>
               if chDone first then Streamed [SseData ''[DONE]''] (seenUsage first (0, 0)) None
               else let (out, u, err) = drainChunks rest (seenUsage first (0, 0))
                    in Streamed (sseChunk first @ out) u err))"

definition recordStream :: "ChatOptions \<Rightarrow> ChatClock \<Rightarrow> string \<Rightarrow> attemptMeta \<Rightarrow> streamCandidate \<Rightarrow> nat \<Rightarrow> int \<Rightarrow>
    int \<times> int \<Rightarrow> provider_error option \<Rightarrow> ChatState \<Rightarrow> ChatState" where
  "recordStream opts ck requestID meta c i firstMs u err st =
     (let actual = (if fst u > 0 \<or> snd u > 0
                    then actualCostUSD opts (scaModelID c) (scaProviderID c) (fst u) (snd u) else 0)
      in enqueueEvent (attemptEvent ck requestID meta (scaProviderID c) (scaModelID c) i firstMs err (fst u) (snd u) actual)
           (recordHealth (scaProviderID c) (err = None) st))"

definition streamHeaders :: "string \<Rightarrow> int \<Rightarrow> ChatState \<Rightarrow> ChatState" where
  "streamHeaders modelID firstMs st =
     setHeader ''X-Router-First-Token-Ms'' (showInt firstMs)
      (setHeader ''X-Router-First-Token-Sent'' ''true''
       (setHeader ''X-Router-Selected-Model'' modelID
        (setHeader ''Connection'' ''keep-alive''
         (setHeader ''Cache-Control'' ''no-cache''
          (setHeader ''Content-Type'' ''text/event-stream'' st)))))"

definition sseReply :: "body list \<Rightarrow> ChatState \<Rightarrow> Reply \<times> ChatState" where
  "sseReply out st = (\<lparr>reStatus = 200, reHeaders = csHeaders st, reBody = out\<rparr>, st)"

fun streamLoop :: "ChatOptions \<Rightarrow> ChatClock \<Rightarrow> string \<Rightarrow> attemptMeta \<Rightarrow> NormalizedModelRequest \<Rightarrow> nat \<Rightarrow>
    streamCandidate list \<Rightarrow> ChatState \<Rightarrow> Reply \<times> ChatState" where
  "streamLoop opts ck rid meta nreq i [] st =
     writeError 502 ''provider_error'' ''all streaming candidates failed or timed out'' st"
| "streamLoop opts ck rid meta nreq i (c # cs) st =
     (let req = (cloneRequest (Some nreq))\<lparr>nrModel := scaProviderModelID c\<rparr>;
          st1 = logCall (scaProviderID c) req st
      in case attemptStream i c req of
           NextCandidate e \<Rightarrow> streamLoop opts ck rid meta nreq (Suc i) cs (recordStream opts ck rid meta c i 0 (0, 0) (Some e) st1)
         | Gone \<Rightarrow> sseReply [] st1
         | FirstError e \<Rightarrow>
             let st2 = recordStream opts ck rid meta c i (ckFirstTokenMs ck i) (0, 0) (Some e) st1
             in if cs \<noteq> [] then streamLoop opts ck rid meta nreq (Suc i) cs st2 else writeProviderError e st2
         | Streamed out u err \<Rightarrow>
             sseReply out (recordStream opts ck rid meta c i (ckFirstTokenMs ck i) u err
               (streamHeaders (scaModelID c) (ckFirstTokenMs ck i) st1)))"

definition streamWithFallback :: "ChatOptions \<Rightarrow> ChatEnv \<Rightarrow> Routing \<Rightarrow> streamCandidate list \<Rightarrow> NormalizedModelRequest \<Rightarrow>
    ChatState \<Rightarrow> Reply \<times> ChatState" where
  "streamWithFallback opts env ro candidates nreq st =
     (if \<not> coFlushes opts
      then writeError 500 ''streaming_unavailable'' ''response writer does not support streaming'' st
      else streamLoop opts (ceClock env) (jRequestID (roJob ro)) (metaOf ro) nreq 0 candidates st)"

section \<open>The single-provider path\<close>

text \<open>The loop over the chunks, with whether one was taken and the headers then set.\<close>

fun legacyChunks :: "ChatClock \<Rightarrow> bool \<Rightarrow> StreamChunk list \<Rightarrow> ChatState \<Rightarrow> body list \<times> ChatState + provider_error" where
  "legacyChunks ck sent [] st = Inl ([], st)"
| "legacyChunks ck sent (c # cs) st =
     (case chErr c of
        Some e \<Rightarrow> if \<not> sent then Inr e else Inl ([sseInterrupted e], st)
      | None \<Rightarrow>
          let st1 = (if \<not> sent then setHeader ''X-Router-First-Token-Ms'' (showInt (ckFirstTokenMs ck 0))
                       (setHeader ''X-Router-First-Token-Sent'' ''true'' st) else st)
          in if chDone c then Inl ([SseData ''[DONE]''], st1)
             else case legacyChunks ck True cs st1 of
               Inl (out, st2) \<Rightarrow> Inl (sseChunk c @ out, st2)
             | Inr e \<Rightarrow> Inr e)"

definition streamChatCompletion :: "ChatOptions \<Rightarrow> ChatEnv \<Rightarrow> Adapter \<Rightarrow> NormalizedModelRequest \<Rightarrow> ChatState \<Rightarrow> Reply \<times> ChatState" where
  "streamChatCompletion opts env p nreq st =
     (if \<not> coFlushes opts
      then writeError 500 ''streaming_unavailable'' ''response writer does not support streaming'' st
      else case adStream p of
        None \<Rightarrow> writeProviderError (PErr [ErrProviderBadReq]
          (''provider_bad_request: streaming not supported by provider '' @ adName p)) st
      | Some s \<Rightarrow>
          let st1 = logCall (adName p) nreq st in
          (case s 0 nreq of
             Inl e \<Rightarrow> writeProviderError e st1
           | Inr (w, chunks) \<Rightarrow>
               let st2 = setHeader ''Connection'' ''keep-alive'' (setHeader ''Cache-Control'' ''no-cache''
                     (setHeader ''Content-Type'' ''text/event-stream'' st1));
                   st3 = (if nrModel nreq \<noteq> [] then setHeader ''X-Router-Selected-Model'' (nrModel nreq) st2 else st2)
               in case legacyChunks (ceClock env) False chunks st3 of
                    Inl (out, st4) \<Rightarrow> sseReply out st4
                  | Inr e \<Rightarrow> writeProviderError e st3))"

definition legacyPath :: "ChatOptions \<Rightarrow> ChatEnv \<Rightarrow> Adapter \<Rightarrow> JobDescriptor \<Rightarrow> NormalizedModelRequest \<Rightarrow> bool \<Rightarrow>
    ChatState \<Rightarrow> Reply \<times> ChatState" where
  "legacyPath opts env p job nreq streaming st =
     (if streaming then streamChatCompletion opts env p nreq st
      else
        let (n1, st1) = maybeRunContextPipeline opts nreq job (lookupPolicy (coPolicyCache opts) job) streaming st;
            n2 = maybeRunPromptAdapter opts n1 (nrModel n1) (nrModel n1);
            st2 = logCall (adName p) n2 st1
        in case adComplete p n2 of
             Inl e \<Rightarrow> writeProviderError e st2
           | Inr None \<Rightarrow> panicReply st2
           | Inr (Some r) \<Rightarrow> writeChat (Some r) (setHeader ''X-Router-Selected-Model'' (respModel r)
               (setHeader ''Content-Type'' ''application/json'' st2)))"

section \<open>The handler\<close>

definition decisionHeaders :: "Routing \<Rightarrow> ChatState \<Rightarrow> ChatState" where
  "decisionHeaders ro st =
     setHeader ''X-Router-Route-Class'' (jTaskType (roJob ro))
      (setHeader ''X-Router-Policy-Version'' (rdPolicyVersion (roDecision ro))
       (setHeader ''X-Router-Selected-Model'' (rdSelectedModel (roDecision ro)) st))"

definition dispatchRouted :: "ChatOptions \<Rightarrow> ChatEnv \<Rightarrow> Adapter \<Rightarrow> Routing \<Rightarrow> NormalizedModelRequest \<Rightarrow> bool \<Rightarrow>
    ChatState \<Rightarrow> Reply \<times> ChatState" where
  "dispatchRouted opts env p ro nreq streaming st =
     (let candidates = (if streaming then buildStreamCandidates (roDecision ro) (coAdapters opts) else [])
      in if candidates \<noteq> []
         then streamWithFallback opts env ro candidates (nreq\<lparr>nrModel := scaProviderModelID (hd candidates)\<rparr>) st
         else case mget (coAdapters opts) (rdSelectedProvider (roDecision ro)) of
           Some a \<Rightarrow> completeRouted env opts ro a nreq streaming st
         | None \<Rightarrow> legacyPath opts env p (roJob ro) nreq streaming st)"

definition serveRouted :: "ChatOptions \<Rightarrow> ChatEnv \<Rightarrow> Adapter \<Rightarrow> Engine \<Rightarrow> ChatRequest \<Rightarrow> JobDescriptor \<Rightarrow> ChatState \<Rightarrow>
    Reply \<times> ChatState" where
  "serveRouted opts env p e req job st =
     (case applyBudget opts job st of
        Inl r \<Rightarrow> r
      | Inr (job1, st1) \<Rightarrow>
          let (ro, st2) = routeRequest env opts e req job1 st1 in
          (case roError ro of
             Some err \<Rightarrow> writeRouteError env ro err st2
           | None \<Rightarrow> dispatchRouted opts env p ro (NormalizeChatRequest (Some req)) (reqStream req) (decisionHeaders ro st2)))"

record Caller =
  caRequestID :: string
  caTenant :: "Tenant option option"
  caHeaders :: header

definition jobOf :: "Caller \<Rightarrow> ChatRequest \<Rightarrow> JobDescriptor" where
  "jobOf caller req =
     (let t = (case caTenant caller of Some (Some t) \<Rightarrow> (tID t, tProject t) | _ \<Rightarrow> ([], []))
      in NewJobDescriptor \<lparr>jiRequestID = caRequestID caller, jiTenantID = fst t, jiProjectID = snd t,
           jiHeaders = caHeaders caller, jiRequest = Some req\<rparr>)"

definition ChatCompletions :: "ChatOptions \<Rightarrow> ChatEnv \<Rightarrow> Adapter \<Rightarrow> Caller \<Rightarrow> string + ChatRequest \<Rightarrow> ChatState \<Rightarrow>
    Reply \<times> ChatState" where
  "ChatCompletions opts env p caller decoded st =
     (case decoded of
        Inl e \<Rightarrow> writeError 400 ''invalid_request_error'' e st
      | Inr req \<Rightarrow>
          if length (reqMessages req) = 0 then writeError 400 ''invalid_request_error'' ''messages cannot be empty'' st
          else
            let job = jobOf caller req;
                st1 = logPrompt opts job req st
            in (case coEngine opts of
                  Some e \<Rightarrow> if length (coAdapters opts) > 0 then serveRouted opts env p e req job st1
                            else legacyPath opts env p job (NormalizeChatRequest (Some req)) (reqStream req) st1
                | None \<Rightarrow> legacyPath opts env p job (NormalizeChatRequest (Some req)) (reqStream req) st1))"

end
