(* ===== verification/PolicyParser.thy ===== *)
theory PolicyParser
  imports PolicyEval
begin

text \<open>
  \<open>internal/policy/parser.go\<close>: from the YAML nodes of a document to a \<open>Policy\<close>, checking the
  schema, the vocabularies and the uniqueness of rule identifiers. The YAML library is not part
  of the repository: its nodes are the datatype \<open>YNode\<close>, \<open>yaml.Unmarshal\<close> into the raw
  structs and \<open>Node.Decode\<close> into a scalar are parameters. A mapping node's content is read two
  entries at a time, and an odd length would be an index out of range: \<open>IndexPanic\<close>.
\<close>

section \<open>YAML nodes\<close>

datatype nodeKind = NoNode | DocumentNode | SequenceNode | MappingNode | ScalarNode | AliasNode

datatype YNode = YNode (nKind: nodeKind) (nTag: string) (nValue: string) (nContent: "YNode list")

text \<open>\<open>Node.Decode\<close> into an \<open>int\<close>, a \<open>float64\<close> and a \<open>bool\<close>: the text of its error or a value.\<close>

record decoder =
  ydInt :: "YNode \<Rightarrow> string + int"
  ydFloat :: "YNode \<Rightarrow> string + float64"
  ydBool :: "YNode \<Rightarrow> string + bool"

datatype parse_err = PErr policy_err | IndexPanic

definition invalid :: "string \<Rightarrow> parse_err + 'a" where
  "invalid m = Inl (PErr (ErrInvalidPolicy m))"

text \<open>The loop over the key and value pairs of a mapping.\<close>

fun eachField :: "('s \<Rightarrow> string \<Rightarrow> YNode \<Rightarrow> parse_err + 's) \<Rightarrow> YNode list \<Rightarrow> 's \<Rightarrow> parse_err + 's" where
  "eachField f [] s = Inr s"
| "eachField f [k] s = Inl IndexPanic"
| "eachField f (k # v # rest) s = bindR (f s (nValue k) v) (\<lambda>s'. eachField f rest s')"

section \<open>Scalars and lists\<close>

definition isValidCapability :: "string \<Rightarrow> bool" where
  "isValidCapability s \<longleftrightarrow> s \<in> {CapStreaming, CapToolUse, CapJSONSchema, CapVision, CapLongContext}"

definition isValidProfileOrFallback :: "string \<Rightarrow> bool" where
  "isValidProfileOrFallback s \<longleftrightarrow> s \<in> {ProfileCheap, ProfileBalanced, ProfilePremium}"

definition isValidRetention :: "string \<Rightarrow> bool" where
  "isValidRetention s \<longleftrightarrow> s = RetentionStandard \<or> s = RetentionNone"

definition decodeString :: "YNode \<Rightarrow> string \<Rightarrow> parse_err + string" where
  "decodeString node ctx =
     (if nKind node \<noteq> ScalarNode then invalid (ctx @ '' must be a string'') else Inr (nValue node))"

definition decodeInt :: "decoder \<Rightarrow> YNode \<Rightarrow> string \<Rightarrow> parse_err + int" where
  "decodeInt d node ctx =
     (if nKind node \<noteq> ScalarNode then invalid (ctx @ '' must be an integer'')
      else case ydInt d node of
             Inl e \<Rightarrow> invalid (ctx @ '' must be an integer ('' @ e @ '')'') | Inr n \<Rightarrow> Inr n)"

definition decodeFloat :: "decoder \<Rightarrow> YNode \<Rightarrow> string \<Rightarrow> parse_err + float64" where
  "decodeFloat d node ctx =
     (if nKind node \<noteq> ScalarNode then invalid (ctx @ '' must be a number'')
      else case ydFloat d node of
             Inl e \<Rightarrow> invalid (ctx @ '' must be a number ('' @ e @ '')'') | Inr n \<Rightarrow> Inr n)"

definition decodeBool :: "decoder \<Rightarrow> YNode \<Rightarrow> string \<Rightarrow> parse_err + bool" where
  "decodeBool d node ctx =
     (if nKind node \<noteq> ScalarNode then invalid (ctx @ '' must be a boolean'')
      else case ydBool d node of
             Inl e \<Rightarrow> invalid (ctx @ '' must be a boolean ('' @ e @ '')'') | Inr b \<Rightarrow> Inr b)"

fun scalarValues :: "string \<Rightarrow> YNode list \<Rightarrow> parse_err + string list" where
  "scalarValues ctx [] = Inr []"
| "scalarValues ctx (item # rest) =
     (if nKind item \<noteq> ScalarNode then invalid (ctx @ '' entries must be strings'')
      else bindR (scalarValues ctx rest) (\<lambda>vs. Inr (nValue item # vs)))"

definition decodeStringList :: "YNode \<Rightarrow> string \<Rightarrow> parse_err + string list" where
  "decodeStringList node ctx =
     (if nKind node \<noteq> SequenceNode then invalid (ctx @ '' must be a list of strings'')
      else scalarValues ctx (nContent node))"

fun checkAll :: "(string \<Rightarrow> bool) \<Rightarrow> (string \<Rightarrow> string) \<Rightarrow> string list \<Rightarrow> parse_err + string list" where
  "checkAll ok msg [] = Inr []"
| "checkAll ok msg (s # ss) =
     (if \<not> ok s then invalid (msg s) else bindR (checkAll ok msg ss) (\<lambda>vs. Inr (s # vs)))"

definition decodeCapabilityList :: "YNode \<Rightarrow> string \<Rightarrow> parse_err + Capability list" where
  "decodeCapabilityList node ctx =
     bindR (decodeStringList node ctx)
       (checkAll isValidCapability (\<lambda>s. ctx @ '' '' @ fmtQ s @ '' is not a recognised capability''))"

definition profileMsg :: "string \<Rightarrow> string \<Rightarrow> string" where
  "profileMsg ctx s = ctx @ '' '' @ fmtQ s @ '' must be cheap|balanced|premium''"

definition decodeProfileList :: "YNode \<Rightarrow> string \<Rightarrow> parse_err + ModelProfile list" where
  "decodeProfileList node ctx =
     bindR (decodeStringList node ctx) (checkAll isValidProfileOrFallback (profileMsg ctx))"

definition decodeProfile :: "YNode \<Rightarrow> string \<Rightarrow> parse_err + ModelProfile" where
  "decodeProfile node ctx =
     bindR (decodeString node ctx)
       (\<lambda>s. if \<not> isValidProfileOrFallback s then invalid (profileMsg ctx s) else Inr s)"

definition decodeRetention :: "YNode \<Rightarrow> string \<Rightarrow> parse_err + Retention" where
  "decodeRetention node ctx =
     bindR (decodeString node ctx)
       (\<lambda>s. if \<not> isValidRetention s then invalid (ctx @ '' '' @ fmtQ s @ '' must be standard|none'')
            else Inr s)"

definition checkVocab :: "string list option \<Rightarrow> string \<Rightarrow> string \<Rightarrow> parse_err option" where
  "checkVocab vocab ctx v =
     (case vocab of
        None \<Rightarrow> if TrimSpace v = []
                then Some (PErr (ErrInvalidPolicy (ctx @ '' must be a non-empty string''))) else None
      | Some vs \<Rightarrow> if v \<notin> set vs
                then Some (PErr (ErrInvalidPolicy (ctx @ '' '' @ fmtQ v @ '' not in allowed vocabulary'')))
                else None)"

fun enumValues :: "string list option \<Rightarrow> string \<Rightarrow> YNode list \<Rightarrow> parse_err + string list" where
  "enumValues vocab ctx [] = Inr []"
| "enumValues vocab ctx (item # rest) =
     (if nKind item \<noteq> ScalarNode then invalid (ctx @ ''.in entries must be strings'')
      else case checkVocab vocab ctx (nValue item) of
             Some e \<Rightarrow> Inl e
           | None \<Rightarrow> bindR (enumValues vocab ctx rest) (\<lambda>vs. Inr (nValue item # vs)))"

definition decodeEnumMatch :: "YNode \<Rightarrow> string list option \<Rightarrow> string \<Rightarrow> parse_err + EnumMatch" where
  "decodeEnumMatch node vocab ctx =
     (if nKind node = ScalarNode then
        (case checkVocab vocab ctx (nValue node) of Some e \<Rightarrow> Inl e | None \<Rightarrow> Inr [nValue node])
      else if nKind node \<noteq> MappingNode then invalid (ctx @ '' must be a string or {in: [...]}'')
      else (case nContent node of
              [key, lst] \<Rightarrow>
                if nValue key \<noteq> ''in'' then invalid (ctx @ '' mapping must have a single key '' @ [CHR 0x27] @ ''in'' @ [CHR 0x27])
                else if nKind lst \<noteq> SequenceNode \<or> length (nContent lst) = 0
                then invalid (ctx @ ''.in must be a non-empty list'')
                else enumValues vocab ctx (nContent lst)
            | _ \<Rightarrow> invalid (ctx @ '' mapping must have a single key '' @ [CHR 0x27] @ ''in'' @ [CHR 0x27])))"

section \<open>Conditions\<close>

definition whenField :: "decoder \<Rightarrow> string \<Rightarrow> When \<Rightarrow> string \<Rightarrow> YNode \<Rightarrow> parse_err + When" where
  "whenField d ctx out key val =
     (if key = ''task_type'' then
        bindR (decodeEnumMatch val (Some validTaskTypes) (ctx @ ''.when.task_type'')) (\<lambda>x. Inr (out\<lparr>wTaskType := Some x\<rparr>))
      else if key = ''risk_level'' then
        bindR (decodeEnumMatch val (Some validRiskLevels) (ctx @ ''.when.risk_level'')) (\<lambda>x. Inr (out\<lparr>wRiskLevel := Some x\<rparr>))
      else if key = ''tenant'' then
        bindR (decodeEnumMatch val None (ctx @ ''.when.tenant'')) (\<lambda>x. Inr (out\<lparr>wTenant := Some x\<rparr>))
      else if key = ''project'' then
        bindR (decodeEnumMatch val None (ctx @ ''.when.project'')) (\<lambda>x. Inr (out\<lparr>wProject := Some x\<rparr>))
      else if key = ''prompt_tokens_gt'' then
        bindR (decodeInt d val (ctx @ ''.when.prompt_tokens_gt'')) (\<lambda>x. Inr (out\<lparr>wPromptTokensGT := Some x\<rparr>))
      else if key = ''prompt_tokens_lt'' then
        bindR (decodeInt d val (ctx @ ''.when.prompt_tokens_lt'')) (\<lambda>x. Inr (out\<lparr>wPromptTokensLT := Some x\<rparr>))
      else if key = ''contains_any'' then
        bindR (decodeStringList val (ctx @ ''.when.contains_any'')) (\<lambda>x. Inr (out\<lparr>wContainsAny := x\<rparr>))
      else if key = ''any_file_matches'' then
        bindR (decodeStringList val (ctx @ ''.when.any_file_matches'')) (\<lambda>x. Inr (out\<lparr>wAnyFileMatches := x\<rparr>))
      else if key = ''requires_tool_use'' then
        bindR (decodeBool d val (ctx @ ''.when.requires_tool_use'')) (\<lambda>x. Inr (out\<lparr>wRequiresToolUse := Some x\<rparr>))
      else if key = ''requires_json_schema'' then
        bindR (decodeBool d val (ctx @ ''.when.requires_json_schema'')) (\<lambda>x. Inr (out\<lparr>wRequiresJSONSchema := Some x\<rparr>))
      else if key = ''requires_vision'' then
        bindR (decodeBool d val (ctx @ ''.when.requires_vision'')) (\<lambda>x. Inr (out\<lparr>wRequiresVision := Some x\<rparr>))
      else if key = ''sensitivity'' then
        bindR (decodeEnumMatch val (Some validSensitivities) (ctx @ ''.when.sensitivity'')) (\<lambda>x. Inr (out\<lparr>wSensitivity := Some x\<rparr>))
      else if key = ''router_mode'' then
        bindR (decodeEnumMatch val (Some routerModes) (ctx @ ''.when.router_mode'')) (\<lambda>x. Inr (out\<lparr>wRouterMode := Some x\<rparr>))
      else invalid (ctx @ ''.when has unknown field '' @ fmtQ key))"

definition parseWhen :: "decoder \<Rightarrow> YNode \<Rightarrow> string \<Rightarrow> parse_err + When" where
  "parseWhen d node ctx =
     (if nKind node \<noteq> MappingNode then invalid (ctx @ ''.when must be a mapping'')
      else if length (nContent node) = 0 then Inr (zeroWhen\<lparr>wEmpty := True\<rparr>)
      else eachField (whenField d ctx) (nContent node) zeroWhen)"

section \<open>Actions\<close>

definition blockField :: "decoder \<Rightarrow> string \<Rightarrow> Block \<Rightarrow> string \<Rightarrow> YNode \<Rightarrow> parse_err + Block" where
  "blockField d ctx out key val =
     (if key = ''code'' then
        bindR (decodeString val (ctx @ ''.code'')) (\<lambda>x. Inr (out\<lparr>bCode := x\<rparr>))
      else if key = ''reason'' then
        bindR (decodeString val (ctx @ ''.reason'')) (\<lambda>x. Inr (out\<lparr>bReason := x\<rparr>))
      else if key = ''status'' then
        bindR (decodeInt d val (ctx @ ''.status'')) (\<lambda>x. Inr (out\<lparr>bStatus := x\<rparr>))
      else invalid (ctx @ '' has unknown field '' @ fmtQ key))"

definition decodeBlock :: "decoder \<Rightarrow> YNode \<Rightarrow> string \<Rightarrow> parse_err + Block option" where
  "decodeBlock d node ctx =
     (if nKind node = ScalarNode then
        (if nTag node = ''!!bool'' \<and> nValue node = ''true'' then Inr (Some zeroBlock)
         else if nTag node = ''!!bool'' \<and> nValue node = ''false'' then Inr None
         else invalid (ctx @ '' must be true or a mapping''))
      else if nKind node \<noteq> MappingNode then invalid (ctx @ '' must be a mapping'')
      else bindR (eachField (blockField d ctx) (nContent node) zeroBlock) (\<lambda>b. Inr (Some b)))"

definition forceField :: "decoder \<Rightarrow> string \<Rightarrow> Force \<Rightarrow> string \<Rightarrow> YNode \<Rightarrow> parse_err + Force" where
  "forceField d ctx out key val =
     (if key = ''model_profile'' then
        bindR (decodeProfile val (ctx @ ''.model_profile'')) (\<lambda>x. Inr (out\<lparr>fModelProfile := x\<rparr>))
      else if key = ''model_profile_name'' then
        bindR (decodeString val (ctx @ ''.model_profile_name'')) (\<lambda>x. Inr (out\<lparr>fModelProfileName := x\<rparr>))
      else if key = ''provider'' then
        bindR (decodeString val (ctx @ ''.provider'')) (\<lambda>x. Inr (out\<lparr>fProvider := x\<rparr>))
      else if key = ''model'' then
        bindR (decodeString val (ctx @ ''.model'')) (\<lambda>x. Inr (out\<lparr>fModel := x\<rparr>))
      else if key = ''verifier'' then
        bindR (decodeBool d val (ctx @ ''.verifier'')) (\<lambda>x. Inr (out\<lparr>fVerifier := Some x\<rparr>))
      else if key = ''context_pipeline'' then
        bindR (decodeBool d val (ctx @ ''.context_pipeline'')) (\<lambda>x. Inr (out\<lparr>fContextPipeline := Some x\<rparr>))
      else if key = ''timeout_ms'' then
        bindR (decodeInt d val (ctx @ ''.timeout_ms'')) (\<lambda>x. Inr (out\<lparr>fTimeoutMS := Some x\<rparr>))
      else if key = ''retention'' then
        bindR (decodeRetention val (ctx @ ''.retention'')) (\<lambda>x. Inr (out\<lparr>fRetention := x\<rparr>))
      else invalid (ctx @ '' has unknown field '' @ fmtQ key))"

definition decodeForce :: "decoder \<Rightarrow> YNode \<Rightarrow> string \<Rightarrow> parse_err + Force" where
  "decodeForce d node ctx =
     (if nKind node \<noteq> MappingNode then invalid (ctx @ '' must be a mapping'')
      else eachField (forceField d ctx) (nContent node) zeroForce)"

definition constraintsField :: "decoder \<Rightarrow> string \<Rightarrow> Constraints \<Rightarrow> string \<Rightarrow> YNode \<Rightarrow> parse_err + Constraints" where
  "constraintsField d ctx out key val =
     (if key = ''allowed_providers'' then
        bindR (decodeStringList val (ctx @ ''.allowed_providers'')) (\<lambda>x. Inr (out\<lparr>cAllowedProviders := x\<rparr>))
      else if key = ''denied_providers'' then
        bindR (decodeStringList val (ctx @ ''.denied_providers'')) (\<lambda>x. Inr (out\<lparr>cDeniedProviders := x\<rparr>))
      else if key = ''allowed_models'' then
        bindR (decodeStringList val (ctx @ ''.allowed_models'')) (\<lambda>x. Inr (out\<lparr>cAllowedModels := x\<rparr>))
      else if key = ''denied_models'' then
        bindR (decodeStringList val (ctx @ ''.denied_models'')) (\<lambda>x. Inr (out\<lparr>cDeniedModels := x\<rparr>))
      else if key = ''require_capabilities'' then
        bindR (decodeCapabilityList val (ctx @ ''.require_capabilities'')) (\<lambda>x. Inr (out\<lparr>cRequireCapabilities := x\<rparr>))
      else if key = ''deny_capabilities'' then
        bindR (decodeCapabilityList val (ctx @ ''.deny_capabilities'')) (\<lambda>x. Inr (out\<lparr>cDenyCapabilities := x\<rparr>))
      else if key = ''max_cost_usd'' then
        bindR (decodeFloat d val (ctx @ ''.max_cost_usd'')) (\<lambda>x. Inr (out\<lparr>cMaxCostUSD := Some x\<rparr>))
      else if key = ''max_latency_ms'' then
        bindR (decodeInt d val (ctx @ ''.max_latency_ms'')) (\<lambda>x. Inr (out\<lparr>cMaxLatencyMS := Some x\<rparr>))
      else if key = ''retention'' then
        bindR (decodeRetention val (ctx @ ''.retention'')) (\<lambda>x. Inr (out\<lparr>cRetention := x\<rparr>))
      else if key = ''fallback_model_profiles'' then
        bindR (decodeProfileList val (ctx @ ''.fallback_model_profiles'')) (\<lambda>x. Inr (out\<lparr>cFallbackModelProfiles := cFallbackModelProfiles out @ x\<rparr>))
      else invalid (ctx @ '' has unknown field '' @ fmtQ key))"

definition decodeConstraints :: "decoder \<Rightarrow> YNode \<Rightarrow> string \<Rightarrow> parse_err + Constraints" where
  "decodeConstraints d node ctx =
     (if nKind node \<noteq> MappingNode then invalid (ctx @ '' must be a mapping'')
      else eachField (constraintsField d ctx) (nContent node) zeroConstraints)"

definition defaultsField :: "decoder \<Rightarrow> string \<Rightarrow> Defaults \<Rightarrow> string \<Rightarrow> YNode \<Rightarrow> parse_err + Defaults" where
  "defaultsField d ctx out key val =
     (if key = ''model_profile'' then
        bindR (decodeProfile val (ctx @ ''.model_profile'')) (\<lambda>x. Inr (out\<lparr>dModelProfile := x\<rparr>))
      else if key = ''model_profile_name'' then
        bindR (decodeString val (ctx @ ''.model_profile_name'')) (\<lambda>x. Inr (out\<lparr>dModelProfileName := x\<rparr>))
      else if key = ''provider'' then
        bindR (decodeString val (ctx @ ''.provider'')) (\<lambda>x. Inr (out\<lparr>dProvider := x\<rparr>))
      else if key = ''model'' then
        bindR (decodeString val (ctx @ ''.model'')) (\<lambda>x. Inr (out\<lparr>dModel := x\<rparr>))
      else if key = ''verifier'' then
        bindR (decodeBool d val (ctx @ ''.verifier'')) (\<lambda>x. Inr (out\<lparr>dVerifier := Some x\<rparr>))
      else if key = ''timeout_ms'' then
        bindR (decodeInt d val (ctx @ ''.timeout_ms'')) (\<lambda>x. Inr (out\<lparr>dTimeoutMS := Some x\<rparr>))
      else if key = ''retention'' then
        bindR (decodeRetention val (ctx @ ''.retention'')) (\<lambda>x. Inr (out\<lparr>dRetention := x\<rparr>))
      else if key = ''max_cost_usd'' then
        bindR (decodeFloat d val (ctx @ ''.max_cost_usd'')) (\<lambda>x. Inr (out\<lparr>dMaxCostUSD := Some x\<rparr>))
      else if key = ''max_latency_ms'' then
        bindR (decodeInt d val (ctx @ ''.max_latency_ms'')) (\<lambda>x. Inr (out\<lparr>dMaxLatencyMS := Some x\<rparr>))
      else invalid (ctx @ '' has unknown field '' @ fmtQ key))"

definition decodeDefaults :: "decoder \<Rightarrow> YNode \<Rightarrow> string \<Rightarrow> parse_err + Defaults" where
  "decodeDefaults d node ctx =
     (if nKind node \<noteq> MappingNode then invalid (ctx @ '' must be a mapping'')
      else eachField (defaultsField d ctx) (nContent node) zeroDefaults)"

definition routeField :: "decoder \<Rightarrow> string \<Rightarrow> Route \<Rightarrow> string \<Rightarrow> YNode \<Rightarrow> parse_err + Route" where
  "routeField d ctx out key val =
     (if key = ''block'' then
        bindR (decodeBlock d val (ctx @ ''.route.block'')) (\<lambda>x. Inr (out\<lparr>rtBlock := x\<rparr>))
      else if key = ''force'' then
        bindR (decodeForce d val (ctx @ ''.route.force'')) (\<lambda>x. Inr (out\<lparr>rtForce := Some x\<rparr>))
      else if key = ''constraints'' then
        bindR (decodeConstraints d val (ctx @ ''.route.constraints'')) (\<lambda>x. Inr (out\<lparr>rtConstraints := Some x\<rparr>))
      else if key = ''defaults'' then
        bindR (decodeDefaults d val (ctx @ ''.route.defaults'')) (\<lambda>x. Inr (out\<lparr>rtDefaults := Some x\<rparr>))
      else if key = ''reason'' then
        bindR (decodeString val (ctx @ ''.route.reason'')) (\<lambda>x. Inr (out\<lparr>rtReason := x\<rparr>))
      else if key = ''tier'' then
        bindR (decodeProfile val (ctx @ ''.route.tier'')) (\<lambda>x. Inr (out\<lparr>rtHints := (rtHints out)\<lparr>hTier := x\<rparr>\<rparr>))
      else if key = ''model'' then
        bindR (decodeString val (ctx @ ''.route.model'')) (\<lambda>x. Inr (out\<lparr>rtHints := (rtHints out)\<lparr>hModel := x\<rparr>\<rparr>))
      else if key = ''provider'' then
        bindR (decodeString val (ctx @ ''.route.provider'')) (\<lambda>x. Inr (out\<lparr>rtHints := (rtHints out)\<lparr>hProvider := x\<rparr>\<rparr>))
      else if key = ''fallback_tier'' then
        bindR (decodeProfile val (ctx @ ''.route.fallback_tier'')) (\<lambda>x. Inr (out\<lparr>rtHints := (rtHints out)\<lparr>hFallbackTier := x\<rparr>\<rparr>))
      else if key = ''fallback_models'' then
        bindR (decodeProfileList val (ctx @ ''.route.fallback_models'')) (\<lambda>x. Inr (out\<lparr>rtHints := (rtHints out)\<lparr>hFallbackModels := x\<rparr>\<rparr>))
      else if key = ''verifier'' then
        bindR (decodeBool d val (ctx @ ''.route.verifier'')) (\<lambda>x. Inr (out\<lparr>rtHints := (rtHints out)\<lparr>hVerifier := Some x\<rparr>\<rparr>))
      else if key = ''max_cost_usd'' then
        bindR (decodeFloat d val (ctx @ ''.route.max_cost_usd'')) (\<lambda>x. Inr (out\<lparr>rtHints := (rtHints out)\<lparr>hMaxCostUSD := Some x\<rparr>\<rparr>))
      else if key = ''timeout_ms'' then
        bindR (decodeInt d val (ctx @ ''.route.timeout_ms'')) (\<lambda>x. Inr (out\<lparr>rtHints := (rtHints out)\<lparr>hTimeoutMS := Some x\<rparr>\<rparr>))
      else if key = ''retention'' then
        bindR (decodeRetention val (ctx @ ''.route.retention'')) (\<lambda>x. Inr (out\<lparr>rtHints := (rtHints out)\<lparr>hRetention := x\<rparr>\<rparr>))
      else if key = ''require_capability'' then
        bindR (bindR (decodeString val (ctx @ ''.route.require_capability'')) (\<lambda>s. if \<not> isValidCapability s
        then invalid (ctx @ ''.route.require_capability '' @ fmtQ s @ '' is not a recognised capability'') else Inr s)) (\<lambda>x. Inr (out\<lparr>rtHints := (rtHints out)\<lparr>hRequireCapability := x\<rparr>\<rparr>))
      else invalid (ctx @ ''.route has unknown field '' @ fmtQ key))"

definition parseRoute :: "decoder \<Rightarrow> YNode \<Rightarrow> string \<Rightarrow> parse_err + Route" where
  "parseRoute d node ctx =
     (if nKind node \<noteq> MappingNode then invalid (ctx @ ''.route must be a mapping'')
      else eachField (routeField d ctx) (nContent node) zeroRoute)"

section \<open>The document\<close>

record rawMetadata =
  rmOwner :: string
  rmDescription :: string

record rawSettings =
  rsDefaultModelProfile :: string
  rsConservativeUnknowns :: "bool option"
  rsMaxRouterOverheadMS :: "int option"
  rsDefaultTimeoutMS :: "int option"
  rsDefaultRetention :: string

record rawRule =
  rrID :: string
  rrDescription :: string
  rrWhen :: YNode
  rrRoute :: YNode

record rawPolicy =
  rpVersion :: string
  rpMetadata :: "rawMetadata option"
  rpSettings :: "rawSettings option"
  rpRules :: "rawRule list"

definition toSettings :: "rawSettings \<Rightarrow> parse_err + Settings" where
  "toSettings s =
     (if rsDefaultModelProfile s \<notin> {ProfileCheap, ProfileBalanced, ProfilePremium} then
        (if rsDefaultModelProfile s = [] then invalid ''settings.default_model_profile is required''
         else invalid (''settings.default_model_profile '' @ fmtQ (rsDefaultModelProfile s) @
                '' not in [cheap balanced premium]''))
      else case rsConservativeUnknowns s of
        None \<Rightarrow> invalid ''settings.conservative_unknowns is required''
      | Some cu \<Rightarrow> (case rsMaxRouterOverheadMS s of
          None \<Rightarrow> invalid ''settings.max_router_overhead_ms must be > 0''
        | Some ov \<Rightarrow> if ov \<le> 0 then invalid ''settings.max_router_overhead_ms must be > 0''
          else (case rsDefaultTimeoutMS s of
            None \<Rightarrow> invalid ''settings.default_timeout_ms must be > 0''
          | Some tm \<Rightarrow> if tm \<le> 0 then invalid ''settings.default_timeout_ms must be > 0''
            else if rsDefaultRetention s \<notin> {RetentionStandard, RetentionNone} then
              (if rsDefaultRetention s = [] then invalid ''settings.default_retention is required''
               else invalid (''settings.default_retention '' @ fmtQ (rsDefaultRetention s) @
                      '' not in [standard none]''))
            else Inr \<lparr>sDefaultModelProfile = rsDefaultModelProfile s, sConservativeUnknowns = cu,
                     sMaxRouterOverheadMS = ov, sDefaultTimeoutMS = tm,
                     sDefaultRetention = rsDefaultRetention s\<rparr>)))"

definition toRule :: "decoder \<Rightarrow> rawRule \<Rightarrow> nat \<Rightarrow> parse_err + Rule" where
  "toRule d r index =
     (if TrimSpace (rrID r) = [] then invalid (''rule['' @ showNat index @ ''] missing id'')
      else let ctx = ''rule '' @ fmtQ (rrID r) in
        if nKind (rrWhen r) = NoNode then invalid (ctx @ '' missing when'')
        else if nKind (rrRoute r) = NoNode then invalid (ctx @ '' missing route'')
        else bindR (parseWhen d (rrWhen r) ctx) (\<lambda>w.
             bindR (parseRoute d (rrRoute r) ctx) (\<lambda>route.
               if \<not> HasAction route
               then invalid (ctx @ '' route must specify block, force, constraints, defaults or a hint'')
               else Inr \<lparr>ruID = rrID r, ruDescription = rrDescription r, ruWhen = w, ruRoute = route\<rparr>)))"

text \<open>The loop of \<open>toPolicy\<close>: rules parsed so far, whose identifiers are the set \<open>seen\<close>.\<close>

fun toRules :: "decoder \<Rightarrow> nat \<Rightarrow> rawRule list \<Rightarrow> Rule list \<Rightarrow> parse_err + Rule list" where
  "toRules d i [] acc = Inr acc"
| "toRules d i (raw # rest) acc =
     bindR (toRule d raw i) (\<lambda>rule.
       if ruID rule \<in> ruID ` set acc then invalid (''duplicate rule id '' @ fmtQ (ruID rule))
       else toRules d (Suc i) rest (acc @ [rule]))"

definition toPolicy :: "decoder \<Rightarrow> rawPolicy \<Rightarrow> parse_err + Policy" where
  "toPolicy d r =
     (if TrimSpace (rpVersion r) = [] then invalid ''missing version''
      else case rpSettings r of
        None \<Rightarrow> invalid ''missing settings''
      | Some s \<Rightarrow> bindR (toSettings s) (\<lambda>settings.
          if length (rpRules r) = 0 then invalid ''at least one rule is required''
          else bindR (toRules d 0 (rpRules r) []) (\<lambda>rules.
            Inr \<lparr>polVersion = rpVersion r,
                 polMetadata = (case rpMetadata r of
                    None \<Rightarrow> \<lparr>mdOwner = [], mdDescription = []\<rparr>
                  | Some m \<Rightarrow> \<lparr>mdOwner = rmOwner m, mdDescription = rmDescription m\<rparr>),
                 polSettings = settings, polRules = rules\<rparr>)))"

text \<open>\<open>unmarshal\<close> is \<open>yaml.Unmarshal\<close> into the raw structs.\<close>

definition Parse :: "(string \<Rightarrow> string + rawPolicy) \<Rightarrow> decoder \<Rightarrow> string \<Rightarrow> parse_err + Policy" where
  "Parse unmarshal d data =
     (if length data = 0 then invalid ''empty document''
      else case unmarshal data of
             Inl e \<Rightarrow> invalid (''yaml: '' @ e)
           | Inr raw \<Rightarrow> toPolicy d raw)"

end
