(* ===== verification/Defaults.thy ===== *)
theory Defaults
  imports EngineLaws PolicyCache PolicyParser
begin

text \<open>
  The built-in data: the registries of \<open>internal/registry/defaults.go\<close> and \<open>openrouter.go\<close>, and
  the runtime policy of \<open>internal/policy/runtime.go\<close> with the cache built from it. Creation
  times are nanoseconds since Go's zero time. They are the concrete inputs of the witnesses.
\<close>

section \<open>The default registry\<close>

definition cheapGeneral :: Model where
  "cheapGeneral =
     \<lparr>mID = ''cheap-general'', mProviderID = ''openai'', mProviderModelID = ''gpt-4.1-mini'', mTier = TierCheap,
      mCapabilities = \<lparr>Chat = True, Streaming = True, ToolCalls = True, JSONSchema = True, Vision = False, LongContext = False\<rparr>,
      mCost = \<lparr>Currency = ''USD'', InputMicrosPerMillionToken = 400000, OutputMicrosPerMillionToken = 1600000\<rparr>,
      mContextWindowTokens = 128000, mEnabled = True,
      mLatency = \<lparr>P50FirstTokenMS = 450, P95FirstTokenMS = 1200\<rparr>,
      mQualityScores = [(''simple_code_edit'', 72 / 100), (''summarization'', 78 / 100)],
      mStrengths = [''summarization'', ''simple_edits'', ''json''], mWeaknesses = [''hard_reasoning'']\<rparr>"

definition balancedCoder :: Model where
  "balancedCoder =
     \<lparr>mID = ''balanced-coder'', mProviderID = ''openai'', mProviderModelID = ''gpt-4.1'', mTier = TierBalanced,
      mCapabilities = \<lparr>Chat = True, Streaming = True, ToolCalls = True, JSONSchema = True, Vision = False, LongContext = True\<rparr>,
      mCost = \<lparr>Currency = ''USD'', InputMicrosPerMillionToken = 2000000, OutputMicrosPerMillionToken = 8000000\<rparr>,
      mContextWindowTokens = 1000000, mEnabled = True,
      mLatency = \<lparr>P50FirstTokenMS = 700, P95FirstTokenMS = 1800\<rparr>,
      mQualityScores = [(''simple_code_edit'', 84 / 100), (''hard_code_debugging'', 68 / 100)],
      mStrengths = [''code'', ''tool_use'', ''long_context''], mWeaknesses = []\<rparr>"

definition premiumReasoning :: Model where
  "premiumReasoning =
     \<lparr>mID = ''premium-reasoning'', mProviderID = ''anthropic'', mProviderModelID = ''claude-sonnet-4'', mTier = TierPremium,
      mCapabilities = \<lparr>Chat = True, Streaming = True, ToolCalls = True, JSONSchema = True, Vision = False, LongContext = False\<rparr>,
      mCost = \<lparr>Currency = ''USD'', InputMicrosPerMillionToken = 3000000, OutputMicrosPerMillionToken = 15000000\<rparr>,
      mContextWindowTokens = 200000, mEnabled = True,
      mLatency = \<lparr>P50FirstTokenMS = 850, P95FirstTokenMS = 2200\<rparr>,
      mQualityScores = [(''hard_reasoning'', 88 / 100), (''security_review'', 82 / 100)],
      mStrengths = [''reasoning'', ''security_review'', ''analysis''], mWeaknesses = []\<rparr>"

definition DefaultDefinition :: Definition where
  "DefaultDefinition =
     \<lparr>RegistryVersion = ''registry-mvp-2026-05-19'', CreatedAt = 63914745600000000000,
      Providers =
        [\<lparr>pID = ''openai'', pName = ''OpenAI'', pStatus = ProviderStatusActive,
          pBaseURL = ''https://api.openai.com/v1'', pAuthSecretRef = ''OPENAI_API_KEY''\<rparr>,
         \<lparr>pID = ''anthropic'', pName = ''Anthropic'', pStatus = ProviderStatusActive,
          pBaseURL = ''https://api.anthropic.com'', pAuthSecretRef = ''ANTHROPIC_API_KEY''\<rparr>],
      Models = [cheapGeneral, balancedCoder, premiumReasoning]\<rparr>"

definition DefaultSnapshot :: "gotime \<Rightarrow> registry_error + Snapshot" where
  "DefaultSnapshot now = NewSnapshot now DefaultDefinition"

section \<open>The OpenRouter registry\<close>

definition orCheapGeneral :: Model where
  "orCheapGeneral =
     \<lparr>mID = ''cheap-general'', mProviderID = ''openrouter'', mProviderModelID = ''openai/gpt-4o-mini'', mTier = TierCheap,
      mCapabilities = \<lparr>Chat = True, Streaming = True, ToolCalls = True, JSONSchema = True, Vision = True, LongContext = False\<rparr>,
      mCost = \<lparr>Currency = ''USD'', InputMicrosPerMillionToken = 150000, OutputMicrosPerMillionToken = 600000\<rparr>,
      mContextWindowTokens = 128000, mEnabled = True,
      mLatency = \<lparr>P50FirstTokenMS = 450, P95FirstTokenMS = 1200\<rparr>,
      mQualityScores = [(''simple_code_edit'', 72 / 100), (''summarization'', 78 / 100)],
      mStrengths = [''summarization'', ''simple_edits'', ''json''], mWeaknesses = [''hard_reasoning'']\<rparr>"

definition orBalancedCoder :: Model where
  "orBalancedCoder =
     \<lparr>mID = ''balanced-coder'', mProviderID = ''openrouter'', mProviderModelID = ''openai/gpt-4o'', mTier = TierBalanced,
      mCapabilities = \<lparr>Chat = True, Streaming = True, ToolCalls = True, JSONSchema = True, Vision = True, LongContext = True\<rparr>,
      mCost = \<lparr>Currency = ''USD'', InputMicrosPerMillionToken = 2500000, OutputMicrosPerMillionToken = 10000000\<rparr>,
      mContextWindowTokens = 128000, mEnabled = True,
      mLatency = \<lparr>P50FirstTokenMS = 700, P95FirstTokenMS = 1800\<rparr>,
      mQualityScores = [(''simple_code_edit'', 84 / 100), (''hard_code_debugging'', 68 / 100)],
      mStrengths = [''code'', ''tool_use'', ''long_context''], mWeaknesses = []\<rparr>"

definition orPremiumReasoning :: Model where
  "orPremiumReasoning =
     \<lparr>mID = ''premium-reasoning'', mProviderID = ''openrouter'', mProviderModelID = ''anthropic/claude-sonnet-4.5'', mTier = TierPremium,
      mCapabilities = \<lparr>Chat = True, Streaming = True, ToolCalls = True, JSONSchema = True, Vision = True, LongContext = True\<rparr>,
      mCost = \<lparr>Currency = ''USD'', InputMicrosPerMillionToken = 3000000, OutputMicrosPerMillionToken = 15000000\<rparr>,
      mContextWindowTokens = 1000000, mEnabled = True,
      mLatency = \<lparr>P50FirstTokenMS = 850, P95FirstTokenMS = 2200\<rparr>,
      mQualityScores = [(''hard_reasoning'', 88 / 100), (''security_review'', 82 / 100)],
      mStrengths = [''reasoning'', ''security_review'', ''analysis''], mWeaknesses = []\<rparr>"

definition OpenRouterDefinition :: Definition where
  "OpenRouterDefinition =
     \<lparr>RegistryVersion = ''registry-openrouter-2026-06-14'', CreatedAt = 63916992000000000000,
      Providers =
        [\<lparr>pID = ''openrouter'', pName = ''OpenRouter'', pStatus = ProviderStatusActive,
          pBaseURL = ''https://openrouter.ai/api/v1'', pAuthSecretRef = ''OPENROUTER_API_KEY''\<rparr>],
      Models = [orCheapGeneral, orBalancedCoder, orPremiumReasoning]\<rparr>"

definition OpenRouterSnapshot :: "gotime \<Rightarrow> registry_error + Snapshot" where
  "OpenRouterSnapshot now = NewSnapshot now OpenRouterDefinition"

section \<open>The runtime policy\<close>

text \<open>
  The built-in document, as the raw structs and nodes that its YAML text decodes to.
\<close>

definition scalarNode :: "string \<Rightarrow> YNode" where
  "scalarNode s = YNode ScalarNode ''!!str'' s []"

definition mappingNode :: "(string \<times> YNode) list \<Rightarrow> YNode" where
  "mappingNode kvs = YNode MappingNode ''!!map'' [] (concat (map (\<lambda>(k, v). [scalarNode k, v]) kvs))"

definition defaultRuntimeRaw :: rawPolicy where
  "defaultRuntimeRaw =
     \<lparr>rpVersion = ''pv_runtime_2026_06_12'',
      rpMetadata = Some \<lparr>rmOwner = ''platform'', rmDescription = ''Built-in runtime policy''\<rparr>,
      rpSettings = Some \<lparr>rsDefaultModelProfile = ''balanced'', rsConservativeUnknowns = Some True,
         rsMaxRouterOverheadMS = Some 100, rsDefaultTimeoutMS = Some 30000,
         rsDefaultRetention = ''standard''\<rparr>,
      rpRules = [\<lparr>rrID = ''block_disabled'', rrDescription = [],
         rrWhen = mappingNode [(''router_mode'', scalarNode ''disabled'')],
         rrRoute = mappingNode [(''block'', mappingNode
            [(''code'', scalarNode ''router_disabled''), (''reason'', scalarNode ''disabled'')])]\<rparr>]\<rparr>"

datatype runtime_err = ReadFailed string | ParseFailed parse_err | CompileFailed policy_err

text \<open>
  \<open>readPolicy\<close> is \<open>os.ReadFile\<close>, \<open>builtin\<close> the text of the built-in document and \<open>unmarshal\<close>
  the YAML library.
\<close>

definition NewRuntimeCache :: "(string \<Rightarrow> string + string) \<Rightarrow> string \<Rightarrow> (string \<Rightarrow> string + rawPolicy) \<Rightarrow> decoder
    \<Rightarrow> Snapshot option \<Rightarrow> string \<Rightarrow> runtime_err + Cache" where
  "NewRuntimeCache readPolicy builtin unmarshal d snapshot path =
     (case (if path = [] then Inr builtin else readPolicy path) of
        Inl e \<Rightarrow> Inl (ReadFailed (''policy: read runtime policy '' @ fmtQ path @ '': '' @ e))
      | Inr data \<Rightarrow>
          (case Parse unmarshal d data of
             Inl e \<Rightarrow> Inl (ParseFailed e)
           | Inr parsed \<Rightarrow>
               (case NewCache [\<lparr>srcScope = \<lparr>scTenantID = [], scProjectID = []\<rparr>,
                               srcPolicy = Some parsed, srcRegistry = snapshot\<rparr>] of
                  Inl e \<Rightarrow> Inl (CompileFailed e)
                | Inr cache \<Rightarrow> Inr cache)))"

definition NewDefaultRuntimeCache :: "(string \<Rightarrow> string + string) \<Rightarrow> string \<Rightarrow> (string \<Rightarrow> string + rawPolicy) \<Rightarrow> decoder
    \<Rightarrow> Snapshot option \<Rightarrow> runtime_err + Cache" where
  "NewDefaultRuntimeCache readPolicy builtin unmarshal d snapshot =
     NewRuntimeCache readPolicy builtin unmarshal d snapshot []"

section \<open>Evaluated\<close>

lemma DefaultDefinition_valid: "valid_definition DefaultDefinition"
  by code_simp

lemma OpenRouterDefinition_valid: "valid_definition OpenRouterDefinition"
  by code_simp

text \<open>The default registry's snapshot, an engine over it, and the policy that the document compiles to.\<close>

definition defaultSnap :: Snapshot where
  "defaultSnap = (case DefaultSnapshot 0 of Inr s \<Rightarrow> s | Inl e \<Rightarrow> emptySnapshot [] 0 [])"

definition defaultEngine :: Engine where
  "defaultEngine = NewEngine (Some \<lparr>storeActive = Some defaultSnap\<rparr>)"

lemma DefaultSnapshot_ok: "DefaultSnapshot 0 = Inr defaultSnap"
  using NewSnapshot_accepts_iff [of 0 DefaultDefinition] DefaultDefinition_valid
  by (auto simp: defaultSnap_def DefaultSnapshot_def)

lemma defaultSnap_inv: "snapshot_inv defaultSnap"
  using DefaultSnapshot_ok NewSnapshot_inv by (auto simp: DefaultSnapshot_def)

lemma defaultEngine_store: "storeGet (enRegistry defaultEngine) = Inr defaultSnap"
  by (simp add: defaultEngine_def NewEngine_def storeGet_def)

end
