(* ===== verification/EngineProps.thy ===== *)
theory EngineProps
  imports Defaults
begin

text \<open>
  The properties of the routing decision, each with a witness on the built-in registry.
\<close>

section \<open>Helpers\<close>

lemma decideRouted_total:
  "frCandidates (FilterCandidates job (evRoute ev) snap (Some health) streaming) \<noteq> [] \<longleftrightarrow>
   (\<exists>dec. decideRouted srt e job pol ev snap health streaming = (dec, None))"
  by (auto simp: decideRouted_def Let_def)

definition chatJob :: JobDescriptor where
  "chatJob = (baseJob ''r1'')\<lparr>jTaskType := TaskSimpleChat, jRiskLevel := RiskHigh, jPromptTokensEstimate := 10\<rparr>"

definition noPolicy :: Route where
  "noPolicy = zeroRoute"

lemma chatJob_routed: "routed defaultEngine chatJob None"
  by (simp add: routed_def chatJob_def baseJob_def evaluatePolicy_def zeroEvaluation_def zeroRoute_def)

lemma chatJob_marked: "chatJob\<lparr>jConservative := conservativeForJob defaultEngine chatJob\<rparr> = chatJob"
  by (simp add: chatJob_def baseJob_def conservativeForJob_def defaultEngine_def NewEngine_def)

lemma chatJob_candidates:
  "map mID (frCandidates (FilterCandidates chatJob zeroRoute (Some defaultSnap) (Some FullyHealthy) False)) =
   [''balanced-coder'', ''premium-reasoning'']"
  by code_simp

lemma map_hd_mem: "map f xs = y # ys \<Longrightarrow> \<exists>x. x \<in> set xs \<and> f x = y"
  by (cases xs) auto

lemma chatJob_decided:
  "\<exists>dec. snd (Decide insertion_sort defaultEngine chatJob None None False) = (dec, None)"
proof -
  let ?ev = "evaluatePolicy None chatJob"
  have ev: "evRoute ?ev = zeroRoute" "\<not> evBlocked ?ev"
    by (simp_all add: evaluatePolicy_def zeroEvaluation_def)
  have "frCandidates (FilterCandidates chatJob (evRoute ?ev) (Some defaultSnap) (Some FullyHealthy) False) \<noteq> []"
    using chatJob_candidates by (auto simp: ev)
  then obtain dec where
    "decideRouted insertion_sort defaultEngine chatJob None ?ev (Some defaultSnap) FullyHealthy False = (dec, None)"
    using decideRouted_total [of chatJob ?ev "Some defaultSnap" FullyHealthy False insertion_sort
        defaultEngine None] by blast
  with Decide_routed_eq [OF chatJob_routed defaultEngine_store ev(2), of insertion_sort None False]
  have "snd (Decide insertion_sort defaultEngine chatJob None None False) = (dec, None)"
    by (simp add: chatJob_marked healthOr_def)
  then show ?thesis by blast
qed

section \<open>Properties\<close>

text \<open>
  C7: the model that \<open>Decide\<close> selects for a request that is not pinned is a registered model
  whose provider is active, that is enabled, has every capability the request and the policy
  require, and meets every hard requirement: tier, health, allow and deny lists, latency, denied
  capabilities and forced fields. The decision names that model, its provider and its provider
  model identifier.
\<close>

theorem Decide_selects_routable:
  assumes "slice_sorter srt" and "storeGet (enRegistry e) = Inr sn" and "snapshot_inv sn"
    and "routed e job pol" and "snd (Decide srt e job pol health streaming) = (dec, None)"
  shows "\<exists>m. routable sn (job\<lparr>jConservative := conservativeForJob e job\<rparr>)
      (evRoute (evaluatePolicy pol job)) (healthOr health) streaming m \<and>
    rdSelectedModel dec = mID m \<and> rdSelectedProvider dec = mProviderID m \<and>
    rdProviderModelID dec = mProviderModelID m"
  by (rule decideRouted_selected [OF assms(1,3) Decide_routed [OF assms(4,2,5)]])

lemma Decide_selects_routable_witness:
  "\<exists>dec m. snd (Decide insertion_sort defaultEngine chatJob None None False) = (dec, None) \<and>
    rdSelectedModel dec = mID m \<and> mget (models defaultSnap) (mID m) = Some m \<and>
    TierAtLeast (mTier m) TierBalanced"
proof -
  from chatJob_decided obtain dec
    where d: "snd (Decide insertion_sort defaultEngine chatJob None None False) = (dec, None)" by blast
  from Decide_selects_routable [OF insertion.slice_sorter_axioms defaultEngine_store defaultSnap_inv
      chatJob_routed d]
  obtain m where m: "routable defaultSnap chatJob zeroRoute (healthOr None) False m" "rdSelectedModel dec = mID m"
    unfolding chatJob_marked by (auto simp: evaluatePolicy_def zeroEvaluation_def)
  moreover have "MinimumTierForTask chatJob zeroRoute = TierBalanced" by code_simp
  ultimately show ?thesis
    using d by (auto simp: routable_def admissible_def)
qed

text \<open>
  C8: the selected model has the highest score among the candidates that pass the filter.
\<close>

theorem Decide_selects_best:
  assumes "slice_sorter srt" and "storeGet (enRegistry e) = Inr sn" and "snapshot_inv sn"
    and "routed e job pol" and "snd (Decide srt e job pol health streaming) = (dec, None)"
    and "job' = job\<lparr>jConservative := conservativeForJob e job\<rparr>"
    and "ms = frCandidates (FilterCandidates job' (evRoute (evaluatePolicy pol job)) (Some sn)
          (Some (healthOr health)) streaming)"
    and "mget (models sn) (rdSelectedModel dec) = Some p" and "m \<in> set ms"
  shows "candidateScore e job' (evRoute (evaluatePolicy pol job)) (healthOr health) ms m \<le>
    candidateScore e job' (evRoute (evaluatePolicy pol job)) (healthOr health) ms p"
  using decideRouted_best [OF assms(1,3) Decide_routed [OF assms(4,2,5)] _ assms(8)] assms(6,7,9)
  by simp

lemma Decide_selects_best_witness:
  "\<exists>dec p m. snd (Decide insertion_sort defaultEngine chatJob None None False) = (dec, None) \<and>
    mget (models defaultSnap) (rdSelectedModel dec) = Some p \<and> mID m = ''balanced-coder'' \<and>
    candidateScore defaultEngine chatJob zeroRoute FullyHealthy
      (frCandidates (FilterCandidates chatJob zeroRoute (Some defaultSnap) (Some FullyHealthy) False)) m \<le>
    candidateScore defaultEngine chatJob zeroRoute FullyHealthy
      (frCandidates (FilterCandidates chatJob zeroRoute (Some defaultSnap) (Some FullyHealthy) False)) p"
proof -
  let ?ms = "frCandidates (FilterCandidates chatJob zeroRoute (Some defaultSnap) (Some FullyHealthy) False)"
  have ev: "evRoute (evaluatePolicy None chatJob) = zeroRoute"
    by (simp add: evaluatePolicy_def zeroEvaluation_def)
  from map_hd_mem [OF chatJob_candidates] obtain m where m: "m \<in> set ?ms" "mID m = ''balanced-coder''"
    by blast
  from chatJob_decided obtain dec
    where d: "snd (Decide insertion_sort defaultEngine chatJob None None False) = (dec, None)" by blast
  from decideRouted_selected [OF insertion.slice_sorter_axioms defaultSnap_inv
      Decide_routed [OF chatJob_routed defaultEngine_store d]]
  obtain p where p: "mget (models defaultSnap) (rdSelectedModel dec) = Some p"
    by (auto simp: routable_def)
  have h: "healthOr None = FullyHealthy" by (simp add: healthOr_def)
  have ms: "?ms = frCandidates (FilterCandidates chatJob (evRoute (evaluatePolicy None chatJob))
      (Some defaultSnap) (Some (healthOr None)) False)"
    by (simp only: ev h)
  from Decide_selects_best [OF insertion.slice_sorter_axioms defaultEngine_store defaultSnap_inv
      chatJob_routed d chatJob_marked [symmetric] ms p m(1)]
  have "candidateScore defaultEngine chatJob zeroRoute FullyHealthy ?ms m \<le>
      candidateScore defaultEngine chatJob zeroRoute FullyHealthy ?ms p"
    unfolding ev h .
  with d p m(2) show ?thesis by blast
qed

text \<open>
  C9: the fallback chain has at most two entries, never repeats a model and never contains the
  primary; each entry is itself a model that may serve the request, respects the fallback
  profiles of the policy and, for high and critical risk, is of at least the primary's tier.
\<close>

theorem Decide_fallback_chain:
  assumes "slice_sorter srt" and "storeGet (enRegistry e) = Inr sn" and "snapshot_inv sn"
    and "routed e job pol" and "snd (Decide srt e job pol health streaming) = (dec, None)"
    and "job' = job\<lparr>jConservative := conservativeForJob e job\<rparr>"
    and "route = evRoute (evaluatePolicy pol job)"
  shows "length (rdFallbacks dec) \<le> 2 \<and>
    distinct (rdSelectedModel dec # map feModelID (rdFallbacks dec)) \<and>
    (\<exists>p. mget (models sn) (rdSelectedModel dec) = Some p \<and>
      (\<forall>fe \<in> set (rdFallbacks dec). \<exists>m. fe = fallbackEntry m \<and>
        routable sn job' route (healthOr health) streaming m \<and> validFallback p m job' route \<and>
        (jRiskLevel job \<in> {RiskHigh, RiskCritical} \<longrightarrow> TierAtLeast (mTier m) (mTier p))))"
  using decideRouted_fallbacks [OF assms(1,3) Decide_routed [OF assms(4,2,5)]]
    validFallback_tier [of _ _ job' route] assms(6,7)
  by auto blast

lemma Decide_fallback_chain_witness:
  "\<exists>dec. snd (Decide insertion_sort defaultEngine chatJob None None False) = (dec, None) \<and>
    distinct (rdSelectedModel dec # map feModelID (rdFallbacks dec))"
proof -
  from chatJob_decided obtain dec
    where d: "snd (Decide insertion_sort defaultEngine chatJob None None False) = (dec, None)" by blast
  from Decide_fallback_chain [OF insertion.slice_sorter_axioms defaultEngine_store defaultSnap_inv
      chatJob_routed d refl refl] d
  show ?thesis by blast
qed

text \<open>
  C10: whatever path the request takes (scored, pinned by the client, pinned by the policy), a
  decision outside disabled routing names a registered model that the policy's allow and deny
  lists admit: no override bypasses them.
\<close>

theorem Decide_respects_lists:
  assumes "slice_sorter srt" and "storeGet (enRegistry e) = Inr sn" and "snapshot_inv sn"
    and "jRouterMode job \<noteq> RouterModeDisabled"
    and "snd (Decide srt e job pol health streaming) = (dec, None)"
  shows "\<exists>m. mget (models sn) (rdSelectedModel dec) = Some m \<and> rdSelectedProvider dec = mProviderID m \<and>
    rdProviderModelID dec = mProviderModelID m \<and>
    lists_admit (rtConstraints (evRoute (evaluatePolicy pol job))) m"
  by (rule Decide_keeps_lists [OF assms])

text \<open>A policy with one unconditional rule.\<close>

definition oneRule :: "Route \<Rightarrow> CompiledPolicy" where
  "oneRule r = \<lparr>cpVersion = ''v1'', cpRegistryVersion = ''registry-mvp-2026-05-19'', cpSettings = zeroSettings,
     cpRules = [\<lparr>crID = ''r'', crDescription = [],
       crMatcher = \<lparr>cmEmpty = True, cmTaskTypes = [], cmRiskLevels = [], cmTenants = [], cmProjects = [],
          cmPromptTokensGT = None, cmPromptTokensLT = None, cmContainsAny = [], cmFilePatterns = [],
          cmRequiresToolUse = None, cmRequiresJSONSchema = None, cmRequiresVision = None,
          cmSensitivities = [], cmRouterModes = []\<rparr>, crRoute = r\<rparr>]\<rparr>"

definition denyOpenAI :: CompiledPolicy where
  "denyOpenAI = oneRule (zeroRoute\<lparr>rtConstraints := Some (zeroConstraints\<lparr>cDeniedProviders := [''openai'']\<rparr>)\<rparr>)"

lemma Decide_respects_lists_witness:
  "\<exists>dec m. snd (Decide insertion_sort defaultEngine (chatJob\<lparr>jExplicitModel := Some ''claude-sonnet-4''\<rparr>)
      (Some denyOpenAI) None False) = (dec, None) \<and>
    mget (models defaultSnap) (rdSelectedModel dec) = Some m \<and> mProviderID m \<noteq> ''openai''"
proof -
  let ?job = "chatJob\<lparr>jExplicitModel := Some ''claude-sonnet-4''\<rparr>"
  let ?o = "snd (Decide insertion_sort defaultEngine ?job (Some denyOpenAI) None False)"
  have "snd ?o = None" by code_simp
  then have d: "?o = (fst ?o, None)" by (metis prod.collapse)
  have "jRouterMode ?job \<noteq> RouterModeDisabled" by (simp add: chatJob_def baseJob_def)
  moreover have "map_option cDeniedProviders (rtConstraints (evRoute (evaluatePolicy (Some denyOpenAI) ?job))) =
      Some [''openai'']" by code_simp
  ultimately show ?thesis
    using Decide_respects_lists [OF insertion.slice_sorter_axioms defaultEngine_store defaultSnap_inv _ d] d
    by (auto simp: lists_admit_def)
qed

text \<open>
  a request that is not in disabled mode and matches a blocking rule is rejected with
  \<open>ErrBlocked\<close>: no model is selected, whatever model the client or the policy pins.
\<close>

theorem Decide_blocks:
  assumes "storeGet (enRegistry e) = Inr sn" and "jRouterMode job \<noteq> RouterModeDisabled"
    and "r \<in> set (cpRules p)" and "matcherMatches (crMatcher r) (evaluationInput job)"
    and "rtBlock (crRoute r) \<noteq> None"
  shows "snd (snd (Decide srt e job (Some p) health streaming)) = Some ErrBlocked \<and>
    rdSelectedModel (fst (snd (Decide srt e job (Some p) health streaming))) = [] \<and>
    rdBlocked (fst (snd (Decide srt e job (Some p) health streaming)))"
proof (rule Decide_blocked [OF assms(1,2)])
  show "evBlocked (evaluatePolicy (Some p) job)"
    using assms(3-5) by (auto simp: evaluatePolicy_def Evaluate_blocked blocks_def)
qed

definition blockAll :: CompiledPolicy where
  "blockAll = oneRule (zeroRoute\<lparr>rtBlock := Some zeroBlock\<rparr>)"

lemma Decide_blocks_witness:
  "snd (snd (Decide insertion_sort defaultEngine (chatJob\<lparr>jExplicitModel := Some ''gpt-4.1''\<rparr>)
     (Some blockAll) None False)) = Some ErrBlocked"
  using Decide_blocks [OF defaultEngine_store, of "chatJob\<lparr>jExplicitModel := Some ''gpt-4.1''\<rparr>"
      "hd (cpRules blockAll)" blockAll insertion_sort None False]
  by (simp add: chatJob_def baseJob_def blockAll_def oneRule_def matcherMatches_def)



text \<open>\<open>Decide\<close> never dereferences a nil block: a blocked evaluation always carries one.\<close>

theorem Decide_no_nil_dereference: "snd (snd (Decide srt e job pol health streaming)) \<noteq> Some NilPanic"
  by (rule Decide_no_panic_aux)

text \<open>
  conservative mode never lowers the minimum tier of a request, and raises it to at least
  the balanced tier.
\<close>

theorem conservative_never_lowers:
  "TierOrdinal (MinimumTierForTask (job\<lparr>jConservative := False\<rparr>) route) \<le>
   TierOrdinal (MinimumTierForTask (job\<lparr>jConservative := True\<rparr>) route) \<and>
   TierAtLeast (MinimumTierForTask (job\<lparr>jConservative := True\<rparr>) route) TierBalanced"
  by (rule MinimumTier_conservative)

text \<open>
  two decisions compare as unchanged when they are equal, and whether they are reported as
  changed does not depend on their order.
\<close>

theorem CompareDecisions_symmetric:
  "\<not> dcChanged (CompareDecisions a a) \<and> dcChanged (CompareDecisions a b) = dcChanged (CompareDecisions b a)"
  using CompareDecisions_self CompareDecisions_sym by simp

section \<open>What the code does not enforce\<close>

text \<open>
  in disabled mode a model of a denied provider is used when the client names it by its
  provider model identifier, although the registry knows which provider serves it: the policy
  denies \<open>openai\<close>, the registry lists \<open>gpt-4.1\<close> as a model of \<open>openai\<close>, and the decision selects
  \<open>gpt-4.1\<close>. Under automatic routing the same reference is blocked.
\<close>

theorem disabled_mode_bypasses_denylist:
  "let job = chatJob\<lparr>jExplicitModel := Some ''gpt-4.1''\<rparr>;
       decide = (\<lambda>mode. snd (Decide insertion_sort defaultEngine (job\<lparr>jRouterMode := mode\<rparr>) (Some denyOpenAI) None False))
   in map_option mProviderID (ModelByProviderModelID (Some defaultSnap) ''openai'' ''gpt-4.1'') = Some ''openai'' \<and>
      snd (decide RouterModeDisabled) = None \<and>
      rdProviderModelID (fst (decide RouterModeDisabled)) = ''gpt-4.1'' \<and>
      snd (decide RouterModeAuto) = Some ErrBlocked"
  by code_simp

definition noDecoder :: decoder where
  "noDecoder = \<lparr>ydInt = (\<lambda>n. Inl []), ydFloat = (\<lambda>n. Inl []), ydBool = (\<lambda>n. Inl [])\<rparr>"

definition runtimePolicy :: "CompiledPolicy option" where
  "runtimePolicy =
     (case NewDefaultRuntimeCache (\<lambda>p. Inl []) ''builtin'' (\<lambda>t. Inr defaultRuntimeRaw) noDecoder (Some defaultSnap) of
        Inl e \<Rightarrow> None
      | Inr c \<Rightarrow> Active (Some c) \<lparr>scTenantID = ''t'', scProjectID = ''p''\<rparr>)"

text \<open>
  disabled mode ignores blocking rules: for the built-in runtime policy, whose only rule
  blocks disabled routing, the evaluation of a disabled request is blocked and yet \<open>Decide\<close>
  returns the client's model without an error.
\<close>

theorem disabled_mode_ignores_block:
  "let job = chatJob\<lparr>jExplicitModel := Some ''gpt-4.1'', jRouterMode := RouterModeDisabled\<rparr>;
       dec = snd (Decide insertion_sort defaultEngine job runtimePolicy None False)
   in evBlocked (evaluatePolicy runtimePolicy job) \<and> snd dec = None \<and> rdSelectedModel (fst dec) = ''gpt-4.1''"
  by code_simp

lemma deniedCapabilityReason_json:
  "deniedCapabilityReason caps (filter (\<lambda>c. c \<noteq> CapJSONSchema) ds) = deniedCapabilityReason caps ds"
  by (induction ds) auto

text \<open>
  two constraints of the policy language have no effect on the filter: denying the
  \<open>json_schema\<close> capability, and the cost ceiling.
\<close>

theorem filter_ignores_json_schema_and_cost:
  "hardFilter m job (route\<lparr>rtConstraints := Some c\<rparr>) health t =
   hardFilter m job (route\<lparr>rtConstraints := Some (c\<lparr>cMaxCostUSD := x,
     cDenyCapabilities := filter (\<lambda>d. d \<noteq> CapJSONSchema) (cDenyCapabilities c)\<rparr>)\<rparr>) health t"
proof -
  have "constraintReason m c = constraintReason m (c\<lparr>cMaxCostUSD := x,
     cDenyCapabilities := filter (\<lambda>d. d \<noteq> CapJSONSchema) (cDenyCapabilities c)\<rparr>)"
    by (simp add: constraintReason_def providerModelConstraintReason_def deniedCapabilityReason_json
        Let_def split: option.split)
  then show ?thesis by (simp add: hardFilter_def Let_def)
qed

end
