(* ===== verification/Spend.thy ===== *)
theory Spend
  imports EventLog Cost
begin

text \<open>
  Package \<open>internal/spend\<close>: the aggregates of requests, tokens and cost per model and per tenant
  (\<open>tracker.go\<close>), their persistence (\<open>persist.go\<close>) and the what-if simulator
  (\<open>simulator.go\<close>). The order in which a Go map is ranged over is the parameter \<open>rng\<close>, a
  permutation. The files \<open>SaveJSON\<close> and \<open>LoadJSON\<close> use are a map from paths to contents; the
  JSON codec and the failures of the file operations are parameters.
\<close>

section \<open>The tracker\<close>

record ModelRow =
  mrModelID :: string
  mrProviderID :: string
  mrRequests :: int
  mrInputTokens :: int
  mrOutputTokens :: int
  mrCostUSD :: float64

record TenantRow =
  trTenantID :: string
  trRequests :: int
  trCostUSD :: float64

record modelAccum =
  maProviderID :: string
  maRequests :: int
  maInputTokens :: int
  maOutputTokens :: int
  maCostUSD :: float64

record tenantAccum =
  taRequests :: int
  taCostUSD :: float64

record SpendTracker =
  stByModel :: "(string, modelAccum) gomap"
  stByTenant :: "(string, tenantAccum) gomap"

definition newTracker :: SpendTracker where
  "newTracker = \<lparr>stByModel = [], stByTenant = []\<rparr>"

definition newModelAccum :: "string \<Rightarrow> modelAccum" where
  "newModelAccum p = \<lparr>maProviderID = p, maRequests = 0, maInputTokens = 0, maOutputTokens = 0, maCostUSD = 0\<rparr>"

definition newTenantAccum :: tenantAccum where
  "newTenantAccum = \<lparr>taRequests = 0, taCostUSD = 0\<rparr>"

definition recordDecision :: "DecisionEvent \<Rightarrow> SpendTracker \<Rightarrow> SpendTracker" where
  "recordDecision d t =
     (if deBlocked d then t
      else
        let m = mget0 (newModelAccum (deSelectedProvider d)) (stByModel t) (deSelectedModel d);
            t1 = t\<lparr>stByModel := mput (deSelectedModel d) (m\<lparr>maRequests := i64 (maRequests m + 1)\<rparr>) (stByModel t)\<rparr>
        in if deTenantID d \<noteq> []
           then let ten = mget0 newTenantAccum (stByTenant t1) (deTenantID d)
                in t1\<lparr>stByTenant := mput (deTenantID d) (ten\<lparr>taRequests := i64 (taRequests ten + 1)\<rparr>) (stByTenant t1)\<rparr>
           else t1)"

definition attemptCost :: "AttemptEvent \<Rightarrow> float64" where
  "attemptCost a = (if aeActualCostUSD a = 0 then aeEstimatedCostUSD a else aeActualCostUSD a)"

definition recordAttempt :: "AttemptEvent \<Rightarrow> SpendTracker \<Rightarrow> SpendTracker" where
  "recordAttempt a t =
     (let c = attemptCost a in
      if c = 0 \<and> aeInputTokens a = 0 \<and> aeOutputTokens a = 0 then t
      else
        let m = mget0 (newModelAccum (aeProviderID a)) (stByModel t) (aeModelID a);
            m' = m\<lparr>maInputTokens := i64 (maInputTokens m + aeInputTokens a),
                   maOutputTokens := i64 (maOutputTokens m + aeOutputTokens a),
                   maCostUSD := maCostUSD m + c\<rparr>;
            t1 = t\<lparr>stByModel := mput (aeModelID a) m' (stByModel t)\<rparr>
        in if aeTenantID a \<noteq> []
           then let ten = mget0 newTenantAccum (stByTenant t1) (aeTenantID a)
                in t1\<lparr>stByTenant := mput (aeTenantID a) (ten\<lparr>taCostUSD := taCostUSD ten + c\<rparr>) (stByTenant t1)\<rparr>
           else t1)"

definition spendHandle :: "Event \<Rightarrow> SpendTracker \<Rightarrow> SpendTracker" where
  "spendHandle e t =
     (if qType e = EventTypeDecision then
        (case qDecision e of None \<Rightarrow> t | Some d \<Rightarrow> recordDecision d t)
      else if qType e = EventTypeAttempt then
        (case qAttempt e of None \<Rightarrow> t | Some a \<Rightarrow> if aeSuccess a then recordAttempt a t else t)
      else t)"

definition modelRow :: "string \<times> modelAccum \<Rightarrow> ModelRow" where
  "modelRow e = \<lparr>mrModelID = fst e, mrProviderID = maProviderID (snd e), mrRequests = maRequests (snd e),
     mrInputTokens = maInputTokens (snd e), mrOutputTokens = maOutputTokens (snd e), mrCostUSD = maCostUSD (snd e)\<rparr>"

definition tenantRow :: "string \<times> tenantAccum \<Rightarrow> TenantRow" where
  "tenantRow e = \<lparr>trTenantID = fst e, trRequests = taRequests (snd e), trCostUSD = taCostUSD (snd e)\<rparr>"

definition sortModelRowsDesc :: "ModelRow list \<Rightarrow> ModelRow list" where
  "sortModelRowsDesc = insertion_sort (\<lambda>a b. mrRequests a > mrRequests b)"

definition sortTenantRowsDesc :: "TenantRow list \<Rightarrow> TenantRow list" where
  "sortTenantRowsDesc = insertion_sort (\<lambda>a b. trRequests a > trRequests b)"

type_synonym 'a range_order = "(string \<times> 'a) list \<Rightarrow> (string \<times> 'a) list"

definition ByModel :: "modelAccum range_order \<Rightarrow> SpendTracker \<Rightarrow> ModelRow list" where
  "ByModel rng t = sortModelRowsDesc (map modelRow (rng (stByModel t)))"

definition ByTenant :: "tenantAccum range_order \<Rightarrow> SpendTracker \<Rightarrow> TenantRow list" where
  "ByTenant rng t = sortTenantRowsDesc (map tenantRow (rng (stByTenant t)))"

definition TotalRequests :: "modelAccum range_order \<Rightarrow> SpendTracker \<Rightarrow> int" where
  "TotalRequests rng t = fold (\<lambda>e total. i64 (total + maRequests (snd e))) (rng (stByModel t)) 0"

definition TotalCostUSD :: "modelAccum range_order \<Rightarrow> SpendTracker \<Rightarrow> float64" where
  "TotalCostUSD rng t = fold (\<lambda>e total. total + maCostUSD (snd e)) (rng (stByModel t)) 0"

section \<open>Persistence\<close>

record SpendSnapshot =
  ssModels :: "ModelRow list"
  ssTenants :: "TenantRow list"

definition spendSnapshot :: "modelAccum range_order \<Rightarrow> tenantAccum range_order \<Rightarrow> SpendTracker \<Rightarrow> SpendSnapshot" where
  "spendSnapshot rngM rngT t = \<lparr>ssModels = ByModel rngM t, ssTenants = ByTenant rngT t\<rparr>"

definition Restore :: "SpendSnapshot \<Rightarrow> SpendTracker \<Rightarrow> SpendTracker" where
  "Restore s t =
     (let t1 = t\<lparr>stByModel := fold (\<lambda>m. mput (mrModelID m)
               \<lparr>maProviderID = mrProviderID m, maRequests = mrRequests m, maInputTokens = mrInputTokens m,
                maOutputTokens = mrOutputTokens m, maCostUSD = mrCostUSD m\<rparr>) (ssModels s) (stByModel t)\<rparr>
      in t1\<lparr>stByTenant := fold (\<lambda>tn. mput (trTenantID tn)
               \<lparr>taRequests = trRequests tn, taCostUSD = trCostUSD tn\<rparr>) (ssTenants s) (stByTenant t1)\<rparr>)"

text \<open>
  The file operations: whether the directory can be made, what a write leaves in the file
  (\<open>None\<close>: all of it was written; \<open>Some part\<close>: it failed, leaving \<open>part\<close>), whether the rename
  succeeds.
\<close>

record FileOps =
  foMkdirOK :: bool
  foWrite :: "string \<Rightarrow> string option"
  foRenameOK :: bool

type_synonym files = "(string, string) gomap"

definition SaveJSON :: "(SpendSnapshot \<Rightarrow> string option) \<Rightarrow> FileOps \<Rightarrow> string \<Rightarrow> SpendSnapshot \<Rightarrow> files \<Rightarrow> bool \<times> files" where
  "SaveJSON marshal ops path s fs =
     (if \<not> foMkdirOK ops then (False, fs)
      else case marshal s of
        None \<Rightarrow> (False, fs)
      | Some data \<Rightarrow>
          let tmp = path @ ''.tmp'' in
          (case foWrite ops data of
             Some part \<Rightarrow> (False, mput tmp part fs)
           | None \<Rightarrow>
               let fs1 = mput tmp data fs
               in if foRenameOK ops then (True, mput path data (mdel tmp fs1)) else (False, fs1)))"

datatype load_error = ReadError | DecodeError

definition emptySpendSnapshot :: SpendSnapshot where
  "emptySpendSnapshot = \<lparr>ssModels = [], ssTenants = []\<rparr>"

definition LoadJSON :: "(string \<Rightarrow> SpendSnapshot option) \<Rightarrow> bool \<Rightarrow> string \<Rightarrow> files \<Rightarrow> load_error + SpendSnapshot" where
  "LoadJSON unmarshal readable path fs =
     (case mget fs path of
        None \<Rightarrow> Inr emptySpendSnapshot
      | Some data \<Rightarrow>
          if \<not> readable then Inl ReadError
          else case unmarshal data of None \<Rightarrow> Inl DecodeError | Some s \<Rightarrow> Inr s)"

section \<open>The simulator\<close>

record SimRequest =
  srInputTokens :: int
  srOutputTokens :: int
  srRiskLevel :: string
  srRoutedModel :: Model

definition DefaultRiskWeights :: "(string, float64) gomap" where
  "DefaultRiskWeights = [(''low'', 1), (''medium'', 85 / 100), (''high'', 1 / 2), (''critical'', 1 / 5)]"

definition defaultRiskWeight :: float64 where
  "defaultRiskWeight = 1 / 2"

record Simulator =
  simBaseline :: Model
  simRiskWeights :: "(string, float64) gomap option"

record SimResult =
  resRequests :: int
  resBaselinePremiumMicroUSD :: int
  resActualMicroUSD :: int
  resSavingsMicroUSD :: int
  resSavingsPercent :: float64
  resRiskAdjustedSavingsMicroUSD :: int

definition zeroSimResult :: SimResult where
  "zeroSimResult = \<lparr>resRequests = 0, resBaselinePremiumMicroUSD = 0, resActualMicroUSD = 0,
     resSavingsMicroUSD = 0, resSavingsPercent = 0, resRiskAdjustedSavingsMicroUSD = 0\<rparr>"

definition riskWeight :: "Simulator \<Rightarrow> string \<Rightarrow> float64" where
  "riskWeight s risk =
     mget0 defaultRiskWeight (case simRiskWeights s of None \<Rightarrow> DefaultRiskWeights | Some w \<Rightarrow> w)
       (ToLower (TrimSpace risk))"

datatype sim_error = BaselineEstimate nat cost_error | RoutedEstimate nat cost_error

definition simUsage :: "SimRequest \<Rightarrow> TokenUsage" where
  "simUsage r = \<lparr>tuInputTokens = srInputTokens r, tuOutputTokens = srOutputTokens r, tuMode = []\<rparr>"

text \<open>The loop, with the index of the request, the result so far and the risk-adjusted sum.\<close>

fun simLoop :: "Simulator \<Rightarrow> nat \<Rightarrow> SimRequest list \<Rightarrow> SimResult \<Rightarrow> float64 \<Rightarrow> sim_error + SimResult \<times> float64" where
  "simLoop s i [] res adj = Inr (res, adj)"
| "simLoop s i (r # rs) res adj =
     (case EstimateModel (simBaseline s) (simUsage r) of
        Inl e \<Rightarrow> Inl (BaselineEstimate i e)
      | Inr base \<Rightarrow>
          (case EstimateModel (srRoutedModel r) (simUsage r) of
             Inl e \<Rightarrow> Inl (RoutedEstimate i e)
           | Inr actual \<Rightarrow>
               let res1 = res\<lparr>resRequests := i64 (resRequests res + 1),
                     resBaselinePremiumMicroUSD := i64 (resBaselinePremiumMicroUSD res + estTotalMicroUSD base),
                     resActualMicroUSD := i64 (resActualMicroUSD res + estTotalMicroUSD actual)\<rparr>;
                   saving = i64 (estTotalMicroUSD base - estTotalMicroUSD actual)
               in simLoop s (Suc i) rs res1 (adj + of_int saving * riskWeight s (srRiskLevel r))))"

definition simRun :: "Simulator \<Rightarrow> SimRequest list \<Rightarrow> sim_error + SimResult" where
  "simRun s requests =
     (case simLoop s 0 requests zeroSimResult 0 of
        Inl e \<Rightarrow> Inl e
      | Inr (res, adj) \<Rightarrow>
          let res1 = res\<lparr>resSavingsMicroUSD := i64 (resBaselinePremiumMicroUSD res - resActualMicroUSD res),
                         resRiskAdjustedSavingsMicroUSD := i64 (mathRound adj)\<rparr>
          in Inr (if resBaselinePremiumMicroUSD res1 > 0
                  then res1\<lparr>resSavingsPercent :=
                         of_int (resSavingsMicroUSD res1) / of_int (resBaselinePremiumMicroUSD res1) * 100\<rparr>
                  else res1))"

text \<open>The report, line by line.\<close>

definition simSummary :: "SimResult \<Rightarrow> string list" where
  "simSummary r =
     [''Requests:                '' @ showInt (resRequests r),
      ''Baseline (all premium):  $'' @ formatMicroUSD (resBaselinePremiumMicroUSD r),
      ''Actual (routed):         $'' @ formatMicroUSD (resActualMicroUSD r),
      ''Savings:                 $'' @ formatMicroUSD (resSavingsMicroUSD r) @ '' ('' @
        fmtFixed 1 (resSavingsPercent r) @ ''%)'',
      ''Risk-adjusted savings:   $'' @ formatMicroUSD (resRiskAdjustedSavingsMicroUSD r)]"

section \<open>Totals\<close>

definition msum :: "('v \<Rightarrow> 'm :: ab_group_add) \<Rightarrow> ('k, 'v) gomap \<Rightarrow> 'm" where
  "msum g m = sum_list (map (\<lambda>e. g (snd e)) m)"

lemma msum_Nil [simp]: "msum g [] = 0"
  by (simp add: msum_def)

lemma msum_put: "msum g (mput k v m) = msum g m + (g v - (case mget m k of None \<Rightarrow> 0 | Some u \<Rightarrow> g u))"
  unfolding msum_def mput_def mget_def by (induction m) auto

lemma msum_upd: "g z = 0 \<Longrightarrow> msum g (mput k v m) = msum g m + (g v - g (mget0 z m k))"
  by (simp add: msum_put mget0_def split: option.split)

definition range_perm :: "'a range_order \<Rightarrow> bool" where
  "range_perm rng \<longleftrightarrow> (\<forall>m. mset (rng m) = mset m)"

lemma range_perm_id: "range_perm (\<lambda>m. m)"
  by (simp add: range_perm_def)

lemma sum_list_perm:
  fixes xs :: "'m :: comm_monoid_add list"
  shows "mset xs = mset ys \<Longrightarrow> sum_list xs = sum_list ys"
  by (simp add: sum_mset_sum_list [symmetric])

lemma msum_perm: "mset m = mset m' \<Longrightarrow> msum g m = msum g m'"
  unfolding msum_def by (rule sum_list_perm) simp

lemma fold_add: "fold (\<lambda>e total. total + (f e :: 'm :: ab_group_add)) m z = z + sum_list (map f m)"
  by (induction m arbitrary: z) (simp_all add: add.assoc)

lemma fold_i64_add: "fold (\<lambda>e total. i64 (total + f e)) m (i64 z) = i64 (z + sum_list (map f m))"
  by (induction m arbitrary: z) (simp_all add: i64_plus add.assoc)

lemma i64_0 [simp]: "i64 0 = 0"
  by (simp add: i64_def)

lemma TotalCostUSD_msum: "range_perm rng \<Longrightarrow> TotalCostUSD rng t = msum maCostUSD (stByModel t)"
  by (simp add: TotalCostUSD_def fold_add msum_def [symmetric] range_perm_def
      msum_perm [of "rng (stByModel t)" "stByModel t"])

lemma TotalRequests_msum: "range_perm rng \<Longrightarrow> TotalRequests rng t = i64 (msum maRequests (stByModel t))"
  using fold_i64_add [of "\<lambda>e. maRequests (snd e)" "rng (stByModel t)" 0]
    msum_perm [of "rng (stByModel t)" "stByModel t" maRequests]
  by (simp add: TotalRequests_def msum_def range_perm_def)

text \<open>What one event adds to the totals.\<close>

definition attemptAmount :: "Event \<Rightarrow> float64" where
  "attemptAmount e =
     (case qAttempt e of Some a \<Rightarrow> if qType e = EventTypeAttempt \<and> aeSuccess a then attemptCost a else 0
      | None \<Rightarrow> 0)"

definition tenantAmount :: "string \<Rightarrow> Event \<Rightarrow> float64" where
  "tenantAmount tn e =
     (case qAttempt e of
        Some a \<Rightarrow> if qType e = EventTypeAttempt \<and> aeSuccess a \<and> aeTenantID a = tn \<and> tn \<noteq> []
                  then attemptCost a else 0
      | None \<Rightarrow> 0)"

definition routedCount :: "Event \<Rightarrow> int" where
  "routedCount e =
     (case qDecision e of Some d \<Rightarrow> if qType e = EventTypeDecision \<and> \<not> deBlocked d then 1 else 0
      | None \<Rightarrow> 0)"

definition totalCost :: "SpendTracker \<Rightarrow> float64" where
  "totalCost t = msum maCostUSD (stByModel t)"

definition tenantCost :: "string \<Rightarrow> SpendTracker \<Rightarrow> float64" where
  "tenantCost tn t = taCostUSD (mget0 newTenantAccum (stByTenant t) tn)"

definition requestsOf :: "modelAccum \<Rightarrow> 64 word" where
  "requestsOf m = word_of_int (maRequests m)"

definition requestWord :: "SpendTracker \<Rightarrow> 64 word" where
  "requestWord t = msum requestsOf (stByModel t)"

lemma new_accum_zero: "maCostUSD (newModelAccum p) = 0" "requestsOf (newModelAccum p) = 0"
  by (simp_all add: newModelAccum_def requestsOf_def)

lemma cost_recordAttempt: "totalCost (recordAttempt a t) = totalCost t + attemptCost a"
  by (simp add: recordAttempt_def totalCost_def Let_def msum_upd [of maCostUSD "newModelAccum (aeProviderID a)", OF new_accum_zero(1)])

lemma cost_recordDecision: "totalCost (recordDecision d t) = totalCost t"
  by (simp add: recordDecision_def totalCost_def Let_def msum_upd [of maCostUSD "newModelAccum (deSelectedProvider d)", OF new_accum_zero(1)])

lemma requests_recordAttempt: "requestWord (recordAttempt a t) = requestWord t"
  by (simp add: recordAttempt_def requestWord_def Let_def msum_upd [of requestsOf "newModelAccum (aeProviderID a)", OF new_accum_zero(2)])
    (simp add: requestsOf_def)

lemma requests_recordDecision:
  "requestWord (recordDecision d t) = requestWord t + (if deBlocked d then 0 else 1)"
  by (simp add: recordDecision_def requestWord_def Let_def msum_upd [of requestsOf "newModelAccum (deSelectedProvider d)", OF new_accum_zero(2)])
    (simp add: requestsOf_def)

lemma tenant_recordAttempt:
  "tenantCost tn (recordAttempt a t) = tenantCost tn t + (if aeTenantID a = tn \<and> tn \<noteq> [] then attemptCost a else 0)"
  by (auto simp: recordAttempt_def tenantCost_def Let_def mget0_def)

lemma tenant_recordDecision: "tenantCost tn (recordDecision d t) = tenantCost tn t"
  by (auto simp: recordDecision_def tenantCost_def Let_def mget0_def)

lemmas recorded = cost_recordAttempt cost_recordDecision requests_recordAttempt requests_recordDecision
  tenant_recordAttempt tenant_recordDecision

interpretation spend_cost: event_fold spendHandle totalCost attemptAmount
  by unfold_locales (auto simp: spendHandle_def attemptAmount_def recorded split: option.split)

interpretation spend_tenant: event_fold spendHandle "tenantCost tn" "tenantAmount tn" for tn
  by unfold_locales (auto simp: spendHandle_def tenantAmount_def recorded split: option.split)

interpretation spend_requests: event_fold spendHandle requestWord "\<lambda>e. word_of_int (routedCount e)"
  by unfold_locales (auto simp: spendHandle_def routedCount_def recorded split: option.split)

lemma totalCost_New [simp]: "totalCost newTracker = 0" "requestWord newTracker = 0" "tenantCost tn newTracker = 0"
  by (simp_all add: totalCost_def requestWord_def tenantCost_def newTracker_def newTenantAccum_def mget0_def)

section \<open>A snapshot restores what it was taken from\<close>

definition spendTrackerOK :: "SpendTracker \<Rightarrow> bool" where
  "spendTrackerOK t \<longleftrightarrow> mwf (stByModel t) \<and> mwf (stByTenant t)"

lemma spendTrackerOK_handle: "spendTrackerOK t \<Longrightarrow> spendTrackerOK (spendHandle e t)"
  by (auto simp: spendTrackerOK_def spendHandle_def recordDecision_def recordAttempt_def Let_def split: option.split)

lemma spendTrackerOK_fold: "spendTrackerOK t \<Longrightarrow> spendTrackerOK (fold spendHandle es t)"
  by (induction es arbitrary: t) (simp_all add: spendTrackerOK_handle)

lemma spendTrackerOK_New [simp]: "spendTrackerOK newTracker"
  by (simp add: spendTrackerOK_def newTracker_def)

lemma map_of_distinct: "distinct (map fst m) \<Longrightarrow> map_of m k = Some v \<longleftrightarrow> (k, v) \<in> set m"
  by (simp add: map_of_eq_Some_iff)

lemma fold_put_get:
  assumes "distinct (map f xs)"
  shows "mget (fold (\<lambda>x. mput (f x) (g x)) xs m) k =
    (case find (\<lambda>x. f x = k) xs of Some x \<Rightarrow> Some (g x) | None \<Rightarrow> mget m k)"
  using assms
proof (induction xs arbitrary: m)
  case (Cons x xs)
  have "find (\<lambda>y. f y = k) xs = None" if "f x = k"
    using Cons.prems that by (auto simp: find_None_iff image_iff)
  with Cons show ?case by (auto split: option.split)
qed simp

text \<open>Storing the entries of a map, in any order, into an empty one gives the same map.\<close>

lemma restore_map:
  assumes wf: "mwf m" and perm: "mset rows = mset (map row m)"
    and keys: "\<And>e. f (row e) = fst e" and vals: "\<And>e. g (row e) = snd e"
  shows "mget (fold (\<lambda>x. mput (f x) (g x)) rows []) k = mget m k"
proof -
  have mem: "set rows = row ` set m"
    using perm by (metis image_set set_mset_mset)
  have "mset (map f rows) = mset (map fst m)"
    using perm by (simp add: keys multiset.map_comp comp_def)
  then have dist: "distinct (map f rows)"
    using wf unfolding mwf_def by (metis mset_eq_imp_distinct_iff)
  show ?thesis
  proof (cases "find (\<lambda>x. f x = k) rows")
    case None
    then have "k \<notin> fst ` set m"
      using mem keys by (auto simp: find_None_iff)
    then have "mget m k = None"
      by (simp add: mget_def map_of_eq_None_iff)
    with None dist show ?thesis
      by (simp add: fold_put_get)
  next
    case (Some x)
    then have x: "x \<in> set rows" "f x = k"
      by (auto simp: find_Some_iff)
    then obtain e where e: "e \<in> set m" "x = row e"
      using mem by auto
    then have "mget m k = Some (g x)"
      using wf x keys [of e] vals [of e] map_of_is_SomeI [of m "fst e" "snd e"]
      by (auto simp: mwf_def mget_def prod_eq_iff intro!: map_of_is_SomeI)
    with Some dist show ?thesis
      by (simp add: fold_put_get)
  qed
qed

lemma mset_ByModel: "range_perm rng \<Longrightarrow> mset (ByModel rng t) = mset (map modelRow (stByModel t))"
  by (simp add: ByModel_def sortModelRowsDesc_def insertion.srt_mset range_perm_def)

lemma mset_ByTenant: "range_perm rng \<Longrightarrow> mset (ByTenant rng t) = mset (map tenantRow (stByTenant t))"
  by (simp add: ByTenant_def sortTenantRowsDesc_def insertion.srt_mset range_perm_def)

lemma Restore_Snapshot:
  assumes "spendTrackerOK t" and "range_perm rngM" and "range_perm rngT"
  shows "mget (stByModel (Restore (spendSnapshot rngM rngT t) newTracker)) = mget (stByModel t)"
    and "mget (stByTenant (Restore (spendSnapshot rngM rngT t) newTracker)) = mget (stByTenant t)"
  using assms
  by (auto simp: Restore_def spendSnapshot_def newTracker_def spendTrackerOK_def modelRow_def tenantRow_def
      intro!: ext restore_map [where row = modelRow] restore_map [where row = tenantRow]
      mset_ByModel mset_ByTenant)

section \<open>A save is all or nothing\<close>

lemma SaveJSON_cases:
  "SaveJSON marshal ops path s fs = (ok, fs') \<Longrightarrow>
     if ok then marshal s = mget fs' path else mget fs' path = mget fs path"
  by (auto simp: SaveJSON_def Let_def split: if_splits option.splits)

section \<open>The simulation\<close>

lemma in_i64_fits: "0 \<le> x \<Longrightarrow> x \<le> maxInt64 \<Longrightarrow> i64 x = x"
  by (simp add: in_i64_def maxInt64_def)

definition simPriced :: "Simulator \<Rightarrow> SimRequest \<Rightarrow> bool" where
  "simPriced s r \<longleftrightarrow> 0 \<le> srInputTokens r \<and> 0 \<le> srOutputTokens r \<and>
     priced (mCost (simBaseline s)) \<and> priced (mCost (srRoutedModel r))"

definition baseCost :: "Simulator \<Rightarrow> SimRequest \<Rightarrow> int" where
  "baseCost s r = exactCost (mCost (simBaseline s)) (simUsage r)"

definition routedCost :: "SimRequest \<Rightarrow> int" where
  "routedCost r = exactCost (mCost (srRoutedModel r)) (simUsage r)"

lemma exactCost_nonneg: "priced meta \<Longrightarrow> 0 \<le> tuInputTokens u \<Longrightarrow> 0 \<le> tuOutputTokens u \<Longrightarrow> 0 \<le> exactCost meta u"
  by (simp add: exactCost_def priced_def pos_imp_zdiv_nonneg_iff)

lemma EstimateModel_total:
  assumes "priced (mCost m)" "0 \<le> tuInputTokens u" "0 \<le> tuOutputTokens u" "exactCost (mCost m) u \<le> maxInt64"
  shows "\<exists>est. EstimateModel m u = Inr est \<and> estTotalMicroUSD est = exactCost (mCost m) u"
  using EstimateCost_spec [OF assms(1-3), of "mID m" "mProviderID m"] assms(4)
  by (cases "EstimateCost (mID m) (mProviderID m) (mCost m) u") (auto simp: EstimateModel_def)

definition weightedSaving :: "Simulator \<Rightarrow> SimRequest \<Rightarrow> float64" where
  "weightedSaving s r = of_int (baseCost s r - routedCost r) * riskWeight s (srRiskLevel r)"

lemma simLoop_total:
  assumes "\<forall>r \<in> set rs. simPriced s r"
    and "0 \<le> resBaselinePremiumMicroUSD res" "0 \<le> resActualMicroUSD res" "0 \<le> resRequests res"
    and "resBaselinePremiumMicroUSD res + sum_list (map (baseCost s) rs) \<le> maxInt64"
    and "resActualMicroUSD res + sum_list (map routedCost rs) \<le> maxInt64"
    and "resRequests res + int (length rs) \<le> maxInt64"
  shows "simLoop s i rs res adj =
    Inr (res\<lparr>resRequests := resRequests res + int (length rs),
             resBaselinePremiumMicroUSD := resBaselinePremiumMicroUSD res + sum_list (map (baseCost s) rs),
             resActualMicroUSD := resActualMicroUSD res + sum_list (map routedCost rs)\<rparr>,
         adj + sum_list (map (weightedSaving s) rs))"
  using assms
proof (induction rs arbitrary: i res adj)
  case (Cons r rs)
  have r: "simPriced s r" and rs: "\<forall>r \<in> set rs. simPriced s r"
    using Cons.prems by simp_all
  have pos: "0 \<le> baseCost s r" "0 \<le> routedCost r"
    using r by (auto simp: baseCost_def routedCost_def simPriced_def simUsage_def intro!: exactCost_nonneg)
  have rest: "0 \<le> sum_list (map (baseCost s) rs)" "0 \<le> sum_list (map routedCost rs)"
    using rs by (auto simp: baseCost_def routedCost_def simPriced_def simUsage_def
        intro!: sum_list_nonneg exactCost_nonneg)
  have fits: "baseCost s r \<le> maxInt64" "routedCost r \<le> maxInt64"
    using Cons.prems pos rest by simp_all
  obtain b where b: "EstimateModel (simBaseline s) (simUsage r) = Inr b" "estTotalMicroUSD b = baseCost s r"
    using EstimateModel_total [of "simBaseline s" "simUsage r"] r fits
    by (auto simp: baseCost_def simPriced_def simUsage_def)
  obtain a where a: "EstimateModel (srRoutedModel r) (simUsage r) = Inr a" "estTotalMicroUSD a = routedCost r"
    using EstimateModel_total [of "srRoutedModel r" "simUsage r"] r fits
    by (auto simp: routedCost_def simPriced_def simUsage_def)
  have diff: "i64 (baseCost s r - routedCost r) = baseCost s r - routedCost r"
    using pos fits by (simp add: in_i64_def maxInt64_def)
  have wrap: "i64 (resRequests res + 1) = resRequests res + 1"
    "i64 (resBaselinePremiumMicroUSD res + baseCost s r) = resBaselinePremiumMicroUSD res + baseCost s r"
    "i64 (resActualMicroUSD res + routedCost r) = resActualMicroUSD res + routedCost r"
    using Cons.prems pos rest by (simp_all add: in_i64_fits)
  show ?case
    using Cons.prems pos rest rs
    by (simp add: b a diff wrap Cons.IH weightedSaving_def)
qed simp

end
