(* ===== verification/ChatLaws.thy ===== *)
theory ChatLaws
  imports Chat EngineProps Spend
begin

text \<open>
  What the chat handler does with the world: the provider calls it makes, the events it queues, the
  health outcomes and audit entries it records, and the reply that goes with them. The lemmas of
  the first sections say what each step of the handler leaves alone; the properties follow.
\<close>

named_theorems chat_frame

section \<open>What the steps leave alone\<close>

lemma setHeader_frame [chat_frame, simp]:
  "csCalls (setHeader k v st) = csCalls st" "csQueue (setHeader k v st) = csQueue st"
  "csHealth (setHeader k v st) = csHealth st" "csCache (setHeader k v st) = csCache st"
  "csAudit (setHeader k v st) = csAudit st" "csPromptLog (setHeader k v st) = csPromptLog st"
  by (simp_all add: setHeader_def)

lemma logCall_frame [chat_frame, simp]:
  "csCalls (logCall p n st) = csCalls st @ [(p, n)]" "csQueue (logCall p n st) = csQueue st"
  "csHealth (logCall p n st) = csHealth st" "csCache (logCall p n st) = csCache st"
  "csAudit (logCall p n st) = csAudit st"
  by (simp_all add: logCall_def)

lemma enqueueEvent_frame [chat_frame, simp]:
  "csCalls (enqueueEvent e st) = csCalls st" "csQueue (enqueueEvent e st) = map_option (Enqueue e) (csQueue st)"
  "csHealth (enqueueEvent e st) = csHealth st" "csCache (enqueueEvent e st) = csCache st"
  "csAudit (enqueueEvent e st) = csAudit st"
  by (simp_all add: enqueueEvent_def)

lemma recordHealth_frame [chat_frame, simp]:
  "csCalls (recordHealth p ok st) = csCalls st" "csQueue (recordHealth p ok st) = csQueue st"
  "csCache (recordHealth p ok st) = csCache st" "csAudit (recordHealth p ok st) = csAudit st"
  by (simp_all add: recordHealth_def)

lemma logPrompt_frame [chat_frame, simp]:
  "csCalls (logPrompt opts job req st) = csCalls st" "csQueue (logPrompt opts job req st) = csQueue st"
  "csHealth (logPrompt opts job req st) = csHealth st" "csCache (logPrompt opts job req st) = csCache st"
  "csAudit (logPrompt opts job req st) = csAudit st"
  by (simp_all add: logPrompt_def)

lemma setUsageHeaders_frame [chat_frame, simp]:
  "csCalls (setUsageHeaders opts m p r st) = csCalls st" "csQueue (setUsageHeaders opts m p r st) = csQueue st"
  "csHealth (setUsageHeaders opts m p r st) = csHealth st" "csAudit (setUsageHeaders opts m p r st) = csAudit st"
  by (simp_all add: setUsageHeaders_def split: option.split)

lemma decisionHeaders_frame [chat_frame, simp]:
  "csCalls (decisionHeaders ro st) = csCalls st" "csQueue (decisionHeaders ro st) = csQueue st"
  "csHealth (decisionHeaders ro st) = csHealth st" "csAudit (decisionHeaders ro st) = csAudit st"
  by (simp_all add: decisionHeaders_def)

lemma streamHeaders_frame [chat_frame, simp]:
  "csCalls (streamHeaders m f st) = csCalls st" "csQueue (streamHeaders m f st) = csQueue st"
  "csHealth (streamHeaders m f st) = csHealth st" "csAudit (streamHeaders m f st) = csAudit st"
  by (simp_all add: streamHeaders_def)

lemma auditBlocked_frame [chat_frame, simp]:
  "csCalls (auditBlocked now job dec st) = csCalls st" "csQueue (auditBlocked now job dec st) = csQueue st"
  "csHealth (auditBlocked now job dec st) = csHealth st"
  "csAudit (auditBlocked now job dec st) = (if csAudit st = None then None else Record now (blockEntry job dec) (csAudit st))"
  by (simp_all add: auditBlocked_def)

lemma writeError_frame [chat_frame, simp]:
  "csCalls (snd (writeError s c m st)) = csCalls st" "csQueue (snd (writeError s c m st)) = csQueue st"
  "csHealth (snd (writeError s c m st)) = csHealth st" "csCache (snd (writeError s c m st)) = csCache st"
  "csAudit (snd (writeError s c m st)) = csAudit st"
  "reStatus (fst (writeError s c m st)) = s"
  "reBody (fst (writeError s c m st)) = [ErrorEnvelope c (maskOutbound m)]"
  by (simp_all add: writeError_def Let_def)

lemma writeProviderError_frame [chat_frame, simp]:
  "csCalls (snd (writeProviderError e st)) = csCalls st" "csQueue (snd (writeProviderError e st)) = csQueue st"
  "csHealth (snd (writeProviderError e st)) = csHealth st" "csAudit (snd (writeProviderError e st)) = csAudit st"
  "reStatus (fst (writeProviderError e st)) = fst (mapProviderError e)"
  by (simp_all add: writeProviderError_def)

lemma panicReply_frame [chat_frame, simp]: "snd (panicReply st) = st"
  by (simp add: panicReply_def)

lemma writeChat_frame [chat_frame, simp]:
  "csCalls (snd (writeChat r st)) = csCalls st" "csQueue (snd (writeChat r st)) = csQueue st"
  "csHealth (snd (writeChat r st)) = csHealth st" "csAudit (snd (writeChat r st)) = csAudit st"
  by (simp_all add: writeChat_def Let_def)

lemma sseReply_frame [chat_frame, simp]:
  "snd (sseReply out st) = st" "reStatus (fst (sseReply out st)) = 200" "reBody (fst (sseReply out st)) = out"
  by (simp_all add: sseReply_def)

lemma pipeline_frame [chat_frame, simp]:
  "csCalls (snd (maybeRunContextPipeline opts n j p s st)) = csCalls st"
  "csQueue (snd (maybeRunContextPipeline opts n j p s st)) = csQueue st"
  "csHealth (snd (maybeRunContextPipeline opts n j p s st)) = csHealth st"
  "csAudit (snd (maybeRunContextPipeline opts n j p s st)) = csAudit st"
  by (simp_all add: maybeRunContextPipeline_def Let_def split: prod.split)

lemma pipeline_off [simp]: "\<not> coContextPipelineEnabled opts \<Longrightarrow> fst (maybeRunContextPipeline opts n j p s st) = n"
  by (simp add: maybeRunContextPipeline_def contextPipelineAllowed_def)

lemma adapter_keeps_model [simp]: "nrModel (maybeRunPromptAdapter opts n m p) = nrModel n"
proof (cases "Option.bind (coPromptAdapter opts) (\<lambda>a. promptApply (Some a) (Some n) m p)")
  case None
  then show ?thesis by (auto simp: maybeRunPromptAdapter_def split: option.splits)
next
  case (Some out)
  then obtain a r' names where "coPromptAdapter opts = Some a" "promptApply (Some a) (Some n) m p = Some (r', names)"
    by (cases out) (auto simp: bind_eq_Some_conv)
  with promptApply_confined [OF this(2)] show ?thesis
    by (metis (no_types, lifting) NormalizedModelRequest.select_convs(1) NormalizedModelRequest.surjective
        NormalizedModelRequest.update_convs(2) maybeRunPromptAdapter_def old.prod.case option.simps(5))
qed

section \<open>Attempts\<close>

definition attemptOf :: "AttemptEvent \<Rightarrow> Event" where
  "attemptOf a = \<lparr>qType = EventTypeAttempt, qDecision = None, qAttempt = Some a\<rparr>"

definition decisionOf :: "DecisionEvent \<Rightarrow> Event" where
  "decisionOf d = \<lparr>qType = EventTypeDecision, qDecision = Some d, qAttempt = None\<rparr>"

lemma decisionEvent_decisionOf:
  obtains d where "decisionEvent ck job dec shadow = decisionOf d" "deBlocked d = rdBlocked dec"
    "deRequestID d = jRequestID job" "deSelectedModel d = rdSelectedModel dec"
    "deEstimatedCostUSD d = rdEstimatedCostUSD dec"
  by (rule that [of "the (qDecision (decisionEvent ck job dec shadow))"]) (simp_all add: decisionEvent_def decisionOf_def)

text \<open>The attempts recorded for calls: indexed from \<open>i\<close>, in the order of the calls, all failures but perhaps the last.\<close>

definition attemptsFor :: "string \<Rightarrow> nat \<Rightarrow> string list \<Rightarrow> AttemptEvent list \<Rightarrow> bool" where
  "attemptsFor rid i pids as \<longleftrightarrow>
     prefix (map aeProviderID as) pids \<and> length pids \<le> Suc (length as) \<and>
     map aeAttemptIndex as = map int [i..<i + length as] \<and>
     (\<forall>a \<in> set as. aeRequestID a = rid) \<and> (\<forall>a \<in> set (butlast as). \<not> aeSuccess a)"

lemma attemptsFor_none: "length pids \<le> 1 \<Longrightarrow> attemptsFor rid i pids []"
  by (simp add: attemptsFor_def)

lemma attemptsFor_one:
  "aeProviderID a = p \<Longrightarrow> aeAttemptIndex a = int i \<Longrightarrow> aeRequestID a = rid \<Longrightarrow> attemptsFor rid i [p] [a]"
  by (simp add: attemptsFor_def)

lemma attemptsFor_Cons:
  "aeProviderID a = p \<Longrightarrow> aeAttemptIndex a = int i \<Longrightarrow> aeRequestID a = rid \<Longrightarrow> \<not> aeSuccess a \<Longrightarrow>
   attemptsFor rid (Suc i) ps as \<Longrightarrow> attemptsFor rid i (p # ps) (a # as)"
  by (auto simp: attemptsFor_def upt_conv_Cons)

text \<open>How a step extends the calls and the queue.\<close>

definition extends :: "string \<Rightarrow> nat \<Rightarrow> (string \<times> NormalizedModelRequest) list \<Rightarrow> ChatState \<Rightarrow> ChatState \<Rightarrow> bool" where
  "extends rid i calls st st' \<longleftrightarrow> csCalls st' = csCalls st @ calls \<and>
     (\<exists>as. csQueue st' = map_option (fold Enqueue (map attemptOf as)) (csQueue st) \<and>
        attemptsFor rid i (map fst calls) as)"

lemma extends_none: "length calls \<le> 1 \<Longrightarrow> csCalls st' = csCalls st @ calls \<Longrightarrow> csQueue st' = csQueue st \<Longrightarrow> extends rid i calls st st'"
  unfolding extends_def by (intro conjI exI [of _ "[]"]) (simp_all add: attemptsFor_none option.map_id)

lemma attemptEvent_attemptOf:
  obtains a where "attemptEvent ck rid meta p m i f err x y act = attemptOf a" "aeProviderID a = p"
    "aeAttemptIndex a = int i" "aeRequestID a = rid" "aeSuccess a \<longleftrightarrow> err = None"
  by (rule that [of "the (qAttempt (attemptEvent ck rid meta p m i f err x y act))"])
    (simp_all add: attemptEvent_def attemptOf_def)

lemma recordStream_extends:
  obtains a where "csQueue (recordStream opts ck rid meta c i f u err st) = map_option (Enqueue (attemptOf a)) (csQueue st)"
    "aeProviderID a = scaProviderID c" "aeAttemptIndex a = int i" "aeRequestID a = rid" "aeSuccess a \<longleftrightarrow> err = None"
proof -
  define act where "act = (if fst u > 0 \<or> snd u > 0
      then actualCostUSD opts (scaModelID c) (scaProviderID c) (fst u) (snd u) else 0)"
  obtain a where a: "attemptEvent ck rid meta (scaProviderID c) (scaModelID c) i f err (fst u) (snd u) act = attemptOf a"
    "aeProviderID a = scaProviderID c" "aeAttemptIndex a = int i" "aeRequestID a = rid" "aeSuccess a \<longleftrightarrow> err = None"
    by (rule attemptEvent_attemptOf)
  show ?thesis
    by (rule that [OF _ a(2-5)]) (simp add: recordStream_def Let_def act_def [symmetric] a(1))
qed

lemma recordStream_frame [chat_frame, simp]:
  "csCalls (recordStream opts ck rid meta c i f u err st) = csCalls st"
  "csAudit (recordStream opts ck rid meta c i f u err st) = csAudit st"
  "csHealth (recordStream opts ck rid meta c i f u err st) =
     map_option (if err = None then RecordSuccess (scaProviderID c) else RecordFailure (scaProviderID c)) (csHealth st)"
  by (simp_all add: recordStream_def Let_def recordHealth_def)

section \<open>Streaming\<close>

definition streamRequest :: "NormalizedModelRequest \<Rightarrow> streamCandidate \<Rightarrow> NormalizedModelRequest" where
  "streamRequest nreq c = nreq\<lparr>nrModel := scaProviderModelID c\<rparr>"

definition streamCall :: "NormalizedModelRequest \<Rightarrow> streamCandidate \<Rightarrow> string \<times> NormalizedModelRequest" where
  "streamCall nreq c = (scaProviderID c, streamRequest nreq c)"

text \<open>The error of an attempt that sent nothing to the client.\<close>

fun passedOver :: "attempt_end \<Rightarrow> bool" where
  "passedOver (NextCandidate e) \<longleftrightarrow> True"
| "passedOver Gone \<longleftrightarrow> False"
| "passedOver (FirstError e) \<longleftrightarrow> True"
| "passedOver (Streamed out u err) \<longleftrightarrow> False"

fun sentBody :: "attempt_end \<Rightarrow> body list" where
  "sentBody (Streamed out u err) = out"
| "sentBody e = []"

text \<open>How many of the candidates, in order, are passed over before one is not.\<close>

fun servingIndex :: "nat \<Rightarrow> NormalizedModelRequest \<Rightarrow> streamCandidate list \<Rightarrow> nat" where
  "servingIndex i nreq [] = 0"
| "servingIndex i nreq (c # cs) =
     (if passedOver (attemptStream i c (streamRequest nreq c)) then Suc (servingIndex (Suc i) nreq cs) else 0)"

lemma servingIndex_le: "servingIndex i nreq cs \<le> length cs"
  by (induction cs arbitrary: i) auto

lemma servingIndex_passed:
  "j < servingIndex i nreq cs \<Longrightarrow> passedOver (attemptStream (i + j) (cs ! j) (streamRequest nreq (cs ! j)))"
proof (induction cs arbitrary: i j)
  case (Cons c cs)
  then show ?case by (cases j) (auto split: if_splits, metis add_Suc_right add_Suc)
qed simp

lemma servingIndex_serves:
  "servingIndex i nreq cs < length cs \<Longrightarrow>
   \<not> passedOver (attemptStream (i + servingIndex i nreq cs) (cs ! servingIndex i nreq cs)
       (streamRequest nreq (cs ! servingIndex i nreq cs)))"
proof (induction cs arbitrary: i)
  case (Cons c cs)
  with Cons.IH [of "Suc i"] show ?case by auto
qed simp

text \<open>What an attempt leaves in the health tracker.\<close>

definition attemptHealth :: "streamCandidate \<Rightarrow> attempt_end \<Rightarrow> Tracker \<Rightarrow> Tracker" where
  "attemptHealth c e =
     (case e of Gone \<Rightarrow> (\<lambda>t. t)
      | Streamed out u None \<Rightarrow> RecordSuccess (scaProviderID c)
      | _ \<Rightarrow> RecordFailure (scaProviderID c))"

lemma mapProviderError_status: "400 \<le> fst (mapProviderError e)"
  by (simp add: mapProviderError_def)

lemma streamLoop_step:
  "streamLoop opts ck rid meta nreq i (c # cs) st =
     (let req = streamRequest nreq c; st1 = logCall (scaProviderID c) req st
      in case attemptStream i c req of
           NextCandidate e \<Rightarrow> streamLoop opts ck rid meta nreq (Suc i) cs (recordStream opts ck rid meta c i 0 (0, 0) (Some e) st1)
         | Gone \<Rightarrow> sseReply [] st1
         | FirstError e \<Rightarrow>
             let st2 = recordStream opts ck rid meta c i (ckFirstTokenMs ck i) (0, 0) (Some e) st1
             in if cs \<noteq> [] then streamLoop opts ck rid meta nreq (Suc i) cs st2 else writeProviderError e st2
         | Streamed out u err \<Rightarrow>
             sseReply out (recordStream opts ck rid meta c i (ckFirstTokenMs ck i) u err
               (streamHeaders (scaModelID c) (ckFirstTokenMs ck i) st1)))"
  by (simp add: streamRequest_def)

declare streamLoop.simps(2) [simp del]

text \<open>A candidate that is passed over leaves a call and a failure, and the loop goes on.\<close>

lemma streamLoop_passed:
  assumes "passedOver (attemptStream i c (streamRequest nreq c))"
  obtains mid a where
    "csCalls mid = csCalls st @ [streamCall nreq c]" "csAudit mid = csAudit st"
    "csHealth mid = map_option (RecordFailure (scaProviderID c)) (csHealth st)"
    "csQueue mid = map_option (Enqueue (attemptOf a)) (csQueue st)"
    "aeProviderID a = scaProviderID c" "aeAttemptIndex a = int i" "aeRequestID a = rid" "\<not> aeSuccess a"
    "streamLoop opts ck rid meta nreq i (c # cs) st = streamLoop opts ck rid meta nreq (Suc i) cs mid \<or>
     cs = [] \<and> (\<exists>e. streamLoop opts ck rid meta nreq i (c # cs) st = writeProviderError e mid)"
proof -
  let ?st1 = "logCall (scaProviderID c) (streamRequest nreq c) st"
  from assms obtain e f where loop: "streamLoop opts ck rid meta nreq i (c # cs) st =
        streamLoop opts ck rid meta nreq (Suc i) cs (recordStream opts ck rid meta c i f (0, 0) (Some e) ?st1) \<or>
      cs = [] \<and> streamLoop opts ck rid meta nreq i (c # cs) st =
        writeProviderError e (recordStream opts ck rid meta c i f (0, 0) (Some e) ?st1)"
  proof (cases "attemptStream i c (streamRequest nreq c)")
    case (NextCandidate e)
    then show ?thesis by (intro that [where e = e and f = 0]) (simp add: streamLoop_step Let_def)
  next
    case (FirstError e)
    then show ?thesis by (intro that [where e = e and f = "ckFirstTokenMs ck i"]) (simp add: streamLoop_step Let_def)
  qed (use assms in simp_all)
  obtain a where a: "csQueue (recordStream opts ck rid meta c i f (0, 0) (Some e) ?st1) =
      map_option (Enqueue (attemptOf a)) (csQueue ?st1)"
    "aeProviderID a = scaProviderID c" "aeAttemptIndex a = int i" "aeRequestID a = rid" "aeSuccess a \<longleftrightarrow> Some e = None"
    by (rule recordStream_extends)
  show ?thesis
    by (rule that [where mid = "recordStream opts ck rid meta c i f (0, 0) (Some e) ?st1" and a = a, OF _ _ _ _ a(2-4)])
      (use loop a(1,5) in \<open>auto simp: streamCall_def\<close>)
qed

lemma streamLoop_taken:
  assumes "\<not> passedOver (attemptStream i c (streamRequest nreq c))"
    and run: "streamLoop opts ck rid meta nreq i (c # cs) st = (reply, st')"
  shows "reStatus reply = 200" "reBody reply = sentBody (attemptStream i c (streamRequest nreq c))"
    "csCalls st' = csCalls st @ [streamCall nreq c]" "csAudit st' = csAudit st"
    "csHealth st' = map_option (attemptHealth c (attemptStream i c (streamRequest nreq c))) (csHealth st)"
    "extends rid i [streamCall nreq c] st st'"
proof -
  let ?e = "attemptStream i c (streamRequest nreq c)" and ?st1 = "logCall (scaProviderID c) (streamRequest nreq c) st"
  from assms(1) consider (gone) "?e = Gone" "(reply, st') = sseReply [] ?st1"
    | (streamed) out u err where "?e = Streamed out u err"
        "(reply, st') = sseReply out (recordStream opts ck rid meta c i (ckFirstTokenMs ck i) u err
          (streamHeaders (scaModelID c) (ckFirstTokenMs ck i) ?st1))"
    using run by (cases ?e) (auto simp: streamLoop_step Let_def)
  then have "reStatus reply = 200 \<and> reBody reply = sentBody ?e \<and> csCalls st' = csCalls st @ [streamCall nreq c] \<and>
    csAudit st' = csAudit st \<and> csHealth st' = map_option (attemptHealth c ?e) (csHealth st) \<and>
    extends rid i [streamCall nreq c] st st'"
  proof cases
    case gone
    then show ?thesis
      by (auto simp: sseReply_def streamCall_def attemptHealth_def intro!: extends_none simp flip: id_def simp: option.map_id)
  next
    case streamed
    let ?st2 = "streamHeaders (scaModelID c) (ckFirstTokenMs ck i) ?st1"
    obtain a where a: "csQueue (recordStream opts ck rid meta c i (ckFirstTokenMs ck i) u err ?st2) =
        map_option (Enqueue (attemptOf a)) (csQueue ?st2)" "aeProviderID a = scaProviderID c"
      "aeAttemptIndex a = int i" "aeRequestID a = rid"
      by (rule recordStream_extends)
    with streamed have "extends rid i [streamCall nreq c] st st'"
      unfolding extends_def by (intro conjI exI [of _ "[a]"])
        (auto simp: sseReply_def streamCall_def intro: attemptsFor_one)
    with streamed show ?thesis
      by (cases err) (auto simp: sseReply_def streamCall_def attemptHealth_def)
  qed
  then show "reStatus reply = 200" "reBody reply = sentBody ?e" "csCalls st' = csCalls st @ [streamCall nreq c]"
    "csAudit st' = csAudit st" "csHealth st' = map_option (attemptHealth c ?e) (csHealth st)"
    "extends rid i [streamCall nreq c] st st'" by blast+
qed

text \<open>All of it at once: the calls, the health outcomes and the reply.\<close>

definition finalHealth :: "nat \<Rightarrow> NormalizedModelRequest \<Rightarrow> streamCandidate list \<Rightarrow> Tracker \<Rightarrow> Tracker" where
  "finalHealth i nreq cs =
     (\<lambda>t. case cs of [] \<Rightarrow> t | c # _ \<Rightarrow> attemptHealth c (attemptStream i c (streamRequest nreq c)) t)"

lemma finalHealth_Nil [simp]: "finalHealth i nreq [] = (\<lambda>t. t)"
  by (simp add: finalHealth_def)

lemma finalHealth_Cons [simp]:
  "finalHealth i nreq (c # cs) = attemptHealth c (attemptStream i c (streamRequest nreq c))"
  by (simp add: finalHealth_def)

lemma streamLoop_trace:
  assumes "streamLoop opts ck rid meta nreq i cs st = (reply, st')"
  shows "csCalls st' = csCalls st @ map (streamCall nreq) (take (Suc (servingIndex i nreq cs)) cs) \<and>
    csAudit st' = csAudit st \<and>
    csHealth st' = map_option (\<lambda>t. finalHealth (i + servingIndex i nreq cs) nreq (drop (servingIndex i nreq cs) cs)
      (fold RecordFailure (map scaProviderID (take (servingIndex i nreq cs) cs)) t)) (csHealth st) \<and>
    (if servingIndex i nreq cs < length cs
     then reStatus reply = 200 \<and> reBody reply = sentBody (attemptStream (i + servingIndex i nreq cs)
       (cs ! servingIndex i nreq cs) (streamRequest nreq (cs ! servingIndex i nreq cs)))
     else 400 \<le> reStatus reply \<and> (\<exists>c m. reBody reply = [ErrorEnvelope c m])) \<and>
    extends rid i (map (streamCall nreq) (take (Suc (servingIndex i nreq cs)) cs)) st st'"
  using assms
proof (induction cs arbitrary: i st)
  case Nil
  then have "writeError 502 ''provider_error'' ''all streaming candidates failed or timed out'' st = (reply, st')" by simp
  note frame = writeError_frame [of 502 "''provider_error''" "''all streaming candidates failed or timed out''" st,
      unfolded this, simplified]
  from frame show ?case
    by (auto intro: extends_none simp flip: id_def simp: option.map_id)
next
  case (Cons c cs)
  show ?case
  proof (cases "passedOver (attemptStream i c (streamRequest nreq c))")
    case False
    with streamLoop_taken [OF False Cons.prems] show ?thesis by simp
  next
    case True
    then obtain st2 a where st2: "csCalls st2 = csCalls st @ [streamCall nreq c]" "csAudit st2 = csAudit st"
      "csHealth st2 = map_option (RecordFailure (scaProviderID c)) (csHealth st)"
      "csQueue st2 = map_option (Enqueue (attemptOf a)) (csQueue st)"
      and a: "aeProviderID a = scaProviderID c" "aeAttemptIndex a = int i" "aeRequestID a = rid" "\<not> aeSuccess a"
      and goes: "streamLoop opts ck rid meta nreq i (c # cs) st = streamLoop opts ck rid meta nreq (Suc i) cs st2 \<or>
        cs = [] \<and> (\<exists>e. streamLoop opts ck rid meta nreq i (c # cs) st = writeProviderError e st2)"
      by (rule streamLoop_passed)
    have ext: "extends rid i (streamCall nreq c # calls) st st'" if "extends rid (Suc i) calls st2 st'" for calls
    proof -
      from that obtain as where "csCalls st' = csCalls st2 @ calls"
        "csQueue st' = map_option (fold Enqueue (map attemptOf as)) (csQueue st2)"
        "attemptsFor rid (Suc i) (map fst calls) as" unfolding extends_def by blast
      with st2(1,4) attemptsFor_Cons [OF a this(3)] show ?thesis
        unfolding extends_def by (intro conjI exI [of _ "a # as"])
          (simp_all add: option.map_comp comp_def streamCall_def)
    qed
    from goes Cons.prems consider (goon) "streamLoop opts ck rid meta nreq (Suc i) cs st2 = (reply, st')"
      | (last) e where "cs = []" "writeProviderError e st2 = (reply, st')" by auto
    then show ?thesis
    proof cases
      case goon
      from Cons.IH [OF goon] ext st2(1-3) True show ?thesis by (simp add: option.map_comp comp_def)
    next
      case last
      note frame = writeProviderError_frame [of e st2, unfolded last(2), simplified]
      have "extends rid (Suc i) [] st2 st'"
        by (rule extends_none) (use frame in simp_all)
      from ext [OF this] frame st2(1-3) True last mapProviderError_status [of e] show ?thesis
        by (auto simp: writeProviderError_def writeError_def Let_def)
    qed
  qed
qed

section \<open>From the budget to the decision\<close>

definition budgetBlocks :: "ChatOptions \<Rightarrow> JobDescriptor \<Rightarrow> bool" where
  "budgetBlocks opts job \<longleftrightarrow> (case coBudget opts of None \<Rightarrow> False
     | Some b \<Rightarrow> vBlocked (budgetCheck (Some b) (jTenantID job) (jProjectID job)))"

definition budgeted :: "ChatOptions \<Rightarrow> JobDescriptor \<Rightarrow> JobDescriptor" where
  "budgeted opts job =
     (case coBudget opts of None \<Rightarrow> job
      | Some b \<Rightarrow> if vDowngrade (budgetCheck (Some b) (jTenantID job) (jProjectID job))
                  then job\<lparr>jRouterMode := RouterModeCheap\<rparr> else job)"

lemma budgeted_fields [simp]:
  "jRequestID (budgeted opts job) = jRequestID job" "jTenantID (budgeted opts job) = jTenantID job"
  "jProjectID (budgeted opts job) = jProjectID job" "jExplicitModel (budgeted opts job) = jExplicitModel job"
  by (simp_all add: budgeted_def split: option.split)

lemma budgeted_mode: "jRouterMode job \<noteq> RouterModeDisabled \<Longrightarrow> jRouterMode (budgeted opts job) \<noteq> RouterModeDisabled"
  by (simp add: budgeted_def split: option.split)

lemma applyBudget_passes:
  assumes "\<not> budgetBlocks opts job"
  obtains mid where "applyBudget opts job st = Inr (budgeted opts job, mid)"
    "csCalls mid = csCalls st" "csQueue mid = csQueue st" "csHealth mid = csHealth st"
    "csAudit mid = csAudit st" "csCache mid = csCache st"
proof (cases "applyBudget opts job st")
  case (Inl r)
  with assms show ?thesis
    by (auto simp: applyBudget_def budgetBlocks_def Let_def split: option.splits if_splits)
next
  case (Inr x)
  with assms show ?thesis
    by (intro that [where mid = "snd x"])
      (auto simp: applyBudget_def budgetBlocks_def budgeted_def Let_def split: option.splits if_splits)
qed

lemma Decide_job: "fst (Decide srt e job pol health streaming) \<in> {job, job\<lparr>jConservative := conservativeForJob e job\<rparr>}"
  by (simp add: Decide_def Let_def split: sum.split)

lemma routeRequest_frame:
  assumes "routeRequest env opts e req job st = (ro, st')"
  shows "csCalls st' = csCalls st" "csHealth st' = csHealth st" "csAudit st' = csAudit st"
    "\<exists>shadow. csQueue st' = map_option (Enqueue (decisionEvent (ceClock env) (roJob ro) (roDecision ro) shadow)) (csQueue st)"
    "roJob ro \<in> {job, job\<lparr>jConservative := conservativeForJob e job\<rparr>}"
  using assms Decide_job [of "ceSort env" e job "lookupPolicy (coPolicyCache opts) job" "Some (healthSnapshot st)" "reqStream req"]
  by (auto simp: routeRequest_def cacheProbe_def Let_def split: prod.splits option.splits if_splits)

lemma routeRequest_fresh:
  assumes "routeRequest env opts e req job st = (ro, st')" and "csCache st = None \<or> \<not> Cacheable (Some job)"
  shows "Decide (ceSort env) e job (lookupPolicy (coPolicyCache opts) job) (Some (healthSnapshot st)) (reqStream req) =
    (roJob ro, roDecision ro, roError ro)"
  using assms by (auto simp: routeRequest_def cacheProbe_def Let_def split: prod.splits)

section \<open>The provider calls of a routed request\<close>

lemma recordAttemptResult_frame [chat_frame, simp]:
  "csCalls (recordAttemptResult opts ck rid meta p m res st) = csCalls st"
  "csAudit (recordAttemptResult opts ck rid meta p m res st) = csAudit st"
  by (simp_all add: recordAttemptResult_def Let_def)

lemma recordAttemptResult_queue:
  obtains a where "csQueue (recordAttemptResult opts ck rid meta p m res st) = map_option (Enqueue (attemptOf a)) (csQueue st)"
    "aeProviderID a = p" "aeAttemptIndex a = 0" "aeRequestID a = rid"
proof -
  let ?e = "\<lambda>err x y act. attemptEvent ck rid meta p m 0 0 err x y act"
  obtain err x y act where "csQueue (recordAttemptResult opts ck rid meta p m res st) =
      map_option (Enqueue (?e err x y act)) (csQueue st)"
    by (simp add: recordAttemptResult_def Let_def)
  moreover obtain a where "?e err x y act = attemptOf a" "aeProviderID a = p" "aeAttemptIndex a = int 0" "aeRequestID a = rid"
    by (rule attemptEvent_attemptOf)
  ultimately show ?thesis by (intro that [of a]) simp_all
qed

lemma completeRouted_trace:
  assumes "completeRouted env opts ro a nreq streaming st = (reply, st')"
  shows "\<exists>n. extends (jRequestID (roJob ro)) 0 [(rdSelectedProvider (roDecision ro), n)] st st' \<and>
    csAudit st' = csAudit st \<and>
    (coContextPipelineEnabled opts \<or> nrModel n = rdProviderModelID (roDecision ro))"
proof -
  let ?d = "roDecision ro" and ?rid = "jRequestID (roJob ro)"
  obtain n1 s1 where pipe: "maybeRunContextPipeline opts (nreq\<lparr>nrModel := rdProviderModelID ?d\<rparr>) (roJob ro) (roPolicy ro) streaming st = (n1, s1)"
    by fastforce
  note s1 = pipeline_frame [of opts "nreq\<lparr>nrModel := rdProviderModelID ?d\<rparr>" "roJob ro" "roPolicy ro" streaming st, unfolded pipe, simplified]
  define n where "n = maybeRunPromptAdapter opts n1 (rdSelectedModel ?d) (rdProviderModelID ?d)"
  define mid where "mid = logCall (rdSelectedProvider ?d) n s1"
  define fin where "fin = recordAttemptResult opts (ceClock env) ?rid (metaOf ro)
      (rdSelectedProvider ?d) (rdSelectedModel ?d) (adComplete a n) mid"
  have "(reply, st') = (case adComplete a n of Inl e \<Rightarrow> writeProviderError e fin
      | Inr resp \<Rightarrow> writeChat resp (setUsageHeaders opts (rdSelectedModel ?d) (rdSelectedProvider ?d) resp fin))"
    unfolding fin_def mid_def n_def assms [symmetric] by (simp add: completeRouted_def pipe Let_def)
  then have "csCalls st' = csCalls fin \<and> csQueue st' = csQueue fin \<and> csAudit st' = csAudit fin"
    by (auto simp: writeProviderError_def writeError_def writeChat_def Let_def split: sum.splits)
  moreover obtain att where "csQueue fin = map_option (Enqueue (attemptOf att)) (csQueue mid)"
    "aeProviderID att = rdSelectedProvider ?d" "aeAttemptIndex att = 0" "aeRequestID att = ?rid"
    unfolding fin_def by (rule recordAttemptResult_queue)
  moreover have "csCalls mid = csCalls st @ [(rdSelectedProvider ?d, n)]" "csQueue mid = csQueue st" "csAudit mid = csAudit st"
    "csCalls fin = csCalls mid" "csAudit fin = csAudit mid"
    by (simp_all add: mid_def fin_def s1)
  moreover have "coContextPipelineEnabled opts \<or> nrModel n = rdProviderModelID ?d"
    using pipeline_off [of opts "nreq\<lparr>nrModel := rdProviderModelID ?d\<rparr>" "roJob ro" "roPolicy ro" streaming st]
    by (cases "coContextPipelineEnabled opts") (simp_all add: n_def pipe)
  ultimately show ?thesis
    unfolding extends_def by (intro exI [of _ n]) (auto intro!: exI [of _ "[att]"] attemptsFor_one)
qed

lemma legacyChunks_frame:
  "legacyChunks ck sent cs st = Inl (out, st') \<Longrightarrow>
   csCalls st' = csCalls st \<and> csQueue st' = csQueue st \<and> csAudit st' = csAudit st \<and> csHealth st' = csHealth st"
  by (induction ck sent cs st arbitrary: out st' rule: legacyChunks.induct)
    (fastforce split: option.splits if_splits sum.splits simp: Let_def)+

lemma streamChatCompletion_trace:
  assumes "streamChatCompletion opts env p nreq st = (reply, st')"
  shows "\<exists>calls. csCalls st' = csCalls st @ calls \<and> calls \<in> {[], [(adName p, nreq)]} \<and> csQueue st' = csQueue st \<and>
    csAudit st' = csAudit st \<and> csHealth st' = csHealth st"
  using assms
  by (auto simp: streamChatCompletion_def writeError_def writeProviderError_def sseReply_def Let_def
      dest!: legacyChunks_frame split: if_splits option.splits sum.splits prod.splits)

lemma legacyPath_calls:
  assumes "legacyPath opts env p job nreq False st = (reply, st')"
  shows "\<exists>n. csCalls st' = csCalls st @ [(adName p, n)] \<and> (coContextPipelineEnabled opts \<or> nrModel n = nrModel nreq) \<and>
    csQueue st' = csQueue st \<and> csAudit st' = csAudit st \<and> csHealth st' = csHealth st"
proof -
  let ?pol = "lookupPolicy (coPolicyCache opts) job"
  obtain n1 s1 where pipe: "maybeRunContextPipeline opts nreq job ?pol False st = (n1, s1)" by fastforce
  note s1 = pipeline_frame [of opts nreq job ?pol False st, unfolded pipe, simplified]
  define n where "n = maybeRunPromptAdapter opts n1 (nrModel n1) (nrModel n1)"
  have "(reply, st') = (case adComplete p n of Inl e \<Rightarrow> writeProviderError e (logCall (adName p) n s1)
      | Inr None \<Rightarrow> panicReply (logCall (adName p) n s1)
      | Inr (Some r) \<Rightarrow> writeChat (Some r) (setHeader ''X-Router-Selected-Model'' (respModel r)
          (setHeader ''Content-Type'' ''application/json'' (logCall (adName p) n s1))))"
    unfolding n_def assms [symmetric] by (simp add: legacyPath_def pipe Let_def)
  then have "csCalls st' = csCalls st @ [(adName p, n)] \<and> csQueue st' = csQueue st \<and> csAudit st' = csAudit st \<and>
      csHealth st' = csHealth st"
    by (auto simp: writeProviderError_def writeError_def writeChat_def panicReply_def Let_def s1
        split: sum.splits option.splits)
  moreover have "coContextPipelineEnabled opts \<or> nrModel n = nrModel nreq"
    using pipeline_off [of opts nreq job ?pol False st]
    by (cases "coContextPipelineEnabled opts") (simp_all add: n_def pipe)
  ultimately show ?thesis by (intro exI [of _ n]) simp
qed

lemma legacyPath_trace:
  assumes "legacyPath opts env p job nreq streaming st = (reply, st')"
  shows "\<exists>calls. csCalls st' = csCalls st @ calls \<and> length calls \<le> 1 \<and>
    (\<forall>c \<in> set calls. fst c = adName p \<and> (coContextPipelineEnabled opts \<or> nrModel (snd c) = nrModel nreq)) \<and>
    csQueue st' = csQueue st \<and> csAudit st' = csAudit st \<and> csHealth st' = csHealth st"
proof (cases streaming)
  case True
  with assms streamChatCompletion_trace [of opts env p nreq st reply st'] show ?thesis
    by (auto simp: legacyPath_def)
next
  case False
  with assms legacyPath_calls [of opts env p job nreq st reply st'] show ?thesis by fastforce
qed

text \<open>The provider and provider model of a decision and of each of its fallbacks.\<close>

definition decTargets :: "RouteDecision \<Rightarrow> (string \<times> string) list" where
  "decTargets dec = (rdSelectedProvider dec, rdProviderModelID dec) #
     map (\<lambda>fb. (feProviderID fb, feProviderModelID fb)) (rdFallbacks dec)"

lemma streamAdd_targets: "c \<in> set (streamAdd adapters p pm m) \<Longrightarrow> (scaProviderID c, scaProviderModelID c) = (p, pm)"
  by (auto simp: streamAdd_def split: option.splits)

lemma buildStreamCandidates_targets:
  "c \<in> set (buildStreamCandidates dec adapters) \<Longrightarrow> (scaProviderID c, scaProviderModelID c) \<in> set (decTargets dec)"
  by (auto simp: buildStreamCandidates_def decTargets_def dest: streamAdd_targets)

lemma streamWithFallback_trace:
  assumes "streamWithFallback opts env ro cs nreq st = (reply, st')"
  shows "\<exists>k. extends (jRequestID (roJob ro)) 0 (map (streamCall nreq) (take k cs)) st st' \<and> csAudit st' = csAudit st"
proof (cases "coFlushes opts")
  case True
  with assms have "streamLoop opts (ceClock env) (jRequestID (roJob ro)) (metaOf ro) nreq 0 cs st = (reply, st')"
    by (simp add: streamWithFallback_def)
  from streamLoop_trace [OF this] show ?thesis by blast
next
  case False
  with assms show ?thesis
    by (intro exI [of _ 0]) (auto simp: streamWithFallback_def writeError_def Let_def intro: extends_none)
qed

lemma dispatchRouted_trace:
  assumes "dispatchRouted opts env p ro nreq streaming st = (reply, st')"
  shows "\<exists>calls. extends (jRequestID (roJob ro)) 0 calls st st' \<and> csAudit st' = csAudit st \<and>
    (mget (coAdapters opts) (rdSelectedProvider (roDecision ro)) = None \<or>
     (\<forall>(prov, n) \<in> set calls. \<exists>pm. (prov, pm) \<in> set (decTargets (roDecision ro)) \<and>
        (coContextPipelineEnabled opts \<or> nrModel n = pm)))"
proof -
  define cs where "cs = (if streaming then buildStreamCandidates (roDecision ro) (coAdapters opts) else [])"
  define nr where "nr = nreq\<lparr>nrModel := scaProviderModelID (hd cs)\<rparr>"
  from assms consider (stream) "streamWithFallback opts env ro cs nr st = (reply, st')"
    | (complete) a where "mget (coAdapters opts) (rdSelectedProvider (roDecision ro)) = Some a"
        "completeRouted env opts ro a nreq streaming st = (reply, st')"
    | (legacy) "mget (coAdapters opts) (rdSelectedProvider (roDecision ro)) = None"
        "legacyPath opts env p (roJob ro) nreq streaming st = (reply, st')"
    unfolding dispatchRouted_def Let_def cs_def [symmetric] nr_def [symmetric] by (cases "cs = []") (auto split: option.splits)
  then show ?thesis
  proof cases
    case stream
    from streamWithFallback_trace [OF this] obtain k where
      "extends (jRequestID (roJob ro)) 0 (map (streamCall nr) (take k cs)) st st'" "csAudit st' = csAudit st" by blast
    moreover have "\<exists>pm. (prov, pm) \<in> set (decTargets (roDecision ro)) \<and> nrModel n = pm"
      if "(prov, n) \<in> set (map (streamCall nr) (take k cs))" for prov n
    proof -
      from that obtain c where "c \<in> set cs" "(prov, n) = streamCall nr c" by (auto dest: in_set_takeD)
      then show ?thesis
        using buildStreamCandidates_targets [of c "roDecision ro" "coAdapters opts"]
        by (auto simp: streamCall_def streamRequest_def cs_def split: if_splits)
    qed
    ultimately show ?thesis by blast
  next
    case complete
    from completeRouted_trace [OF this(2)] show ?thesis by (fastforce simp: decTargets_def)
  next
    case legacy
    from legacyPath_trace [OF this(2)] legacy(1) show ?thesis by (blast intro: extends_none)
  qed
qed

lemma Decide_targets_admitted:
  assumes srt: "slice_sorter srt" and sn: "storeGet (enRegistry e) = Inr sn" and inv: "snapshot_inv sn"
    and mode: "jRouterMode job \<noteq> RouterModeDisabled"
    and ok: "snd (Decide srt e job pol health streaming) = (dec, None)"
    and t: "(prov, pm) \<in> set (decTargets dec)"
  shows "\<exists>m. mget (models sn) (mID m) = Some m \<and> mProviderID m = prov \<and> mProviderModelID m = pm \<and>
    lists_admit (rtConstraints (evRoute (evaluatePolicy pol job))) m"
proof (cases "routed e job pol")
  case True
  note dec = Decide_routed [OF True sn ok]
  from decideRouted_selected [OF srt inv dec] decideRouted_fallbacks [OF srt inv dec] t show ?thesis
    by (fastforce simp: decTargets_def fallbackEntry_def routable_def admissible_def)
next
  case False
  then obtain ref src where pinned: "decidePinned ref src (job\<lparr>jConservative := conservativeForJob e job\<rparr>)
      (evaluatePolicy pol job) (Some sn) = (dec, None)"
    using ok sn mode
    by (auto simp: Decide_def routed_def Let_def decideBlocked_def split: option.splits if_splits)
  then have "rdFallbacks dec = []"
    by (auto simp: decidePinned_def zeroDecision_def Let_def split: option.splits if_splits)
  with t have "prov = rdSelectedProvider dec" "pm = rdProviderModelID dec" by (simp_all add: decTargets_def)
  moreover obtain m where "mget (models sn) (rdSelectedModel dec) = Some m" "rdSelectedProvider dec = mProviderID m"
    "rdProviderModelID dec = mProviderModelID m" "lists_admit (rtConstraints (evRoute (evaluatePolicy pol job))) m"
    using decidePinned_lists [OF inv pinned] by blast
  moreover from this(1) snapshot_inv_model [OF inv] have "mID m = rdSelectedModel dec" by (auto simp: model_ok_def)
  ultimately show ?thesis by (intro exI [of _ m]) simp
qed

section \<open>The handler\<close>

definition routesRequest :: "ChatOptions \<Rightarrow> Engine \<Rightarrow> ChatRequest \<Rightarrow> bool" where
  "routesRequest opts e req \<longleftrightarrow> coEngine opts = Some e \<and> coAdapters opts \<noteq> [] \<and> reqMessages req \<noteq> []"

lemma ChatCompletions_routes:
  "routesRequest opts e req \<Longrightarrow> ChatCompletions opts env p caller (Inr req) st =
     serveRouted opts env p e req (jobOf caller req) (logPrompt opts (jobOf caller req) req st)"
  by (simp add: routesRequest_def ChatCompletions_def Let_def)

lemma jobOf_requestID [simp]: "jRequestID (jobOf caller req) = caRequestID caller"
  by (simp add: jobOf_def NewJobDescriptor_def baseJob_def Let_def)

lemma serveRouted_unblocked:
  assumes "\<not> budgetBlocks opts job" and "serveRouted opts env p e req job st = (reply, st')"
  obtains mid ro routedSt where
    "csCalls mid = csCalls st" "csQueue mid = csQueue st" "csHealth mid = csHealth st"
    "csAudit mid = csAudit st" "csCache mid = csCache st"
    "routeRequest env opts e req (budgeted opts job) mid = (ro, routedSt)"
    "(reply, st') = (case roError ro of Some err \<Rightarrow> writeRouteError env ro err routedSt
       | None \<Rightarrow> dispatchRouted opts env p ro (NormalizeChatRequest (Some req)) (reqStream req) (decisionHeaders ro routedSt))"
proof -
  from assms(1) obtain mid where "applyBudget opts job st = Inr (budgeted opts job, mid)"
    "csCalls mid = csCalls st" "csQueue mid = csQueue st" "csHealth mid = csHealth st"
    "csAudit mid = csAudit st" "csCache mid = csCache st" by (rule applyBudget_passes)
  moreover obtain ro routedSt where "routeRequest env opts e req (budgeted opts job) mid = (ro, routedSt)" by fastforce
  ultimately show ?thesis
    using assms(2) by (intro that [of mid ro routedSt]) (simp_all add: serveRouted_def split: option.splits)
qed

lemma writeRouteError_frame [chat_frame, simp]:
  "csCalls (snd (writeRouteError env ro err st)) = csCalls st" "csQueue (snd (writeRouteError env ro err st)) = csQueue st"
  by (simp_all add: writeRouteError_def split: engine_error.split)

lemma serveRouted_trace:
  assumes blocks: "\<not> budgetBlocks opts job" and run: "serveRouted opts env p e req job st = (reply, st')"
  obtains ro mid midd calls shadow where
    "csCalls mid = csCalls st" "csHealth mid = csHealth st" "csCache mid = csCache st"
    "routeRequest env opts e req (budgeted opts job) mid = (ro, midd)" "jRequestID (roJob ro) = jRequestID job"
    "csQueue midd = map_option (Enqueue (decisionEvent (ceClock env) (roJob ro) (roDecision ro) shadow)) (csQueue st)"
    "csCalls midd = csCalls st" "extends (jRequestID job) 0 calls midd st'"
    "calls = [] \<or> roError ro = None"
    "mget (coAdapters opts) (rdSelectedProvider (roDecision ro)) = None \<or>
     (\<forall>(prov, n) \<in> set calls. \<exists>pm. (prov, pm) \<in> set (decTargets (roDecision ro)) \<and>
        (coContextPipelineEnabled opts \<or> nrModel n = pm))"
proof -
  from blocks run obtain mid ro midd where mid: "csCalls mid = csCalls st" "csQueue mid = csQueue st"
      "csHealth mid = csHealth st" "csCache mid = csCache st"
    and route: "routeRequest env opts e req (budgeted opts job) mid = (ro, midd)"
    and goes: "(reply, st') = (case roError ro of Some err \<Rightarrow> writeRouteError env ro err midd
       | None \<Rightarrow> dispatchRouted opts env p ro (NormalizeChatRequest (Some req)) (reqStream req) (decisionHeaders ro midd))"
    by (rule serveRouted_unblocked)
  from routeRequest_frame [OF route] mid obtain shadow where frame: "csCalls midd = csCalls st"
    "csQueue midd = map_option (Enqueue (decisionEvent (ceClock env) (roJob ro) (roDecision ro) shadow)) (csQueue st)"
    "jRequestID (roJob ro) = jRequestID job" by auto
  have "\<exists>calls. extends (jRequestID job) 0 calls midd st' \<and> (calls = [] \<or> roError ro = None) \<and>
    (mget (coAdapters opts) (rdSelectedProvider (roDecision ro)) = None \<or>
     (\<forall>(prov, n) \<in> set calls. \<exists>pm. (prov, pm) \<in> set (decTargets (roDecision ro)) \<and>
        (coContextPipelineEnabled opts \<or> nrModel n = pm)))"
  proof (cases "roError ro")
    case None
    with goes have "dispatchRouted opts env p ro (NormalizeChatRequest (Some req)) (reqStream req) (decisionHeaders ro midd) = (reply, st')"
      by simp
    from dispatchRouted_trace [OF this] obtain calls where "extends (jRequestID job) 0 calls (decisionHeaders ro midd) st'"
      "mget (coAdapters opts) (rdSelectedProvider (roDecision ro)) = None \<or>
       (\<forall>(prov, n) \<in> set calls. \<exists>pm. (prov, pm) \<in> set (decTargets (roDecision ro)) \<and>
          (coContextPipelineEnabled opts \<or> nrModel n = pm))" unfolding frame(3) by blast
    with None show ?thesis by (intro exI [of _ calls]) (simp add: extends_def)
  next
    case (Some err)
    with goes writeRouteError_frame [of env ro err midd] have "csCalls st' = csCalls midd" "csQueue st' = csQueue midd"
      by (metis option.simps(5) snd_conv)+
    then show ?thesis by (intro exI [of _ "[]"]) (simp add: extends_none)
  qed
  with mid route frame that show ?thesis by blast
qed

text \<open>The providers a routed request reaches.\<close>

lemma chat_calls_admitted:
  assumes "slice_sorter (ceSort env)" and sn: "storeGet (enRegistry e) = Inr sn" and inv: "snapshot_inv sn"
    and routes: "routesRequest opts e req" and blocks: "\<not> budgetBlocks opts (jobOf caller req)"
    and mode: "jRouterMode (jobOf caller req) \<noteq> RouterModeDisabled"
    and job: "job = budgeted opts (jobOf caller req)"
    and fresh: "csCache st = None \<or> \<not> Cacheable (Some job)"
    and adapters: "\<And>m. mget (models sn) (mID m) = Some m \<Longrightarrow> mget (coAdapters opts) (mProviderID m) \<noteq> None"
    and run: "ChatCompletions opts env p caller (Inr req) st = (reply, st')"
  shows "\<exists>calls. csCalls st' = csCalls st @ calls \<and>
    (\<forall>(prov, n) \<in> set calls. \<exists>m. mget (models sn) (mID m) = Some m \<and> mProviderID m = prov \<and>
      lists_admit (rtConstraints (evRoute (evaluatePolicy (lookupPolicy (coPolicyCache opts) job) job))) m \<and>
      (coContextPipelineEnabled opts \<or> nrModel n = mProviderModelID m))"
proof -
  from run have "serveRouted opts env p e req (jobOf caller req) (logPrompt opts (jobOf caller req) req st) = (reply, st')"
    by (simp add: ChatCompletions_routes [OF routes])
  with blocks obtain ro mid midd calls shadow where
    mid: "csCache mid = csCache (logPrompt opts (jobOf caller req) req st)"
    and route: "routeRequest env opts e req (budgeted opts (jobOf caller req)) mid = (ro, midd)"
    and c: "csCalls midd = csCalls (logPrompt opts (jobOf caller req) req st)" "extends (jRequestID (jobOf caller req)) 0 calls midd st'"
    and err: "calls = [] \<or> roError ro = None"
    and targets: "mget (coAdapters opts) (rdSelectedProvider (roDecision ro)) = None \<or>
      (\<forall>(prov, n) \<in> set calls. \<exists>pm. (prov, pm) \<in> set (decTargets (roDecision ro)) \<and>
        (coContextPipelineEnabled opts \<or> nrModel n = pm))"
    by (rule serveRouted_trace)
  let ?admitted = "\<lambda>prov pm m. mget (models sn) (mID m) = Some m \<and> mProviderID m = prov \<and> mProviderModelID m = pm \<and>
    lists_admit (rtConstraints (evRoute (evaluatePolicy (lookupPolicy (coPolicyCache opts) job) job))) m"
  from mid fresh have "csCache mid = None \<or> \<not> Cacheable (Some (budgeted opts (jobOf caller req)))" by (simp add: job)
  note dec = routeRequest_fresh [OF route this, folded job]
  have admitted: "\<exists>m. ?admitted prov pm m" if "roError ro = None" "(prov, pm) \<in> set (decTargets (roDecision ro))" for prov pm
  proof -
    have "jRouterMode job \<noteq> RouterModeDisabled" unfolding job by (rule budgeted_mode [OF mode])
    moreover have "snd (Decide (ceSort env) e job (lookupPolicy (coPolicyCache opts) job) (Some (healthSnapshot mid))
        (reqStream req)) = (roDecision ro, None)" by (simp add: dec that)
    ultimately show ?thesis by (rule Decide_targets_admitted [OF assms(1) sn inv _ _ that(2)])
  qed
  have "\<exists>m. mget (models sn) (mID m) = Some m \<and> mProviderID m = prov \<and>
      lists_admit (rtConstraints (evRoute (evaluatePolicy (lookupPolicy (coPolicyCache opts) job) job))) m \<and>
      (coContextPipelineEnabled opts \<or> nrModel n = mProviderModelID m)"
    if "(prov, n) \<in> set calls" for prov n
  proof -
    from that err have ok: "roError ro = None" by auto
    have "(rdSelectedProvider (roDecision ro), rdProviderModelID (roDecision ro)) \<in> set (decTargets (roDecision ro))"
      by (simp add: decTargets_def)
    from admitted [OF ok this] obtain m where m: "mget (models sn) (mID m) = Some m"
      "mProviderID m = rdSelectedProvider (roDecision ro)" by blast
    have "mget (coAdapters opts) (rdSelectedProvider (roDecision ro)) \<noteq> None"
      using adapters [OF m(1)] unfolding m(2) .
    with targets that obtain pm where pm: "(prov, pm) \<in> set (decTargets (roDecision ro))"
      "coContextPipelineEnabled opts \<or> nrModel n = pm" by fastforce
    from admitted [OF ok pm(1)] pm(2) show ?thesis by blast
  qed
  moreover have "csCalls st' = csCalls st @ calls"
    using c by (simp add: extends_def)
  ultimately show ?thesis by blast
qed


section \<open>Properties\<close>


text \<open>A deployment that serves every provider of the built-in registry, under the policy that denies \<open>openai\<close>.\<close>

definition echoAdapter :: "string \<Rightarrow> Adapter" where
  "echoAdapter name = \<lparr>adName = name, adComplete = (\<lambda>n. Inr None), adStream = None\<rparr>"

definition demoOptions :: ChatOptions where
  "demoOptions = \<lparr>coContextPipeline = None, coContextPipelineEnabled = False, coPromptAdapter = None,
     coEngine = Some defaultEngine, coAdapters = map (\<lambda>(k, v). (k, echoAdapter k)) (providers defaultSnap),
     coPolicyCache = Some \<lparr>active = [(\<lparr>scTenantID = [], scProjectID = []\<rparr>, denyOpenAI)], auditor = None\<rparr>,
     coShadowPolicyCache = None, coRetention = None, coBudget = None, coRegistryVersion = ''v1'', coFlushes = True\<rparr>"

definition demoEnv :: ChatEnv where
  "demoEnv = \<lparr>ceSort = insertion_sort, ceSha = (\<lambda>s. s), ceSprint = (\<lambda>v. []),
     ceClock = \<lparr>ckNow = 0, ckRoutingMs = 0, ckRoutingMicros = 0, ckFirstTokenMs = (\<lambda>i. 0), ckDurationMs = (\<lambda>i. 0)\<rparr>\<rparr>"

definition demoRequest :: ChatRequest where
  "demoRequest = zeroRequest\<lparr>reqModel := ''claude-sonnet-4'', reqMessages := [\<lparr>msgRole = ''user'', msgContent = ''hi''\<rparr>]\<rparr>"

definition demoCaller :: Caller where
  "demoCaller = \<lparr>caRequestID = ''r'', caTenant = Some (Some \<lparr>tID = ''t'', tProject = ''p'', tKeyID = ''k'',
     tRole = RoleUser, tScopes = [ScopeChatCompletions]\<rparr>), caHeaders = []\<rparr>"

definition demoState :: ChatState where
  "demoState = \<lparr>csQueue = Some (NewQueue 8), csHealth = None, csCache = None, csAudit = None, csHeaders = [],
     csCalls = [], csPromptLog = []\<rparr>"

abbreviation demoJob :: JobDescriptor where
  "demoJob \<equiv> jobOf demoCaller demoRequest"

lemma demo_engine [simp]: "coEngine demoOptions = Some defaultEngine" "coBudget demoOptions = None"
  by (simp_all add: demoOptions_def)

lemma demo_budget [simp]: "\<not> budgetBlocks demoOptions job" "budgeted demoOptions job = job"
  by (simp_all add: budgetBlocks_def budgeted_def)

lemma demo_providers: "providers defaultSnap \<noteq> []"
  by code_simp

lemma demo_routes: "routesRequest demoOptions defaultEngine demoRequest"
  by (simp add: routesRequest_def demoOptions_def demoRequest_def demo_providers)

lemma demo_job: "jRouterMode demoJob = RouterModeAuto" "jExplicitModel demoJob = Some ''claude-sonnet-4''"
  "jTenantID demoJob = ''t''" "jProjectID demoJob = ''p''"
  by (simp_all add: jobOf_def NewJobDescriptor_def Let_def demoCaller_def demoRequest_def zeroRequest_def
      firstString.simps metadataString_def headerString_def override_def parseRouterMode_def parseIn_def)

lemma demo_policy: "lookupPolicy (coPolicyCache demoOptions) demoJob = Some denyOpenAI"
  by (simp add: lookupPolicy_def demoOptions_def Active_def demo_job mget_def Let_def)

lemma demo_adapters: "mget (models defaultSnap) (mID m) = Some m \<Longrightarrow> mget (coAdapters demoOptions) (mProviderID m) \<noteq> None"
proof -
  assume "mget (models defaultSnap) (mID m) = Some m"
  with snapshot_inv_model [OF defaultSnap_inv] have "mget (providers defaultSnap) (mProviderID m) \<noteq> None"
    by (auto simp: model_ok_def)
  moreover have "mget (map (\<lambda>(k, v). (k, echoAdapter k)) ps) i \<noteq> None" if "mget ps i \<noteq> None" for ps :: "(string, Provider) gomap" and i
    using that by (induction ps) (auto simp: mget_def split: if_splits)
  ultimately show ?thesis by (simp add: demoOptions_def)
qed

lemma denyOpenAI_lists:
  assumes "lists_admit (rtConstraints (evRoute (evaluatePolicy (Some denyOpenAI) job))) m"
  shows "mProviderID m \<noteq> ''openai''"
proof -
  have "matcherMatches (crMatcher (hd (cpRules denyOpenAI))) (evaluationInput job)"
    by (simp add: denyOpenAI_def oneRule_def matcherMatches_def)
  then have "map_option cDeniedProviders (rtConstraints (evRoute (evaluatePolicy (Some denyOpenAI) job))) = Some [''openai'']"
    by (simp add: evaluatePolicy_def Evaluate_def denyOpenAI_def oneRule_def Let_def applyRule_def mergeRoute_def
        zeroRoute_def zeroEvaluation_def mergeConstraints_def cloneConstraints_def zeroConstraints_def)
  with assms show ?thesis by (auto simp: lists_admit_def)
qed


text \<open>
  C6: a request over a blocking budget cap is answered 402 and costs nothing: no provider is
  called, no event is queued, nothing is recorded in the health tracker, the decision cache or the
  audit trail.
\<close>

theorem chat_budget_blocks:
  assumes "routesRequest opts e req" and "budgetBlocks opts (jobOf caller req)"
    and "ChatCompletions opts env p caller (Inr req) st = (reply, st')"
  shows "reStatus reply = 402 \<and> (\<exists>m. reBody reply = [ErrorEnvelope ''budget_exceeded'' m]) \<and>
    csCalls st' = csCalls st \<and> csQueue st' = csQueue st \<and> csHealth st' = csHealth st \<and>
    csCache st' = csCache st \<and> csAudit st' = csAudit st"
proof -
  let ?st = "logPrompt opts (jobOf caller req) req st"
  from assms(2) obtain m where "applyBudget opts (jobOf caller req) ?st = Inl (writeError 402 ''budget_exceeded'' m ?st)"
    by (auto simp: applyBudget_def budgetBlocks_def Let_def split: option.splits)
  with assms(3) have "(reply, st') = writeError 402 ''budget_exceeded'' m ?st"
    by (simp add: ChatCompletions_routes [OF assms(1)] serveRouted_def)
  with writeError_frame [of 402 "''budget_exceeded''" m ?st] show ?thesis
    by (metis fst_conv logPrompt_frame snd_conv)
qed

definition spentBudget :: BudgetEvaluator where
  "spentBudget = \<lparr>evCaps = Some (SetTenant ''t'' \<lparr>capLimitMicroUSD = 5, capWarnThreshold = 0, capAction = ActionBlock\<rparr> NewCaps),
     evLedger = Some (ledgerAdd ''t'' ''p'' 10 NewLedger)\<rparr>"

lemma chat_budget_blocks_witness:
  "\<exists>reply st'. ChatCompletions (demoOptions\<lparr>coBudget := Some spentBudget\<rparr>) demoEnv (echoAdapter ''openai'') demoCaller
      (Inr demoRequest) demoState = (reply, st') \<and> reStatus reply = 402 \<and> csCalls st' = []"
proof -
  let ?opts = "demoOptions\<lparr>coBudget := Some spentBudget\<rparr>"
  have routes: "routesRequest ?opts defaultEngine demoRequest"
    using demo_routes by (simp add: routesRequest_def)
  have "vBlocked (budgetCheck (Some spentBudget) ''t'' ''p'')" by code_simp
  then have blocks: "budgetBlocks ?opts demoJob" by (simp add: budgetBlocks_def demo_job)
  obtain reply st' where run: "ChatCompletions ?opts demoEnv (echoAdapter ''openai'') demoCaller (Inr demoRequest) demoState = (reply, st')"
    by fastforce
  from chat_budget_blocks [OF routes blocks run] run show ?thesis by (simp add: demoState_def)
qed


lemma blockAll_route: "rtBlock (evRoute (evaluatePolicy (Some blockAll) job)) = Some zeroBlock \<and> evBlocked (evaluatePolicy (Some blockAll) job)"
proof -
  have "matcherMatches (crMatcher (hd (cpRules blockAll))) (evaluationInput job)"
    by (simp add: blockAll_def oneRule_def matcherMatches_def)
  then show ?thesis
    by (simp add: evaluatePolicy_def Evaluate_def blockAll_def oneRule_def Let_def applyRule_def mergeRoute_def
        zeroRoute_def zeroEvaluation_def)
qed




text \<open>
  C3: a streamed reply comes from one source. Let \<open>k\<close> be the number of candidates, in the order of
  the decision, that fail before the client has been sent anything. Exactly the candidates up to
  and including the next one are called, each with its own model name; each of the \<open>k\<close> is
  recorded as a failure in the health tracker, in order, and then the outcome of the next; what the
  client gets is the stream of that one alone, with status 200. When all fail the client gets one
  error reply and nothing of a stream.
\<close>

theorem stream_has_one_source:
  assumes "streamWithFallback opts env ro cs nreq st = (reply, st')" and "coFlushes opts"
    and "k = servingIndex 0 nreq cs"
  shows "csCalls st' = csCalls st @ map (streamCall nreq) (take (Suc k) cs) \<and>
    csHealth st' = map_option (\<lambda>t. finalHealth k nreq (drop k cs)
      (fold RecordFailure (map scaProviderID (take k cs)) t)) (csHealth st) \<and>
    (\<forall>j < k. passedOver (attemptStream j (cs ! j) (streamRequest nreq (cs ! j)))) \<and>
    (if k < length cs
     then reStatus reply = 200 \<and> \<not> passedOver (attemptStream k (cs ! k) (streamRequest nreq (cs ! k))) \<and>
       reBody reply = sentBody (attemptStream k (cs ! k) (streamRequest nreq (cs ! k)))
     else 400 \<le> reStatus reply \<and> (\<exists>c m. reBody reply = [ErrorEnvelope c m]))"
proof -
  from assms(1,2) have "streamLoop opts (ceClock env) (jRequestID (roJob ro)) (metaOf ro) nreq 0 cs st = (reply, st')"
    by (simp add: streamWithFallback_def)
  from streamLoop_trace [OF this] servingIndex_passed [of _ 0 nreq cs] servingIndex_serves [of 0 nreq cs]
  show ?thesis by (simp add: assms(3))
qed

text \<open>A provider that times out and one that sends a word.\<close>

definition slowSource :: streamCandidate where
  "slowSource = \<lparr>scaAdapter = (\<lambda>i n. Inr (TimerFirst, [])), scaProviderModelID = ''a1'', scaModelID = ''a'', scaProviderID = ''pa''\<rparr>"

definition goodSource :: streamCandidate where
  "goodSource = \<lparr>scaAdapter = (\<lambda>i n. Inr (ChannelFirst,
      [\<lparr>chData = ''hello'', chDone = False, chErr = None, chInputTokens = 0, chOutputTokens = 0\<rparr>])),
     scaProviderModelID = ''b1'', scaModelID = ''b'', scaProviderID = ''pb''\<rparr>"

lemma stream_has_one_source_witness:
  "\<exists>reply st'. streamWithFallback demoOptions demoEnv
      \<lparr>roJob = demoJob, roPolicy = None, roDecision = zeroDecision, roError = None\<rparr> [slowSource, goodSource, slowSource]
      zeroNormalized demoState = (reply, st') \<and>
    map fst (csCalls st') = [''pa'', ''pb''] \<and> reBody reply = [SseData ''hello'']"
proof -
  let ?ro = "\<lparr>roJob = demoJob, roPolicy = None, roDecision = zeroDecision, roError = None\<rparr>"
  let ?cs = "[slowSource, goodSource, slowSource]"
  obtain reply st' where run: "streamWithFallback demoOptions demoEnv ?ro ?cs zeroNormalized demoState = (reply, st')"
    by fastforce
  have slow: "attemptStream i slowSource n = NextCandidate (provider_error.PErr [ErrProviderTimeout] ''provider_timeout'')" for i n
    by (simp add: attemptStream_def slowSource_def)
  have good: "attemptStream i goodSource n = Streamed [SseData ''hello''] (0, 0) None" for i n
    by (simp add: attemptStream_def goodSource_def seenUsage_def sseChunk_def)
  have k: "1 = servingIndex 0 zeroNormalized ?cs" by (simp add: slow good)
  have "coFlushes demoOptions" by (simp add: demoOptions_def)
  from stream_has_one_source [OF run this k] run show ?thesis
    by (simp add: good streamCall_def demoState_def slowSource_def [THEN arg_cong [of _ _ scaProviderID]]
        goodSource_def [THEN arg_cong [of _ _ scaProviderID]])
qed

text \<open>
  when the provider that a decision selects has no adapter (as in disabled mode, whose
  decisions name no provider), a request that is not streamed goes to the default provider, under
  the model name that the client sent, whatever the decision and the policy say of that provider.
\<close>

theorem chat_without_adapter:
  assumes routes: "routesRequest opts e req" and budget: "\<not> budgetBlocks opts (jobOf caller req)"
    and job: "job = budgeted opts (jobOf caller req)"
    and fresh: "csCache st = None \<or> \<not> Cacheable (Some job)"
    and dec: "snd (Decide (ceSort env) e job (lookupPolicy (coPolicyCache opts) job) (Some (healthSnapshot st)) False) = (dec, None)"
    and stream: "\<not> reqStream req" and none: "mget (coAdapters opts) (rdSelectedProvider dec) = None"
    and run: "ChatCompletions opts env p caller (Inr req) st = (reply, st')"
  shows "\<exists>n. csCalls st' = csCalls st @ [(adName p, n)] \<and> (coContextPipelineEnabled opts \<or> nrModel n = reqModel req)"
proof -
  let ?ls = "logPrompt opts (jobOf caller req) req st"
  from run have "serveRouted opts env p e req (jobOf caller req) ?ls = (reply, st')"
    by (simp add: ChatCompletions_routes [OF routes])
  with budget obtain mid ro midd where mid: "csCalls mid = csCalls ?ls" "csHealth mid = csHealth ?ls" "csCache mid = csCache ?ls"
    and route: "routeRequest env opts e req (budgeted opts (jobOf caller req)) mid = (ro, midd)"
    and goes: "(reply, st') = (case roError ro of Some err \<Rightarrow> writeRouteError env ro err midd
       | None \<Rightarrow> dispatchRouted opts env p ro (NormalizeChatRequest (Some req)) (reqStream req) (decisionHeaders ro midd))"
    by (rule serveRouted_unblocked)
  have "csCache mid = None \<or> \<not> Cacheable (Some (budgeted opts (jobOf caller req)))" using mid(3) fresh by (simp add: job)
  note decided = routeRequest_fresh [OF route this, folded job]
  have "healthSnapshot mid = healthSnapshot st" using mid(2) by (simp add: healthSnapshot_def)
  with decided dec stream have "roDecision ro = dec" "roError ro = None" by auto
  with goes none stream have "legacyPath opts env p (roJob ro) (NormalizeChatRequest (Some req)) False (decisionHeaders ro midd) = (reply, st')"
    by (simp add: dispatchRouted_def)
  from legacyPath_calls [OF this] routeRequest_frame(1) [OF route] mid(1) show ?thesis
    by (auto simp: NormalizeChatRequest_def)
qed

definition bypassRequest :: ChatRequest where
  "bypassRequest = zeroRequest\<lparr>reqModel := ''gpt-4.1'', reqMessages := [\<lparr>msgRole = ''user'', msgContent = ''hi''\<rparr>],
     reqMetadata := [(''router_mode'', AStr ''disabled'')]\<rparr>"

lemma trim_disabled: "TrimSpace RouterModeDisabled = RouterModeDisabled"
  by code_simp

lemma bypass_job: "jRouterMode (jobOf demoCaller bypassRequest) = RouterModeDisabled"
  "jExplicitModel (jobOf demoCaller bypassRequest) = Some ''gpt-4.1''"
  "jTenantID (jobOf demoCaller bypassRequest) = ''t''" "jProjectID (jobOf demoCaller bypassRequest) = ''p''"
  by (simp_all add: jobOf_def NewJobDescriptor_def Let_def demoCaller_def bypassRequest_def zeroRequest_def
      firstString.simps metadataString_def headerString_def override_def parseRouterMode_def parseIn_def
      mget_def anyString_def trim_disabled)

lemma decideDisabled_no_provider:
  "decideDisabled job pol snap = (dec, None) \<Longrightarrow> rdSelectedProvider dec = []"
  by (auto simp: decideDisabled_def zeroDecision_def Let_def split: option.splits if_splits)

lemma denyOpenAI_constraints:
  "map_option (\<lambda>c. (cAllowedProviders c, cAllowedModels c, cDeniedProviders c, cDeniedModels c))
     (rtConstraints (evRoute (evaluatePolicy (Some denyOpenAI) job))) = Some ([], [], [''openai''], [])"
  by (simp add: evaluatePolicy_def Evaluate_def denyOpenAI_def oneRule_def matcherMatches_def Let_def applyRule_def
      mergeRoute_def zeroRoute_def zeroEvaluation_def mergeConstraints_def cloneConstraints_def zeroConstraints_def)

lemma chat_without_adapter_witness:
  "\<exists>reply st' n. ChatCompletions demoOptions demoEnv (echoAdapter ''openai'') demoCaller (Inr bypassRequest) demoState = (reply, st') \<and>
    csCalls st' = [(''openai'', n)] \<and> nrModel n = ''gpt-4.1''"
proof -
  let ?job = "jobOf demoCaller bypassRequest"
  have pol: "lookupPolicy (coPolicyCache demoOptions) ?job = Some denyOpenAI"
    by (simp add: lookupPolicy_def demoOptions_def Active_def bypass_job mget_def Let_def)
  have "snapModel (Some defaultSnap) ''gpt-4.1'' = None" by code_simp
  then have "providerModelConstraintReason (zeroModel\<lparr>mID := ''gpt-4.1'', mProviderModelID := ''gpt-4.1''\<rparr>)
      (rtConstraints (evRoute (evaluatePolicy (Some denyOpenAI) ?job))) = []"
    using denyOpenAI_constraints [of ?job]
    by (auto simp: providerModelConstraintReason_iff lists_admit_def admits_def zeroModel_def)
  then obtain dec where "decideDisabled ?job (Some denyOpenAI) (Some defaultSnap) = (dec, None)"
    using \<open>snapModel (Some defaultSnap) ''gpt-4.1'' = None\<close>
    by (simp add: decideDisabled_def bypass_job Let_def)
  then have dec: "snd (Decide (ceSort demoEnv) defaultEngine ?job (lookupPolicy (coPolicyCache demoOptions) ?job)
      (Some (healthSnapshot demoState)) False) = (dec, None)" and none: "rdSelectedProvider dec = []"
    by (simp_all add: Decide_def defaultEngine_store bypass_job pol Let_def decideDisabled_no_provider)
  have "mget (providers defaultSnap) [] = None" by code_simp
  then have "mget (coAdapters demoOptions) (rdSelectedProvider dec) = None"
    by (force simp: none demoOptions_def mget_def map_of_eq_None_iff)
  moreover have "routesRequest demoOptions defaultEngine bypassRequest" "\<not> reqStream bypassRequest"
    "?job = budgeted demoOptions ?job" "csCache demoState = None \<or> \<not> Cacheable (Some ?job)"
    by (simp_all add: routesRequest_def demoOptions_def bypassRequest_def zeroRequest_def demo_providers demoState_def budgeted_def)
  moreover obtain reply st' where run: "ChatCompletions demoOptions demoEnv (echoAdapter ''openai'') demoCaller (Inr bypassRequest) demoState = (reply, st')"
    by fastforce
  ultimately obtain n where "csCalls st' = csCalls demoState @ [(adName (echoAdapter ''openai''), n)]"
    "coContextPipelineEnabled demoOptions \<or> nrModel n = reqModel bypassRequest"
    using chat_without_adapter [OF _ _ _ _ dec _ _ run] demo_budget(1) by blast
  with run show ?thesis
    by (intro exI [of _ reply] exI [of _ st'] exI [of _ n])
      (simp add: demoState_def echoAdapter_def demoOptions_def bypassRequest_def)
qed

section \<open>Routes that fail\<close>

lemma decide_pieces_errors:
  "decideDisabled job pol snap = (dec, Some err) \<Longrightarrow> err \<noteq> ErrBlocked \<Longrightarrow> dec = zeroDecision"
  "decidePinned m src job ev snap = (dec, Some err) \<Longrightarrow> err \<noteq> ErrBlocked \<Longrightarrow> dec = zeroDecision"
  "decideRouted srt e job pol ev snap health streaming = (dec, Some err) \<Longrightarrow> dec = zeroDecision"
  "decideBlocked ev = (dec, Some err) \<Longrightarrow> err \<noteq> ErrBlocked \<Longrightarrow> dec = zeroDecision"
  by (auto simp: decideDisabled_def decidePinned_def decideRouted_def decideBlocked_def Let_def
      split: option.splits if_splits)

lemma Decide_failed: "snd (Decide srt e job pol health streaming) = (dec, Some err) \<Longrightarrow> err \<noteq> ErrBlocked \<Longrightarrow> dec = zeroDecision"
  unfolding Decide_def Let_def
  by (auto dest: decide_pieces_errors split: sum.splits option.splits if_splits)

text \<open>
  a request that fails to be routed for another reason than a block (no candidate, an unknown
  model, no registry) is reported to the event consumers like a routed one: the spend tracker
  counts it as a request of the model with the empty name.
\<close>

theorem failed_route_counts_as_request:
  assumes "snd (Decide srt e job pol health streaming) = (dec, Some err)" and "err \<noteq> ErrBlocked"
    and "t' = spendHandle (decisionEvent ck job' dec shadow) t"
  shows "maRequests (mget0 (newModelAccum []) (stByModel t') []) =
    i64 (maRequests (mget0 (newModelAccum []) (stByModel t) []) + 1)"
proof -
  have dec: "dec = zeroDecision" by (rule Decide_failed [OF assms(1,2)])
  show ?thesis
    by (simp add: assms(3) dec decisionEvent_def spendHandle_def recordDecision_def zeroDecision_def Let_def)
qed

lemma failed_route_counts_as_request_witness:
  "maRequests (mget0 (newModelAccum []) (stByModel (spendHandle (decisionEvent (ceClock demoEnv) chatJob
     (fst (snd (Decide insertion_sort defaultEngine (chatJob\<lparr>jExplicitModel := Some ''nope''\<rparr>) None None False))) None)
     \<lparr>stByModel = [], stByTenant = []\<rparr>)) []) = 1"
proof -
  let ?o = "snd (Decide insertion_sort defaultEngine (chatJob\<lparr>jExplicitModel := Some ''nope''\<rparr>) None None False)"
  have "case snd ?o of Some (ErrModelNotFound m) \<Rightarrow> True | _ \<Rightarrow> False" by code_simp
  then obtain m where "?o = (fst ?o, Some (ErrModelNotFound m))"
    by (cases ?o) (auto split: option.splits engine_error.splits)
  from failed_route_counts_as_request [OF this _ refl] show ?thesis
    by (simp add: newModelAccum_def mget0_def i64_def)
qed

end
