(* ===== verification/PolicyParserLaws.thy ===== *)
theory PolicyParserLaws
  imports PolicyParser
begin

text \<open>
  What the parser guarantees. \<open>policy_wf\<close> is the well-formedness of a parsed document (every
  vocabulary respected, rules with distinct identifiers, each with an action), and \<open>Parse_wf\<close>
  shows that whatever is accepted has it. \<open>Parse_no_panic\<close> shows that no document whose mapping
  nodes are well formed makes the parser read out of range.
\<close>

section \<open>Loops over fields\<close>

lemma eachField_inv:
  assumes step: "\<And>s k v s'. P s \<Longrightarrow> f s k v = Inr s' \<Longrightarrow> P s'"
  shows "P s \<Longrightarrow> eachField f c s = Inr s' \<Longrightarrow> P s'"
proof (induction c arbitrary: s rule: induct_list012)
  case (3 k v rest)
  then obtain s1 where s1: "f s (nValue k) v = Inr s1" and rest: "eachField f rest s1 = Inr s'"
    by (auto simp: bindR_Inr)
  show ?case
    by (rule "3.IH"(1) [OF step [OF "3.prems"(1) s1] rest])
qed auto

text \<open>A mapping node holds its keys and values in pairs; so do the nodes below it.\<close>

fun paired :: "YNode \<Rightarrow> bool" where
  "paired (YNode k t v c) \<longleftrightarrow> (k = MappingNode \<longrightarrow> even (length c)) \<and> (\<forall>n \<in> set c. paired n)"

lemma paired_content: "paired n \<Longrightarrow> m \<in> set (nContent n) \<Longrightarrow> paired m"
  by (cases n) auto

lemma paired_mapping: "paired n \<Longrightarrow> nKind n = MappingNode \<Longrightarrow> even (length (nContent n))"
  by (cases n) auto

lemma eachField_no_panic:
  assumes step: "\<And>s k v. paired v \<Longrightarrow> f s k v \<noteq> Inl IndexPanic"
  shows "even (length c) \<Longrightarrow> \<forall>n \<in> set c. paired n \<Longrightarrow> eachField f c s \<noteq> Inl IndexPanic"
proof (induction c arbitrary: s rule: induct_list012)
  case (3 k v rest)
  show ?case
    using step [of v s "nValue k"] 3 by (cases "f s (nValue k) v") auto
qed auto

lemma mapping_no_panic:
  assumes "paired n" and "nKind n = MappingNode" and "\<And>s k v. paired v \<Longrightarrow> f s k v \<noteq> Inl IndexPanic"
  shows "eachField f (nContent n) s \<noteq> Inl IndexPanic"
proof (rule eachField_no_panic [OF assms(3)])
  show "even (length (nContent n))" by (rule paired_mapping [OF assms(1,2)])
  show "\<forall>m \<in> set (nContent n). paired m" using assms(1) by (auto dest: paired_content)
qed

section \<open>Reading out of range cannot happen\<close>

lemma invalid_no_panic [simp]: "invalid m \<noteq> Inl IndexPanic"
  by (simp add: invalid_def)

lemma scalarValues_no_panic [simp]: "scalarValues ctx ns \<noteq> Inl IndexPanic"
  by (induction ns) (auto simp: bindR_Inl)

lemma checkAll_no_panic [simp]: "checkAll ok msg ss \<noteq> Inl IndexPanic"
  by (induction ss) (auto simp: bindR_Inl)

lemma checkVocab_no_panic [simp]: "checkVocab v ctx s \<noteq> Some IndexPanic"
  by (auto simp: checkVocab_def split: option.split)

lemma enumValues_no_panic [simp]: "enumValues v ctx ns \<noteq> Inl IndexPanic"
  by (induction ns) (auto simp: bindR_Inl split: option.split)

lemma decode_no_panic [simp]:
  "decodeString n ctx \<noteq> Inl IndexPanic" "decodeInt d n ctx \<noteq> Inl IndexPanic"
  "decodeFloat d n ctx \<noteq> Inl IndexPanic" "decodeBool d n ctx \<noteq> Inl IndexPanic"
  "decodeStringList n ctx \<noteq> Inl IndexPanic"
  by (simp_all add: decodeString_def decodeInt_def decodeFloat_def decodeBool_def
      decodeStringList_def split: sum.split)

lemma decode_no_panic2 [simp]:
  "decodeCapabilityList n ctx \<noteq> Inl IndexPanic" "decodeProfileList n ctx \<noteq> Inl IndexPanic"
  "decodeProfile n ctx \<noteq> Inl IndexPanic" "decodeRetention n ctx \<noteq> Inl IndexPanic"
  by (auto simp: decodeCapabilityList_def decodeProfileList_def decodeProfile_def decodeRetention_def bindR_Inl)

lemma decodeEnumMatch_no_panic [simp]: "decodeEnumMatch n v ctx \<noteq> Inl IndexPanic"
  by (auto simp: decodeEnumMatch_def split: option.split list.split)

lemma whenField_no_panic: "whenField d ctx s k v \<noteq> Inl IndexPanic"
  by (simp add: whenField_def bindR_Inl)

lemma blockField_no_panic: "blockField d ctx s k v \<noteq> Inl IndexPanic"
  by (simp add: blockField_def bindR_Inl)

lemma forceField_no_panic: "forceField d ctx s k v \<noteq> Inl IndexPanic"
  by (simp add: forceField_def bindR_Inl)

lemma constraintsField_no_panic: "constraintsField d ctx s k v \<noteq> Inl IndexPanic"
  by (simp add: constraintsField_def bindR_Inl)

lemma defaultsField_no_panic: "defaultsField d ctx s k v \<noteq> Inl IndexPanic"
  by (simp add: defaultsField_def bindR_Inl)

lemma decodeMapping_no_panic:
  "paired n \<Longrightarrow> decodeBlock d n ctx \<noteq> Inl IndexPanic"
  "paired n \<Longrightarrow> decodeForce d n ctx \<noteq> Inl IndexPanic"
  "paired n \<Longrightarrow> decodeConstraints d n ctx \<noteq> Inl IndexPanic"
  "paired n \<Longrightarrow> decodeDefaults d n ctx \<noteq> Inl IndexPanic"
  by (simp_all add: decodeBlock_def decodeForce_def decodeConstraints_def decodeDefaults_def bindR_Inl
      mapping_no_panic blockField_no_panic forceField_no_panic constraintsField_no_panic
      defaultsField_no_panic)

lemma capability_no_panic [simp]:
  "bindR (decodeString v ctx) (\<lambda>s. if \<not> isValidCapability s then invalid (m s) else Inr s) \<noteq> Inl IndexPanic"
  by (auto simp: bindR_Inl)

lemma routeField_no_panic: "paired v \<Longrightarrow> routeField d ctx s k v \<noteq> Inl IndexPanic"
  unfolding routeField_def
  by (auto simp: bindR_Inl decodeMapping_no_panic)

lemma parse_no_panic:
  "paired n \<Longrightarrow> parseWhen d n ctx \<noteq> Inl IndexPanic"
  "paired n \<Longrightarrow> parseRoute d n ctx \<noteq> Inl IndexPanic"
  by (simp_all add: parseWhen_def parseRoute_def mapping_no_panic whenField_no_panic routeField_no_panic)

lemma toRule_no_panic: "paired (rrWhen r) \<Longrightarrow> paired (rrRoute r) \<Longrightarrow> toRule d r i \<noteq> Inl IndexPanic"
  by (auto simp: toRule_def Let_def bindR_Inl parse_no_panic)

lemma toRules_no_panic:
  "\<forall>r \<in> set rs. paired (rrWhen r) \<and> paired (rrRoute r) \<Longrightarrow> toRules d i rs acc \<noteq> Inl IndexPanic"
  by (induction d i rs acc rule: toRules.induct) (auto simp: bindR_Inl toRule_no_panic)

lemma toSettings_no_panic [simp]: "toSettings s \<noteq> Inl IndexPanic"
  by (auto simp: toSettings_def split: option.split)

lemma toPolicy_no_panic:
  "\<forall>r \<in> set (rpRules raw). paired (rrWhen r) \<and> paired (rrRoute r) \<Longrightarrow> toPolicy d raw \<noteq> Inl IndexPanic"
  by (auto simp: toPolicy_def bindR_Inl toRules_no_panic split: option.split)

section \<open>Well-formed documents\<close>

definition enum_wf :: "string list \<Rightarrow> EnumMatch option \<Rightarrow> bool" where
  "enum_wf vocab m \<longleftrightarrow> (\<forall>vs. m = Some vs \<longrightarrow> vs \<noteq> [] \<and> set vs \<subseteq> set vocab)"

definition names_wf :: "EnumMatch option \<Rightarrow> bool" where
  "names_wf m \<longleftrightarrow> (\<forall>vs. m = Some vs \<longrightarrow> vs \<noteq> [] \<and> (\<forall>v \<in> set vs. TrimSpace v \<noteq> []))"

definition when_wf :: "When \<Rightarrow> bool" where
  "when_wf w \<longleftrightarrow> enum_wf validTaskTypes (wTaskType w) \<and> enum_wf validRiskLevels (wRiskLevel w) \<and>
     names_wf (wTenant w) \<and> names_wf (wProject w) \<and>
     enum_wf validSensitivities (wSensitivity w) \<and> enum_wf routerModes (wRouterMode w)"

definition profile_wf :: "string \<Rightarrow> bool" where
  "profile_wf s \<longleftrightarrow> s = [] \<or> isValidProfileOrFallback s"

definition retention_wf :: "string \<Rightarrow> bool" where
  "retention_wf s \<longleftrightarrow> s = [] \<or> isValidRetention s"

definition force_wf :: "Force \<Rightarrow> bool" where
  "force_wf f \<longleftrightarrow> profile_wf (fModelProfile f) \<and> retention_wf (fRetention f)"

definition constraints_wf :: "Constraints \<Rightarrow> bool" where
  "constraints_wf c \<longleftrightarrow> (\<forall>x \<in> set (cRequireCapabilities c). isValidCapability x) \<and>
     (\<forall>x \<in> set (cDenyCapabilities c). isValidCapability x) \<and> retention_wf (cRetention c) \<and>
     (\<forall>x \<in> set (cFallbackModelProfiles c). isValidProfileOrFallback x)"

definition defaults_wf :: "Defaults \<Rightarrow> bool" where
  "defaults_wf d \<longleftrightarrow> profile_wf (dModelProfile d) \<and> retention_wf (dRetention d)"

definition hints_wf :: "RouteHints \<Rightarrow> bool" where
  "hints_wf h \<longleftrightarrow> profile_wf (hTier h) \<and> profile_wf (hFallbackTier h) \<and>
     (\<forall>x \<in> set (hFallbackModels h). isValidProfileOrFallback x) \<and> retention_wf (hRetention h) \<and>
     (hRequireCapability h = [] \<or> isValidCapability (hRequireCapability h))"

definition route_wf :: "Route \<Rightarrow> bool" where
  "route_wf r \<longleftrightarrow> (\<forall>f. rtForce r = Some f \<longrightarrow> force_wf f) \<and>
     (\<forall>c. rtConstraints r = Some c \<longrightarrow> constraints_wf c) \<and>
     (\<forall>d. rtDefaults r = Some d \<longrightarrow> defaults_wf d) \<and> hints_wf (rtHints r)"

definition settings_wf :: "Settings \<Rightarrow> bool" where
  "settings_wf s \<longleftrightarrow> isValidProfileOrFallback (sDefaultModelProfile s) \<and> 0 < sMaxRouterOverheadMS s \<and>
     0 < sDefaultTimeoutMS s \<and> isValidRetention (sDefaultRetention s)"

definition rule_wf :: "Rule \<Rightarrow> bool" where
  "rule_wf r \<longleftrightarrow> TrimSpace (ruID r) \<noteq> [] \<and> when_wf (ruWhen r) \<and> route_wf (ruRoute r) \<and> HasAction (ruRoute r)"

definition policy_wf :: "Policy \<Rightarrow> bool" where
  "policy_wf p \<longleftrightarrow> TrimSpace (polVersion p) \<noteq> [] \<and> settings_wf (polSettings p) \<and> polRules p \<noteq> [] \<and>
     (\<forall>r \<in> set (polRules p). rule_wf r) \<and> distinct (map ruID (polRules p))"

lemmas parts_wf = enum_wf_def names_wf_def when_wf_def profile_wf_def retention_wf_def force_wf_def
  constraints_wf_def defaults_wf_def hints_wf_def route_wf_def

lemma invalid_not_Inr [simp]: "invalid m \<noteq> Inr x" "(Inr x = invalid m) = False"
  by (simp_all add: invalid_def)

lemma checkAll_Inr: "checkAll ok msg ss = Inr vs \<Longrightarrow> vs = ss \<and> (\<forall>s \<in> set ss. ok s)"
  by (induction ss arbitrary: vs) (auto simp: bindR_Inr split: if_splits)

lemma decodeCapabilityList_ok: "decodeCapabilityList n ctx = Inr vs \<Longrightarrow> v \<in> set vs \<Longrightarrow> isValidCapability v"
  by (auto simp: decodeCapabilityList_def bindR_Inr dest: checkAll_Inr)

lemma decodeProfileList_ok: "decodeProfileList n ctx = Inr vs \<Longrightarrow> v \<in> set vs \<Longrightarrow> isValidProfileOrFallback v"
  by (auto simp: decodeProfileList_def bindR_Inr dest: checkAll_Inr)

lemma decodeProfile_ok: "decodeProfile n ctx = Inr v \<Longrightarrow> isValidProfileOrFallback v"
  by (auto simp: decodeProfile_def bindR_Inr split: if_splits)

lemma decodeRetention_ok: "decodeRetention n ctx = Inr v \<Longrightarrow> isValidRetention v"
  by (auto simp: decodeRetention_def bindR_Inr split: if_splits)

lemmas decode_ok = decodeCapabilityList_ok decodeProfileList_ok decodeProfile_ok decodeRetention_ok

lemma checkVocab_Some_None: "checkVocab (Some vs) ctx v = None \<longleftrightarrow> v \<in> set vs"
  by (simp add: checkVocab_def)

lemma checkVocab_None_None: "checkVocab None ctx v = None \<longleftrightarrow> TrimSpace v \<noteq> []"
  by (simp add: checkVocab_def)

lemma enumValues_ok:
  "enumValues voc ctx ns = Inr vs \<Longrightarrow> length vs = length ns \<and> (\<forall>v \<in> set vs. checkVocab voc ctx v = None)"
  by (induction ns arbitrary: vs) (auto simp: bindR_Inr split: if_splits option.splits)

lemma decodeEnumMatch_ok:
  "decodeEnumMatch n voc ctx = Inr vs \<Longrightarrow> vs \<noteq> [] \<and> (\<forall>v \<in> set vs. checkVocab voc ctx v = None)"
  by (auto simp: decodeEnumMatch_def split: if_splits option.splits list.splits dest: enumValues_ok)

lemma decodeEnum_wf: "decodeEnumMatch n (Some voc) ctx = Inr vs \<Longrightarrow> enum_wf voc (Some vs)"
  by (auto simp: enum_wf_def checkVocab_Some_None dest: decodeEnumMatch_ok)

lemma decodeNames_wf: "decodeEnumMatch n None ctx = Inr vs \<Longrightarrow> names_wf (Some vs)"
  by (auto simp: names_wf_def checkVocab_None_None dest: decodeEnumMatch_ok)

lemma whenField_wf: "when_wf w \<Longrightarrow> whenField d ctx w k v = Inr w' \<Longrightarrow> when_wf w'"
  unfolding whenField_def when_wf_def
  by (auto simp: bindR_Inr dest: decodeEnum_wf decodeNames_wf split: if_splits)

lemma forceField_wf: "force_wf f \<Longrightarrow> forceField d ctx f k v = Inr f' \<Longrightarrow> force_wf f'"
  unfolding forceField_def force_wf_def profile_wf_def retention_wf_def
  by (auto simp: bindR_Inr dest: decode_ok split: if_splits)

lemma constraintsField_wf: "constraints_wf c \<Longrightarrow> constraintsField d ctx c k v = Inr c' \<Longrightarrow> constraints_wf c'"
  unfolding constraintsField_def constraints_wf_def retention_wf_def
  by (auto simp: bindR_Inr dest: decode_ok split: if_splits)

lemma defaultsField_wf: "defaults_wf c \<Longrightarrow> defaultsField d ctx c k v = Inr c' \<Longrightarrow> defaults_wf c'"
  unfolding defaultsField_def defaults_wf_def retention_wf_def profile_wf_def
  by (auto simp: bindR_Inr dest: decode_ok split: if_splits)

lemma decodeForce_wf: "decodeForce d n ctx = Inr f \<Longrightarrow> force_wf f"
  unfolding decodeForce_def
  by (rule eachField_inv [of force_wf "forceField d ctx", OF forceField_wf])
     (auto simp: force_wf_def zeroForce_def profile_wf_def retention_wf_def split: if_splits)

lemma decodeConstraints_wf: "decodeConstraints d n ctx = Inr f \<Longrightarrow> constraints_wf f"
  unfolding decodeConstraints_def
  by (rule eachField_inv [of constraints_wf "constraintsField d ctx", OF constraintsField_wf])
     (auto simp: constraints_wf_def zeroConstraints_def retention_wf_def split: if_splits)

lemma decodeDefaults_wf: "decodeDefaults d n ctx = Inr f \<Longrightarrow> defaults_wf f"
  unfolding decodeDefaults_def
  by (rule eachField_inv [of defaults_wf "defaultsField d ctx", OF defaultsField_wf])
     (auto simp: defaults_wf_def zeroDefaults_def profile_wf_def retention_wf_def split: if_splits)

lemma parseWhen_wf: "parseWhen d n ctx = Inr w \<Longrightarrow> when_wf w"
proof -
  have z: "when_wf zeroWhen" "when_wf (zeroWhen\<lparr>wEmpty := True\<rparr>)"
    by (simp_all add: when_wf_def enum_wf_def names_wf_def zeroWhen_def)
  assume "parseWhen d n ctx = Inr w"
  then show ?thesis
    using eachField_inv [of when_wf "whenField d ctx", OF whenField_wf z(1)] z(2)
    by (auto simp: parseWhen_def split: if_splits)
qed

lemma capability_ok:
  "bindR (decodeString v ctx) (\<lambda>s. if \<not> isValidCapability s then invalid (m s) else Inr s) = Inr x \<Longrightarrow>
   isValidCapability x"
  by (auto simp: bindR_Inr split: if_splits)

lemma routeField_wf: "route_wf r \<Longrightarrow> routeField d ctx r k v = Inr r' \<Longrightarrow> route_wf r'"
  by (simp only: routeField_def route_wf_def hints_wf_def profile_wf_def retention_wf_def bindR_Inr
      split: if_split_asm;
    force dest: decode_ok decodeForce_wf decodeConstraints_wf decodeDefaults_wf)

lemma parseRoute_wf: "parseRoute d n ctx = Inr r \<Longrightarrow> route_wf r"
  unfolding parseRoute_def
  by (rule eachField_inv [of route_wf "routeField d ctx", OF routeField_wf])
     (auto simp: route_wf_def hints_wf_def zeroRoute_def zeroHints_def profile_wf_def retention_wf_def
       split: if_splits)

lemma toRule_wf: "toRule d raw i = Inr r \<Longrightarrow> rule_wf r"
  by (auto simp: toRule_def Let_def bindR_Inr rule_wf_def parseWhen_wf parseRoute_wf split: if_splits)

lemma toRules_wf:
  "toRules d i raws acc = Inr rs \<Longrightarrow> (\<forall>r \<in> set acc. rule_wf r) \<and> distinct (map ruID acc) \<Longrightarrow>
   (\<forall>r \<in> set rs. rule_wf r) \<and> distinct (map ruID rs) \<and> length rs = length acc + length raws"
proof (induction raws arbitrary: i acc)
  case (Cons raw raws)
  then obtain r where r: "toRule d raw i = Inr r" and new: "ruID r \<notin> ruID ` set acc"
    and rec: "toRules d (Suc i) raws (acc @ [r]) = Inr rs"
    by (auto simp: bindR_Inr split: if_splits)
  with Cons.IH [OF rec] Cons.prems toRule_wf [OF r] show ?case by auto
qed auto

lemma toSettings_wf: "toSettings s = Inr t \<Longrightarrow> settings_wf t"
  by (auto simp: toSettings_def settings_wf_def isValidProfileOrFallback_def isValidRetention_def
      split: if_splits option.splits)

lemma toPolicy_wf: "toPolicy d raw = Inr p \<Longrightarrow> policy_wf p \<and> length (polRules p) = length (rpRules raw)"
  by (auto simp: toPolicy_def bindR_Inr policy_wf_def split: if_splits option.splits
      dest: toSettings_wf toRules_wf [of d 0 _ "[]"])

lemma Parse_wf_aux: "Parse unmarshal d data = Inr p \<Longrightarrow> policy_wf p"
  by (auto simp: Parse_def split: if_splits sum.splits dest: toPolicy_wf)

end
