(* ===== verification/PolicyProps.thy ===== *)
theory PolicyProps
  imports EngineProps PolicyParserLaws
begin

text \<open>
  The properties of the registry and of the policy language: loading, querying and reloading the
  registry; parsing, compiling and evaluating a policy; the scoped policy cache.
\<close>

section \<open>Registry\<close>

text \<open>
  \<open>NewSnapshot\<close> accepts a definition exactly when it is valid: a version, at least one
  provider and one model, provider identifiers unique and not blank, and for every model a unique
  identifier that is not blank, a known provider, a provider model identifier that is unique per
  provider and not blank, and a non-negative context window. An accepted snapshot serves exactly
  the models of the definition, under their identifiers, and is well-formed.
\<close>

theorem NewSnapshot_loads:
  "case NewSnapshot now def of
     Inl e \<Rightarrow> \<not> valid_definition def
   | Inr s \<Rightarrow> valid_definition def \<and> snapshot_inv s \<and> registryVersion s = RegistryVersion def \<and>
       (\<forall>i m. snapModel (Some s) i = Some m \<longleftrightarrow> m \<in> set (Models def) \<and> mID m = i)"
proof (cases "NewSnapshot now def")
  case (Inl e)
  with NewSnapshot_accepts_iff [of now def] show ?thesis by simp
next
  case (Inr s)
  with NewSnapshot_accepts_iff [of now def] NewSnapshot_inv [OF Inr] NewSnapshot_version [OF Inr]
    NewSnapshot_models [OF Inr]
  show ?thesis by (simp add: snapModel_Some)
qed

text \<open>
  \<open>EnabledModelsWithCapabilities\<close> returns exactly the registered models that are enabled,
  whose provider is registered and active, and that have the required capabilities, each once, in
  increasing order of identifier.
\<close>

theorem EnabledModels_exact:
  assumes "snapshot_inv s"
  shows "sorted_wrt (\<lambda>a b. mID a < mID b) (EnabledModelsWithCapabilities (Some s) req) \<and>
    set (EnabledModelsWithCapabilities (Some s) req) =
      {m. mget (models s) (mID m) = Some m \<and> mEnabled m \<and> Satisfies (mCapabilities m) req \<and>
          (\<exists>p. mget (providers s) (mProviderID m) = Some p \<and> pStatus p = ProviderStatusActive)}"
  using Enabled_sorted [OF assms] Enabled_set [OF assms] by (auto simp: modelSelectable_iff)

lemma EnabledModels_exact_witness:
  "sorted_wrt (\<lambda>a b. mID a < mID b) (EnabledModelsWithCapabilities (Some defaultSnap) (mCapabilities zeroModel)) \<and>
   map mID (EnabledModelsWithCapabilities (Some defaultSnap) (mCapabilities zeroModel)) =
     [''balanced-coder'', ''cheap-general'', ''premium-reasoning'']"
proof -
  have "map mID (EnabledModelsWithCapabilities (Some defaultSnap) (mCapabilities zeroModel)) =
      [''balanced-coder'', ''cheap-general'', ''premium-reasoning'']" by code_simp
  with EnabledModels_exact [OF defaultSnap_inv, of "mCapabilities zeroModel"] show ?thesis by blast
qed

text \<open>
  reloading the registry is atomic: a rejected candidate leaves the store as it was, and an
  accepted one replaces the active snapshot with the snapshot that is returned.
\<close>

theorem Reload_atomic:
  "case Reload now (Some st) def of
     (Inl e, st') \<Rightarrow> \<not> valid_definition def \<and> storeGet st' = storeGet (Some st)
   | (Inr s, st') \<Rightarrow> NewSnapshot now def = Inr s \<and> storeGet st' = Inr s"
  using NewSnapshot_accepts_iff [of now def]
  by (cases "NewSnapshot now def") (simp_all add: Reload_def storeGet_def)

section \<open>Compiling and evaluating\<close>

text \<open>Example rules and documents for the witnesses.\<close>

definition ruleOf :: "string \<Rightarrow> When \<Rightarrow> Route \<Rightarrow> Rule" where
  "ruleOf i w r = \<lparr>ruID = i, ruDescription = [], ruWhen = w, ruRoute = r\<rparr>"

definition policyOf :: "Rule list \<Rightarrow> Policy" where
  "policyOf rs = \<lparr>polVersion = ''v1'', polMetadata = \<lparr>mdOwner = [], mdDescription = []\<rparr>,
     polSettings = zeroSettings, polRules = rs\<rparr>"

definition allowOnly :: "string list \<Rightarrow> Route" where
  "allowOnly ps = zeroRoute\<lparr>rtConstraints := Some (zeroConstraints\<lparr>cAllowedProviders := ps\<rparr>)\<rparr>"

definition phpRule :: Rule where
  "phpRule = ruleOf ''php'' (zeroWhen\<lparr>wAnyFileMatches := [''**/*.php''], wPromptTokensGT := Some 5\<rparr>)
     (allowOnly [''openai''])"

definition phpInput :: EvaluationInput where
  "phpInput = (evaluationInput chatJob)\<lparr>inFilesTouched := [''src/app/index.php'']\<rparr>"

definition compiledOf :: "Policy \<Rightarrow> CompiledPolicy" where
  "compiledOf p = (case Compile (Some p) (Some defaultSnap) of Inr c \<Rightarrow> c | Inl e \<Rightarrow> oneRule zeroRoute)"

text \<open>
  a policy compiles exactly when every rule refers only to providers and models of the
  registry and has no blank file pattern. (Every other condition of the language is checked by the
  parser.)
\<close>

theorem Compile_accepts_iff:
  "(\<exists>c. Compile (Some p) (Some snap) = Inr c) \<longleftrightarrow>
   (\<forall>r \<in> set (polRules p).
      refs_ok (knownProviders (Some snap)) (knownModels (Some snap)) (ruRoute r) \<and>
      (\<forall>g \<in> set (wAnyFileMatches (ruWhen r)). TrimSpace g \<noteq> []))"
  by (rule Compile_ok_iff)

lemma Compile_accepts_iff_witness:
  "\<exists>c. Compile (Some (policyOf [phpRule])) (Some defaultSnap) = Inr c"
proof -
  have "refs_ok (knownProviders (Some defaultSnap)) (knownModels (Some defaultSnap)) (ruRoute phpRule)"
  proof -
    have "snapProvider (Some defaultSnap) ''openai'' \<noteq> None" by code_simp
    then show ?thesis
      by (simp del: not_None_eq add: refs_ok_def constraints_ok_def phpRule_def ruleOf_def allowOnly_def zero_defs
          knownProviders_def knownModels_def)
  qed
  moreover have "TrimSpace ''**/*.php'' \<noteq> []" by code_simp
  ultimately show ?thesis
    unfolding Compile_accepts_iff by (simp add: policyOf_def phpRule_def ruleOf_def)
qed

lemma php_compiles: "Compile (Some (policyOf [phpRule])) (Some defaultSnap) = Inr (compiledOf (policyOf [phpRule]))"
proof -
  have "isl (Compile (Some (policyOf [phpRule])) (Some defaultSnap)) = False" by code_simp
  then show ?thesis
    by (cases "Compile (Some (policyOf [phpRule])) (Some defaultSnap)") (simp_all add: compiledOf_def)
qed



text \<open>
  C20: evaluation is a fold over the rules that match, in order, up to and including the first
  that blocks: their identifiers are reported in that order, the result is blocked exactly when
  one of the matching rules blocks, and the forced fields are those of the first of these rules
  that sets each of them (\<open>forceSpec\<close>).
\<close>

theorem Evaluate_first_match_wins:
  "evMatchedRuleIDs (Evaluate (Some p) i) = map crID (firedRules p i) \<and>
   evPolicyVersion (Evaluate (Some p) i) = cpVersion p \<and>
   (evBlocked (Evaluate (Some p) i) \<longleftrightarrow>
      (\<exists>r \<in> set (cpRules p). matcherMatches (crMatcher r) i \<and> blocks r)) \<and>
   rtForce (evRoute (Evaluate (Some p) i)) = forceSpec (forcesOf (firedRules p i))"
  using Evaluate_blocked [of p i]
  by (simp add: Evaluate_fired fold_applyRule_ids fold_applyRule_version fold_applyRule_route
      mergeAll_force zeroEvaluation_def)

text \<open>
  C21: the constraints of the rules that fire accumulate: denied providers and models, required and
  denied capabilities and fallback profiles are the unions, the cost and latency ceilings the
  smallest that any rule states.
\<close>

theorem Evaluate_constraints_accumulate:
  assumes "constraintsOf (firedRules p i) \<noteq> []"
  shows "\<exists>m. rtConstraints (evRoute (Evaluate (Some p) i)) = Some m \<and>
    tighter m (set (constraintsOf (firedRules p i)))"
  using constraints_accumulate [OF assms] by (simp add: Evaluate_route mergeAll_constraints)

lemma Evaluate_constraints_accumulate_witness:
  "\<exists>m. rtConstraints (evRoute (Evaluate (Some denyOpenAI) phpInput)) = Some m \<and> ''openai'' \<in> set (cDeniedProviders m)"
proof -
  have fired: "constraintsOf (firedRules denyOpenAI phpInput) = [zeroConstraints\<lparr>cDeniedProviders := [''openai'']\<rparr>]"
    by code_simp
  then have "constraintsOf (firedRules denyOpenAI phpInput) \<noteq> []" by simp
  from Evaluate_constraints_accumulate [OF this] show ?thesis
    unfolding fired by (auto simp: tighter_def)
qed

text \<open>
  when some provider is admitted by the allow lists of all the rules that fire, a provider is
  admitted by the evaluated constraints exactly when every one of those lists admits it; the same
  for models.
\<close>

theorem Evaluate_allow_lists_intersect:
  assumes "rtConstraints (evRoute (Evaluate (Some p) i)) = Some m"
    and "\<forall>c \<in> set (constraintsOf (firedRules p i)). admits (cAllowedProviders c) w"
    and "\<forall>c \<in> set (constraintsOf (firedRules p i)). admits (cAllowedModels c) v"
  shows "(admits (cAllowedProviders m) x \<longleftrightarrow>
      (\<forall>c \<in> set (constraintsOf (firedRules p i)). admits (cAllowedProviders c) x)) \<and>
    (admits (cAllowedModels m) y \<longleftrightarrow>
      (\<forall>c \<in> set (constraintsOf (firedRules p i)). admits (cAllowedModels c) y))"
proof -
  have m: "mergeConstraintsAll None (constraintsOf (firedRules p i)) = Some m"
    using assms(1) by (simp add: Evaluate_route mergeAll_constraints)
  show ?thesis
    using allow_lists_intersect [OF merge_allow_fields(1) m assms(2)]
      allow_lists_intersect [OF merge_allow_fields(2) m assms(3)] by simp
qed

definition twoAllows :: "string list \<Rightarrow> string list \<Rightarrow> CompiledPolicy" where
  "twoAllows l r = (oneRule (allowOnly l))\<lparr>cpRules := cpRules (oneRule (allowOnly l)) @ cpRules (oneRule (allowOnly r))\<rparr>"

lemma Evaluate_allow_lists_intersect_witness:
  "\<exists>m. rtConstraints (evRoute (Evaluate (Some (twoAllows [''a'', ''b''] [''b'', ''c''])) phpInput)) = Some m \<and>
    admits (cAllowedProviders m) ''b'' \<and> \<not> admits (cAllowedProviders m) ''a''"
proof -
  let ?p = "twoAllows [''a'', ''b''] [''b'', ''c'']"
  have fired: "constraintsOf (firedRules ?p phpInput) =
      [zeroConstraints\<lparr>cAllowedProviders := [''a'', ''b'']\<rparr>, zeroConstraints\<lparr>cAllowedProviders := [''b'', ''c'']\<rparr>]"
    by code_simp
  have "\<not> Option.is_none (rtConstraints (evRoute (Evaluate (Some ?p) phpInput)))" by code_simp
  then obtain m where m: "rtConstraints (evRoute (Evaluate (Some ?p) phpInput)) = Some m"
    by (auto simp: Option.is_none_def)
  have w: "\<forall>c \<in> set (constraintsOf (firedRules ?p phpInput)). admits (cAllowedProviders c) ''b''"
    "\<forall>c \<in> set (constraintsOf (firedRules ?p phpInput)). admits (cAllowedModels c) []"
    unfolding fired by (simp_all add: admits_def zeroConstraints_def)
  have "admits (cAllowedProviders m) ''b''" "\<not> admits (cAllowedProviders m) ''a''"
    using Evaluate_allow_lists_intersect [OF m w, of "''b''" "[]"]
      Evaluate_allow_lists_intersect [OF m w, of "''a''" "[]"]
    unfolding fired by (simp_all add: admits_def zeroConstraints_def)
  with m show ?thesis by blast
qed

text \<open>
  two rules that fire with disjoint allow lists of providers lift the restriction altogether:
  the intersection is the empty list, which the filter reads as no restriction, so every provider
  is admitted although each rule admits only its own.
\<close>

theorem disjoint_allow_lists_admit_everything:
  assumes "set (cAllowedProviders a) \<inter> set (cAllowedProviders b) = {}"
    and "cAllowedProviders a \<noteq> []" and "cAllowedProviders b \<noteq> []"
    and "rtConstraints l = Some a" and "rtConstraints r = Some b"
  shows "\<exists>m. rtConstraints (fst (mergeRoute l r rid)) = Some m \<and> cAllowedProviders m = [] \<and>
    admits (cAllowedProviders m) x"
proof -
  have "intersectIfBoth (cAllowedProviders a) (cAllowedProviders b) = []"
    using assms(1-3) by (auto simp: intersectIfBoth_def filter_empty_conv)
  then show ?thesis
    by (simp add: mergeRoute_constraints assms(4,5) merge_allow_fields admits_def)
qed

lemma disjoint_allow_lists_admit_everything_witness:
  "\<exists>m. rtConstraints (fst (mergeRoute (allowOnly [''openai'']) (allowOnly [''anthropic'']) ''r'')) = Some m \<and>
    admits (cAllowedProviders m) ''gemini''"
proof -
  have "\<exists>m. rtConstraints (fst (mergeRoute (allowOnly [''openai'']) (allowOnly [''anthropic'']) ''r'')) = Some m \<and>
      cAllowedProviders m = [] \<and> admits (cAllowedProviders m) ''gemini''"
    by (rule disjoint_allow_lists_admit_everything [where a = "zeroConstraints\<lparr>cAllowedProviders := [''openai'']\<rparr>"
          and b = "zeroConstraints\<lparr>cAllowedProviders := [''anthropic'']\<rparr>"]) (simp_all add: allowOnly_def)
  then show ?thesis by blast
qed

text \<open>
  every provider and model that an evaluated route names, in forced fields, defaults,
  constraints or hints, is one of the registry the policy was compiled against (or is left empty).
\<close>

theorem Evaluate_known_references:
  assumes "Compile (Some p) snap = Inr c"
  shows "refs_ok (knownProviders snap) (knownModels snap) (evRoute (Evaluate (Some c) i))"
  by (rule Evaluate_refs [OF assms])

lemma Evaluate_known_references_witness:
  "refs_ok (knownProviders (Some defaultSnap)) (knownModels (Some defaultSnap))
     (evRoute (Evaluate (Some (compiledOf (policyOf [phpRule]))) phpInput)) \<and>
   evMatchedRuleIDs (Evaluate (Some (compiledOf (policyOf [phpRule]))) phpInput) = [''php'']"
proof -
  have "evMatchedRuleIDs (Evaluate (Some (compiledOf (policyOf [phpRule]))) phpInput) = [''php'']" by code_simp
  with Evaluate_known_references [OF php_compiles] show ?thesis by blast
qed

section \<open>The cache\<close>

text \<open>
  the policy in force for a tenant and project is that of the most specific source: the
  project's, else the tenant's, else the default.
\<close>

theorem Active_most_specific:
  assumes "NewCache ss = Inr c"
  shows "Active (Some c) sc = (case sourceFor ss sc of None \<Rightarrow> None
    | Some s \<Rightarrow> (case Compile (srcPolicy s) (srcRegistry s) of Inl e \<Rightarrow> None | Inr p \<Rightarrow> Some p))"
  by (rule NewCache_Active [OF assms])

definition scopeOf :: "string \<Rightarrow> string \<Rightarrow> Scope" where
  "scopeOf t p = \<lparr>scTenantID = t, scProjectID = p\<rparr>"

definition twoSources :: "Source list" where
  "twoSources = [\<lparr>srcScope = scopeOf [] [], srcPolicy = Some (policyOf []), srcRegistry = Some defaultSnap\<rparr>,
     \<lparr>srcScope = scopeOf ''acme'' [], srcPolicy = Some (policyOf [phpRule]), srcRegistry = Some defaultSnap\<rparr>]"

lemma Active_most_specific_witness:
  "\<exists>c. NewCache twoSources = Inr c \<and>
    map_option cpRules (Active (Some c) (scopeOf ''acme'' ''web'')) = Some (cpRules (compiledOf (policyOf [phpRule])))"
proof -
  have "\<not> isl (NewCache twoSources)" by code_simp
  then obtain c where c: "NewCache twoSources = Inr c" by (cases "NewCache twoSources") auto
  have "sourceFor twoSources (scopeOf ''acme'' ''web'') = Some (twoSources ! 1)"
    by (simp add: sourceFor_def covers_def twoSources_def scopeOf_def)
  with Active_most_specific [OF c, of "scopeOf ''acme'' ''web''"] c show ?thesis
    by (simp add: twoSources_def php_compiles)
qed

text \<open>
  C22: reloading the policies is atomic: if one source does not compile, the error is returned and
  every scope keeps its policy; otherwise the scopes answer as in a cache built from the new
  sources alone.
\<close>

theorem ReloadCache_atomic:
  "case NewCache ss of
     Inl e \<Rightarrow> fst (ReloadCache rng now (Some c) ss) = Some e \<and>
       Active (snd (ReloadCache rng now (Some c) ss)) = Active (Some c)
   | Inr c' \<Rightarrow> fst (ReloadCache rng now (Some c) ss) = None \<and>
       Active (snd (ReloadCache rng now (Some c) ss)) = Active (Some c')"
proof (cases "compileSources ss")
  case (Inl e)
  with ReloadCache_failure [OF Inl, of rng now c] show ?thesis by (simp add: NewCache_def)
next
  case (Inr m)
  with ReloadCache_success [OF Inr, of rng now c] show ?thesis by (auto simp: NewCache_def)
qed

text \<open>
  a successful reload is audited: with a memory sink that has room, the trail gains exactly
  one entry for each scope of the new cache, naming its tenant, project and policy version,
  whatever the order in which the scopes are visited.
\<close>

theorem ReloadCache_audit_trail:
  assumes "compileSources ss = Inr m" and "auditor c = Some (Memory s)" and "memOK s"
    and "mset (rng m) = mset m" and "length (memEntries s) + length m \<le> msMax s"
  shows "\<exists>c' s'. snd (ReloadCache rng now (Some c) ss) = Some c' \<and> auditor c' = Some (Memory s') \<and>
    mset (memEntries s') = mset (memEntries s) + mset (map (stampEntry now \<circ> reloadEntry) m)"
  by (rule ReloadCache_audited [where rng = rng, OF assms])

lemma ReloadCache_audit_trail_witness:
  "\<exists>c' s'. snd (ReloadCache rev 7 (Some \<lparr>active = [], auditor = Some (Memory (NewMemorySink 8))\<rparr>) twoSources) = Some c' \<and>
    auditor c' = Some (Memory s') \<and> size (mset (memEntries s')) = 2"
proof -
  have "map_sum id length (compileSources twoSources) = Inr 2" by code_simp
  then obtain m where m: "compileSources twoSources = Inr m" "length m = 2"
    by (cases "compileSources twoSources") auto
  have "\<exists>c' s'. snd (ReloadCache rev 7 (Some \<lparr>active = [], auditor = Some (Memory (NewMemorySink 8))\<rparr>) twoSources) = Some c' \<and>
    auditor c' = Some (Memory s') \<and>
    mset (memEntries s') = mset (memEntries (NewMemorySink 8)) + mset (map (stampEntry 7 \<circ> reloadEntry) m)"
    by (rule ReloadCache_audit_trail [OF m(1)]) (simp_all add: m(2))
  then obtain c' s' where c: "snd (ReloadCache rev 7 (Some \<lparr>active = [], auditor = Some (Memory (NewMemorySink 8))\<rparr>) twoSources) = Some c'"
      "auditor c' = Some (Memory s')" "mset (memEntries s') = mset (map (stampEntry 7 \<circ> reloadEntry) m)" by auto
  from c(3) have "size (mset (memEntries s')) = 2" by (simp add: m(2))
  with c show ?thesis by blast
qed

section \<open>Parsing\<close>

text \<open>
  C23: a document that parses yields a well-formed policy: every enumerated value is in its
  vocabulary, lists that are given are not empty, rule identifiers are unique, every rule has an
  action and the numeric settings are in range.
\<close>

theorem Parse_well_formed:
  assumes "Parse unmarshal d data = Inr p"
  shows "policy_wf p"
  by (rule Parse_wf_aux [OF assms])

lemma Parse_well_formed_witness:
  "\<exists>p. Parse (\<lambda>t. Inr defaultRuntimeRaw) noDecoder ''builtin'' = Inr p \<and> policy_wf p"
proof -
  have "\<not> isl (Parse (\<lambda>t. Inr defaultRuntimeRaw) noDecoder ''builtin'')" by code_simp
  then obtain p where "Parse (\<lambda>t. Inr defaultRuntimeRaw) noDecoder ''builtin'' = Inr p"
    by (cases "Parse (\<lambda>t. Inr defaultRuntimeRaw) noDecoder ''builtin''") auto
  with Parse_well_formed [OF this] show ?thesis by blast
qed

text \<open>
  the parser's walk over a mapping node, which reads a key and the value after it, never
  reads out of range on the nodes that the YAML library builds, whose mappings have an even
  number of children.
\<close>

theorem Parser_never_panics:
  assumes "\<forall>r \<in> set (rpRules raw). paired (rrWhen r) \<and> paired (rrRoute r)"
  shows "toPolicy d raw \<noteq> Inl IndexPanic"
  by (rule toPolicy_no_panic [OF assms])

lemma Parser_never_panics_witness: "toPolicy noDecoder defaultRuntimeRaw \<noteq> Inl IndexPanic"
  by (rule Parser_never_panics)
    (simp add: defaultRuntimeRaw_def mappingNode_def scalarNode_def)

end
