(* ===== verification/Outcomes.thy ===== *)
theory Outcomes
  imports Spend
begin

text \<open>
  Package \<open>internal/outcomes\<close>: the store of client-reported outcomes and its acceptance rates per
  model and task type. Its insertion sorts are \<open>insertion_sort\<close>; ranging over the groups is the
  parameter \<open>rng\<close>, a permutation.
\<close>

abbreviation VerdictAccepted :: string where "VerdictAccepted \<equiv> ''accepted''"
abbreviation VerdictRejected :: string where "VerdictRejected \<equiv> ''rejected''"
abbreviation VerdictPartial :: string where "VerdictPartial \<equiv> ''partial''"

datatype outcome_error = ErrMissingRequestID | ErrInvalidVerdict | ErrInvalidRating

record Outcome =
  oRequestID :: string
  oVerdict :: string
  oModel :: string
  oTaskType :: string
  oRating :: int
  oComment :: string
  oReportedAt :: int

definition outcomeValidate :: "Outcome \<Rightarrow> outcome_error option" where
  "outcomeValidate o' =
     (if oRequestID o' = [] then Some ErrMissingRequestID
      else if oVerdict o' \<notin> {VerdictAccepted, VerdictRejected, VerdictPartial} then Some ErrInvalidVerdict
      else if oRating o' \<noteq> 0 \<and> (oRating o' < 1 \<or> oRating o' > 5) then Some ErrInvalidRating
      else None)"

record AcceptanceRow =
  arKey :: string
  arModel :: string
  arTaskType :: string
  arTotal :: int
  arAccepted :: int
  arRejected :: int
  arPartial :: int
  arAcceptanceRate :: float64

type_synonym OutcomeStore = "Outcome list"

definition recordOutcome :: "int \<Rightarrow> Outcome \<Rightarrow> OutcomeStore \<Rightarrow> outcome_error option \<times> OutcomeStore" where
  "recordOutcome now o' s =
     (case outcomeValidate o' of
        Some e \<Rightarrow> (Some e, s)
      | None \<Rightarrow> (None, s @ [if oReportedAt o' = 0 then o'\<lparr>oReportedAt := now\<rparr> else o']))"

definition outcomeCount :: "OutcomeStore \<Rightarrow> nat" where
  "outcomeCount s = length s"

definition newRow :: "Outcome \<Rightarrow> AcceptanceRow" where
  "newRow o' = \<lparr>arKey = oModel o' @ ''|'' @ oTaskType o', arModel = oModel o', arTaskType = oTaskType o',
     arTotal = 0, arAccepted = 0, arRejected = 0, arPartial = 0, arAcceptanceRate = 0\<rparr>"

definition countOutcome :: "Outcome \<Rightarrow> AcceptanceRow \<Rightarrow> AcceptanceRow" where
  "countOutcome o' row0 =
     (let row = row0\<lparr>arTotal := arTotal row0 + 1\<rparr> in
      if oVerdict o' = VerdictAccepted then row\<lparr>arAccepted := arAccepted row + 1\<rparr>
      else if oVerdict o' = VerdictRejected then row\<lparr>arRejected := arRejected row + 1\<rparr>
      else if oVerdict o' = VerdictPartial then row\<lparr>arPartial := arPartial row + 1\<rparr>
      else row)"

definition outcomeKey :: "Outcome \<Rightarrow> string" where
  "outcomeKey o' = oModel o' @ ''|'' @ oTaskType o'"

definition groupStep :: "string \<Rightarrow> Outcome \<Rightarrow> (string, AcceptanceRow) gomap \<Rightarrow> (string, AcceptanceRow) gomap" where
  "groupStep taskFilter o' groups =
     (if taskFilter \<noteq> [] \<and> oTaskType o' \<noteq> taskFilter then groups
      else mput (outcomeKey o') (countOutcome o' (mget0 (newRow o') groups (outcomeKey o'))) groups)"

definition rateRow :: "AcceptanceRow \<Rightarrow> AcceptanceRow" where
  "rateRow row = (if arTotal row > 0
     then row\<lparr>arAcceptanceRate := (of_int (arAccepted row) + 1 / 2 * of_int (arPartial row)) / of_int (arTotal row)\<rparr>
     else row)"

definition sortAcceptanceDesc :: "AcceptanceRow list \<Rightarrow> AcceptanceRow list" where
  "sortAcceptanceDesc = insertion_sort (\<lambda>a b. arTotal a > arTotal b)"

definition outcomeGroups :: "string \<Rightarrow> OutcomeStore \<Rightarrow> (string, AcceptanceRow) gomap" where
  "outcomeGroups taskFilter s = fold (groupStep taskFilter) s []"

definition Acceptance :: "AcceptanceRow range_order \<Rightarrow> string \<Rightarrow> OutcomeStore \<Rightarrow> AcceptanceRow list" where
  "Acceptance rng taskFilter s =
     sortAcceptanceDesc (map (\<lambda>e. rateRow (snd e)) (rng (outcomeGroups taskFilter s)))"

definition outcomeSortStrings :: "string list \<Rightarrow> string list" where
  "outcomeSortStrings = insertion_sort (\<lambda>a b. a < b)"

definition outcomeTaskTypes :: "unit range_order \<Rightarrow> OutcomeStore \<Rightarrow> string list" where
  "outcomeTaskTypes rng s =
     outcomeSortStrings (mkeys (rng (fold (\<lambda>o' seen. if oTaskType o' \<noteq> [] then mput (oTaskType o') () seen else seen) s [])))"

section \<open>The rows of a store\<close>

definition outcomeSel :: "string \<Rightarrow> Outcome \<Rightarrow> bool" where
  "outcomeSel taskFilter o' \<longleftrightarrow> taskFilter = [] \<or> oTaskType o' = taskFilter"

definition storeOK :: "OutcomeStore \<Rightarrow> bool" where
  "storeOK s \<longleftrightarrow> (\<forall>o' \<in> set s. outcomeValidate o' = None)"

definition rowOK :: "AcceptanceRow \<Rightarrow> bool" where
  "rowOK r \<longleftrightarrow> 0 \<le> arAccepted r \<and> 0 \<le> arRejected r \<and> 0 \<le> arPartial r \<and>
     arTotal r = arAccepted r + arRejected r + arPartial r"

lemma recordOutcome_ok: "storeOK s \<Longrightarrow> storeOK (snd (recordOutcome now o' s))"
  by (auto simp: recordOutcome_def storeOK_def outcomeValidate_def split: option.split if_splits)

lemma rowOK_new: "rowOK (newRow o')"
  by (simp add: rowOK_def newRow_def)

lemma rowOK_count: "outcomeValidate o' = None \<Longrightarrow> rowOK r \<Longrightarrow> rowOK (countOutcome o' r)"
  by (auto simp: rowOK_def countOutcome_def outcomeValidate_def Let_def split: if_splits)

lemma rowOK_mget0: "mall rowOK g \<Longrightarrow> rowOK (mget0 (newRow o') g k)"
  by (auto simp: mget0_def rowOK_new split: option.split dest: mall_get)

lemma groupStep_rows: "outcomeValidate o' = None \<Longrightarrow> mall rowOK g \<Longrightarrow> mall rowOK (groupStep f o' g)"
  by (auto simp: groupStep_def intro: rowOK_count rowOK_mget0)

lemma groups_rows: "storeOK s \<Longrightarrow> mall rowOK g \<Longrightarrow> mall rowOK (fold (groupStep f) s g)"
  by (induction s arbitrary: g) (simp_all add: storeOK_def groupStep_rows)

lemma groupStep_total: "msum arTotal (groupStep f o' g) = msum arTotal g + (if outcomeSel f o' then 1 else 0)"
proof -
  have "arTotal (newRow o') = 0" "\<And>r. arTotal (countOutcome o' r) = arTotal r + 1"
    by (simp_all add: newRow_def countOutcome_def Let_def)
  then show ?thesis
    by (simp add: groupStep_def outcomeSel_def msum_upd [of arTotal "newRow o'"])
qed

lemma groups_total: "msum arTotal (fold (groupStep f) s g) = msum arTotal g + int (length (filter (outcomeSel f) s))"
  by (induction s arbitrary: g) (simp_all add: groupStep_total)

lemma rate_bounds:
  assumes "rowOK r"
  shows "0 \<le> arAcceptanceRate (rateRow (r\<lparr>arAcceptanceRate := 0\<rparr>)) \<and> arAcceptanceRate (rateRow (r\<lparr>arAcceptanceRate := 0\<rparr>)) \<le> 1"
proof (cases "arTotal r > 0")
  case True
  have "0 \<le> (of_int (arAccepted r) :: rat)" "0 \<le> (of_int (arPartial r) :: rat)" "0 \<le> (of_int (arRejected r) :: rat)"
    "(of_int (arTotal r) :: rat) = of_int (arAccepted r) + of_int (arRejected r) + of_int (arPartial r)"
    using assms by (simp_all add: rowOK_def)
  with True show ?thesis
    by (simp add: rateRow_def divide_le_eq)
qed (simp add: rateRow_def)

lemma Acceptance_set: "range_perm rng \<Longrightarrow> set (Acceptance rng f s) = (\<lambda>e. rateRow (snd e)) ` set (outcomeGroups f s)"
  using mset_eq_setD [of "rng (outcomeGroups f s)" "outcomeGroups f s"]
  by (simp add: Acceptance_def sortAcceptanceDesc_def range_perm_def)

lemma rateRow_simps [simp]: "arTotal (rateRow r) = arTotal r" "arAccepted (rateRow r) = arAccepted r"
  "arRejected (rateRow r) = arRejected r" "arPartial (rateRow r) = arPartial r" "rowOK (rateRow r) = rowOK r"
  by (simp_all add: rateRow_def rowOK_def)

lemma Acceptance_total:
  assumes "range_perm rng"
  shows "sum_list (map arTotal (Acceptance rng f s)) = int (length (filter (outcomeSel f) s))"
proof -
  have "mset (map arTotal (Acceptance rng f s)) = mset (map (\<lambda>e. arTotal (snd e)) (outcomeGroups f s))"
    using assms by (simp add: Acceptance_def sortAcceptanceDesc_def insertion.srt_mset range_perm_def
        multiset.map_comp comp_def)
  then have "sum_list (map arTotal (Acceptance rng f s)) = msum arTotal (outcomeGroups f s)"
    unfolding msum_def by (metis sum_mset_sum_list)
  then show ?thesis
    by (simp add: outcomeGroups_def groups_total)
qed

lemma Acceptance_sorted: "sorted_wrt (\<lambda>a b. arTotal b \<le> arTotal a) (Acceptance rng f s)"
  using insertion.srt_sorted [OF strict_weak_key [of arTotal]]
  by (simp add: Acceptance_def sortAcceptanceDesc_def not_less)

lemma newRow_rate: "arAcceptanceRate (newRow o') = 0" "arAcceptanceRate (countOutcome o' r) = arAcceptanceRate r"
  by (simp_all add: newRow_def countOutcome_def Let_def)

lemma groups_rate: "mall (\<lambda>r. arAcceptanceRate r = 0) g \<Longrightarrow> mall (\<lambda>r. arAcceptanceRate r = 0) (fold (groupStep f) s g)"
proof (induction s arbitrary: g)
  case (Cons o' s)
  have "mall (\<lambda>r. arAcceptanceRate r = 0) (groupStep f o' g)"
    using Cons.prems
    by (auto simp: groupStep_def newRow_rate mget0_def split: option.split intro!: mall_put dest: mall_get)
  then show ?case by (simp add: Cons.IH)
qed simp

lemma Acceptance_rows:
  assumes "range_perm rng" and "storeOK s" and "r \<in> set (Acceptance rng f s)"
  shows "rowOK r \<and> 0 \<le> arAcceptanceRate r \<and> arAcceptanceRate r \<le> 1"
proof -
  obtain u where u: "u \<in> snd ` set (outcomeGroups f s)" "r = rateRow u"
    using assms Acceptance_set by auto
  moreover have "mall rowOK (outcomeGroups f s)" "mall (\<lambda>r. arAcceptanceRate r = 0) (outcomeGroups f s)"
    unfolding outcomeGroups_def by (simp_all add: groups_rows groups_rate assms(2))
  ultimately have "rowOK u" "u\<lparr>arAcceptanceRate := 0\<rparr> = u"
    by (auto simp: mall_def)
  with u(2) rate_bounds [of u] show ?thesis by simp
qed

end
