(* ===== verification/ServiceProps.thy ===== *)
theory ServiceProps
  imports Health Budget Outcomes DecisionCache ProviderRetry Auth
begin

text \<open>
  The properties of the services around the engine: access control, health, events, spend and
  budgets, the decision cache, outcomes and provider retries.
\<close>

section \<open>Access control\<close>

text \<open>
  Which tenant the handler behind a guard sees. \<open>routeGuard\<close> is the guard of the route that
  matches, if one does.
\<close>

definition routeGuard :: "ServerConfig \<Rightarrow> string \<Rightarrow> string \<Rightarrow> route_guard option" where
  "routeGuard cfg m path =
     map_option (\<lambda>(pm, pp, g). g) (find (\<lambda>(pm, pp, g). methodMatches pm m \<and> pp = path) (serverRoutes cfg))"

definition grants :: "(string \<Rightarrow> string) \<Rightarrow> (string \<Rightarrow> (string \<times> string) option) \<Rightarrow> KeyStore \<Rightarrow> string \<Rightarrow>
    route_guard \<Rightarrow> Tenant option option \<Rightarrow> bool" where
  "grants sha basicAuth keys a g ctx \<longleftrightarrow>
     (case g of
        Open \<Rightarrow> ctx = None
      | KeyOnly \<Rightarrow> \<exists>t. bearer sha keys a t \<and> ctx = Some t
      | KeyScope s \<Rightarrow> \<exists>t. bearer sha keys a t \<and> HasScope t s \<and> ctx = Some t
      | KeyRole r \<Rightarrow> \<exists>t. bearer sha keys a t \<and> HasRole t r \<and> ctx = Some t
      | BasicPassword p \<Rightarrow> (\<exists>u. basicAuth a = Some (u, p)) \<and> ctx = None)"

lemma guard_served:
  "(\<exists>x. guardHandler sha basicAuth keys a g h None = Served x) \<longleftrightarrow>
   (\<exists>ctx. grants sha basicAuth keys a g ctx \<and> (\<exists>x. h ctx = Served x))"
proof (cases g)
  case (BasicPassword p)
  then show ?thesis
    by (auto simp: guardHandler_def grants_def dashboardBasicAuth_def split: option.split)
qed (auto simp: guardHandler_def grants_def authMiddleware_served RequireScope_def RequireRole_def)

lemma serveHTTP_served:
  "(\<exists>x. serveHTTP sha basicAuth cfg m path a handlers = Served x) \<longleftrightarrow>
   (\<exists>g ctx. routeGuard cfg m path = Some g \<and> grants sha basicAuth (scKeys cfg) a g ctx \<and>
      (\<exists>x. handlers path ctx = Served x))"
  by (auto simp: serveHTTP_def routeGuard_def guard_served split: option.split)

text \<open>
  C15: a request is served exactly when a route matches and its guard grants access: a bearer
  token whose digest is an active key where a key is required, with the scope or role the route
  demands, or the dashboard password; the handler sees the tenant of that key, and nothing of the
  caller otherwise.
\<close>

theorem serveHTTP_access:
  "(\<exists>x. serveHTTP sha basicAuth cfg m path a handlers = Served x) \<longleftrightarrow>
   (\<exists>g ctx. routeGuard cfg m path = Some g \<and> grants sha basicAuth (scKeys cfg) a g ctx \<and>
      (\<exists>x. handlers path ctx = Served x))"
  by (rule serveHTTP_served)

text \<open>
  C17: keys take effect and lapse at once: after any sequence of additions and removals, the chat
  endpoint serves a request exactly when it carries a bearer token whose digest was last added,
  not disabled, for a tenant with the chat scope (digests of distinct keys are not assumed to be
  distinct).
\<close>

theorem chat_needs_live_key:
  assumes "scKeys cfg = fold (keyStep sha now) ops NewInMemoryKeyStore"
    and "\<forall>ctx. \<exists>x. handlers ''/v1/chat/completions'' ctx = Served x"
  shows "(\<exists>x. serveHTTP sha basicAuth cfg ''POST'' ''/v1/chat/completions'' a handlers = Served x) \<longleftrightarrow>
    (\<exists>k t. a = ''Bearer '' @ k \<and> TrimSpace k \<noteq> [] \<and> lastKeyOp sha (sha (TrimSpace k)) ops = Some t \<and>
       HasScope t ScopeChatCompletions)"
proof -
  have "routeGuard cfg ''POST'' ''/v1/chat/completions'' = Some (KeyScope ScopeChatCompletions)"
    by (simp add: routeGuard_def serverRoutes_def methodMatches_def)
  with assms(2) show ?thesis
    unfolding serveHTTP_served by (auto simp: grants_def bearer_def assms(1) keyRun_new)
qed

definition acme :: Tenant where
  "acme = \<lparr>tID = ''acme'', tProject = [], tKeyID = ''k1'', tRole = [], tScopes = [ScopeChatCompletions]\<rparr>"

lemma chat_needs_live_key_witness:
  "let cfg = (\<lambda>ops. \<lparr>scKeys = fold (keyStep (\<lambda>s. s) 0) ops NewInMemoryKeyStore, scHasEngine = True,
        scHasOutcomes = True, scDashboardPassword = []\<rparr>);
       serves = (\<lambda>ops. \<exists>x. serveHTTP (\<lambda>s. s) (\<lambda>s. None) (cfg ops) ''POST'' ''/v1/chat/completions''
         ''Bearer s3cret'' (\<lambda>p ctx. Served ()) = Served x)
   in serves [AddKey ''s3cret'' (Some acme)] \<and> \<not> serves [AddKey ''s3cret'' (Some acme), DisableKey ''s3cret'']"
proof -
  let ?cfg = "\<lambda>ops. \<lparr>scKeys = fold (keyStep (\<lambda>s. s) 0) ops NewInMemoryKeyStore, scHasEngine = True,
        scHasOutcomes = True, scDashboardPassword = []\<rparr>"
  have eq: "(\<exists>x. serveHTTP (\<lambda>s. s) (\<lambda>s. None) (?cfg ops) ''POST'' ''/v1/chat/completions''
         ''Bearer s3cret'' (\<lambda>p ctx. Served ()) = Served x) \<longleftrightarrow>
      (\<exists>k t. ''Bearer s3cret'' = ''Bearer '' @ k \<and> TrimSpace k \<noteq> [] \<and>
        lastKeyOp (\<lambda>s. s) (TrimSpace k) ops = Some t \<and> HasScope t ScopeChatCompletions)" for ops
    by (rule chat_needs_live_key) simp_all
  have trim: "TrimSpace ''s3cret'' = ''s3cret''" by code_simp
  show ?thesis
    unfolding Let_def eq by (simp add: trim lastKeyOp_def acme_def HasScope_def)
qed

section \<open>Health\<close>

text \<open>
  the health score of a provider is a function of its last hundred outcomes only: one while
  fewer than the minimum were seen, and their success share after that, whatever happened before
  them or to other providers.
\<close>

theorem ProviderHealth_recent_share:
  "ProviderHealth (recordAll evs []) p = successShare (lastN windowSize (outcomesOf p evs)) \<and>
   0 \<le> ProviderHealth (recordAll evs []) p \<and> ProviderHealth (recordAll evs []) p \<le> 1"
  by (simp add: ProviderHealth_recordAll successShare_range)

section \<open>Events\<close>

text \<open>
  C24: in every state that the event queue and its worker can reach, with enqueues, handler panics
  and cancellation in any order, the events accepted are those handled followed by those still
  buffered, in order; the buffer is within its capacity; and the events not accepted are counted
  as dropped.
\<close>

theorem queue_keeps_order:
  assumes "reachable panics sz w"
  shows "wkAccepted w = wkHandled w @ qBuf (wkQueue w) \<and>
    length (qBuf (wkQueue w)) \<le> qCap (wkQueue w) \<and> subseq (wkAccepted w) (wkOffered w) \<and>
    DroppedTotal (wkQueue w) = i64 (int (length (wkOffered w)) - int (length (wkAccepted w)))"
  using reachable_queue_inv [OF assms] unfolding queue_inv_def DroppedTotal_def .

definition someEvent :: Event where
  "someEvent = \<lparr>qType = EventTypeDecision, qDecision = None, qAttempt = None\<rparr>"

lemma queue_keeps_order_witness:
  "reachable (\<lambda>e. True) 1 (offer someEvent (offer someEvent (initWorker 1))) \<and>
   DroppedTotal (wkQueue (offer someEvent (offer someEvent (initWorker 1)))) = 1"
proof -
  let ?w = "offer someEvent (offer someEvent (initWorker 1))"
  have r: "reachable (\<lambda>e. True) 1 ?w"
    by (intro reachable.step [OF _ run_step.enqueue] reachable.init)
  have "length (wkOffered ?w) = 2" "length (wkAccepted ?w) = 1"
    by (simp_all add: offer_def Enqueue_def initWorker_def NewQueue_def)
  with queue_keeps_order [OF r] r show ?thesis by (simp add: i64_def)
qed

section \<open>Cost and spend\<close>

text \<open>
  C26: for priced metadata and non-negative token counts the estimate is the exact cost (each
  direction rounded down to a micro-dollar), and when that exceeds the largest \<open>int64\<close> the result
  is the overflow error: no wrapped amount is ever returned.
\<close>

theorem EstimateCost_exact:
  assumes "priced meta" and "0 \<le> tuInputTokens usage" and "0 \<le> tuOutputTokens usage"
  shows "map_sum id estTotalMicroUSD (EstimateCost m p meta usage) =
    (if exactCost meta usage \<le> maxInt64 then Inr (exactCost meta usage) else Inl ErrOverflow)"
  by (rule EstimateCost_spec [OF assms])

definition usdRate :: "int \<Rightarrow> int \<Rightarrow> CostMetadata" where
  "usdRate i out = \<lparr>Currency = ''USD'', InputMicrosPerMillionToken = i, OutputMicrosPerMillionToken = out\<rparr>"

lemma EstimateCost_exact_witness:
  "map_sum id estTotalMicroUSD (EstimateCost ''m'' ''p'' (usdRate 400000 1600000) \<lparr>tuInputTokens = 1001, tuOutputTokens = 3, tuMode = []\<rparr>)
     = Inr 404 \<and>
   map_sum id estTotalMicroUSD (EstimateCost ''m'' ''p'' (usdRate (2 ^ 40) 1) \<lparr>tuInputTokens = 2 ^ 60, tuOutputTokens = 3, tuMode = []\<rparr>)
     = Inl ErrOverflow"
proof -
  have usd: "TrimSpace ''USD'' \<noteq> []" by code_simp
  then have "priced (usdRate 400000 1600000)" "priced (usdRate (2 ^ 40) 1)"
    by (simp_all add: priced_def usdRate_def)
  from EstimateCost_exact [OF this(1), of "\<lparr>tuInputTokens = 1001, tuOutputTokens = 3, tuMode = []\<rparr>"]
    EstimateCost_exact [OF this(2), of "\<lparr>tuInputTokens = 2 ^ 60, tuOutputTokens = 3, tuMode = []\<rparr>"]
  show ?thesis by (simp add: exactCost_def usdRate_def maxInt64_def)
qed

lemma i64_eq_word: "(word_of_int x :: 64 word) = word_of_int y \<Longrightarrow> i64 x = i64 y"
  using i64_of_word [of "i64 x" y] by simp

lemma requestWord_msum: "requestWord t = word_of_int (msum maRequests (stByModel t))"
  by (simp add: requestWord_def msum_def requestsOf_def [abs_def] word_sum_list)

text \<open>
  after any sequence of events the tracker's total cost is the sum of the costs of the
  successful attempts (the actual cost, or the estimate where there is none), its total number of
  requests is the number of decisions that were not blocked, modulo the wrap-around of \<open>int64\<close>,
  and what it attributes to a tenant is the cost of that tenant's attempts; in whatever order
  the maps are ranged over.
\<close>

theorem spend_totals:
  assumes "range_perm rng"
  shows "TotalCostUSD rng (fold spendHandle es newTracker) = sum_list (map attemptAmount es) \<and>
    TotalRequests rng (fold spendHandle es newTracker) = i64 (sum_list (map routedCount es)) \<and>
    tenantCost tn (fold spendHandle es newTracker) = sum_list (map (tenantAmount tn) es)"
proof -
  have "(word_of_int (msum maRequests (stByModel (fold spendHandle es newTracker))) :: 64 word) =
      word_of_int (sum_list (map routedCount es))"
    using spend_requests.total_fold [of es newTracker]
    by (simp add: requestWord_msum [symmetric] word_sum_list)
  note requests = i64_eq_word [OF this]
  have cost: "totalCost (fold spendHandle es newTracker) = sum_list (map attemptAmount es)"
    using spend_cost.total_fold [of es newTracker] by simp
  have tenant: "tenantCost tn (fold spendHandle es newTracker) = sum_list (map (tenantAmount tn) es)"
    using spend_tenant.total_fold [of tn es newTracker] by simp
  show ?thesis
    unfolding TotalCostUSD_msum [OF assms] TotalRequests_msum [OF assms]
    using requests cost [unfolded totalCost_def] tenant by blast
qed

definition attemptOf :: "string \<Rightarrow> float64 \<Rightarrow> Event" where
  "attemptOf tn usd = \<lparr>qType = EventTypeAttempt, qDecision = None, qAttempt = Some
     \<lparr>aeRequestID = ''r'', aeTenantID = tn, aeProjectID = [], aeProviderID = ''openai'', aeModelID = ''m'',
      aeAttemptIndex = 0, aeSuccess = True, aeErrorCode = [], aeDurationMs = 1, aeInputTokens = 10,
      aeOutputTokens = 2, aeActualCostUSD = 0, aeEstimatedCostUSD = usd,
      aeFirstTokenMs = 0, aeAttemptedAt = 0\<rparr>\<rparr>"

lemma spend_totals_witness:
  "TotalCostUSD rev (fold spendHandle [attemptOf ''a'' (1 / 2), attemptOf ''b'' 2] newTracker) = 5 / 2"
proof -
  have "range_perm (rev :: modelAccum range_order)" by (simp add: range_perm_def)
  from spend_totals [OF this, of "[attemptOf ''a'' (1 / 2), attemptOf ''b'' 2]"] show ?thesis
    by (simp add: attemptAmount_def attemptOf_def attemptCost_def)
qed

text \<open>
  restoring a snapshot of a tracker into a new one brings back every model's and every
  tenant's counters, in whatever order the maps were ranged over to take it.
\<close>

theorem Restore_snapshot_roundtrip:
  assumes "spendTrackerOK t" and "range_perm rngM" and "range_perm rngT"
  shows "mget (stByModel (Restore (spendSnapshot rngM rngT t) newTracker)) = mget (stByModel t) \<and>
    mget (stByTenant (Restore (spendSnapshot rngM rngT t) newTracker)) = mget (stByTenant t)"
  using Restore_Snapshot [OF assms] by blast

lemma Restore_snapshot_roundtrip_witness:
  "let t = fold spendHandle [attemptOf ''a'' (1 / 2), attemptOf ''b'' 2] newTracker
   in mget (stByTenant (Restore (spendSnapshot rev rev t) newTracker)) ''b'' = Some \<lparr>taRequests = 0, taCostUSD = 2\<rparr>"
proof -
  let ?t = "fold spendHandle [attemptOf ''a'' (1 / 2), attemptOf ''b'' 2] newTracker"
  have ok: "spendTrackerOK ?t" by (rule spendTrackerOK_fold) simp
  have rp: "range_perm (rev :: 'x range_order)" for x :: 'x by (simp add: range_perm_def)
  have "mget (stByTenant ?t) ''b'' = Some \<lparr>taRequests = 0, taCostUSD = 2\<rparr>" by code_simp
  with Restore_snapshot_roundtrip [OF ok rp rp] show ?thesis by (simp add: Let_def)
qed

text \<open>
  saving is all or nothing, whichever of making the directory, encoding, writing (with any
  part of the data written) and renaming fails: on success the file holds the encoded snapshot,
  on failure it holds what it held before.
\<close>

theorem SaveJSON_all_or_nothing:
  "case SaveJSON marshal ops path s fs of
     (True, fs') \<Rightarrow> marshal s \<noteq> None \<and> mget fs' path = marshal s
   | (False, fs') \<Rightarrow> mget fs' path = mget fs path"
proof (cases "SaveJSON marshal ops path s fs")
  case (Pair ok fs')
  with SaveJSON_cases [OF Pair] show ?thesis
    by (cases ok) (auto simp: SaveJSON_def Let_def split: if_splits option.splits)
qed

text \<open>
  the simulator's totals are exact: for priced models and non-negative token counts whose
  totals fit \<open>int64\<close>, the baseline and routed amounts are the sums of the exact costs, the saving
  is their difference, and the risk-adjusted saving is the rounded sum of the savings weighted by
  the risk of each request.
\<close>

theorem simulator_totals:
  assumes "\<forall>r \<in> set rs. simPriced s r" and "int (length rs) \<le> maxInt64"
    and "sum_list (map (baseCost s) rs) \<le> maxInt64" and "sum_list (map routedCost rs) \<le> maxInt64"
  shows "\<exists>res. simRun s rs = Inr res \<and> resRequests res = int (length rs) \<and>
    resBaselinePremiumMicroUSD res = sum_list (map (baseCost s) rs) \<and>
    resActualMicroUSD res = sum_list (map routedCost rs) \<and>
    resSavingsMicroUSD res = sum_list (map (baseCost s) rs) - sum_list (map routedCost rs) \<and>
    resRiskAdjustedSavingsMicroUSD res = i64 (mathRound (sum_list (map (weightedSaving s) rs)))"
proof -
  have loop: "simLoop s 0 rs zeroSimResult 0 =
      Inr (zeroSimResult\<lparr>resRequests := int (length rs),
             resBaselinePremiumMicroUSD := sum_list (map (baseCost s) rs),
             resActualMicroUSD := sum_list (map routedCost rs)\<rparr>,
           sum_list (map (weightedSaving s) rs))"
    using simLoop_total [OF assms(1), of zeroSimResult 0 0] assms(2-4)
    by (simp add: zeroSimResult_def)
  have nonneg: "0 \<le> sum_list (map (baseCost s) rs)" "0 \<le> sum_list (map routedCost rs)"
    using assms(1) by (auto intro!: sum_list_nonneg exactCost_nonneg
        simp: simPriced_def baseCost_def routedCost_def simUsage_def)
  then have "in_i64 (sum_list (map (baseCost s) rs) - sum_list (map routedCost rs))"
    using assms(3,4) by (intro in_i64_bounds) (simp_all add: maxInt64_def)
  then show ?thesis
    by (simp add: simRun_def loop Let_def)
qed

definition simModel :: "int \<Rightarrow> Model" where
  "simModel rate = zeroModel\<lparr>mCost := usdRate rate 0\<rparr>"

definition simReq :: SimRequest where
  "simReq = \<lparr>srInputTokens = 1000, srOutputTokens = 0, srRiskLevel = ''low'', srRoutedModel = simModel 1000000\<rparr>"

lemma simulator_totals_witness:
  "\<exists>res. simRun \<lparr>simBaseline = simModel 3000000, simRiskWeights = None\<rparr> [simReq, simReq] = Inr res \<and>
    resSavingsMicroUSD res = 4000"
proof -
  let ?s = "\<lparr>simBaseline = simModel 3000000, simRiskWeights = None\<rparr>"
  have usd: "TrimSpace ''USD'' \<noteq> []" by code_simp
  have ok: "\<forall>r \<in> set [simReq, simReq]. simPriced ?s r"
    by (simp add: simPriced_def priced_def simReq_def simModel_def usdRate_def usd)
  have costs: "baseCost ?s simReq = 3000" "routedCost simReq = 1000"
    by (simp_all add: baseCost_def routedCost_def exactCost_def simUsage_def simReq_def simModel_def usdRate_def)
  from simulator_totals [OF ok] show ?thesis
    by (auto simp: costs maxInt64_def)
qed

text \<open>
  C28: the budget in force for a tenant and project blocks a request exactly when a cap with a
  positive limit applies (the project's, else the tenant's), its action is not to downgrade, and
  the bills of the events handled so far for that project or tenant, added as \<open>int64\<close>, have reached
  the limit.
\<close>

theorem budget_blocks_iff:
  "vBlocked (budgetCheck (Some \<lparr>evCaps = Some caps, evLedger = Some (fold ledgerHandle es NewLedger)\<rparr>) t p) \<longleftrightarrow>
   (\<exists>cp ps. capsLookup t p caps = Some (cp, ps) \<and> 0 < capLimitMicroUSD cp \<and> capAction cp \<noteq> ActionDowngrade \<and>
      capLimitMicroUSD cp \<le> i64 (sum_list (map (if ps then projectBill t p else tenantBill t) es)))"
proof (cases "capsLookup t p caps")
  case None
  then show ?thesis by (simp add: budgetCheck_configured)
next
  case (Some c)
  obtain cp ps where c: "c = (cp, ps)" by (cases c)
  have "vBlocked (budgetCheck (Some \<lparr>evCaps = Some caps, evLedger = Some (fold ledgerHandle es NewLedger)\<rparr>) t p) \<longleftrightarrow>
      0 < capLimitMicroUSD cp \<and> vBlocked (budgetVerdict (fold ledgerHandle es NewLedger) t p cp ps)"
    by (simp add: budgetCheck_configured Some c)
  also have "\<dots> \<longleftrightarrow> 0 < capLimitMicroUSD cp \<and> capAction cp \<noteq> ActionDowngrade \<and>
      capLimitMicroUSD cp \<le> i64 (sum_list (map (if ps then projectBill t p else tenantBill t) es))"
    unfolding budgetVerdict_over SpentTenant_fold SpentProject_fold by (cases ps; simp only: if_True if_False; blast)
  finally show ?thesis by (simp add: Some c)
qed

section \<open>The decision cache\<close>

text \<open>
  C29: in every run of gets and puts, a hit returns the decision last put under that key, no
  longer ago than the time to live, and the cache never holds more entries than its maximum.
\<close>

theorem cache_hits_are_fresh:
  assumes "c = cacheRun ops (Some (newDecCache ttl mx))" and "fst (cacheGet now k c) = Some d"
  shows "(\<exists>t. lastPut k ops = Some (t, d) \<and> now \<le> t + ttl \<and> 0 < ttl) \<and>
    int (cacheLen c) \<le> (if mx \<le> 0 then 10000 else mx)"
proof -
  have inv: "cacheInv ttl (if mx \<le> 0 then 10000 else mx) ops c"
    unfolding assms(1) by (rule cacheRun_inv)
  from cacheInv_hit [OF inv assms(2)] inv show ?thesis
    by (auto simp: cacheInv_def cacheLen_def)
qed

lemma cache_hits_are_fresh_witness:
  "fst (cacheGet 15 ''k'' (cacheRun [PutOp 10 ''k'' zeroDecision] (Some (newDecCache 5 2)))) = Some zeroDecision \<and>
   (\<exists>t. lastPut ''k'' [PutOp 10 ''k'' zeroDecision] = Some (t, zeroDecision) \<and> 15 \<le> t + 5)"
proof -
  have hit: "fst (cacheGet 15 ''k'' (cacheRun [PutOp 10 ''k'' zeroDecision] (Some (newDecCache 5 2)))) = Some zeroDecision"
    by (simp add: cacheRun_def newDecCache_def cachePut_def cacheGet_def Let_def)
  from cache_hits_are_fresh [OF refl this] hit show ?thesis by blast
qed

text \<open>
  keys are separated by tenant, project, task, router mode and by the versions of the policy
  and the registry: when the hash does not collide on two key texts whose fields are free of the
  separator, equal keys mean that all of these agree, so a decision is never reused across
  tenants or after a reload that changes a version.
\<close>

theorem decision_keys_separate:
  assumes "jobSepFree j" and "jobSepFree j'" and "sepFree pv" and "sepFree pv'" and "sepFree rv" and "sepFree rv'"
    and "sha (keyText sha sprint req (Some j) pv rv) = sha (keyText sha sprint req' (Some j') pv' rv') \<longrightarrow>
      keyText sha sprint req (Some j) pv rv = keyText sha sprint req' (Some j') pv' rv'"
    and "decisionKey sha sprint req (Some j) pv rv = decisionKey sha sprint req' (Some j') pv' rv'"
  shows "jTenantID j = jTenantID j' \<and> jProjectID j = jProjectID j' \<and> jTaskType j = jTaskType j' \<and>
    jRouterMode j = jRouterMode j' \<and> pv = pv' \<and> rv = rv'"
  using keyText_fields [OF assms(1-6)] assms(7,8) by (simp add: decisionKey_def)

lemma decision_keys_separate_witness:
  "decisionKey (\<lambda>s. s) (\<lambda>v. []) None (Some (baseJob ''r'')) ''v1'' ''r1'' \<noteq>
   decisionKey (\<lambda>s. s) (\<lambda>v. []) None (Some (baseJob ''r'')) ''v2'' ''r1''"
proof
  assume eq: "decisionKey (\<lambda>s. s) (\<lambda>v. []) None (Some (baseJob ''r'')) ''v1'' ''r1'' =
    decisionKey (\<lambda>s. s) (\<lambda>v. []) None (Some (baseJob ''r'')) ''v2'' ''r1''"
  have "jobSepFree (baseJob ''r'')" by (simp add: jobSepFree_def baseJob_def sepFree_def)
  from decision_keys_separate [OF this this _ _ _ _ _ eq] show False by (simp add: sepFree_def)
qed

text \<open>
  the key leaves out the parts of a request that the engine's filter depends on: two requests
  that agree on model, messages and metadata share a key although one streams, asks for tools or
  a response format or sets a token limit and the other does not.
\<close>

theorem decision_key_ignores_capabilities:
  "decisionKey sha sprint (Some r) job pv rv =
   decisionKey sha sprint (Some (r\<lparr>reqStream := s, reqTools := ts, reqResponseFormat := f, reqMaxTokens := n\<rparr>)) job pv rv"
  by (simp add: decisionKey_def keyText_def requestKeyPart_def)

section \<open>Outcomes\<close>

text \<open>
  the acceptance report of a store filled by \<open>Record\<close> counts every selected outcome once:
  the totals of its rows add up to the outcomes of the task type asked for, each total splits into
  accepted, rejected and partial, each rate lies between zero and one, and the rows come in
  decreasing order of their totals.
\<close>

theorem Acceptance_report:
  assumes "range_perm rng" and "s = fold (\<lambda>o'. snd \<circ> recordOutcome now o') os []"
  shows "sum_list (map arTotal (Acceptance rng f s)) = int (length (filter (outcomeSel f) s)) \<and>
    (\<forall>r \<in> set (Acceptance rng f s). rowOK r \<and> 0 \<le> arAcceptanceRate r \<and> arAcceptanceRate r \<le> 1) \<and>
    sorted_wrt (\<lambda>a b. arTotal b \<le> arTotal a) (Acceptance rng f s)"
proof -
  have run: "storeOK (fold (\<lambda>o'. snd \<circ> recordOutcome now o') os st)" if "storeOK st" for st
    using that by (induction os arbitrary: st) (simp_all add: recordOutcome_ok)
  have "storeOK s"
    unfolding assms(2) by (rule run) (simp add: storeOK_def)
  with assms(1) show ?thesis
    using Acceptance_total Acceptance_sorted Acceptance_rows by blast
qed

definition outcomeOf :: "string \<Rightarrow> string \<Rightarrow> Outcome" where
  "outcomeOf m v = \<lparr>oRequestID = ''r'', oVerdict = v, oModel = m, oTaskType = ''t'', oRating = 0, oComment = [], oReportedAt = 0\<rparr>"

lemma Acceptance_report_witness:
  "sum_list (map arTotal (Acceptance rev []
     (fold (\<lambda>o'. snd \<circ> recordOutcome 7 o') [outcomeOf ''a'' VerdictAccepted, outcomeOf ''b'' ''bogus''] []))) = 1"
proof -
  have "range_perm (rev :: AcceptanceRow range_order)" by (simp add: range_perm_def)
  moreover have "length (filter (outcomeSel [])
      (fold (\<lambda>o'. snd \<circ> recordOutcome 7 o') [outcomeOf ''a'' VerdictAccepted, outcomeOf ''b'' ''bogus''] [])) = 1"
    by code_simp
  ultimately show ?thesis
    using Acceptance_report [OF _ refl, of rev "[]" 7 "[outcomeOf ''a'' VerdictAccepted, outcomeOf ''b'' ''bogus'']"]
    by simp
qed

section \<open>Provider retries\<close>

text \<open>
  the retry loop returns a response exactly when an attempt within the budget yields it after
  transient failures only, with the context alive before each retry; it makes its attempts one
  after the other and never more than one plus the number of retries.
\<close>

theorem retry_succeeds_iff:
  "(rrResult (retryLoop r ctxDone inner 0 None [] []) = Inr x \<longleftrightarrow> (\<exists>n. succeedsAt r ctxDone inner 0 n x)) \<and>
   (\<exists>n. rrAttempts (retryLoop r ctxDone inner 0 None [] []) = [0..<n] \<and> (n = 0 \<or> int n \<le> raMaxRetries r + 1))"
  using retryLoop_succeeds [of r ctxDone inner 0 None "[]" "[]" x]
    retryLoop_attempts [of "[]" 0 r ctxDone inner None "[]"] by auto

end
