(* ===== verification/QueueLaws.thy ===== *)
theory QueueLaws
  imports EventLog
begin

text \<open>
  How the worker of the event queue ends: its mode only moves forward, and once it is cancelled
  it can always finish, having handled everything it accepted, unless a handler panics while the
  buffer is drained.
\<close>

instantiation mode :: linorder
begin

definition mode_rank :: "mode \<Rightarrow> nat" where
  "mode_rank m = (case m of Running \<Rightarrow> 0 | Draining \<Rightarrow> 1 | Stopped \<Rightarrow> 2 | Crashed \<Rightarrow> 3)"

definition less_eq_mode :: "mode \<Rightarrow> mode \<Rightarrow> bool" where
  "less_eq_mode a b \<longleftrightarrow> mode_rank a \<le> mode_rank b"

definition less_mode :: "mode \<Rightarrow> mode \<Rightarrow> bool" where
  "less_mode a b \<longleftrightarrow> mode_rank a < mode_rank b"

instance
  by standard (auto simp: less_eq_mode_def less_mode_def mode_rank_def split: mode.splits)

end

lemmas mode_order = less_eq_mode_def mode_rank_def

lemma run_step_mode: "run_step panics w w' \<Longrightarrow> wkMode w \<le> wkMode w'"
  by (auto simp: offer_def takeHead_def mode_order)

lemma run_steps_mode: "rtranclp (run_step panics) w w' \<Longrightarrow> wkMode w \<le> wkMode w'"
  by (induction rule: rtranclp_induct) (auto dest: run_step_mode)

lemma run_step_accepted: "run_step panics w w' \<Longrightarrow> prefix (wkHandled w) (wkHandled w') \<and> prefix (wkAccepted w) (wkAccepted w')"
  by (auto simp: offer_def takeHead_def)

text \<open>After the end nothing more is handled.\<close>

lemma ended_handles_nothing:
  "run_step panics w w' \<Longrightarrow> Stopped \<le> wkMode w \<Longrightarrow> wkHandled w' = wkHandled w"
  by (auto simp: offer_def takeHead_def mode_order)

lemma drains:
  assumes "wkMode w = Draining" and "\<forall>e \<in> set (qBuf (wkQueue w)). \<not> panics e"
  shows "\<exists>w'. rtranclp (run_step panics) w w' \<and> wkMode w' = Stopped \<and> qBuf (wkQueue w') = [] \<and>
    wkHandled w' = wkHandled w @ qBuf (wkQueue w)"
  using assms
proof (induction "qBuf (wkQueue w)" arbitrary: w)
  case Nil
  then have "run_step panics w (w\<lparr>wkMode := Stopped\<rparr>)"
    by (intro run_step.finish) simp_all
  with Nil show ?case
    by (intro exI [of _ "w\<lparr>wkMode := Stopped\<rparr>"]) auto
next
  case (Cons e rest)
  let ?w = "takeHead e rest w"
  have step: "run_step panics w ?w"
    using Cons.hyps(2) Cons.prems by (intro run_step.drain) (metis list.set_intros(1))+
  have "wkMode ?w = Draining" "\<forall>e \<in> set (qBuf (wkQueue ?w)). \<not> panics e" "rest = qBuf (wkQueue ?w)"
    using Cons.hyps(2) [symmetric] Cons.prems by (simp_all add: takeHead_def)
  from Cons.hyps(1) [OF this(3,1,2)] obtain w' where w': "rtranclp (run_step panics) ?w w'" "wkMode w' = Stopped"
    "qBuf (wkQueue w') = []" "wkHandled w' = wkHandled ?w @ qBuf (wkQueue ?w)" by blast
  from w'(4) have "wkHandled w' = wkHandled w @ qBuf (wkQueue w)"
    by (simp add: takeHead_def Cons.hyps(2) [symmetric])
  with w' step show ?case by (blast intro: converse_rtranclp_into_rtranclp)
qed

lemma reachable_steps: "rtranclp (run_step panics) w w' \<Longrightarrow> reachable panics sz w \<Longrightarrow> reachable panics sz w'"
  by (induction rule: rtranclp_induct) (auto intro: reachable.step)

lemma stopping:
  assumes "wkMode w = Running" and "wkCancelled w"
  shows "run_step panics w (w\<lparr>wkMode := Draining\<rparr>)"
  by (rule run_step.stop [OF assms])

text \<open>
  a worker that is cancelled can finish: from every reachable state in which it still runs or
  drains, provided that the handler does not panic on the events left in the buffer, there is a
  run that stops with the buffer empty and every accepted event handled, in the order of
  acceptance.
\<close>

theorem cancelled_worker_drains:
  assumes "reachable panics sz w" and "wkCancelled w" and "wkMode w \<le> Draining"
    and "\<forall>e \<in> set (qBuf (wkQueue w)). \<not> panics e"
  shows "\<exists>w'. rtranclp (run_step panics) w w' \<and> wkMode w' = Stopped \<and> qBuf (wkQueue w') = [] \<and>
    wkHandled w' = wkAccepted w"
proof -
  from reachable_queue_inv [OF assms(1)] have acc: "wkAccepted w = wkHandled w @ qBuf (wkQueue w)"
    unfolding queue_inv_def by blast
  from assms(3) consider "wkMode w = Running" | "wkMode w = Draining"
    by (cases "wkMode w") (auto simp: mode_order)
  then show ?thesis
  proof cases
    case 1
    note step = stopping [OF 1 assms(2), of panics]
    from drains [of "w\<lparr>wkMode := Draining\<rparr>" panics] assms(4) acc step show ?thesis
      by (auto intro: converse_rtranclp_into_rtranclp)
  next
    case 2
    from drains [OF 2 assms(4)] acc show ?thesis by auto
  qed
qed

lemma cancelled_worker_drains_witness:
  "let e = \<lparr>qType = EventTypeDecision, qDecision = None, qAttempt = None\<rparr>;
       w = (offer e (initWorker 1))\<lparr>wkCancelled := True\<rparr>
   in \<exists>w'. rtranclp (run_step (\<lambda>e. False)) w w' \<and> wkMode w' = Stopped \<and> wkHandled w' = [e]"
proof -
  let ?e = "\<lparr>qType = EventTypeDecision, qDecision = None, qAttempt = None\<rparr> :: Event"
  let ?w = "(offer ?e (initWorker 1))\<lparr>wkCancelled := True\<rparr>"
  have "reachable (\<lambda>e. False) 1 ?w"
    by (intro reachable.step [OF _ run_step.cancel] reachable.step [OF _ run_step.enqueue] reachable.init)
  moreover have "wkCancelled ?w" "wkMode ?w \<le> Draining" "wkAccepted ?w = [?e]"
    by (simp_all add: offer_def initWorker_def NewQueue_def mode_order)
  ultimately show ?thesis
    using cancelled_worker_drains [of "\<lambda>e. False" 1 ?w] unfolding Let_def by auto
qed

end
