(* ===== verification/RequestProps.thy ===== *)
theory RequestProps
  imports NewJob PolicyMatch
begin

text \<open>
  The properties of the path from a chat request to its job descriptor: token estimate, feature
  extraction, risk classification and the descriptor itself.
\<close>

section \<open>Token estimate\<close>

text \<open>
  the prompt estimate is the number of characters of the relevant messages divided by four,
  rounded up: it is never below a quarter of the characters and never more than one above it.
\<close>

theorem prompt_estimate_bounds:
  "let chars = (\<Sum>m\<leftarrow>(case req of None \<Rightarrow> [] | Some r \<Rightarrow> reqMessages r).
         if isRelevantChatRole (msgRole m) then int (runeCount (msgContent m)) else 0);
       est = EstimateChatRequestTokens req
   in teCharCount est = chars \<and> chars \<le> 4 * tePromptTokensEstimate est \<and>
      4 * tePromptTokensEstimate est < chars + 4"
  using ceilDiv_bounds [of "countPromptChars (case req of None \<Rightarrow> [] | Some r \<Rightarrow> reqMessages r)" 4]
    countPromptChars_nonneg
  by (simp add: EstimateChatRequestTokens_def Let_def countPromptChars_sum [symmetric] mult.commute
      split: prod.split)

section \<open>Features\<close>

text \<open>
  \<open>containsTerm\<close>, a loop over the occurrences of a term, finds exactly the terms that occur
  as whole words (a term with a byte that is not a word byte matches anywhere, the empty term
  nowhere).
\<close>

theorem containsTerm_whole_words:
  "containsTerm s t \<longleftrightarrow> t \<noteq> [] \<and>
     (if hasNonWordSearchChar t then \<exists>a b. s = a @ t @ b
      else \<exists>i. occursAt s t i \<and> wholeWordAt s t i)"
  by (rule containsTerm_iff)

text \<open>
  whatever the messages, the extracted features stay within their caps: at most
  \<open>MaxKeywords\<close> keywords, \<open>MaxFilesTouched\<close> files and \<open>MaxSensitivityHints\<close> hints, without
  duplicates (files are compared case-insensitively).
\<close>

theorem ExtractFromMessages_capped:
  "length (fKeywords (ExtractFromMessages ms h)) \<le> MaxKeywords \<and>
   length (fFilesTouched (ExtractFromMessages ms h)) \<le> MaxFilesTouched \<and>
   length (fSensitivityHints (ExtractFromMessages ms h)) \<le> MaxSensitivityHints \<and>
   distinct (fKeywords (ExtractFromMessages ms h)) \<and> distinct (fSensitivityHints (ExtractFromMessages ms h)) \<and>
   distinct (map ToLower (fFilesTouched (ExtractFromMessages ms h)))"
  using ExtractFromMessages_ok [of ms h] by (simp add: capsOK_def)

text \<open>
  the path pattern tries the extension \<open>ts\<close> before \<open>tsx\<close> (and \<open>js\<close> before \<open>json\<close>, \<open>cs\<close> before
  \<open>css\<close>) and needs nothing to follow it: in a text that names \<open>a/b.tsx\<close> the only path found is
  \<open>a/b.ts\<close>, which a policy's file pattern for the file that was named does not match.
\<close>

theorem path_extensions_truncated:
  "map cleanPath (findAllGroups pathBefore pathGroup ''see a/b.tsx'' 0) = [''a/b.ts''] \<and>
   globMatch (globTokens ''*/*.tsx'') ''a/b.tsx'' \<and> \<not> globMatch (globTokens ''*/*.tsx'') ''a/b.ts''"
  by code_simp

section \<open>Risk\<close>

text \<open>
  the risk hint of a client can raise the risk of a request and never lower it: the level is
  the higher of the one derived from the features and the task and the hint's (if it is a level
  at all), the sensitivity is the derived one, and both are in their vocabularies.
\<close>

theorem ClassifyRisk_hint_only_raises:
  "riskRank (rrRiskLevel (ClassifyRisk f t h)) =
     max (riskRank (rrRiskLevel (derivedRisk f t))) (case normalizedRisk h of None \<Rightarrow> 0 | Some l \<Rightarrow> riskRank l) \<and>
   rrSensitivity (ClassifyRisk f t h) = rrSensitivity (derivedRisk f t) \<and> riskOK (ClassifyRisk f t h)"
  using ClassifyRisk_ok [of f t h]
  by (auto simp: ClassifyRisk_level normalizedRisk_def max_def)

section \<open>The descriptor\<close>

text \<open>
  the descriptor of any request, with any headers and metadata, is well-formed: task, risk,
  sensitivity, preferences and router mode are in their vocabularies, hints are empty or in
  theirs, an explicit model is not empty, and files and keywords stay within their caps.
\<close>

theorem NewJobDescriptor_well_formed: "jobOK (NewJobDescriptor inp)"
  by (rule NewJobDescriptor_ok_aux)


definition userSays :: "string \<Rightarrow> Message" where
  "userSays t = \<lparr>msgRole = ''user'', msgContent = t\<rparr>"

definition lowRiskClaim :: JobDescriptorInput where
  "lowRiskClaim = \<lparr>jiRequestID = ''r'', jiTenantID = ''t'', jiProjectID = ''p'', jiHeaders = [],
     jiRequest = Some (zeroRequest\<lparr>reqMessages := [userSays ''rotate the production password''],
       reqMetadata := [(''risk_level'', AStr ''low'')]\<rparr>)\<rparr>"


end
