(* ===== verification/EvalData.thy ===== *)
theory EvalData
  imports NewJob Engine
begin

text \<open>
  The golden datasets of \<open>internal/evals\<close>: \<open>dataset.go\<close> and \<open>classifier_experiment_dataset.go\<close>, their
  validation and the prompts they expand to, and the request that a case stands for. Reading the
  file and \<open>yaml.Unmarshal\<close> are parameters.
\<close>

section \<open>Cases\<close>

record ExpectedRoute =
  erTier :: string
  erModel :: string

record Case =
  gcID :: string
  gcName :: string
  gcTaskType :: string
  gcRiskLevel :: string
  gcPrompt :: string
  gcTenantID :: string
  gcProjectID :: string
  gcMetadata :: metadata
  gcRouterMode :: string
  gcExplicitModel :: string
  gcExpandTokens :: int
  gcExpectedRoute :: ExpectedRoute

record Dataset =
  dsVersion :: string
  dsCases :: "Case list"

text \<open>\<open>for b.Len() < target { b.WriteString(filler) }\<close>, for a filler that is not empty.\<close>

function fillTo :: "int \<Rightarrow> string \<Rightarrow> string \<Rightarrow> string" where
  "fillTo target filler b =
     (if int (length b) < target \<and> filler \<noteq> [] then fillTo target filler (b @ filler) else b)"
  by pat_completeness auto
termination
proof (relation "measure (\<lambda>(target, filler, b). nat (target - int (length b)))")
  fix target :: int and filler b :: string
  assume a: "int (length b) < target \<and> filler \<noteq> []"
  then have "0 < length filler" by simp
  with a show "((target, filler, b @ filler), target, filler, b) \<in>
      measure (\<lambda>(target, filler, b). nat (target - int (length b)))"
    by simp
qed simp

declare fillTo.simps [simp del]

abbreviation newline :: char where "newline \<equiv> CHR 0x0A"

definition documentPreamble :: string where
  "documentPreamble = ''Analyze the following large document and produce a structured analysis.'' @ [newline]"

definition documentFiller :: string where
  "documentFiller = ''This is a neutral filler sentence used only to grow the context window for testing. ''"

definition PromptText :: "Case \<Rightarrow> string" where
  "PromptText c =
     (if gcExpandTokens c \<le> 0 then gcPrompt c
      else fillTo (i64 (gcExpandTokens c * 4)) documentFiller documentPreamble)"

definition bannedSubstrings :: "string list" where
  "bannedSubstrings = [''sk-live'', ''aws_secret'', ''-----begin rsa'', ''-----begin openssh'', ''xoxb-'']"

definition checkNoSecrets :: "string \<Rightarrow> string \<Rightarrow> string option" where
  "checkNoSecrets i prompt =
     (case find (\<lambda>banned. Contains (ToLower prompt) banned) bannedSubstrings of
        None \<Rightarrow> None
      | Some banned \<Rightarrow> Some (''evals: case '' @ fmtQ i @ '' appears to contain a real secret pattern '' @ fmtQ banned))"

fun validateCases :: "nat \<Rightarrow> string list \<Rightarrow> Case list \<Rightarrow> string option" where
  "validateCases i seen [] = None"
| "validateCases i seen (c # cs) =
     (if gcID c = [] then Some (''evals: case '' @ showNat i @ '' missing id'')
      else if gcID c \<in> set seen then Some (''evals: duplicate case id '' @ fmtQ (gcID c))
      else if gcTaskType c = [] then Some (''evals: case '' @ fmtQ (gcID c) @ '' missing task_type'')
      else if erTier (gcExpectedRoute c) = [] \<and> erModel (gcExpectedRoute c) = []
      then Some (''evals: case '' @ fmtQ (gcID c) @ '' missing expected_route'')
      else case checkNoSecrets (gcID c) (gcPrompt c) of
             Some e \<Rightarrow> Some e
           | None \<Rightarrow> validateCases (Suc i) (gcID c # seen) cs)"

definition ValidateDataset :: "Dataset \<Rightarrow> string option" where
  "ValidateDataset ds =
     (if length (dsCases ds) = 0 then Some ''evals: dataset has no cases'' else validateCases 0 [] (dsCases ds))"

definition LoadDataset :: "(string \<Rightarrow> string + string) \<Rightarrow> (string \<Rightarrow> string + Dataset) \<Rightarrow> string \<Rightarrow> string + Dataset" where
  "LoadDataset readFile unmarshal path =
     (case readFile path of
        Inl e \<Rightarrow> Inl (''evals: read dataset: '' @ e)
      | Inr data \<Rightarrow> (case unmarshal data of
          Inl e \<Rightarrow> Inl (''evals: parse dataset: '' @ e)
        | Inr ds \<Rightarrow> (case ValidateDataset ds of Some e \<Rightarrow> Inl e | None \<Rightarrow> Inr ds)))"

section \<open>The dataset of the classifier experiment\<close>

record ClassifierExperimentCase =
  xcID :: string
  xcSplit :: string
  xcTaskType :: string
  xcRiskLevel :: string
  xcPrompt :: string
  xcExpandTokens :: int

record ClassifierExperimentDataset =
  xdVersion :: string
  xdCases :: "ClassifierExperimentCase list"

definition experimentFiller :: string where
  "experimentFiller = ''This offline classifier experiment repeats neutral context to exercise long-context labeling only. ''"

definition experimentPromptText :: "ClassifierExperimentCase \<Rightarrow> string" where
  "experimentPromptText c =
     (if xcExpandTokens c \<le> 0 then xcPrompt c
      else fillTo (i64 (xcExpandTokens c * 4)) experimentFiller
        (if \<not> suffix [newline] (xcPrompt c) then xcPrompt c @ [newline] else xcPrompt c))"

fun validateExperimentCases :: "nat \<Rightarrow> string list \<Rightarrow> nat \<times> nat \<Rightarrow> ClassifierExperimentCase list \<Rightarrow> string + nat \<times> nat" where
  "validateExperimentCases i seen counts [] = Inr counts"
| "validateExperimentCases i seen counts (c # cs) =
     (if xcID c = [] then Inl (''evals: classifier experiment case '' @ showNat i @ '' missing id'')
      else if xcID c \<in> set seen then Inl (''evals: classifier experiment duplicate case id '' @ fmtQ (xcID c))
      else if xcSplit c \<noteq> ''train'' \<and> xcSplit c \<noteq> ''test''
      then Inl (''evals: classifier experiment case '' @ fmtQ (xcID c) @ '' has invalid split '' @ fmtQ (xcSplit c))
      else if xcTaskType c = [] then Inl (''evals: classifier experiment case '' @ fmtQ (xcID c) @ '' missing task_type'')
      else if xcRiskLevel c = [] then Inl (''evals: classifier experiment case '' @ fmtQ (xcID c) @ '' missing risk_level'')
      else if TrimSpace (xcPrompt c) = []
      then Inl (''evals: classifier experiment case '' @ fmtQ (xcID c) @ '' missing prompt'')
      else case checkNoSecrets (xcID c) (xcPrompt c) of
             Some e \<Rightarrow> Inl e
           | None \<Rightarrow> validateExperimentCases (Suc i) (xcID c # seen)
               (if xcSplit c = ''train'' then (Suc (fst counts), snd counts) else (fst counts, Suc (snd counts))) cs)"

definition ValidateExperiment :: "ClassifierExperimentDataset \<Rightarrow> string option" where
  "ValidateExperiment ds =
     (if length (xdCases ds) = 0 then Some ''evals: classifier experiment dataset has no cases''
      else case validateExperimentCases 0 [] (0, 0) (xdCases ds) of
             Inl e \<Rightarrow> Some e
           | Inr (train, test) \<Rightarrow>
               if train = 0 \<or> test = 0
               then Some ''evals: classifier experiment dataset requires both train and test cases'' else None)"

definition LoadClassifierExperimentDataset :: "(string \<Rightarrow> string + string) \<Rightarrow>
    (string \<Rightarrow> string + ClassifierExperimentDataset) \<Rightarrow> string \<Rightarrow> string + ClassifierExperimentDataset" where
  "LoadClassifierExperimentDataset readFile unmarshal path =
     (case readFile path of
        Inl e \<Rightarrow> Inl (''evals: read classifier experiment dataset: '' @ e)
      | Inr data \<Rightarrow> (case unmarshal data of
          Inl e \<Rightarrow> Inl (''evals: parse classifier experiment dataset: '' @ e)
        | Inr ds \<Rightarrow> (case ValidateExperiment ds of Some e \<Rightarrow> Inl e | None \<Rightarrow> Inr ds)))"

definition filterSplit :: "ClassifierExperimentDataset \<Rightarrow> string \<Rightarrow> ClassifierExperimentCase list" where
  "filterSplit ds split = filter (\<lambda>c. xcSplit c = split) (xdCases ds)"

definition TrainCases :: "ClassifierExperimentDataset \<Rightarrow> ClassifierExperimentCase list" where
  "TrainCases ds = filterSplit ds ''train''"

definition TestCases :: "ClassifierExperimentDataset \<Rightarrow> ClassifierExperimentCase list" where
  "TestCases ds = filterSplit ds ''test''"

section \<open>The request of a case\<close>

definition caseMetadata :: "Case \<Rightarrow> metadata" where
  "caseMetadata c =
     (let md = cloneMetadata (gcMetadata c)
      in if gcRouterMode c = [] then md else mput ''router_mode'' (AStr (gcRouterMode c)) md)"

text \<open>\<open>jobForCase\<close> of \<open>frontier.go\<close>, and the same construction in \<open>runCase\<close>, under another request identifier.\<close>

definition caseRequest :: "Case \<Rightarrow> ChatRequest" where
  "caseRequest c = zeroRequest\<lparr>
     reqModel := (if gcExplicitModel c \<noteq> [] then gcExplicitModel c else ''auto''),
     reqMessages := [\<lparr>msgRole = ''user'', msgContent = PromptText c\<rparr>], reqMetadata := caseMetadata c\<rparr>"

definition jobForCase :: "string \<Rightarrow> Case \<Rightarrow> JobDescriptor" where
  "jobForCase rid c = NewJobDescriptor \<lparr>jiRequestID = rid @ gcID c, jiTenantID = gcTenantID c,
     jiProjectID = gcProjectID c, jiHeaders = [], jiRequest = Some (caseRequest c)\<rparr>"

section \<open>Laws\<close>

lemma fillTo_bounds:
  "filler \<noteq> [] \<Longrightarrow> target \<le> int (length (fillTo target filler b)) \<and> prefix b (fillTo target filler b) \<and>
   (fillTo target filler b = b \<or> int (length (fillTo target filler b)) < target + int (length filler))"
proof (induction target filler b rule: fillTo.induct)
  case (1 target filler b)
  show ?case
  proof (cases "int (length b) < target")
    case True
    with 1 have IH: "target \<le> int (length (fillTo target filler (b @ filler))) \<and>
        prefix (b @ filler) (fillTo target filler (b @ filler)) \<and>
        (fillTo target filler (b @ filler) = b @ filler \<or>
         int (length (fillTo target filler (b @ filler))) < target + int (length filler))" by simp
    moreover from True 1(2) have "fillTo target filler b = fillTo target filler (b @ filler)"
      by (simp add: fillTo.simps [of target filler b])
    ultimately show ?thesis
      using True by (auto dest: append_prefixD)
  next
    case False
    then show ?thesis by (simp add: fillTo.simps [of target filler b])
  qed
qed

text \<open>A case that is valid by itself.\<close>

definition dataCase_ok :: "Case \<Rightarrow> bool" where
  "dataCase_ok c \<longleftrightarrow> gcID c \<noteq> [] \<and> gcTaskType c \<noteq> [] \<and>
     (erTier (gcExpectedRoute c) \<noteq> [] \<or> erModel (gcExpectedRoute c) \<noteq> []) \<and>
     (\<forall>banned \<in> set bannedSubstrings. \<not> Contains (ToLower (gcPrompt c)) banned)"

lemma checkNoSecrets_None:
  "checkNoSecrets i prompt = None \<longleftrightarrow> (\<forall>banned \<in> set bannedSubstrings. \<not> Contains (ToLower prompt) banned)"
  by (auto simp: checkNoSecrets_def find_None_iff find_Some_iff split: option.split)

lemma validateCases_Cons:
  "validateCases i seen (c # cs) = None \<longleftrightarrow>
   dataCase_ok c \<and> gcID c \<notin> set seen \<and> validateCases (Suc i) (gcID c # seen) cs = None"
  unfolding dataCase_ok_def checkNoSecrets_None [of "gcID c", symmetric]
  by (cases "checkNoSecrets (gcID c) (gcPrompt c)") simp_all

lemma validateCases_iff:
  "validateCases i seen cs = None \<longleftrightarrow>
   (\<forall>c \<in> set cs. dataCase_ok c) \<and> distinct (map gcID cs) \<and> (\<forall>c \<in> set cs. gcID c \<notin> set seen)"
proof (induction cs arbitrary: i seen)
  case (Cons c cs)
  show ?case
    unfolding validateCases_Cons Cons.IH by (auto simp: image_iff)
qed simp

lemma ValidateDataset_iff:
  "ValidateDataset ds = None \<longleftrightarrow> dsCases ds \<noteq> [] \<and> (\<forall>c \<in> set (dsCases ds). dataCase_ok c) \<and> distinct (map gcID (dsCases ds))"
  by (auto simp: ValidateDataset_def validateCases_iff)

lemma experiment_counts:
  "validateExperimentCases i seen (a, b) cs = Inr (a', b') \<Longrightarrow>
   a' = a + length (filter (\<lambda>c. xcSplit c = ''train'') cs) \<and> b' = b + length (filter (\<lambda>c. xcSplit c = ''test'') cs) \<and>
   distinct (map xcID cs) \<and> set (map xcID cs) \<inter> set seen = {}"
proof (induction cs arbitrary: i seen a b)
  case (Cons c cs)
  let ?n = "if xcSplit c = ''train'' then (Suc a, b) else (a, Suc b)"
  from Cons.prems have rest: "validateExperimentCases (Suc i) (xcID c # seen) ?n cs = Inr (a', b')"
    and c: "xcID c \<notin> set seen" "xcSplit c = ''train'' \<or> xcSplit c = ''test''"
    by (auto split: if_splits option.splits)
  then show ?case
    using Cons.IH [of "Suc i" "xcID c # seen" "fst ?n" "snd ?n"] by auto
qed simp

lemma ValidateExperiment_splits:
  assumes "ValidateExperiment ds = None"
  shows "TrainCases ds \<noteq> [] \<and> TestCases ds \<noteq> [] \<and> distinct (map xcID (xdCases ds)) \<and>
    length (TrainCases ds) + length (TestCases ds) \<le> length (xdCases ds)"
proof -
  from assms obtain a b where r: "validateExperimentCases 0 [] (0, 0) (xdCases ds) = Inr (a, b)" "a \<noteq> 0" "b \<noteq> 0"
    by (auto simp: ValidateExperiment_def split: if_splits sum.splits)
  have "length (filter P cs) + length (filter Q cs) \<le> length cs" if "\<forall>c. \<not> (P c \<and> Q c)" for P Q and cs :: "ClassifierExperimentCase list"
    using that by (induction cs) auto
  then have "length (TrainCases ds) + length (TestCases ds) \<le> length (xdCases ds)"
    by (simp add: TrainCases_def TestCases_def filterSplit_def)
  with experiment_counts [OF r(1)] r(2,3) show ?thesis
    by (auto simp: TrainCases_def TestCases_def filterSplit_def)
qed

end
