(* ===== verification/Frontier.thy ===== *)
theory Frontier
  imports EvalData Cost
begin

text \<open>
  The offline cost and quality report of \<open>internal/evals/frontier.go\<close>: per task class, the average
  estimated cost and the blended quality of every chat model, the models that no other dominates,
  and what is recommended among them. \<open>sort.Slice\<close> is a parameter, once for models and once for
  the rows of the report.
\<close>

section \<open>The report\<close>

record CaseResult =
  crsCase :: Case
  crsPass :: bool
  crsClassifiedTask :: string
  crsSelectedModel :: string
  crsSelectedTier :: string
  crsExpectedTier :: string
  crsEstimatedCostUSD :: float64
  crsRoutingMicros :: int
  crsPolicyVersion :: string
  crsBlocked :: bool
  crsBlockCode :: string
  crsBlockReason :: string
  crsReason :: string
  crsDecision :: RouteDecision

record FrontierModel =
  fmModelID :: string
  fmProviderID :: string
  fmTier :: string
  fmEvalSamples :: int
  fmEvalPassed :: int
  fmEvalPassRate :: float64
  fmRegistryQualityPrior :: float64
  fmFrontierQuality :: float64
  fmAverageEstimatedCostMicroUSD :: int
  fmAverageEstimatedCostUSD :: float64
  fmOutcomeSamples :: int
  fmOutcomeAcceptanceRate :: "float64 option"
  fmOnFrontier :: bool

record FrontierRecommendation =
  frKind :: string
  frModelID :: string
  frReason :: string
  frTiedModelIDs :: "string list"

record TaskClassFrontier =
  tfTaskClass :: string
  tfCaseCount :: int
  tfModels :: "FrontierModel list"
  tfRecommendations :: "FrontierRecommendation list"

record FrontierReport =
  fpTaskClasses :: "TaskClassFrontier list"

record evalStat =
  esSamples :: int
  esPassed :: int

type_synonym evalStats = "(string, (string, evalStat) gomap) gomap"

section \<open>Quality\<close>

definition roundTo :: "float64 \<Rightarrow> nat \<Rightarrow> float64" where
  "roundTo v places = of_int (mathRound (v * 10 ^ places)) / 10 ^ places"

definition registryQualityPrior :: "Model \<Rightarrow> string \<Rightarrow> float64" where
  "registryQualityPrior model taskClass =
     (case mget (mQualityScores model) taskClass of
        Some score \<Rightarrow> score
      | None \<Rightarrow> if mTier model = TierCheap then 55 / 100
                else if mTier model = TierBalanced then 70 / 100
                else if mTier model = TierPremium then 85 / 100 else 60 / 100)"

definition blendFrontierQuality :: "float64 \<Rightarrow> int \<Rightarrow> int \<Rightarrow> float64" where
  "blendFrontierQuality prior evalPassed evalSamples =
     (if evalSamples \<le> 0 then roundTo prior 4
      else roundTo ((of_int evalPassed + prior) / of_int (i64 (evalSamples + 1))) 4)"

definition collectOne :: "CaseResult \<Rightarrow> evalStats \<Rightarrow> evalStats" where
  "collectOne res stats =
     (let taskClass = gcTaskType (crsCase res) in
      if taskClass = [] \<or> crsSelectedModel res = [] \<or> crsBlocked res then stats
      else
        let row = mget0 [] stats taskClass;
            stat = mget0 \<lparr>esSamples = 0, esPassed = 0\<rparr> row (crsSelectedModel res);
            stat' = stat\<lparr>esSamples := i64 (esSamples stat + 1),
                         esPassed := (if crsPass res then i64 (esPassed stat + 1) else esPassed stat)\<rparr>
        in mput taskClass (mput (crsSelectedModel res) stat' row) stats)"

definition collectEvalStats :: "CaseResult list \<Rightarrow> evalStats" where
  "collectEvalStats results = fold collectOne results []"

section \<open>Cost\<close>

type_synonym model_sorter = "(Model \<Rightarrow> Model \<Rightarrow> bool) \<Rightarrow> Model list \<Rightarrow> Model list"
type_synonym row_sorter = "(FrontierModel \<Rightarrow> FrontierModel \<Rightarrow> bool) \<Rightarrow> FrontierModel list \<Rightarrow> FrontierModel list"

definition sortedChatModels :: "model_sorter \<Rightarrow> Snapshot option \<Rightarrow> Model list" where
  "sortedChatModels srtM snap =
     srtM (\<lambda>a b. mID a < mID b) (EnabledModelsWithCapabilities snap (noCapabilities\<lparr>Chat := True\<rparr>))"

definition caseUsage :: "Case \<Rightarrow> TokenUsage" where
  "caseUsage c = (let job = jobForCase ''frontier_'' c in
     \<lparr>tuInputTokens = jPromptTokensEstimate job, tuOutputTokens = jMaxOutputTokensEstimate job, tuMode = ModeEstimated\<rparr>)"

definition addCost :: "TokenUsage \<Rightarrow> Model \<Rightarrow> (string, int) gomap \<Rightarrow> (string, int) gomap" where
  "addCost usage model totals =
     (case EstimateModel model usage of
        Inl e \<Rightarrow> totals
      | Inr est \<Rightarrow> mput (mID model) (i64 (mget0 0 totals (mID model) + estTotalMicroUSD est)) totals)"

definition averageEstimatedCostByModel :: "Case list \<Rightarrow> Model list \<Rightarrow> (string, int) gomap" where
  "averageEstimatedCostByModel cases roster =
     (if length cases = 0 then []
      else
        let totals = fold (\<lambda>c totals. fold (addCost (caseUsage c)) roster totals) cases []
        in fold (\<lambda>m out. mput (mID m)
             (i64 (mathRound (of_int (mget0 0 totals (mID m)) / of_int (int (length cases))))) out) roster [])"

section \<open>Dominance\<close>

definition dominates :: "FrontierModel \<Rightarrow> FrontierModel \<Rightarrow> bool" where
  "dominates a b =
     (if fmAverageEstimatedCostMicroUSD a > fmAverageEstimatedCostMicroUSD b then False
      else if fmFrontierQuality a < fmFrontierQuality b then False
      else fmAverageEstimatedCostMicroUSD a < fmAverageEstimatedCostMicroUSD b \<or>
           fmFrontierQuality a > fmFrontierQuality b)"

definition markOne :: "nat \<Rightarrow> FrontierModel list \<Rightarrow> FrontierModel list" where
  "markOne i ms = ms[i := (ms ! i)\<lparr>fmOnFrontier :=
     \<not> list_ex (\<lambda>j. i \<noteq> j \<and> dominates (ms ! j) (ms ! i)) [0..<length ms]\<rparr>]"

definition markFrontier :: "FrontierModel list \<Rightarrow> FrontierModel list" where
  "markFrontier ms = fold markOne [0..<length ms] ms"

text \<open>The order of the rows: cheaper first, then better, then by name.\<close>

definition costOrder :: "FrontierModel \<Rightarrow> FrontierModel \<Rightarrow> bool" where
  "costOrder a b =
     (if fmAverageEstimatedCostMicroUSD a \<noteq> fmAverageEstimatedCostMicroUSD b
      then fmAverageEstimatedCostMicroUSD a < fmAverageEstimatedCostMicroUSD b
      else if fmFrontierQuality a \<noteq> fmFrontierQuality b then fmFrontierQuality a > fmFrontierQuality b
      else fmModelID a < fmModelID b)"

definition qualityOrder :: "FrontierModel \<Rightarrow> FrontierModel \<Rightarrow> bool" where
  "qualityOrder a b =
     (if fmFrontierQuality a \<noteq> fmFrontierQuality b then fmFrontierQuality a > fmFrontierQuality b
      else if fmAverageEstimatedCostMicroUSD a \<noteq> fmAverageEstimatedCostMicroUSD b
      then fmAverageEstimatedCostMicroUSD a < fmAverageEstimatedCostMicroUSD b
      else fmModelID a < fmModelID b)"

definition sortFrontierModels :: "row_sorter \<Rightarrow> FrontierModel list \<Rightarrow> FrontierModel list" where
  "sortFrontierModels srt ms = srt costOrder ms"

section \<open>Recommendations\<close>

definition bestValueQualityTolerance :: float64 where
  "bestValueQualityTolerance = 5 / 100"

definition tiedModels :: "FrontierModel list \<Rightarrow> (FrontierModel \<Rightarrow> bool) \<Rightarrow> string list" where
  "tiedModels ms match =
     (let tied = sort (map fmModelID (filter match ms)) in if length tied \<le> 1 then [] else tied)"

definition tieAwareReason :: "string \<Rightarrow> string list \<Rightarrow> string" where
  "tieAwareReason base tied =
     (if length tied \<le> 1 then base
      else base @ ''; tie broken by model id among ['' @ joinWith '', '' tied @ '']'')"

definition tiesOf :: "FrontierModel \<Rightarrow> FrontierModel list \<Rightarrow> string list" where
  "tiesOf chosen candidates = tiedModels candidates (\<lambda>m.
     fmAverageEstimatedCostMicroUSD m = fmAverageEstimatedCostMicroUSD chosen \<and>
     fmFrontierQuality m = fmFrontierQuality chosen)"

definition bestQualityOf :: "FrontierModel list \<Rightarrow> float64" where
  "bestQualityOf frontier =
     fold (\<lambda>m best. if fmFrontierQuality m > best then fmFrontierQuality m else best)
       (tl frontier) (fmFrontierQuality (hd frontier))"

definition selectBestValue :: "row_sorter \<Rightarrow> FrontierModel list \<Rightarrow> FrontierModel \<times> string list" where
  "selectBestValue srt frontier =
     (let best = bestQualityOf frontier;
          candidates = srt costOrder (filter (\<lambda>m. fmFrontierQuality m \<ge> best - bestValueQualityTolerance) frontier);
          chosen = hd candidates
      in (chosen, tiesOf chosen candidates))"

definition selectLowestCost :: "row_sorter \<Rightarrow> FrontierModel list \<Rightarrow> FrontierModel \<times> string list" where
  "selectLowestCost srt frontier =
     (let candidates = srt costOrder ([] @ frontier); chosen = hd candidates in (chosen, tiesOf chosen candidates))"

definition selectHighestQuality :: "row_sorter \<Rightarrow> FrontierModel list \<Rightarrow> FrontierModel \<times> string list" where
  "selectHighestQuality srt frontier =
     (let candidates = srt qualityOrder ([] @ frontier); chosen = hd candidates in (chosen, tiesOf chosen candidates))"

definition appendUnique :: "FrontierRecommendation \<Rightarrow> FrontierRecommendation list \<Rightarrow> FrontierRecommendation list" where
  "appendUnique r recs = (if list_ex (\<lambda>e. frModelID e = frModelID r) recs then recs else recs @ [r])"

definition recommend :: "string \<Rightarrow> string \<Rightarrow> FrontierModel \<times> string list \<Rightarrow> FrontierRecommendation" where
  "recommend kind base choice = \<lparr>frKind = kind, frModelID = fmModelID (fst choice),
     frReason = tieAwareReason base (snd choice), frTiedModelIDs = snd choice\<rparr>"

definition recommendTaskClass :: "row_sorter \<Rightarrow> FrontierModel list \<Rightarrow> FrontierRecommendation list" where
  "recommendTaskClass srt ms =
     (let frontier = filter fmOnFrontier ms in
      case frontier of
        [] \<Rightarrow> []
      | [m] \<Rightarrow> [\<lparr>frKind = ''only_option'', frModelID = fmModelID m,
                  frReason = ''only frontier model after cost/quality dominance filtering'', frTiedModelIDs = []\<rparr>]
      | _ \<Rightarrow>
          appendUnique (recommend ''highest_quality'' ''highest blended frontier quality on the frontier''
              (selectHighestQuality srt frontier))
            (appendUnique (recommend ''lowest_cost'' ''lowest estimated cost on the frontier'' (selectLowestCost srt frontier))
              (appendUnique (recommend ''best_value''
                  ''cheapest frontier model within 0.05 quality of the best-quality frontier point''
                  (selectBestValue srt frontier)) [])))"

section \<open>The report of a dataset\<close>

definition frontierRow :: "evalStats \<Rightarrow> (string, int) gomap \<Rightarrow> string \<Rightarrow> Model \<Rightarrow> FrontierModel" where
  "frontierRow stats avgCosts taskClass model =
     (let stat = mget (mget0 [] stats taskClass) (mID model);
          samples = (case stat of None \<Rightarrow> 0 | Some s \<Rightarrow> esSamples s);
          passed = (case stat of None \<Rightarrow> 0 | Some s \<Rightarrow> esPassed s);
          prior = roundTo (registryQualityPrior model taskClass) 4;
          avg = mget0 0 avgCosts (mID model)
      in \<lparr>fmModelID = mID model, fmProviderID = mProviderID model, fmTier = mTier model,
          fmEvalSamples = samples, fmEvalPassed = passed,
          fmEvalPassRate = (if samples > 0 then roundTo (of_int passed / of_int samples) 4 else 0),
          fmRegistryQualityPrior = prior, fmFrontierQuality = blendFrontierQuality prior passed samples,
          fmAverageEstimatedCostMicroUSD = avg, fmAverageEstimatedCostUSD = of_int avg / 1000000,
          fmOutcomeSamples = 0, fmOutcomeAcceptanceRate = None, fmOnFrontier = False\<rparr>)"

definition groupCases :: "Case list \<Rightarrow> (string, Case list) gomap" where
  "groupCases cases = fold (\<lambda>c g. mput (gcTaskType c) (mget0 [] g (gcTaskType c) @ [c]) g) cases []"

definition taskFrontier :: "row_sorter \<Rightarrow> evalStats \<Rightarrow> Model list \<Rightarrow> string \<Rightarrow> Case list \<Rightarrow> TaskClassFrontier" where
  "taskFrontier srt stats roster taskClass cases =
     (let avg = averageEstimatedCostByModel cases roster;
          rows = markFrontier (sortFrontierModels srt (map (frontierRow stats avg taskClass) roster))
      in \<lparr>tfTaskClass = taskClass, tfCaseCount = int (length cases), tfModels = rows,
          tfRecommendations = recommendTaskClass srt rows\<rparr>)"

definition buildFrontierReport :: "model_sorter \<Rightarrow> row_sorter \<Rightarrow> Dataset option \<Rightarrow> CaseResult list \<Rightarrow> Snapshot option \<Rightarrow> FrontierReport" where
  "buildFrontierReport srtM srt ds results snap =
     (case (ds, snap) of
        (Some d, Some s) \<Rightarrow>
          let roster = sortedChatModels srtM (Some s);
              grouped = groupCases (dsCases d);
              stats = collectEvalStats results
          in \<lparr>fpTaskClasses = map (\<lambda>t. taskFrontier srt stats roster t (mget0 [] grouped t)) (sort (mkeys grouped))\<rparr>
      | _ \<Rightarrow> \<lparr>fpTaskClasses = []\<rparr>)"

definition formatModelLine :: "FrontierModel \<Rightarrow> string" where
  "formatModelLine m = ''    - '' @ fmModelID m @ '' ['' @ (if fmOnFrontier m then ''frontier'' else ''dominated'') @
     ''] cost=$'' @ fmtFixed 6 (fmAverageEstimatedCostUSD m) @ '' quality='' @ fmtFixed 4 (fmFrontierQuality m) @
     '' prior='' @ fmtFixed 4 (fmRegistryQualityPrior m) @ '' eval='' @ showInt (fmEvalPassed m) @ ''/'' @
     showInt (fmEvalSamples m) @ [newline]"

definition formatTask :: "TaskClassFrontier \<Rightarrow> string" where
  "formatTask t = ''  '' @ tfTaskClass t @ '' ('' @ showInt (tfCaseCount t) @ '' case(s))'' @ [newline] @
     concat (map formatModelLine (tfModels t)) @
     (if length (tfRecommendations t) = 0 then ''    Recommendations: none'' @ [newline]
      else ''    Recommendations:'' @ [newline] @
        concat (map (\<lambda>r. ''      - '' @ frKind r @ '': '' @ frModelID r @ '' ('' @ frReason r @ '')'' @ [newline])
          (tfRecommendations t)))"

definition formatFrontierReport :: "FrontierReport \<Rightarrow> string" where
  "formatFrontierReport r =
     (if length (fpTaskClasses r) = 0
      then [newline] @ ''Cost-quality frontier:'' @ [newline] @ ''  No task-class frontier data.'' @ [newline]
      else [newline] @ ''Cost-quality frontier:'' @ [newline] @ concat (map formatTask (fpTaskClasses r)))"

section \<open>The frontier is the set of undominated rows\<close>

lemma dominates_iff:
  "dominates a b \<longleftrightarrow> fmAverageEstimatedCostMicroUSD a \<le> fmAverageEstimatedCostMicroUSD b \<and>
     fmFrontierQuality b \<le> fmFrontierQuality a \<and>
     (fmAverageEstimatedCostMicroUSD a < fmAverageEstimatedCostMicroUSD b \<or> fmFrontierQuality b < fmFrontierQuality a)"
  by (auto simp: dominates_def)

lemma dominates_irrefl: "\<not> dominates a a"
  by (simp add: dominates_iff)

lemma dominates_trans: "dominates a b \<Longrightarrow> dominates b c \<Longrightarrow> dominates a c"
  by (auto simp: dominates_iff)

lemma dominates_flag [simp]: "dominates (a\<lparr>fmOnFrontier := x\<rparr>) b = dominates a b" "dominates a (b\<lparr>fmOnFrontier := x\<rparr>) = dominates a b"
  by (simp_all add: dominates_iff)

definition undominated :: "FrontierModel list \<Rightarrow> FrontierModel \<Rightarrow> bool" where
  "undominated ms m \<longleftrightarrow> (\<forall>m' \<in> set ms. \<not> dominates m' m)"

lemma undominated_nth: "undominated ms m \<longleftrightarrow> (\<forall>j < length ms. \<not> dominates (ms ! j) m)"
  by (simp add: undominated_def all_set_conv_all_nth)

definition flagged :: "FrontierModel list \<Rightarrow> FrontierModel \<Rightarrow> FrontierModel" where
  "flagged ms m = m\<lparr>fmOnFrontier := undominated ms m\<rparr>"

lemma flagged_dominates [simp]: "dominates (flagged ms a) b = dominates a b" "dominates a (flagged ms b) = dominates a b"
  by (simp_all add: flagged_def)

text \<open>After \<open>k\<close> rounds the first \<open>k\<close> rows carry their flag.\<close>

lemma markOne_prefix:
  assumes k: "k < length ms" and xs: "xs = map (flagged ms) (take k ms) @ drop k ms"
  shows "markOne k xs = map (flagged ms) (take (Suc k) ms) @ drop (Suc k) ms"
proof -
  have len: "length xs = length ms" using k by (simp add: xs)
  have at_k: "xs ! k = ms ! k" using k by (simp add: xs nth_append)
  have dom: "dominates (xs ! j) m \<longleftrightarrow> dominates (ms ! j) m" if "j < length ms" for j m
    using that k by (auto simp: xs nth_append min_def)
  have "list_ex (\<lambda>j. k \<noteq> j \<and> dominates (xs ! j) (xs ! k)) [0..<length xs] \<longleftrightarrow> \<not> undominated ms (ms ! k)"
    unfolding list_ex_iff len at_k undominated_nth using dom by (auto simp: dominates_irrefl Bex_def)
  then have "markOne k xs = xs[k := flagged ms (ms ! k)]"
    by (simp add: markOne_def at_k flagged_def)
  also have "\<dots> = map (flagged ms) (take (Suc k) ms) @ drop (Suc k) ms"
    using k by (simp add: xs list_update_append take_Suc_conv_app_nth flip: Cons_nth_drop_Suc)
  finally show ?thesis .
qed

lemma markFrontier_flags: "markFrontier ms = map (flagged ms) ms"
proof -
  have "fold markOne [0..<k] ms = map (flagged ms) (take k ms) @ drop k ms" if "k \<le> length ms" for k
    using that by (induction k) (auto intro!: markOne_prefix)
  from this [of "length ms"] show ?thesis by (simp add: markFrontier_def)
qed

text \<open>Every row that is dominated is dominated by one that is not.\<close>

lemma undominated_above:
  "m \<in> set ms \<Longrightarrow> \<exists>m' \<in> set ms. undominated ms m' \<and> (m' = m \<or> dominates m' m)"
proof -
  assume m: "m \<in> set ms"
  define above where "above = {m' \<in> set ms. m' = m \<or> dominates m' m}"
  define f :: "FrontierModel \<Rightarrow> rat" where "f x = of_int (fmAverageEstimatedCostMicroUSD x) - fmFrontierQuality x" for x
  have less: "f a < f b" if "dominates a b" for a b
    using that of_int_le_iff [of "fmAverageEstimatedCostMicroUSD a" "fmAverageEstimatedCostMicroUSD b", where 'a = rat]
      of_int_less_iff [of "fmAverageEstimatedCostMicroUSD a" "fmAverageEstimatedCostMicroUSD b", where 'a = rat]
    unfolding dominates_iff f_def by linarith
  have "finite above" "m \<in> above" using m by (simp_all add: above_def)
  then have "Min (f ` above) \<in> f ` above" by (intro Min_in) auto
  then obtain x where x: "x \<in> above" "f x = Min (f ` above)" by auto
  have least: "f x \<le> f y" if "y \<in> above" for y
    using that \<open>finite above\<close> by (simp add: x(2))
  have "y \<in> above" if "y \<in> set ms" "dominates y x" for y
    using that x(1) by (auto simp: above_def dest: dominates_trans)
  with less least have "undominated ms x" unfolding undominated_def by (meson not_less)
  with x(1) show ?thesis by (auto simp: above_def)
qed
section \<open>What is recommended\<close>

lemma costOrder_strict_weak: "strict_weak costOrder"
  by (auto simp: strict_weak_def costOrder_def split: if_splits)

lemma qualityOrder_strict_weak: "strict_weak qualityOrder"
  by (auto simp: strict_weak_def qualityOrder_def split: if_splits)

lemma fold_best:
  "fold (\<lambda>m best. if q m > best then q m else best) xs a \<in> insert a (q ` set xs) \<and>
   a \<le> fold (\<lambda>m best. if q m > best then q m else best) xs (a :: rat) \<and>
   (\<forall>x \<in> set xs. q x \<le> fold (\<lambda>m best. if q m > best then q m else best) xs a)"
proof (induction xs arbitrary: a)
  case (Cons x xs)
  from Cons.IH [of "if q x > a then q x else a"] show ?case
    by (cases "q x > a") auto
qed simp

lemma bestQualityOf_max:
  assumes "frontier \<noteq> []"
  shows "bestQualityOf frontier \<in> fmFrontierQuality ` set frontier"
    and "m \<in> set frontier \<Longrightarrow> fmFrontierQuality m \<le> bestQualityOf frontier"
  using assms fold_best [of fmFrontierQuality "tl frontier" "fmFrontierQuality (hd frontier)"]
  by (cases frontier; auto simp: bestQualityOf_def)+

lemmas hd_sorted_in = slice_sorter.srt_hd_in

text \<open>What the three choices promise, for a frontier that is not empty.\<close>

lemma selectBestValue_choice:
  assumes "slice_sorter srt" and "frontier \<noteq> []"
  shows "fst (selectBestValue srt frontier) \<in> set frontier \<and>
    bestQualityOf frontier - bestValueQualityTolerance \<le> fmFrontierQuality (fst (selectBestValue srt frontier)) \<and>
    (\<forall>m \<in> set frontier. bestQualityOf frontier - bestValueQualityTolerance \<le> fmFrontierQuality m \<longrightarrow>
       fmAverageEstimatedCostMicroUSD (fst (selectBestValue srt frontier)) \<le> fmAverageEstimatedCostMicroUSD m)"
proof -
  define cs where "cs = filter (\<lambda>m. fmFrontierQuality m \<ge> bestQualityOf frontier - bestValueQualityTolerance) frontier"
  have choice: "fst (selectBestValue srt frontier) = hd (srt costOrder cs)"
    by (simp add: selectBestValue_def cs_def Let_def)
  have "cs \<noteq> []"
    using bestQualityOf_max(1) [OF assms(2)]
    by (auto simp: cs_def filter_empty_conv bestValueQualityTolerance_def intro: bexI [rotated])
  then have "hd (srt costOrder cs) \<in> set cs" by (rule hd_sorted_in [OF assms(1)])
  moreover have "\<not> costOrder m (hd (srt costOrder cs))" if "m \<in> set cs" for m
    by (rule slice_sorter.srt_hd_first [OF assms(1) costOrder_strict_weak that])
  then have "fmAverageEstimatedCostMicroUSD (hd (srt costOrder cs)) \<le> fmAverageEstimatedCostMicroUSD m" if "m \<in> set cs" for m
    using that by (fastforce simp: costOrder_def split: if_splits)
  ultimately show ?thesis
    unfolding choice by (auto simp: cs_def)
qed

lemma selectLowestCost_choice:
  assumes "slice_sorter srt" and "frontier \<noteq> []"
  shows "fst (selectLowestCost srt frontier) \<in> set frontier \<and>
    (\<forall>m \<in> set frontier. fmAverageEstimatedCostMicroUSD (fst (selectLowestCost srt frontier)) \<le> fmAverageEstimatedCostMicroUSD m)"
  using hd_sorted_in [OF assms, of costOrder] slice_sorter.srt_hd_first [OF assms(1) costOrder_strict_weak, of _ frontier]
  by (auto simp: selectLowestCost_def Let_def costOrder_def split: if_splits) (metis linorder_not_less order_le_less)

lemma selectHighestQuality_choice:
  assumes "slice_sorter srt" and "frontier \<noteq> []"
  shows "fst (selectHighestQuality srt frontier) \<in> set frontier \<and>
    (\<forall>m \<in> set frontier. fmFrontierQuality m \<le> fmFrontierQuality (fst (selectHighestQuality srt frontier)))"
  using hd_sorted_in [OF assms, of qualityOrder] slice_sorter.srt_hd_first [OF assms(1) qualityOrder_strict_weak, of _ frontier]
  by (auto simp: selectHighestQuality_def Let_def qualityOrder_def split: if_splits) (metis linorder_not_less order_le_less)

text \<open>The recommendations of a task class with at least two models on the frontier.\<close>

lemma recommendTaskClass_several:
  assumes srt: "slice_sorter srt" and two: "2 \<le> length (filter fmOnFrontier ms)"
  defines "recs \<equiv> recommendTaskClass srt ms" and "frontier \<equiv> filter fmOnFrontier ms"
  shows "recs \<noteq> [] \<and> length recs \<le> 3 \<and> distinct (map frModelID recs) \<and>
    set (map frModelID recs) = {fmModelID (fst (selectBestValue srt frontier)), fmModelID (fst (selectLowestCost srt frontier)),
      fmModelID (fst (selectHighestQuality srt frontier))} \<and>
    frModelID (hd recs) = fmModelID (fst (selectBestValue srt frontier))"
proof -
  obtain a b rest where fr: "frontier = a # b # rest"
    using two by (cases frontier rule: list.exhaust) (auto simp: frontier_def Suc_le_length_iff numeral_2_eq_2)
  define best where "best = recommend ''best_value''
      ''cheapest frontier model within 0.05 quality of the best-quality frontier point'' (selectBestValue srt frontier)"
  define low where "low = recommend ''lowest_cost'' ''lowest estimated cost on the frontier'' (selectLowestCost srt frontier)"
  define high where "high = recommend ''highest_quality'' ''highest blended frontier quality on the frontier''
      (selectHighestQuality srt frontier)"
  have recs: "recs = appendUnique high (appendUnique low (appendUnique best []))"
    unfolding recs_def recommendTaskClass_def Let_def best_def low_def high_def frontier_def [symmetric] fr by simp
  have ids: "frModelID best = fmModelID (fst (selectBestValue srt frontier))"
    "frModelID low = fmModelID (fst (selectLowestCost srt frontier))"
    "frModelID high = fmModelID (fst (selectHighestQuality srt frontier))"
    by (simp_all add: best_def low_def high_def recommend_def)
  show ?thesis
    unfolding recs ids [symmetric] by (auto simp: appendUnique_def)
qed

end
