(* ===== verification/EvalRunner.thy ===== *)
theory EvalRunner
  imports Frontier PolicyParser Chat EngineLaws
begin

text \<open>
  \<open>internal/evals/runner.go\<close> and \<open>policy.go\<close>: golden cases run through the routing engine without a
  provider call, the report of one policy, the comparison of two, and their text. The clock of a
  case and \<open>sort.Slice\<close> are parameters.
\<close>

section \<open>Running\<close>

record Runner =
  rnEngine :: Engine
  rnSnapshot :: "Snapshot option"

record EvalReport =
  erpTotal :: int
  erpPassed :: int
  erpResults :: "CaseResult list"
  erpTotalCostUSD :: float64
  erpMeanRoutingMic :: float64
  erpFrontier :: FrontierReport

record CaseComparison =
  ccCase :: Case
  ccPrimary :: CaseResult
  ccSecondary :: CaseResult
  ccComparison :: DecisionComparison

record ComparisonReport =
  crTotal :: int
  crPrimaryPassed :: int
  crSecondaryPassed :: int
  crPrimaryTotalCostUSD :: float64
  crSecondaryTotalCostUSD :: float64
  crPrimaryMeanRoutingMic :: float64
  crSecondaryMeanRoutingMic :: float64
  crChangedCount :: int
  crRouteChangedCount :: int
  crFallbackChangedCount :: int
  crTimeoutChangedCount :: int
  crVerifierChangedCount :: int
  crPolicyVersionChangedCount :: int
  crCostChangedCount :: int
  crEstimatedCostDeltaMicroUSD :: int
  crEstimatedCostDeltaUSD :: float64
  crComparisons :: "CaseComparison list"

record EvalEnv =
  eeSort :: "(ScoredCandidate \<Rightarrow> ScoredCandidate \<Rightarrow> bool) \<Rightarrow> ScoredCandidate list \<Rightarrow> ScoredCandidate list"
  eeSortModels :: model_sorter
  eeSortRows :: row_sorter
  eeMicros :: "Case \<Rightarrow> int"

definition blockedLabel :: "RouteDecision \<Rightarrow> string" where
  "blockedLabel dec =
     (if rdBlockCode dec \<noteq> [] \<and> rdBlockReason dec \<noteq> [] then rdBlockCode dec @ '': '' @ rdBlockReason dec
      else if rdBlockCode dec \<noteq> [] then rdBlockCode dec
      else if rdBlockReason dec \<noteq> [] then rdBlockReason dec else ''blocked'')"

definition judgeCase :: "Case \<Rightarrow> RouteDecision \<Rightarrow> CaseResult \<Rightarrow> CaseResult" where
  "judgeCase c dec res =
     (if erModel (gcExpectedRoute c) \<noteq> [] then
        (if rdSelectedModel dec = erModel (gcExpectedRoute c) then res\<lparr>crsPass := True\<rparr>
         else res\<lparr>crsReason := ''expected model '' @ erModel (gcExpectedRoute c) @ '', got '' @ rdSelectedModel dec\<rparr>)
      else if crsSelectedTier res = erTier (gcExpectedRoute c) then res\<lparr>crsPass := True\<rparr>
      else res\<lparr>crsReason := ''expected tier '' @ erTier (gcExpectedRoute c) @ '', got '' @ crsSelectedTier res @
             '' (model '' @ rdSelectedModel dec @ '', classified '' @ crsClassifiedTask res @ '')''\<rparr>)"

definition caseResult :: "Runner \<Rightarrow> Case \<Rightarrow> int \<Rightarrow> JobDescriptor \<Rightarrow> RouteDecision \<Rightarrow> engine_error option \<Rightarrow> CaseResult" where
  "caseResult rn c micros job dec err =
     (let res = \<lparr>crsCase = c, crsPass = False, crsClassifiedTask = jTaskType job, crsSelectedModel = [],
            crsSelectedTier = [], crsExpectedTier = erTier (gcExpectedRoute c), crsEstimatedCostUSD = 0,
            crsRoutingMicros = micros, crsPolicyVersion = rdPolicyVersion dec, crsBlocked = rdBlocked dec,
            crsBlockCode = rdBlockCode dec, crsBlockReason = rdBlockReason dec, crsReason = [], crsDecision = dec\<rparr>
      in case err of
           Some e \<Rightarrow>
             if e \<noteq> ErrBlocked then res\<lparr>crsReason := ''engine error: '' @ engineErrText e\<rparr>
             else res\<lparr>crsSelectedModel := rdSelectedModel dec, crsEstimatedCostUSD := rdEstimatedCostUSD dec,
                    crsSelectedTier := (case snapModel (rnSnapshot rn) (rdSelectedModel dec) of Some m \<Rightarrow> mTier m | None \<Rightarrow> []),
                    crsReason := ''blocked: '' @ blockedLabel dec\<rparr>
         | None \<Rightarrow> judgeCase c dec (res\<lparr>crsSelectedModel := rdSelectedModel dec,
                    crsEstimatedCostUSD := rdEstimatedCostUSD dec,
                    crsSelectedTier := (case snapModel (rnSnapshot rn) (rdSelectedModel dec) of Some m \<Rightarrow> mTier m | None \<Rightarrow> [])\<rparr>))"

definition runCase :: "EvalEnv \<Rightarrow> Runner \<Rightarrow> CompiledPolicy option \<Rightarrow> Case \<Rightarrow> CaseResult" where
  "runCase env rn pol c =
     (let (job, dec, err) = Decide (eeSort env) (rnEngine rn) (jobForCase ''eval_'' c) pol (Some FullyHealthy) False
      in caseResult rn c (eeMicros env c) job dec err)"

definition addResult :: "CaseResult \<Rightarrow> EvalReport \<times> int \<Rightarrow> EvalReport \<times> int" where
  "addResult res acc =
     (let (r, micros) = acc in
      (r\<lparr>erpPassed := (if crsPass res then i64 (erpPassed r + 1) else erpPassed r),
         erpTotalCostUSD := erpTotalCostUSD r + crsEstimatedCostUSD res,
         erpResults := erpResults r @ [res]\<rparr>, i64 (micros + crsRoutingMicros res)))"

definition RunWithPolicy :: "EvalEnv \<Rightarrow> Runner \<Rightarrow> Dataset \<Rightarrow> CompiledPolicy option \<Rightarrow> EvalReport" where
  "RunWithPolicy env rn ds pol =
     (let r0 = \<lparr>erpTotal = int (length (dsCases ds)), erpPassed = 0, erpResults = [], erpTotalCostUSD = 0,
                erpMeanRoutingMic = 0, erpFrontier = \<lparr>fpTaskClasses = []\<rparr>\<rparr>;
          (r, micros) = fold (\<lambda>c. addResult (runCase env rn pol c)) (dsCases ds) (r0, 0);
          r1 = (if erpTotal r > 0 then r\<lparr>erpMeanRoutingMic := of_int micros / of_int (erpTotal r)\<rparr> else r)
      in r1\<lparr>erpFrontier := buildFrontierReport (eeSortModels env) (eeSortRows env) (Some ds) (erpResults r1) (rnSnapshot rn)\<rparr>)"

definition evalRun :: "EvalEnv \<Rightarrow> Runner \<Rightarrow> Dataset \<Rightarrow> EvalReport" where
  "evalRun env rn ds = RunWithPolicy env rn ds None"

definition passRate :: "int \<Rightarrow> int \<Rightarrow> float64" where
  "passRate n passed = (if n = 0 then 0 else of_int passed / of_int n)"

definition PassRate :: "EvalReport \<Rightarrow> float64" where
  "PassRate r = passRate (erpTotal r) (erpPassed r)"

definition PrimaryPassRate :: "ComparisonReport \<Rightarrow> float64" where
  "PrimaryPassRate r = passRate (crTotal r) (crPrimaryPassed r)"

definition SecondaryPassRate :: "ComparisonReport \<Rightarrow> float64" where
  "SecondaryPassRate r = passRate (crTotal r) (crSecondaryPassed r)"

definition bump :: "bool \<Rightarrow> int \<Rightarrow> int" where
  "bump b n = (if b then i64 (n + 1) else n)"

definition addComparison :: "CaseResult \<times> CaseResult \<Rightarrow> ComparisonReport \<Rightarrow> ComparisonReport" where
  "addComparison ps r =
     (let (p, s) = ps; c = CompareDecisions (crsDecision p) (crsDecision s) in
      r\<lparr>crChangedCount := bump (dcChanged c) (crChangedCount r),
        crRouteChangedCount := bump (dcRouteChanged c) (crRouteChangedCount r),
        crFallbackChangedCount := bump (dcFallbackChanged c) (crFallbackChangedCount r),
        crTimeoutChangedCount := bump (dcTimeoutChanged c) (crTimeoutChangedCount r),
        crVerifierChangedCount := bump (dcRequiresVerifierChanged c) (crVerifierChangedCount r),
        crPolicyVersionChangedCount := bump (dcPolicyVersionChanged c) (crPolicyVersionChangedCount r),
        crCostChangedCount := bump (dcCostChanged c) (crCostChangedCount r),
        crEstimatedCostDeltaMicroUSD := i64 (crEstimatedCostDeltaMicroUSD r + dcEstimatedCostDeltaMicroUSD c),
        crComparisons := crComparisons r @ [\<lparr>ccCase = crsCase p, ccPrimary = p, ccSecondary = s, ccComparison = c\<rparr>]\<rparr>)"

text \<open>Both runs go over the same cases, so the index into the second is in range.\<close>

definition ComparePolicies :: "EvalEnv \<Rightarrow> Runner \<Rightarrow> Dataset \<Rightarrow> CompiledPolicy option \<Rightarrow> CompiledPolicy option \<Rightarrow> ComparisonReport" where
  "ComparePolicies env rn ds primary secondary =
     (let p = RunWithPolicy env rn ds primary;
          s = RunWithPolicy env rn ds secondary;
          r0 = \<lparr>crTotal = int (length (dsCases ds)), crPrimaryPassed = erpPassed p, crSecondaryPassed = erpPassed s,
                crPrimaryTotalCostUSD = erpTotalCostUSD p, crSecondaryTotalCostUSD = erpTotalCostUSD s,
                crPrimaryMeanRoutingMic = erpMeanRoutingMic p, crSecondaryMeanRoutingMic = erpMeanRoutingMic s,
                crChangedCount = 0, crRouteChangedCount = 0, crFallbackChangedCount = 0, crTimeoutChangedCount = 0,
                crVerifierChangedCount = 0, crPolicyVersionChangedCount = 0, crCostChangedCount = 0,
                crEstimatedCostDeltaMicroUSD = 0, crEstimatedCostDeltaUSD = 0, crComparisons = []\<rparr>;
          r = fold addComparison (zip (erpResults p) (erpResults s)) r0
      in r\<lparr>crEstimatedCostDeltaUSD := of_int (crEstimatedCostDeltaMicroUSD r) / 1000000\<rparr>)"

section \<open>Text\<close>

definition decisionLabel :: "RouteDecision \<Rightarrow> string" where
  "decisionLabel dec =
     (if rdBlocked dec then ''BLOCKED['' @ blockedLabel dec @ '']''
      else if rdSelectedModel dec = [] then ''<none>'' else rdSelectedModel dec)"

definition fallbackLabel :: "FallbackEntry list \<Rightarrow> string" where
  "fallbackLabel fbs = (if length fbs = 0 then ''<none>'' else joinWith '','' (map feModelID fbs))"

definition fmtSigned :: "nat \<Rightarrow> float64 \<Rightarrow> string" where
  "fmtSigned p q = (if q < 0 then fmtFixed p q else CHR ''+'' # fmtFixed p q)"

definition formatCaseComparison :: "CaseComparison \<Rightarrow> string" where
  "formatCaseComparison cc =
     (let c = ccComparison cc; p = crsDecision (ccPrimary cc); s = crsDecision (ccSecondary cc);
          parts = (if dcRouteChanged c then [''route '' @ decisionLabel p @ '' -> '' @ decisionLabel s] else []) @
            (if dcFallbackChanged c
             then [''fallbacks '' @ fallbackLabel (rdFallbacks p) @ '' -> '' @ fallbackLabel (rdFallbacks s)] else []) @
            (if dcTimeoutChanged c
             then [''timeout '' @ showInt (rdTimeoutMS p) @ ''ms -> '' @ showInt (rdTimeoutMS s) @ ''ms''] else []) @
            (if dcRequiresVerifierChanged c
             then [''verifier '' @ showBool (rdRequiresVerifier p) @ '' -> '' @ showBool (rdRequiresVerifier s)] else []) @
            (if dcPolicyVersionChanged c
             then [''policy_version '' @ fmtQ (crsPolicyVersion (ccPrimary cc)) @ '' -> '' @
                   fmtQ (crsPolicyVersion (ccSecondary cc))] else []) @
            (if dcCostChanged c
             then [''cost $'' @ fmtFixed 6 (crsEstimatedCostUSD (ccPrimary cc)) @ '' -> $'' @
                   fmtFixed 6 (crsEstimatedCostUSD (ccSecondary cc)) @ '' ('' @ fmtSigned 6 (dcEstimatedCostDeltaUSD c) @ '' USD)'']
             else [])
      in if length parts = 0 then ''decision unchanged'' else joinWith ''; '' parts)"

text \<open>The two bytes of the middle dot and of the micro sign.\<close>

definition middleDot :: string where "middleDot = [CHR 0xC2, CHR 0xB7]"
definition microSign :: string where "microSign = [CHR 0xC2, CHR 0xB5]"

definition fmtPercent :: "float64 \<Rightarrow> string" where
  "fmtPercent r = fmtFixed 1 (r * 100) @ ''%''"

definition FormatReport :: "((CaseResult \<Rightarrow> CaseResult \<Rightarrow> bool) \<Rightarrow> CaseResult list \<Rightarrow> CaseResult list) \<Rightarrow> EvalReport \<Rightarrow> string" where
  "FormatReport srt r =
     (let head = ''Eval report: '' @ showInt (erpPassed r) @ ''/'' @ showInt (erpTotal r) @ '' passed ('' @ fmtPercent (PassRate r) @
            '')'' @ [newline] @ ''Total estimated cost: $'' @ fmtFixed 6 (erpTotalCostUSD r) @ ''  '' @ middleDot @
            ''  mean routing: '' @ fmtFixed 1 (erpMeanRoutingMic r) @ microSign @ ''s'' @ [newline];
          failures = filter (\<lambda>res. \<not> crsPass res) (erpResults r)
      in if length failures = 0
         then head @ ''All cases routed as expected.'' @ [newline] @ formatFrontierReport (erpFrontier r)
         else head @ [newline] @ ''Failures ('' @ showNat (length failures) @ ''):'' @ [newline] @
           concat (map (\<lambda>f. ''  - '' @ gcID (crsCase f) @ '' ('' @ gcName (crsCase f) @ ''): '' @ crsReason f @ [newline])
             (srt (\<lambda>a b. gcID (crsCase a) < gcID (crsCase b)) failures)) @
           formatFrontierReport (erpFrontier r))"

definition runLine :: "string \<Rightarrow> int \<Rightarrow> int \<Rightarrow> float64 \<Rightarrow> float64 \<Rightarrow> float64 \<Rightarrow> string" where
  "runLine label passed cases rate costUSD mean =
     label @ '': '' @ showInt passed @ ''/'' @ showInt cases @ '' passed ('' @ fmtPercent rate @ '')  '' @ middleDot @
     ''  total estimated cost: $'' @ fmtFixed 6 costUSD @ ''  '' @ middleDot @ ''  mean routing: '' @ fmtFixed 1 mean @
     microSign @ ''s'' @ [newline]"

definition FormatComparisonReport :: "((CaseComparison \<Rightarrow> CaseComparison \<Rightarrow> bool) \<Rightarrow> CaseComparison list \<Rightarrow> CaseComparison list) \<Rightarrow>
    ComparisonReport \<Rightarrow> string \<Rightarrow> string \<Rightarrow> string" where
  "FormatComparisonReport srt r primaryLabel0 secondaryLabel0 =
     (let primaryLabel = (if primaryLabel0 = [] then ''primary'' else primaryLabel0);
          secondaryLabel = (if secondaryLabel0 = [] then ''secondary'' else secondaryLabel0);
          head = ''Policy comparison: '' @ showInt (crChangedCount r) @ ''/'' @ showInt (crTotal r) @ '' cases changed'' @ [newline] @
            runLine primaryLabel (crPrimaryPassed r) (crTotal r) (PrimaryPassRate r) (crPrimaryTotalCostUSD r) (crPrimaryMeanRoutingMic r) @
            runLine secondaryLabel (crSecondaryPassed r) (crTotal r) (SecondaryPassRate r) (crSecondaryTotalCostUSD r)
              (crSecondaryMeanRoutingMic r) @
            ''Diff counts: route='' @ showInt (crRouteChangedCount r) @ '' fallback='' @ showInt (crFallbackChangedCount r) @
            '' timeout='' @ showInt (crTimeoutChangedCount r) @ '' verifier='' @ showInt (crVerifierChangedCount r) @
            '' policy_version='' @ showInt (crPolicyVersionChangedCount r) @ '' cost='' @ showInt (crCostChangedCount r) @ [newline] @
            ''Estimated cost delta ('' @ secondaryLabel @ ''-'' @ primaryLabel @ ''): '' @ fmtSigned 6 (crEstimatedCostDeltaUSD r) @
            '' USD'' @ [newline];
          changed = filter (\<lambda>c. dcChanged (ccComparison c)) (crComparisons r)
      in if length changed = 0 then head @ ''No decision differences.'' @ [newline]
         else head @ [newline] @ ''Differences ('' @ showNat (length changed) @ ''):'' @ [newline] @
           concat (map (\<lambda>c. ''  - '' @ gcID (ccCase c) @ '' ('' @ gcName (ccCase c) @ ''): '' @ formatCaseComparison c @ [newline])
             (srt (\<lambda>a b. gcID (ccCase a) < gcID (ccCase b)) changed)))"

section \<open>Loading a policy\<close>

datatype load_err = LoadFailed string | LoadParseFailed string parse_err | LoadCompileFailed string policy_err

definition LoadCompiledPolicy :: "(string \<Rightarrow> string + string) \<Rightarrow> (string \<Rightarrow> string + rawPolicy) \<Rightarrow> decoder \<Rightarrow>
    string \<Rightarrow> Snapshot option \<Rightarrow> load_err + CompiledPolicy" where
  "LoadCompiledPolicy readFile unmarshal d path snapshot =
     (if path = [] then Inl (LoadFailed ''evals: policy path is required'')
      else if snapshot = None then Inl (LoadFailed ''evals: registry snapshot is required'')
      else case readFile path of
        Inl e \<Rightarrow> Inl (LoadFailed (''evals: read policy '' @ fmtQ path @ '': '' @ e))
      | Inr data \<Rightarrow> (case Parse unmarshal d data of
          Inl e \<Rightarrow> Inl (LoadParseFailed (''evals: parse policy '' @ fmtQ path @ '': '') e)
        | Inr parsed \<Rightarrow> (case Compile (Some parsed) snapshot of
            Inl e \<Rightarrow> Inl (LoadCompileFailed (''evals: compile policy '' @ fmtQ path @ '': '') e)
          | Inr compiled \<Rightarrow> Inr compiled)))"

section \<open>Laws\<close>

lemma addResult_fold:
  "fold (\<lambda>c. addResult (f c)) cs (r, n) = (r', n') \<Longrightarrow>
   erpResults r' = erpResults r @ map f cs \<and> erpTotal r' = erpTotal r \<and>
   (in_i64 (erpPassed r) \<longrightarrow> erpPassed r' = i64 (erpPassed r + int (length (filter (\<lambda>c. crsPass (f c)) cs)))) \<and>
   erpTotalCostUSD r' = erpTotalCostUSD r + sum_list (map (\<lambda>c. crsEstimatedCostUSD (f c)) cs)"
proof (induction cs arbitrary: r n)
  case (Cons c cs)
  obtain r1 n1 where step: "addResult (f c) (r, n) = (r1, n1)" by fastforce
  then have r1: "erpResults r1 = erpResults r @ [f c]" "erpTotal r1 = erpTotal r"
    "erpPassed r1 = (if crsPass (f c) then i64 (erpPassed r + 1) else erpPassed r)"
    "erpTotalCostUSD r1 = erpTotalCostUSD r + crsEstimatedCostUSD (f c)"
    by (auto simp: addResult_def)
  from Cons.prems step have "fold (\<lambda>c. addResult (f c)) cs (r1, n1) = (r', n')" by simp
  from Cons.IH [OF this] r1 show ?case
    by (auto simp: i64_plus algebra_simps)
qed simp

lemma RunWithPolicy_results:
  "erpResults (RunWithPolicy env rn ds pol) = map (runCase env rn pol) (dsCases ds)"
  "erpTotal (RunWithPolicy env rn ds pol) = int (length (dsCases ds))"
  "erpPassed (RunWithPolicy env rn ds pol) = i64 (int (length (filter (\<lambda>c. crsPass (runCase env rn pol c)) (dsCases ds))))"
  "erpTotalCostUSD (RunWithPolicy env rn ds pol) = sum_list (map (\<lambda>c. crsEstimatedCostUSD (runCase env rn pol c)) (dsCases ds))"
proof -
  let ?r0 = "\<lparr>erpTotal = int (length (dsCases ds)), erpPassed = 0, erpResults = [], erpTotalCostUSD = 0,
                erpMeanRoutingMic = 0, erpFrontier = \<lparr>fpTaskClasses = []\<rparr>\<rparr> :: EvalReport"
  obtain r n where run: "fold (\<lambda>c. addResult (runCase env rn pol c)) (dsCases ds) (?r0, 0) = (r, n)" by fastforce
  have "in_i64 0" by (simp add: in_i64_def)
  with addResult_fold [OF run] run show
    "erpResults (RunWithPolicy env rn ds pol) = map (runCase env rn pol) (dsCases ds)"
    "erpTotal (RunWithPolicy env rn ds pol) = int (length (dsCases ds))"
    "erpPassed (RunWithPolicy env rn ds pol) = i64 (int (length (filter (\<lambda>c. crsPass (runCase env rn pol c)) (dsCases ds))))"
    "erpTotalCostUSD (RunWithPolicy env rn ds pol) = sum_list (map (\<lambda>c. crsEstimatedCostUSD (runCase env rn pol c)) (dsCases ds))"
    by (simp_all add: RunWithPolicy_def Let_def)
qed

lemma judgeCase_pass:
  "crsPass (judgeCase c dec res) \<longleftrightarrow> crsPass res \<or>
     (if erModel (gcExpectedRoute c) \<noteq> [] then rdSelectedModel dec = erModel (gcExpectedRoute c)
      else crsSelectedTier res = erTier (gcExpectedRoute c))"
  by (simp add: judgeCase_def)

text \<open>What a passing case says of the routing decision.\<close>

lemma runCase_pass:
  assumes "crsPass (runCase env rn pol c)"
  shows "\<exists>dec. snd (Decide (eeSort env) (rnEngine rn) (jobForCase ''eval_'' c) pol (Some FullyHealthy) False) = (dec, None) \<and>
    (if erModel (gcExpectedRoute c) \<noteq> [] then rdSelectedModel dec = erModel (gcExpectedRoute c)
     else (case snapModel (rnSnapshot rn) (rdSelectedModel dec) of Some m \<Rightarrow> mTier m | None \<Rightarrow> []) = erTier (gcExpectedRoute c))"
proof -
  obtain job dec err where d: "Decide (eeSort env) (rnEngine rn) (jobForCase ''eval_'' c) pol (Some FullyHealthy) False = (job, dec, err)"
    by (metis prod_cases3)
  with assms have "err = None"
    by (cases err) (simp_all add: runCase_def caseResult_def Let_def split: if_splits)
  with assms d show ?thesis
    by (simp add: runCase_def caseResult_def Let_def judgeCase_pass split: if_splits)
qed

definition comparisonOf :: "CaseResult \<times> CaseResult \<Rightarrow> DecisionComparison" where
  "comparisonOf ps = CompareDecisions (crsDecision (fst ps)) (crsDecision (snd ps))"

lemma addComparison_fold:
  "in_i64 (crChangedCount r) \<Longrightarrow> in_i64 (crRouteChangedCount r) \<Longrightarrow>
   crChangedCount (fold addComparison pss r) = i64 (crChangedCount r + int (length (filter (dcChanged \<circ> comparisonOf) pss))) \<and>
   crRouteChangedCount (fold addComparison pss r) =
     i64 (crRouteChangedCount r + int (length (filter (dcRouteChanged \<circ> comparisonOf) pss))) \<and>
   map ccComparison (crComparisons (fold addComparison pss r)) = map ccComparison (crComparisons r) @ map comparisonOf pss"
proof (induction pss arbitrary: r)
  case (Cons ps pss)
  obtain p s where ps: "ps = (p, s)" by fastforce
  have step: "crChangedCount (addComparison ps r) = bump (dcChanged (comparisonOf ps)) (crChangedCount r)"
    "crRouteChangedCount (addComparison ps r) = bump (dcRouteChanged (comparisonOf ps)) (crRouteChangedCount r)"
    "map ccComparison (crComparisons (addComparison ps r)) = map ccComparison (crComparisons r) @ [comparisonOf ps]"
    by (simp_all add: addComparison_def comparisonOf_def ps Let_def)
  have "in_i64 (crChangedCount (addComparison ps r))" "in_i64 (crRouteChangedCount (addComparison ps r))"
    using Cons.prems by (simp_all add: step bump_def)
  from Cons.IH [OF this] show ?case
    using Cons.prems by (auto simp: step bump_def i64_plus algebra_simps)
qed simp

lemma ComparePolicies_counts:
  defines "pairs env rn ds p s \<equiv> map (\<lambda>c. (runCase env rn p c, runCase env rn s c)) (dsCases ds)"
  shows "crChangedCount (ComparePolicies env rn ds p s) = i64 (int (length (filter (dcChanged \<circ> comparisonOf) (pairs env rn ds p s))))"
    "crRouteChangedCount (ComparePolicies env rn ds p s) =
       i64 (int (length (filter (dcRouteChanged \<circ> comparisonOf) (pairs env rn ds p s))))"
    "map ccComparison (crComparisons (ComparePolicies env rn ds p s)) = map comparisonOf (pairs env rn ds p s)"
proof -
  have zip: "zip (erpResults (RunWithPolicy env rn ds p)) (erpResults (RunWithPolicy env rn ds s)) = pairs env rn ds p s"
    unfolding RunWithPolicy_results pairs_def by (induction "dsCases ds" arbitrary: ds) (auto simp: zip_map_map zip_same_conv_map)
  have "in_i64 0" by (simp add: in_i64_def)
  then show "crChangedCount (ComparePolicies env rn ds p s) = i64 (int (length (filter (dcChanged \<circ> comparisonOf) (pairs env rn ds p s))))"
    "crRouteChangedCount (ComparePolicies env rn ds p s) =
       i64 (int (length (filter (dcRouteChanged \<circ> comparisonOf) (pairs env rn ds p s))))"
    "map ccComparison (crComparisons (ComparePolicies env rn ds p s)) = map comparisonOf (pairs env rn ds p s)"
    unfolding ComparePolicies_def Let_def zip by (simp_all add: addComparison_fold)
qed

lemma ComparePolicies_self: "crChangedCount (ComparePolicies env rn ds p p) = 0"
proof -
  have "filter (dcChanged \<circ> comparisonOf) (map (\<lambda>c. (runCase env rn p c, runCase env rn p c)) (dsCases ds)) = []"
    by (simp add: filter_empty_conv comparisonOf_def CompareDecisions_self)
  then show ?thesis by (simp add: ComparePolicies_counts i64_def)
qed

end
