(* ===== verification/PolicyRunner.thy ===== *)
theory PolicyRunner
  imports PolicyParserLaws
begin

text \<open>
  \<open>internal/policy/runner.go\<close>: the offline tests of a policy. A YAML document of test cases is
  checked field by field, decoded into cases, and each case compares what the compiled policy
  evaluates to with what the author expects. \<open>yaml.Unmarshal\<close> and \<open>Node.Decode\<close> are parameters.
\<close>

section \<open>Cases and results\<close>

record ExpectedDecision =
  exModelProfile :: ModelProfile
  exModelProfileName :: string
  exVerifier :: "bool option"
  exRequireCapabilities :: "Capability list"
  exMatchedRuleIDs :: "string list"
  exBlocked :: "bool option"
  exExplanationContains :: "string list"

record PolicyTestCase =
  tcName :: string
  tcInput :: EvaluationInput
  tcExpected :: ExpectedDecision

record PolicyTestResult =
  trName :: string
  trPassed :: bool
  trFailures :: "string list"

record PolicyTestReport =
  trResults :: "PolicyTestResult list"

fun resultsPassed :: "PolicyTestResult list \<Rightarrow> bool" where
  "resultsPassed [] = True"
| "resultsPassed (r # rs) = (if \<not> trPassed r then False else resultsPassed rs)"

definition reportPassed :: "PolicyTestReport \<Rightarrow> bool" where
  "reportPassed r = resultsPassed (trResults r)"

definition reportError :: "PolicyTestReport \<Rightarrow> policy_err option" where
  "reportError r =
     (let failures = map (\<lambda>res. trName res @ '': '' @ joinWith ''; '' (trFailures res))
            (filter (\<lambda>res. \<not> trPassed res) (trResults r))
      in if length failures = 0 then None else Some (ErrInvalidPolicy (joinWith '' | '' failures)))"

section \<open>The raw document\<close>

record rawPolicyTestInput =
  riTenantID :: string
  riProjectID :: string
  riTaskType :: string
  riRiskLevel :: string
  riSensitivity :: string
  riPromptTokensEstimate :: int
  riContainsText :: string
  riKeywords :: "string list"
  riFilesTouched :: "string list"
  riRequiresToolUse :: "bool option"
  riRequiresJSONSchema :: "bool option"
  riRequiresVision :: "bool option"
  riRouterMode :: string

record rawExpectedDecision =
  reModelProfile :: string
  reModelProfileName :: string
  reVerifier :: "bool option"
  reRequireCapabilities :: "string list"
  reMatchedRuleIDs :: "string list"
  reBlocked :: "bool option"
  reExplanationContains :: "string list"
  reExplanations :: "string list"

record rawPolicyTestCase =
  rcCase :: string
  rcInput :: rawPolicyTestInput
  rcExpected :: rawExpectedDecision

record rawPolicyTestSuite = rawPolicyTestCase +
  rsCases :: "rawPolicyTestCase list"

definition policyTestSuiteFields :: "string list" where
  "policyTestSuiteFields = [''case'', ''input'', ''expected'', ''cases'']"

definition policyTestCaseFields :: "string list" where
  "policyTestCaseFields = [''case'', ''input'', ''expected'']"

definition policyTestInputFields :: "string list" where
  "policyTestInputFields = [''tenant'', ''project'', ''task_type'', ''risk_level'', ''sensitivity'',
     ''prompt_tokens_estimate'', ''contains_text'', ''keywords'', ''files_touched'', ''requires_tool_use'',
     ''requires_json_schema'', ''requires_vision'', ''router_mode'']"

definition policyTestExpectedFields :: "string list" where
  "policyTestExpectedFields = [''model_profile'', ''model_profile_name'', ''verifier'', ''require_capabilities'',
     ''matched_rules'', ''blocked'', ''explanation_contains'', ''explanations'']"

section \<open>Checking the nodes\<close>

text \<open>The keys of a mapping: every second entry of its content.\<close>

fun checkKeys :: "string \<Rightarrow> string list \<Rightarrow> YNode list \<Rightarrow> parse_err option" where
  "checkKeys ctx allowed [] = None"
| "checkKeys ctx allowed (k # rest) =
     (if nValue k \<notin> set allowed
      then Some (PErr (ErrInvalidPolicy (ctx @ '' has unknown field '' @ fmtQ (nValue k))))
      else case rest of [] \<Rightarrow> None | v # rest' \<Rightarrow> checkKeys ctx allowed rest')"

definition validateMappingKeys :: "YNode \<Rightarrow> string \<Rightarrow> string list \<Rightarrow> parse_err option" where
  "validateMappingKeys node ctx allowed =
     (if nKind node \<noteq> MappingNode then Some (PErr (ErrInvalidPolicy (ctx @ '' must be a mapping'')))
      else checkKeys ctx allowed (nContent node))"

definition orElse :: "parse_err option \<Rightarrow> parse_err option \<Rightarrow> parse_err option" where
  "orElse a b = (case a of Some e \<Rightarrow> Some e | None \<Rightarrow> b)"

text \<open>The loop over the pairs of a mapping, one check per field; an odd length reads out of range.\<close>

fun checkPairs :: "(string \<Rightarrow> YNode \<Rightarrow> parse_err option) \<Rightarrow> YNode list \<Rightarrow> parse_err option" where
  "checkPairs f [] = None"
| "checkPairs f [k] = Some IndexPanic"
| "checkPairs f (k # v # rest) = orElse (f (nValue k) v) (checkPairs f rest)"

definition checkCaseField :: "string \<Rightarrow> string \<Rightarrow> YNode \<Rightarrow> parse_err option" where
  "checkCaseField ctx key v =
     (if key = ''input'' then validateMappingKeys v (ctx @ ''.input'') policyTestInputFields
      else if key = ''expected'' then validateMappingKeys v (ctx @ ''.expected'') policyTestExpectedFields
      else None)"

definition validatePolicyTestCaseNode :: "YNode \<Rightarrow> string \<Rightarrow> parse_err option" where
  "validatePolicyTestCaseNode node ctx =
     orElse (validateMappingKeys node ctx policyTestCaseFields)
       (checkPairs (checkCaseField ctx) (nContent node))"

fun checkItems :: "string \<Rightarrow> nat \<Rightarrow> YNode list \<Rightarrow> parse_err option" where
  "checkItems ctx i [] = None"
| "checkItems ctx i (item # rest) =
     orElse (validatePolicyTestCaseNode item (ctx @ ''['' @ showNat i @ '']'')) (checkItems ctx (Suc i) rest)"

definition validatePolicyTestCasesSequence :: "YNode \<Rightarrow> string \<Rightarrow> parse_err option" where
  "validatePolicyTestCasesSequence node ctx =
     (if nKind node \<noteq> SequenceNode then Some (PErr (ErrInvalidPolicy (ctx @ '' must be a sequence'')))
      else checkItems ctx 0 (nContent node))"

definition checkSuiteField :: "string \<Rightarrow> string \<Rightarrow> YNode \<Rightarrow> parse_err option" where
  "checkSuiteField ctx key v =
     (if key = ''input'' then validateMappingKeys v (ctx @ ''.input'') policyTestInputFields
      else if key = ''expected'' then validateMappingKeys v (ctx @ ''.expected'') policyTestExpectedFields
      else if key = ''cases'' then validatePolicyTestCasesSequence v (ctx @ ''.cases'')
      else None)"

definition validatePolicyTestSuiteNode :: "YNode \<Rightarrow> string \<Rightarrow> parse_err option" where
  "validatePolicyTestSuiteNode node ctx =
     orElse (validateMappingKeys node ctx policyTestSuiteFields)
       (checkPairs (checkSuiteField ctx) (nContent node))"

definition policyTestRoot :: "YNode \<Rightarrow> YNode" where
  "policyTestRoot node =
     (if nKind node = DocumentNode \<and> length (nContent node) > 0 then nContent node ! 0 else node)"

section \<open>From raw cases to cases\<close>

definition checkIfSet :: "string list option \<Rightarrow> string \<Rightarrow> string \<Rightarrow> parse_err option" where
  "checkIfSet vocab ctx v = (if v \<noteq> [] then checkVocab vocab ctx v else None)"

definition toInput :: "rawPolicyTestInput \<Rightarrow> string \<Rightarrow> parse_err + EvaluationInput" where
  "toInput r name =
     (case orElse (checkIfSet (Some validTaskTypes) (''case '' @ name @ ''.input.task_type'') (riTaskType r))
       (orElse (checkIfSet (Some validRiskLevels) (''case '' @ name @ ''.input.risk_level'') (riRiskLevel r))
       (orElse (checkIfSet (Some validSensitivities) (''case '' @ name @ ''.input.sensitivity'') (riSensitivity r))
         (checkIfSet (Some routerModes)
           (''case '' @ name @ ''.input.router_mode'') (riRouterMode r)))) of
        Some e \<Rightarrow> Inl e
      | None \<Rightarrow> Inr \<lparr>inTenantID = riTenantID r, inProjectID = riProjectID r, inTaskType = riTaskType r,
          inRiskLevel = riRiskLevel r, inSensitivity = riSensitivity r,
          inPromptTokensEstimate = riPromptTokensEstimate r, inContainsText = riContainsText r,
          inKeywords = [] @ riKeywords r, inFilesTouched = [] @ riFilesTouched r,
          inRequiresToolUse = (case riRequiresToolUse r of Some b \<Rightarrow> b | None \<Rightarrow> False),
          inRequiresJSONSchema = (case riRequiresJSONSchema r of Some b \<Rightarrow> b | None \<Rightarrow> False),
          inRequiresVision = (case riRequiresVision r of Some b \<Rightarrow> b | None \<Rightarrow> False),
          inRouterMode = riRouterMode r\<rparr>)"

definition expectedEmpty :: "ExpectedDecision \<Rightarrow> bool" where
  "expectedEmpty e \<longleftrightarrow> exModelProfile e = [] \<and> exModelProfileName e = [] \<and> exVerifier e = None \<and>
     length (exRequireCapabilities e) = 0 \<and> length (exMatchedRuleIDs e) = 0 \<and> exBlocked e = None \<and>
     length (exExplanationContains e) = 0"

definition toExpected :: "rawExpectedDecision \<Rightarrow> string \<Rightarrow> parse_err + ExpectedDecision" where
  "toExpected r name =
     (if reModelProfile r \<noteq> [] \<and> \<not> isValidProfileOrFallback (reModelProfile r)
      then invalid (''case '' @ name @ ''.expected.model_profile '' @ fmtQ (reModelProfile r) @
             '' must be cheap|balanced|premium'')
      else bindR (checkAll isValidCapability (\<lambda>c. ''case '' @ name @ ''.expected.require_capabilities '' @ fmtQ c @
             '' is not a recognised capability'') (reRequireCapabilities r)) (\<lambda>caps.
        let out = \<lparr>exModelProfile = reModelProfile r, exModelProfileName = reModelProfileName r,
              exVerifier = reVerifier r, exRequireCapabilities = caps,
              exMatchedRuleIDs = [] @ reMatchedRuleIDs r, exBlocked = reBlocked r,
              exExplanationContains = [] @ reExplanationContains r @ reExplanations r\<rparr>
        in if expectedEmpty out
           then invalid (''case '' @ name @ ''.expected must specify at least one assertion'')
           else Inr out))"

definition toCase :: "rawPolicyTestCase \<Rightarrow> nat \<Rightarrow> parse_err + PolicyTestCase" where
  "toCase r index =
     (if TrimSpace (rcCase r) = [] then invalid (''case['' @ showNat index @ ''] missing case name'')
      else bindR (toInput (rcInput r) (rcCase r)) (\<lambda>i.
           bindR (toExpected (rcExpected r) (rcCase r)) (\<lambda>e.
             Inr \<lparr>tcName = rcCase r, tcInput = i, tcExpected = e\<rparr>)))"

fun toCases :: "nat \<Rightarrow> rawPolicyTestCase list \<Rightarrow> parse_err + PolicyTestCase list" where
  "toCases i [] = Inr []"
| "toCases i (raw # rest) = bindR (toCase raw i) (\<lambda>c. bindR (toCases (Suc i) rest) (\<lambda>cs. Inr (c # cs)))"

definition rawCasesToCases :: "rawPolicyTestCase list \<Rightarrow> parse_err + PolicyTestCase list" where
  "rawCasesToCases raws =
     (if length raws = 0 then invalid ''at least one policy test case is required'' else toCases 0 raws)"

text \<open>\<open>decCases\<close> and \<open>decSuite\<close> are \<open>Node.Decode\<close> into a list of raw cases and into a raw suite.\<close>

definition ParsePolicyTestCases :: "(string \<Rightarrow> string + YNode) \<Rightarrow> (YNode \<Rightarrow> string + rawPolicyTestCase list) \<Rightarrow>
    (YNode \<Rightarrow> string + rawPolicyTestSuite) \<Rightarrow> string \<Rightarrow> parse_err + PolicyTestCase list" where
  "ParsePolicyTestCases unmarshal decCases decSuite data =
     (if length data = 0 then invalid ''empty policy test cases''
      else case unmarshal data of
        Inl e \<Rightarrow> invalid (''yaml: '' @ e)
      | Inr node \<Rightarrow>
          let root = policyTestRoot node in
          if nKind root = SequenceNode then
            (case validatePolicyTestCasesSequence root ''policy test cases'' of
               Some e \<Rightarrow> Inl e
             | None \<Rightarrow> (case decCases root of Inl e \<Rightarrow> invalid (''yaml: '' @ e) | Inr raws \<Rightarrow> rawCasesToCases raws))
          else
            (case validatePolicyTestSuiteNode root ''policy test suite'' of
               Some e \<Rightarrow> Inl e
             | None \<Rightarrow> (case decSuite root of
                 Inl e \<Rightarrow> invalid (''yaml: '' @ e)
               | Inr suite \<Rightarrow>
                   rawCasesToCases (if length (rsCases suite) = 0 \<and> rcCase suite \<noteq> []
                                    then [rawPolicyTestCase.truncate suite] else rsCases suite))))"

section \<open>Running\<close>

definition effectiveModelProfile :: "Route \<Rightarrow> ModelProfile" where
  "effectiveModelProfile r =
     (case rtForce r of
        Some f \<Rightarrow> if fModelProfile f \<noteq> [] then fModelProfile f
                  else (case rtDefaults r of Some d \<Rightarrow> dModelProfile d | None \<Rightarrow> [])
      | None \<Rightarrow> (case rtDefaults r of Some d \<Rightarrow> dModelProfile d | None \<Rightarrow> []))"

definition effectiveModelProfileName :: "Route \<Rightarrow> string" where
  "effectiveModelProfileName r =
     (case rtForce r of
        Some f \<Rightarrow> if fModelProfileName f \<noteq> [] then fModelProfileName f
                  else (case rtDefaults r of Some d \<Rightarrow> dModelProfileName d | None \<Rightarrow> [])
      | None \<Rightarrow> (case rtDefaults r of Some d \<Rightarrow> dModelProfileName d | None \<Rightarrow> []))"

definition effectiveVerifier :: "Route \<Rightarrow> bool \<times> bool" where
  "effectiveVerifier r =
     (case Option.bind (rtForce r) fVerifier of
        Some b \<Rightarrow> (b, True)
      | None \<Rightarrow> (case Option.bind (rtDefaults r) dVerifier of Some b \<Rightarrow> (b, True) | None \<Rightarrow> (False, False)))"

definition containsFragment :: "string list \<Rightarrow> string \<Rightarrow> bool" where
  "containsFragment vs fragment = list_ex (\<lambda>v. Contains v fragment) vs"

text \<open>\<open>%v\<close> of a list of strings.\<close>

definition fmtStrings :: "string list \<Rightarrow> string" where
  "fmtStrings vs = ''['' @ joinWith '' '' vs @ '']''"

definition compareExpected :: "ExpectedDecision \<Rightarrow> Evaluation \<Rightarrow> string list" where
  "compareExpected e d =
     (case exBlocked e of
        Some b \<Rightarrow> if evBlocked d \<noteq> b then [''blocked = '' @ showBool (evBlocked d) @ '', want '' @ showBool b] else []
      | None \<Rightarrow> []) @
     (if length (exMatchedRuleIDs e) > 0 \<and> evMatchedRuleIDs d \<noteq> exMatchedRuleIDs e
      then [''matched_rules = '' @ fmtStrings (evMatchedRuleIDs d) @ '', want '' @ fmtStrings (exMatchedRuleIDs e)]
      else []) @
     (if exModelProfile e \<noteq> [] \<and> effectiveModelProfile (evRoute d) \<noteq> exModelProfile e
      then [''model_profile = '' @ fmtQ (effectiveModelProfile (evRoute d)) @ '', want '' @ fmtQ (exModelProfile e)]
      else []) @
     (if exModelProfileName e \<noteq> [] \<and> effectiveModelProfileName (evRoute d) \<noteq> exModelProfileName e
      then [''model_profile_name = '' @ fmtQ (effectiveModelProfileName (evRoute d)) @ '', want '' @
            fmtQ (exModelProfileName e)]
      else []) @
     (case exVerifier e of
        Some b \<Rightarrow> (let (got, ok) = effectiveVerifier (evRoute d) in
          if \<not> ok \<or> got \<noteq> b then [''verifier = '' @ showBool got @ ''/'' @ showBool ok @ '', want '' @ showBool b]
          else [])
      | None \<Rightarrow> []) @
     map (\<lambda>c. ''require_capabilities missing '' @ fmtQ c)
       (filter (\<lambda>c. case rtConstraints (evRoute d) of None \<Rightarrow> True | Some cs \<Rightarrow> c \<notin> set (cRequireCapabilities cs))
         (exRequireCapabilities e)) @
     map (\<lambda>f. ''explanations missing '' @ fmtQ f)
       (filter (\<lambda>f. \<not> containsFragment (evExplanations d) f) (exExplanationContains e))"

definition evaluatePolicyTestCase :: "CompiledPolicy \<Rightarrow> PolicyTestCase \<Rightarrow> PolicyTestResult" where
  "evaluatePolicyTestCase p tc =
     (let failures = compareExpected (tcExpected tc) (Evaluate (Some p) (tcInput tc))
      in \<lparr>trName = tcName tc, trPassed = (length failures = 0), trFailures = failures\<rparr>)"

definition RunPolicyTests :: "Policy option \<Rightarrow> Snapshot option \<Rightarrow> PolicyTestCase list \<Rightarrow> policy_err + PolicyTestReport" where
  "RunPolicyTests p snap tcs =
     (case Compile p snap of
        Inl e \<Rightarrow> Inl e
      | Inr compiled \<Rightarrow> Inr \<lparr>trResults = map (evaluatePolicyTestCase compiled) tcs\<rparr>)"

section \<open>What a passing test says\<close>

definition meets :: "ExpectedDecision \<Rightarrow> Evaluation \<Rightarrow> bool" where
  "meets e d \<longleftrightarrow>
     (\<forall>b. exBlocked e = Some b \<longrightarrow> evBlocked d = b) \<and>
     (exMatchedRuleIDs e = [] \<or> evMatchedRuleIDs d = exMatchedRuleIDs e) \<and>
     (exModelProfile e = [] \<or> effectiveModelProfile (evRoute d) = exModelProfile e) \<and>
     (exModelProfileName e = [] \<or> effectiveModelProfileName (evRoute d) = exModelProfileName e) \<and>
     (\<forall>b. exVerifier e = Some b \<longrightarrow> effectiveVerifier (evRoute d) = (b, True)) \<and>
     (\<forall>c \<in> set (exRequireCapabilities e). \<exists>cs. rtConstraints (evRoute d) = Some cs \<and> c \<in> set (cRequireCapabilities cs)) \<and>
     (\<forall>f \<in> set (exExplanationContains e). \<exists>x \<in> set (evExplanations d). Contains x f)"

lemma containsFragment_iff: "containsFragment vs f \<longleftrightarrow> (\<exists>x \<in> set vs. Contains x f)"
  by (simp add: containsFragment_def list_ex_iff)

lemma compareExpected_Nil: "compareExpected e d = [] \<longleftrightarrow> meets e d"
proof -
  have "(case exVerifier e of Some b \<Rightarrow> (let (got, ok) = effectiveVerifier (evRoute d) in
      if \<not> ok \<or> got \<noteq> b then [''verifier = '' @ showBool got @ ''/'' @ showBool ok @ '', want '' @ showBool b] else [])
    | None \<Rightarrow> []) = [] \<longleftrightarrow> (\<forall>b. exVerifier e = Some b \<longrightarrow> effectiveVerifier (evRoute d) = (b, True))"
    by (cases "effectiveVerifier (evRoute d)") (auto split: option.split)
  moreover have "filter (\<lambda>c. case rtConstraints (evRoute d) of None \<Rightarrow> True | Some cs \<Rightarrow> c \<notin> set (cRequireCapabilities cs))
      (exRequireCapabilities e) = [] \<longleftrightarrow>
    (\<forall>c \<in> set (exRequireCapabilities e). \<exists>cs. rtConstraints (evRoute d) = Some cs \<and> c \<in> set (cRequireCapabilities cs))"
    by (auto simp: filter_empty_conv split: option.split)
  moreover have "filter (\<lambda>f. \<not> containsFragment (evExplanations d) f) (exExplanationContains e) = [] \<longleftrightarrow>
    (\<forall>f \<in> set (exExplanationContains e). \<exists>x \<in> set (evExplanations d). Contains x f)"
    by (auto simp: filter_empty_conv containsFragment_iff)
  moreover have "(case exBlocked e of
        Some b \<Rightarrow> if evBlocked d \<noteq> b then [''blocked = '' @ showBool (evBlocked d) @ '', want '' @ showBool b] else []
      | None \<Rightarrow> []) = [] \<longleftrightarrow> (\<forall>b. exBlocked e = Some b \<longrightarrow> evBlocked d = b)"
    by (auto split: option.split)
  ultimately show ?thesis
    unfolding compareExpected_def append_is_Nil_conv map_is_Nil_conv meets_def by auto
qed

lemma resultsPassed_iff: "resultsPassed rs \<longleftrightarrow> (\<forall>r \<in> set rs. trPassed r)"
  by (induction rs) auto

lemma reportError_iff: "reportError r = None \<longleftrightarrow> reportPassed r"
  by (auto simp: reportError_def reportPassed_def resultsPassed_iff filter_empty_conv Let_def)

lemma evaluatePolicyTestCase_passes: "trPassed (evaluatePolicyTestCase p tc) \<longleftrightarrow> meets (tcExpected tc) (Evaluate (Some p) (tcInput tc))"
  by (simp add: evaluatePolicyTestCase_def compareExpected_Nil Let_def)

lemma RunPolicyTests_passes:
  assumes "RunPolicyTests p snap tcs = Inr report"
  shows "\<exists>cp. Compile p snap = Inr cp \<and> map trName (trResults report) = map tcName tcs \<and>
    (reportPassed report \<longleftrightarrow> (\<forall>tc \<in> set tcs. meets (tcExpected tc) (Evaluate (Some cp) (tcInput tc)))) \<and>
    (reportError report = None \<longleftrightarrow> reportPassed report)"
proof (cases "Compile p snap")
  case (Inr cp)
  with assms have "report = \<lparr>trResults = map (evaluatePolicyTestCase cp) tcs\<rparr>"
    by (simp add: RunPolicyTests_def)
  with Inr show ?thesis
    by (simp add: reportError_iff) (simp add: reportPassed_def resultsPassed_iff evaluatePolicyTestCase_passes
      compareExpected_Nil evaluatePolicyTestCase_def Let_def)
qed (use assms in \<open>simp add: RunPolicyTests_def\<close>)

text \<open>A parsed case is named, uses only known words, and asserts something.\<close>

definition inVocab :: "string list \<Rightarrow> string \<Rightarrow> bool" where
  "inVocab vs v \<longleftrightarrow> v = [] \<or> v \<in> set vs"

definition case_wf :: "PolicyTestCase \<Rightarrow> bool" where
  "case_wf tc \<longleftrightarrow> TrimSpace (tcName tc) \<noteq> [] \<and>
     inVocab validTaskTypes (inTaskType (tcInput tc)) \<and> inVocab validRiskLevels (inRiskLevel (tcInput tc)) \<and>
     inVocab validSensitivities (inSensitivity (tcInput tc)) \<and> inVocab routerModes (inRouterMode (tcInput tc)) \<and>
     profile_wf (exModelProfile (tcExpected tc)) \<and>
     (\<forall>c \<in> set (exRequireCapabilities (tcExpected tc)). isValidCapability c) \<and> \<not> expectedEmpty (tcExpected tc)"

lemma checkIfSet_None: "checkIfSet (Some vs) ctx v = None \<longleftrightarrow> inVocab vs v"
  by (simp add: checkIfSet_def checkVocab_def inVocab_def)

lemma orElse_None: "orElse a b = None \<longleftrightarrow> a = None \<and> b = None"
  by (simp add: orElse_def split: option.split)

lemma toInput_wf:
  "toInput r name = Inr i \<Longrightarrow> inVocab validTaskTypes (inTaskType i) \<and> inVocab validRiskLevels (inRiskLevel i) \<and>
     inVocab validSensitivities (inSensitivity i) \<and> inVocab routerModes (inRouterMode i)"
  by (auto simp: toInput_def orElse_None checkIfSet_None routerModes_def split: option.splits)

lemma checkAll_ok: "checkAll ok msg ss = Inr vs \<Longrightarrow> \<forall>v \<in> set vs. ok v"
  by (induction ss arbitrary: vs) (auto simp: invalid_def bindR_def split: if_splits sum.splits)

lemma toExpected_wf:
  "toExpected r name = Inr e \<Longrightarrow> profile_wf (exModelProfile e) \<and>
    (\<forall>c \<in> set (exRequireCapabilities e). isValidCapability c) \<and> \<not> expectedEmpty e"
  by (auto simp: toExpected_def invalid_def bindR_def profile_wf_def Let_def
      dest: checkAll_ok split: if_splits sum.splits)

lemma toCase_wf: "toCase r i = Inr tc \<Longrightarrow> case_wf tc"
  by (auto simp: toCase_def case_wf_def invalid_def bindR_def dest: toInput_wf toExpected_wf split: if_splits sum.splits)

lemma toCases_wf: "toCases i raws = Inr tcs \<Longrightarrow> length tcs = length raws \<and> (\<forall>tc \<in> set tcs. case_wf tc)"
  by (induction i raws arbitrary: tcs rule: toCases.induct)
    (auto simp: bindR_def dest: toCase_wf split: sum.splits)

lemma rawCasesToCases_wf: "rawCasesToCases raws = Inr tcs \<Longrightarrow> tcs \<noteq> [] \<and> (\<forall>tc \<in> set tcs. case_wf tc)"
  using toCases_wf [of 0 raws tcs] by (auto simp: rawCasesToCases_def invalid_def split: if_splits)

lemma ParsePolicyTestCases_raws:
  assumes "ParsePolicyTestCases u dc ds data = Inr tcs"
  obtains raws where "rawCasesToCases raws = Inr tcs"
  using assms by (auto simp: ParsePolicyTestCases_def invalid_def Let_def split: if_splits sum.splits option.splits)

lemma ParsePolicyTestCases_wf:
  "ParsePolicyTestCases u dc ds data = Inr tcs \<Longrightarrow> tcs \<noteq> [] \<and> (\<forall>tc \<in> set tcs. case_wf tc)"
  by (erule ParsePolicyTestCases_raws) (rule rawCasesToCases_wf)

end
