(* ===== verification/EvalProps.thy ===== *)
theory EvalProps
  imports EvalRunner PolicyRunner PolicyProps
begin

text \<open>
  Properties of the offline tools: the test runner of policies, the golden evaluation and its
  cost and quality frontier.
\<close>

section \<open>Policy tests\<close>

text \<open>
  C35: a run of policy tests reports one result per case, in order, and it passes exactly when what
  the compiled policy evaluates to on the input of every case meets every assertion of the case:
  blocked or not, the exact list of rules that matched, the effective model profile and verifier
  (forced, or else the default), the required capabilities, the fragments of the explanations.
  The error of the report is nil exactly when it passes.
\<close>

theorem policy_tests_report:
  assumes "RunPolicyTests p snap tcs = Inr report"
  shows "\<exists>cp. Compile p snap = Inr cp \<and> map trName (trResults report) = map tcName tcs \<and>
    (reportPassed report \<longleftrightarrow> (\<forall>tc \<in> set tcs. meets (tcExpected tc) (Evaluate (Some cp) (tcInput tc)))) \<and>
    (reportError report = None \<longleftrightarrow> reportPassed report)"
  by (rule RunPolicyTests_passes [OF assms])

definition noExpectation :: ExpectedDecision where
  "noExpectation = \<lparr>exModelProfile = [], exModelProfileName = [], exVerifier = None, exRequireCapabilities = [],
     exMatchedRuleIDs = [], exBlocked = None, exExplanationContains = []\<rparr>"

definition phpCase :: "string list \<Rightarrow> PolicyTestCase" where
  "phpCase rules = \<lparr>tcName = ''php files'', tcInput = phpInput, tcExpected = noExpectation\<lparr>exMatchedRuleIDs := rules\<rparr>\<rparr>"

lemma php_matched: "evMatchedRuleIDs (Evaluate (Some (compiledOf (policyOf [phpRule]))) phpInput) = [''php'']"
  by code_simp

lemma phpCase_meets: "meets (tcExpected (phpCase rules)) (Evaluate (Some (compiledOf (policyOf [phpRule]))) phpInput) \<longleftrightarrow>
    rules = [] \<or> rules = [''php'']"
  by (auto simp: meets_def phpCase_def noExpectation_def php_matched)

lemma policy_tests_report_witness:
  "(\<exists>r. RunPolicyTests (Some (policyOf [phpRule])) (Some defaultSnap) [phpCase [''php'']] = Inr r \<and> reportPassed r) \<and>
   (\<exists>r. RunPolicyTests (Some (policyOf [phpRule])) (Some defaultSnap) [phpCase [''go'']] = Inr r \<and> reportError r \<noteq> None)"
proof -
  have run: "\<exists>r. RunPolicyTests (Some (policyOf [phpRule])) (Some defaultSnap) tcs = Inr r" for tcs
    by (simp add: RunPolicyTests_def php_compiles)
  have inp: "tcInput (phpCase rules) = phpInput" for rules by (simp add: phpCase_def)
  obtain r where r: "RunPolicyTests (Some (policyOf [phpRule])) (Some defaultSnap) [phpCase [''php'']] = Inr r"
    using run by blast
  obtain r' where r': "RunPolicyTests (Some (policyOf [phpRule])) (Some defaultSnap) [phpCase [''go'']] = Inr r'"
    using run by blast
  from policy_tests_report [OF r] have "reportPassed r"
    by (simp add: php_compiles inp phpCase_meets)
  moreover from policy_tests_report [OF r'] have "reportError r' \<noteq> None"
    by (simp add: php_compiles inp phpCase_meets)
  ultimately show ?thesis using r r' by blast
qed

text \<open>
  whatever the YAML library yields, the cases that parse are well-formed: there is at least
  one; each has a name, only known task types, risk levels, sensitivities, router modes, profiles
  and capabilities, and at least one assertion.
\<close>

theorem policy_test_cases_wf:
  "case ParsePolicyTestCases unmarshal decCases decSuite data of
     Inl e \<Rightarrow> True
   | Inr tcs \<Rightarrow> tcs \<noteq> [] \<and> list_all case_wf tcs"
  using ParsePolicyTestCases_wf [of unmarshal decCases decSuite data]
  by (auto simp: list_all_iff split: sum.split)

section \<open>The frontier\<close>

definition noWorse :: "FrontierModel \<Rightarrow> FrontierModel \<Rightarrow> bool" where
  "noWorse a b \<longleftrightarrow> fmAverageEstimatedCostMicroUSD a \<le> fmAverageEstimatedCostMicroUSD b \<and>
     fmFrontierQuality b \<le> fmFrontierQuality a"

lemma dominates_noWorse: "dominates a b \<longleftrightarrow> noWorse a b \<and> \<not> noWorse b a"
  by (auto simp: dominates_iff noWorse_def)

text \<open>The rows of a task class are the flagged rows of its models.\<close>

lemma frontier_rows:
  assumes "tf \<in> set (fpTaskClasses (buildFrontierReport srtM srt ds results snap))"
  obtains ms where "tfModels tf = map (flagged ms) ms" "tfRecommendations tf = recommendTaskClass srt (tfModels tf)"
proof (cases ds; cases snap)
  fix d s
  assume "ds = Some d" "snap = Some s"
  with assms obtain t where t: "tf = taskFrontier srt (collectEvalStats results) (sortedChatModels srtM (Some s)) t
      (mget0 [] (groupCases (dsCases d)) t)"
    by (auto simp: buildFrontierReport_def Let_def)
  show thesis
    by (rule that [of "sortFrontierModels srt (map (frontierRow (collectEvalStats results)
          (averageEstimatedCostByModel (mget0 [] (groupCases (dsCases d)) t) (sortedChatModels srtM (Some s))) t)
          (sortedChatModels srtM (Some s)))"])
      (simp_all add: t taskFrontier_def Let_def markFrontier_flags)
qed (use assms in \<open>simp_all add: buildFrontierReport_def\<close>)

lemma flagged_pareto:
  assumes "m \<in> set (map (flagged ms) ms)"
  shows "fmOnFrontier m \<longleftrightarrow> (\<forall>m' \<in> set (map (flagged ms) ms). noWorse m' m \<longrightarrow> noWorse m m')"
    and "\<exists>m' \<in> set (map (flagged ms) ms). fmOnFrontier m' \<and> noWorse m' m"
proof -
  obtain x where x: "x \<in> set ms" "m = flagged ms x" using assms by auto
  have flag: "fmOnFrontier (flagged ms y) \<longleftrightarrow> undominated ms y" for y by (simp add: flagged_def)
  have nw: "noWorse (flagged ms y) (flagged ms z) = noWorse y z" for y z by (simp add: noWorse_def flagged_def)
  show "fmOnFrontier m \<longleftrightarrow> (\<forall>m' \<in> set (map (flagged ms) ms). noWorse m' m \<longrightarrow> noWorse m m')"
    by (auto simp: x flag nw undominated_def dominates_noWorse)
  obtain y where "y \<in> set ms" "undominated ms y" "y = x \<or> dominates y x"
    using undominated_above [OF x(1)] by blast
  then show "\<exists>m' \<in> set (map (flagged ms) ms). fmOnFrontier m' \<and> noWorse m' m"
    by (auto simp: x flag nw dominates_noWorse noWorse_def flagged_def intro!: bexI [of _ y])
qed

text \<open>
  C36: the frontier of a task class is its Pareto front: a row is marked exactly when every row that
  costs no more and is at least as good is just as cheap and just as good, and every row, marked or
  not, is matched by a marked one that costs no more and is at least as good.
\<close>

theorem frontier_is_pareto_front:
  assumes "tf \<in> set (fpTaskClasses (buildFrontierReport srtM srt ds results snap))" and "m \<in> set (tfModels tf)"
  shows "(fmOnFrontier m \<longleftrightarrow> (\<forall>m' \<in> set (tfModels tf). noWorse m' m \<longrightarrow> noWorse m m')) \<and>
    (\<exists>m' \<in> set (tfModels tf). fmOnFrontier m' \<and> noWorse m' m)"
proof -
  obtain ms where "tfModels tf = map (flagged ms) ms" by (rule frontier_rows [OF assms(1)])
  with flagged_pareto [of m ms] assms(2) show ?thesis by simp
qed

definition cheapCase :: Case where
  "cheapCase = \<lparr>gcID = ''c'', gcName = ''c'', gcTaskType = ''chat'', gcRiskLevel = ''low'', gcPrompt = ''hi'',
     gcTenantID = [], gcProjectID = [], gcMetadata = [], gcRouterMode = [], gcExplicitModel = [],
     gcExpandTokens = 0, gcExpectedRoute = \<lparr>erTier = ''cheap'', erModel = []\<rparr>\<rparr>"

definition oneCase :: Dataset where
  "oneCase = \<lparr>dsVersion = ''v1'', dsCases = [cheapCase]\<rparr>"

abbreviation oneReport :: FrontierReport where
  "oneReport \<equiv> buildFrontierReport insertion_sort insertion_sort (Some oneCase) [] (Some defaultSnap)"

lemma default_roster: "length (sortedChatModels insertion_sort (Some defaultSnap)) = 3"
  by code_simp

lemma oneReport_rows:
  obtains tf where "fpTaskClasses oneReport = [tf]" "length (tfModels tf) = 3"
proof
  have rows: "length (insertion_sort lt xs) = length xs" for lt and xs :: "FrontierModel list"
    by (rule insertion.srt_length)
  let ?r = "sortedChatModels insertion_sort (Some defaultSnap)"
  show "fpTaskClasses oneReport = [taskFrontier insertion_sort [] ?r ''chat'' [cheapCase]]"
    by (simp add: buildFrontierReport_def oneCase_def groupCases_def collectEvalStats_def cheapCase_def mget_def
        mput_def mget0_def mkeys_def)
  show "length (tfModels (taskFrontier insertion_sort [] ?r ''chat'' [cheapCase])) = 3"
    by (simp add: taskFrontier_def Let_def markFrontier_flags sortFrontierModels_def rows default_roster)
qed

lemma frontier_is_pareto_front_witness:
  "\<exists>tf m. tf \<in> set (fpTaskClasses oneReport) \<and> m \<in> set (tfModels tf) \<and> fmOnFrontier m"
proof -
  obtain tf where tf: "fpTaskClasses oneReport = [tf]" "length (tfModels tf) = 3" by (rule oneReport_rows)
  then obtain m where m: "m \<in> set (tfModels tf)" by (cases "tfModels tf") auto
  have "tf \<in> set (fpTaskClasses oneReport)" by (simp add: tf)
  with frontier_is_pareto_front [OF this m] show ?thesis by blast
qed

text \<open>The front of a list of flagged rows reaches the best quality and is below every row.\<close>

lemma pareto_best:
  fixes rows :: "FrontierModel list"
  defines "fr \<equiv> filter fmOnFrontier rows"
  assumes below: "\<And>m. m \<in> set rows \<Longrightarrow> \<exists>m' \<in> set rows. fmOnFrontier m' \<and> noWorse m' m" and "rows \<noteq> []"
  shows "fr \<noteq> []"
    and "m \<in> set rows \<Longrightarrow> fmFrontierQuality m \<le> bestQualityOf fr"
    and "m \<in> set rows \<Longrightarrow> \<exists>m' \<in> set fr. fmAverageEstimatedCostMicroUSD m' \<le> fmAverageEstimatedCostMicroUSD m \<and>
           fmFrontierQuality m \<le> fmFrontierQuality m'"
proof -
  obtain r where "r \<in> set rows" using \<open>rows \<noteq> []\<close> by (cases rows) auto
  from below [OF this] show ne: "fr \<noteq> []" by (auto simp: fr_def filter_empty_conv)
  show above: "\<exists>m' \<in> set fr. fmAverageEstimatedCostMicroUSD m' \<le> fmAverageEstimatedCostMicroUSD m \<and>
      fmFrontierQuality m \<le> fmFrontierQuality m'" if "m \<in> set rows" for m
    using below [OF that] by (auto simp: fr_def noWorse_def)
  show "fmFrontierQuality m \<le> bestQualityOf fr" if "m \<in> set rows"
    using above [OF that] bestQualityOf_max(2) [OF ne] by (meson order_trans)
qed

text \<open>The choice of the best value, read over all rows.\<close>

lemma best_value_over_rows:
  fixes rows :: "FrontierModel list"
  defines "fr \<equiv> filter fmOnFrontier rows"
  assumes srt: "slice_sorter srt" and ne: "rows \<noteq> []"
    and below: "\<And>m. m \<in> set rows \<Longrightarrow> \<exists>m' \<in> set rows. fmOnFrontier m' \<and> noWorse m' m"
    and m: "m \<in> set rows" "\<forall>m' \<in> set rows. fmFrontierQuality m' - 5 / 100 \<le> fmFrontierQuality m"
  shows "fmAverageEstimatedCostMicroUSD (fst (selectBestValue srt fr)) \<le> fmAverageEstimatedCostMicroUSD m"
proof -
  have fr: "fr \<noteq> []" unfolding fr_def by (rule pareto_best(1) [OF below ne])
  obtain best where best: "best \<in> set fr" "bestQualityOf fr = fmFrontierQuality best"
    using bestQualityOf_max(1) [OF fr] by auto
  obtain m' where m': "m' \<in> set fr" "fmAverageEstimatedCostMicroUSD m' \<le> fmAverageEstimatedCostMicroUSD m"
      "fmFrontierQuality m \<le> fmFrontierQuality m'"
    using pareto_best(3) [OF below ne m(1)] unfolding fr_def by blast
  have "best \<in> set rows" using best(1) by (simp add: fr_def)
  with m(2) best(2) m'(3) have "bestQualityOf fr - bestValueQualityTolerance \<le> fmFrontierQuality m'"
    unfolding bestValueQualityTolerance_def by fastforce
  with selectBestValue_choice [OF srt fr] m' show ?thesis by (meson order_trans)
qed

lemma recommended_rows:
  fixes ms :: "FrontierModel list"
  assumes srt: "slice_sorter srt"
  defines "rows \<equiv> map (flagged ms) ms"
  shows "(recommendTaskClass srt rows = [] \<longleftrightarrow> rows = []) \<and>
    length (recommendTaskClass srt rows) \<le> 3 \<and> distinct (map frModelID (recommendTaskClass srt rows)) \<and>
    set (map frModelID (recommendTaskClass srt rows)) \<subseteq> set (map fmModelID (filter fmOnFrontier rows)) \<and>
    (rows \<noteq> [] \<longrightarrow>
      (\<exists>best \<in> set rows. fmModelID best = frModelID (hd (recommendTaskClass srt rows)) \<and>
        (\<forall>m \<in> set rows. (\<forall>m' \<in> set rows. fmFrontierQuality m' - 5 / 100 \<le> fmFrontierQuality m) \<longrightarrow>
           fmAverageEstimatedCostMicroUSD best \<le> fmAverageEstimatedCostMicroUSD m)))"
proof (cases "rows = []")
  case True
  then show ?thesis by (simp add: recommendTaskClass_def)
next
  case False
  have below: "\<exists>m' \<in> set rows. fmOnFrontier m' \<and> noWorse m' m" if "m \<in> set rows" for m
    using flagged_pareto(2) that unfolding rows_def by blast
  define fr where "fr = filter fmOnFrontier rows"
  have fr: "fr \<noteq> []" unfolding fr_def by (rule pareto_best(1) [OF below False])
  have in_rows: "x \<in> set rows" if "x \<in> set fr" for x using that by (simp add: fr_def)
  have best_in: "fst (selectBestValue srt fr) \<in> set fr" using selectBestValue_choice [OF srt fr] by blast
  let ?cheapest = "\<lambda>best. best \<in> set rows \<and> (\<forall>m \<in> set rows. (\<forall>m' \<in> set rows. fmFrontierQuality m' - 5 / 100 \<le> fmFrontierQuality m) \<longrightarrow>
           fmAverageEstimatedCostMicroUSD best \<le> fmAverageEstimatedCostMicroUSD m)"
  have cheapest: "?cheapest (fst (selectBestValue srt fr))"
    using best_value_over_rows [OF srt False below] in_rows [OF best_in] unfolding fr_def by blast
  show ?thesis
  proof (cases "length fr \<le> 1")
    case True
    then obtain x where x: "fr = [x]" using fr by (cases fr) auto
    have recs: "recommendTaskClass srt rows = [\<lparr>frKind = ''only_option'', frModelID = fmModelID x,
        frReason = ''only frontier model after cost/quality dominance filtering'', frTiedModelIDs = []\<rparr>]"
      unfolding recommendTaskClass_def Let_def fr_def [symmetric] x by simp
    have "fst (selectBestValue srt fr) = x" using best_in x by simp
    with cheapest have "?cheapest x" by simp
    with False show ?thesis
      unfolding recs fr_def [symmetric] x by (auto intro: bexI [of _ x])
  next
    case more: False
    have bests: "frModelID (hd (recommendTaskClass srt rows)) = fmModelID (fst (selectBestValue srt fr))"
      and recs: "recommendTaskClass srt rows \<noteq> []" "length (recommendTaskClass srt rows) \<le> 3"
        "distinct (map frModelID (recommendTaskClass srt rows))"
      and ids: "set (map frModelID (recommendTaskClass srt rows)) = {fmModelID (fst (selectBestValue srt fr)),
        fmModelID (fst (selectLowestCost srt fr)), fmModelID (fst (selectHighestQuality srt fr))}"
      using recommendTaskClass_several [OF srt, of rows] more unfolding fr_def by simp_all
    have "set (map frModelID (recommendTaskClass srt rows)) \<subseteq> set (map fmModelID fr)"
      unfolding ids using best_in selectLowestCost_choice [OF srt fr] selectHighestQuality_choice [OF srt fr] by simp
    with bests recs cheapest False show ?thesis
      unfolding fr_def [symmetric] by (intro conjI impI bexI [of _ "fst (selectBestValue srt fr)"]) simp_all
  qed
qed

text \<open>
  what a task class is recommended, for an ordering that sorts: nothing when it has no model;
  otherwise at most three models, without repetition, all on the frontier, and the first of them
  (the best value, or the only option) costs no more than any row, marked or not, whose quality is
  within 0.05 of the best there is.
\<close>

theorem frontier_recommendations:
  assumes "slice_sorter srt" and "tf \<in> set (fpTaskClasses (buildFrontierReport srtM srt ds results snap))"
  shows "(tfRecommendations tf = [] \<longleftrightarrow> tfModels tf = []) \<and>
    length (tfRecommendations tf) \<le> 3 \<and> distinct (map frModelID (tfRecommendations tf)) \<and>
    set (map frModelID (tfRecommendations tf)) \<subseteq> set (map fmModelID (filter fmOnFrontier (tfModels tf))) \<and>
    (tfModels tf \<noteq> [] \<longrightarrow>
      (\<exists>best \<in> set (tfModels tf). fmModelID best = frModelID (hd (tfRecommendations tf)) \<and>
        (\<forall>m \<in> set (tfModels tf). (\<forall>m' \<in> set (tfModels tf). fmFrontierQuality m' - 5 / 100 \<le> fmFrontierQuality m) \<longrightarrow>
           fmAverageEstimatedCostMicroUSD best \<le> fmAverageEstimatedCostMicroUSD m)))"
proof -
  obtain ms where rows: "tfModels tf = map (flagged ms) ms" and recs: "tfRecommendations tf = recommendTaskClass srt (tfModels tf)"
    by (rule frontier_rows [OF assms(2)])
  show ?thesis unfolding recs unfolding rows by (rule recommended_rows [OF assms(1)])
qed

lemma frontier_recommendations_witness:
  "\<exists>tf. tf \<in> set (fpTaskClasses oneReport) \<and> tfRecommendations tf \<noteq> []"
proof -
  obtain tf where tf: "fpTaskClasses oneReport = [tf]" "length (tfModels tf) = 3" by (rule oneReport_rows)
  then have "tf \<in> set (fpTaskClasses oneReport)" by simp
  from frontier_recommendations [OF insertion.slice_sorter_axioms this] tf show ?thesis by auto
qed

section \<open>The golden evaluation\<close>

text \<open>What the engine decides for a case, with every provider healthy.\<close>

definition caseDecision :: "EvalEnv \<Rightarrow> Runner \<Rightarrow> CompiledPolicy option \<Rightarrow> Case \<Rightarrow> RouteDecision \<times> engine_error option" where
  "caseDecision env rn pol c = snd (Decide (eeSort env) (rnEngine rn) (jobForCase ''eval_'' c) pol (Some FullyHealthy) False)"

definition tierOf :: "Runner \<Rightarrow> RouteDecision \<Rightarrow> string" where
  "tierOf rn dec = (case snapModel (rnSnapshot rn) (rdSelectedModel dec) of Some m \<Rightarrow> mTier m | None \<Rightarrow> [])"

definition goldenHit :: "EvalEnv \<Rightarrow> Runner \<Rightarrow> CompiledPolicy option \<Rightarrow> Case \<Rightarrow> bool" where
  "goldenHit env rn pol c \<longleftrightarrow>
     (let (dec, err) = caseDecision env rn pol c in err = None \<and>
       (if erModel (gcExpectedRoute c) \<noteq> [] then rdSelectedModel dec = erModel (gcExpectedRoute c)
        else tierOf rn dec = erTier (gcExpectedRoute c)))"

definition billedCost :: "RouteDecision \<times> engine_error option \<Rightarrow> float64" where
  "billedCost d = (if snd d = None \<or> snd d = Some ErrBlocked then rdEstimatedCostUSD (fst d) else 0)"

lemma runCase_outcome:
  "crsPass (runCase env rn pol c) \<longleftrightarrow> goldenHit env rn pol c"
  "crsEstimatedCostUSD (runCase env rn pol c) = billedCost (caseDecision env rn pol c)"
  "crsDecision (runCase env rn pol c) = fst (caseDecision env rn pol c)"
proof -
  obtain job dec err where d: "Decide (eeSort env) (rnEngine rn) (jobForCase ''eval_'' c) pol (Some FullyHealthy) False = (job, dec, err)"
    by (metis prod_cases3)
  show "crsPass (runCase env rn pol c) \<longleftrightarrow> goldenHit env rn pol c"
    "crsEstimatedCostUSD (runCase env rn pol c) = billedCost (caseDecision env rn pol c)"
    "crsDecision (runCase env rn pol c) = fst (caseDecision env rn pol c)"
    by (cases err; simp add: runCase_def caseResult_def Let_def d judgeCase_pass caseDecision_def goldenHit_def billedCost_def
        tierOf_def; simp add: judgeCase_def)+
qed

lemma crsCase_runCase: "crsCase (runCase env rn pol c) = c"
proof -
  have judge: "crsCase (judgeCase c dec res) = crsCase res" for dec res by (simp add: judgeCase_def)
  obtain job dec err where "Decide (eeSort env) (rnEngine rn) (jobForCase ''eval_'' c) pol (Some FullyHealthy) False = (job, dec, err)"
    by (metis prod_cases3)
  then show ?thesis by (cases err) (simp_all add: runCase_def caseResult_def Let_def judge)
qed

lemma ComparePolicies_passed:
  "crPrimaryPassed (ComparePolicies env rn ds p s) = erpPassed (RunWithPolicy env rn ds p)"
  "crSecondaryPassed (ComparePolicies env rn ds p s) = erpPassed (RunWithPolicy env rn ds s)"
proof -
  have "crPrimaryPassed (fold addComparison pss r) = crPrimaryPassed r \<and>
      crSecondaryPassed (fold addComparison pss r) = crSecondaryPassed r" for pss r
    by (induction pss arbitrary: r) (auto simp: addComparison_def Let_def split: prod.split)
  then show "crPrimaryPassed (ComparePolicies env rn ds p s) = erpPassed (RunWithPolicy env rn ds p)"
    "crSecondaryPassed (ComparePolicies env rn ds p s) = erpPassed (RunWithPolicy env rn ds s)"
    by (simp_all add: ComparePolicies_def Let_def)
qed

lemma ComparePolicies_changed:
  "crChangedCount (ComparePolicies env rn ds p s) = i64 (int (length (filter (\<lambda>c.
     dcChanged (CompareDecisions (fst (caseDecision env rn p c)) (fst (caseDecision env rn s c)))) (dsCases ds))))"
  by (simp add: ComparePolicies_counts(1) filter_map comparisonOf_def runCase_outcome comp_def)

text \<open>
  a golden evaluation runs every case once, in order, without calling a provider; the number
  of passed cases is the number of cases that the engine routes without an error to the expected
  model, or where no model is expected to a model of the expected tier, and the total cost is the
  sum of the estimates of the routed and of the blocked decisions. Comparing two policies counts
  as changed the cases for which the two decisions differ, so a policy compared with itself
  changes nothing.
\<close>

theorem golden_evaluation:
  "erpTotal (RunWithPolicy env rn ds pol) = int (length (dsCases ds)) \<and>
   map crsCase (erpResults (RunWithPolicy env rn ds pol)) = dsCases ds \<and>
   erpPassed (RunWithPolicy env rn ds pol) = i64 (int (length (filter (goldenHit env rn pol) (dsCases ds)))) \<and>
   erpTotalCostUSD (RunWithPolicy env rn ds pol) = (\<Sum>c\<leftarrow>dsCases ds. billedCost (caseDecision env rn pol c)) \<and>
   crPrimaryPassed (ComparePolicies env rn ds pol pol') = erpPassed (RunWithPolicy env rn ds pol) \<and>
   crSecondaryPassed (ComparePolicies env rn ds pol pol') = erpPassed (RunWithPolicy env rn ds pol') \<and>
   crChangedCount (ComparePolicies env rn ds pol pol') = i64 (int (length (filter (\<lambda>c.
     dcChanged (CompareDecisions (fst (caseDecision env rn pol c)) (fst (caseDecision env rn pol' c)))) (dsCases ds)))) \<and>
   crChangedCount (ComparePolicies env rn ds pol pol) = 0"
  by (intro conjI ComparePolicies_passed ComparePolicies_changed ComparePolicies_self)
    (simp_all add: RunWithPolicy_results runCase_outcome crsCase_runCase comp_def)

end
