(* ===== verification/Experiment.thy ===== *)
theory Experiment
  imports Classifier EvalData
begin

text \<open>
  The offline experiment of \<open>internal/classifier/experiment.go\<close>: a multiclass perceptron over the
  features of a prompt, trained for a bounded number of epochs, compared with the rules. Feature
  maps are summed in the order of their entries; on exact numbers the order does not matter.
\<close>

section \<open>Data\<close>

abbreviation experimentEpochs :: nat where "experimentEpochs \<equiv> 14"
abbreviation experimentMaxTokens :: nat where "experimentMaxTokens \<equiv> 48"
abbreviation experimentMaxNGrams :: nat where "experimentMaxNGrams \<equiv> 24"
abbreviation experimentMarginCeil :: float64 where "experimentMarginCeil \<equiv> 6"

record ExperimentExample =
  xeID :: string
  xePrompt :: string
  xeTaskType :: string
  xeRiskLevel :: string

record ExperimentPrediction =
  xpTaskType :: string
  xpTaskConfidence :: float64
  xpRiskLevel :: string
  xpRiskConfidence :: float64

record ExperimentCaseResult =
  xrID :: string
  xrExpectedTaskType :: string
  xrExpectedRiskLevel :: string
  xrBaselineTaskType :: string
  xrBaselineRiskLevel :: string
  xrTrainedTaskType :: string
  xrTrainedTaskConfidence :: float64
  xrTrainedRiskLevel :: string
  xrTrainedRiskConfidence :: float64

record ExperimentMetrics =
  xmTotal :: int
  xmTaskCorrect :: int
  xmRiskCorrect :: int
  xmJointCorrect :: int

definition zeroMetrics :: ExperimentMetrics where
  "zeroMetrics = \<lparr>xmTotal = 0, xmTaskCorrect = 0, xmRiskCorrect = 0, xmJointCorrect = 0\<rparr>"

definition TaskAccuracy :: "ExperimentMetrics \<Rightarrow> float64" where
  "TaskAccuracy m = (if xmTotal m = 0 then 0 else of_int (xmTaskCorrect m) / of_int (xmTotal m))"

definition RiskAccuracy :: "ExperimentMetrics \<Rightarrow> float64" where
  "RiskAccuracy m = (if xmTotal m = 0 then 0 else of_int (xmRiskCorrect m) / of_int (xmTotal m))"

definition JointAccuracy :: "ExperimentMetrics \<Rightarrow> float64" where
  "JointAccuracy m = (if xmTotal m = 0 then 0 else of_int (xmJointCorrect m) / of_int (xmTotal m))"

definition addMetric :: "bool \<Rightarrow> bool \<Rightarrow> ExperimentMetrics \<Rightarrow> ExperimentMetrics" where
  "addMetric taskCorrect riskCorrect m =
     m\<lparr>xmTotal := i64 (xmTotal m + 1),
       xmTaskCorrect := (if taskCorrect then i64 (xmTaskCorrect m + 1) else xmTaskCorrect m),
       xmRiskCorrect := (if riskCorrect then i64 (xmRiskCorrect m + 1) else xmRiskCorrect m),
       xmJointCorrect := (if taskCorrect \<and> riskCorrect then i64 (xmJointCorrect m + 1) else xmJointCorrect m)\<rparr>"

record ExperimentComparisonReport =
  xcTrainCount :: int
  xcTestCount :: int
  xcBaselineMetrics :: ExperimentMetrics
  xcTrainedMetrics :: ExperimentMetrics
  xcResults :: "ExperimentCaseResult list"

section \<open>Features of a prompt\<close>

type_synonym featureVector = "(string, float64) gomap"

definition addFeature :: "string \<Rightarrow> float64 \<Rightarrow> featureVector \<Rightarrow> featureVector" where
  "addFeature key v features = (if key = [] \<or> v = 0 then features else mput key v features)"

definition boolValue :: "bool \<Rightarrow> float64" where
  "boolValue b = (if b then 1 else 0)"

definition experimentCharBucket :: "int \<Rightarrow> string" where
  "experimentCharBucket n =
     (if n \<le> 120 then ''short'' else if n \<le> 600 then ''medium'' else if n \<le> 4000 then ''long'' else ''xl'')"

definition experimentConfidenceBucket :: "float64 \<Rightarrow> string" where
  "experimentConfidenceBucket confidence =
     (if confidence \<ge> 85 / 100 then ''high'' else if confidence \<ge> 60 / 100 then ''medium'' else ''low'')"

definition tokenByte :: "char \<Rightarrow> bool" where
  "tokenByte c \<longleftrightarrow> (let n = (of_char c :: nat) in (97 \<le> n \<and> n \<le> 122) \<or> (48 \<le> n \<and> n \<le> 57) \<or> n = 95)"

definition experimentTokens :: "string \<Rightarrow> string list" where
  "experimentTokens lower = findAllGroups (Seqn []) (Plus (Cls tokenByte)) lower 0"

fun uniqueTokens :: "string list \<Rightarrow> string list \<Rightarrow> string list" where
  "uniqueTokens [] unique = unique"
| "uniqueTokens (token # tokens) unique =
     (if length token \<le> 1 \<or> token \<in> set unique then uniqueTokens tokens unique
      else if length (unique @ [token]) \<ge> experimentMaxTokens then unique @ [token]
      else uniqueTokens tokens (unique @ [token]))"

definition addExperimentTokens :: "string \<Rightarrow> featureVector \<Rightarrow> featureVector" where
  "addExperimentTokens lower features =
     (let unique = uniqueTokens (experimentTokens lower) [];
          f1 = fold (\<lambda>token. addFeature (''tok:'' @ token) 1) unique features
      in fold (\<lambda>i. addFeature (''bigram:'' @ unique ! i @ ''_'' @ unique ! Suc i) 1)
           [0..<min (length unique - 1) experimentMaxNGrams] f1)"

definition noRequestHints :: RequestHints where
  "noRequestHints = \<lparr>hTools = [], hHasTools = False, hResponseFormat = ANil, hMetadata = []\<rparr>"

definition promptMessages :: "string \<Rightarrow> Message list" where
  "promptMessages prompt = [\<lparr>msgRole = ''user'', msgContent = prompt\<rparr>]"

definition classifyRuleBaseline :: "string \<Rightarrow> string \<times> string" where
  "classifyRuleBaseline prompt =
     (let features = ExtractFromMessages (promptMessages prompt) noRequestHints;
          task = ClassifyTask features (promptMessages prompt);
          risk = ClassifyRisk features (tcTaskType task) []
      in (tcTaskType task, rrRiskLevel risk))"

definition experimentFeatureVector :: "string \<Rightarrow> featureVector" where
  "experimentFeatureVector prompt =
     (let messages = promptMessages prompt;
          x = ExtractFromMessages messages noRequestHints;
          lower = ToLower prompt;
          task = ClassifyTask x messages;
          risk = ClassifyRisk x (tcTaskType task) [];
          f1 = addFeature (''char_bucket:'' @ experimentCharBucket (int (length prompt))) 1 (addExperimentTokens lower []);
          f2 = fold (\<lambda>(k, b). addFeature k (boolValue b))
            [(''code_block'', fHasCodeBlock x), (''inline_code'', fHasInlineCode x), (''stack_trace'', fHasStackTrace x),
             (''requires_code'', fRequiresCode x), (''requires_tool_use'', fRequiresToolUse x),
             (''requires_json_schema'', fRequiresJSONSchema x), (''requires_large_context'', fRequiresLargeContext x),
             (''requires_vision'', fRequiresVision x)] f1;
          f3 = (if length (fFilesTouched x) > 0 then addFeature ''has_file_path'' 1 f2 else f2);
          f4 = (if length (fFilesTouched x) > 1 then addFeature ''multi_file_path'' 1 f3 else f3);
          f5 = fold (\<lambda>k. addFeature (''kw:'' @ k) 1) (fKeywords x) f4;
          f6 = fold (\<lambda>h. addFeature (''sens:'' @ h) 1) (fSensitivityHints x) f5
      in addFeature (''baseline_task_conf:'' @ experimentConfidenceBucket (tcConfidence task)) 1
          (addFeature (''baseline_risk:'' @ rrRiskLevel risk) 1
            (addFeature (''baseline_task:'' @ tcTaskType task) 1 f6)))"

section \<open>The perceptron\<close>

record labeledVector =
  lvLabel :: string
  lvFeatures :: featureVector

record linearPerceptron =
  lpLabels :: "string list"
  lpBias :: "(string, float64) gomap"
  lpWeights :: "(string, featureVector) gomap"

definition lpScore :: "linearPerceptron \<Rightarrow> string \<Rightarrow> featureVector \<Rightarrow> float64" where
  "lpScore m label features =
     fold (\<lambda>(f, v) s. s + mget0 0 (mget0 [] (lpWeights m) label) f * v) features (mget0 0 (lpBias m) label)"

text \<open>The loop over the remaining labels: the best one, its score and the second best (none at first).\<close>

fun bestLoop :: "(string \<Rightarrow> float64) \<Rightarrow> string list \<Rightarrow> string \<times> float64 \<times> float64 option \<Rightarrow> string \<times> float64 \<times> float64 option" where
  "bestLoop sc [] acc = acc"
| "bestLoop sc (candidate # rest) (bestLabel, bestScore, second) =
     (if sc candidate > bestScore then bestLoop sc rest (candidate, sc candidate, Some bestScore)
      else if (case second of None \<Rightarrow> True | Some s \<Rightarrow> sc candidate > s)
      then bestLoop sc rest (bestLabel, bestScore, Some (sc candidate))
      else bestLoop sc rest (bestLabel, bestScore, second))"

definition lpPredict :: "linearPerceptron \<Rightarrow> featureVector \<Rightarrow> string \<times> float64" where
  "lpPredict m features =
     (case lpLabels m of
        [] \<Rightarrow> ([], 0)
      | l # rest \<Rightarrow>
          let sc = (\<lambda>label. lpScore m label features);
              (bestLabel, bestScore, second) = bestLoop sc rest (l, sc l, None);
              secondBest = (case second of None \<Rightarrow> 0 | Some s \<Rightarrow> s);
              margin0 = bestScore - secondBest;
              margin1 = (if margin0 < 0 then 0 else margin0);
              margin = (if margin1 > experimentMarginCeil then experimentMarginCeil else margin1)
          in (bestLabel, 1 / 2 + 1 / 2 * (margin / experimentMarginCeil)))"

definition addBias :: "string \<Rightarrow> float64 \<Rightarrow> linearPerceptron \<Rightarrow> linearPerceptron" where
  "addBias label d m = m\<lparr>lpBias := mput label (mget0 0 (lpBias m) label + d) (lpBias m)\<rparr>"

definition addWeight :: "string \<Rightarrow> string \<Rightarrow> float64 \<Rightarrow> linearPerceptron \<Rightarrow> linearPerceptron" where
  "addWeight label feature d m =
     (let row = mget0 [] (lpWeights m) label
      in m\<lparr>lpWeights := mput label (mput feature (mget0 0 row feature + d) row) (lpWeights m)\<rparr>)"

definition correctMistake :: "labeledVector \<Rightarrow> string \<Rightarrow> linearPerceptron \<Rightarrow> linearPerceptron" where
  "correctMistake ex predicted m =
     fold (\<lambda>(feature, v) m. addWeight predicted feature (- v) (addWeight (lvLabel ex) feature v m)) (lvFeatures ex)
       (addBias predicted (- 1) (addBias (lvLabel ex) 1 m))"

definition trainExample :: "labeledVector \<Rightarrow> linearPerceptron \<times> nat \<Rightarrow> linearPerceptron \<times> nat" where
  "trainExample ex st =
     (let predicted = fst (lpPredict (fst st) (lvFeatures ex))
      in if predicted = lvLabel ex then st else (correctMistake ex predicted (fst st), Suc (snd st)))"

fun trainEpochs :: "nat \<Rightarrow> labeledVector list \<Rightarrow> linearPerceptron \<Rightarrow> linearPerceptron" where
  "trainEpochs 0 examples m = m"
| "trainEpochs (Suc n) examples m =
     (let (m', mistakes) = fold trainExample examples (m, 0)
      in if mistakes = 0 then m' else trainEpochs n examples m')"

definition sortedUniqueLabels :: "labeledVector list \<Rightarrow> string list" where
  "sortedUniqueLabels examples =
     sort (fold (\<lambda>ex labels. if lvLabel ex \<in> set labels then labels else labels @ [lvLabel ex]) examples [])"

definition trainLinearPerceptron :: "labeledVector list \<Rightarrow> linearPerceptron" where
  "trainLinearPerceptron examples =
     (let labels = sortedUniqueLabels examples
      in trainEpochs experimentEpochs examples
           \<lparr>lpLabels = labels, lpBias = [], lpWeights = fold (\<lambda>l. mput l []) labels []\<rparr>)"

section \<open>The experiment\<close>

record LightweightExperimentModel =
  lmTask :: linearPerceptron
  lmRisk :: linearPerceptron

fun labelExamples :: "ExperimentExample list \<Rightarrow> string + (labeledVector list \<times> labeledVector list)" where
  "labelExamples [] = Inr ([], [])"
| "labelExamples (ex # rest) =
     (if xeTaskType ex = [] \<or> xeRiskLevel ex = []
      then Inl (''classifier experiment: case '' @ fmtQ (xeID ex) @ '' missing label'')
      else case labelExamples rest of
             Inl e \<Rightarrow> Inl e
           | Inr (ts, rs) \<Rightarrow>
               let features = experimentFeatureVector (xePrompt ex)
               in Inr (\<lparr>lvLabel = xeTaskType ex, lvFeatures = features\<rparr> # ts, \<lparr>lvLabel = xeRiskLevel ex, lvFeatures = features\<rparr> # rs))"

definition TrainLightweightExperiment :: "ExperimentExample list \<Rightarrow> string + LightweightExperimentModel" where
  "TrainLightweightExperiment examples =
     (if length examples = 0 then Inl ''classifier experiment: no training examples''
      else case labelExamples examples of
             Inl e \<Rightarrow> Inl e
           | Inr (ts, rs) \<Rightarrow> Inr \<lparr>lmTask = trainLinearPerceptron ts, lmRisk = trainLinearPerceptron rs\<rparr>)"

definition shouldApplyExperimentRiskFloor :: "string \<Rightarrow> string \<Rightarrow> bool" where
  "shouldApplyExperimentRiskFloor taskType riskLevel \<longleftrightarrow>
     riskLevel = RiskCritical \<or> taskType \<in> {TaskSecurityReview, TaskDatabaseMigration, TaskUnknownHighRisk}"

definition Predict :: "LightweightExperimentModel \<Rightarrow> string \<Rightarrow> ExperimentPrediction" where
  "Predict m prompt =
     (let features = experimentFeatureVector prompt;
          (taskLabel, taskConfidence) = lpPredict (lmTask m) features;
          (riskLabel, riskConfidence) = lpPredict (lmRisk m) features;
          (baselineTask, baselineRisk) = classifyRuleBaseline prompt;
          raise = (shouldApplyExperimentRiskFloor baselineTask baselineRisk \<and> riskRank riskLabel < riskRank baselineRisk)
      in \<lparr>xpTaskType = taskLabel, xpTaskConfidence = taskConfidence,
          xpRiskLevel = (if raise then baselineRisk else riskLabel),
          xpRiskConfidence = (if raise \<and> riskConfidence < 55 / 100 then 55 / 100 else riskConfidence)\<rparr>)"

definition compareOne :: "LightweightExperimentModel \<Rightarrow> ExperimentExample \<Rightarrow> ExperimentComparisonReport \<Rightarrow> ExperimentComparisonReport" where
  "compareOne model ex r =
     (let (baselineTask, baselineRisk) = classifyRuleBaseline (xePrompt ex);
          trained = Predict model (xePrompt ex)
      in r\<lparr>xcResults := xcResults r @ [\<lparr>xrID = xeID ex, xrExpectedTaskType = xeTaskType ex,
             xrExpectedRiskLevel = xeRiskLevel ex, xrBaselineTaskType = baselineTask, xrBaselineRiskLevel = baselineRisk,
             xrTrainedTaskType = xpTaskType trained, xrTrainedTaskConfidence = xpTaskConfidence trained,
             xrTrainedRiskLevel = xpRiskLevel trained, xrTrainedRiskConfidence = xpRiskConfidence trained\<rparr>],
           xcBaselineMetrics := addMetric (xeTaskType ex = baselineTask) (xeRiskLevel ex = baselineRisk) (xcBaselineMetrics r),
           xcTrainedMetrics := addMetric (xeTaskType ex = xpTaskType trained) (xeRiskLevel ex = xpRiskLevel trained)
             (xcTrainedMetrics r)\<rparr>)"

definition CompareExperimentWithRules :: "ExperimentExample list \<Rightarrow> ExperimentExample list \<Rightarrow> string + ExperimentComparisonReport" where
  "CompareExperimentWithRules train test =
     (case TrainLightweightExperiment train of
        Inl e \<Rightarrow> Inl e
      | Inr model \<Rightarrow> Inr (fold (compareOne model) test
          \<lparr>xcTrainCount = int (length train), xcTestCount = int (length test), xcBaselineMetrics = zeroMetrics,
           xcTrainedMetrics = zeroMetrics, xcResults = []\<rparr>))"

definition accuracyLine :: "string \<Rightarrow> ExperimentMetrics \<Rightarrow> string" where
  "accuracyLine label m = label @ ''task='' @ fmtFixed 1 (TaskAccuracy m * 100) @ ''% risk='' @
     fmtFixed 1 (RiskAccuracy m * 100) @ ''% joint='' @ fmtFixed 1 (JointAccuracy m * 100) @ ''%'' @ [newline]"

definition formatExperiment :: "ExperimentComparisonReport \<Rightarrow> string" where
  "formatExperiment r =
     ''Offline lightweight classifier experiment'' @ [newline] @
     ''train='' @ showInt (xcTrainCount r) @ '' test='' @ showInt (xcTestCount r) @ [newline] @
     accuracyLine ''baseline  '' (xcBaselineMetrics r) @ accuracyLine ''trained   '' (xcTrainedMetrics r) @
     concat (map (\<lambda>res. ''- '' @ xrID res @ '' expected=('' @ xrExpectedTaskType res @ '','' @ xrExpectedRiskLevel res @
       '') baseline=('' @ xrBaselineTaskType res @ '','' @ xrBaselineRiskLevel res @ '') trained=('' @
       xrTrainedTaskType res @ '' '' @ fmtFixed 2 (xrTrainedTaskConfidence res) @ '','' @ xrTrainedRiskLevel res @ '' '' @
       fmtFixed 2 (xrTrainedRiskConfidence res) @ '')'' @ [newline]) (xcResults r))"

section \<open>Predictions\<close>

text \<open>What the loop keeps: the best label so far with its score, and a second best no greater.\<close>

lemma bestLoop_inv:
  assumes "bestLoop sc ls (b, sc b, second) = (b', s', second')"
    and "\<forall>s. second = Some s \<longrightarrow> s \<le> sc b"
  shows "b' \<in> insert b (set ls) \<and> s' = sc b' \<and> sc b \<le> sc b' \<and> (\<forall>l \<in> set ls. sc l \<le> sc b') \<and>
    (\<forall>s. second' = Some s \<longrightarrow> s \<le> sc b')"
  using assms
proof (induction ls arbitrary: b second)
  case (Cons c ls)
  consider (better) "sc c > sc b" "bestLoop sc ls (c, sc c, Some (sc b)) = (b', s', second')"
    | (second) "sc c \<le> sc b" "bestLoop sc ls (b, sc b, Some (sc c)) = (b', s', second')"
    | (worse) "sc c \<le> sc b" "bestLoop sc ls (b, sc b, second) = (b', s', second')"
    using Cons.prems(1) by (auto split: if_splits)
  then show ?case
  proof cases
    case better
    from Cons.IH [OF better(2)] better(1) show ?thesis by auto
  next
    case second
    from Cons.IH [OF second(2)] second(1) show ?thesis by auto
  next
    case worse
    from Cons.IH [OF worse(2) Cons.prems(2)] worse(1) show ?thesis by auto
  qed
qed simp

lemma lpPredict_best:
  assumes "lpLabels m \<noteq> []"
  shows "fst (lpPredict m x) \<in> set (lpLabels m)"
    and "l \<in> set (lpLabels m) \<Longrightarrow> lpScore m l x \<le> lpScore m (fst (lpPredict m x)) x"
    and "1 / 2 \<le> snd (lpPredict m x) \<and> snd (lpPredict m x) \<le> 1"
proof -
  obtain l0 ls where ls: "lpLabels m = l0 # ls" using assms by (cases "lpLabels m") auto
  obtain b s second where loop: "bestLoop (\<lambda>l. lpScore m l x) ls (l0, lpScore m l0 x, None) = (b, s, second)"
    by (metis prod_cases3)
  from bestLoop_inv [of "\<lambda>l. lpScore m l x", OF this]
  have inv: "b \<in> insert l0 (set ls)" "lpScore m l0 x \<le> lpScore m b x" "\<forall>l \<in> set ls. lpScore m l x \<le> lpScore m b x"
    by auto
  have "fst (lpPredict m x) = b" by (simp add: lpPredict_def ls Let_def loop)
  with inv ls show "fst (lpPredict m x) \<in> set (lpLabels m)"
    and "l \<in> set (lpLabels m) \<Longrightarrow> lpScore m l x \<le> lpScore m (fst (lpPredict m x)) x" by auto
  show "1 / 2 \<le> snd (lpPredict m x) \<and> snd (lpPredict m x) \<le> 1"
    by (simp add: lpPredict_def ls Let_def loop)
qed

text \<open>The floor: where the rules see danger, the trained model may not see less.\<close>

lemma Predict_floor:
  assumes "classifyRuleBaseline prompt = (task, risk)" and "shouldApplyExperimentRiskFloor task risk"
  shows "riskRank risk \<le> riskRank (xpRiskLevel (Predict m prompt))"
  using assms by (auto simp: Predict_def Let_def split: prod.splits)

section \<open>Training\<close>

definition learned :: "linearPerceptron \<Rightarrow> labeledVector list \<Rightarrow> bool" where
  "learned m examples \<longleftrightarrow> (\<forall>ex \<in> set examples. fst (lpPredict m (lvFeatures ex)) = lvLabel ex)"

lemma trainExample_mistakes: "snd (trainExample ex st) = snd st \<longleftrightarrow> fst (lpPredict (fst st) (lvFeatures ex)) = lvLabel ex"
  "fst (lpPredict (fst st) (lvFeatures ex)) = lvLabel ex \<Longrightarrow> trainExample ex st = st"
  "snd st \<le> snd (trainExample ex st)"
  by (simp_all add: trainExample_def Let_def)

lemma epoch_mistakes:
  "fold trainExample examples (m, n) = (m', n') \<Longrightarrow> n \<le> n' \<and> (n' = n \<longrightarrow> m' = m \<and> learned m examples)"
proof (induction examples arbitrary: m n)
  case (Cons ex examples)
  obtain m1 n1 where step: "trainExample ex (m, n) = (m1, n1)" by fastforce
  with Cons.prems have "n1 \<le> n' \<and> (n' = n1 \<longrightarrow> m' = m1 \<and> learned m1 examples)"
    by (intro Cons.IH) simp
  moreover have "n \<le> n1" "n1 = n \<Longrightarrow> m1 = m \<and> fst (lpPredict m (lvFeatures ex)) = lvLabel ex"
    using trainExample_mistakes [where ex = ex and st = "(m, n)"] step by auto
  ultimately show ?case by (auto simp: learned_def)
qed (simp add: learned_def)

text \<open>The mistakes of the epochs that are run.\<close>

fun epochMistakes :: "nat \<Rightarrow> labeledVector list \<Rightarrow> linearPerceptron \<Rightarrow> nat list" where
  "epochMistakes 0 examples m = []"
| "epochMistakes (Suc n) examples m =
     (let (m', mistakes) = fold trainExample examples (m, 0)
      in mistakes # (if mistakes = 0 then [] else epochMistakes n examples m'))"

lemma trainEpochs_outcome:
  "learned (trainEpochs n examples m) examples \<or>
   length (epochMistakes n examples m) = n \<and> (\<forall>k \<in> set (epochMistakes n examples m). 0 < k)"
proof (induction n arbitrary: m)
  case (Suc n)
  obtain m' k where epoch: "fold trainExample examples (m, 0) = (m', k)" by fastforce
  show ?case
  proof (cases "k = 0")
    case True
    with epoch_mistakes [OF epoch] epoch show ?thesis by simp
  next
    case False
    with Suc.IH [of m'] epoch show ?thesis by simp
  qed
qed simp

end
