(* ===== verification/Perceptron.thy ===== *)
theory Perceptron
  imports Experiment
begin

text \<open>
  The mistake bound of the experiment's perceptron: on a training set that some linear scoring
  separates with a margin, the total number of mistakes over all epochs is bounded, whatever the
  order of the examples. A model is read as its coefficients, one per label and per feature, with
  the bias as the coefficient of a feature that every prompt has.
\<close>

section \<open>Coefficients\<close>

type_synonym coefs = "string \<Rightarrow> string option \<Rightarrow> rat"

definition coef :: "linearPerceptron \<Rightarrow> coefs" where
  "coef m l c = (case c of None \<Rightarrow> mget0 0 (lpBias m) l | Some f \<Rightarrow> mget0 0 (mget0 [] (lpWeights m) l) f)"

definition xcoef :: "featureVector \<Rightarrow> string option \<Rightarrow> rat" where
  "xcoef x c = (case c of None \<Rightarrow> 1 | Some f \<Rightarrow> mget0 0 x f)"

definition dims :: "string set \<Rightarrow> string option set" where
  "dims F = insert None (Some ` F)"

definition dot :: "string set \<Rightarrow> (string option \<Rightarrow> rat) \<Rightarrow> (string option \<Rightarrow> rat) \<Rightarrow> rat" where
  "dot F x b = (\<Sum>c \<in> dims F. x c * b c)"

definition inner :: "string set \<Rightarrow> string set \<Rightarrow> coefs \<Rightarrow> coefs \<Rightarrow> rat" where
  "inner L F a b = (\<Sum>l \<in> L. dot F (a l) (b l))"

lemma dot_split: "finite F \<Longrightarrow> dot F x b = x None * b None + (\<Sum>f \<in> F. x (Some f) * b (Some f))"
  by (simp add: dot_def dims_def sum.reindex image_iff)

lemma mget0_Cons: "mget0 z ((k, v) # m) k' = (if k' = k then v else mget0 z m k')"
  by (simp add: mget0_def mget_def)

lemma mget0_absent: "f \<notin> fst ` set x \<Longrightarrow> mget0 0 x f = 0"
  by (metis map_of_eq_None_iff mget0_def mget_def option.simps(4))

lemma score_sum:
  "distinct (map fst x) \<Longrightarrow>
   fold (\<lambda>(f, v) s. s + w f * v) x a = a + (\<Sum>f \<in> fst ` set x. w f * mget0 0 x f)" for w :: "string \<Rightarrow> rat"
proof (induction x arbitrary: a)
  case (Cons e x)
  obtain f v where e: "e = (f, v)" by fastforce
  with Cons.prems have f: "f \<notin> fst ` set x" "distinct (map fst x)" by simp_all
  have "(\<Sum>g \<in> fst ` set x. w g * mget0 0 ((f, v) # x) g) = (\<Sum>g \<in> fst ` set x. w g * mget0 0 x g)"
    using f(1) by (intro sum.cong) (auto simp: mget0_Cons)
  with f show ?case
    by (simp add: e Cons.IH mget0_Cons)
qed simp

lemma lpScore_dot:
  assumes "finite F" and "distinct (map fst x)" and "fst ` set x \<subseteq> F"
  shows "lpScore m l x = dot F (xcoef x) (coef m l)"
proof -
  have "(\<Sum>f \<in> fst ` set x. mget0 0 (mget0 [] (lpWeights m) l) f * mget0 0 x f) =
      (\<Sum>f \<in> F. mget0 0 (mget0 [] (lpWeights m) l) f * mget0 0 x f)"
    using assms by (intro sum.mono_neutral_left) (auto simp: mget0_absent)
  then show ?thesis
    unfolding lpScore_def score_sum [OF assms(2)] dot_split [OF assms(1)] by (simp add: coef_def xcoef_def mult.commute)
qed

text \<open>One mistake moves the coefficients of two labels by the features of the example.\<close>

lemma coef_addBias: "coef (addBias l0 d m) l c = coef m l c + (if l = l0 \<and> c = None then d else 0)"
  by (cases c) (simp_all add: coef_def addBias_def)

lemma coef_addWeight: "coef (addWeight l0 f d m) l c = coef m l c + (if l = l0 \<and> c = Some f then d else 0)"
  by (cases c) (simp_all add: coef_def addWeight_def Let_def)

lemma coef_weights:
  "distinct (map fst x) \<Longrightarrow>
   coef (fold (\<lambda>(f, v) m. addWeight p f (- v) (addWeight a f v m)) x m) l c =
     coef m l c + (if c = None then 0 else (if l = a then xcoef x c else 0) - (if l = p then xcoef x c else 0))"
proof (induction x arbitrary: m c)
  case Nil
  then show ?case by (cases c) (simp_all add: xcoef_def mget0_def mget_def)
next
  case (Cons e x)
  obtain f v where e: "e = (f, v)" by fastforce
  with Cons.prems have f: "mget0 0 x f = 0" and d: "distinct (map fst x)" by (simp_all add: mget0_absent)
  show ?case
    by (cases c) (auto simp: e Cons.IH [OF d] f coef_addWeight xcoef_def mget0_Cons)
qed

lemma coef_correctMistake:
  assumes "distinct (map fst (lvFeatures ex))"
  shows "coef (correctMistake ex p m) l c = coef m l c +
    (if l = lvLabel ex then xcoef (lvFeatures ex) c else 0) - (if l = p then xcoef (lvFeatures ex) c else 0)"
  by (cases c) (simp_all add: correctMistake_def coef_weights [OF assms] coef_addBias xcoef_def)

section \<open>Inner products\<close>

definition shift :: "coefs \<Rightarrow> string \<Rightarrow> string \<Rightarrow> (string option \<Rightarrow> rat) \<Rightarrow> coefs" where
  "shift m a p x l c = m l c + (if l = a then x c else 0) - (if l = p then x c else 0)"

lemma dot_shift:
  "dot F (shift m a p x l) b = dot F (m l) b + (if l = a then dot F x b else 0) - (if l = p then dot F x b else 0)"
  by (auto simp: dot_def shift_def algebra_simps sum.distrib sum_subtractf)

lemma dot_commute: "dot F x b = dot F b x"
  by (simp add: dot_def mult.commute)

lemma inner_commute: "inner L F a b = inner L F b a"
  by (simp add: inner_def dot_commute)

lemma inner_shift:
  assumes "finite L" "a \<in> L" "p \<in> L"
  shows "inner L F (shift m a p x) b = inner L F m b + dot F x (b a) - dot F x (b p)"
  using assms by (simp add: inner_def dot_shift sum.distrib sum_subtractf sum.delta)

lemma inner_shift_self:
  assumes "finite L" "a \<in> L" "p \<in> L" "a \<noteq> p"
  shows "inner L F (shift m a p x) (shift m a p x) =
    inner L F m m + 2 * (dot F x (m a) - dot F x (m p)) + 2 * dot F x x"
proof -
  let ?s = "shift m a p x"
  have "inner L F ?s ?s = inner L F m ?s + dot F x (?s a) - dot F x (?s p)"
    by (rule inner_shift [OF assms(1-3)])
  also have "inner L F m ?s = inner L F m m + dot F x (m a) - dot F x (m p)"
    using inner_shift [OF assms(1-3), of F m x m] by (simp add: inner_commute)
  also have "dot F x (?s a) = dot F x (m a) + dot F x x"
    using dot_shift [of F m a p x a x] assms(4) by (simp add: dot_commute)
  also have "dot F x (?s p) = dot F x (m p) - dot F x x"
    using dot_shift [of F m a p x p x] assms(4) by (simp add: dot_commute)
  finally show ?thesis by simp
qed

lemma inner_diff_square:
  "0 \<le> inner L F m m - 2 * t * inner L F m u + t\<^sup>2 * inner L F u u"
proof -
  have "(\<Sum>l \<in> L. \<Sum>c \<in> dims F. (m l c - t * u l c)\<^sup>2) = inner L F m m - 2 * t * inner L F m u + t\<^sup>2 * inner L F u u"
    by (simp add: inner_def dot_def power2_eq_square algebra_simps sum.distrib sum_subtractf sum_distrib_left)
  moreover have "0 \<le> (\<Sum>l \<in> L. \<Sum>c \<in> dims F. (m l c - t * u l c)\<^sup>2)"
    by (intro sum_nonneg) simp
  ultimately show ?thesis by simp
qed

section \<open>The bound\<close>

text \<open>
  A training set whose labels are among \<open>L\<close> and whose features are among \<open>F\<close>, with no feature
  twice in an example, separated by \<open>u\<close> with margin \<open>\<gamma>\<close>, of examples no longer than \<open>q\<close> (squared).
\<close>

definition separable :: "string set \<Rightarrow> string set \<Rightarrow> coefs \<Rightarrow> rat \<Rightarrow> rat \<Rightarrow> labeledVector list \<Rightarrow> bool" where
  "separable L F u \<gamma> q examples \<longleftrightarrow> finite L \<and> finite F \<and> 0 < \<gamma> \<and> 0 < q \<and>
     (\<forall>ex \<in> set examples. lvLabel ex \<in> L \<and> distinct (map fst (lvFeatures ex)) \<and> fst ` set (lvFeatures ex) \<subseteq> F \<and>
        dot F (xcoef (lvFeatures ex)) (xcoef (lvFeatures ex)) \<le> q \<and>
        (\<forall>l \<in> L. l \<noteq> lvLabel ex \<longrightarrow>
           dot F (xcoef (lvFeatures ex)) (u l) + \<gamma> \<le> dot F (xcoef (lvFeatures ex)) (u (lvLabel ex))))"

definition progress :: "string set \<Rightarrow> string set \<Rightarrow> coefs \<Rightarrow> rat \<Rightarrow> rat \<Rightarrow> linearPerceptron \<Rightarrow> nat \<Rightarrow> bool" where
  "progress L F u \<gamma> q m k \<longleftrightarrow> set (lpLabels m) = L \<and> L \<noteq> {} \<and> \<gamma> * of_nat k \<le> inner L F (coef m) u \<and>
     inner L F (coef m) (coef m) \<le> 2 * q * of_nat k"

lemma correctMistake_labels [simp]: "lpLabels (correctMistake ex p m) = lpLabels m"
proof -
  have "lpLabels (fold (\<lambda>(f, v) m. addWeight p f (- v) (addWeight a f v m)) x m) = lpLabels m" for a x m
    by (induction x arbitrary: m) (auto simp: addWeight_def Let_def)
  then show ?thesis by (simp add: correctMistake_def addBias_def)
qed

lemma progress_example:
  assumes sep: "separable L F u \<gamma> q examples" and ex: "ex \<in> set examples" and pr: "progress L F u \<gamma> q m k"
    and step: "trainExample ex (m, n) = (m', n')" and n: "n \<le> k"
  shows "progress L F u \<gamma> q m' (k + (n' - n))"
proof -
  let ?x = "lvFeatures ex" and ?a = "lvLabel ex"
  define p where "p = fst (lpPredict m ?x)"
  have fin: "finite L" "finite F" and d: "distinct (map fst ?x)" "fst ` set ?x \<subseteq> F" and a: "?a \<in> L"
    and len: "dot F (xcoef ?x) (xcoef ?x) \<le> q"
    and margin: "\<And>l. l \<in> L \<Longrightarrow> l \<noteq> ?a \<Longrightarrow> dot F (xcoef ?x) (u l) + \<gamma> \<le> dot F (xcoef ?x) (u ?a)"
    using sep ex by (auto simp: separable_def)
  have labels: "set (lpLabels m) = L" "lpLabels m \<noteq> []" using pr by (auto simp: progress_def)
  show ?thesis
  proof (cases "p = ?a")
    case True
    with step pr show ?thesis by (simp add: trainExample_def p_def Let_def)
  next
    case False
    have p: "p \<in> L" using lpPredict_best(1) [OF labels(2), of ?x] labels(1) by (simp add: p_def)
    have m': "m' = correctMistake ex p m" "n' = Suc n"
      using step False by (simp_all add: trainExample_def p_def Let_def)
    have coef: "coef m' = shift (coef m) ?a p (xcoef ?x)"
      by (intro ext) (simp add: m' coef_correctMistake [OF d(1)] shift_def)
    have "lpScore m ?a ?x \<le> lpScore m p ?x"
      using lpPredict_best(2) [OF labels(2), of ?a ?x] a labels(1) by (simp add: p_def)
    then have "dot F (xcoef ?x) (coef m ?a) \<le> dot F (xcoef ?x) (coef m p)"
      by (simp add: lpScore_dot [OF fin(2) d])
    with inner_shift_self [OF fin(1) a p, of F "coef m" "xcoef ?x"] False len
    have "inner L F (coef m') (coef m') \<le> inner L F (coef m) (coef m) + 2 * q" by (simp add: coef)
    moreover have "inner L F (coef m) u + \<gamma> \<le> inner L F (coef m') u"
      using inner_shift [OF fin(1) a p, of F "coef m" "xcoef ?x" u] margin [OF p] False by (simp add: coef)
    ultimately show ?thesis
      using pr n by (simp add: progress_def m' algebra_simps)
  qed
qed

lemma progress_epoch:
  assumes sep: "separable L F u \<gamma> q examples"
  shows "set exs \<subseteq> set examples \<Longrightarrow> progress L F u \<gamma> q m k \<Longrightarrow> n \<le> k \<Longrightarrow>
    fold trainExample exs (m, n) = (m', n') \<Longrightarrow> progress L F u \<gamma> q m' (k + (n' - n))"
proof (induction exs arbitrary: m n k)
  case (Cons ex exs)
  obtain m1 n1 where step: "trainExample ex (m, n) = (m1, n1)" by fastforce
  have "n \<le> n1" using trainExample_mistakes(3) [of "(m, n)" ex] step by simp
  have "progress L F u \<gamma> q m1 (k + (n1 - n))"
    using progress_example [OF sep _ Cons.prems(2) step Cons.prems(3)] Cons.prems(1) by simp
  with Cons.IH [of m1 "k + (n1 - n)" n1] Cons.prems step \<open>n \<le> n1\<close>
  have "progress L F u \<gamma> q m' (k + (n1 - n) + (n' - n1))" by simp
  moreover have "n1 \<le> n'"
    using epoch_mistakes [of exs m1 n1 m' n'] Cons.prems(4) step by simp
  ultimately show ?case using \<open>n \<le> n1\<close> by simp
qed simp

lemma progress_epochs:
  assumes sep: "separable L F u \<gamma> q examples"
  shows "progress L F u \<gamma> q m k \<Longrightarrow>
    progress L F u \<gamma> q (trainEpochs n examples m) (k + sum_list (epochMistakes n examples m))"
proof (induction n arbitrary: m k)
  case (Suc n)
  obtain m' j where epoch: "fold trainExample examples (m, 0) = (m', j)" by fastforce
  have "progress L F u \<gamma> q m' (k + j)"
    using progress_epoch [OF sep subset_refl Suc.prems _ epoch] by simp
  with Suc.IH [of m' "k + j"] epoch show ?case
    by (cases "j = 0") (simp_all add: add.assoc)
qed simp

lemma progress_bound:
  assumes "progress L F u \<gamma> q m k" and "0 < \<gamma>" and "0 < q"
  shows "of_nat k * \<gamma>\<^sup>2 \<le> 2 * q * inner L F u u"
proof -
  let ?t = "2 * q / \<gamma>"
  have "0 \<le> inner L F (coef m) (coef m) - 2 * ?t * inner L F (coef m) u + ?t\<^sup>2 * inner L F u u"
    by (rule inner_diff_square)
  also have "\<dots> \<le> 2 * q * of_nat k - 2 * ?t * (\<gamma> * of_nat k) + ?t\<^sup>2 * inner L F u u"
    using assms by (intro add_right_mono diff_mono mult_left_mono) (simp_all add: progress_def)
  also have "\<dots> = ?t\<^sup>2 * inner L F u u - 2 * q * of_nat k"
    using assms(2) by (simp add: field_simps)
  finally have "2 * q * of_nat k \<le> ?t\<^sup>2 * inner L F u u" by simp
  then have "2 * q * of_nat k * \<gamma>\<^sup>2 \<le> 4 * q\<^sup>2 * inner L F u u"
    using assms(2) by (simp add: power_divide power_mult_distrib field_simps)
  then have "(2 * q) * (of_nat k * \<gamma>\<^sup>2) \<le> (2 * q) * (2 * q * inner L F u u)"
    by (simp add: power2_eq_square algebra_simps)
  then show ?thesis using assms(3) by simp
qed

text \<open>Training starts from zero, on the labels of the examples.\<close>

definition initialModel :: "labeledVector list \<Rightarrow> linearPerceptron" where
  "initialModel examples = \<lparr>lpLabels = sortedUniqueLabels examples, lpBias = [],
     lpWeights = fold (\<lambda>l. mput l []) (sortedUniqueLabels examples) []\<rparr>"

lemma trainLinearPerceptron_initial:
  "trainLinearPerceptron examples = trainEpochs experimentEpochs examples (initialModel examples)"
  by (simp add: trainLinearPerceptron_def initialModel_def Let_def)

lemma uniqueLabels_set:
  "set (fold (\<lambda>ex labels. if lvLabel ex \<in> set labels then labels else labels @ [lvLabel ex]) exs acc) =
   set acc \<union> lvLabel ` set exs"
  by (induction exs arbitrary: acc) auto

lemma sortedUniqueLabels_set: "set (sortedUniqueLabels exs) = lvLabel ` set exs"
  by (simp add: sortedUniqueLabels_def uniqueLabels_set)

lemma initial_coef: "coef (initialModel examples) l c = 0"
proof -
  have "mget0 [] (fold (\<lambda>l. mput l []) ls w) l = []" if "mget0 [] w l = []" for ls and w :: "(string, featureVector) gomap"
    using that by (induction ls arbitrary: w) auto
  from this [of "[]" "sortedUniqueLabels examples"] show ?thesis
    by (cases c) (simp_all add: coef_def initialModel_def mget0_def)
qed

lemma progress_initial:
  assumes "examples \<noteq> []"
  shows "progress (lvLabel ` set examples) F u \<gamma> q (initialModel examples) 0"
  using assms by (simp add: progress_def initial_coef inner_def dot_def)
    (simp add: initialModel_def sortedUniqueLabels_set)

lemma mistakes_bounded:
  assumes "examples \<noteq> []" and sep: "separable (lvLabel ` set examples) F u \<gamma> q examples"
  shows "of_nat (sum_list (epochMistakes n examples (initialModel examples))) * \<gamma>\<^sup>2 \<le>
    2 * q * inner (lvLabel ` set examples) F u u"
proof -
  have "0 < \<gamma>" "0 < q" using sep by (simp_all add: separable_def)
  from progress_bound [OF progress_epochs [OF sep progress_initial [OF assms(1)], of n] this]
  show ?thesis by simp
qed

lemma sum_list_pos: "\<forall>k \<in> set ks. 0 < k \<Longrightarrow> length ks \<le> sum_list ks" for ks :: "nat list"
  by (induction ks) auto

section \<open>Properties\<close>

text \<open>
  C37: training the perceptron of the experiment makes few mistakes: when some linear scoring \<open>u\<close>
  separates the labels of the training set with margin \<open>\<gamma>\<close>, the mistakes of all epochs together
  are at most twice the largest squared example length times the squared length of \<open>u\<close> over
  \<open>\<gamma>\<close> squared; and when that is below the fourteen epochs that are run, the trained model labels
  every training example right.
\<close>

theorem training_mistakes:
  assumes "examples \<noteq> []" and "separable (lvLabel ` set examples) F u \<gamma> q examples"
  shows "of_nat (sum_list (epochMistakes experimentEpochs examples (initialModel examples))) * \<gamma>\<^sup>2 \<le>
      2 * q * inner (lvLabel ` set examples) F u u \<and>
    (2 * q * inner (lvLabel ` set examples) F u u < of_nat experimentEpochs * \<gamma>\<^sup>2 \<longrightarrow>
      learned (trainLinearPerceptron examples) examples)"
proof
  let ?ks = "epochMistakes experimentEpochs examples (initialModel examples)"
  let ?U = "2 * q * inner (lvLabel ` set examples) F u u"
  show bound: "of_nat (sum_list ?ks) * \<gamma>\<^sup>2 \<le> ?U"
    by (rule mistakes_bounded [OF assms])
  show "?U < of_nat experimentEpochs * \<gamma>\<^sup>2 \<longrightarrow> learned (trainLinearPerceptron examples) examples"
  proof
    assume few: "?U < of_nat experimentEpochs * \<gamma>\<^sup>2"
    show "learned (trainLinearPerceptron examples) examples"
    proof (rule ccontr)
      assume "\<not> ?thesis"
      then have "length ?ks = experimentEpochs" "\<forall>k \<in> set ?ks. 0 < k"
        using trainEpochs_outcome [of experimentEpochs examples "initialModel examples"]
        by (simp_all add: trainLinearPerceptron_initial)
      with sum_list_pos [of ?ks] have "experimentEpochs \<le> sum_list ?ks" by simp
      then have "(of_nat experimentEpochs :: rat) * \<gamma>\<^sup>2 \<le> of_nat (sum_list ?ks) * \<gamma>\<^sup>2"
        by (intro mult_right_mono) (simp_all only: of_nat_le_iff zero_le_power2)
      with bound few show False by simp
    qed
  qed
qed

definition apples :: "labeledVector list" where
  "apples = [\<lparr>lvLabel = ''apple'', lvFeatures = [(''red'', 1)]\<rparr>, \<lparr>lvLabel = ''pear'', lvFeatures = [(''green'', 1)]\<rparr>]"

definition appleScoring :: coefs where
  "appleScoring l c = (if l = ''apple'' \<and> c = Some ''red'' \<or> l = ''pear'' \<and> c = Some ''green'' then 1 else 0)"

lemma training_mistakes_witness: "learned (trainLinearPerceptron apples) apples"
proof -
  have labels: "lvLabel ` set apples = {''apple'', ''pear''}" by (simp add: apples_def)
  have "separable (lvLabel ` set apples) {''red'', ''green''} appleScoring 1 2 apples"
    unfolding labels by (simp add: separable_def apples_def dot_split xcoef_def appleScoring_def mget0_def mget_def)
  from training_mistakes [OF _ this] show ?thesis
    unfolding labels by (simp add: apples_def inner_def dot_split appleScoring_def)
qed

lemma trained_labels: "lpLabels (trainEpochs n examples m) = lpLabels m"
proof (induction n arbitrary: m)
  case (Suc n)
  have epoch: "lpLabels (fst (fold trainExample exs st)) = lpLabels (fst st)" for exs st
    by (induction exs arbitrary: st) (auto simp: trainExample_def Let_def)
  obtain m' k where "fold trainExample examples (m, 0) = (m', k)" by fastforce
  with Suc.IH [of m'] epoch [of examples "(m, 0)"] show ?case by simp
qed simp

lemma trained_not_empty:
  assumes "TrainLightweightExperiment examples = Inr m"
  shows "lpLabels (lmTask m) \<noteq> []" and "lpLabels (lmRisk m) \<noteq> []"
proof -
  from assms obtain ts rs where lab: "labelExamples examples = Inr (ts, rs)" "examples \<noteq> []"
    and m: "m = \<lparr>lmTask = trainLinearPerceptron ts, lmRisk = trainLinearPerceptron rs\<rparr>"
    by (auto simp: TrainLightweightExperiment_def split: if_splits sum.splits)
  then have "ts \<noteq> []" "rs \<noteq> []"
    by (cases examples; auto split: if_splits sum.splits simp: Let_def)+
  then have "set (sortedUniqueLabels ts) \<noteq> {}" "set (sortedUniqueLabels rs) \<noteq> {}"
    by (simp_all add: sortedUniqueLabels_set)
  then show "lpLabels (lmTask m) \<noteq> []" "lpLabels (lmRisk m) \<noteq> []"
    by (auto simp: m trainLinearPerceptron_initial trained_labels initialModel_def)
qed

text \<open>
  the trained model never rates a prompt below the rules where these see danger: when the rules
  call it critical, a security review, a database migration or of unknown risk, the predicted risk
  is at least theirs; and both confidences of a trained model lie between one half and one.
\<close>

theorem Predict_risk_floor:
  assumes "classifyRuleBaseline prompt = (task, risk)" and "TrainLightweightExperiment examples = Inr m"
  shows "(shouldApplyExperimentRiskFloor task risk \<longrightarrow> riskRank risk \<le> riskRank (xpRiskLevel (Predict m prompt))) \<and>
    xpTaskConfidence (Predict m prompt) \<in> {1 / 2..1} \<and> xpRiskConfidence (Predict m prompt) \<in> {1 / 2..1}"
proof -
  obtain t tc r rc where p: "lpPredict (lmTask m) (experimentFeatureVector prompt) = (t, tc)"
    "lpPredict (lmRisk m) (experimentFeatureVector prompt) = (r, rc)" by fastforce
  have "1 / 2 \<le> tc \<and> tc \<le> 1" "1 / 2 \<le> rc \<and> rc \<le> 1"
    using lpPredict_best(3) [OF trained_not_empty(1) [OF assms(2)], of "experimentFeatureVector prompt"]
      lpPredict_best(3) [OF trained_not_empty(2) [OF assms(2)], of "experimentFeatureVector prompt"]
    by (simp_all add: p)
  moreover have "xpTaskConfidence (Predict m prompt) = tc" "xpRiskConfidence (Predict m prompt) \<in> {rc, 55 / 100}"
    by (simp_all add: Predict_def p Let_def split: prod.split)
  ultimately show ?thesis using Predict_floor [OF assms(1), of m] by auto
qed

definition migrationExample :: ExperimentExample where
  "migrationExample = \<lparr>xeID = ''m'', xePrompt = ''drop table users'', xeTaskType = TaskSimpleChat, xeRiskLevel = RiskLow\<rparr>"

lemma Predict_risk_floor_witness:
  "\<exists>m task risk. TrainLightweightExperiment [migrationExample] = Inr m \<and>
    classifyRuleBaseline (xePrompt migrationExample) = (task, risk) \<and>
    (shouldApplyExperimentRiskFloor task risk \<longrightarrow> riskRank risk \<le> riskRank (xpRiskLevel (Predict m (xePrompt migrationExample))))"
proof -
  obtain task risk where base: "classifyRuleBaseline (xePrompt migrationExample) = (task, risk)" by fastforce
  obtain m where m: "TrainLightweightExperiment [migrationExample] = Inr m"
    by (simp add: TrainLightweightExperiment_def migrationExample_def Let_def)
  from Predict_risk_floor [OF base m] base m show ?thesis by blast
qed

end
