(* ===== verification/Profiles.thy ===== *)
theory Profiles
  imports Defaults
begin

text \<open>
  Package \<open>internal/profiles\<close>: stable profile names, resolved to models of the registry. A catalog
  keeps its profiles by name and the names of each tier in order.
\<close>

section \<open>Profiles and catalogs\<close>

type_synonym ID = string
abbreviation IDCheapGeneral :: ID where "IDCheapGeneral \<equiv> ''cheap-general''"
abbreviation IDBalancedCoder :: ID where "IDBalancedCoder \<equiv> ''balanced-coder''"
abbreviation IDPremiumReasoning :: ID where "IDPremiumReasoning \<equiv> ''premium-reasoning''"

datatype profile_error =
    ErrMissingProfile string
  | ErrNoEnabledTargetModel string
  | ErrMissingCapabilities
  | ErrDuplicateProfile string
  | ErrNoSnapshot

record Profile =
  pfID :: ID
  pfTier :: Tier
  pfModelIDs :: "string list"
  pfRequiredCapabilities :: Capabilities
  pfIntendedTaskClasses :: "string list"

record Catalog =
  ctProfiles :: "(ID, Profile) gomap"
  ctTiers :: "(Tier, ID list) gomap"

record Selector =
  slProfileID :: ID
  slTier :: Tier
  slRequiredCapabilities :: Capabilities

record Resolution =
  rsProfileID :: ID
  rsTier :: Tier
  rsRequiredCapabilities :: Capabilities
  rsModels :: "Model list"

definition zeroProfile :: Profile where
  "zeroProfile = \<lparr>pfID = [], pfTier = [], pfModelIDs = [], pfRequiredCapabilities = noCapabilities,
     pfIntendedTaskClasses = []\<rparr>"

definition cloneProfile :: "Profile \<Rightarrow> Profile" where
  "cloneProfile p = p\<lparr>pfModelIDs := [] @ pfModelIDs p, pfIntendedTaskClasses := [] @ pfIntendedTaskClasses p\<rparr>"

fun addProfiles :: "Profile list \<Rightarrow> Catalog \<Rightarrow> profile_error + Catalog" where
  "addProfiles [] c = Inr c"
| "addProfiles (p # ps) c =
     (if pfID p = [] then Inl (ErrMissingProfile ''profile id is required'')
      else if length (pfModelIDs p) = 0
      then Inl (ErrNoEnabledTargetModel (''profile '' @ fmtQ (pfID p) @ '' has no target models''))
      else if mget (ctProfiles c) (pfID p) \<noteq> None then Inl (ErrDuplicateProfile (pfID p))
      else addProfiles ps \<lparr>ctProfiles = mput (pfID p) (cloneProfile p) (ctProfiles c),
             ctTiers = mput (pfTier p) (mget0 [] (ctTiers c) (pfTier p) @ [pfID p]) (ctTiers c)\<rparr>)"

definition sortTier :: "ID list \<Rightarrow> ID list" where
  "sortTier ids = sort ids"

definition NewCatalog :: "Profile list \<Rightarrow> profile_error + Catalog" where
  "NewCatalog ps =
     (if length ps = 0 then Inl (ErrMissingProfile ''no profiles configured'')
      else bindR (addProfiles ps \<lparr>ctProfiles = [], ctTiers = []\<rparr>) (\<lambda>c.
             Inr (c\<lparr>ctTiers := map (\<lambda>(t, ids). (t, sortTier ids)) (ctTiers c)\<rparr>)))"

definition DefaultProfiles :: "Profile list" where
  "DefaultProfiles =
     [\<lparr>pfID = IDCheapGeneral, pfTier = TierCheap, pfModelIDs = [''cheap-general''],
       pfRequiredCapabilities = noCapabilities\<lparr>Chat := True\<rparr>,
       pfIntendedTaskClasses = [''simple'', ''summarization'', ''low_risk'']\<rparr>,
      \<lparr>pfID = IDBalancedCoder, pfTier = TierBalanced, pfModelIDs = [''balanced-coder''],
       pfRequiredCapabilities = noCapabilities\<lparr>Chat := True, ToolCalls := True, JSONSchema := True\<rparr>,
       pfIntendedTaskClasses = [''code'', ''analysis'', ''tool_use'']\<rparr>,
      \<lparr>pfID = IDPremiumReasoning, pfTier = TierPremium, pfModelIDs = [''premium-reasoning''],
       pfRequiredCapabilities = noCapabilities\<lparr>Chat := True\<rparr>,
       pfIntendedTaskClasses = [''hard_reasoning'', ''security_review'', ''high_risk'']\<rparr>]"

definition DefaultCatalog :: "profile_error + Catalog" where
  "DefaultCatalog = NewCatalog DefaultProfiles"

definition catalogProfile :: "Catalog option \<Rightarrow> ID \<Rightarrow> Profile \<times> bool" where
  "catalogProfile c i =
     (case c of None \<Rightarrow> (zeroProfile, False)
      | Some ct \<Rightarrow> (case mget (ctProfiles ct) i of
          None \<Rightarrow> (cloneProfile zeroProfile, False)
        | Some p \<Rightarrow> (cloneProfile p, True)))"

section \<open>Resolving\<close>

definition matchingProfileIDs :: "Catalog option \<Rightarrow> Selector \<Rightarrow> profile_error + ID list" where
  "matchingProfileIDs c sel =
     (case c of None \<Rightarrow> Inl (ErrMissingProfile [])
      | Some ct \<Rightarrow>
          if slProfileID sel \<noteq> [] then
            (if mget (ctProfiles ct) (slProfileID sel) = None then Inl (ErrMissingProfile (fmtQ (slProfileID sel)))
             else Inr [slProfileID sel])
          else if slTier sel = [] then Inl (ErrMissingProfile [])
          else let ids = mget0 [] (ctTiers ct) (slTier sel) in
            if length ids = 0 then Inl (ErrMissingProfile (''tier '' @ fmtQ (slTier sel))) else Inr ids)"

text \<open>The models of a profile that can be used, and whether one of them lacks a capability only.\<close>

fun targetModels :: "Snapshot option \<Rightarrow> Capabilities \<Rightarrow> string list \<Rightarrow> Model list \<times> bool" where
  "targetModels snap required [] = ([], False)"
| "targetModels snap required (i # rest) =
     (let (ms, missing) = targetModels snap required rest in
      case snapModel snap i of
        None \<Rightarrow> (ms, missing)
      | Some m \<Rightarrow>
          if \<not> ModelSelectable snap m then (ms, missing)
          else if \<not> Satisfies (mCapabilities m) required then (ms, True)
          else (m # ms, missing))"

fun resolveLoop :: "Catalog \<Rightarrow> Snapshot option \<Rightarrow> Selector \<Rightarrow> ID list \<Rightarrow> bool \<Rightarrow> profile_error + Resolution" where
  "resolveLoop ct snap sel [] missing =
     Inl (if missing then ErrMissingCapabilities else ErrNoEnabledTargetModel [])"
| "resolveLoop ct snap sel (i # rest) missing =
     (let p = mget0 zeroProfile (ctProfiles ct) i;
          required = Merge (pfRequiredCapabilities p) (slRequiredCapabilities sel);
          (ms, lacking) = targetModels snap required (pfModelIDs p)
      in if length ms > 0
         then Inr \<lparr>rsProfileID = pfID p, rsTier = pfTier p, rsRequiredCapabilities = required, rsModels = ms\<rparr>
         else resolveLoop ct snap sel rest (missing \<or> lacking))"

definition Resolve :: "Catalog option \<Rightarrow> Snapshot option \<Rightarrow> Selector \<Rightarrow> profile_error + Resolution" where
  "Resolve c snap sel =
     (case snap of None \<Rightarrow> Inl ErrNoSnapshot
      | Some s \<Rightarrow> bindR (matchingProfileIDs c sel) (\<lambda>ids.
          case c of None \<Rightarrow> Inl (ErrMissingProfile []) | Some ct \<Rightarrow> resolveLoop ct (Some s) sel ids False))"

section \<open>What resolves\<close>

definition usable :: "Snapshot option \<Rightarrow> Capabilities \<Rightarrow> string \<Rightarrow> Model option" where
  "usable snap required i = (case snapModel snap i of None \<Rightarrow> None
     | Some m \<Rightarrow> if ModelSelectable snap m \<and> Satisfies (mCapabilities m) required then Some m else None)"

definition lacksCapability :: "Snapshot option \<Rightarrow> Capabilities \<Rightarrow> string \<Rightarrow> bool" where
  "lacksCapability snap required i \<longleftrightarrow>
     (\<exists>m. snapModel snap i = Some m \<and> ModelSelectable snap m \<and> \<not> Satisfies (mCapabilities m) required)"

lemma targetModels_spec:
  "targetModels snap req is = (List.map_filter (usable snap req) is, \<exists>i \<in> set is. lacksCapability snap req i)"
  by (induction "is") (auto simp: usable_def lacksCapability_def map_filter_simps split: option.split)

definition requiredBy :: "Selector \<Rightarrow> Profile \<Rightarrow> Capabilities" where
  "requiredBy sel p = Merge (pfRequiredCapabilities p) (slRequiredCapabilities sel)"

definition usableModels :: "Snapshot option \<Rightarrow> Selector \<Rightarrow> Profile \<Rightarrow> Model list" where
  "usableModels snap sel p = List.map_filter (usable snap (requiredBy sel p)) (pfModelIDs p)"

definition profileAt :: "Catalog \<Rightarrow> ID \<Rightarrow> Profile" where
  "profileAt ct i = mget0 zeroProfile (ctProfiles ct) i"

lemma resolveLoop_step:
  "resolveLoop ct snap sel (i # rest) missing =
     (if usableModels snap sel (profileAt ct i) \<noteq> []
      then Inr \<lparr>rsProfileID = pfID (profileAt ct i), rsTier = pfTier (profileAt ct i),
          rsRequiredCapabilities = requiredBy sel (profileAt ct i), rsModels = usableModels snap sel (profileAt ct i)\<rparr>
      else resolveLoop ct snap sel rest
        (missing \<or> (\<exists>j \<in> set (pfModelIDs (profileAt ct i)). lacksCapability snap (requiredBy sel (profileAt ct i)) j)))"
  by (simp add: targetModels_spec Let_def usableModels_def requiredBy_def profileAt_def)

declare resolveLoop.simps(2) [simp del]

lemma resolveLoop_spec:
  "resolveLoop ct snap sel ids missing =
     (case find (\<lambda>i. usableModels snap sel (profileAt ct i) \<noteq> []) ids of
        Some i \<Rightarrow> Inr \<lparr>rsProfileID = pfID (profileAt ct i), rsTier = pfTier (profileAt ct i),
          rsRequiredCapabilities = requiredBy sel (profileAt ct i), rsModels = usableModels snap sel (profileAt ct i)\<rparr>
      | None \<Rightarrow> Inl (if missing \<or> (\<exists>i \<in> set ids. \<exists>j \<in> set (pfModelIDs (profileAt ct i)).
            lacksCapability snap (requiredBy sel (profileAt ct i)) j)
          then ErrMissingCapabilities else ErrNoEnabledTargetModel []))"
  by (induction ids arbitrary: missing) (auto simp: resolveLoop_step split: option.split)

text \<open>A catalog that was built holds each profile under its name, and its tiers list them in order.\<close>

definition catalogOf :: "Profile list \<Rightarrow> Catalog \<Rightarrow> bool" where
  "catalogOf ps c \<longleftrightarrow> (\<forall>i. mget (ctProfiles c) i = find (\<lambda>p. pfID p = i) ps) \<and> distinct (map pfID ps) \<and>
     (\<forall>p \<in> set ps. pfID p \<noteq> [] \<and> pfModelIDs p \<noteq> []) \<and>
     (\<forall>t. mset (mget0 [] (ctTiers c) t) = mset (map pfID (filter (\<lambda>p. pfTier p = t) ps)))"

lemma cloneProfile_id [simp]: "cloneProfile p = p"
  by (simp add: cloneProfile_def)

lemma find_snoc: "find P (xs @ [x]) = (case find P xs of Some y \<Rightarrow> Some y | None \<Rightarrow> if P x then Some x else None)"
  by (induction xs) simp_all

lemma addProfiles_catalog:
  "addProfiles ps c = Inr c' \<Longrightarrow> catalogOf qs c \<Longrightarrow> catalogOf (qs @ ps) c'"
proof (induction ps c arbitrary: qs rule: addProfiles.induct)
  case (2 p ps c)
  from "2.prems"(1) have p: "pfID p \<noteq> []" "pfModelIDs p \<noteq> []" "mget (ctProfiles c) (pfID p) = None"
    and rest: "addProfiles ps \<lparr>ctProfiles = mput (pfID p) (cloneProfile p) (ctProfiles c),
             ctTiers = mput (pfTier p) (mget0 [] (ctTiers c) (pfTier p) @ [pfID p]) (ctTiers c)\<rparr> = Inr c'"
    by (auto split: if_splits)
  have new: "pfID p \<notin> pfID ` set qs"
    using p(3) "2.prems"(2) by (auto simp: catalogOf_def find_None_iff)
  have "catalogOf (qs @ [p]) \<lparr>ctProfiles = mput (pfID p) (cloneProfile p) (ctProfiles c),
             ctTiers = mput (pfTier p) (mget0 [] (ctTiers c) (pfTier p) @ [pfID p]) (ctTiers c)\<rparr>"
    using "2.prems"(2) p new
    by (auto simp: catalogOf_def find_snoc mget0_def split: option.split)
  from "2.IH" [OF _ _ _ rest this] p show ?case by simp
qed simp

lemma NewCatalog_catalog:
  assumes "NewCatalog ps = Inr c"
  shows "catalogOf ps c" and "sorted (mget0 [] (ctTiers c) t)"
proof -
  from assms obtain c0 where c0: "addProfiles ps \<lparr>ctProfiles = [], ctTiers = []\<rparr> = Inr c0"
    and c: "c = c0\<lparr>ctTiers := map (\<lambda>(t, ids). (t, sortTier ids)) (ctTiers c0)\<rparr>"
    by (auto simp: NewCatalog_def bindR_def split: if_splits sum.splits)
  have "catalogOf [] \<lparr>ctProfiles = [], ctTiers = []\<rparr>" by (simp add: catalogOf_def gomap_defs)
  from addProfiles_catalog [OF c0 this] have ok: "catalogOf ps c0" by simp
  have tier: "mget0 [] (ctTiers c) t = sort (mget0 [] (ctTiers c0) t)" for t
    by (auto simp: c gomap_defs sortTier_def map_of_map split: option.split)
  show "sorted (mget0 [] (ctTiers c) t)" by (simp add: tier)
  show "catalogOf ps c" using ok unfolding catalogOf_def tier by (simp add: c)
qed

definition matchesSelector :: "Selector \<Rightarrow> Profile \<Rightarrow> bool" where
  "matchesSelector sel p \<longleftrightarrow>
     (if slProfileID sel \<noteq> [] then pfID p = slProfileID sel else slTier sel \<noteq> [] \<and> pfTier p = slTier sel)"

lemma find_profile:
  "distinct (map pfID ps) \<Longrightarrow> p \<in> set ps \<Longrightarrow> find (\<lambda>q. pfID q = pfID p) ps = Some p"
  by (induction ps) (auto simp: rev_image_eqI)

lemma matchingProfileIDs_matches:
  assumes "NewCatalog ps = Inr c"
  shows "case matchingProfileIDs (Some c) sel of
      Inr ids \<Rightarrow> ids \<noteq> [] \<and> sorted ids \<and> set ids = pfID ` {p \<in> set ps. matchesSelector sel p}
    | Inl e \<Rightarrow> \<not> (\<exists>p \<in> set ps. matchesSelector sel p) \<and> (\<exists>m. e = ErrMissingProfile m)"
proof -
  note cat = NewCatalog_catalog [OF assms]
  have tiers: "set (mget0 [] (ctTiers c) t) = pfID ` {p \<in> set ps. pfTier p = t}" for t
  proof -
    have "mset (mget0 [] (ctTiers c) t) = mset (map pfID (filter (\<lambda>p. pfTier p = t) ps))"
      using cat(1) unfolding catalogOf_def by blast
    then show ?thesis by (metis image_set set_filter set_mset_mset)
  qed
  show ?thesis
  proof (cases "slProfileID sel = []")
    case True
    then show ?thesis
      using cat(2) tiers [of "slTier sel"]
      by (auto simp: matchingProfileIDs_def matchesSelector_def Let_def image_iff)
  next
    case False
    then show ?thesis
      using cat(1) by (auto simp: matchingProfileIDs_def matchesSelector_def catalogOf_def find_None_iff find_Some_iff image_iff)
  qed
qed

lemma profileAt_known: "catalogOf ps c \<Longrightarrow> p \<in> set ps \<Longrightarrow> profileAt c (pfID p) = p"
  by (simp add: profileAt_def mget0_def catalogOf_def find_profile)

lemma find_sorted:
  assumes "find P xs = Some x" and "sorted xs" and "y \<in> set xs" and "y < (x :: 'a :: linorder)"
  shows "\<not> P y"
  using assms by (induction xs) (auto split: if_splits)

text \<open>
  resolving a selector over a catalog that was built from profiles: the result is the first
  profile, by name, among those selected (by name, or else by tier) with a model that is registered,
  selectable and has the capabilities of the profile and of the selector, together with all of its
  models that are; when no selected profile has one, the error says whether a selectable model
  failed for its capabilities only, and when no profile is selected, the error says so.
\<close>

theorem Resolve_first_usable:
  assumes "NewCatalog ps = Inr c"
  shows "case Resolve (Some c) (Some snap) sel of
      Inr r \<Rightarrow> rsModels r \<noteq> [] \<and> (\<exists>p \<in> set ps. matchesSelector sel p \<and> rsProfileID r = pfID p \<and>
        rsModels r = usableModels (Some snap) sel p \<and>
        (\<forall>q \<in> set ps. matchesSelector sel q \<and> pfID q < pfID p \<longrightarrow> usableModels (Some snap) sel q = []))
    | Inl e \<Rightarrow> (\<forall>p \<in> set ps. matchesSelector sel p \<longrightarrow> usableModels (Some snap) sel p = []) \<and>
        ((\<exists>m. e = ErrMissingProfile m) \<longleftrightarrow> \<not> (\<exists>p \<in> set ps. matchesSelector sel p)) \<and>
        (e = ErrMissingCapabilities \<longleftrightarrow> (\<exists>p \<in> set ps. matchesSelector sel p \<and>
          (\<exists>i \<in> set (pfModelIDs p). lacksCapability (Some snap) (requiredBy sel p) i)))"
proof (cases "matchingProfileIDs (Some c) sel")
  case (Inl e)
  with matchingProfileIDs_matches [OF assms, of sel] show ?thesis by (auto simp: Resolve_def)
next
  case (Inr ids)
  note cat = NewCatalog_catalog(1) [OF assms]
  from matchingProfileIDs_matches [OF assms, of sel] Inr
  have ids: "ids \<noteq> []" "sorted ids" "set ids = pfID ` {p \<in> set ps. matchesSelector sel p}" by simp_all
  have at: "profileAt c (pfID p) = p" if "p \<in> set ps" for p by (rule profileAt_known [OF cat that])
  have all: "(\<forall>i \<in> set ids. P (profileAt c i)) \<longleftrightarrow> (\<forall>p \<in> set ps. matchesSelector sel p \<longrightarrow> P p)" for P
    using at by (auto simp: ids(3))
  have some: "(\<exists>p \<in> set ps. matchesSelector sel p)" using ids(1,3) by (cases ids) auto
  let ?first = "find (\<lambda>i. usableModels (Some snap) sel (profileAt c i) \<noteq> []) ids"
  have run: "Resolve (Some c) (Some snap) sel = resolveLoop c (Some snap) sel ids False"
    by (simp add: Resolve_def Inr)
  show ?thesis
  proof (cases ?first)
    case None
    then have none: "\<forall>p \<in> set ps. matchesSelector sel p \<longrightarrow> usableModels (Some snap) sel p = []"
      using all [of "\<lambda>p. usableModels (Some snap) sel p = []"] by (auto simp: find_None_iff)
    have lacks: "(\<exists>i \<in> set ids. \<exists>j \<in> set (pfModelIDs (profileAt c i)). lacksCapability (Some snap) (requiredBy sel (profileAt c i)) j)
        \<longleftrightarrow> (\<exists>p \<in> set ps. matchesSelector sel p \<and> (\<exists>i \<in> set (pfModelIDs p). lacksCapability (Some snap) (requiredBy sel p) i))"
      using all [of "\<lambda>p. \<not> (\<exists>j \<in> set (pfModelIDs p). lacksCapability (Some snap) (requiredBy sel p) j)"] by blast
    show ?thesis unfolding run resolveLoop_spec None using none some by (simp add: lacks)
  next
    case (Some i)
    then have i: "i \<in> set ids" "usableModels (Some snap) sel (profileAt c i) \<noteq> []" by (auto simp: find_Some_iff)
    then obtain p where p: "p \<in> set ps" "matchesSelector sel p" "i = pfID p" by (auto simp: ids(3))
    have "usableModels (Some snap) sel q = []" if q: "q \<in> set ps" "matchesSelector sel q" "pfID q < pfID p" for q
      using find_sorted [OF Some ids(2), of "pfID q"] q p(3) by (auto simp: ids(3) at)
    with i p at show ?thesis unfolding run resolveLoop_spec Some by auto
  qed
qed

definition defaultCatalog :: Catalog where
  "defaultCatalog = (case DefaultCatalog of Inr c \<Rightarrow> c | Inl e \<Rightarrow> \<lparr>ctProfiles = [], ctTiers = []\<rparr>)"

lemma Resolve_first_usable_witness:
  "\<exists>r. Resolve (Some defaultCatalog) (Some defaultSnap)
       \<lparr>slProfileID = [], slTier = TierBalanced, slRequiredCapabilities = noCapabilities\<rparr> = Inr r \<and>
     rsProfileID r = IDBalancedCoder \<and> rsModels r \<noteq> []"
proof -
  let ?sel = "\<lparr>slProfileID = [], slTier = TierBalanced, slRequiredCapabilities = noCapabilities\<rparr>"
  have "isl DefaultCatalog = False" by code_simp
  then have new: "NewCatalog DefaultProfiles = Inr defaultCatalog"
    by (cases DefaultCatalog) (simp_all add: defaultCatalog_def DefaultCatalog_def)
  have "isl (Resolve (Some defaultCatalog) (Some defaultSnap) ?sel) = False" by code_simp
  then obtain r where r: "Resolve (Some defaultCatalog) (Some defaultSnap) ?sel = Inr r"
    by (cases "Resolve (Some defaultCatalog) (Some defaultSnap) ?sel") auto
  from Resolve_first_usable [OF new, of ?sel defaultSnap] r
  show ?thesis by (auto simp: DefaultProfiles_def matchesSelector_def)
qed

end
