(* ===== verification/Sdk.thy ===== *)
theory Sdk
  imports NewJob
begin

text \<open>
  Package \<open>internal/sdk\<close>: the client-side builder of routing hints (\<open>metadata.go\<close>). The hints go into
  the metadata of a request or into \<open>X-Router-*\<close> headers. The loops over Go maps here write distinct
  keys, so their order does not matter, and they follow the list.
\<close>

abbreviation keyProject :: string where "keyProject \<equiv> ''project_id''"
abbreviation keyTenant :: string where "keyTenant \<equiv> ''tenant_id''"
abbreviation keyTask :: string where "keyTask \<equiv> ''task_type''"
abbreviation keyRisk :: string where "keyRisk \<equiv> ''risk_level''"
abbreviation keySensitivity :: string where "keySensitivity \<equiv> ''sensitivity''"
abbreviation keyLatency :: string where "keyLatency \<equiv> ''latency_preference''"
abbreviation keyQuality :: string where "keyQuality \<equiv> ''quality_preference''"
abbreviation keyBudget :: string where "keyBudget \<equiv> ''budget_preference''"
abbreviation keyMode :: string where "keyMode \<equiv> ''router_mode''"
abbreviation keyJSONSchema :: string where "keyJSONSchema \<equiv> ''requires_json_schema''"

definition headerForKey :: "(string, string) gomap" where
  "headerForKey =
     [(keyProject, ''X-Router-Project-Id''), (keyTenant, ''X-Router-Tenant-Id''), (keyTask, ''X-Router-Task-Type''),
      (keyRisk, ''X-Router-Risk-Level''), (keySensitivity, ''X-Router-Sensitivity''),
      (keyLatency, ''X-Router-Latency-Preference''), (keyQuality, ''X-Router-Quality-Preference''),
      (keyBudget, ''X-Router-Budget-Preference''), (keyMode, ''X-Router-Mode'')]"

record Builder =
  bdVals :: "(string, string) gomap"
  bdFlags :: "(string, bool) gomap"
  bdExtra :: metadata

definition NewBuilder :: Builder where
  "NewBuilder = \<lparr>bdVals = [], bdFlags = [], bdExtra = []\<rparr>"

definition setHint :: "string \<Rightarrow> string \<Rightarrow> Builder \<Rightarrow> Builder" where
  "setHint key val b = (if val \<noteq> [] then b\<lparr>bdVals := mput key val (bdVals b)\<rparr> else b)"

definition hintProject :: "string \<Rightarrow> Builder \<Rightarrow> Builder" where "hintProject i b = setHint keyProject i b"
definition hintTenant :: "string \<Rightarrow> Builder \<Rightarrow> Builder" where "hintTenant i b = setHint keyTenant i b"
definition hintTask :: "TaskType \<Rightarrow> Builder \<Rightarrow> Builder" where "hintTask t b = setHint keyTask t b"
definition hintRisk :: "RiskLevel \<Rightarrow> Builder \<Rightarrow> Builder" where "hintRisk r b = setHint keyRisk r b"
definition hintSensitivity :: "Sensitivity \<Rightarrow> Builder \<Rightarrow> Builder" where "hintSensitivity s b = setHint keySensitivity s b"
definition hintLatency :: "string \<Rightarrow> Builder \<Rightarrow> Builder" where "hintLatency l b = setHint keyLatency l b"
definition hintQuality :: "string \<Rightarrow> Builder \<Rightarrow> Builder" where "hintQuality q b = setHint keyQuality q b"
definition hintBudget :: "string \<Rightarrow> Builder \<Rightarrow> Builder" where "hintBudget bg b = setHint keyBudget bg b"
definition hintMode :: "RouterMode \<Rightarrow> Builder \<Rightarrow> Builder" where "hintMode m b = setHint keyMode m b"

definition RequiresJSONSchema :: "bool \<Rightarrow> Builder \<Rightarrow> Builder" where
  "RequiresJSONSchema v b = b\<lparr>bdFlags := mput keyJSONSchema v (bdFlags b)\<rparr>"

definition setExtra :: "string \<Rightarrow> anyval \<Rightarrow> Builder \<Rightarrow> Builder" where
  "setExtra key val b = (if key \<noteq> [] then b\<lparr>bdExtra := mput key val (bdExtra b)\<rparr> else b)"

definition putAll :: "('v \<Rightarrow> anyval) \<Rightarrow> (string, 'v) gomap \<Rightarrow> metadata \<Rightarrow> metadata" where
  "putAll f m out = fold (\<lambda>e. mput (fst e) (f (snd e))) m out"

definition Build :: "Builder \<Rightarrow> metadata" where
  "Build b = putAll (\<lambda>v. v) (bdExtra b) (putAll ABool (bdFlags b) (putAll AStr (bdVals b) []))"

definition Headers :: "Builder \<Rightarrow> header" where
  "Headers b = fold (\<lambda>e h. case mget headerForKey (fst e) of
       Some hk \<Rightarrow> mput (canonicalFrom True hk) [snd e] h | None \<Rightarrow> h) (bdVals b) []"

definition addMissing :: "metadata \<Rightarrow> metadata \<Rightarrow> metadata" where
  "addMissing hints md = fold (\<lambda>e md. if mget md (fst e) = None then mput (fst e) (snd e) md else md) hints md"

definition Apply :: "Builder \<Rightarrow> ChatRequest option \<Rightarrow> ChatRequest option" where
  "Apply b req =
     (case req of None \<Rightarrow> None
      | Some r \<Rightarrow>
          let hints = Build b in
          if length hints = 0 then Some r else Some (r\<lparr>reqMetadata := addMissing hints (reqMetadata r)\<rparr>))"

section \<open>Laws\<close>

definition builderOK :: "Builder \<Rightarrow> bool" where
  "builderOK b \<longleftrightarrow> mwf (bdVals b) \<and> mwf (bdFlags b) \<and> mwf (bdExtra b)"

lemma builder_ops_ok:
  "builderOK NewBuilder" "builderOK b \<Longrightarrow> builderOK (setHint key val b)"
  "builderOK b \<Longrightarrow> builderOK (RequiresJSONSchema v b)" "builderOK b \<Longrightarrow> builderOK (setExtra key x b)"
  by (simp_all add: builderOK_def NewBuilder_def setHint_def RequiresJSONSchema_def setExtra_def gomap.wf_put gomap.wf_emp)

lemma putAll_get:
  "mwf m \<Longrightarrow> mget (putAll f m out) k = (case mget m k of Some v \<Rightarrow> Some (f v) | None \<Rightarrow> mget out k)"
proof (induction m arbitrary: out)
  case (Cons e m)
  then have "mwf m" "mget m (fst e) = None" by (auto simp: gomap_defs map_of_eq_None_iff)
  then show ?case
    using Cons.IH [of "mput (fst e) (f (snd e)) out"]
    by (cases e) (auto simp: putAll_def mget_def [of "e # m" for e] mget_def [symmetric] split: option.split)
qed (simp add: putAll_def mget_def)

lemma Build_get:
  "builderOK b \<Longrightarrow> mget (Build b) k =
    (case mget (bdExtra b) k of Some v \<Rightarrow> Some v
     | None \<Rightarrow> (case mget (bdFlags b) k of Some f \<Rightarrow> Some (ABool f) | None \<Rightarrow> map_option AStr (mget (bdVals b) k)))"
  by (auto simp: Build_def builderOK_def putAll_get gomap.get_emp split: option.split)

lemma addMissing_get:
  "mget (addMissing hints md) k = (case mget md k of Some v \<Rightarrow> Some v | None \<Rightarrow> mget hints k)"
proof (induction hints arbitrary: md)
  case (Cons e hints)
  obtain k0 v0 where e: "e = (k0, v0)" by (cases e)
  have "mget (e # hints) k = (if k0 = k then Some v0 else mget hints k)" by (simp add: e mget_def)
  then show ?case
    using Cons.IH by (auto simp: addMissing_def e split: option.split)
qed (simp add: addMissing_def mget_def split: option.split)

lemma Apply_get:
  "Apply b (Some r) = Some r' \<Longrightarrow>
   mget (reqMetadata r') k = (case mget (reqMetadata r) k of Some v \<Rightarrow> Some v | None \<Rightarrow> mget (Build b) k) \<and>
   r' = r\<lparr>reqMetadata := reqMetadata r'\<rparr>"
  by (cases "Build b = []") (auto simp: Apply_def Let_def addMissing_get gomap.get_emp split: option.split)

text \<open>A header name belongs to one key, and is canonical.\<close>

lemma canonical_headers: "\<forall>hk \<in> set (map snd headerForKey). canonicalFrom True hk = hk" "distinct (map snd headerForKey)"
  by code_simp+

lemma headerForKey_mem: "mget headerForKey k = Some hk \<Longrightarrow> (k, hk) \<in> set headerForKey"
  by (simp add: mget_def map_of_SomeD)

lemma headerForKey_inj:
  assumes "mget headerForKey k = Some hk" and "mget headerForKey k' = Some hk'"
    and "canonicalFrom True hk = canonicalFrom True hk'"
  shows "k = k'"
proof -
  note mem = headerForKey_mem [OF assms(1)] headerForKey_mem [OF assms(2)]
  then have "hk = hk'" using canonical_headers(1) assms(3) by (metis image_eqI set_map snd_conv)
  with mem canonical_headers(2) show ?thesis by (metis distinct_map fst_conv inj_onD snd_conv)
qed

lemma Headers_get:
  assumes "mwf (bdVals b)" and "mget (bdVals b) k = Some v" and "mget headerForKey k = Some hk"
  shows "mget (Headers b) (canonicalFrom True hk) = Some [v]"
proof -
  let ?step = "\<lambda>e h. case mget headerForKey (fst e) of
       Some hk \<Rightarrow> mput (canonicalFrom True hk) [snd e] h | None \<Rightarrow> (h :: header)"
  have "mget (fold ?step m h) (canonicalFrom True hk) =
      (case mget m k of Some v \<Rightarrow> Some [v] | None \<Rightarrow> mget h (canonicalFrom True hk))" if "mwf m" for m h
    using that
  proof (induction m arbitrary: h)
    case (Cons e m)
    obtain k0 v0 where e: "e = (k0, v0)" by (cases e)
    from Cons.prems have wf: "mwf m" and new: "mget m k0 = None" by (auto simp: e gomap_defs map_of_eq_None_iff)
    have here: "mget (e # m) k = (if k0 = k then Some v0 else mget m k)" by (simp add: e mget_def)
    have "mget (?step e h) (canonicalFrom True hk) = (if k0 = k then Some [v0] else mget h (canonicalFrom True hk))"
    proof (cases "mget headerForKey k0")
      case (Some hk0)
      then show ?thesis using headerForKey_inj [OF Some assms(3)] assms(3) by (auto simp: e)
    qed (use assms(3) in \<open>auto simp: e\<close>)
    then show ?case
      using Cons.IH [OF wf, of "?step e h"] new by (cases "k0 = k") (simp_all add: here split: option.split)
  qed (simp add: mget_def)
  with assms show ?thesis by (simp add: Headers_def)
qed

section \<open>Hints arrive\<close>

text \<open>The words that a hint may carry, and the field of the descriptor it ends in.\<close>

definition validHint :: "string \<Rightarrow> string \<Rightarrow> bool" where
  "validHint key v \<longleftrightarrow>
     (if key = keyProject \<or> key = keyTenant then v \<noteq> [] \<and> TrimSpace v = v
      else if key = keyTask then parseTaskType v \<noteq> None
      else if key = keyRisk then parseRiskLevel v \<noteq> None
      else if key = keySensitivity then parseSensitivity v \<noteq> None
      else if key = keyLatency then parseLatencyPreference v \<noteq> None
      else if key = keyQuality then parseQualityPreference v \<noteq> None
      else if key = keyBudget then parseBudgetPreference v \<noteq> None
      else key = keyMode \<and> parseRouterMode v \<noteq> None)"

definition hintField :: "string \<Rightarrow> JobDescriptor \<Rightarrow> string" where
  "hintField key j =
     (if key = keyProject then jProjectIDHint j else if key = keyTenant then jTenantIDHint j
      else if key = keyTask then jTaskTypeHint j else if key = keyRisk then jRiskLevelHint j
      else if key = keySensitivity then jSensitivityHint j else if key = keyLatency then jLatencyPreference j
      else if key = keyQuality then jQualityPreference j else if key = keyBudget then jBudgetPreference j
      else jRouterMode j)"

lemma validHint_key: "validHint key v \<Longrightarrow> mget headerForKey key \<noteq> None"
  by (auto simp: validHint_def headerForKey_def mget_def split: if_splits)

lemma trim_words: "\<forall>v \<in> {''simple_chat'', ''trivial_git'', ''simple_shell'', ''summarization'', ''simple_code_edit'',
    ''hard_code_debugging'', ''security_review'', ''database_migration'', ''long_context_analysis'', ''creative_copy'',
    ''unknown_high_risk'', ''low'', ''medium'', ''high'', ''critical'', ''none'', ''source_code'', ''pii'',
    ''secrets_possible'', ''fast'', ''balanced'', ''quality'', ''cheap'', ''normal'', ''auto'', ''premium'', ''disabled''}.
    TrimSpace v = v"
  by code_simp

lemma validHint_trim: "validHint key v \<Longrightarrow> TrimSpace v = v \<and> v \<noteq> []"
  using trim_words by (auto simp: validHint_def parse_defs split: if_splits)

text \<open>The names under which the descriptor looks for a hint, the SDK's key first.\<close>

definition hintNames :: "string \<Rightarrow> string list" where
  "hintNames key =
     (if key = keyProject then [''project_id'', ''project'', ''x-router-project-id'', ''x-project-id'']
      else if key = keyTenant then [''tenant_id'', ''tenant'', ''x-router-tenant-id'', ''x-tenant-id'']
      else if key = keyTask then [''task_type'', ''task'', ''x-router-task-type'']
      else if key = keyRisk then [''risk_level'', ''risk'', ''x-router-risk-level'']
      else if key = keySensitivity then [''sensitivity'', ''x-router-sensitivity'']
      else if key = keyLatency then [''latency_preference'', ''latency'', ''x-router-latency-preference'']
      else if key = keyQuality then [''quality_preference'', ''quality'', ''x-router-quality-preference'']
      else if key = keyBudget then [''budget_preference'', ''budget'', ''x-router-budget-preference'']
      else [''router_mode'', ''x-router-mode''])"

lemma parsed_hint: "parseIn vs v \<noteq> None \<Longrightarrow> override (parseIn vs v) d = v"
  by (auto simp: override_def parseIn_def split: if_splits)

lemma NewJobDescriptor_hints:
  assumes "jiRequest inp = Some req"
  defines "h \<equiv> \<lparr>dhMetadata = reqMetadata req, dhHeaders = jiHeaders inp\<rparr>"
  shows "jProjectIDHint (NewJobDescriptor inp) = (if jiProjectID inp = [] then firstString h (hintNames keyProject) else [])"
    "jTenantIDHint (NewJobDescriptor inp) = (if jiTenantID inp = [] then firstString h (hintNames keyTenant) else [])"
    "jTaskTypeHint (NewJobDescriptor inp) = override (parseTaskType (firstString h (hintNames keyTask))) []"
    "jRiskLevelHint (NewJobDescriptor inp) = override (parseRiskLevel (firstString h (hintNames keyRisk))) []"
    "\<exists>d. jSensitivityHint (NewJobDescriptor inp) = override (parseSensitivity (firstString h (hintNames keySensitivity))) d"
    "jLatencyPreference (NewJobDescriptor inp) = override (parseLatencyPreference (firstString h (hintNames keyLatency))) ''balanced''"
    "jQualityPreference (NewJobDescriptor inp) = override (parseQualityPreference (firstString h (hintNames keyQuality))) ''balanced''"
    "jBudgetPreference (NewJobDescriptor inp) = override (parseBudgetPreference (firstString h (hintNames keyBudget))) ''normal''"
    "jRouterMode (NewJobDescriptor inp) = override (parseRouterMode (firstString h (hintNames keyMode))) RouterModeAuto"
  by (simp_all add: NewJobDescriptor_def assms(1) Let_def hintNames_def h_def) blast

lemma hint_reaches_field:
  assumes valid: "validHint key v" and req: "jiRequest inp = Some req"
    and first: "firstString \<lparr>dhMetadata = reqMetadata req, dhHeaders = jiHeaders inp\<rparr> (hintNames key) = v"
    and auth: "jiTenantID inp = []" "jiProjectID inp = []"
  shows "hintField key (NewJobDescriptor inp) = v"
proof -
  note hints = NewJobDescriptor_hints [OF req]
  note parse = parseTaskType_def parseRiskLevel_def parseSensitivity_def parseLatencyPreference_def
    parseQualityPreference_def parseBudgetPreference_def parseRouterMode_def
  consider "key = keyProject" | "key = keyTenant" | "key = keyTask" | "key = keyRisk" | "key = keySensitivity"
    | "key = keyLatency" | "key = keyQuality" | "key = keyBudget" | "key = keyMode"
    using valid unfolding validHint_def by metis
  then show ?thesis
  proof cases
    case 5
    with hints(5) first valid show ?thesis by (auto simp: hintField_def validHint_def parse parsed_hint simp del: not_None_eq)
  qed (use first valid auth in \<open>simp_all add: hintField_def hints validHint_def parse parsed_hint del: not_None_eq\<close>)
qed

lemma metadata_hint_first:
  assumes "validHint key v" and "mget md key = Some (AStr v)"
  shows "firstString \<lparr>dhMetadata = md, dhHeaders = h\<rparr> (hintNames key) = v"
proof -
  have "\<exists>names. hintNames key = key # names"
    using assms(1) by (auto simp: hintNames_def validHint_def split: if_splits)
  then show ?thesis
    using validHint_trim [OF assms(1)] assms(2)
    by (auto simp: firstString.simps metadataString_def anyString_def Let_def)
qed

lemma firstString_skip: "metadataString (dhMetadata h) name = [] \<Longrightarrow> headerString (dhHeaders h) name = [] \<Longrightarrow>
    firstString h (name # names) = firstString h names"
  by (simp add: firstString.simps)

lemma firstString_header: "metadataString (dhMetadata h) name = [] \<Longrightarrow> headerString (dhHeaders h) name = v \<Longrightarrow> v \<noteq> [] \<Longrightarrow>
    firstString h (name # names) = v"
  by (simp add: firstString.simps)

text \<open>Where a key's header stands among the names: after names that are no header names.\<close>

definition headerName :: "string \<Rightarrow> string" where
  "headerName hk = ToLower hk"

definition plainName :: "string \<Rightarrow> bool" where
  "plainName name \<longleftrightarrow> \<not> prefix ''x-'' (ToLower name)"

lemma header_names: "\<forall>(key, hk) \<in> set headerForKey. prefix ''x-'' (ToLower (headerName hk)) \<and>
    canonicalFrom True (headerName hk) = hk \<and>
    (\<exists>i < length (hintNames key). hintNames key ! i = headerName hk \<and> list_all plainName (take i (hintNames key)))"
  by code_simp

lemma headerString_plain: "plainName name \<Longrightarrow> headerString h name = []"
  by (simp add: headerString_def plainName_def)

lemma firstString_after_plain:
  assumes "\<And>name. name \<in> set names \<Longrightarrow> metadataString (dhMetadata h) name = []"
    and "i < length names" and "list_all plainName (take i names)" and "headerString (dhHeaders h) (names ! i) = v" and "v \<noteq> []"
  shows "firstString h names = v"
  using assms
proof (induction names arbitrary: i)
  case (Cons name names)
  show ?case
  proof (cases i)
    case 0
    with Cons.prems show ?thesis by (simp add: firstString_header)
  next
    case (Suc j)
    with Cons.prems have "headerString (dhHeaders h) name = []" by (simp add: headerString_plain)
    with Cons.prems Suc show ?thesis
      using Cons.IH [of j] by (simp add: firstString_skip)
  qed
qed simp

lemma header_hint_first:
  assumes valid: "validHint key v" and hk: "mget headerForKey key = Some hk" and h: "mget h hk = Some [v]"
    and md: "\<And>name. name \<in> set (hintNames key) \<Longrightarrow> metadataString md name = []"
  shows "firstString \<lparr>dhMetadata = md, dhHeaders = h\<rparr> (hintNames key) = v"
proof -
  obtain i where i: "i < length (hintNames key)" "hintNames key ! i = headerName hk" "list_all plainName (take i (hintNames key))"
    and name: "prefix ''x-'' (ToLower (headerName hk))" "canonicalFrom True (headerName hk) = hk"
    using header_names headerForKey_mem [OF hk] by fastforce
  have "h \<noteq> []" using h by (auto simp: mget_def)
  then have "headerString h (headerName hk) = v"
    using name h validHint_trim [OF valid] by (simp add: headerString_def headerGet_def)
  with i md validHint_trim [OF valid] show ?thesis by (intro firstString_after_plain [of _ _ i]) simp_all
qed

text \<open>
  C34: hints survive the way from the SDK to the router. For a hint with a word of its vocabulary (a
  tenant or project name without surrounding blanks, and no authenticated tenant or project):
  applied to a request whose metadata has no such key, and not shadowed by an escape-hatch value, it
  ends in its field of the descriptor; sent as a header with a request whose metadata names no
  variant of the hint, it ends there as well. Metadata that the caller has set is never overwritten.
\<close>

theorem sdk_hints_arrive:
  assumes "builderOK b" and "mget (bdVals b) key = Some v" and "validHint key v"
    and "jiRequest inp = Some req" and "jiTenantID inp = []" and "jiProjectID inp = []"
  shows "(mget (reqMetadata req) key = None \<and> mget (bdExtra b) key = None \<and> mget (bdFlags b) key = None \<longrightarrow>
      hintField key (NewJobDescriptor (inp\<lparr>jiRequest := Apply b (Some req)\<rparr>)) = v) \<and>
    ((\<forall>name \<in> set (hintNames key). metadataString (reqMetadata req) name = []) \<longrightarrow>
      hintField key (NewJobDescriptor (inp\<lparr>jiHeaders := Headers b\<rparr>)) = v) \<and>
    (\<forall>k w. mget (reqMetadata req) k = Some w \<longrightarrow>
      (\<exists>req'. Apply b (Some req) = Some req' \<and> mget (reqMetadata req') k = Some w))"
proof (intro conjI impI allI)
  have "\<exists>req'. Apply b (Some req) = Some req'" by (simp add: Apply_def Let_def)
  then obtain req' where req': "Apply b (Some req) = Some req'" by blast
  note get = Apply_get [OF req']
  show "\<exists>req'. Apply b (Some req) = Some req' \<and> mget (reqMetadata req') k = Some w"
    if "mget (reqMetadata req) k = Some w" for k w using get [of k] req' that by simp
  assume "mget (reqMetadata req) key = None \<and> mget (bdExtra b) key = None \<and> mget (bdFlags b) key = None"
  then have "mget (reqMetadata req') key = Some (AStr v)"
    using get [of key] Build_get [OF assms(1), of key] assms(2) by simp
  with assms(3,5,6) show "hintField key (NewJobDescriptor (inp\<lparr>jiRequest := Apply b (Some req)\<rparr>)) = v"
    by (intro hint_reaches_field metadata_hint_first) (simp_all add: req' metadata_hint_first)
next
  assume names: "\<forall>name \<in> set (hintNames key). metadataString (reqMetadata req) name = []"
  obtain hk where hk: "mget headerForKey key = Some hk" using validHint_key [OF assms(3)] by blast
  have "canonicalFrom True hk = hk" using canonical_headers(1) headerForKey_mem [OF hk] by force
  then have "mget (Headers b) hk = Some [v]"
    using Headers_get [OF _ assms(2) hk] assms(1) by (simp add: builderOK_def)
  then have "firstString \<lparr>dhMetadata = reqMetadata req, dhHeaders = Headers b\<rparr> (hintNames key) = v"
    using names by (intro header_hint_first [OF assms(3) hk]) simp_all
  with assms(3-6) show "hintField key (NewJobDescriptor (inp\<lparr>jiHeaders := Headers b\<rparr>)) = v"
    by (intro hint_reaches_field) simp_all
qed

lemma sdk_hints_arrive_witness:
  "jRiskLevelHint (NewJobDescriptor \<lparr>jiRequestID = ''r'', jiTenantID = [], jiProjectID = [],
     jiHeaders = Headers (hintRisk RiskHigh NewBuilder), jiRequest = Some zeroRequest\<rparr>) = RiskHigh"
proof -
  have ok: "builderOK (hintRisk RiskHigh NewBuilder)" by (simp add: hintRisk_def builder_ops_ok)
  have val: "mget (bdVals (hintRisk RiskHigh NewBuilder)) keyRisk = Some RiskHigh"
    by (simp add: hintRisk_def setHint_def NewBuilder_def)
  have "validHint keyRisk RiskHigh" by (simp add: validHint_def parse_defs)
  from sdk_hints_arrive [OF ok val this, of "\<lparr>jiRequestID = ''r'', jiTenantID = [], jiProjectID = [],
      jiHeaders = [], jiRequest = Some zeroRequest\<rparr>" zeroRequest]
  show ?thesis
    by (simp add: hintField_def zeroRequest_def metadataString_def mget_def)
qed

end
