(* ===== verification/HintLaws.thy ===== *)
theory HintLaws
  imports Sdk Defaults
begin

text \<open>
  What the hints of a request do to its routing: the engine reads neither the preferences for
  latency, quality and budget nor the hints for task, sensitivity, tenant and project.
\<close>

named_theorems unread "what a function of the engine gives does not depend on the hints"

text \<open>A descriptor with the advisory fields of another.\<close>

definition withHints :: "JobDescriptor \<Rightarrow> JobDescriptor \<Rightarrow> JobDescriptor" where
  "withHints j' j = j\<lparr>jTenantIDHint := jTenantIDHint j', jProjectIDHint := jProjectIDHint j',
     jTaskTypeHint := jTaskTypeHint j', jSensitivityHint := jSensitivityHint j', jLatencyPreference := jLatencyPreference j',
     jQualityPreference := jQualityPreference j', jBudgetPreference := jBudgetPreference j', jMetadata := jMetadata j'\<rparr>"

lemma unread_fields [unread]:
  "jRouterMode (withHints j' j) = jRouterMode j" "jExplicitModel (withHints j' j) = jExplicitModel j"
  "jTaskType (withHints j' j) = jTaskType j" "jRiskLevel (withHints j' j) = jRiskLevel j"
  "jConservative (withHints j' j) = jConservative j" "jSensitivity (withHints j' j) = jSensitivity j"
  "jPromptTokensEstimate (withHints j' j) = jPromptTokensEstimate j"
  "(withHints j' j)\<lparr>jConservative := c\<rparr> = withHints j' (j\<lparr>jConservative := c\<rparr>)"
  by (simp_all add: withHints_def)

lemma unread_requirements [unread]:
  "jRequiresToolUse (withHints j' j) = jRequiresToolUse j" "jRequiresJSONSchema (withHints j' j) = jRequiresJSONSchema j"
  "jRequiresVision (withHints j' j) = jRequiresVision j" "jRequiresLargeContext (withHints j' j) = jRequiresLargeContext j"
  "jMaxOutputTokensEstimate (withHints j' j) = jMaxOutputTokensEstimate j"
  "jTaskConfidence (withHints j' j) = jTaskConfidence j" "jRequestID (withHints j' j) = jRequestID j"
  "jTenantID (withHints j' j) = jTenantID j" "jProjectID (withHints j' j) = jProjectID j"
  "jKeywords (withHints j' j) = jKeywords j" "jFilesTouched (withHints j' j) = jFilesTouched j"
  by (simp_all add: withHints_def)

lemma unread_leaves [unread]:
  "requiredCapabilities (withHints j' j) s = requiredCapabilities j s"
  "estimateCostMicroUSD m (withHints j' j) = estimateCostMicroUSD m j"
  "conservativeForJob e (withHints j' j) = conservativeForJob e j"
  "evaluationInput (withHints j' j) = evaluationInput j"
  "routeID (withHints j' j) s' = routeID j s'"
  "resolveTimeout pol r (withHints j' j) = resolveTimeout pol r j"
  by (simp_all only: requiredCapabilities_def estimateCostMicroUSD_def conservativeForJob_def
        evaluationInput_def routeID_def resolveTimeout_def unread)

lemma unread_filter [unread]:
  "MinimumTierForTask (withHints j' j) r = MinimumTierForTask j r"
  "hardFilter m (withHints j' j) r h mt = hardFilter m j r h mt"
  by (simp_all only: MinimumTierForTask_def hardFilter_def unread)

lemma unread_FilterCandidates [unread]:
  "FilterCandidates (withHints j' j) r sn h s = FilterCandidates j r sn h s"
  by (simp only: FilterCandidates_def unread)

lemma unread_score [unread]:
  "scoreOne m (withHints j' j) mt h w mc ml = scoreOne m j mt h w mc ml"
  "validFallback m m' (withHints j' j) r = validFallback m m' j r"
  "resolveVerifier (withHints j' j) r = resolveVerifier j r"
  "evaluatePolicy pol (withHints j' j) = evaluatePolicy pol j"
  by (simp_all only: scoreOne_def validFallback_def resolveVerifier_def evaluatePolicy_def unread)

lemma unread_ScoreCandidates [unread]:
  "ScoreCandidates srt ms (withHints j' j) mt h w = ScoreCandidates srt ms j mt h w"
  "BuildFallbackChain m sc (withHints j' j) r = BuildFallbackChain m sc j r"
  "buildReasons (withHints j' j) ev res sc m fb = buildReasons j ev res sc m fb"
  by (simp_all only: ScoreCandidates_def BuildFallbackChain_def buildReasons_def unread)

lemma unread_decide [unread]:
  "decideDisabled (withHints j' j) pol sn = decideDisabled j pol sn"
  "decidePinned m src (withHints j' j) ev sn = decidePinned m src j ev sn"
  "decideRouted srt e (withHints j' j) pol ev sn h s = decideRouted srt e j pol ev sn h s"
  by (simp_all only: decideDisabled_def decidePinned_def decideRouted_def unread)

lemma Decide_ignores_hints:
  "Decide srt e (withHints j' j) pol h s = map_prod (withHints j') id (Decide srt e j pol h s)"
proof (cases "storeGet (enRegistry e)")
  case (Inr sn)
  show ?thesis
  proof (cases "jRouterMode j = RouterModeDisabled")
    case False
    then show ?thesis by (simp add: Decide_def Inr Let_def unread split: option.split)
  qed (simp add: Decide_def Inr Let_def unread)
qed (simp add: Decide_def)

section \<open>From the request to the decision\<close>

text \<open>The metadata keys that reach the routing.\<close>

definition routingKeys :: "string list" where
  "routingKeys = [''tools'', ''tool_choice'', ''function_call'', ''functions'', ''json_schema'', ''schema'', ''vision'',
     ''image'', ''modalities'', ''large_context'', ''long_context'', ''context_tokens'', ''requires_json_schema'',
     ''risk_level'', ''risk'', ''x-router-risk-level'', ''x_router_risk_level'', ''router_mode'', ''x-router-mode'',
     ''x_router_mode'']"

definition routingHeaders :: "string list" where
  "routingHeaders = [''X-Router-Risk-Level'', ''X-Router-Mode'']"

lemma metadataString_cong:
  "(\<And>k. k \<in> {key, ReplaceByte (CHR ''-'') (CHR ''_'') key} \<Longrightarrow> mget md k = mget md' k) \<Longrightarrow>
   metadataString md key = metadataString md' key"
  by (simp add: metadataString_def)

lemma metadataTruthy_cong:
  "(\<And>k. k \<in> set ks \<Longrightarrow> mget md k = mget md' k) \<Longrightarrow> metadataTruthy md ks = metadataTruthy md' ks"
  unfolding metadataTruthy_def by (induction ks) auto

abbreviation riskNames :: "string list" where "riskNames \<equiv> [''risk_level'', ''risk'', ''x-router-risk-level'']"
abbreviation modeNames :: "string list" where "modeNames \<equiv> [''router_mode'', ''x-router-mode'']"

lemma routing_names:
  "\<forall>k \<in> set (riskNames @ modeNames). k \<in> set routingKeys \<and> ReplaceByte (CHR ''-'') (CHR ''_'') k \<in> set routingKeys \<and>
     (prefix ''x-'' (ToLower k) \<longrightarrow> canonicalFrom True k \<in> set routingHeaders)"
  by code_simp

lemma headerString_cong:
  "mget h (canonicalFrom True key) = mget h' (canonicalFrom True key) \<Longrightarrow> headerString h key = headerString h' key"
  by (auto simp: headerString_def headerGet_def mget_def TrimSpace_Nil)

lemma firstString_cong:
  assumes "\<And>k. k \<in> set ks \<Longrightarrow> metadataString (dhMetadata h) k = metadataString (dhMetadata h') k"
    and "\<And>k. k \<in> set ks \<Longrightarrow> headerString (dhHeaders h) k = headerString (dhHeaders h') k"
  shows "firstString h ks = firstString h' ks"
  using assms by (induction ks) (simp_all add: firstString.simps Let_def)

lemma ExtractFromRequest_cong:
  assumes "\<And>k. k \<in> set routingKeys \<Longrightarrow> mget md k = mget (reqMetadata req) k"
  shows "ExtractFromRequest (req\<lparr>reqMetadata := md\<rparr>) = ExtractFromRequest req"
proof -
  have "metadataTruthy md ks = metadataTruthy (reqMetadata req) ks" if "set ks \<subseteq> set routingKeys" for ks
    using that assms by (intro metadataTruthy_cong) auto
  then show ?thesis
    by (simp add: ExtractFromRequest_def ExtractFromMessages_def extractHints_def routingKeys_def)
qed

lemma unread_hints_only:
  assumes req: "jiRequest inp = Some req"
    and md: "\<And>k. k \<in> set routingKeys \<Longrightarrow> mget md k = mget (reqMetadata req) k"
    and hd: "\<And>k. k \<in> set routingHeaders \<Longrightarrow> mget h k = mget (jiHeaders inp) k"
  defines "inp' \<equiv> inp\<lparr>jiHeaders := h, jiRequest := Some (req\<lparr>reqMetadata := md\<rparr>)\<rparr>"
  shows "NewJobDescriptor inp' = withHints (NewJobDescriptor inp') (NewJobDescriptor inp)"
proof -
  let ?h = "\<lparr>dhMetadata = reqMetadata req, dhHeaders = jiHeaders inp\<rparr>"
  have names: "firstString \<lparr>dhMetadata = md, dhHeaders = h\<rparr> ks = firstString ?h ks"
    if ks: "set ks \<subseteq> set (riskNames @ modeNames)" for ks
  proof (rule firstString_cong)
    fix k assume "k \<in> set ks"
    with ks have "k \<in> set (riskNames @ modeNames)" by blast
    with routing_names have k: "k \<in> set routingKeys" "ReplaceByte (CHR ''-'') (CHR ''_'') k \<in> set routingKeys"
      "prefix ''x-'' (ToLower k) \<longrightarrow> canonicalFrom True k \<in> set routingHeaders" by blast+
    have "metadataString md k = metadataString (reqMetadata req) k"
      using k(1,2) by (intro metadataString_cong md) blast
    then show "metadataString (dhMetadata \<lparr>dhMetadata = md, dhHeaders = h\<rparr>) k = metadataString (dhMetadata ?h) k"
      by simp
    have "headerString h k = headerString (jiHeaders inp) k"
    proof (cases "prefix ''x-'' (ToLower k)")
      case True
      with k(3) show ?thesis by (intro headerString_cong hd) blast
    qed (simp add: headerString_def)
    then show "headerString (dhHeaders \<lparr>dhMetadata = md, dhHeaders = h\<rparr>) k = headerString (dhHeaders ?h) k" by simp
  qed
  note names = names [of riskNames] names [of modeNames]
  have truthy: "hasTruthyHint md ''requires_json_schema'' = hasTruthyHint (reqMetadata req) ''requires_json_schema''"
    using md [of "''requires_json_schema''"] by (simp add: hasTruthyHint_def routingKeys_def)
  have f: "ExtractFromRequest (req\<lparr>reqMetadata := md\<rparr>) = ExtractFromRequest req"
    using md by (rule ExtractFromRequest_cong)
  have "intPointerField (Some (req\<lparr>reqMetadata := md\<rparr>)) n = intPointerField (Some req) n" for n
    by (simp add: intPointerField_def)
  then have "maxOutputEstimateFromRequest (Some (req\<lparr>reqMetadata := md\<rparr>)) = maxOutputEstimateFromRequest (Some req)"
    by (simp only: maxOutputEstimateFromRequest_def)
  then have t: "EstimateChatRequestTokens (Some (req\<lparr>reqMetadata := md\<rparr>)) = EstimateChatRequestTokens (Some req)"
    by (simp add: EstimateChatRequestTokens_def)
  show ?thesis
    by (simp add: inp'_def NewJobDescriptor_def req Let_def withHints_def f t truthy names)
qed


definition hintedMetadata :: metadata where
  "hintedMetadata = [(''sensitivity'', AStr ''pii''), (''tenant_id'', AStr ''other''), (''latency_preference'', AStr ''fast'')]"

lemma hintedMetadata_advisory: "\<forall>k \<in> set routingKeys. mget hintedMetadata k = mget (reqMetadata zeroRequest) k"
  by code_simp


end
