(* ===== verification/OpenAIClient.thy ===== *)
theory OpenAIClient
  imports Chat
begin

text \<open>
  The provider clients: \<open>internal/provider/openai.go\<close> (\<open>Complete\<close>, and \<open>Stream\<close> with its reader of
  server-sent events) and \<open>mock.go\<close>. The HTTP client is a parameter, a function from a request to an
  error or a response; so are the JSON codec and \<open>net/url\<close>. The goroutine of a stream is the list of
  the chunks it hands over; \<open>sends n\<close> says whether the \<open>n\<close>-th of them is taken before the context of
  the request is done.
\<close>

section \<open>Requests and responses\<close>

record ErrorBody =
  ebMessage :: string
  ebType :: string
  ebCode :: string

record URL =
  urlScheme :: string
  urlHost :: string
  urlPath :: string
  urlRawQuery :: string
  urlFragment :: string

record HttpRequest =
  hqURL :: string
  hqHeaders :: "(string, string) gomap"
  hqBody :: string

text \<open>A response body is its bytes and, when reading it fails before the end, the error.\<close>

record HttpResponse =
  hsStatus :: int
  hsBody :: string
  hsReadError :: "string option"

text \<open>An error of \<open>client.Do\<close>: whether it is a network timeout, and whether the deadline of the call has passed.\<close>

record http_error =
  htErr :: provider_error
  htNetTimeout :: bool
  htDeadline :: bool

record Codec =
  cdMarshal :: "ChatRequest \<Rightarrow> string + string"
  cdResponse :: "string \<Rightarrow> string option \<Rightarrow> ChatResponse option"
  cdEnvelope :: "string \<Rightarrow> ErrorBody"
  cdUsage :: "string \<Rightarrow> (int \<times> int) option"
  cdParseURL :: "string \<Rightarrow> URL option"
  cdURLString :: "URL \<Rightarrow> string"
  cdNewRequest :: "string \<Rightarrow> string option"

type_synonym transport = "HttpRequest \<Rightarrow> http_error + HttpResponse"

record OpenAIAdapter =
  oaBaseURL :: string
  oaAPIKey :: string
  oaReferer :: string
  oaTitle :: string

definition sentinelText :: "sentinel \<Rightarrow> string" where
  "sentinelText s = (case s of
       ErrProviderTimeout \<Rightarrow> ''provider_timeout'' | ErrProviderRateLimit \<Rightarrow> ''provider_rate_limit''
     | ErrProviderAuth \<Rightarrow> ''provider_auth_error'' | ErrProvider5xx \<Rightarrow> ''provider_5xx''
     | ErrProviderBadReq \<Rightarrow> ''provider_bad_request'' | ErrModelUnavailable \<Rightarrow> ''model_unavailable''
     | ErrProviderBadResp \<Rightarrow> ''provider_bad_response'' | ErrStreamInterrupted \<Rightarrow> ''stream_interrupted''
     | ErrContextCanceled \<Rightarrow> ''context canceled'' | ErrContextDeadline \<Rightarrow> ''context deadline exceeded'')"

text \<open>\<open>fmt.Errorf("%w: ...")\<close> of a sentinel.\<close>

definition wrapErr :: "sentinel \<Rightarrow> string \<Rightarrow> provider_error" where
  "wrapErr s msg = PErr [s] (sentinelText s @ '': '' @ msg)"

section \<open>Where and how to call\<close>

definition chatCompletionsPath :: string where
  "chatCompletionsPath = ''/v1/chat/completions''"

definition TrimRightSlash :: "string \<Rightarrow> string" where
  "TrimRightSlash s = rev (dropWhile (\<lambda>c. c = CHR ''/'') (rev s))"

definition completionsPath :: "string \<Rightarrow> string" where
  "completionsPath path =
     (let base = TrimRightSlash path in
      if suffix chatCompletionsPath base then base
      else if suffix ''/v1'' base then base @ ''/chat/completions''
      else base @ chatCompletionsPath)"

definition chatCompletionsURL :: "Codec \<Rightarrow> string \<Rightarrow> provider_error + string" where
  "chatCompletionsURL cd baseURL =
     (if TrimSpace baseURL = [] then Inl (wrapErr ErrProviderBadReq ''missing base url'')
      else case cdParseURL cd baseURL of
        None \<Rightarrow> Inl (wrapErr ErrProviderBadReq ''invalid base url'')
      | Some u \<Rightarrow>
          if urlScheme u = [] \<or> urlHost u = [] then Inl (wrapErr ErrProviderBadReq ''invalid base url'')
          else Inr (cdURLString cd (u\<lparr>urlPath := completionsPath (urlPath u), urlRawQuery := [], urlFragment := []\<rparr>)))"

definition setCommonHeaders :: "OpenAIAdapter \<Rightarrow> (string, string) gomap \<Rightarrow> (string, string) gomap" where
  "setCommonHeaders a h0 =
     (let h1 = mput ''Content-Type'' ''application/json'' h0;
          h2 = (if oaAPIKey a \<noteq> [] then mput ''Authorization'' (''Bearer '' @ oaAPIKey a) h1 else h1);
          h3 = (if oaReferer a \<noteq> [] then mput ''Http-Referer'' (oaReferer a) h2 else h2)
      in if oaTitle a \<noteq> [] then mput ''X-Title'' (oaTitle a) h3 else h3)"

section \<open>Errors\<close>

definition isModelUnavailable :: "ErrorBody \<Rightarrow> bool" where
  "isModelUnavailable e =
     (let haystack = ToLower (joinWith '' '' [ebCode e, ebType e, ebMessage e])
      in Contains haystack ''model_not_found'' \<or> Contains haystack ''model_not_available'' \<or>
         Contains haystack ''model unavailable'' \<or> Contains haystack ''does not exist'' \<or> Contains haystack ''not found'')"

definition decodeErrorEnvelope :: "Codec \<Rightarrow> string \<Rightarrow> ErrorBody" where
  "decodeErrorEnvelope cd body = cdEnvelope cd (take 65536 body)"

definition mapOpenAIStatus :: "Codec \<Rightarrow> int \<Rightarrow> string \<Rightarrow> provider_error" where
  "mapOpenAIStatus cd status body =
     (let msg = ''provider status '' @ showInt status in
      if isModelUnavailable (decodeErrorEnvelope cd body) \<or> status = 404 then wrapErr ErrModelUnavailable msg
      else if status = 401 \<or> status = 403 then wrapErr ErrProviderAuth msg
      else if status = 429 then wrapErr ErrProviderRateLimit msg
      else if status \<ge> 500 then wrapErr ErrProvider5xx msg
      else if status \<ge> 400 then wrapErr ErrProviderBadReq msg
      else wrapErr ErrProviderBadResp msg)"

definition isTimeoutError :: "http_error \<Rightarrow> bool" where
  "isTimeoutError e \<longleftrightarrow> errIs (htErr e) ErrContextDeadline \<or> htNetTimeout e"

definition doError :: "string \<Rightarrow> string \<Rightarrow> http_error \<Rightarrow> provider_error" where
  "doError timedOut failed e =
     (if isTimeoutError e \<or> htDeadline e then wrapErr ErrProviderTimeout timedOut
      else PErr (wraps (htErr e)) (failed @ errText (htErr e)))"

section \<open>Complete\<close>

definition oaComplete :: "Codec \<Rightarrow> transport \<Rightarrow> OpenAIAdapter \<Rightarrow> NormalizedModelRequest \<Rightarrow> provider_error + ChatResponse option" where
  "oaComplete cd send a req =
     bindR (chatCompletionsURL cd (oaBaseURL a)) (\<lambda>endpoint.
       case cdMarshal cd (ToOpenAI (Some req)) of
         Inl e \<Rightarrow> Inl (PErr [] (''openai adapter: marshal request: '' @ e))
       | Inr body \<Rightarrow> (case cdNewRequest cd endpoint of
           Some e \<Rightarrow> Inl (PErr [] (''openai adapter: build request: '' @ e))
         | None \<Rightarrow> (case send \<lparr>hqURL = endpoint, hqHeaders = setCommonHeaders a [], hqBody = body\<rparr> of
             Inl e \<Rightarrow> Inl (doError ''request timed out'' ''openai adapter: request failed: '' e)
           | Inr resp \<Rightarrow>
               if hsStatus resp \<ge> 400 then Inl (mapOpenAIStatus cd (hsStatus resp) (hsBody resp))
               else case cdResponse cd (hsBody resp) (hsReadError resp) of
                 None \<Rightarrow> Inl (wrapErr ErrProviderBadResp ''decode response'')
               | Some out \<Rightarrow> Inr (Some out))))"

section \<open>Stream\<close>

definition zeroChunk :: StreamChunk where
  "zeroChunk = \<lparr>chData = [], chDone = False, chErr = None, chInputTokens = 0, chOutputTokens = 0\<rparr>"

definition parseSSEDataLine :: "Codec \<Rightarrow> string \<Rightarrow> StreamChunk option" where
  "parseSSEDataLine cd line0 =
     (let line = TrimSpace line0 in
      if \<not> prefix ''data:'' line then None
      else
        let payload = TrimSpace (drop (length ''data:'') line) in
        if payload = ''[DONE]'' then Some (zeroChunk\<lparr>chDone := True\<rparr>)
        else if payload = [] then None
        else Some (case cdUsage cd payload of
               None \<Rightarrow> zeroChunk\<lparr>chData := payload\<rparr>
             | Some (i, o') \<Rightarrow> zeroChunk\<lparr>chData := payload, chInputTokens := i, chOutputTokens := o'\<rparr>))"

definition lf :: char where "lf = CHR 0x0A"

text \<open>\<open>ReadString\<close>: the bytes up to and with the delimiter, and the rest; without a delimiter, all of them and the error.\<close>

definition readString :: "string \<Rightarrow> string \<times> string option" where
  "readString s =
     (if lf \<in> set s then (takeWhile (\<lambda>c. c \<noteq> lf) s @ [lf], Some (drop (Suc (length (takeWhile (\<lambda>c. c \<noteq> lf) s))) s))
      else (s, None))"

definition endChunk :: "string option \<Rightarrow> StreamChunk" where
  "endChunk readErr =
     (case readErr of
        None \<Rightarrow> zeroChunk\<lparr>chErr := Some (wrapErr ErrStreamInterrupted ''stream ended before done frame'')\<rparr>
      | Some e \<Rightarrow> zeroChunk\<lparr>chErr := Some (wrapErr ErrStreamInterrupted (''read stream: '' @ e))\<rparr>)"

definition handOver :: "(nat \<Rightarrow> bool) \<Rightarrow> nat \<Rightarrow> StreamChunk \<Rightarrow> StreamChunk list" where
  "handOver sends n c = (if sends n then [c] else [])"

lemma readString_shorter: "readString s = (line, Some rest) \<Longrightarrow> length rest < length s"
proof -
  assume r: "readString s = (line, Some rest)"
  then have "lf \<in> set s" by (simp add: readString_def split: if_splits)
  then have "s \<noteq> []" by auto
  with r show ?thesis by (auto simp: readString_def split: if_splits)
qed

text \<open>
  The loop of the goroutine over the unread bytes, \<open>n\<close> chunks into the stream. It returns where it
  sets \<open>doneSeen\<close>, so the end of the input is never reached with it set.
\<close>

function streamBody :: "Codec \<Rightarrow> (nat \<Rightarrow> bool) \<Rightarrow> string option \<Rightarrow> nat \<Rightarrow> string \<Rightarrow> StreamChunk list" where
  "streamBody cd sends readErr n s =
     (let (line, more) = readString s;
          continue = (\<lambda>n. case more of Some rest \<Rightarrow> streamBody cd sends readErr n rest
                                     | None \<Rightarrow> handOver sends n (endChunk readErr))
      in case (if length line > 0 then parseSSEDataLine cd line else None) of
           None \<Rightarrow> continue n
         | Some c \<Rightarrow>
             if \<not> sends n then []
             else if chDone c then [c]
             else c # continue (Suc n))"
  by pat_completeness auto

termination
  by (relation "measure (\<lambda>(_, _, _, _, s). length s)") (auto dest: sym readString_shorter)

declare streamBody.simps [simp del]

definition oaStream :: "Codec \<Rightarrow> transport \<Rightarrow> (nat \<Rightarrow> bool) \<Rightarrow> OpenAIAdapter \<Rightarrow> NormalizedModelRequest \<Rightarrow>
    provider_error + StreamChunk list" where
  "oaStream cd send sends a req =
     bindR (chatCompletionsURL cd (oaBaseURL a)) (\<lambda>endpoint.
       let outbound = (cloneRequest (Some req))\<lparr>nrStream := True\<rparr>;
           oreq = (ToOpenAI (Some outbound))\<lparr>reqStreamOptions := Some True\<rparr>
       in case cdMarshal cd oreq of
         Inl e \<Rightarrow> Inl (PErr [] (''openai adapter: marshal stream request: '' @ e))
       | Inr body \<Rightarrow> (case cdNewRequest cd endpoint of
           Some e \<Rightarrow> Inl (PErr [] (''openai adapter: build stream request: '' @ e))
         | None \<Rightarrow> (case send \<lparr>hqURL = endpoint,
               hqHeaders = mput ''Accept'' ''text/event-stream'' (setCommonHeaders a []), hqBody = body\<rparr> of
             Inl e \<Rightarrow> Inl (doError ''stream request timed out'' ''openai adapter: stream request failed: '' e)
           | Inr resp \<Rightarrow>
               if hsStatus resp \<ge> 400 then Inl (mapOpenAIStatus cd (hsStatus resp) (hsBody resp))
               else Inr (streamBody cd sends (hsReadError resp) 0 (hsBody resp)))))"

section \<open>The mock\<close>

definition mockComplete :: "Codec \<Rightarrow> transport \<Rightarrow> string \<Rightarrow> NormalizedModelRequest \<Rightarrow> provider_error + ChatResponse option" where
  "mockComplete cd send baseURL req =
     (case cdParseURL cd baseURL of
        None \<Rightarrow> Inl (PErr [] ''mock adapter: invalid base url'')
      | Some u \<Rightarrow> (case cdMarshal cd (ToOpenAI (Some req)) of
          Inl e \<Rightarrow> Inl (PErr [] (''mock adapter: marshal: '' @ e))
        | Inr body \<Rightarrow> (case cdNewRequest cd (baseURL @ ''/v1/chat/completions'') of
            Some e \<Rightarrow> Inl (PErr [] e)
          | None \<Rightarrow> (case send \<lparr>hqURL = baseURL @ ''/v1/chat/completions'',
                hqHeaders = mput ''Content-Type'' ''application/json'' [], hqBody = body\<rparr> of
              Inl e \<Rightarrow> if errIs (htErr e) ErrContextDeadline then Inl (PErr [ErrProviderTimeout] (sentinelText ErrProviderTimeout))
                       else Inl (htErr e)
            | Inr resp \<Rightarrow>
                if hsStatus resp = 429 then Inl (PErr [ErrProviderRateLimit] (sentinelText ErrProviderRateLimit))
                else if hsStatus resp \<ge> 500 then Inl (PErr [ErrProvider5xx] (sentinelText ErrProvider5xx))
                else if hsStatus resp \<ge> 400
                then Inl (PErr [] (''mock adapter: '' @ showInt (hsStatus resp) @ '': '' @ hsBody resp))
                else (case cdResponse cd (hsBody resp) (hsReadError resp) of
                  None \<Rightarrow> Inl (PErr [ErrProviderBadResp] (sentinelText ErrProviderBadResp))
                | Some out \<Rightarrow> Inr (Some out))))))"

section \<open>Adapters for the handler\<close>

text \<open>
  What the chat handler sees: \<open>waits\<close> is what waiting for the first chunk of an attempt ends with, and
  \<open>sends\<close> which chunks are taken.
\<close>

definition oaAdapter :: "Codec \<Rightarrow> transport \<Rightarrow> (nat \<Rightarrow> first_wait) \<Rightarrow> (nat \<Rightarrow> nat \<Rightarrow> bool) \<Rightarrow> OpenAIAdapter \<Rightarrow> Adapter" where
  "oaAdapter cd send waits sends a =
     \<lparr>adName = ''openai'', adComplete = oaComplete cd send a,
      adStream = Some (\<lambda>i req. map_sum (\<lambda>e. e) (Pair (waits i)) (oaStream cd send (sends i) a req))\<rparr>"

definition mockAdapter :: "Codec \<Rightarrow> transport \<Rightarrow> string \<Rightarrow> Adapter" where
  "mockAdapter cd send baseURL = \<lparr>adName = ''mock'', adComplete = mockComplete cd send baseURL, adStream = None\<rparr>"

section \<open>How a stream ends\<close>

definition dataChunk :: "StreamChunk \<Rightarrow> bool" where
  "dataChunk c \<longleftrightarrow> chErr c = None \<and> \<not> chDone c \<and> chData c \<noteq> []"

definition finalChunk :: "StreamChunk \<Rightarrow> bool" where
  "finalChunk c \<longleftrightarrow> (if chDone c then chErr c = None else \<exists>e. chErr c = Some e \<and> wraps e = [ErrStreamInterrupted])"

lemma parseSSEDataLine_chunk: "parseSSEDataLine cd line = Some c \<Longrightarrow> chErr c = None \<and> (chDone c \<or> dataChunk c)"
  by (auto simp: parseSSEDataLine_def zeroChunk_def dataChunk_def Let_def split: if_splits option.splits)

lemma endChunk_final: "finalChunk (endChunk e) \<and> \<not> chDone (endChunk e)"
  by (simp add: endChunk_def finalChunk_def zeroChunk_def wrapErr_def split: option.split)

lemma streamBody_ends:
  "\<forall>n. sends n \<Longrightarrow> \<exists>cs c. streamBody cd sends readErr n s = cs @ [c] \<and> list_all dataChunk cs \<and> finalChunk c"
proof (induction s arbitrary: n rule: length_induct)
  case (1 s)
  obtain line more where r: "readString s = (line, more)" by fastforce
  let ?continue = "\<lambda>n. case more of Some rest \<Rightarrow> streamBody cd sends readErr n rest
                                     | None \<Rightarrow> handOver sends n (endChunk readErr)"
  have cont: "\<exists>cs c. ?continue k = cs @ [c] \<and> list_all dataChunk cs \<and> finalChunk c" for k
  proof (cases more)
    case None
    then show ?thesis using 1(2) endChunk_final by (auto simp: handOver_def)
  next
    case (Some rest)
    then have "length rest < length s" using r by (simp add: readString_shorter)
    with 1 have "\<exists>cs c. streamBody cd sends readErr k rest = cs @ [c] \<and> list_all dataChunk cs \<and> finalChunk c"
      by blast
    then show ?thesis by (simp only: Some option.case)
  qed
  have sent: "sends n" using 1(2) by simp
  show ?case
  proof (cases "if length line > 0 then parseSSEDataLine cd line else None")
    case None
    then show ?thesis using cont [of n] r by (simp add: streamBody.simps [of _ _ _ _ s] Let_def)
  next
    case (Some c)
    then have c: "chErr c = None \<and> (chDone c \<or> dataChunk c)"
      using parseSSEDataLine_chunk [of cd line c] by (auto split: if_splits)
    obtain cs c' where more: "?continue (Suc n) = cs @ [c']" "list_all dataChunk cs" "finalChunk c'" using cont by blast
    show ?thesis
    proof (cases "chDone c")
      case True
      then show ?thesis using Some r c sent
        by (intro exI [of _ "[]"] exI [of _ c]) (simp add: streamBody.simps [of _ _ _ _ s] Let_def finalChunk_def)
    next
      case False
      then show ?thesis using Some r c sent more
        by (intro exI [of _ "c # cs"] exI [of _ c']) (simp add: streamBody.simps [of _ _ _ _ s] Let_def)
    qed
  qed
qed

end
