(* ===== verification/ClientProps.thy ===== *)
theory ClientProps
  imports OpenAIClient
begin

text \<open>
  The provider client against a reference reading of a stream: split the body at its line feeds, take
  the payload of each \<open>data:\<close> line, stop at \<open>[DONE]\<close>.
\<close>

section \<open>Lines\<close>

fun splitLF :: "string \<Rightarrow> string list" where
  "splitLF [] = [[]]"
| "splitLF (c # s) = (if c = lf then [] # splitLF s else (c # hd (splitLF s)) # tl (splitLF s))"

lemma splitLF_not_Nil: "splitLF s \<noteq> []"
  by (cases s) auto

lemma splitLF_last: "lf \<notin> set s \<Longrightarrow> splitLF s = [s]"
  by (induction s) auto

lemma splitLF_line: "lf \<in> set s \<Longrightarrow>
    splitLF s = takeWhile (\<lambda>c. c \<noteq> lf) s # splitLF (drop (Suc (length (takeWhile (\<lambda>c. c \<noteq> lf) s))) s)"
  by (induction s) auto

lemma readString_lines:
  assumes "readString s = (line, m)"
  shows "case m of None \<Rightarrow> splitLF s = [line]
      | Some rest \<Rightarrow> \<exists>l. line = l @ [lf] \<and> splitLF s = l # splitLF rest"
  using assms by (auto simp: readString_def splitLF_last splitLF_line split: if_splits option.splits)

section \<open>Payloads\<close>

definition payloadOf :: "string \<Rightarrow> string" where
  "payloadOf line = (if prefix ''data:'' (TrimSpace line) then TrimSpace (drop (length ''data:'') (TrimSpace line)) else [])"

definition payloads :: "string \<Rightarrow> string list" where
  "payloads s = filter (\<lambda>p. p \<noteq> []) (map payloadOf (splitLF s))"

definition chunkOf :: "Codec \<Rightarrow> string \<Rightarrow> StreamChunk" where
  "chunkOf cd p = (case cdUsage cd p of None \<Rightarrow> zeroChunk\<lparr>chData := p\<rparr>
     | Some (i, o') \<Rightarrow> zeroChunk\<lparr>chData := p, chInputTokens := i, chOutputTokens := o'\<rparr>)"

lemma parse_payload:
  "parseSSEDataLine cd line =
     (if payloadOf line = [] then None
      else if payloadOf line = ''[DONE]'' then Some (zeroChunk\<lparr>chDone := True\<rparr>)
      else Some (chunkOf cd (payloadOf line)))"
  by (simp add: parseSSEDataLine_def payloadOf_def chunkOf_def Let_def del: list.size)

lemma TrimSpace_lf: "TrimSpace (l @ [lf]) = TrimSpace l"
proof -
  have lf: "isSpaceByte lf" by (simp add: isSpaceByte_def lf_def)
  have "dropWhile isSpaceByte (l @ [lf]) = (if dropWhile isSpaceByte l = [] then [] else dropWhile isSpaceByte l @ [lf])"
    using lf by (induction l) auto
  then show ?thesis
    using lf by (cases "dropWhile isSpaceByte l = []") (simp_all add: TrimSpace_def del: dropWhile_eq_Nil_conv)
qed

lemma payloadOf_simps [simp]: "payloadOf (l @ [lf]) = payloadOf l" "payloadOf [] = []"
  by (simp_all add: payloadOf_def TrimSpace_lf)

abbreviation doneSeen :: "string \<Rightarrow> bool" where "doneSeen s \<equiv> ''[DONE]'' \<in> set (payloads s)"

abbreviation dataPayloads :: "string \<Rightarrow> string list" where
  "dataPayloads s \<equiv> takeWhile (\<lambda>p. p \<noteq> ''[DONE]'') (payloads s)"

lemma streamBody_payloads:
  "streamBody cd (\<lambda>_. True) readErr n s =
     map (chunkOf cd) (dataPayloads s) @ [if doneSeen s then zeroChunk\<lparr>chDone := True\<rparr> else endChunk readErr]"
proof (induction s arbitrary: n rule: length_induct)
  case (1 s)
  obtain line m where r: "readString s = (line, m)" by fastforce
  have parse: "(if length line > 0 then parseSSEDataLine cd line else None) = parseSSEDataLine cd line"
    by (simp add: parse_payload)
  show ?case
  proof (cases m)
    case None
    then have "splitLF s = [line]" using readString_lines [OF r] by simp
    with None r show ?thesis
      by (subst streamBody.simps) (simp add: parse parse_payload payloads_def handOver_def zeroChunk_def chunkOf_def split: option.split)
  next
    case (Some rest)
    then obtain l where l: "line = l @ [lf]" "splitLF s = l # splitLF rest"
      using readString_lines [OF r] by auto
    have IH: "streamBody cd (\<lambda>_. True) readErr k rest =
        map (chunkOf cd) (dataPayloads rest) @ [if doneSeen rest then zeroChunk\<lparr>chDone := True\<rparr> else endChunk readErr]" for k
      using 1 readString_shorter [OF r [unfolded Some]] by blast
    have "\<not> chDone (chunkOf cd p)" for p by (simp add: chunkOf_def zeroChunk_def split: option.split)
    then show ?thesis
      using r Some l by (subst streamBody.simps) (simp add: parse parse_payload payloads_def IH zeroChunk_def)
  qed
qed

section \<open>What the client gets\<close>

lemma drain_payloads:
  "\<forall>p \<in> set ps. p \<noteq> [] \<Longrightarrow> drainChunks (map (chunkOf cd) ps @ [c]) u =
     (map SseData ps @ fst (drainChunks [c] (fold (\<lambda>p. seenUsage (chunkOf cd p)) ps u)),
      snd (drainChunks [c] (fold (\<lambda>p. seenUsage (chunkOf cd p)) ps u)))"
proof (induction ps arbitrary: u)
  case (Cons p ps)
  have "chErr (chunkOf cd p) = None" "\<not> chDone (chunkOf cd p)" "chData (chunkOf cd p) = p"
    by (simp_all add: chunkOf_def zeroChunk_def split: option.split)
  with Cons show ?case by (simp add: Let_def sseChunk_def case_prod_unfold)
qed simp

definition truncation :: "string option \<Rightarrow> provider_error" where
  "truncation readErr = the (chErr (endChunk readErr))"

lemma stream_relays:
  "drainChunks (streamBody cd (\<lambda>_. True) readErr n body) u =
     (if doneSeen body
      then (map SseData (dataPayloads body) @ [SseData ''[DONE]''],
            fold (\<lambda>p. seenUsage (chunkOf cd p)) (dataPayloads body) u, None)
      else (map SseData (payloads body) @ [sseInterrupted (truncation readErr)], (0, 0), Some (truncation readErr)))"
proof -
  have data: "\<forall>p \<in> set (dataPayloads body). p \<noteq> []"
    by (auto simp: payloads_def dest: set_takeWhileD)
  have all: "dataPayloads body = payloads body" if "\<not> doneSeen body"
    unfolding takeWhile_eq_all_conv using that by blast
  have "seenUsage (zeroChunk\<lparr>chDone := True\<rparr>) v = v" for v by (simp add: seenUsage_def zeroChunk_def)
  moreover have "chErr (endChunk readErr) = Some (truncation readErr)"
    by (simp add: endChunk_def truncation_def zeroChunk_def split: option.split)
  ultimately have c: "drainChunks [zeroChunk\<lparr>chDone := True\<rparr>] v = ([SseData ''[DONE]''], v, None)"
      "drainChunks [endChunk readErr] v = ([sseInterrupted (truncation readErr)], (0, 0), Some (truncation readErr))" for v
    by (simp_all add: zeroChunk_def)
  show ?thesis
  proof (cases "doneSeen body")
    case True
    then have "streamBody cd (\<lambda>_. True) readErr n body = map (chunkOf cd) (dataPayloads body) @ [zeroChunk\<lparr>chDone := True\<rparr>]"
      by (simp only: streamBody_payloads if_True)
    with True show ?thesis by (simp only: drain_payloads [OF data] c if_True fst_conv snd_conv)
  next
    case False
    then have "streamBody cd (\<lambda>_. True) readErr n body = map (chunkOf cd) (dataPayloads body) @ [endChunk readErr]"
      by (simp only: streamBody_payloads if_False)
    with False show ?thesis
      by (simp only: drain_payloads [OF data [unfolded all [OF False]]] c all [OF False] if_False fst_conv snd_conv)
  qed
qed


section \<open>Which answers are worth a retry\<close>

definition retriableStatus :: "Codec \<Rightarrow> HttpResponse \<Rightarrow> bool" where
  "retriableStatus cd resp \<longleftrightarrow> (hsStatus resp = 429 \<or> hsStatus resp \<ge> 500) \<and>
     \<not> isModelUnavailable (decodeErrorEnvelope cd (hsBody resp))"

lemma mapOpenAIStatus_retriable:
  "isRetriable (mapOpenAIStatus cd (hsStatus resp) (hsBody resp)) \<longleftrightarrow> retriableStatus cd resp"
  by (auto simp: mapOpenAIStatus_def isRetriable_def retriableStatus_def errIs_def wrapErr_def Let_def)

lemma retryLoop_constant:
  assumes "int attempt \<le> raMaxRetries r"
  shows "rrAttempts (retryLoop r (\<lambda>_. None) (\<lambda>_. Inl e) attempt lastErr as ds) =
     (if isRetriable e then as @ [attempt..<nat (raMaxRetries r) + 1] else as @ [attempt])"
  using assms
proof (induction "nat (raMaxRetries r) - attempt" arbitrary: attempt lastErr as ds)
  case 0
  then have "attempt = nat (raMaxRetries r)" by simp
  with 0 show ?case
    by (simp add: retryLoop.simps [of r _ _ "nat (raMaxRetries r)"] retryLoop.simps [of r _ _ "Suc (nat (raMaxRetries r))"] Let_def
        split: option.split)
next
  case (Suc k)
  then have "int (Suc attempt) \<le> raMaxRetries r" "k = nat (raMaxRetries r) - Suc attempt" by simp_all
  note IH = Suc.hyps(1) [OF this(2) this(1)]
  from Suc.prems Suc.hyps(2) have "[attempt..<nat (raMaxRetries r) + 1] = attempt # [Suc attempt..<nat (raMaxRetries r) + 1]"
    by (simp add: upt_rec)
  with Suc.prems show ?case
    using IH by (simp add: retryLoop.simps [of r _ _ attempt] Let_def)
qed

text \<open>
  C32: an answer of the provider is retried exactly when it says that trying again can help. With
  retries around the client, a provider that keeps answering with an error status is asked again, up
  to the configured number of times, for 429 and 5xx unless the error says the model is unavailable;
  every other status ends the request after one attempt.
\<close>

theorem status_retries:
  assumes "0 \<le> raMaxRetries r" and "\<And>rq. send rq = Inr resp" and "hsStatus resp \<ge> 400"
    and "chatCompletionsURL cd (oaBaseURL a) = Inr endpoint"
    and "cdMarshal cd (ToOpenAI (Some req)) = Inr body" and "cdNewRequest cd endpoint = None"
  shows "rrAttempts (retryComplete r (\<lambda>_. None) (\<lambda>_. oaComplete cd send a req)) =
    (if retriableStatus cd resp then [0..<nat (raMaxRetries r) + 1] else [0])"
proof -
  have "oaComplete cd send a req = Inl (mapOpenAIStatus cd (hsStatus resp) (hsBody resp))"
    using assms(2-6) by (simp add: oaComplete_def)
  then show ?thesis
    using assms(1) by (simp add: retryComplete_def retryLoop_constant mapOpenAIStatus_retriable)
qed

definition demoCodec :: Codec where
  "demoCodec = \<lparr>cdMarshal = \<lambda>_. Inr ''{}'', cdResponse = \<lambda>_ _. None, cdEnvelope = \<lambda>s. \<lparr>ebMessage = s, ebType = [], ebCode = []\<rparr>,
     cdUsage = \<lambda>_. None, cdParseURL = \<lambda>_. Some \<lparr>urlScheme = ''https'', urlHost = ''h'', urlPath = [], urlRawQuery = [], urlFragment = []\<rparr>,
     cdURLString = urlPath, cdNewRequest = \<lambda>_. None\<rparr>"

text \<open>A 503 is tried three times; the same 503 whose message has \<open>not found\<close> in it, once.\<close>

lemma status_retries_witness:
  "let r = \<lparr>raMaxRetries = 2, raBaseDelay = 1\<rparr>;
       a = \<lparr>oaBaseURL = ''https://h'', oaAPIKey = [], oaReferer = [], oaTitle = []\<rparr>;
       tries = (\<lambda>msg. rrAttempts (retryComplete r (\<lambda>_. None)
         (\<lambda>_. oaComplete demoCodec (\<lambda>_. Inr \<lparr>hsStatus = 503, hsBody = msg, hsReadError = None\<rparr>) a zeroNormalized)))
   in tries ''overloaded'' = [0, 1, 2] \<and> tries ''upstream not found'' = [0]"
proof -
  let ?a = "\<lparr>oaBaseURL = ''https://h'', oaAPIKey = [], oaReferer = [], oaTitle = []\<rparr>"
  have url: "chatCompletionsURL demoCodec (oaBaseURL ?a) = Inr ''/v1/chat/completions''" by code_simp
  have marshal: "cdMarshal demoCodec = (\<lambda>_. Inr ''{}'')" "cdNewRequest demoCodec u = None" for u
    by (simp_all add: demoCodec_def)
  have dec: "decodeErrorEnvelope demoCodec m = \<lparr>ebMessage = m, ebType = [], ebCode = []\<rparr>" if "length m \<le> 65536" for m
    using that by (simp add: decodeErrorEnvelope_def demoCodec_def)
  have "\<not> isModelUnavailable \<lparr>ebMessage = ''overloaded'', ebType = [], ebCode = []\<rparr>"
    "isModelUnavailable \<lparr>ebMessage = ''upstream not found'', ebType = [], ebCode = []\<rparr>" by code_simp+
  then have st: "retriableStatus demoCodec \<lparr>hsStatus = 503, hsBody = ''overloaded'', hsReadError = None\<rparr>"
    "\<not> retriableStatus demoCodec \<lparr>hsStatus = 503, hsBody = ''upstream not found'', hsReadError = None\<rparr>"
    by (simp_all add: retriableStatus_def dec)
  note run = status_retries [of "\<lparr>raMaxRetries = 2, raBaseDelay = 1\<rparr>" _ _ demoCodec ?a, OF _ _ _ url,
      of "\<lambda>_. Inr \<lparr>hsStatus = 503, hsBody = m, hsReadError = None\<rparr>" "\<lparr>hsStatus = 503, hsBody = m, hsReadError = None\<rparr>" for m]
  show ?thesis
    using run [of "''overloaded''"] run [of "''upstream not found''"] st
    by (simp add: marshal upt_rec)
qed

end
