(* ===== verification/Handlers.thy ===== *)
theory Handlers
  imports Chat Outcomes EventLog
begin

text \<open>
  The other handlers of \<open>internal/server\<close>: the dry run (\<open>decision.go\<close>), outcome reports
  (\<open>outcomes.go\<close>), model discovery (\<open>models.go\<close>), liveness and readiness (\<open>healthz.go\<close>) and the data
  of the dashboard (\<open>dashboard.go\<close>). A reply is its status, headers and a body; JSON encoding and the
  HTML template stay outside, the functions the template calls are here.
\<close>

record 'b HReply =
  hrStatus :: int
  hrHeaders :: "(string, string) gomap"
  hrBody :: 'b

definition jsonReply :: "int \<Rightarrow> 'b \<Rightarrow> 'b HReply" where
  "jsonReply status b = \<lparr>hrStatus = status, hrHeaders = mput ''Content-Type'' ''application/json'' [], hrBody = b\<rparr>"

section \<open>The dry run\<close>

definition ExplainEnabled :: "header \<Rightarrow> bool" where
  "ExplainEnabled headers \<longleftrightarrow>
     ToLower (TrimSpace (headerGet headers ''X-Router-Explain'')) \<in> {''1'', ''true'', ''yes'', ''on''}"

datatype decision_body =
    DecisionError string string
  | Decision RouteDecision "JobDescriptor option"
  | DecisionPanic

record DecisionOptions =
  doEngine :: "Engine option"
  doPolicyCache :: "Cache option"

definition decisionReply :: "Caller \<Rightarrow> JobDescriptor \<Rightarrow> RouteDecision \<Rightarrow> engine_error option \<Rightarrow> decision_body HReply" where
  "decisionReply caller job dec err =
     (case err of
        Some ErrBlocked \<Rightarrow> jsonReply (if rdBlockStatus dec = 0 then 403 else rdBlockStatus dec) (Decision dec None)
      | Some (ErrModelNotFound m) \<Rightarrow>
          jsonReply 404 (DecisionError ''model_not_found'' (maskOutbound (engineErrText (ErrModelNotFound m))))
      | Some NilPanic \<Rightarrow> \<lparr>hrStatus = 0, hrHeaders = [], hrBody = DecisionPanic\<rparr>
      | Some e \<Rightarrow> jsonReply 422 (DecisionError ''no_route'' (maskOutbound (engineErrText e)))
      | None \<Rightarrow>
          let r = jsonReply 200 (Decision dec (if ExplainEnabled (caHeaders caller) then Some job else None));
              h = mput ''X-Router-Selected-Model'' (rdSelectedModel dec) (hrHeaders r)
          in r\<lparr>hrHeaders := (if rdPolicyVersion dec \<noteq> [] then mput ''X-Router-Policy-Version'' (rdPolicyVersion dec) h else h)\<rparr>)"

definition DecisionHandler :: "((ScoredCandidate \<Rightarrow> ScoredCandidate \<Rightarrow> bool) \<Rightarrow> ScoredCandidate list \<Rightarrow> ScoredCandidate list) \<Rightarrow>
    DecisionOptions \<Rightarrow> Caller \<Rightarrow> string + ChatRequest \<Rightarrow> decision_body HReply" where
  "DecisionHandler srt opts caller decoded =
     (case decoded of
        Inl e \<Rightarrow> jsonReply 400 (DecisionError ''invalid_request_error'' (maskOutbound e))
      | Inr req \<Rightarrow>
          if length (reqMessages req) = 0
          then jsonReply 400 (DecisionError ''invalid_request_error'' (maskOutbound ''messages cannot be empty''))
          else
            let job = jobOf caller req in
            (case doEngine opts of
               None \<Rightarrow> jsonReply 503 (DecisionError ''engine_unavailable'' (maskOutbound ''routing engine not configured''))
             | Some e \<Rightarrow>
                 let (job', dec, err) = Decide srt e job (lookupPolicy (doPolicyCache opts) job) (Some FullyHealthy) (reqStream req)
                 in decisionReply caller job' dec err))"

section \<open>Outcome reports\<close>

definition outcomeErrText :: "outcome_error \<Rightarrow> string" where
  "outcomeErrText e = (case e of
       ErrMissingRequestID \<Rightarrow> ''outcomes: request_id is required''
     | ErrInvalidVerdict \<Rightarrow> ''outcomes: verdict must be accepted|rejected|partial''
     | ErrInvalidRating \<Rightarrow> ''outcomes: rating must be between 1 and 5'')"

definition mapOutcomeError :: "outcome_error \<Rightarrow> int \<times> string" where
  "mapOutcomeError e = (case e of
       ErrMissingRequestID \<Rightarrow> (400, ''missing_request_id'')
     | ErrInvalidVerdict \<Rightarrow> (400, ''invalid_verdict'')
     | ErrInvalidRating \<Rightarrow> (400, ''invalid_rating''))"

datatype outcome_body = OutcomeErr string string | Recorded string

definition OutcomeHandler :: "int \<Rightarrow> string + Outcome \<Rightarrow> OutcomeStore option \<Rightarrow> outcome_body HReply \<times> OutcomeStore option" where
  "OutcomeHandler now decoded store =
     (case store of
        None \<Rightarrow> (jsonReply 503 (OutcomeErr ''outcomes_unavailable'' (maskOutbound ''outcome store not configured'')), None)
      | Some s \<Rightarrow> (case decoded of
          Inl e \<Rightarrow> (jsonReply 400 (OutcomeErr ''invalid_request_error'' (maskOutbound e)), Some s)
        | Inr o' \<Rightarrow> (case recordOutcome now o' s of
            (Some e, s') \<Rightarrow> (jsonReply (fst (mapOutcomeError e)) (OutcomeErr (snd (mapOutcomeError e)) (maskOutbound (outcomeErrText e))), Some s')
          | (None, s') \<Rightarrow> (jsonReply 202 (Recorded (oRequestID o')), Some s'))))"

section \<open>Model discovery\<close>

record ModelObject =
  moID :: string
  moObject :: string
  moCreated :: int
  moOwnedBy :: string

record ModelList =
  mlObject :: string
  mlData :: "ModelObject list"

text \<open>Seconds since 1970 of nanoseconds since Go's zero time.\<close>

definition unixSeconds :: "gotime \<Rightarrow> int" where
  "unixSeconds t = t div 1000000000 - 62135596800"

definition ModelsHandler :: "Engine option \<Rightarrow> ModelList HReply" where
  "ModelsHandler eng =
     (let auto = \<lparr>moID = ''auto'', moObject = ''model'', moCreated = 0, moOwnedBy = ''tokenizer''\<rparr>;
          listed = (case eng of None \<Rightarrow> []
            | Some e \<Rightarrow> (case enRegistry e of None \<Rightarrow> []
              | Some store \<Rightarrow> (case storeGet (Some store) of Inl err \<Rightarrow> []
                | Inr snap \<Rightarrow> map (\<lambda>m. \<lparr>moID = mID m, moObject = ''model'', moCreated = unixSeconds (createdAt snap),
                                     moOwnedBy = mProviderID m\<rparr>)
                    (EnabledModelsWithCapabilities (Some snap) noCapabilities))))
      in jsonReply 200 \<lparr>mlObject = ''list'', mlData = auto # listed\<rparr>)"

section \<open>Liveness and readiness\<close>

definition HealthzHandler :: "(string \<times> string) list HReply" where
  "HealthzHandler = jsonReply 200 [(''status'', ''ok'')]"

text \<open>A checker is its name and what \<open>Ready\<close> returns, an error text or nothing.\<close>

definition readyFailures :: "(string \<times> string option) list \<Rightarrow> (string, string) gomap" where
  "readyFailures checkers = fold (\<lambda>(name, e) failures. case e of Some t \<Rightarrow> mput name t failures | None \<Rightarrow> failures) checkers []"

definition ReadyzHandler :: "(string \<times> string option) list \<Rightarrow> (string \<times> (string, string) gomap) HReply" where
  "ReadyzHandler checkers =
     (let failures = readyFailures checkers in
      if length failures > 0 then jsonReply 503 (''not_ready'', failures) else jsonReply 200 (''ready'', []))"

section \<open>The dashboard\<close>

record SavingsSummary =
  ssActualUSD :: float64
  ssPremiumBaselineUSD :: float64
  ssSavedUSD :: float64
  ssSavedPct :: float64

record DashboardData =
  ddVersion :: string
  ddTotalRequests :: int
  ddTotalCostUSD :: float64
  ddSavings :: SavingsSummary
  ddRoutesByModel :: "ModelRow list"
  ddSpendByTenant :: "TenantRow list"
  ddProviderHealth :: "(string, float64) gomap"
  ddAcceptance :: "AcceptanceRow list"
  ddOutcomeCount :: int
  ddShadowSummary :: ComparisonSummary
  ddShadowRecent :: "ComparisonRecord list"
  ddRecentRequests :: "RequestLogRecord list"
  ddTaskFilter :: string

record DashboardOptions =
  dbSpend :: "SpendTracker option"
  dbHealth :: "Tracker option"
  dbOutcomes :: "OutcomeStore option"
  dbComparisons :: "ComparisonTracker option"
  dbRequestLog :: "RequestLogTracker option"
  dbVersion :: string
  dbPremiumIn :: int
  dbPremiumOut :: int

definition computeSavings :: "ModelRow list \<Rightarrow> float64 \<Rightarrow> int \<Rightarrow> int \<Rightarrow> SavingsSummary" where
  "computeSavings rows actualUSD premIn premOut =
     (let s = \<lparr>ssActualUSD = actualUSD, ssPremiumBaselineUSD = 0, ssSavedUSD = 0, ssSavedPct = 0\<rparr> in
      if premIn \<le> 0 \<and> premOut \<le> 0 then s
      else
        let premiumUSD = fold (\<lambda>r total. total + (of_int (mrInputTokens r) * of_int premIn +
              of_int (mrOutputTokens r) * of_int premOut) / 1000000000000) rows 0;
            s1 = s\<lparr>ssPremiumBaselineUSD := premiumUSD, ssSavedUSD := premiumUSD - actualUSD\<rparr>
        in if premiumUSD > 0 then s1\<lparr>ssSavedPct := (1 - actualUSD / premiumUSD) * 100\<rparr> else s1)"

text \<open>The orders in which the maps of the trackers are visited.\<close>

record RangeOrders =
  roModels :: "modelAccum range_order"
  roTenants :: "tenantAccum range_order"
  roRows :: "AcceptanceRow range_order"

definition buildDashboardData :: "RangeOrders \<Rightarrow> DashboardOptions \<Rightarrow> string \<Rightarrow> DashboardData" where
  "buildDashboardData rng opts taskFilter =
     (let noSavings = \<lparr>ssActualUSD = 0, ssPremiumBaselineUSD = 0, ssSavedUSD = 0, ssSavedPct = 0\<rparr>;
          d0 = \<lparr>ddVersion = dbVersion opts, ddTotalRequests = 0, ddTotalCostUSD = 0, ddSavings = noSavings,
                ddRoutesByModel = [], ddSpendByTenant = [], ddProviderHealth = [], ddAcceptance = [], ddOutcomeCount = 0,
                ddShadowSummary = zeroSummary, ddShadowRecent = [], ddRecentRequests = [], ddTaskFilter = taskFilter\<rparr>;
          d1 = (case dbSpend opts of None \<Rightarrow> d0
            | Some t \<Rightarrow> d0\<lparr>ddTotalRequests := TotalRequests (roModels rng) t, ddTotalCostUSD := TotalCostUSD (roModels rng) t,
                ddRoutesByModel := ByModel (roModels rng) t, ddSpendByTenant := ByTenant (roTenants rng) t,
                ddSavings := computeSavings (ByModel (roModels rng) t) (TotalCostUSD (roModels rng) t)
                  (dbPremiumIn opts) (dbPremiumOut opts)\<rparr>);
          d2 = (case dbHealth opts of None \<Rightarrow> d1 | Some t \<Rightarrow> d1\<lparr>ddProviderHealth := trackedProviders t\<rparr>);
          d3 = (case dbOutcomes opts of None \<Rightarrow> d2
            | Some s \<Rightarrow> d2\<lparr>ddOutcomeCount := int (outcomeCount s), ddAcceptance := Acceptance (roRows rng) taskFilter s\<rparr>);
          d4 = (case dbComparisons opts of None \<Rightarrow> d3
            | Some t \<Rightarrow> d3\<lparr>ddShadowSummary := comparisonSummary (Some t), ddShadowRecent := recentComparisons taskFilter (Some t)\<rparr>)
      in case dbRequestLog opts of None \<Rightarrow> d4
         | Some t \<Rightarrow> d4\<lparr>ddRecentRequests := recentRequests 50 (Some t)\<rparr>)"

text \<open>The JSON route; \<open>task\<close> is the query parameter.\<close>

definition dashboardData :: "RangeOrders \<Rightarrow> DashboardOptions \<Rightarrow> string \<Rightarrow> DashboardData HReply" where
  "dashboardData rng opts task = jsonReply 200 (buildDashboardData rng opts task)"

text \<open>The functions of the template.\<close>

definition tmplUSD :: "float64 \<Rightarrow> string" where "tmplUSD v = ''$'' @ fmtFixed 6 v"
definition tmplPct :: "float64 \<Rightarrow> string" where "tmplPct v = fmtFixed 0 (v * 100) @ ''%''"

definition tmplHealthClass :: "float64 \<Rightarrow> string" where
  "tmplHealthClass v = (if v \<ge> 9 / 10 then ''ok'' else if v \<ge> 1 / 2 then ''warn'' else ''bad'')"

definition tmplBar :: "int \<Rightarrow> int \<Rightarrow> string" where
  "tmplBar requests all =
     (if all = 0 then ''0%'' else fmtFixed 0 (of_int requests / of_int all * 100) @ ''%'')"

end
