(* ===== verification/HandlerProps.thy ===== *)
theory HandlerProps
  imports Handlers EngineProps
begin

text \<open>
  The handlers against the rest of the program: the dry run against the chat handler, the savings of
  the dashboard against the events behind them, model discovery against pinning.
\<close>

section \<open>The dry run\<close>

lemma routeRequest_no_cache:
  "csCache st = None \<Longrightarrow> fst (routeRequest env opts e req job st) =
     (case Decide (ceSort env) e job (lookupPolicy (coPolicyCache opts) job) (Some (healthSnapshot st)) (reqStream req) of
        (job', dec, err) \<Rightarrow> \<lparr>roJob = job', roPolicy = lookupPolicy (coPolicyCache opts) job, roDecision = dec, roError = err\<rparr>)"
  by (simp add: routeRequest_def cacheProbe_def Let_def case_prod_unfold)

text \<open>
  C11: the dry run answers what the chat handler would do. Without a decision cache and with every
  provider healthy, \<open>POST /router/decision\<close> reports the decision and error that routing the same
  request of the same caller gives, with the same status when the policy blocks the request or the
  pinned model does not exist, and with the descriptor when it is asked to explain. It ignores the
  budget, and the health of the providers.
\<close>

theorem dry_run_matches_chat:
  fixes env :: ChatEnv and caller :: Caller
  assumes "doEngine d = Some e" and "doPolicyCache d = coPolicyCache opts" and "reqMessages req \<noteq> []"
    and "csCache st = None" and "healthSnapshot st = FullyHealthy"
  defines "ro \<equiv> fst (routeRequest env opts e req (jobOf caller req) st)"
    and "dry \<equiv> DecisionHandler (ceSort env) d caller (Inr req)"
  shows "dry = decisionReply caller (roJob ro) (roDecision ro) (roError ro) \<and>
    (roError ro = None \<longrightarrow> hrStatus dry = 200 \<and>
       hrBody dry = Decision (roDecision ro) (if ExplainEnabled (caHeaders caller) then Some (roJob ro) else None)) \<and>
    (\<forall>err st'. roError ro = Some err \<and> (err = ErrBlocked \<or> (\<exists>m. err = ErrModelNotFound m)) \<longrightarrow>
       hrStatus dry = reStatus (fst (writeRouteError env ro err st')))"
proof -
  obtain job' dec err where D: "Decide (ceSort env) e (jobOf caller req)
      (lookupPolicy (coPolicyCache opts) (jobOf caller req)) (Some FullyHealthy) (reqStream req) = (job', dec, err)"
    by (metis prod_cases3)
  have ro: "roJob ro = job'" "roDecision ro = dec" "roError ro = err"
    using D assms(4,5) by (simp_all add: ro_def routeRequest_no_cache)
  have dry: "dry = decisionReply caller job' dec err"
    using D assms(1-3) by (simp add: dry_def DecisionHandler_def Let_def)
  show ?thesis
    by (auto simp: ro dry decisionReply_def jsonReply_def writeRouteError_def writeError_def Let_def split: engine_error.split)
qed

definition dryEnv :: ChatEnv where
  "dryEnv = \<lparr>ceSort = insertion_sort, ceSha = \<lambda>s. s, ceSprint = \<lambda>_. [],
     ceClock = \<lparr>ckNow = 1, ckRoutingMs = 0, ckRoutingMicros = 0, ckFirstTokenMs = \<lambda>_. 0, ckDurationMs = \<lambda>_. 0\<rparr>\<rparr>"

definition dryOptions :: ChatOptions where
  "dryOptions = \<lparr>coContextPipeline = None, coContextPipelineEnabled = False, coPromptAdapter = None,
     coEngine = Some defaultEngine, coAdapters = [], coPolicyCache = None, coShadowPolicyCache = None, coRetention = None,
     coBudget = None, coRegistryVersion = ''v'', coFlushes = True\<rparr>"

definition freshState :: ChatState where
  "freshState = \<lparr>csQueue = Some (NewQueue 4), csHealth = None, csCache = None, csAudit = None, csHeaders = [], csCalls = [],
     csPromptLog = []\<rparr>"

lemma dry_run_matches_chat_witness:
  "let caller = \<lparr>caRequestID = ''r'', caTenant = None, caHeaders = []\<rparr>;
       req = zeroRequest\<lparr>reqMessages := [\<lparr>msgRole = ''user'', msgContent = ''hello''\<rparr>]\<rparr>;
       ro = fst (routeRequest dryEnv dryOptions defaultEngine req (jobOf caller req) freshState)
   in DecisionHandler insertion_sort \<lparr>doEngine = Some defaultEngine, doPolicyCache = None\<rparr> caller (Inr req) =
      decisionReply caller (roJob ro) (roDecision ro) (roError ro)"
proof -
  let ?req = "zeroRequest\<lparr>reqMessages := [\<lparr>msgRole = ''user'', msgContent = ''hello''\<rparr>]\<rparr>"
  have st: "csCache freshState = None" "healthSnapshot freshState = FullyHealthy"
    and opts: "coPolicyCache dryOptions = None" and srt: "ceSort dryEnv = insertion_sort"
    by (simp_all add: freshState_def healthSnapshot_def dryOptions_def dryEnv_def)
  show ?thesis
    using dry_run_matches_chat [OF _ _ _ st, of "\<lparr>doEngine = Some defaultEngine, doPolicyCache = None\<rparr>" defaultEngine dryOptions
        ?req dryEnv "\<lparr>caRequestID = ''r'', caTenant = None, caHeaders = []\<rparr>"]
    by (simp add: opts srt Let_def)
qed

section \<open>Savings\<close>

definition successOf :: "Event \<Rightarrow> AttemptEvent option" where
  "successOf e = (case qAttempt e of Some a \<Rightarrow> if qType e = EventTypeAttempt \<and> aeSuccess a then Some a else None | None \<Rightarrow> None)"

definition tokens :: "(AttemptEvent \<Rightarrow> int) \<Rightarrow> Event \<Rightarrow> int" where
  "tokens f e = (case successOf e of Some a \<Rightarrow> f a | None \<Rightarrow> 0)"

abbreviation accums :: "SpendTracker \<Rightarrow> modelAccum set" where
  "accums t \<equiv> snd ` set (stByModel t)"

text \<open>A counter of the rows: what an event does to it.\<close>

definition counts :: "(modelAccum \<Rightarrow> int) \<Rightarrow> (AttemptEvent \<Rightarrow> int) \<Rightarrow> bool" where
  "counts g f \<longleftrightarrow> (\<forall>e t. stByModel (spendHandle e t) = stByModel t \<and> tokens f e = 0 \<or>
     (\<exists>k v z. stByModel (spendHandle e t) = mput k v (stByModel t) \<and> g z = 0 \<and>
        (g v = i64 (g (mget0 z (stByModel t) k) + tokens f e) \<or> g v = g (mget0 z (stByModel t) k) \<and> tokens f e = 0)))"

lemma recordDecision_rows:
  "stByModel (recordDecision d t) = stByModel t \<or>
   (\<exists>k v p. stByModel (recordDecision d t) = mput k v (stByModel t) \<and>
      maInputTokens v = maInputTokens (mget0 (newModelAccum p) (stByModel t) k) \<and>
      maOutputTokens v = maOutputTokens (mget0 (newModelAccum p) (stByModel t) k))"
proof (cases "deBlocked d")
  case False
  let ?m = "mget0 (newModelAccum (deSelectedProvider d)) (stByModel t) (deSelectedModel d)"
  have "stByModel (recordDecision d t) = mput (deSelectedModel d) (?m\<lparr>maRequests := i64 (maRequests ?m + 1)\<rparr>) (stByModel t)"
    using False by (simp add: recordDecision_def Let_def)
  then show ?thesis
    by (intro disjI2 exI [of _ "deSelectedModel d"] exI [of _ "?m\<lparr>maRequests := i64 (maRequests ?m + 1)\<rparr>"]
        exI [of _ "deSelectedProvider d"]) simp
qed (simp add: recordDecision_def)

lemma recordAttempt_rows:
  "(stByModel (recordAttempt a t) = stByModel t \<and> aeInputTokens a = 0 \<and> aeOutputTokens a = 0) \<or>
   (\<exists>k v p. stByModel (recordAttempt a t) = mput k v (stByModel t) \<and>
      maInputTokens v = i64 (maInputTokens (mget0 (newModelAccum p) (stByModel t) k) + aeInputTokens a) \<and>
      maOutputTokens v = i64 (maOutputTokens (mget0 (newModelAccum p) (stByModel t) k) + aeOutputTokens a))"
proof (cases "attemptCost a = 0 \<and> aeInputTokens a = 0 \<and> aeOutputTokens a = 0")
  case False
  let ?m = "mget0 (newModelAccum (aeProviderID a)) (stByModel t) (aeModelID a)"
  let ?v = "?m\<lparr>maInputTokens := i64 (maInputTokens ?m + aeInputTokens a),
      maOutputTokens := i64 (maOutputTokens ?m + aeOutputTokens a), maCostUSD := maCostUSD ?m + attemptCost a\<rparr>"
  have "stByModel (recordAttempt a t) = mput (aeModelID a) ?v (stByModel t)"
    using False unfolding recordAttempt_def Let_def by (simp split del: if_split) auto
  then show ?thesis
    by (intro disjI2 exI [of _ "aeModelID a"] exI [of _ ?v] exI [of _ "aeProviderID a"]) simp
qed (simp add: recordAttempt_def)

lemma newModelAccum_tokens [simp]: "maInputTokens (newModelAccum p) = 0" "maOutputTokens (newModelAccum p) = 0"
  by (simp_all add: newModelAccum_def)

lemma spend_event_cases:
  obtains (idle) "spendHandle e t = t" "successOf e = None"
  | (decision) d where "spendHandle e t = recordDecision d t" "successOf e = None"
  | (attempt) a where "spendHandle e t = recordAttempt a t" "successOf e = Some a"
proof -
  consider a where "qType e = EventTypeAttempt" "qAttempt e = Some a" "aeSuccess a"
    | d where "qType e = EventTypeDecision" "qDecision e = Some d"
    | "successOf e = None" "spendHandle e t = t"
    by (cases "qType e = EventTypeDecision"; cases "qType e = EventTypeAttempt"; cases "qDecision e"; cases "qAttempt e";
        cases "aeSuccess (the (qAttempt e))")
      (auto simp: spendHandle_def successOf_def)
  then show thesis
  proof cases
    case (1 a)
    then show ?thesis using attempt by (simp add: spendHandle_def successOf_def)
  next
    case (2 d)
    then show ?thesis using decision by (simp add: spendHandle_def successOf_def split: option.split)
  qed (rule idle)
qed

lemma counters: "counts maInputTokens aeInputTokens" "counts maOutputTokens aeOutputTokens"
proof -
  have "\<exists>k v z. stByModel (spendHandle e t) = stByModel t \<and> tokens aeInputTokens e = 0 \<and> tokens aeOutputTokens e = 0 \<or>
      stByModel (spendHandle e t) = mput k v (stByModel t) \<and> maInputTokens z = 0 \<and> maOutputTokens z = 0 \<and>
      (maInputTokens v = i64 (maInputTokens (mget0 z (stByModel t) k) + tokens aeInputTokens e) \<and>
       maOutputTokens v = i64 (maOutputTokens (mget0 z (stByModel t) k) + tokens aeOutputTokens e) \<or>
       maInputTokens v = maInputTokens (mget0 z (stByModel t) k) \<and> tokens aeInputTokens e = 0 \<and>
       maOutputTokens v = maOutputTokens (mget0 z (stByModel t) k) \<and> tokens aeOutputTokens e = 0)" for e t
  proof (cases rule: spend_event_cases [of e t])
    case idle
    then show ?thesis by (simp add: tokens_def)
  next
    case (decision d)
    then have "tokens f e = 0" for f by (simp add: tokens_def)
    with decision recordDecision_rows [of d t] show ?thesis
      by (elim disjE exE conjE) (auto intro!: exI [of _ "newModelAccum p" for p])
  next
    case (attempt a)
    then have "tokens f e = f a" for f by (simp add: tokens_def)
    with attempt recordAttempt_rows [of a t] show ?thesis
      by (elim disjE exE conjE) (auto intro!: exI [of _ "newModelAccum p" for p])
  qed
  then show "counts maInputTokens aeInputTokens" "counts maOutputTokens aeOutputTokens"
    unfolding counts_def by metis+
qed

lemma range_i64: "0 \<le> x \<Longrightarrow> x \<le> 9223372036854775807 \<Longrightarrow> i64 x = x"
  by (rule i64_id) (simp add: in_i64_def)

lemma msum_bound: "\<forall>a \<in> snd ` set m. 0 \<le> g a \<Longrightarrow> v \<in> snd ` set m \<Longrightarrow> g v \<le> (msum g m :: int)"
proof (induction m)
  case (Cons e m)
  have "0 \<le> msum g m" using Cons.prems(1) by (auto simp: msum_def intro!: sum_list_nonneg)
  show ?case
  proof (cases "v = snd e")
    case False
    with Cons.prems have "v \<in> snd ` set m" by auto
    with Cons have "g v \<le> msum g m" "0 \<le> g (snd e)" by auto
    then show ?thesis by (simp add: msum_def)
  qed (use \<open>0 \<le> msum g m\<close> in \<open>simp add: msum_def\<close>)
qed simp

lemma mput_values: "snd ` set (mput k v m) \<subseteq> insert v (snd ` set m)"
  by (induction m) (auto simp: mput_def split: if_splits)

lemma mget0_value: "mget0 z m k = z \<or> mget0 z m k \<in> snd ` set m"
proof (cases "mget m k")
  case (Some v)
  then have "(k, v) \<in> set m" by (simp add: mget_def map_of_SomeD)
  then have "v \<in> snd ` set m" by force
  with Some show ?thesis by (simp add: mget0_def)
qed (simp add: mget0_def)

lemma tokens_fold:
  assumes "counts g f" and "\<forall>e \<in> set es. 0 \<le> tokens f e" and "sum_list (map (tokens f) es) \<le> 9223372036854775807"
  shows "msum g (stByModel (fold spendHandle es newTracker)) = sum_list (map (tokens f) es) \<and>
    (\<forall>a \<in> accums (fold spendHandle es newTracker). 0 \<le> g a)"
  using assms(2,3)
proof (induction es rule: rev_induct)
  case Nil
  then show ?case by (simp add: newTracker_def)
next
  case (snoc e es)
  let ?t = "fold spendHandle es newTracker"
  from snoc.prems have e: "0 \<le> tokens f e" and le: "sum_list (map (tokens f) es) + tokens f e \<le> 9223372036854775807" by simp_all
  with snoc have IH: "msum g (stByModel ?t) = sum_list (map (tokens f) es)" "\<forall>a \<in> accums ?t. 0 \<le> g a" by simp_all
  consider "stByModel (spendHandle e ?t) = stByModel ?t" "tokens f e = 0"
    | k v z where "stByModel (spendHandle e ?t) = mput k v (stByModel ?t)" "g z = 0"
      "g v = i64 (g (mget0 z (stByModel ?t) k) + tokens f e) \<or> g v = g (mget0 z (stByModel ?t) k) \<and> tokens f e = 0"
    using assms(1) unfolding counts_def by blast
  then show ?case
  proof cases
    case 1
    with IH show ?thesis by simp
  next
    case (2 k v z)
    let ?old = "g (mget0 z (stByModel ?t) k)"
    have nonneg: "0 \<le> msum g (stByModel ?t)" using IH(2) by (auto simp: msum_def intro!: sum_list_nonneg)
    have old: "0 \<le> ?old" "?old \<le> msum g (stByModel ?t)"
      using mget0_value [of z "stByModel ?t" k] IH(2) msum_bound [of "stByModel ?t" g] 2(2) nonneg by auto
    then have v: "g v = ?old + tokens f e"
      using 2(3) e le IH(1) range_i64 [of "?old + tokens f e"] by auto
    then have "msum g (mput k v (stByModel ?t)) = msum g (stByModel ?t) + tokens f e"
      using msum_upd [of g z k v "stByModel ?t"] 2(2) by simp
    moreover have "\<forall>a \<in> snd ` set (mput k v (stByModel ?t)). 0 \<le> g a"
      using mput_values [of k v "stByModel ?t"] IH(2) v old e by force
    ultimately show ?thesis using 2(1) IH(1) by simp
  qed
qed

definition premiumAmount :: "int \<Rightarrow> int \<Rightarrow> Event \<Rightarrow> float64" where
  "premiumAmount pin pout e =
     (of_int (tokens aeInputTokens e) * of_int pin + of_int (tokens aeOutputTokens e) * of_int pout) / 1000000000000"

lemma baseline_rows:
  "fold (\<lambda>r total. total + (of_int (mrInputTokens r) * of_int pin + of_int (mrOutputTokens r) * of_int pout) / 1000000000000) rows z =
   (z :: float64) + (of_int (sum_list (map mrInputTokens rows)) * of_int pin + of_int (sum_list (map mrOutputTokens rows)) * of_int pout) / 1000000000000"
  by (induction rows arbitrary: z) (simp_all add: field_simps)

lemma ByModel_sum: "range_perm rng \<Longrightarrow> sum_list (map g (map modelRow (stByModel t))) = sum_list (map g (ByModel rng t) :: int list)"
  by (rule sum_list_perm) (simp add: ByModel_def sortModelRowsDesc_def insertion.srt_mset range_perm_def del: map_map)

lemma dashboard_spend:
  "dbSpend opts = Some t \<Longrightarrow> ddSavings (buildDashboardData rng opts taskFilter) =
     computeSavings (ByModel (roModels rng) t) (TotalCostUSD (roModels rng) t) (dbPremiumIn opts) (dbPremiumOut opts)"
  unfolding buildDashboardData_def Let_def by (simp split: option.split)


definition demoAttempt :: Event where
  "demoAttempt = \<lparr>qType = EventTypeAttempt, qDecision = None, qAttempt = Some
     \<lparr>aeRequestID = ''r'', aeTenantID = ''a'', aeProjectID = [], aeProviderID = ''openai'', aeModelID = ''m'',
      aeAttemptIndex = 0, aeSuccess = True, aeErrorCode = [], aeDurationMs = 1, aeInputTokens = 2000000,
      aeOutputTokens = 1000000, aeActualCostUSD = 1, aeEstimatedCostUSD = 0, aeFirstTokenMs = 0, aeAttemptedAt = 0\<rparr>\<rparr>"

definition demoBoard :: DashboardOptions where
  "demoBoard = \<lparr>dbSpend = Some (fold spendHandle [demoAttempt] newTracker),
     dbHealth = None, dbOutcomes = None, dbComparisons = None, dbRequestLog = None, dbVersion = ''v'',
     dbPremiumIn = 1000000, dbPremiumOut = 2000000\<rparr>"


section \<open>Model discovery\<close>

lemma ModelsHandler_data:
  assumes "storeGet (enRegistry e) = Inr snap"
  shows "mlData (hrBody (ModelsHandler (Some e))) =
     \<lparr>moID = ''auto'', moObject = ''model'', moCreated = 0, moOwnedBy = ''tokenizer''\<rparr> #
     map (\<lambda>m. \<lparr>moID = mID m, moObject = ''model'', moCreated = unixSeconds (createdAt snap), moOwnedBy = mProviderID m\<rparr>)
       (EnabledModelsWithCapabilities (Some snap) noCapabilities)"
proof -
  obtain store where "enRegistry e = Some store" using assms by (cases "enRegistry e") (auto simp: storeGet_def)
  with assms show ?thesis by (simp add: ModelsHandler_def jsonReply_def)
qed

lemma Satisfies_none: "Satisfies c noCapabilities"
  by (simp add: Satisfies_def noCapabilities_def)

lemma pinned_found:
  assumes "snapModel snap i = Some m"
  shows "snd (decidePinned i src job ev snap) = None \<or> snd (decidePinned i src job ev snap) = Some ErrBlocked"
  using assms by (simp add: decidePinned_def Let_def)

lemma Decide_pinned:
  assumes "storeGet (enRegistry e) = Inr snap" and "jRouterMode job \<noteq> RouterModeDisabled" and "jExplicitModel job = Some i"
  shows "snd (Decide srt e job pol h s) =
     (let ev = evaluatePolicy pol (job\<lparr>jConservative := conservativeForJob e job\<rparr>) in
      if evBlocked ev then decideBlocked ev
      else decidePinned i ''explicit model in request'' (job\<lparr>jConservative := conservativeForJob e job\<rparr>) ev (Some snap))"
  using assms by (simp add: Decide_def Let_def)

text \<open>
  C13: discovery lists what can be asked for. After \<open>auto\<close>, the list holds the models of the active
  registry that are enabled and whose provider is active, each once and in order of their ids, with
  their provider as the owner; a client that pins a listed model is never told that it does not exist.
\<close>

theorem discovered_models_can_be_pinned:
  assumes "storeGet (enRegistry e) = Inr snap" and "snapshot_inv snap"
  defines "listed \<equiv> tl (mlData (hrBody (ModelsHandler (Some e))))"
  shows "sorted_wrt (<) (map moID listed) \<and>
    (\<forall>i p. (\<exists>x \<in> set listed. moID x = i \<and> moOwnedBy x = p) \<longleftrightarrow>
       (\<exists>m. mget (models snap) i = Some m \<and> modelSelectable snap m \<and> mProviderID m = p)) \<and>
    (\<forall>x \<in> set listed. \<forall>srt job pol h s msg. jExplicitModel job = Some (moID x) \<and> jRouterMode job \<noteq> RouterModeDisabled \<longrightarrow>
       snd (snd (Decide srt e job pol h s)) \<noteq> Some (ErrModelNotFound msg))"
proof (intro conjI allI ballI impI)
  note data = ModelsHandler_data [OF assms(1)]
  let ?ms = "EnabledModelsWithCapabilities (Some snap) noCapabilities"
  have ids: "map moID listed = map mID ?ms" by (simp add: listed_def data comp_def)
  show "sorted_wrt (<) (map moID listed)"
    unfolding ids sorted_wrt_map using Enabled_sorted [OF assms(2)] .
  have mem: "m \<in> set ?ms \<longleftrightarrow> mget (models snap) (mID m) = Some m \<and> modelSelectable snap m" for m
    by (simp add: Enabled_set [OF assms(2)] Satisfies_none)
  have own: "mID m = i" if "mget (models snap) i = Some m" for i m
    using snapshot_inv_model [OF assms(2) that] by (simp add: model_ok_def)
  show "(\<exists>x \<in> set listed. moID x = i \<and> moOwnedBy x = p) \<longleftrightarrow>
       (\<exists>m. mget (models snap) i = Some m \<and> modelSelectable snap m \<and> mProviderID m = p)" for i p
    using mem own by (auto simp: listed_def data)
  fix x srt pol h s msg and job :: JobDescriptor
  assume x: "x \<in> set listed" and job: "jExplicitModel job = Some (moID x) \<and> jRouterMode job \<noteq> RouterModeDisabled"
  obtain m where "mget (models snap) (moID x) = Some m" using x mem by (auto simp: listed_def data)
  then have found: "snapModel (Some snap) (moID x) = Some m" by (simp add: snapModel_Some)
  have np: "snd (decidePinned (moID x) src jb ev (Some snap)) \<noteq> Some (ErrModelNotFound msg)" for src jb ev
    using pinned_found [OF found, of src jb ev] by auto
  show "snd (snd (Decide srt e job pol h s)) \<noteq> Some (ErrModelNotFound msg)"
    using job by (subst Decide_pinned [OF assms(1)]) (use np in \<open>auto simp: Let_def decideBlocked_def split: option.split\<close>)
qed

lemma discovered_models_can_be_pinned_witness:
  "let listed = tl (mlData (hrBody (ModelsHandler (Some defaultEngine))))
   in sorted_wrt (<) (map moID listed) \<and> (\<exists>x \<in> set listed. moID x = ''balanced-coder'')"
proof -
  note listed = discovered_models_can_be_pinned [OF defaultEngine_store defaultSnap_inv]
  have "mget (models defaultSnap) ''balanced-coder'' \<noteq> None"
    "modelSelectable defaultSnap (the (mget (models defaultSnap) ''balanced-coder''))" by code_simp+
  then have "\<exists>m. mget (models defaultSnap) ''balanced-coder'' = Some m \<and> modelSelectable defaultSnap m" by auto
  with listed show ?thesis by (simp add: Let_def) blast
qed

text \<open>
  A pinned model need not be listed: without a policy the registry's answer is taken as it is,
  whether the model is enabled and its provider active or not.
\<close>

theorem pinned_model_may_be_disabled:
  assumes "storeGet (enRegistry e) = Inr snap" and "snapModel (Some snap) i = Some m"
    and "jRouterMode job \<noteq> RouterModeDisabled" and "jExplicitModel job = Some i"
  shows "\<exists>dec. snd (Decide srt e job None h s) = (dec, None) \<and> rdSelectedModel dec = mID m \<and> rdSelectedProvider dec = mProviderID m"
  using assms(2) by (subst Decide_pinned [OF assms(1,3,4)])
    (simp add: Let_def evaluatePolicy_def zeroEvaluation_def zeroRoute_def decidePinned_def providerModelConstraintReason_def)

end
