(* ===== verification/Telemetry.thy ===== *)
theory Telemetry
  imports Spend EventLog NewJob
begin

text \<open>
  What the program reports about itself: the logging handler of the event queue
  (\<open>eventlog/handler.go\<close>) with the metrics it updates (\<open>metrics/metrics.go\<close>), and the middlewares
  around every route, request ids and the access log (\<open>internal/middleware\<close>). A log is the list of
  its lines; a counter is a number per label tuple, a histogram the list of its observations per
  label tuple. Minting a UUID is a parameter.
\<close>

section \<open>Logs and metrics\<close>

datatype logval = LString string | LInt int | LBool bool | LFloat float64

type_synonym logline = "string \<times> (string \<times> logval) list"

record Metrics =
  mtRequests :: "(string \<times> string \<times> string \<times> string, int) gomap"
  mtOverheadMs :: "float64 list"
  mtDurationMs :: "((string \<times> string \<times> string) \<times> float64) list"
  mtFirstTokenMs :: "((string \<times> string) \<times> float64) list"

record Telemetry =
  tlLog :: "logline list"
  tlMetrics :: Metrics

definition zeroTelemetry :: Telemetry where
  "zeroTelemetry = \<lparr>tlLog = [], tlMetrics = \<lparr>mtRequests = [], mtOverheadMs = [], mtDurationMs = [], mtFirstTokenMs = []\<rparr>\<rparr>"

definition logInfo :: "string \<Rightarrow> (string \<times> logval) list \<Rightarrow> Telemetry \<Rightarrow> Telemetry" where
  "logInfo msg attrs t = t\<lparr>tlLog := tlLog t @ [(msg, attrs)]\<rparr>"

definition shadowAttrs :: "DecisionComparison option \<Rightarrow> (string \<times> logval) list" where
  "shadowAttrs s =
     (case s of None \<Rightarrow> []
      | Some c \<Rightarrow>
          [(''shadow_changed'', LBool (dcChanged c)), (''shadow_route_changed'', LBool (dcRouteChanged c)),
           (''shadow_selected_model'', LString (rdSelectedModel (dcSecondary c))),
           (''shadow_selected_provider'', LString (rdSelectedProvider (dcSecondary c))),
           (''shadow_policy_version'', LString (rdPolicyVersion (dcSecondary c))),
           (''shadow_cost_delta_microusd'', LInt (dcEstimatedCostDeltaMicroUSD c))])"

definition decisionAttrs :: "DecisionEvent \<Rightarrow> (string \<times> logval) list" where
  "decisionAttrs d =
     [(''request_id'', LString (deRequestID d)), (''tenant_id'', LString (deTenantID d)),
      (''task_type'', LString (deTaskType d)), (''risk_level'', LString (deRiskLevel d)),
      (''selected_model'', LString (deSelectedModel d)), (''selected_provider'', LString (deSelectedProvider d)),
      (''policy_version'', LString (dePolicyVersion d)), (''estimated_cost_usd'', LFloat (deEstimatedCostUSD d)),
      (''routing_duration_ms'', LInt (deRoutingDurationMs d)), (''blocked'', LBool (deBlocked d))] @
     shadowAttrs (deShadowComparison d)"

definition attemptAttrs :: "AttemptEvent \<Rightarrow> (string \<times> logval) list" where
  "attemptAttrs a =
     [(''request_id'', LString (aeRequestID a)), (''provider_id'', LString (aeProviderID a)),
      (''model_id'', LString (aeModelID a)), (''attempt_index'', LInt (aeAttemptIndex a)),
      (''success'', LBool (aeSuccess a)), (''error_code'', LString (aeErrorCode a)),
      (''duration_ms'', LInt (aeDurationMs a)), (''input_tokens'', LInt (aeInputTokens a)),
      (''output_tokens'', LInt (aeOutputTokens a)), (''actual_cost_usd'', LFloat (aeActualCostUSD a)),
      (''first_token_ms'', LInt (aeFirstTokenMs a))]"

definition requestLabels :: "DecisionEvent \<Rightarrow> string \<times> string \<times> string \<times> string" where
  "requestLabels d = (deTaskType d, deSelectedModel d, deSelectedProvider d,
     if deBlocked d then ''blocked'' else ''success'')"

definition countDecision :: "DecisionEvent \<Rightarrow> Metrics \<Rightarrow> Metrics" where
  "countDecision d m =
     m\<lparr>mtRequests := mput (requestLabels d) (mget0 0 (mtRequests m) (requestLabels d) + 1) (mtRequests m),
       mtOverheadMs := mtOverheadMs m @ [of_int (deRoutingDurationMicros d) / 1000]\<rparr>"

definition countAttempt :: "AttemptEvent \<Rightarrow> Metrics \<Rightarrow> Metrics" where
  "countAttempt a m =
     (let m1 = m\<lparr>mtDurationMs := mtDurationMs m @
            [((aeModelID a, aeProviderID a, if aeSuccess a then ''true'' else ''false''), of_int (aeDurationMs a))]\<rparr>
      in if aeFirstTokenMs a > 0
         then m1\<lparr>mtFirstTokenMs := mtFirstTokenMs m1 @ [((aeModelID a, aeProviderID a), of_int (aeFirstTokenMs a))]\<rparr>
         else m1)"

definition loggingHandle :: "Event \<Rightarrow> Telemetry \<Rightarrow> Telemetry" where
  "loggingHandle e t =
     (if qType e = EventTypeDecision then
        (case qDecision e of None \<Rightarrow> t
         | Some d \<Rightarrow> (logInfo ''route_decision'' (decisionAttrs d) t)\<lparr>tlMetrics := countDecision d (tlMetrics t)\<rparr>)
      else if qType e = EventTypeAttempt then
        (case qAttempt e of None \<Rightarrow> t
         | Some a \<Rightarrow> (logInfo ''route_attempt'' (attemptAttrs a) t)\<lparr>tlMetrics := countAttempt a (tlMetrics t)\<rparr>)
      else t)"

section \<open>Middlewares\<close>

definition HeaderRequestID :: string where "HeaderRequestID = ''X-Router-Request-Id''"

text \<open>The id of a request, which is put on the response and in the context.\<close>

definition RequestID :: "string \<Rightarrow> header \<Rightarrow> string" where
  "RequestID uuid headers =
     (let i = headerGet headers HeaderRequestID in if i = [] then ''req_'' @ uuid else i)"

text \<open>
  The status recorder: the first status written, or 200 once a body is written without one.
\<close>

datatype write_op = WriteHeader int | WriteBody string

record statusRecorder =
  srStatus :: int
  srWrote :: bool

fun recordWrite :: "statusRecorder \<Rightarrow> write_op \<Rightarrow> statusRecorder" where
  "recordWrite r (WriteHeader code) = (if \<not> srWrote r then r\<lparr>srStatus := code, srWrote := True\<rparr> else r)"
| "recordWrite r (WriteBody b) = (if \<not> srWrote r then r\<lparr>srStatus := 200, srWrote := True\<rparr> else r)"

definition accessLog :: "string \<Rightarrow> string \<Rightarrow> string \<Rightarrow> int \<Rightarrow> write_op list \<Rightarrow> logline" where
  "accessLog requestID m path durationMs ops =
     (''http_request'', [(''request_id'', LString requestID), (''method'', LString m), (''path'', LString path),
        (''status'', LInt (srStatus (foldl recordWrite \<lparr>srStatus = 200, srWrote = False\<rparr> ops))),
        (''duration_ms'', LInt durationMs)])"

text \<open>The status that \<open>net/http\<close> sends: the first one set, 200 when a body comes first or nothing at all.\<close>

fun sentStatus :: "write_op list \<Rightarrow> int" where
  "sentStatus [] = 200"
| "sentStatus (WriteHeader code # ops) = code"
| "sentStatus (WriteBody b # ops) = 200"

lemma recordWrite_done: "srWrote r \<Longrightarrow> foldl recordWrite r ops = r"
proof (induction ops)
  case (Cons op ops)
  then show ?case by (cases op) simp_all
qed simp

lemma accessLog_status: "srStatus (foldl recordWrite \<lparr>srStatus = 200, srWrote = False\<rparr> ops) = sentStatus ops"
proof (cases ops)
  case (Cons op ops')
  then show ?thesis by (cases op) (simp_all add: recordWrite_done)
qed simp

section \<open>What the counters count\<close>

definition requestCount :: "(string \<times> string \<times> string \<times> string \<Rightarrow> bool) \<Rightarrow> Telemetry \<Rightarrow> int" where
  "requestCount P t = sum_list (map (\<lambda>e. if P (fst e) then snd e else 0) (mtRequests (tlMetrics t)))"

definition countedIn :: "(string \<times> string \<times> string \<times> string \<Rightarrow> bool) \<Rightarrow> Event \<Rightarrow> int" where
  "countedIn P e = (case qDecision e of
     Some d \<Rightarrow> if qType e = EventTypeDecision \<and> P (requestLabels d) then 1 else 0 | None \<Rightarrow> 0)"

lemma sum_mput:
  "sum_list (map (\<lambda>e. if P (fst e) then snd e else 0) (mput k (mget0 0 m k + n) m)) =
   sum_list (map (\<lambda>e. if P (fst e) then snd e else (0 :: int)) m) + (if P k then n else 0)"
  unfolding mput_def mget0_def mget_def by (induction m) auto

interpretation request_counter: event_fold loggingHandle "requestCount P" "countedIn P" for P
  by unfold_locales
    (auto simp: loggingHandle_def requestCount_def countedIn_def logInfo_def countDecision_def countAttempt_def
      sum_mput Let_def split: option.split)

text \<open>
  the request counter counts each decision once. After any events, the counter over any set of
  labels is the number of decision events with these labels, in whatever order they came; the status
  label is \<open>blocked\<close> or \<open>success\<close>, the latter also for a request that found no route.
\<close>

theorem request_counter_exact:
  "requestCount P (fold loggingHandle es zeroTelemetry) = sum_list (map (countedIn P) es) \<and>
   (mset es = mset es' \<longrightarrow>
      requestCount P (fold loggingHandle es' zeroTelemetry) = requestCount P (fold loggingHandle es zeroTelemetry))"
  using request_counter.total_fold [of P es zeroTelemetry]
    request_counter.order_irrelevant [of es' es P zeroTelemetry]
  by (auto simp: requestCount_def zeroTelemetry_def)

end
