(* ===== verification/Startup.thy ===== *)
theory Startup
  imports OpenAIClient Defaults Handlers Telemetry
begin

text \<open>
  The router process, \<open>cmd/router/main.go\<close>: from the environment to the configuration of the server
  (\<open>server.New\<close> in \<open>server/server.go\<close>) and the handler of the event queue. What starts or stops the
  process, listens and logs is left out. The environment is a function; the world outside (files, the
  YAML library, the HTTP clients with their timeouts, \<open>filepath.Join\<close>, the hash, the clock) is a record of parameters.
\<close>

type_synonym environment = "string \<Rightarrow> string"

record Outside =
  ouCodec :: Codec
  ouSend :: transport
  ouMockSend :: transport
  ouWaits :: "nat \<Rightarrow> first_wait"
  ouTakes :: "nat \<Rightarrow> nat \<Rightarrow> bool"
  ouReadPolicy :: "string \<Rightarrow> string + string"
  ouBuiltinPolicy :: string
  ouUnmarshal :: "string \<Rightarrow> string + rawPolicy"
  ouDecoder :: decoder
  ouSpendUnmarshal :: "string \<Rightarrow> SpendSnapshot option"
  ouJoin :: "string \<Rightarrow> string \<Rightarrow> string"
  ouReadable :: bool
  ouFiles :: files
  ouSha :: "string \<Rightarrow> string"
  ouNow :: int

section \<open>Reading the environment\<close>

definition isDigitByte :: "char \<Rightarrow> bool" where
  "isDigitByte c \<longleftrightarrow> 48 \<le> (of_char c :: nat) \<and> (of_char c :: nat) \<le> 57"

definition digitsValue :: "string \<Rightarrow> int" where
  "digitsValue s = foldl (\<lambda>n c. n * 10 + (int (of_char c) - 48)) 0 s"

text \<open>\<open>strconv.Atoi\<close>: an optional sign and decimal digits, within \<open>int64\<close>.\<close>

definition Atoi :: "string \<Rightarrow> int option" where
  "Atoi s =
     (let digits = (case s of c # cs \<Rightarrow> if c = CHR ''-'' \<or> c = CHR ''+'' then cs else s | [] \<Rightarrow> []);
          v = (if prefix ''-'' s then - digitsValue digits else digitsValue digits)
      in if digits = [] \<or> \<not> list_all isDigitByte digits \<or> \<not> in_i64 v then None else Some v)"

definition parseIntEnv :: "string \<Rightarrow> int \<Rightarrow> int" where
  "parseIntEnv s fallback = (case Atoi (TrimSpace s) of Some v \<Rightarrow> if v > 0 then v else fallback | None \<Rightarrow> fallback)"

definition parseBoolEnv :: "string \<Rightarrow> bool" where
  "parseBoolEnv s \<longleftrightarrow> ToLower (TrimSpace s) \<in> {''1'', ''true'', ''yes'', ''on''}"

datatype log_level = LevelDebug | LevelInfo | LevelWarn | LevelError

definition parseLogLevel :: "string \<Rightarrow> log_level" where
  "parseLogLevel s =
     (if ToLower s = ''debug'' then LevelDebug else if ToLower s = ''warn'' then LevelWarn
      else if ToLower s = ''error'' then LevelError else LevelInfo)"

definition envDefault :: "environment \<Rightarrow> string \<Rightarrow> string \<Rightarrow> string" where
  "envDefault getenv name fallback = (let v = TrimSpace (getenv name) in if v \<noteq> [] then v else fallback)"

section \<open>The parts\<close>

definition localTenant :: Tenant where
  "localTenant = \<lparr>tID = ''tn_local'', tProject = ''prj_local'', tKeyID = ''key_local'', tRole = [], tScopes = AllScopes\<rparr>"

definition startAudit :: Sink where
  "startAudit = MultiSink [Some (LogSink []), Some (Memory (NewMemorySink 0))]"

definition startKeys :: "Outside \<Rightarrow> environment \<Rightarrow> KeyStore" where
  "startKeys o' getenv =
     (let ks = setKeyAuditor (Some startAudit) NewInMemoryKeyStore;
          k = TrimSpace (getenv ''LOCAL_API_KEY'')
      in if k \<noteq> [] then keyAdd (ouSha o') (ouNow o') k (Some localTenant) ks else ks)"

definition mockURL :: "environment \<Rightarrow> string" where
  "mockURL getenv = (if getenv ''MOCK_PROVIDER_URL'' = [] then ''http://localhost:18080'' else getenv ''MOCK_PROVIDER_URL'')"

definition modelOverrides :: "environment \<Rightarrow> (Tier, string) gomap" where
  "modelOverrides getenv =
     [(TierCheap, TrimSpace (getenv ''ROUTER_MODEL_CHEAP'')), (TierBalanced, TrimSpace (getenv ''ROUTER_MODEL_BALANCED'')),
      (TierPremium, TrimSpace (getenv ''ROUTER_MODEL_PREMIUM''))]"

definition openRouterAdapter :: "Outside \<Rightarrow> environment \<Rightarrow> string \<Rightarrow> Adapter" where
  "openRouterAdapter o' getenv key =
     oaAdapter (ouCodec o') (ouSend o') (ouWaits o') (ouTakes o')
       \<lparr>oaBaseURL = ''https://openrouter.ai/api/v1'', oaAPIKey = key,
        oaReferer = envDefault getenv ''OPENROUTER_REFERER'' ''https://github.com/magnusfroste/tokenizer'',
        oaTitle = envDefault getenv ''OPENROUTER_TITLE'' ''tokenizer''\<rparr>"

text \<open>The registry, the primary provider and the adapters by provider id.\<close>

definition chooseProviders :: "Outside \<Rightarrow> environment \<Rightarrow> (registry_error + Snapshot) \<times> Adapter \<times> (string, Adapter) gomap" where
  "chooseProviders o' getenv =
     (let orKey = TrimSpace (getenv ''OPENROUTER_API_KEY'');
          mock = mockAdapter (ouCodec o') (ouMockSend o') (mockURL getenv)
      in if orKey \<noteq> []
         then let a = openRouterAdapter o' getenv orKey
              in (NewSnapshot (ouNow o') (ApplyProviderModelOverrides OpenRouterDefinition (modelOverrides getenv)), a,
                  [(''openrouter'', a)])
         else (DefaultSnapshot (ouNow o'), mock, [(''openai'', mock), (''anthropic'', mock)]))"

definition loadRuntimePolicyCache :: "Outside \<Rightarrow> Snapshot \<Rightarrow> string \<Rightarrow> runtime_err + Cache" where
  "loadRuntimePolicyCache o' snap path =
     NewRuntimeCache (ouReadPolicy o') (ouBuiltinPolicy o') (ouUnmarshal o') (ouDecoder o') (Some snap) (TrimSpace path)"

definition loadOptionalRuntimePolicyCache :: "Outside \<Rightarrow> Snapshot \<Rightarrow> string \<Rightarrow> runtime_err + Cache option" where
  "loadOptionalRuntimePolicyCache o' snap path0 =
     (let path = TrimSpace path0 in
      if path = [] then Inr None
      else map_sum (\<lambda>e. e) Some
        (NewRuntimeCache (ouReadPolicy o') (ouBuiltinPolicy o') (ouUnmarshal o') (ouDecoder o') (Some snap) path))"

definition buildPromptAdapter :: "bool \<Rightarrow> PromptAdapter option" where
  "buildPromptAdapter enabled =
     (if \<not> enabled then None
      else Some
        \<lparr>paEnabled = True,
         paModelProfiles = [(''cheap-general'', ''cheap''), (''balanced-coder'', ''balanced''), (''premium-reasoning'', ''premium'')],
         paRules =
           [\<lparr>paName = ''cheap-system-cost-aware'',
             paMatch = \<lparr>pmModelIDs = [], pmProviderModelIDs = [], pmProfiles = [''cheap'']\<rparr>, paPrefix = [],
             paSuffix = [CHR 0x0A, CHR 0x0A] @ ''Prefer concise answers and avoid unnecessary reasoning traces.''\<rparr>,
            \<lparr>paName = ''premium-system-depth'',
             paMatch = \<lparr>pmModelIDs = [], pmProviderModelIDs = [], pmProfiles = [''premium'']\<rparr>,
             paPrefix = ''Use careful, high-assurance reasoning for this task.'' @ [CHR 0x0A, CHR 0x0A], paSuffix = []\<rparr>]\<rparr>)"

definition startEngine :: "environment \<Rightarrow> Store \<Rightarrow> Engine" where
  "startEngine getenv store =
     (let eng = NewEngine (Some store) in
      if parseBoolEnv (getenv ''ROUTER_CONSERVATIVE_MODE'') then SetConservative True eng else eng)"

definition startSpend :: "Outside \<Rightarrow> environment \<Rightarrow> SpendTracker" where
  "startSpend o' getenv =
     (let dir = TrimSpace (getenv ''ROUTER_DATA_DIR'') in
      if dir = [] then newTracker
      else case LoadJSON (ouSpendUnmarshal o') (ouReadable o') (ouJoin o' dir ''spend.json'') (ouFiles o') of
        Inl e \<Rightarrow> newTracker
      | Inr s \<Rightarrow> Restore s newTracker)"

definition startBudget :: "environment \<Rightarrow> BudgetEvaluator" where
  "startBudget getenv =
     (let usd = parseIntEnv (getenv ''ROUTER_BUDGET_USD'') 0;
          caps = (if usd > 0
                  then SetTenant ''tn_local'' \<lparr>capLimitMicroUSD = i64 (usd * 1000000), capWarnThreshold = 0,
                         capAction = ActionDowngrade\<rparr> NewCaps
                  else NewCaps)
      in \<lparr>evCaps = Some caps, evLedger = Some NewLedger\<rparr>)"

definition startDecisionCache :: "environment \<Rightarrow> DecCache" where
  "startDecisionCache getenv =
     newDecCache (i64 (parseIntEnv (getenv ''ROUTER_DECISION_CACHE_TTL_SECONDS'') 60 * 1000000000)) 0"

definition startRetention :: "environment \<Rightarrow> RetSettings" where
  "startRetention getenv = NewSettings (parseIntEnv (getenv ''ROUTER_RETENTION_DAYS'') DefaultRetentionDays)
     (parseBoolEnv (getenv ''ROUTER_PROMPT_LOGGING''))"

definition premiumPricing :: "Snapshot \<Rightarrow> int \<times> int" where
  "premiumPricing snap =
     (case find (\<lambda>m. mTier m = TierPremium) (EnabledModelsWithCapabilities (Some snap) (noCapabilities\<lparr>Chat := True\<rparr>)) of
        None \<Rightarrow> (0, 0)
      | Some m \<Rightarrow> (InputMicrosPerMillionToken (mCost m), OutputMicrosPerMillionToken (mCost m)))"

section \<open>Starting\<close>

datatype startup_error = RegistryFailed registry_error | PolicyFailed runtime_err | ShadowPolicyFailed runtime_err

record Router =
  rtServer :: ServerConfig
  rtChat :: ChatOptions
  rtProvider :: Adapter
  rtState :: ChatState
  rtDecision :: DecisionOptions
  rtDashboard :: DashboardOptions

definition startServer :: "KeyStore \<Rightarrow> environment \<Rightarrow> ServerConfig" where
  "startServer keys getenv = \<lparr>scKeys = keys, scHasEngine = True, scHasOutcomes = True,
     scDashboardPassword = TrimSpace (getenv ''ROUTER_DASHBOARD_PASSWORD'')\<rparr>"

definition startRouter :: "Outside \<Rightarrow> environment \<Rightarrow> startup_error + Router" where
  "startRouter o' getenv =
     (let keys = startKeys o' getenv;
          (snapResult, primary, adapters) = chooseProviders o' getenv
      in case snapResult of
           Inl e \<Rightarrow> Inl (RegistryFailed e)
         | Inr snap \<Rightarrow> (case NewStore (Some snap) of
             Inl e \<Rightarrow> Inl (RegistryFailed e)
           | Inr store \<Rightarrow> (case loadRuntimePolicyCache o' snap (getenv ''ROUTER_POLICY_PATH'') of
               Inl e \<Rightarrow> Inl (PolicyFailed e)
             | Inr policyCache \<Rightarrow> (case loadOptionalRuntimePolicyCache o' snap (getenv ''ROUTER_SHADOW_POLICY_PATH'') of
                 Inl e \<Rightarrow> Inl (ShadowPolicyFailed e)
               | Inr shadow \<Rightarrow>
                   let eng = startEngine getenv store;
                       (premIn, premOut) = premiumPricing snap
                   in Inr
                     \<lparr>rtServer = startServer keys getenv,
                      rtChat = \<lparr>coContextPipeline = None,
                        coContextPipelineEnabled = parseBoolEnv (getenv ''ROUTER_CONTEXT_PIPELINE_ENABLED''),
                        coPromptAdapter = buildPromptAdapter (parseBoolEnv (getenv ''ROUTER_PROMPT_ADAPTER_ENABLED'')),
                        coEngine = Some eng, coAdapters = adapters, coPolicyCache = Some policyCache,
                        coShadowPolicyCache = shadow, coRetention = Some (startRetention getenv),
                        coBudget = Some (startBudget getenv), coRegistryVersion = snapRegistryVersion (Some snap),
                        coFlushes = True\<rparr>,
                      rtProvider = primary,
                      rtState = \<lparr>csQueue = Some (NewQueue 0), csHealth = Some [], csCache = Some (startDecisionCache getenv),
                        csAudit = ksAuditor keys, csHeaders = [], csCalls = [], csPromptLog = []\<rparr>,
                      rtDecision = \<lparr>doEngine = Some eng, doPolicyCache = Some policyCache\<rparr>,
                      rtDashboard = \<lparr>dbSpend = Some (startSpend o' getenv), dbHealth = Some [], dbOutcomes = Some [],
                        dbComparisons = Some (NewComparisonTracker 0), dbRequestLog = Some (NewRequestLogTracker 0),
                        dbVersion = snapRegistryVersion (Some snap), dbPremiumIn = premIn, dbPremiumOut = premOut\<rparr>\<rparr>))))"

section \<open>The event handlers\<close>

record Handlers =
  haTelemetry :: Telemetry
  haSpend :: SpendTracker
  haLedger :: Ledger
  haComparisons :: "ComparisonTracker option"
  haRequestLog :: "RequestLogTracker option"

definition buildEventHandler :: "int \<Rightarrow> Handlers \<Rightarrow> Event \<Rightarrow> Handlers \<Rightarrow> Handlers" where
  "buildEventHandler now built =
     MultiHandler ([Some (\<lambda>e s. s\<lparr>haTelemetry := loggingHandle e (haTelemetry s)\<rparr>),
        Some (\<lambda>e s. s\<lparr>haSpend := spendHandle e (haSpend s)\<rparr>),
        Some (\<lambda>e s. s\<lparr>haLedger := ledgerHandle e (haLedger s)\<rparr>)] @
      (if haComparisons built \<noteq> None
       then [Some (\<lambda>e s. s\<lparr>haComparisons := map_option (comparisonHandle e) (haComparisons s)\<rparr>)] else []) @
      (if haRequestLog built \<noteq> None
       then [Some (\<lambda>e s. s\<lparr>haRequestLog := map_option (requestLogHandle now e) (haRequestLog s)\<rparr>)] else []))"

end
