(* ===== verification/StartupProps.thy ===== *)
theory StartupProps
  imports Startup ChatLaws EngineProps
begin

text \<open>
  What a started router is: when it starts, who gets in, that its chat handler meets the conditions
  under which requests obey the policy, and that its event handlers see every event.
\<close>

section \<open>The registry of a started router\<close>

definition chosenDefinition :: "environment \<Rightarrow> Definition" where
  "chosenDefinition getenv =
     (if TrimSpace (getenv ''OPENROUTER_API_KEY'') = [] then DefaultDefinition
      else ApplyProviderModelOverrides OpenRouterDefinition (modelOverrides getenv))"

lemma chooseProviders_registry: "fst (chooseProviders o' getenv) = NewSnapshot (ouNow o') (chosenDefinition getenv)"
  by (simp add: chooseProviders_def chosenDefinition_def DefaultSnapshot_def Let_def)

lemma startRouter_parts:
  assumes "startRouter o' getenv = Inr r"
  obtains snap store where "NewSnapshot (ouNow o') (chosenDefinition getenv) = Inr snap" "storeGet (Some store) = Inr snap"
    "coEngine (rtChat r) = Some (startEngine getenv store)"
    "coAdapters (rtChat r) = snd (snd (chooseProviders o' getenv))"
    "coBudget (rtChat r) = Some (startBudget getenv)" "rtServer r = startServer (startKeys o' getenv) getenv"
proof -
  obtain res primary adapters where c: "chooseProviders o' getenv = (res, primary, adapters)" by (metis prod_cases3)
  show thesis
  proof (cases res)
    case (Inl e)
    with assms c show ?thesis by (simp add: startRouter_def Let_def)
  next
    case (Inr snap)
    with c chooseProviders_registry [of o' getenv] have "NewSnapshot (ouNow o') (chosenDefinition getenv) = Inr snap" by simp
    with assms c Inr show ?thesis
      by (intro that [of snap "\<lparr>storeActive = Some snap\<rparr>"])
        (auto simp: startRouter_def Let_def NewStore_def storeGet_def case_prod_unfold split: sum.splits)
  qed
qed

lemma engine_store: "storeGet (enRegistry (startEngine getenv store)) = storeGet (Some store)"
  by (simp add: startEngine_def NewEngine_def SetConservative_def Let_def)

lemma override_fields [simp]: "mID (overrideModel ov m) = mID m" "mProviderID (overrideModel ov m) = mProviderID m"
  "mTier (overrideModel ov m) = mTier m" "mContextWindowTokens (overrideModel ov m) = mContextWindowTokens m"
  by (simp_all add: overrideModel_def split: option.split)

lemma chosen_providers:
  "m \<in> set (Models (chosenDefinition getenv)) \<Longrightarrow>
   mProviderID m \<in> (if TrimSpace (getenv ''OPENROUTER_API_KEY'') = [] then {''openai'', ''anthropic''} else {''openrouter''})"
  by (auto simp: chosenDefinition_def ApplyProviderModelOverrides_def OpenRouterDefinition_def DefaultDefinition_def
      cheapGeneral_def balancedCoder_def premiumReasoning_def orCheapGeneral_def orBalancedCoder_def orPremiumReasoning_def)

lemma adapters_served:
  "p \<in> (if TrimSpace (getenv ''OPENROUTER_API_KEY'') = [] then {''openai'', ''anthropic''} else {''openrouter''}) \<Longrightarrow>
   mget (snd (snd (chooseProviders o' getenv))) p \<noteq> None"
  by (auto simp: chooseProviders_def Let_def mget_def split: if_splits)

text \<open>The options once the budget ledger has become \<open>l\<close>.\<close>

definition atLedger :: "Ledger \<Rightarrow> ChatOptions \<Rightarrow> ChatOptions" where
  "atLedger l opts = opts\<lparr>coBudget := map_option (\<lambda>b. b\<lparr>evLedger := Some l\<rparr>) (coBudget opts)\<rparr>"

lemma atLedger_simps [simp]:
  "coEngine (atLedger l opts) = coEngine opts" "coAdapters (atLedger l opts) = coAdapters opts"
  "coPolicyCache (atLedger l opts) = coPolicyCache opts"
  "coContextPipelineEnabled (atLedger l opts) = coContextPipelineEnabled opts"
  by (simp_all add: atLedger_def)

lemma budget_never_blocks:
  assumes "coBudget opts = Some (startBudget getenv)"
  shows "\<not> budgetBlocks (atLedger l opts) job"
proof -
  let ?b = "(startBudget getenv)\<lparr>evLedger := Some l\<rparr>"
  have cap: "capActionOf cp = ActionDowngrade" if "evCaps ?b = Some caps" "capsLookup tn pr caps = Some (cp, ps)" for caps tn pr cp ps
    using that by (auto simp: startBudget_def Let_def SetTenant_def NewCaps_def capsLookup_def mget_def mput_def capActionOf_def
        split: if_splits option.splits)
  have "\<not> vBlocked (budgetCheck (Some ?b) tn pr)" for tn pr
    using cap [of _ tn pr] by (auto simp: budgetCheck_def budgetVerdict_def vBlocked_def okVerdict_def Let_def
        split: option.split)
  then show ?thesis using assms by (simp add: budgetBlocks_def atLedger_def)
qed

section \<open>Which registries load\<close>

definition slugOr :: "environment \<Rightarrow> string \<Rightarrow> string \<Rightarrow> string" where
  "slugOr getenv name default' = (if TrimSpace (getenv name) = [] then default' else TrimSpace (getenv name))"

abbreviation cheapSlug :: "environment \<Rightarrow> string" where
  "cheapSlug getenv \<equiv> slugOr getenv ''ROUTER_MODEL_CHEAP'' ''openai/gpt-4o-mini''"
abbreviation balancedSlug :: "environment \<Rightarrow> string" where
  "balancedSlug getenv \<equiv> slugOr getenv ''ROUTER_MODEL_BALANCED'' ''openai/gpt-4o''"
abbreviation premiumSlug :: "environment \<Rightarrow> string" where
  "premiumSlug getenv \<equiv> slugOr getenv ''ROUTER_MODEL_PREMIUM'' ''anthropic/claude-sonnet-4.5''"

lemma overridden_models:
  "Models (ApplyProviderModelOverrides OpenRouterDefinition (modelOverrides getenv)) =
     [orCheapGeneral\<lparr>mProviderModelID := cheapSlug getenv\<rparr>, orBalancedCoder\<lparr>mProviderModelID := balancedSlug getenv\<rparr>,
      orPremiumReasoning\<lparr>mProviderModelID := premiumSlug getenv\<rparr>]"
  by (simp add: ApplyProviderModelOverrides_def OpenRouterDefinition_def overrideModel_def modelOverrides_def mget_def slugOr_def
      orCheapGeneral_def orBalancedCoder_def orPremiumReasoning_def)

lemma TrimSpace_idem: "TrimSpace (TrimSpace s) = TrimSpace s"
proof (cases "TrimSpace s = []")
  case False
  define t where "t = dropWhile isSpaceByte s"
  define v where "v = dropWhile isSpaceByte (rev t)"
  have s: "TrimSpace s = rev v" by (simp add: TrimSpace_def t_def v_def)
  with False have "v \<noteq> []" by simp
  then have "t \<noteq> []" by (auto simp: v_def)
  have "rev t = takeWhile isSpaceByte (rev t) @ v" by (simp add: v_def)
  then have "last (rev t) = last v" using \<open>v \<noteq> []\<close> by (metis last_appendR)
  then have "hd (rev v) = hd t" by (simp add: hd_rev last_rev)
  moreover have "\<not> isSpaceByte (hd t)" using \<open>t \<noteq> []\<close> unfolding t_def by (rule hd_dropWhile)
  moreover have "\<not> isSpaceByte (hd v)" using \<open>v \<noteq> []\<close> unfolding v_def by (rule hd_dropWhile)
  ultimately have "dropWhile isSpaceByte (rev v) = rev v" "dropWhile isSpaceByte v = v"
    by (simp_all add: dropWhile_eq_self_iff)
  then show ?thesis unfolding s by (simp add: TrimSpace_def)
qed simp

lemma slug_nonempty: "TrimSpace default' \<noteq> [] \<Longrightarrow> TrimSpace (slugOr getenv name default') \<noteq> []"
  by (simp add: slugOr_def TrimSpace_idem)

lemma openrouter_fields:
  "TrimSpace (RegistryVersion OpenRouterDefinition) \<noteq> []" "\<forall>p \<in> set (Providers OpenRouterDefinition). TrimSpace (pID p) \<noteq> []"
  "map pID (Providers OpenRouterDefinition) = [''openrouter'']"
  "TrimSpace ''openai/gpt-4o-mini'' \<noteq> []" "TrimSpace ''openai/gpt-4o'' \<noteq> []" "TrimSpace ''anthropic/claude-sonnet-4.5'' \<noteq> []"
  "\<forall>m \<in> {orCheapGeneral, orBalancedCoder, orPremiumReasoning}. TrimSpace (mID m) \<noteq> [] \<and> mProviderID m = ''openrouter'' \<and>
     0 \<le> mContextWindowTokens m"
  "distinct (map mID [orCheapGeneral, orBalancedCoder, orPremiumReasoning])"
  by code_simp+

lemma chosenDefinition_valid:
  "valid_definition (chosenDefinition getenv) \<longleftrightarrow> TrimSpace (getenv ''OPENROUTER_API_KEY'') = [] \<or>
     distinct [cheapSlug getenv, balancedSlug getenv, premiumSlug getenv]"
proof (cases "TrimSpace (getenv ''OPENROUTER_API_KEY'') = []")
  case True
  then show ?thesis by (simp add: chosenDefinition_def DefaultDefinition_valid)
next
  case False
  let ?def = "ApplyProviderModelOverrides OpenRouterDefinition (modelOverrides getenv)"
  have same: "RegistryVersion ?def = RegistryVersion OpenRouterDefinition" "Providers ?def = Providers OpenRouterDefinition"
    by (simp_all add: ApplyProviderModelOverrides_def)
  have providers: "Providers OpenRouterDefinition \<noteq> []" "pID ` set (Providers OpenRouterDefinition) = {''openrouter''}"
    using openrouter_fields(3) by (auto simp flip: set_map)
  note slugs = openrouter_fields(4-6) [THEN slug_nonempty]
  have keys: "distinct (map modelKey (Models ?def)) \<longleftrightarrow> distinct [cheapSlug getenv, balancedSlug getenv, premiumSlug getenv]"
    using openrouter_fields(7) by (simp add: overridden_models modelKey_def providerModelKey_def)
  have "distinct (map mID (Models ?def))" using openrouter_fields(8) by (simp add: overridden_models)
  with keys slugs openrouter_fields(7) have "valid_definition ?def \<longleftrightarrow> distinct [cheapSlug getenv, balancedSlug getenv, premiumSlug getenv]"
    unfolding valid_definition_def same providers(2) openrouter_fields(3)
    using openrouter_fields(1,2) providers(1) by (simp add: overridden_models)
  with False show ?thesis by (simp add: chosenDefinition_def)
qed

section \<open>Properties\<close>


text \<open>
  every handler of the event queue sees every event. However many events the worker hands to the
  combined handler, the telemetry, the spend tracker, the budget ledger, the comparison tracker and the
  request log each hold what they would hold had they been the only handler.
\<close>

theorem every_handler_sees_every_event:
  "fold (buildEventHandler now h) es h =
     \<lparr>haTelemetry = fold loggingHandle es (haTelemetry h), haSpend = fold spendHandle es (haSpend h),
      haLedger = fold ledgerHandle es (haLedger h),
      haComparisons = map_option (fold comparisonHandle es) (haComparisons h),
      haRequestLog = map_option (fold (requestLogHandle now) es) (haRequestLog h)\<rparr>"
proof -
  have step: "buildEventHandler now h e s =
      s\<lparr>haTelemetry := loggingHandle e (haTelemetry s), haSpend := spendHandle e (haSpend s),
        haLedger := ledgerHandle e (haLedger s), haComparisons := map_option (comparisonHandle e) (haComparisons s),
        haRequestLog := map_option (requestLogHandle now e) (haRequestLog s)\<rparr>"
    if "(haComparisons s = None) = (haComparisons h = None)" "(haRequestLog s = None) = (haRequestLog h = None)" for e s
    using that by (cases "haComparisons h"; cases "haRequestLog h"; cases s)
      (auto simp: buildEventHandler_def MultiHandler_def map_filter_simps)
  have "fold (buildEventHandler now h) es s =
     \<lparr>haTelemetry = fold loggingHandle es (haTelemetry s), haSpend = fold spendHandle es (haSpend s),
      haLedger = fold ledgerHandle es (haLedger s),
      haComparisons = map_option (fold comparisonHandle es) (haComparisons s),
      haRequestLog = map_option (fold (requestLogHandle now) es) (haRequestLog s)\<rparr>"
    if "(haComparisons s = None) = (haComparisons h = None)" "(haRequestLog s = None) = (haRequestLog h = None)" for s
    using that
  proof (induction es arbitrary: s)
    case Nil
    then show ?case by (cases s) (simp add: option.map_id0 [unfolded id_def])
  next
    case (Cons e es)
    then show ?case by (simp add: step option.map_comp comp_def)
  qed
  then show ?thesis by simp
qed

lemma registry_loads: "(\<exists>snap. fst (chooseProviders o' getenv) = Inr snap) \<longleftrightarrow> valid_definition (chosenDefinition getenv)"
  by (simp add: chooseProviders_registry NewSnapshot_accepts_iff)

lemma startRouter_result:
  "startRouter o' getenv =
     (case fst (chooseProviders o' getenv) of
        Inl e \<Rightarrow> Inl (RegistryFailed e)
      | Inr snap \<Rightarrow> (case loadRuntimePolicyCache o' snap (getenv ''ROUTER_POLICY_PATH'') of
          Inl e \<Rightarrow> Inl (PolicyFailed e)
        | Inr c \<Rightarrow> (case loadOptionalRuntimePolicyCache o' snap (getenv ''ROUTER_SHADOW_POLICY_PATH'') of
            Inl e \<Rightarrow> Inl (ShadowPolicyFailed e)
          | Inr sh \<Rightarrow> startRouter o' getenv)))"
  by (simp add: startRouter_def NewStore_def Let_def case_prod_unfold split: sum.split)

lemma startRouter_succeeds:
  "fst (chooseProviders o' getenv) = Inr snap \<Longrightarrow> loadRuntimePolicyCache o' snap (getenv ''ROUTER_POLICY_PATH'') = Inr c \<Longrightarrow>
   loadOptionalRuntimePolicyCache o' snap (getenv ''ROUTER_SHADOW_POLICY_PATH'') = Inr sh \<Longrightarrow> \<exists>r. startRouter o' getenv = Inr r"
  by (simp add: startRouter_def NewStore_def Let_def case_prod_unfold)


section \<open>Who gets in\<close>

definition holdsLocalKey :: "Outside \<Rightarrow> environment \<Rightarrow> string \<Rightarrow> bool" where
  "holdsLocalKey o' getenv authorization \<longleftrightarrow> TrimSpace (getenv ''LOCAL_API_KEY'') \<noteq> [] \<and>
     (\<exists>rest. authorization = ''Bearer '' @ rest \<and> TrimSpace rest \<noteq> [] \<and>
        ouSha o' (TrimSpace rest) = ouSha o' (TrimSpace (getenv ''LOCAL_API_KEY'')))"

lemma startKeys_bearer:
  "bearer (ouSha o') (startKeys o' getenv) authorization t \<longleftrightarrow> holdsLocalKey o' getenv authorization \<and> t = Some localTenant"
  by (auto simp: bearer_def holdsLocalKey_def startKeys_def keyAdd_def keyLookup_def setKeyAuditor_def NewInMemoryKeyStore_def
      Let_def mget_def mput_def split: if_splits)

lemma local_grants: "s \<in> set AllScopes \<Longrightarrow> HasScope (Some localTenant) s" "HasRole (Some localTenant) role"
  by (auto simp: HasScope_def localTenant_def AllScopes_def HasRole_def)

lemma started_routes:
  "serverRoutes (startServer keys getenv) =
     [(''GET'', ''/'', Open), (''GET'', ''/healthz'', Open), (''GET'', ''/readyz'', Open), (''GET'', ''/metrics'', Open),
      (''POST'', ''/v1/chat/completions'', KeyScope ScopeChatCompletions), (''GET'', ''/v1/models'', KeyOnly),
      (''POST'', ''/router/decision'', KeyScope ScopeRouterDecision), (''POST'', ''/router/outcomes'', KeyScope ScopeRouterOutcomes),
      (''GET'', ''/router/dashboard'', dashGuard (startServer keys getenv)),
      (''GET'', ''/router/dashboard/data'', dashGuard (startServer keys getenv))]"
  by (simp add: serverRoutes_def startServer_def)

definition startedGuard :: "KeyStore \<Rightarrow> environment \<Rightarrow> string \<Rightarrow> string \<Rightarrow> (string \<times> string \<times> route_guard) option" where
  "startedGuard keys getenv m path =
     find (\<lambda>(pm, pp, g). methodMatches pm m \<and> pp = path) (serverRoutes (startServer keys getenv))"

lemma startedGuard_simps:
  "startedGuard keys getenv ''POST'' ''/v1/chat/completions'' = Some (''POST'', ''/v1/chat/completions'', KeyScope ScopeChatCompletions)"
  "startedGuard keys getenv ''GET'' ''/v1/models'' = Some (''GET'', ''/v1/models'', KeyOnly)"
  "startedGuard keys getenv ''POST'' ''/router/decision'' = Some (''POST'', ''/router/decision'', KeyScope ScopeRouterDecision)"
  "startedGuard keys getenv ''POST'' ''/router/outcomes'' = Some (''POST'', ''/router/outcomes'', KeyScope ScopeRouterOutcomes)"
  "startedGuard keys getenv ''GET'' ''/router/dashboard'' =
     Some (''GET'', ''/router/dashboard'', dashGuard (startServer keys getenv))"
  "startedGuard keys getenv ''GET'' ''/router/dashboard/data'' =
     Some (''GET'', ''/router/dashboard/data'', dashGuard (startServer keys getenv))"
  by (simp_all add: startedGuard_def started_routes methodMatches_def)

lemma guard_local:
  assumes "\<And>c. \<exists>x. h c = Served x" and "g = KeyOnly \<or> (\<exists>s. g = KeyScope s \<and> s \<in> set AllScopes) \<or> (\<exists>role. g = KeyRole role)"
  shows "(\<exists>x. guardHandler (ouSha o') ba (startKeys o' getenv) authorization g h None = Served x) \<longleftrightarrow>
    holdsLocalKey o' getenv authorization"
  using assms(2) by (elim disjE exE conjE)
    (auto simp: guardHandler_def RequireScope_served [OF assms(1)] RequireRole_served [OF assms(1)] authMiddleware_served startKeys_bearer local_grants assms(1))

section \<open>A deployment\<close>

text \<open>The mock deployment with a local key and the built-in policy; the hash keeps what it is given.\<close>

definition demoOutside :: Outside where
  "demoOutside = \<lparr>ouCodec = \<lparr>cdMarshal = \<lambda>_. Inr ''{}'', cdResponse = \<lambda>_ _. None,
       cdEnvelope = \<lambda>_. \<lparr>ebMessage = [], ebType = [], ebCode = []\<rparr>, cdUsage = \<lambda>_. None, cdParseURL = \<lambda>_. None,
       cdURLString = urlPath, cdNewRequest = \<lambda>_. None\<rparr>,
     ouSend = \<lambda>_. Inr \<lparr>hsStatus = 503, hsBody = [], hsReadError = None\<rparr>,
     ouMockSend = \<lambda>_. Inr \<lparr>hsStatus = 503, hsBody = [], hsReadError = None\<rparr>,
     ouWaits = \<lambda>_. ChannelFirst, ouTakes = \<lambda>_ _. True, ouReadPolicy = \<lambda>_. Inl [], ouBuiltinPolicy = ''builtin'',
     ouUnmarshal = \<lambda>_. Inr defaultRuntimeRaw, ouDecoder = noDecoder, ouSpendUnmarshal = \<lambda>_. None,
     ouJoin = \<lambda>a b. a @ ''/'' @ b, ouReadable = True, ouFiles = [], ouSha = \<lambda>s. s, ouNow = 0\<rparr>"

definition demoGetenv :: environment where
  "demoGetenv name = (if name = ''LOCAL_API_KEY'' then ''secret'' else [])"

lemma demo_starts: "\<exists>r. startRouter demoOutside demoGetenv = Inr r"
proof -
  have "fst (chooseProviders demoOutside demoGetenv) = Inr defaultSnap"
    using DefaultSnapshot_ok
    by (simp add: chooseProviders_registry chosenDefinition_def demoGetenv_def demoOutside_def DefaultSnapshot_def)
  moreover have "\<not> isl (NewDefaultRuntimeCache (\<lambda>p. Inl []) ''builtin'' (\<lambda>t. Inr defaultRuntimeRaw) noDecoder (Some defaultSnap))"
    by code_simp
  then obtain c where "NewDefaultRuntimeCache (\<lambda>p. Inl []) ''builtin'' (\<lambda>t. Inr defaultRuntimeRaw) noDecoder (Some defaultSnap) = Inr c"
    by (metis sum.collapse(2))
  then have "loadRuntimePolicyCache demoOutside defaultSnap (demoGetenv ''ROUTER_POLICY_PATH'') = Inr c"
    by (simp add: loadRuntimePolicyCache_def NewDefaultRuntimeCache_def demoOutside_def demoGetenv_def)
  moreover have "loadOptionalRuntimePolicyCache demoOutside defaultSnap (demoGetenv ''ROUTER_SHADOW_POLICY_PATH'') = Inr None"
    by (simp add: loadOptionalRuntimePolicyCache_def demoGetenv_def)
  ultimately show ?thesis by (rule startRouter_succeeds)
qed

lemma demo_key: "holdsLocalKey demoOutside demoGetenv ''Bearer secret''" "\<not> holdsLocalKey demoOutside demoGetenv ''Bearer guess''"
proof -
  have "TrimSpace ''secret'' = ''secret''" "TrimSpace ''guess'' = ''guess''" by code_simp+
  then show "holdsLocalKey demoOutside demoGetenv ''Bearer secret''" "\<not> holdsLocalKey demoOutside demoGetenv ''Bearer guess''"
    by (simp_all add: holdsLocalKey_def demoGetenv_def demoOutside_def)
qed

text \<open>
  C16: who gets into a started router. The chat, discovery, dry-run and outcome routes serve exactly the
  requests that carry the local key of the environment, and nobody when there is none; the two
  dashboard routes serve exactly who knows the dashboard password when one is set, and otherwise,
  because the local key has no role, exactly its holders.
\<close>

theorem started_router_access:
  assumes started: "startRouter o' getenv = Inr r" and handlers: "\<And>path c. \<exists>x. handlers path c = Served x"
    and api: "(m, path) \<in> {(''POST'', ''/v1/chat/completions''), (''GET'', ''/v1/models''), (''POST'', ''/router/decision''),
      (''POST'', ''/router/outcomes'')}"
    and board: "dash \<in> {''/router/dashboard'', ''/router/dashboard/data''}"
  defines "password \<equiv> TrimSpace (getenv ''ROUTER_DASHBOARD_PASSWORD'')"
  shows "((\<exists>x. serveHTTP (ouSha o') ba (rtServer r) m path authorization handlers = Served x) \<longleftrightarrow>
      holdsLocalKey o' getenv authorization) \<and>
    ((\<exists>x. serveHTTP (ouSha o') ba (rtServer r) ''GET'' dash authorization handlers = Served x) \<longleftrightarrow>
      (if password \<noteq> [] then \<exists>user. ba authorization = Some (user, password)
       else holdsLocalKey o' getenv authorization))"
proof -
  let ?cfg = "startServer (startKeys o' getenv) getenv"
  have cfg: "rtServer r = ?cfg" using started by (rule startRouter_parts)
  have keys: "scKeys ?cfg = startKeys o' getenv" by (simp add: startServer_def)
  have scopes: "ScopeChatCompletions \<in> set AllScopes" "ScopeRouterDecision \<in> set AllScopes" "ScopeRouterOutcomes \<in> set AllScopes"
    by (simp_all add: AllScopes_def)
  obtain g where g: "startedGuard (startKeys o' getenv) getenv m path = Some (m, path, g)"
    "g = KeyOnly \<or> (\<exists>s. g = KeyScope s \<and> s \<in> set AllScopes) \<or> (\<exists>role. g = KeyRole role)"
    using api that startedGuard_simps scopes by (elim insertE emptyE Pair_inject) blast+
  have one: "(\<exists>x. serveHTTP (ouSha o') ba ?cfg m path authorization handlers = Served x) \<longleftrightarrow>
      holdsLocalKey o' getenv authorization"
    unfolding serveHTTP_def g(1) [unfolded startedGuard_def] by (simp add: keys guard_local [OF handlers g(2)])
  have "startedGuard (startKeys o' getenv) getenv ''GET'' dash = Some (''GET'', dash, dashGuard ?cfg)"
    using board startedGuard_simps(5,6) by blast
  then have serve: "serveHTTP (ouSha o') ba ?cfg ''GET'' dash authorization handlers =
      guardHandler (ouSha o') ba (startKeys o' getenv) authorization (dashGuard ?cfg) (handlers dash) None"
    unfolding serveHTTP_def startedGuard_def by (simp add: keys)
  have two: "(\<exists>x. serveHTTP (ouSha o') ba ?cfg ''GET'' dash authorization handlers = Served x) \<longleftrightarrow>
      (if password \<noteq> [] then \<exists>user. ba authorization = Some (user, password) else holdsLocalKey o' getenv authorization)"
  proof (cases "password = []")
    case True
    then have "dashGuard ?cfg = KeyRole RoleAdmin" by (simp add: dashGuard_def startServer_def password_def)
    with True show ?thesis unfolding serve by (simp add: guard_local [OF handlers])
  next
    case False
    then have "dashGuard ?cfg = BasicPassword password" by (simp add: dashGuard_def startServer_def password_def)
    with False show ?thesis
      unfolding serve using handlers [of dash None] by (auto simp: guardHandler_def dashboardBasicAuth_def split: option.split)
  qed
  show ?thesis unfolding cfg using one two by blast
qed

lemma started_router_access_witness:
  "\<exists>r. startRouter demoOutside demoGetenv = Inr r \<and>
     (\<exists>x. serveHTTP (ouSha demoOutside) (\<lambda>_. None) (rtServer r) ''POST'' ''/v1/chat/completions'' ''Bearer secret'' (\<lambda>_ _. Served ()) = Served x) \<and>
     \<not> (\<exists>x. serveHTTP (ouSha demoOutside) (\<lambda>_. None) (rtServer r) ''POST'' ''/v1/chat/completions'' ''Bearer guess'' (\<lambda>_ _. Served ()) = Served x)"
proof -
  obtain r where r: "startRouter demoOutside demoGetenv = Inr r" using demo_starts by blast
  have h: "\<exists>x. (\<lambda>_ _. Served ()) path c = Served x" for path :: string and c :: "Tenant option option" by simp
  have api: "(''POST'', ''/v1/chat/completions'') \<in> {(''POST'', ''/v1/chat/completions''), (''GET'', ''/v1/models''),
      (''POST'', ''/router/decision''), (''POST'', ''/router/outcomes'')}" by blast
  have board: "''/router/dashboard'' \<in> {''/router/dashboard'', ''/router/dashboard/data''}" by blast
  note access = started_router_access [where handlers = "\<lambda>_ _. Served ()" and ba = "\<lambda>_. None", OF r h api board, THEN conjunct1]
  show ?thesis using r access [of "''Bearer secret''"] access [of "''Bearer guess''"] demo_key by blast
qed


text \<open>
  The decision cache cannot be turned off as the comment in \<open>main.go\<close> says: the variable set to 0 gives
  the default time to live.
\<close>

lemma cache_ttl_zero_ignored:
  "getenv ''ROUTER_DECISION_CACHE_TTL_SECONDS'' = ''0'' \<Longrightarrow> dcaTTL (startDecisionCache getenv) = 60000000000"
proof -
  assume "getenv ''ROUTER_DECISION_CACHE_TTL_SECONDS'' = ''0''"
  moreover have "parseIntEnv ''0'' 60 = 60" by code_simp
  ultimately show ?thesis by (simp add: startDecisionCache_def newDecCache_def in_i64_def)
qed

end
