(* ===== verification/Commands.thy ===== *)
theory Commands
  imports Startup EvalRunner Retention
begin

text \<open>
  The other commands under \<open>cmd/\<close>: \<open>routerctl\<close> (a client of the dry run), \<open>loadtest\<close> (workers that take
  the numbers of requests from a channel, and the gate on what they measured), \<open>eval-report\<close> (reports
  of the evaluation runs), \<open>worker\<close> (retention sweeps) and \<open>mock-provider\<close>. The HTTP clients, the JSON
  codec and the file system are parameters; the text of usage messages is left out.
\<close>

section \<open>routerctl: asking for a decision\<close>

record DecisionResult =
  drSelectedModel :: string
  drSelectedProvider :: string
  drProviderModelID :: string
  drPolicyVersion :: string
  drTimeoutMS :: int
  drRequiresVerifier :: bool
  drDecisionReasons :: "string list"
  drFallbacks :: "(string \<times> string) list"
  drBlocked :: bool
  drBlockCode :: string
  drBlockReason :: string

text \<open>\<open>ctEnvelope\<close> is the message of an error envelope, or nothing when the text is not one.\<close>

record CtlCodec =
  ctEncode :: "ChatRequest \<Rightarrow> string + string"
  ctNewRequest :: "string \<Rightarrow> string option"
  ctDecision :: "string \<Rightarrow> string + DecisionResult"
  ctEnvelope :: "string \<Rightarrow> string option"

type_synonym http_do = "HttpRequest \<Rightarrow> string + HttpResponse"

definition TrimRight :: "char \<Rightarrow> string \<Rightarrow> string" where
  "TrimRight c s = rev (dropWhile (\<lambda>x. x = c) (rev s))"

definition errorMessage :: "CtlCodec \<Rightarrow> string \<Rightarrow> string" where
  "errorMessage cd raw =
     (case ctEnvelope cd raw of
        Some msg \<Rightarrow> if msg \<noteq> [] then msg else TrimSpace raw
      | None \<Rightarrow> TrimSpace raw)"

definition ctlHeaders :: "string \<Rightarrow> bool \<Rightarrow> (string, string) gomap" where
  "ctlHeaders apiKey explain =
     (let h = mput ''Content-Type'' ''application/json'' [];
          h = (if apiKey \<noteq> [] then mput ''Authorization'' (''Bearer '' @ apiKey) h else h)
      in if explain then mput ''X-Router-Explain'' ''true'' h else h)"

definition fetchDecision :: "CtlCodec \<Rightarrow> http_do \<Rightarrow> string \<Rightarrow> string \<Rightarrow> ChatRequest \<Rightarrow> bool \<Rightarrow> string + DecisionResult" where
  "fetchDecision cd send baseURL apiKey req explain =
     (case ctEncode cd req of
        Inl e \<Rightarrow> Inl (''encode request: '' @ e)
      | Inr body \<Rightarrow>
          let url = TrimRight (CHR ''/'') baseURL @ ''/router/decision'' in
          (case ctNewRequest cd url of
             Some e \<Rightarrow> Inl e
           | None \<Rightarrow> (case send \<lparr>hqURL = url, hqHeaders = ctlHeaders apiKey explain, hqBody = body\<rparr> of
               Inl e \<Rightarrow> Inl e
             | Inr resp \<Rightarrow>
                 let out = ctDecision cd (hsBody resp) in
                 if hsStatus resp = 200 \<or> (case out of Inr d \<Rightarrow> drBlocked d | Inl _ \<Rightarrow> False)
                 then (case out of Inl e \<Rightarrow> Inl (''decode decision: '' @ e) | Inr d \<Rightarrow> Inr d)
                 else Inl (''router returned '' @ showInt (hsStatus resp) @ '': '' @ errorMessage cd (hsBody resp)))))"

definition emDash :: string where "emDash = [CHR 0xE2, CHR 0x80, CHR 0x94]"

definition render :: "DecisionResult \<Rightarrow> string" where
  "render d =
     (if drBlocked d then ''BLOCKED: '' @ drBlockCode d @ '' '' @ emDash @ '' '' @ drBlockReason d @ [newline]
      else
        ''Selected model:    '' @ drSelectedModel d @ [newline] @
        ''Selected provider: '' @ drSelectedProvider d @ [newline] @
        (if drProviderModelID d \<noteq> [] then ''Provider model id: '' @ drProviderModelID d @ [newline] else []) @
        (if drPolicyVersion d \<noteq> [] then ''Policy version:    '' @ drPolicyVersion d @ [newline] else []) @
        ''Timeout:           '' @ showInt (drTimeoutMS d) @ '' ms'' @ [newline] @
        ''Requires verifier: '' @ showBool (drRequiresVerifier d) @ [newline] @
        (if length (drFallbacks d) > 0 then ''Fallback chain:'' @ [newline] @
           concat (map (\<lambda>(i, m, p). ''  '' @ showNat (i + 1) @ ''. '' @ m @ '' ('' @ p @ '')'' @ [newline])
             (enumerate 0 (drFallbacks d))) else []) @
        (if length (drDecisionReasons d) > 0 then ''Explanations:'' @ [newline] @
           concat (map (\<lambda>r. ''  - '' @ r @ [newline]) (drDecisionReasons d)) else []))"

definition ctlEnvOr :: "environment \<Rightarrow> string \<Rightarrow> string \<Rightarrow> string" where
  "ctlEnvOr getenv name fallback = (let v = TrimSpace (getenv name) in if v \<noteq> [] then v else fallback)"

fun firstEnv :: "environment \<Rightarrow> string list \<Rightarrow> string" where
  "firstEnv getenv [] = []"
| "firstEnv getenv (n # names) = (let v = TrimSpace (getenv n) in if v \<noteq> [] then v else firstEnv getenv names)"

record CtlFlags =
  cfURL :: string
  cfKey :: string
  cfModel :: string
  cfMessage :: string
  cfExplain :: bool
  cfStream :: bool

definition ctlDefaults :: "environment \<Rightarrow> CtlFlags" where
  "ctlDefaults getenv =
     \<lparr>cfURL = ctlEnvOr getenv ''ROUTER_URL'' ''http://localhost:8080'', cfKey = firstEnv getenv [''ROUTER_API_KEY'', ''LOCAL_API_KEY''],
      cfModel = ''auto'', cfMessage = [], cfExplain = True, cfStream = False\<rparr>"

definition ctlRequest :: "CtlFlags \<Rightarrow> ChatRequest" where
  "ctlRequest f = zeroRequest\<lparr>reqModel := cfModel f, reqStream := cfStream f,
     reqMessages := [\<lparr>msgRole = ''user'', msgContent = cfMessage f\<rparr>]\<rparr>"

text \<open>Exit code, standard output, standard error.\<close>

definition routerctl :: "CtlCodec \<Rightarrow> http_do \<Rightarrow> CtlFlags \<Rightarrow> int \<times> string \<times> string" where
  "routerctl cd send f =
     (if TrimSpace (cfMessage f) = [] then (2, [], ''error: -message is required'' @ [newline])
      else case fetchDecision cd send (cfURL f) (cfKey f) (ctlRequest f) (cfExplain f) of
        Inl e \<Rightarrow> (1, [], ''error: '' @ e @ [newline])
      | Inr d \<Rightarrow> (0, render d, []))"

section \<open>loadtest: the workers and the gate\<close>

record LoadFlags =
  lfConcurrency :: int
  lfRequests :: int
  lfP95Budget :: float64

definition clampFlags :: "LoadFlags \<Rightarrow> LoadFlags" where
  "clampFlags f =
     (let f = (if lfConcurrency f < 1 then f\<lparr>lfConcurrency := 1\<rparr> else f)
      in if lfRequests f < lfConcurrency f then f\<lparr>lfRequests := lfConcurrency f\<rparr> else f)"

text \<open>\<open>doRequest\<close>: the milliseconds measured and the error; \<open>micros\<close> is the time the call took.\<close>

definition doRequest :: "(string \<Rightarrow> string option) \<Rightarrow> http_do \<Rightarrow> int \<Rightarrow> string \<Rightarrow> string \<Rightarrow> string \<Rightarrow> float64 \<times> string option" where
  "doRequest newRequest send micros baseURL key body =
     (let url = baseURL @ ''/v1/chat/completions'' in
      case newRequest url of
        Some e \<Rightarrow> (0, Some e)
      | None \<Rightarrow> (case send \<lparr>hqURL = url, hqHeaders = mput ''Content-Type'' ''application/json''
                                 (mput ''Authorization'' (''Bearer '' @ key) []), hqBody = body\<rparr> of
          Inl e \<Rightarrow> (0, Some e)
        | Inr resp \<Rightarrow>
            let ms = of_int micros / 1000 in
            if hsStatus resp \<noteq> 200 then (ms, Some (''status '' @ showInt (hsStatus resp))) else (ms, None)))"

text \<open>
  The state of a run: the next number the channel hands out, what each worker holds, the results and
  the failures. The channel is unbuffered, so a number leaves the loop when a worker takes it.
\<close>

record LoadState =
  ldNext :: nat
  ldWorkers :: "nat option list"
  ldResults :: "float64 list"
  ldFailures :: int

definition loadStart :: "nat \<Rightarrow> nat \<Rightarrow> LoadState" where
  "loadStart concurrency requests =
     \<lparr>ldNext = 0, ldWorkers = replicate concurrency None, ldResults = replicate requests 0, ldFailures = 0\<rparr>"

definition takeWork :: "nat \<Rightarrow> LoadState \<Rightarrow> LoadState" where
  "takeWork w s = s\<lparr>ldWorkers := (ldWorkers s)[w := Some (ldNext s)], ldNext := Suc (ldNext s)\<rparr>"

definition finishWork :: "(nat \<Rightarrow> float64 \<times> string option) \<Rightarrow> nat \<Rightarrow> nat \<Rightarrow> LoadState \<Rightarrow> LoadState" where
  "finishWork outcome w i s =
     (case outcome i of
        (_, Some _) \<Rightarrow> s\<lparr>ldResults := (ldResults s)[i := - 1], ldFailures := ldFailures s + 1, ldWorkers := (ldWorkers s)[w := None]\<rparr>
      | (ms, None) \<Rightarrow> s\<lparr>ldResults := (ldResults s)[i := ms], ldWorkers := (ldWorkers s)[w := None]\<rparr>)"

inductive load_step :: "(nat \<Rightarrow> float64 \<times> string option) \<Rightarrow> nat \<Rightarrow> LoadState \<Rightarrow> LoadState \<Rightarrow> bool"
  for outcome :: "nat \<Rightarrow> float64 \<times> string option" and requests :: nat where
  takes: "ldNext s < requests \<Longrightarrow> w < length (ldWorkers s) \<Longrightarrow> ldWorkers s ! w = None \<Longrightarrow>
    load_step outcome requests s (takeWork w s)"
| finishes: "w < length (ldWorkers s) \<Longrightarrow> ldWorkers s ! w = Some i \<Longrightarrow>
    load_step outcome requests s (finishWork outcome w i s)"

text \<open>The channel is closed and every worker has returned.\<close>

definition loadDone :: "nat \<Rightarrow> LoadState \<Rightarrow> bool" where
  "loadDone requests s \<longleftrightarrow> ldNext s = requests \<and> list_all (\<lambda>x. x = None) (ldWorkers s)"

definition percentile :: "float64 list \<Rightarrow> float64 \<Rightarrow> float64" where
  "percentile xs p =
     (let n = int (length xs) in
      if n = 0 then 0
      else if p \<le> 0 then xs ! 0
      else if p \<ge> 1 then xs ! nat (n - 1)
      else
        let rank = \<lfloor>p * of_int n + 999999 / 1000000\<rfloor>;
            rank = (if rank < 1 then 1 else rank);
            rank = (if rank > n then n else rank)
        in xs ! nat (rank - 1))"

definition loadLatencies :: "float64 list \<Rightarrow> float64 list" where
  "loadLatencies results = sort (filter (\<lambda>r. r \<ge> 0) results)"

datatype load_verdict = LoadPass | LoadFailures int | LoadSlow float64

definition loadVerdict :: "LoadFlags \<Rightarrow> LoadState \<Rightarrow> load_verdict" where
  "loadVerdict f s =
     (let latencies = loadLatencies (ldResults s); p95 = percentile latencies (95 / 100) in
      if ldFailures s > 0 then LoadFailures (ldFailures s)
      else if p95 > lfP95Budget f then LoadSlow p95
      else LoadPass)"

definition loadExit :: "load_verdict \<Rightarrow> int" where
  "loadExit v = (case v of LoadPass \<Rightarrow> 0 | _ \<Rightarrow> 1)"

definition verdictText :: "LoadFlags \<Rightarrow> load_verdict \<Rightarrow> string" where
  "verdictText f v =
     (case v of
        LoadPass \<Rightarrow> ''LOADTEST PASS'' @ [newline]
      | LoadFailures n \<Rightarrow> ''LOADTEST FAIL: '' @ showInt n @ '' request(s) failed'' @ [newline]
      | LoadSlow p95 \<Rightarrow> ''LOADTEST FAIL: p95 '' @ fmtFixed 1 p95 @ ''ms exceeds budget '' @ fmtFixed 1 (lfP95Budget f) @ ''ms'' @ [newline])"

definition loadSummary :: "LoadFlags \<Rightarrow> float64 \<Rightarrow> LoadState \<Rightarrow> string" where
  "loadSummary f elapsed s =
     (let latencies = loadLatencies (ldResults s); n = lfRequests f; failed = ldFailures s in
      ''loadtest: '' @ showInt n @ '' requests, '' @ showInt (lfConcurrency f) @ '' concurrent, '' @ fmtFixed 1 elapsed @ ''s, '' @
      fmtFixed 0 (of_int n / elapsed) @ '' req/s'' @ [newline] @
      ''  success='' @ showInt (n - failed) @ ''  failed='' @ showInt failed @ ''  error_rate='' @
      fmtFixed 2 (100 * of_int failed / of_int n) @ ''%'' @ [newline] @
      (if length latencies > 0 then
         ''  end-to-end latency (ms): p50='' @ fmtFixed 1 (percentile latencies (50 / 100)) @
         ''  p95='' @ fmtFixed 1 (percentile latencies (95 / 100)) @
         ''  p99='' @ fmtFixed 1 (percentile latencies (99 / 100)) @ ''  max='' @ fmtFixed 1 (last latencies) @ [newline]
       else []))"

section \<open>eval-report: the reports of evaluation runs\<close>

definition NewRunner :: "gotime \<Rightarrow> registry_error + Runner" where
  "NewRunner now =
     (case DefaultSnapshot now of
        Inl e \<Rightarrow> Inl e
      | Inr snap \<Rightarrow> (case NewStore (Some snap) of
          Inl e \<Rightarrow> Inl e
        | Inr store \<Rightarrow> Inr \<lparr>rnEngine = NewEngine (Some store), rnSnapshot = Some snap\<rparr>))"

text \<open>
  What the command uses: files it reads, the YAML library, directories and files it makes
  (an error or nothing), the JSON encoding of a report, \<open>filepath.Join\<close>, the texts of errors of the
  registry and the policy parser, and the clock and sorting of a run.
\<close>

record EvalTools =
  etNow :: gotime
  etEnv :: EvalEnv
  etRead :: "string \<Rightarrow> string + string"
  etDataset :: "string \<Rightarrow> string + Dataset"
  etPolicy :: "string \<Rightarrow> string + rawPolicy"
  etDecoder :: decoder
  etMkdir :: "string \<Rightarrow> string option"
  etWrite :: "string \<Rightarrow> string option"
  etReport :: "EvalReport \<Rightarrow> string + string"
  etComparison :: "ComparisonReport \<Rightarrow> string + string"
  etJoin :: "string \<Rightarrow> string \<Rightarrow> string"
  etSortCases :: "(CaseResult \<Rightarrow> CaseResult \<Rightarrow> bool) \<Rightarrow> CaseResult list \<Rightarrow> CaseResult list"
  etSortComparisons :: "(CaseComparison \<Rightarrow> CaseComparison \<Rightarrow> bool) \<Rightarrow> CaseComparison list \<Rightarrow> CaseComparison list"
  etLoadErr :: "load_err \<Rightarrow> string"
  etRegistryErr :: "registry_error \<Rightarrow> string"

definition generate :: "EvalTools \<Rightarrow> string \<Rightarrow> string + EvalReport" where
  "generate t datasetPath =
     (case NewRunner (etNow t) of
        Inl e \<Rightarrow> Inl (''new runner: '' @ etRegistryErr t e)
      | Inr rn \<Rightarrow> (case LoadDataset (etRead t) (etDataset t) datasetPath of
          Inl e \<Rightarrow> Inl (''load dataset: '' @ e)
        | Inr ds \<Rightarrow> Inr (evalRun (etEnv t) rn ds)))"

definition loadPolicy :: "EvalTools \<Rightarrow> Runner \<Rightarrow> string \<Rightarrow> string + CompiledPolicy" where
  "loadPolicy t rn path =
     (case LoadCompiledPolicy (etRead t) (etPolicy t) (etDecoder t) path (rnSnapshot rn) of
        Inl e \<Rightarrow> Inl (etLoadErr t e) | Inr p \<Rightarrow> Inr p)"

definition generateComparison :: "EvalTools \<Rightarrow> string \<Rightarrow> string \<Rightarrow> string \<Rightarrow> string + ComparisonReport" where
  "generateComparison t datasetPath policyAPath policyBPath =
     (case NewRunner (etNow t) of
        Inl e \<Rightarrow> Inl (''new runner: '' @ etRegistryErr t e)
      | Inr rn \<Rightarrow> (case LoadDataset (etRead t) (etDataset t) datasetPath of
          Inl e \<Rightarrow> Inl (''load dataset: '' @ e)
        | Inr ds \<Rightarrow> (case loadPolicy t rn policyAPath of
            Inl e \<Rightarrow> Inl e
          | Inr policyA \<Rightarrow> (case loadPolicy t rn policyBPath of
              Inl e \<Rightarrow> Inl e
            | Inr policyB \<Rightarrow> Inr (ComparePolicies (etEnv t) rn ds (Some policyA) (Some policyB))))))"

text \<open>The files written, in order, and the error that stopped the writing.\<close>

definition writePair :: "EvalTools \<Rightarrow> string \<Rightarrow> string + string \<Rightarrow> string \<Rightarrow> string \<Rightarrow> string \<Rightarrow> (string \<times> string) list \<times> string option" where
  "writePair t dir json jsonName textName textBody =
     (case etMkdir t dir of
        Some e \<Rightarrow> ([], Some e)
      | None \<Rightarrow> (case json of
          Inl e \<Rightarrow> ([], Some e)
        | Inr bytes \<Rightarrow>
            let p = etJoin t dir jsonName; q = etJoin t dir textName in
            (case etWrite t p of
               Some e \<Rightarrow> ([], Some e)
             | None \<Rightarrow> (case etWrite t q of
                 Some e \<Rightarrow> ([(p, bytes)], Some e)
               | None \<Rightarrow> ([(p, bytes), (q, textBody)], None)))))"

definition writeReport :: "EvalTools \<Rightarrow> EvalReport \<Rightarrow> string \<Rightarrow> (string \<times> string) list \<times> string option" where
  "writeReport t report dir =
     writePair t dir (etReport t report) ''report.json'' ''report.txt'' (FormatReport (etSortCases t) report)"

definition writeComparisonReport :: "EvalTools \<Rightarrow> ComparisonReport \<Rightarrow> string \<Rightarrow> string \<Rightarrow> string \<Rightarrow> (string \<times> string) list \<times> string option" where
  "writeComparisonReport t report dir labelA labelB =
     writePair t dir (etComparison t report) ''comparison.json'' ''comparison.txt''
       (FormatComparisonReport (etSortComparisons t) report labelA labelB)"

text \<open>\<open>filepath.Base\<close> and \<open>filepath.Ext\<close>.\<close>

definition pathBase :: "string \<Rightarrow> string" where
  "pathBase path =
     (if path = [] then ''.''
      else
        let base = rev (takeWhile (\<lambda>c. c \<noteq> CHR ''/'') (rev (TrimRight (CHR ''/'') path)))
        in if base = [] then ''/'' else base)"

definition pathExt :: "string \<Rightarrow> string" where
  "pathExt path =
     (let tail = takeWhile (\<lambda>c. c \<noteq> CHR ''/'') (rev path);
          ext = takeWhile (\<lambda>c. c \<noteq> CHR ''.'') tail
      in if CHR ''.'' \<in> set tail then CHR ''.'' # rev ext else [])"

definition TrimSuffix :: "string \<Rightarrow> string \<Rightarrow> string" where
  "TrimSuffix s suf = (if suffix suf s then take (length s - length suf) s else s)"

definition policyLabel :: "string \<Rightarrow> string" where
  "policyLabel path =
     (let base = pathBase path; ext = pathExt base in if ext = [] then base else TrimSuffix base ext)"

record EvalFlags =
  efDataset :: string
  efOut :: string
  efMinPass :: float64
  efPolicyA :: string
  efPolicyB :: string

text \<open>Exit code, the files written, standard output, standard error.\<close>

record EvalExit =
  exCode :: int
  exFiles :: "(string \<times> string) list"
  exOut :: string
  exErr :: string

definition failWith :: "string \<Rightarrow> (string \<times> string) list \<Rightarrow> EvalExit" where
  "failWith msg written = \<lparr>exCode = 1, exFiles = written, exOut = [], exErr = msg @ [newline]\<rparr>"

definition evalReport :: "EvalTools \<Rightarrow> EvalFlags \<Rightarrow> EvalExit" where
  "evalReport t f =
     (if (efPolicyA f = []) \<noteq> (efPolicyB f = []) then failWith ''error: -policy-a and -policy-b must be provided together'' []
      else if efPolicyA f \<noteq> [] then
        (case generateComparison t (efDataset f) (efPolicyA f) (efPolicyB f) of
           Inl e \<Rightarrow> failWith (''error: '' @ e) []
         | Inr report \<Rightarrow>
             let labelA = policyLabel (efPolicyA f); labelB = policyLabel (efPolicyB f) in
             (case writeComparisonReport t report (efOut f) labelA labelB of
                (written, Some e) \<Rightarrow> failWith (''error writing comparison report: '' @ e) written
              | (written, None) \<Rightarrow>
                  \<lparr>exCode = 0, exFiles = written,
                   exOut = FormatComparisonReport (etSortComparisons t) report labelA labelB @
                     ''Comparison report written to '' @ efOut f @ ''/'' @ [newline], exErr = []\<rparr>))
      else
        (case generate t (efDataset f) of
           Inl e \<Rightarrow> failWith (''error: '' @ e) []
         | Inr report \<Rightarrow> (case writeReport t report (efOut f) of
             (written, Some e) \<Rightarrow> failWith (''error writing report: '' @ e) written
           | (written, None) \<Rightarrow>
               let out = FormatReport (etSortCases t) report @ ''Report written to '' @ efOut f @ ''/'' @ [newline];
                   low = efMinPass f > 0 \<and> PassRate report < efMinPass f
               in \<lparr>exCode = (if low then 1 else 0), exFiles = written, exOut = out,
                   exErr = (if low then ''pass rate '' @ fmtFixed 3 (PassRate report) @ '' below threshold '' @
                              fmtFixed 3 (efMinPass f) @ [newline] else [])\<rparr>)))"

section \<open>worker: retention sweeps\<close>

definition workerSettings :: "environment \<Rightarrow> RetSettings" where
  "workerSettings getenv =
     NewSettings (parseIntEnv (getenv ''ROUTER_RETENTION_DAYS'') DefaultRetentionDays) (parseBoolEnv (getenv ''ROUTER_PROMPT_LOGGING''))"

definition workerCleaner :: "environment \<Rightarrow> 'db Cleaner" where
  "workerCleaner getenv = NewCleaner (Some (workerSettings getenv)) (Some dryRunPurge)"

definition workerInterval :: "environment \<Rightarrow> int" where
  "workerInterval getenv = i64 (parseIntEnv (getenv ''ROUTER_RETENTION_INTERVAL_HOURS'') 24 * 3600000000000)"

definition workerMain :: "environment \<Rightarrow> int list \<Rightarrow> 'db \<Rightarrow> 'db" where
  "workerMain getenv nows db = cleanerRun (Some (workerCleaner getenv)) nows db"

section \<open>mock-provider\<close>

definition mockPromptText :: "Message list \<Rightarrow> string" where
  "mockPromptText messages = joinWith [newline] (map msgContent messages)"

definition estimateTokens :: "string \<Rightarrow> int" where
  "estimateTokens s = (if s = [] then 0 else (int (length s) + 3) div 4)"

definition base36Digit :: "nat \<Rightarrow> char" where
  "base36Digit d = (if d < 10 then char_of (48 + d) else char_of (87 + d))"

fun formatBase36 :: "nat \<Rightarrow> string \<Rightarrow> string" where
  "formatBase36 n acc = (if n < 36 then base36Digit n # acc else formatBase36 (n div 36) (base36Digit (n mod 36) # acc))"

definition mockError :: "string \<Rightarrow> string \<Rightarrow> string" where
  "mockError msg kind =
     ''{'' @ fmtQ ''error'' @ '':{'' @ fmtQ ''message'' @ '':'' @ fmtQ msg @ '','' @ fmtQ ''type'' @ '':'' @ fmtQ kind @ ''}}''"

datatype mock_body = MockText string | MockChat ChatResponse | MockEmpty

text \<open>The reply, and the seconds slept before it.\<close>

definition mockHandler :: "int \<Rightarrow> header \<Rightarrow> string + ChatRequest \<Rightarrow> mock_body HReply \<times> int" where
  "mockHandler unixNano headers decoded =
     (case decoded of
        Inl _ \<Rightarrow> (\<lparr>hrStatus = 400, hrHeaders = mput ''X-Content-Type-Options'' ''nosniff'' (mput ''Content-Type'' ''text/plain; charset=utf-8'' []),
                   hrBody = MockText (mockError ''bad json'' ''invalid_request_error'' @ [newline])\<rparr>, 0)
      | Inr req \<Rightarrow>
          let behavior = headerGet headers ''X-Mock-Behavior'';
              slept = (if behavior = ''timeout'' then 10 else 0)
          in if behavior = ''rate_limit''
             then (\<lparr>hrStatus = 429, hrHeaders = [], hrBody = MockText (mockError ''rate limited'' ''rate_limit_error'')\<rparr>, 0)
             else if behavior = ''5xx'' then (\<lparr>hrStatus = 502, hrHeaders = [], hrBody = MockEmpty\<rparr>, 0)
             else if behavior = ''bad_response'' then (\<lparr>hrStatus = 200, hrHeaders = [], hrBody = MockText ''not json''\<rparr>, 0)
             else
               let prompt = mockPromptText (reqMessages req);
                   preview = (if length prompt > 60 then take 60 prompt @ ''...'' else prompt)
               in (jsonReply 200 (MockChat
                     \<lparr>respID = ''chatcmpl_mock_'' @ formatBase36 (nat unixNano) [], respObject = ''chat.completion'',
                      respCreated = unixNano div 1000000000, respModel = reqModel req,
                      respChoices = [\<lparr>choIndex = 0, choMessage = \<lparr>msgRole = ''assistant'', msgContent = ''mock response to: '' @ preview\<rparr>,
                                      choFinishReason = ''stop''\<rparr>],
                      respUsage = \<lparr>PromptTokens = estimateTokens prompt, CompletionTokens = 12,
                                   TotalTokens = estimateTokens prompt + 12\<rparr>\<rparr>), slept))"

end
