(* ===== verification/CommandProps.thy ===== *)
theory CommandProps
  imports Commands HandlerProps
begin

text \<open>
  The commands against the program they serve: what \<open>routerctl\<close> prints for a decision of the server,
  that the workers of \<open>loadtest\<close> finish and its gate decides as meant in every interleaving, and that
  \<open>worker\<close> deletes nothing.
\<close>

section \<open>The p-quantile of a sorted list\<close>

lemma count_split: "length (filter P xs) = length (filter P (take i xs)) + length (filter P (drop i xs))"
  by (metis append_take_drop_id filter_append length_append)

lemma count_mono: "(\<And>x. P x \<Longrightarrow> Q x) \<Longrightarrow> length (filter P xs) \<le> length (filter Q xs)"
  by (induction xs) auto

lemma sorted_count_le:
  assumes "sorted xs" and "i < length xs"
  shows "Suc i \<le> length (filter (\<lambda>x. x \<le> xs ! i) xs)"
proof -
  have "\<forall>x \<in> set (take (Suc i) xs). x \<le> xs ! i"
    using assms by (auto simp: in_set_conv_nth sorted_iff_nth_mono)
  then have "filter (\<lambda>x. x \<le> xs ! i) (take (Suc i) xs) = take (Suc i) xs" by (simp add: filter_id_conv)
  then show ?thesis using assms(2) by (subst count_split [where i = "Suc i"]) simp
qed

lemma sorted_count_less:
  assumes "sorted xs" and "i < length xs"
  shows "length (filter (\<lambda>x. x < xs ! i) xs) \<le> i"
proof -
  have "\<forall>x \<in> set (drop i xs). \<not> x < xs ! i"
    using assms by (auto simp: in_set_conv_nth sorted_iff_nth_mono not_less)
  then have "filter (\<lambda>x. x < xs ! i) (drop i xs) = []" by (simp add: filter_empty_conv)
  then have "length (filter (\<lambda>x. x < xs ! i) xs) \<le> length (take i xs)"
    by (subst count_split [where i = i]) (simp add: length_filter_le [THEN le_trans])
  then show ?thesis by simp
qed

text \<open>The nearest rank of a whole percentage: at least that share of the list is not above the value, and less of it below.\<close>

lemma percentile_rank:
  assumes "sorted xs" and "xs \<noteq> []" and "0 < k" and "k < 100"
  defines "p \<equiv> percentile xs (of_nat k / 100)"
  shows "k * length xs \<le> 100 * length (filter (\<lambda>x. x \<le> p) xs)"
    and "100 * length (filter (\<lambda>x. x < p) xs) < k * length xs"
proof -
  let ?n = "length xs"
  define rank where "rank = \<lfloor>of_nat k / 100 * of_int (int ?n) + 999999 / 1000000 :: rat\<rfloor>"
  have "of_int rank \<le> (of_nat k / 100 * of_int (int ?n) + 999999 / 1000000 :: rat)"
    "(of_nat k / 100 * of_int (int ?n) + 999999 / 1000000 :: rat) < of_int rank + 1"
    unfolding rank_def by (rule of_int_floor_le, rule floor_correct [THEN conjunct2, simplified])
  then have "of_int (100 * rank) < (of_int (int k * int ?n + 100) :: rat)"
    "(of_int (int k * int ?n) :: rat) < of_int (100 * rank + 1)" by (simp_all add: field_simps)
  then have hi: "100 * rank < int k * int ?n + 100" and lo: "int k * int ?n \<le> 100 * rank"
    unfolding of_int_less_iff by linarith+
  have pos: "0 < int k * int ?n" using assms(2,3) by simp
  have small: "int k * int ?n \<le> 99 * int ?n" using assms(4) by (intro mult_right_mono) auto
  have rank: "1 \<le> rank" "rank \<le> int ?n" using lo hi pos small by linarith+
  have p: "p = xs ! nat (rank - 1)"
    using rank assms(2-4) unfolding p_def percentile_def rank_def Let_def by simp
  have i: "nat (rank - 1) < ?n" "int (nat (rank - 1)) = rank - 1" using rank assms(2) by auto
  have "int k * int ?n \<le> 100 * int (length (filter (\<lambda>x. x \<le> p) xs))"
    using sorted_count_le [OF assms(1) i(1)] i(2) lo unfolding p by linarith
  then show "k * ?n \<le> 100 * length (filter (\<lambda>x. x \<le> p) xs)" by (simp flip: of_nat_mult of_nat_le_iff)
  have "100 * int (length (filter (\<lambda>x. x < p) xs)) < int k * int ?n"
    using sorted_count_less [OF assms(1) i(1)] i(2) hi unfolding p by linarith
  then show "100 * length (filter (\<lambda>x. x < p) xs) < k * ?n" by (simp flip: of_nat_mult of_nat_less_iff)
qed

lemma percentile_within:
  assumes "sorted xs" and "xs \<noteq> []" and "0 < k" and "k < 100"
  shows "percentile xs (of_nat k / 100) \<le> b \<longleftrightarrow> k * length xs \<le> 100 * length (filter (\<lambda>x. x \<le> b) xs)"
proof
  let ?p = "percentile xs (of_nat k / 100)"
  note rank = percentile_rank [OF assms]
  {
    assume "?p \<le> b"
    then have "length (filter (\<lambda>x. x \<le> ?p) xs) \<le> length (filter (\<lambda>x. x \<le> b) xs)"
      by (intro count_mono) simp
    with rank(1) show "k * length xs \<le> 100 * length (filter (\<lambda>x. x \<le> b) xs)" by linarith
  next
    assume le: "k * length xs \<le> 100 * length (filter (\<lambda>x. x \<le> b) xs)"
    show "?p \<le> b"
    proof (rule ccontr)
      assume "\<not> ?p \<le> b"
      then have "length (filter (\<lambda>x. x \<le> b) xs) \<le> length (filter (\<lambda>x. x < ?p) xs)"
        by (intro count_mono) simp
      with rank(2) le show False by linarith
    qed
  }
qed

section \<open>The workers of the load test\<close>

definition resultOf :: "float64 \<times> string option \<Rightarrow> float64" where
  "resultOf r = (if snd r = None then fst r else - 1)"

definition holds :: "LoadState \<Rightarrow> nat \<Rightarrow> nat \<Rightarrow> bool" where
  "holds s w i \<longleftrightarrow> w < length (ldWorkers s) \<and> ldWorkers s ! w = Some i"

text \<open>Numbers handed out are held by one worker or have their result; a failure counts one such result.\<close>

definition failedOf :: "(nat \<Rightarrow> float64 \<times> string option) \<Rightarrow> LoadState \<Rightarrow> nat set" where
  "failedOf outcome s = {i. i < ldNext s \<and> (\<nexists>w. holds s w i) \<and> snd (outcome i) \<noteq> None}"

lemma finite_failedOf [simp]: "finite (failedOf outcome s)"
  by (simp add: failedOf_def)

definition load_inv :: "(nat \<Rightarrow> float64 \<times> string option) \<Rightarrow> nat \<Rightarrow> LoadState \<Rightarrow> bool" where
  "load_inv outcome n s \<longleftrightarrow> ldNext s \<le> n \<and> length (ldResults s) = n \<and>
     (\<forall>w i. holds s w i \<longrightarrow> i < ldNext s) \<and> (\<forall>w v i. holds s w i \<and> holds s v i \<longrightarrow> w = v) \<and>
     (\<forall>i < ldNext s. (\<exists>w. holds s w i) \<or> ldResults s ! i = resultOf (outcome i)) \<and>
     ldFailures s = int (card (failedOf outcome s))"

lemma holds_take:
  assumes "w < length (ldWorkers s)" and "ldWorkers s ! w = None"
  shows "holds (takeWork w s) v i \<longleftrightarrow> (v = w \<and> i = ldNext s) \<or> holds s v i"
  using assms by (auto simp: holds_def takeWork_def nth_list_update)

lemma finishWork_fields:
  "ldNext (finishWork outcome w i s) = ldNext s" "ldWorkers (finishWork outcome w i s) = (ldWorkers s)[w := None]"
  "ldResults (finishWork outcome w i s) = (ldResults s)[i := resultOf (outcome i)]"
  "ldFailures (finishWork outcome w i s) = ldFailures s + (if snd (outcome i) = None then 0 else 1)"
  by (auto simp: finishWork_def resultOf_def split: prod.split option.split)

lemma holds_finish:
  assumes "load_inv outcome n s" and "holds s w i"
  shows "holds (finishWork outcome w i s) v j \<longleftrightarrow> j \<noteq> i \<and> holds s v j"
  using assms by (auto simp: holds_def finishWork_fields nth_list_update load_inv_def split: if_splits)

lemma load_inv_start: "load_inv outcome n (loadStart c n)"
  by (auto simp: load_inv_def loadStart_def holds_def failedOf_def)

lemma load_inv_take:
  assumes inv: "load_inv outcome n s" and "ldNext s < n" and w: "w < length (ldWorkers s)" "ldWorkers s ! w = None"
  shows "load_inv outcome n (takeWork w s)"
proof -
  note held = holds_take [OF w]
  have fields: "ldNext (takeWork w s) = Suc (ldNext s)" "ldResults (takeWork w s) = ldResults s" "ldFailures (takeWork w s) = ldFailures s"
    by (simp_all add: takeWork_def)
  have fresh: "\<not> holds s v (ldNext s)" for v using inv by (auto simp: load_inv_def)
  then have "failedOf outcome (takeWork w s) = failedOf outcome s"
    by (auto simp: failedOf_def held fields less_Suc_eq)
  moreover have "i < Suc (ldNext s)" if "holds (takeWork w s) v i" for v i
    using inv that by (auto simp: held load_inv_def less_Suc_eq)
  moreover have "v = u" if "holds (takeWork w s) v i" "holds (takeWork w s) u i" for v u i
    using inv that fresh unfolding held load_inv_def by blast
  moreover have "(\<exists>v. holds (takeWork w s) v i) \<or> ldResults s ! i = resultOf (outcome i)" if "i < Suc (ldNext s)" for i
    using inv that by (auto simp: held load_inv_def less_Suc_eq)
  ultimately show ?thesis using inv assms(2) by (simp add: load_inv_def fields) blast
qed

lemma load_inv_finish:
  assumes inv: "load_inv outcome n s" and h: "holds s w i"
  shows "load_inv outcome n (finishWork outcome w i s)"
proof -
  note held = holds_finish [OF inv h]
  have i: "i < ldNext s" "ldNext s \<le> length (ldResults s)" using inv h by (auto simp: load_inv_def)
  then have "failedOf outcome (finishWork outcome w i s) =
      (if snd (outcome i) = None then failedOf outcome s else insert i (failedOf outcome s))"
    by (auto simp: failedOf_def held finishWork_fields)
  moreover have "i \<notin> failedOf outcome s" using h by (auto simp: failedOf_def)
  ultimately have "int (card (failedOf outcome (finishWork outcome w i s))) = ldFailures (finishWork outcome w i s)"
    using inv by (simp add: load_inv_def finishWork_fields)
  moreover have "(\<exists>v. holds (finishWork outcome w i s) v j) \<or> ldResults (finishWork outcome w i s) ! j = resultOf (outcome j)"
    if "j < ldNext s" for j
    using inv that i by (cases "j = i") (auto simp: load_inv_def held finishWork_fields)
  ultimately show ?thesis
    using inv unfolding load_inv_def held by (simp add: finishWork_fields) blast
qed

lemma load_inv_step: "load_step outcome n s t \<Longrightarrow> load_inv outcome n s \<Longrightarrow> load_inv outcome n t"
  by (induction rule: load_step.induct) (auto intro: load_inv_take load_inv_finish simp: holds_def)

lemma load_inv_run: "(load_step outcome n)\<^sup>*\<^sup>* (loadStart c n) s \<Longrightarrow> load_inv outcome n s"
  by (induction rule: rtranclp_induct) (auto intro: load_inv_start load_inv_step)

text \<open>What is left to do, in steps.\<close>

definition loadLeft :: "nat \<Rightarrow> LoadState \<Rightarrow> nat" where
  "loadLeft n s = 2 * (n - ldNext s) + sum_list (map (\<lambda>x. if x = None then 0 else 1) (ldWorkers s))"

lemma busy_update:
  "w < length ws \<Longrightarrow> sum_list (map (\<lambda>x. if x = None then 0 else 1) (ws[w := y])) + (if ws ! w = None then 0 else 1) =
   sum_list (map (\<lambda>x. if x = None then 0 else 1) ws) + (if y = None then 0 else (1 :: nat))"
proof (induction ws arbitrary: w)
  case (Cons x ws)
  show ?case
  proof (cases w)
    case (Suc v)
    then show ?thesis using Cons.IH [of v] Cons.prems by simp
  qed simp
qed simp

lemma loadLeft_step: "load_step outcome n s t \<Longrightarrow> loadLeft n s = Suc (loadLeft n t)"
proof (induction rule: load_step.induct)
  case (takes s w)
  with busy_update [of w "ldWorkers s" "Some (ldNext s)"] show ?case by (simp add: loadLeft_def takeWork_def)
next
  case (finishes w s i)
  with busy_update [of w "ldWorkers s" None] show ?case by (simp add: loadLeft_def finishWork_fields)
qed

lemma load_progress:
  assumes "load_inv outcome n s" and "ldWorkers s \<noteq> []" and "\<not> loadDone n s"
  shows "\<exists>t. load_step outcome n s t"
proof (cases "\<exists>x \<in> set (ldWorkers s). x \<noteq> None")
  case True
  then obtain w i where "w < length (ldWorkers s)" "ldWorkers s ! w = Some i" by (auto simp: in_set_conv_nth)
  then show ?thesis by (blast intro: load_step.finishes)
next
  case False
  with assms have "ldNext s < n" by (auto simp: loadDone_def load_inv_def list_all_iff)
  moreover have "ldWorkers s ! 0 = None" using False assms(2) by auto
  ultimately show ?thesis using assms(2) by (blast intro: load_step.takes [where w = 0])
qed

lemma load_step_workers: "load_step outcome n s t \<Longrightarrow> length (ldWorkers t) = length (ldWorkers s)"
  by (induction rule: load_step.induct) (simp_all add: takeWork_def finishWork_fields)

lemma load_completes:
  "load_inv outcome n s \<Longrightarrow> ldWorkers s \<noteq> [] \<Longrightarrow> \<exists>t. (load_step outcome n)\<^sup>*\<^sup>* s t \<and> loadDone n t"
proof (induction "loadLeft n s" arbitrary: s)
  case 0
  have "\<not> load_step outcome n s t" for t using loadLeft_step [of outcome n s t] 0(1) by auto
  with load_progress [OF 0(2,3)] show ?case by blast
next
  case (Suc m)
  show ?case
  proof (cases "loadDone n s")
    case False
    from load_progress [OF Suc.prems False] obtain t where t: "load_step outcome n s t" by blast
    then have "m = loadLeft n t" "load_inv outcome n t" "ldWorkers t \<noteq> []"
      using loadLeft_step [OF t] Suc.hyps(2) Suc.prems load_inv_step [OF t] load_step_workers [OF t] by auto
    from Suc.hyps(1) [OF this] t show ?thesis by (meson converse_rtranclp_into_rtranclp)
  qed blast
qed

lemma load_results:
  assumes "load_inv outcome n s" and "loadDone n s"
  shows "ldResults s = map (\<lambda>i. resultOf (outcome i)) [0..<n]"
    and "ldFailures s = int (card {i. i < n \<and> snd (outcome i) \<noteq> None})"
proof -
  have none: "\<not> holds s w i" for w i
    using assms(2) by (auto simp: holds_def loadDone_def list_all_iff) (metis nth_mem option.distinct(1))
  have "ldNext s = n" using assms(2) by (simp add: loadDone_def)
  with assms(1) none show "ldResults s = map (\<lambda>i. resultOf (outcome i)) [0..<n]"
    "ldFailures s = int (card {i. i < n \<and> snd (outcome i) \<noteq> None})"
    by (auto simp: load_inv_def failedOf_def intro!: nth_equalityI)
qed

lemma clamped: "lfConcurrency (clampFlags f) \<ge> 1" "lfRequests (clampFlags f) \<ge> 1"
  by (auto simp: clampFlags_def Let_def)

lemma loadLeft_run: "(load_step outcome n ^^ k) s t \<Longrightarrow> loadLeft n s = loadLeft n t + k"
  by (induction k arbitrary: t) (auto dest!: loadLeft_step)

text \<open>
  C39: the load test ends, and every worker of it. From any state its workers can reach, in whatever
  order they take numbers and answers arrive, the remaining steps lead to the state where the channel
  is closed and every worker has returned; no run takes more than two steps per request.
\<close>

theorem load_test_finishes:
  assumes "n = nat (lfRequests (clampFlags f))" and "start = loadStart (nat (lfConcurrency (clampFlags f))) n"
    and "(load_step outcome n ^^ k) start s"
  shows "k \<le> 2 * n \<and> (\<exists>t. (load_step outcome n)\<^sup>*\<^sup>* s t \<and> loadDone n t)"
proof -
  have run: "(load_step outcome n)\<^sup>*\<^sup>* start s" using assms(3) by (auto simp: rtranclp_power)
  have "length (ldWorkers s) = length (ldWorkers start)"
    using run by (induction rule: rtranclp_induct) (simp_all add: load_step_workers)
  then have "ldWorkers s \<noteq> []" using clamped(1) [of f] by (auto simp: assms(2) loadStart_def)
  moreover have "loadLeft n start = 2 * n" by (simp add: assms(2) loadStart_def loadLeft_def)
  ultimately show ?thesis
    using load_inv_run [OF run [unfolded assms(2)]] load_completes loadLeft_run [OF assms(3)] by fastforce
qed

lemma load_test_finishes_witness:
  "\<exists>t. (load_step (\<lambda>i. (of_nat i, None)) 3)\<^sup>*\<^sup>* (loadStart 2 3) t \<and> loadDone 3 t"
  using load_test_finishes [of 3 "\<lparr>lfConcurrency = 2, lfRequests = 3, lfP95Budget = 200\<rparr>" "loadStart 2 3" 0 "\<lambda>i. (of_nat i, None)" "loadStart 2 3"]
  by (simp add: clampFlags_def)

lemma load_p95:
  assumes "\<forall>i < n. snd (outcome i) = None \<and> 0 \<le> fst (outcome i)" and "0 < n"
  shows "percentile (loadLatencies (map (\<lambda>i. resultOf (outcome i)) [0..<n])) (95 / 100) \<le> b \<longleftrightarrow>
    95 * n \<le> 100 * card {i. i < n \<and> fst (outcome i) \<le> b}"
proof -
  let ?ms = "map (\<lambda>i. fst (outcome i)) [0..<n]"
  have ms: "map (\<lambda>i. resultOf (outcome i)) [0..<n] = ?ms" using assms(1) by (simp add: resultOf_def)
  have "filter (\<lambda>r. 0 \<le> r) ?ms = ?ms" using assms(1) by (simp add: filter_id_conv)
  then have lat: "loadLatencies (map (\<lambda>i. resultOf (outcome i)) [0..<n]) = sort ?ms" by (simp only: loadLatencies_def ms)
  have "length (filter (\<lambda>x. x \<le> b) (sort ?ms)) = length (filter (\<lambda>x. x \<le> b) ?ms)"
    by (simp add: filter_sort)
  also have "\<dots> = card {i. i < n \<and> fst (outcome i) \<le> b}"
    by (auto simp: length_filter_conv_card intro!: arg_cong [where f = card])
  finally have count: "length (filter (\<lambda>x. x \<le> b) (sort ?ms)) = card {i. i < n \<and> fst (outcome i) \<le> b}" .
  have "percentile (sort ?ms) (of_nat 95 / 100) \<le> b \<longleftrightarrow> 95 * n \<le> 100 * card {i. i < n \<and> fst (outcome i) \<le> b}"
    using percentile_within [of "sort ?ms" 95 b] assms(2) count by (simp flip: length_0_conv)
  then show ?thesis by (simp add: lat)
qed

text \<open>
  C38: the gate of the load test. Whatever the number of workers and the order in which they take numbers
  and get answers, when all have returned the exit code is 0 exactly when every request succeeded and
  at least 95 percent of them took no longer than the budget.
\<close>

theorem load_test_gate:
  assumes "n = nat (lfRequests (clampFlags f))" and "start = loadStart (nat (lfConcurrency (clampFlags f))) n"
    and "(load_step outcome n)\<^sup>*\<^sup>* start s" and "loadDone n s" and "\<forall>i < n. 0 \<le> fst (outcome i)"
  shows "loadExit (loadVerdict f s) = 0 \<longleftrightarrow>
    (\<forall>i < n. snd (outcome i) = None) \<and> 95 * n \<le> 100 * card {i. i < n \<and> fst (outcome i) \<le> lfP95Budget f}"
proof -
  have n: "0 < n" using clamped(2) [of f] by (simp add: assms(1))
  have inv: "load_inv outcome n s" using assms(2,3) load_inv_run by blast
  note final = load_results [OF inv assms(4)]
  let ?failed = "{i. i < n \<and> snd (outcome i) \<noteq> None}"
  have "finite ?failed" by simp
  then have ok: "ldFailures s > 0 \<longleftrightarrow> \<not> (\<forall>i < n. snd (outcome i) = None)"
    by (auto simp: final(2) card_gt_0_iff)
  show ?thesis
  proof (cases "\<forall>i < n. snd (outcome i) = None")
    case True
    then have "\<forall>i < n. snd (outcome i) = None \<and> 0 \<le> fst (outcome i)" using assms(5) by blast
    note load_p95 [OF this n, of "lfP95Budget f"]
    with True ok show ?thesis by (auto simp: loadVerdict_def loadExit_def Let_def final(1) not_less [symmetric])
  next
    case False
    then show ?thesis using ok by (simp add: loadVerdict_def loadExit_def Let_def)
  qed
qed

lemma load_test_gate_witness:
  "\<exists>s. (load_step (\<lambda>i. (of_nat i, None)) 2)\<^sup>*\<^sup>* (loadStart 2 2) s \<and>
     loadExit (loadVerdict \<lparr>lfConcurrency = 2, lfRequests = 2, lfP95Budget = 1\<rparr> s) = 0"
proof -
  let ?f = "\<lparr>lfConcurrency = 2, lfRequests = 2, lfP95Budget = 1 :: rat\<rparr>"
  obtain s where s: "(load_step (\<lambda>i. (of_nat i, None)) 2)\<^sup>*\<^sup>* (loadStart 2 2) s" "loadDone 2 s"
    using load_completes [OF load_inv_start, of 2 2] by (auto simp: loadStart_def)
  have "{i. i < (2 :: nat) \<and> (of_nat i :: rat) \<le> 1} = {0, 1}" by auto
  with load_test_gate [of 2 ?f "loadStart 2 2", OF _ _ s] s(1) show ?thesis by (auto simp: clampFlags_def)
qed
section \<open>What routerctl shows\<close>

text \<open>The fields of a decision that the client decodes, by their JSON names.\<close>

definition viewDecision :: "RouteDecision \<Rightarrow> DecisionResult" where
  "viewDecision d =
     \<lparr>drSelectedModel = rdSelectedModel d, drSelectedProvider = rdSelectedProvider d, drProviderModelID = rdProviderModelID d,
      drPolicyVersion = rdPolicyVersion d, drTimeoutMS = rdTimeoutMS d, drRequiresVerifier = rdRequiresVerifier d,
      drDecisionReasons = rdDecisionReasons d, drFallbacks = map (\<lambda>f. (feModelID f, feProviderID f)) (rdFallbacks d),
      drBlocked = rdBlocked d, drBlockCode = rdBlockCode d, drBlockReason = rdBlockReason d\<rparr>"

text \<open>A reply body arrives when its text decodes to what the server encoded: an error envelope has none of the decision's fields.\<close>

definition arrives :: "CtlCodec \<Rightarrow> (decision_body \<Rightarrow> string) \<Rightarrow> decision_body \<Rightarrow> bool" where
  "arrives cd encode b \<longleftrightarrow>
     (case b of
        Decision dec job \<Rightarrow> ctDecision cd (encode b) = Inr (viewDecision dec)
      | DecisionError code msg \<Rightarrow> ctDecision cd (encode b) = Inr (viewDecision zeroDecision) \<and> ctEnvelope cd (encode b) = Some msg
      | DecisionPanic \<Rightarrow> True)"

text \<open>The transport to a server: its handler on the decoded request of the caller the server makes of the headers.\<close>

definition served_by :: "(Caller \<Rightarrow> string + ChatRequest \<Rightarrow> decision_body HReply) \<Rightarrow> ((string, string) gomap \<Rightarrow> Caller) \<Rightarrow>
    (string \<Rightarrow> string + ChatRequest) \<Rightarrow> (decision_body \<Rightarrow> string) \<Rightarrow> http_do" where
  "served_by handler callerOf decode encode hq =
     (let r = handler (callerOf (hqHeaders hq)) (decode (hqBody hq))
      in Inr \<lparr>hsStatus = hrStatus r, hsBody = encode (hrBody r), hsReadError = None\<rparr>)"

lemma pieces_blocked:
  "rdBlocked (fst (decideDisabled job pol snap)) \<longleftrightarrow> snd (decideDisabled job pol snap) = Some ErrBlocked"
  "rdBlocked (fst (decidePinned m src job ev snap)) \<longleftrightarrow> snd (decidePinned m src job ev snap) = Some ErrBlocked"
  "rdBlocked (fst (decideRouted srt e job pol ev snap health streaming)) \<longleftrightarrow>
     snd (decideRouted srt e job pol ev snap health streaming) = Some ErrBlocked"
  "rdBlocked (fst (decideBlocked ev)) \<longleftrightarrow> snd (decideBlocked ev) = Some ErrBlocked"
  by (auto simp: decideDisabled_def decidePinned_def decideRouted_def decideBlocked_def zeroDecision_def Let_def split: option.split)

lemma Decide_blocked_flag:
  assumes "Decide srt e job pol health streaming = (job', dec, err)"
  shows "rdBlocked dec \<longleftrightarrow> err = Some ErrBlocked"
proof -
  have "rdBlocked (fst (snd (Decide srt e job pol health streaming))) \<longleftrightarrow>
      snd (snd (Decide srt e job pol health streaming)) = Some ErrBlocked"
    unfolding Decide_def Let_def
    by (simp add: pieces_blocked zeroDecision_def split: sum.split option.split)
  with assms show ?thesis by simp
qed

lemma fetchDecision_served:
  assumes "ctEncode cd req = Inr payload" and "decode payload = Inr req" and "ctNewRequest cd (TrimRight (CHR ''/'') url @ ''/router/decision'') = None"
  shows "fetchDecision cd (served_by handler callerOf decode encode) url key req explain =
    (let r = handler (callerOf (ctlHeaders key explain)) (Inr req); out = ctDecision cd (encode (hrBody r)) in
     if hrStatus r = 200 \<or> (case out of Inr d \<Rightarrow> drBlocked d | Inl _ \<Rightarrow> False)
     then (case out of Inl e \<Rightarrow> Inl (''decode decision: '' @ e) | Inr d \<Rightarrow> Inr d)
     else Inl (''router returned '' @ showInt (hrStatus r) @ '': '' @ errorMessage cd (encode (hrBody r))))"
  using assms by (simp add: fetchDecision_def served_by_def Let_def)

definition refusal :: "int \<Rightarrow> string \<Rightarrow> string \<Rightarrow> int \<times> string \<times> string" where
  "refusal status msg raw =
     (1, [], ''error: router returned '' @ showInt status @ '': '' @ (if msg \<noteq> [] then msg else TrimSpace raw) @ [newline])"

text \<open>
  C12: \<open>routerctl\<close> shows the decision of the router it asks. When request and reply survive their JSON
  encoding, it prints the model, provider and fallbacks the engine chose for the message, with every
  provider healthy and the policy of the caller, and exits 0; for a block it prints the code and reason of
  the policy and exits 0 as well; for a model that does not exist, or when nothing can serve the request,
  it exits 1 with the status and message of the server. It never sees a panic of the engine.
\<close>

theorem routerctl_shows_the_decision:
  assumes "TrimSpace (cfMessage f) \<noteq> []" and "ctNewRequest cd (TrimRight (CHR ''/'') (cfURL f) @ ''/router/decision'') = None"
    and "ctEncode cd (ctlRequest f) = Inr payload" and "decode payload = Inr (ctlRequest f)" and "doEngine d = Some e"
    and "caller = callerOf (ctlHeaders (cfKey f) (cfExplain f))"
    and "reply = DecisionHandler srt d caller (Inr (ctlRequest f))" and "arrives cd encode (hrBody reply)"
    and "Decide srt e (jobOf caller (ctlRequest f)) (lookupPolicy (doPolicyCache d) (jobOf caller (ctlRequest f)))
           (Some FullyHealthy) (cfStream f) = (job, dec, err)"
  shows "routerctl cd (served_by (DecisionHandler srt d) callerOf decode encode) f =
    (case err of
       None \<Rightarrow> (0, render (viewDecision dec), [])
     | Some ErrBlocked \<Rightarrow> (0, ''BLOCKED: '' @ rdBlockCode dec @ '' '' @ emDash @ '' '' @ rdBlockReason dec @ [newline], [])
     | Some (ErrModelNotFound m) \<Rightarrow> refusal 404 (maskOutbound (engineErrText (ErrModelNotFound m))) (encode (hrBody reply))
     | Some x \<Rightarrow> refusal 422 (maskOutbound (engineErrText x)) (encode (hrBody reply)))"
proof -
  let ?send = "served_by (DecisionHandler srt d) callerOf decode encode"
  have reply: "reply = decisionReply caller job dec err"
    using assms(5,7,9) by (simp add: DecisionHandler_def ctlRequest_def Let_def)
  note fetch = fetchDecision_served [where decode = decode and payload = payload and req = "ctlRequest f" and url = "cfURL f"
      and handler = "DecisionHandler srt d" and callerOf = callerOf and encode = encode and key = "cfKey f" and explain = "cfExplain f",
      OF assms(3,4,2), folded assms(6), folded assms(7)]
  have flag: "rdBlocked dec \<longleftrightarrow> err = Some ErrBlocked" using assms(9) by (rule Decide_blocked_flag)
  have panic: "err \<noteq> Some NilPanic" using Decide_no_panic_aux assms(9) by (metis snd_conv)
  have shown: "routerctl cd ?send f = (0, render r, [])" if "fetchDecision cd ?send (cfURL f) (cfKey f) (ctlRequest f) (cfExplain f) = Inr r" for r
    using that assms(1) by (simp add: routerctl_def)
  have failed: "routerctl cd ?send f = refusal status msg (encode (hrBody reply))"
    if "hrStatus reply = status" "status \<noteq> 200" "hrBody reply = DecisionError code msg" for status code msg
    using that assms(1,8) fetch
    by (simp add: routerctl_def refusal_def errorMessage_def arrives_def Let_def viewDecision_def zeroDecision_def)
  show ?thesis
  proof (cases err)
    case None
    then have "hrStatus reply = 200" "hrBody reply = Decision dec (if ExplainEnabled (caHeaders caller) then Some job else None)"
      by (simp_all add: reply decisionReply_def jsonReply_def Let_def)
    with None shown assms(8) fetch show ?thesis by (simp add: arrives_def Let_def)
  next
    case (Some x)
    show ?thesis
    proof (cases x)
      case ErrBlocked
      then have "hrBody reply = Decision dec None" "drBlocked (viewDecision dec)"
        using Some flag by (simp_all add: reply decisionReply_def jsonReply_def viewDecision_def)
      with ErrBlocked Some shown assms(8) fetch show ?thesis by (simp add: arrives_def Let_def render_def viewDecision_def)
    qed (use Some panic failed in \<open>auto simp: reply decisionReply_def jsonReply_def\<close>)
  qed
qed

definition ctlFlags :: CtlFlags where
  "ctlFlags = (ctlDefaults (\<lambda>_. []))\<lparr>cfMessage := ''hi'', cfModel := ''balanced-coder''\<rparr>"

definition ctlCaller :: Caller where
  "ctlCaller = \<lparr>caRequestID = ''r'', caTenant = None, caHeaders = []\<rparr>"

lemma ctl_job: "jRouterMode (jobOf ctlCaller (ctlRequest ctlFlags)) \<noteq> RouterModeDisabled"
  "jExplicitModel (jobOf ctlCaller (ctlRequest ctlFlags)) = Some ''balanced-coder''"
  by (simp_all add: jobOf_def NewJobDescriptor_def Let_def ctlCaller_def ctlRequest_def ctlFlags_def ctlDefaults_def zeroRequest_def
      firstString.simps metadataString_def headerString_def override_def parseRouterMode_def parseIn_def)

lemma routerctl_shows_the_decision_witness:
  "\<exists>dec. rdSelectedModel dec = ''balanced-coder'' \<and>
     (let cd = \<lparr>ctEncode = \<lambda>_. Inr [], ctNewRequest = \<lambda>_. None, ctDecision = \<lambda>_. Inr (viewDecision dec), ctEnvelope = \<lambda>_. None\<rparr>
      in routerctl cd (served_by (DecisionHandler insertion_sort \<lparr>doEngine = Some defaultEngine, doPolicyCache = None\<rparr>)
           (\<lambda>_. ctlCaller) (\<lambda>_. Inr (ctlRequest ctlFlags)) (\<lambda>_. [])) ctlFlags = (0, render (viewDecision dec), []))"
proof -
  let ?d = "\<lparr>doEngine = Some defaultEngine, doPolicyCache = None\<rparr>" and ?req = "ctlRequest ctlFlags"
  have "mID (the (snapModel (Some defaultSnap) ''balanced-coder'')) = ''balanced-coder'' \<and> snapModel (Some defaultSnap) ''balanced-coder'' \<noteq> None"
    by code_simp
  then obtain m where "snapModel (Some defaultSnap) ''balanced-coder'' = Some m" "mID m = ''balanced-coder''" by auto
  with pinned_model_may_be_disabled [OF defaultEngine_store _ ctl_job, of m insertion_sort "Some FullyHealthy" False]
  obtain dec job where dec: "Decide insertion_sort defaultEngine (jobOf ctlCaller ?req) None (Some FullyHealthy) False = (job, dec, None)"
    and model: "rdSelectedModel dec = ''balanced-coder''" by (metis prod.collapse)
  let ?cd = "\<lparr>ctEncode = \<lambda>_. Inr [], ctNewRequest = \<lambda>_. None, ctDecision = \<lambda>_. Inr (viewDecision dec), ctEnvelope = \<lambda>_. None\<rparr>"
  have plain: "TrimSpace (cfMessage ctlFlags) \<noteq> []" "cfStream ctlFlags = False" "lookupPolicy None job = None" for job
    by (simp_all add: ctlFlags_def ctlDefaults_def TrimSpace_def isSpaceByte_def lookupPolicy_def)
  have body: "hrBody (DecisionHandler insertion_sort ?d ctlCaller (Inr ?req)) =
      Decision dec (if ExplainEnabled (caHeaders ctlCaller) then Some job else None)"
    using dec plain by (simp add: DecisionHandler_def ctlRequest_def decisionReply_def jsonReply_def Let_def)
  have "routerctl ?cd (served_by (DecisionHandler insertion_sort ?d) (\<lambda>_. ctlCaller) (\<lambda>_. Inr ?req) (\<lambda>_. [])) ctlFlags =
      (0, render (viewDecision dec), [])"
    using routerctl_shows_the_decision [where f = ctlFlags and cd = ?cd and payload = "[]" and decode = "\<lambda>_. Inr ?req" and d = ?d
        and e = defaultEngine and callerOf = "\<lambda>_. ctlCaller" and caller = ctlCaller and encode = "\<lambda>_. []" and srt = insertion_sort
        and reply = "DecisionHandler insertion_sort ?d ctlCaller (Inr ?req)" and job = job and dec = dec and err = None]
    by (simp add: plain dec body arrives_def)
  with model show ?thesis by (auto simp: Let_def)
qed

section \<open>The other commands\<close>

text \<open>The worker only logs what it would delete.\<close>

lemma workerMain_deletes_nothing: "workerMain getenv nows db = db"
proof -
  have purge: "snd (fold (purgeOne dryRunPurge) reqs (r, db)) = db" for reqs r and db :: 'a
    by (induction reqs arbitrary: r) (simp_all add: purgeOne_def dryRunPurge_def Let_def)
  have "snd (Sweep (Some (workerCleaner getenv)) now db) = db" for now
    by (simp add: Sweep_def workerCleaner_def NewCleaner_def purge split: option.split)
  then show ?thesis unfolding workerMain_def cleanerRun_def by (induction nows) simp_all
qed

text \<open>
  Without policies to compare, \<open>eval-report\<close> exits 0 exactly when the dataset loads, the report is written
  and the pass rate reaches the threshold, if there is one; the files are there even when it does not.
\<close>

lemma evalReport_gate:
  assumes "efPolicyA f = []" and "efPolicyB f = []"
  shows "exCode (evalReport t f) = 0 \<longleftrightarrow>
    (\<exists>report. generate t (efDataset f) = Inr report \<and> snd (writeReport t report (efOut f)) = None \<and>
       (efMinPass f \<le> 0 \<or> efMinPass f \<le> PassRate report))"
  and "generate t (efDataset f) = Inr report \<Longrightarrow> exFiles (evalReport t f) = fst (writeReport t report (efOut f))"
  using assms by (auto simp: evalReport_def failWith_def Let_def split: sum.split prod.split option.split)

lemma NewRunner_default: "NewRunner now = Inr rn \<Longrightarrow> \<exists>snap. rnSnapshot rn = Some snap \<and> storeGet (enRegistry (rnEngine rn)) = Inr snap"
  by (auto simp: NewRunner_def NewStore_def storeGet_def NewEngine_def split: sum.splits)

end
