(* ===== verification/Wire.thy ===== *)
theory Wire
  imports Startup
begin

text \<open>
  What leaves the router besides replies and events: the frames of an event stream and the log lines of
  the chat handler (\<open>server/chat.go\<close>), the stream of the retry adapter (\<open>provider/retry.go\<close>), the
  deadlines and log of the context pipeline (\<open>contextproc/pipeline.go\<close>) and the fields of a descriptor
  that may be logged (\<open>router/job.go\<close>). The JSON encoding of an error envelope is a parameter.
\<close>

section \<open>Frames of an event stream\<close>

definition writeSSEData :: "string \<Rightarrow> string" where
  "writeSSEData data = ''data: '' @ data @ [lf, lf]"

definition writeSSEError :: "(string \<Rightarrow> string \<Rightarrow> string) \<Rightarrow> string \<Rightarrow> string \<Rightarrow> string" where
  "writeSSEError envelope code msg = ''event: error'' @ [lf] @ writeSSEData (envelope code msg)"

text \<open>The bytes of what a stream writes.\<close>

definition frameOf :: "(string \<Rightarrow> string \<Rightarrow> string) \<Rightarrow> body \<Rightarrow> string" where
  "frameOf envelope b =
     (case b of SseData d \<Rightarrow> writeSSEData d | SseError code msg \<Rightarrow> writeSSEError envelope code msg | _ \<Rightarrow> [])"

definition framesOf :: "(string \<Rightarrow> string \<Rightarrow> string) \<Rightarrow> body list \<Rightarrow> string" where
  "framesOf envelope bs = concat (map (frameOf envelope) bs)"

section \<open>The stream of the retry adapter\<close>

text \<open>The goroutine that relays the inner stream; it ends after a final chunk or when a chunk is not taken in time.\<close>

fun relayChunks :: "(nat \<Rightarrow> bool) \<Rightarrow> nat \<Rightarrow> StreamChunk list \<Rightarrow> StreamChunk list" where
  "relayChunks sends n [] = []"
| "relayChunks sends n (c # cs) =
     (if \<not> sends n then []
      else if chDone c \<or> chErr c \<noteq> None then [c]
      else c # relayChunks sends (Suc n) cs)"

definition retryStream :: "string \<Rightarrow> int \<Rightarrow> (nat \<Rightarrow> bool) \<Rightarrow> (provider_error + StreamChunk list) option \<Rightarrow>
    provider_error + StreamChunk list" where
  "retryStream name timeout sends inner =
     (case inner of
        None \<Rightarrow> Inl (wrapErr ErrProviderBadReq (''streaming not supported by '' @ name))
      | Some s \<Rightarrow>
          if timeout > 0
          then Inr (case s of Inl e \<Rightarrow> handOver sends 0 (zeroChunk\<lparr>chErr := Some e\<rparr>) | Inr cs \<Rightarrow> relayChunks sends 0 cs)
          else s)"

section \<open>Log lines\<close>

definition logStreamAttempt :: "string \<Rightarrow> streamCandidate \<Rightarrow> int \<Rightarrow> string \<Rightarrow> provider_error option \<Rightarrow> log_level \<times> logline" where
  "logStreamAttempt requestID c attempt reason err =
     (LevelWarn, ''stream_fallback'',
      [(''request_id'', LString requestID), (''attempt'', LInt attempt), (''model'', LString (scaModelID c)),
       (''provider'', LString (scaProviderID c)), (''reason'', LString reason)] @
      (case err of None \<Rightarrow> [] | Some e \<Rightarrow> [(''error'', LString (errText e))]))"

definition logStreamResult :: "string \<Rightarrow> string \<Rightarrow> string \<Rightarrow> bool \<Rightarrow> int \<Rightarrow> provider_error option \<Rightarrow> log_level \<times> logline" where
  "logStreamResult requestID providerName m firstChunkSent firstTokenMs err =
     (let attrs = [(''request_id'', LString requestID), (''provider'', LString providerName), (''model'', LString m),
        (''first_token_sent'', LBool firstChunkSent), (''first_token_ms'', LInt firstTokenMs)]
      in case err of
           Some e \<Rightarrow> (LevelWarn, ''chat_stream_interrupted'', attrs @ [(''stream_error'', LString (errText e))])
         | None \<Rightarrow> (LevelInfo, ''chat_stream_completed'', attrs))"

datatype pipeval = PString string | PInt int | PApplied "AppliedEntry list" | PSkipped "SkippedEntry list"

definition logContextPipeline :: "string \<Rightarrow> PipelineResult \<Rightarrow> log_level \<times> string \<times> (string \<times> pipeval) list" where
  "logContextPipeline requestID r =
     (LevelInfo, ''context_pipeline'',
      [(''request_id'', PString requestID), (''context_processors_applied'', PApplied (plApplied r)),
       (''context_processors_skipped'', PSkipped (plSkipped r)), (''context_tokens_saved'', PInt (plTotalTokensSaved r))])"

definition logProcessor :: "string \<Rightarrow> ProcResult \<Rightarrow> log_level \<times> logline" where
  "logProcessor name r =
     (LevelInfo, ''context_processor'',
      [(''name'', LString name), (''saved'', LInt (pcTokensSaved r)), (''skipped'', LString (pcSkippedReason r))])"

section \<open>Deadlines of the context pipeline\<close>

record PipelineTimeouts =
  TotalTimeout :: int
  PerProcessorSoft :: int
  PerProcessorHard :: int

definition DefaultTotalTimeout :: int where "DefaultTotalTimeout = 20000000"
definition DefaultPerProcessorSoft :: int where "DefaultPerProcessorSoft = 10000000"
definition DefaultPerProcessorHard :: int where "DefaultPerProcessorHard = 15000000"

definition NewNoopPipeline :: "Processor option list \<times> PipelineTimeouts" where
  "NewNoopPipeline = ([], \<lparr>TotalTimeout = DefaultTotalTimeout, PerProcessorSoft = DefaultPerProcessorSoft,
     PerProcessorHard = DefaultPerProcessorHard\<rparr>)"

definition durationOrDefault :: "int \<Rightarrow> int \<Rightarrow> int" where
  "durationOrDefault value' fallback = (if value' \<le> 0 then fallback else value')"

definition totalDeadline :: "PipelineTimeouts \<Rightarrow> int" where
  "totalDeadline p = durationOrDefault (TotalTimeout p) DefaultTotalTimeout"

text \<open>The soft and the hard deadline of one processor.\<close>

definition processorDeadlines :: "PipelineTimeouts \<Rightarrow> int \<times> int" where
  "processorDeadlines p =
     (let softTimeout = durationOrDefault (PerProcessorSoft p) DefaultPerProcessorSoft;
          hardTimeout = durationOrDefault (PerProcessorHard p) DefaultPerProcessorHard
      in (softTimeout, if hardTimeout < softTimeout then softTimeout else hardTimeout))"

lemma processorDeadlines_ordered: "0 < fst (processorDeadlines p) \<and> fst (processorDeadlines p) \<le> snd (processorDeadlines p)"
  by (simp add: processorDeadlines_def durationOrDefault_def DefaultPerProcessorSoft_def DefaultPerProcessorHard_def Let_def)

section \<open>What may be logged of a descriptor\<close>

datatype safeval = SafeVal logval | SafeStrings "string list"

definition SafeLogFields :: "JobDescriptor option \<Rightarrow> (string, safeval) gomap" where
  "SafeLogFields jo =
     (case jo of None \<Rightarrow> []
      | Some j \<Rightarrow>
          map (\<lambda>(k, v). (k, SafeVal (LString v)))
            [(''request_id'', jRequestID j), (''tenant_id'', jTenantID j), (''project_id'', jProjectID j),
             (''task_type'', jTaskType j), (''task_type_hint'', jTaskTypeHint j), (''risk_level'', jRiskLevel j),
             (''risk_level_hint'', jRiskLevelHint j), (''sensitivity'', jSensitivity j),
             (''sensitivity_hint'', jSensitivityHint j), (''latency_preference'', jLatencyPreference j),
             (''quality_preference'', jQualityPreference j), (''budget_preference'', jBudgetPreference j),
             (''router_mode'', jRouterMode j)] @
          map (\<lambda>(k, v). (k, SafeVal (LBool v)))
            [(''tenant_id_hint_present'', jTenantIDHint j \<noteq> []), (''project_id_hint_present'', jProjectIDHint j \<noteq> []),
             (''requires_reasoning'', jRequiresReasoning j), (''requires_code'', jRequiresCode j),
             (''requires_tool_use'', jRequiresToolUse j), (''requires_json_schema'', jRequiresJSONSchema j),
             (''requires_large_context'', jRequiresLargeContext j), (''requires_vision'', jRequiresVision j),
             (''selected_model_present'', jExplicitModel j \<noteq> None), (''metadata_present'', length (jMetadata j) > 0)] @
          map (\<lambda>(k, v). (k, SafeVal (LInt v)))
            [(''prompt_tokens_estimate'', jPromptTokensEstimate j), (''max_output_tokens_estimate'', jMaxOutputTokensEstimate j),
             (''metadata_key_count'', int (length (jMetadata j)))] @
          [(''files_touched'', SafeStrings ([] @ jFilesTouched j)), (''keywords'', SafeStrings ([] @ jKeywords j))])"

text \<open>The values of the metadata, the hinted tenant and project and the name of the pinned model stay out of the log.\<close>

lemma SafeLogFields_hides:
  "map fst md' = map fst (jMetadata j) \<Longrightarrow> (t = []) = (jTenantIDHint j = []) \<Longrightarrow> (p = []) = (jProjectIDHint j = []) \<Longrightarrow>
   (m = None) = (jExplicitModel j = None) \<Longrightarrow>
   SafeLogFields (Some (j\<lparr>jMetadata := md', jTenantIDHint := t, jProjectIDHint := p, jExplicitModel := m\<rparr>)) = SafeLogFields (Some j)"
  by (auto simp: SafeLogFields_def dest: arg_cong [where f = length])

end
