(* ===== verification/WireProps.thy ===== *)
theory WireProps
  imports Wire ClientProps StartupProps
begin

text \<open>
  Streams end to end: what the chat handler writes, read again by the provider client, as when one
  router is the provider of another; and the stream of the retry adapter against the inner one.
\<close>

section \<open>Reading what was written\<close>

text \<open>A payload as the client takes it from a line: trimmed, not empty, on one line.\<close>

definition linePayload :: "string \<Rightarrow> bool" where
  "linePayload p \<longleftrightarrow> p \<noteq> [] \<and> TrimSpace p = p \<and> lf \<notin> set p"

lemma set_TrimSpace: "set (TrimSpace s) \<subseteq> set s"
  by (auto simp: TrimSpace_def dest!: set_dropWhileD)

lemma splitLF_lines: "l \<in> set (splitLF s) \<Longrightarrow> lf \<notin> set l"
proof (induction s arbitrary: l)
  case (Cons c s)
  have "splitLF s = hd (splitLF s) # tl (splitLF s)" using splitLF_not_Nil by simp
  then have "hd (splitLF s) \<in> set (splitLF s)" "set (tl (splitLF s)) \<subseteq> set (splitLF s)"
    by (metis list.set_intros(1), metis set_subset_Cons)
  with Cons show ?case by (auto split: if_splits)
qed simp

lemma payloads_linePayload:
  assumes "p \<in> set (payloads s)"
  shows "linePayload p"
proof -
  obtain l where l: "l \<in> set (splitLF s)" "p = payloadOf l" "p \<noteq> []" using assms by (auto simp: payloads_def)
  then have p: "p = TrimSpace (drop (length ''data:'') (TrimSpace l))" by (simp add: payloadOf_def split: if_splits)
  then have "set p \<subseteq> set l" using set_TrimSpace set_drop_subset by (metis order_trans)
  with splitLF_lines [OF l(1)] l(3) p show ?thesis by (auto simp: linePayload_def TrimSpace_idem)
qed

lemma TrimSpace_data:
  assumes "linePayload p"
  shows "payloadOf (''data: '' @ p) = p"
proof -
  have sp: "isSpaceByte (CHR '' '')" "\<not> isSpaceByte (CHR ''d'')" by (simp_all add: isSpaceByte_def)
  have ne: "p \<noteq> []" and trim: "TrimSpace p = p" using assms by (simp_all add: linePayload_def)
  have lead: "TrimSpace (CHR '' '' # p) = TrimSpace p" using sp(1) by (simp add: TrimSpace_def)
  have "\<not> isSpaceByte (last p)"
  proof -
    have "rev (TrimSpace p) = dropWhile isSpaceByte (rev (dropWhile isSpaceByte p))" by (simp add: TrimSpace_def)
    then have r: "rev p = dropWhile isSpaceByte (rev (dropWhile isSpaceByte p))" by (simp only: trim)
    moreover have "rev p \<noteq> []" using ne by simp
    ultimately have "\<not> isSpaceByte (hd (rev p))" by (metis hd_dropWhile)
    then show ?thesis by (simp add: hd_rev)
  qed
  then have "dropWhile isSpaceByte (rev (''data: '' @ p)) = rev (''data: '' @ p)"
    using ne by (cases p rule: rev_cases) simp_all
  then have "TrimSpace (''data: '' @ p) = ''data: '' @ p" using sp(2) by (simp add: TrimSpace_def)
  then show ?thesis by (simp add: payloadOf_def lead trim)
qed

lemma splitLF_frame: "lf \<notin> set l \<Longrightarrow> splitLF (l @ lf # s) = l # splitLF s"
  by (induction l) auto

lemma payloads_frame:
  assumes "linePayload p"
  shows "payloads (writeSSEData p @ s) = p # payloads s"
proof -
  have "lf \<notin> set (''data: '' @ p)" using assms by (simp add: linePayload_def lf_def)
  from splitLF_frame [OF this, of "lf # s"] splitLF_frame [of "[]" s]
  have "splitLF (writeSSEData p @ s) = (''data: '' @ p) # [] # splitLF s" by (simp add: writeSSEData_def)
  then show ?thesis
    using assms TrimSpace_data [OF assms] by (simp add: payloads_def linePayload_def)
qed

lemma payloads_Nil: "payloads [] = []"
  by (simp add: payloads_def)

lemma payloads_frames: "\<forall>p \<in> set ps. linePayload p \<Longrightarrow> payloads (framesOf env (map SseData ps) @ s) = ps @ payloads s"
  by (induction ps) (simp_all add: framesOf_def frameOf_def payloads_frame)

text \<open>
  C31: relaying a stream loses and adds nothing. The bytes the chat handler writes for a complete stream of a
  provider, read by the client of another router, give that router exactly the chunks the first one
  had, payload by payload with the same usage and the same end, however the provider laid out its bytes.
\<close>

theorem relay_roundtrip:
  assumes "doneSeen s"
  shows "streamBody cd (\<lambda>_. True) readErr' n' (framesOf env (fst (drainChunks (streamBody cd (\<lambda>_. True) readErr n s) u))) =
     streamBody cd (\<lambda>_. True) readErr n s"
proof -
  let ?out = "framesOf env (fst (drainChunks (streamBody cd (\<lambda>_. True) readErr n s) u))"
  have line: "linePayload p" if "p \<in> set (dataPayloads s)" for p
    using that payloads_linePayload by (blast dest: set_takeWhileD)
  have done_line: "linePayload ''[DONE]''" using assms by (rule payloads_linePayload)
  have "fst (drainChunks (streamBody cd (\<lambda>_. True) readErr n s) u) = map SseData (dataPayloads s @ [''[DONE]''])"
    using assms stream_relays [of cd readErr n s u] by simp
  then have "payloads ?out = dataPayloads s @ [''[DONE]'']"
    using payloads_frames [of "dataPayloads s @ [''[DONE]'']" env "[]"] line done_line payloads_Nil by auto
  moreover have "takeWhile (\<lambda>p. p \<noteq> ''[DONE]'') (dataPayloads s @ [''[DONE]'']) = dataPayloads s"
    by (subst takeWhile_append2) (auto dest: set_takeWhileD)
  ultimately show ?thesis using assms by (simp add: streamBody_payloads)
qed

definition demoStream :: string where
  "demoStream = ''data: {}'' @ [lf] @ '': comment'' @ [lf] @ ''data:[DONE]''"

lemma demoStream_payloads: "payloads demoStream = [''{}'', ''[DONE]'']"
proof -
  have "lf \<notin> set ''data: {}''" "lf \<notin> set '': comment''" "lf \<notin> set ''data:[DONE]''" by (simp_all add: lf_def)
  then have "splitLF demoStream = [''data: {}'', '': comment'', ''data:[DONE]'']"
    using splitLF_frame [of "''data: {}''"] splitLF_frame [of "'': comment''"] splitLF_last [of "''data:[DONE]''"]
    by (simp add: demoStream_def)
  moreover have "payloadOf ''data: {}'' = ''{}''" "payloadOf '': comment'' = []" "payloadOf ''data:[DONE]'' = ''[DONE]''"
    by (simp_all add: payloadOf_def TrimSpace_def isSpaceByte_def)
  ultimately show ?thesis by (simp add: payloads_def)
qed

lemma relay_roundtrip_witness:
  "let chunks = streamBody demoCodec (\<lambda>_. True) None 0 demoStream
   in length chunks = 2 \<and>
      streamBody demoCodec (\<lambda>_. True) None 0 (framesOf (\<lambda>_ _. []) (fst (drainChunks chunks (0, 0)))) = chunks"
proof -
  have d: "doneSeen demoStream" by (simp add: demoStream_payloads)
  have "length (streamBody demoCodec (\<lambda>_. True) None 0 demoStream) = 2"
    by (subst streamBody_payloads) (simp add: demoStream_payloads)
  with relay_roundtrip [OF d, of demoCodec None 0 "\<lambda>_ _. []" None 0 "(0, 0)"] show ?thesis unfolding Let_def by (intro conjI)
qed

text \<open>
  An interrupted stream is not passed on as one: the reader of the client takes no notice of \<open>event:\<close> lines, so the
  error envelope of the first router is one more payload for the second.
\<close>

lemma interrupted_relay:
  assumes "\<not> doneSeen s" and line: "linePayload (env ''stream_interrupted'' (maskOutbound (errText (truncation readErr))))"
    and other: "env ''stream_interrupted'' (maskOutbound (errText (truncation readErr))) \<noteq> ''[DONE]''"
  shows "streamBody cd (\<lambda>_. True) readErr' n' (framesOf env (fst (drainChunks (streamBody cd (\<lambda>_. True) readErr n s) u))) =
     map (chunkOf cd) (payloads s @ [env ''stream_interrupted'' (maskOutbound (errText (truncation readErr)))]) @ [endChunk readErr']"
proof -
  let ?e = "env ''stream_interrupted'' (maskOutbound (errText (truncation readErr)))"
  let ?out = "framesOf env (fst (drainChunks (streamBody cd (\<lambda>_. True) readErr n s) u))"
  have out: "?out = framesOf env (map SseData (payloads s)) @ ''event: error'' @ [lf] @ writeSSEData ?e"
    using assms(1) stream_relays [of cd readErr n s u] by (simp add: framesOf_def frameOf_def sseInterrupted_def writeSSEError_def)
  have "lf \<notin> set ''event: error''" by (simp add: lf_def)
  from splitLF_frame [OF this] have "payloads (''event: error'' @ [lf] @ r) = payloads r" for r
    by (simp add: payloads_def payloadOf_def TrimSpace_def isSpaceByte_def)
  then have "payloads ?out = payloads s @ [?e]"
    unfolding out using payloads_frames payloads_linePayload payloads_frame [OF line, of "[]"] payloads_Nil by auto
  moreover have "''[DONE]'' \<notin> set (payloads s @ [?e])" using assms(1) other by auto
  moreover from this have "takeWhile (\<lambda>p. p \<noteq> ''[DONE]'') (payloads s @ [?e]) = payloads s @ [?e]"
    by (subst takeWhile_eq_all_conv) blast
  ultimately show ?thesis by (subst streamBody_payloads) simp
qed

section \<open>The retry adapter\<close>

lemma relayChunks_prefix: "prefix (relayChunks sends n cs) cs"
  by (induction sends n cs rule: relayChunks.induct) auto

text \<open>With a deadline the adapter hands over a part of the inner stream, all of it when nothing is cut off: no
  chunk of the client before the last is final.\<close>

lemma retryStream_prefix: "retryStream name timeout sends (Some (Inr cs)) = Inr cs' \<Longrightarrow> prefix cs' cs"
  by (auto simp: retryStream_def relayChunks_prefix split: if_splits)

lemma relayChunks_all: "\<forall>c \<in> set cs. \<not> chDone c \<and> chErr c = None \<Longrightarrow> relayChunks (\<lambda>_. True) n (cs @ [c]) = cs @ [c]"
  by (induction cs arbitrary: n) auto

lemma retryStream_transparent:
  "retryStream name timeout (\<lambda>_. True) (Some (Inr (streamBody cd (\<lambda>_. True) readErr n s))) = Inr (streamBody cd (\<lambda>_. True) readErr n s)"
proof -
  have "\<forall>c \<in> set (map (chunkOf cd) (dataPayloads s)). \<not> chDone c \<and> chErr c = None"
    by (auto simp: chunkOf_def zeroChunk_def split: option.split)
  from relayChunks_all [OF this] show ?thesis unfolding retryStream_def streamBody_payloads by simp
qed

end
