(* ===== verification/Lifecycle.thy ===== *)
theory Lifecycle
  imports Startup QueueLaws
begin

text \<open>
  The life of the router process (\<open>cmd/router/main.go\<close>) as far as the spend it keeps is concerned: the
  worker of the event queue runs, a ticker writes the spend tracker to a file, a signal cancels the
  worker and the process writes the file once more and ends. The next process reads the file. A save is
  one step; what its file operations do and in which order the maps are visited is arbitrary.
\<close>

section \<open>The process\<close>

definition spendFile :: "Outside \<Rightarrow> environment \<Rightarrow> string option" where
  "spendFile o' getenv =
     (let dir = TrimSpace (getenv ''ROUTER_DATA_DIR'') in if dir \<noteq> [] then Some (ouJoin o' dir ''spend.json'') else None)"

text \<open>\<open>Exited ok\<close>: whether the last save succeeded.\<close>

datatype phase = Serving | Cancelled | Exited bool

record Process =
  psWorker :: Worker
  psFiles :: files
  psPhase :: phase

definition startProcess :: "Outside \<Rightarrow> Process" where
  "startProcess o' = \<lparr>psWorker = initWorker 0, psFiles = ouFiles o', psPhase = Serving\<rparr>"

text \<open>The spend tracker of a process: what it started with and the events the worker has handed to the handler.\<close>

definition trackerOf :: "SpendTracker \<Rightarrow> Process \<Rightarrow> SpendTracker" where
  "trackerOf t0 p = fold spendHandle (wkHandled (psWorker p)) t0"

definition flushSpend :: "(SpendSnapshot \<Rightarrow> string option) \<Rightarrow> FileOps \<Rightarrow> modelAccum range_order \<Rightarrow> tenantAccum range_order \<Rightarrow>
    string option \<Rightarrow> SpendTracker \<Rightarrow> files \<Rightarrow> bool \<times> files" where
  "flushSpend marshal ops rngM rngT target t fs =
     (case target of None \<Rightarrow> (False, fs) | Some path \<Rightarrow> SaveJSON marshal ops path (spendSnapshot rngM rngT t) fs)"

inductive proc_step :: "(SpendSnapshot \<Rightarrow> string option) \<Rightarrow> string option \<Rightarrow> SpendTracker \<Rightarrow> Process \<Rightarrow> Process \<Rightarrow> bool"
  for marshal target t0 where
  work: "psPhase p = Serving \<or> psPhase p = Cancelled \<Longrightarrow> run_step (\<lambda>_. False) (psWorker p) w \<Longrightarrow>
    wkCancelled w = wkCancelled (psWorker p) \<Longrightarrow> proc_step marshal target t0 p (p\<lparr>psWorker := w\<rparr>)"
| tick: "psPhase p = Serving \<or> psPhase p = Cancelled \<Longrightarrow> range_perm rngM \<Longrightarrow> range_perm rngT \<Longrightarrow>
    proc_step marshal target t0 p (p\<lparr>psFiles := snd (flushSpend marshal ops rngM rngT target (trackerOf t0 p) (psFiles p))\<rparr>)"
| signal: "psPhase p = Serving \<Longrightarrow>
    proc_step marshal target t0 p (p\<lparr>psWorker := (psWorker p)\<lparr>wkCancelled := True\<rparr>, psPhase := Cancelled\<rparr>)"
| leave: "psPhase p = Cancelled \<Longrightarrow> range_perm rngM \<Longrightarrow> range_perm rngT \<Longrightarrow>
    flushSpend marshal ops rngM rngT target (trackerOf t0 p) (psFiles p) = (ok, fs) \<Longrightarrow>
    proc_step marshal target t0 p (p\<lparr>psFiles := fs, psPhase := Exited ok\<rparr>)"

text \<open>The next process finds the files this one left.\<close>

definition restarted :: "Outside \<Rightarrow> environment \<Rightarrow> Process \<Rightarrow> SpendTracker" where
  "restarted o' getenv p = startSpend (o'\<lparr>ouFiles := psFiles p\<rparr>) getenv"

section \<open>What the file holds\<close>

definition saved :: "(SpendSnapshot \<Rightarrow> string option) \<Rightarrow> SpendTracker \<Rightarrow> string option \<Rightarrow> bool" where
  "saved marshal t contents \<longleftrightarrow> contents \<noteq> None \<and>
     (\<exists>rngM rngT. range_perm rngM \<and> range_perm rngT \<and> marshal (spendSnapshot rngM rngT t) = contents)"

text \<open>The file is as the process found it, or a save of the tracker at some moment; of the last one after a good exit.\<close>

definition file_inv :: "(SpendSnapshot \<Rightarrow> string option) \<Rightarrow> string \<Rightarrow> SpendTracker \<Rightarrow> files \<Rightarrow> Process \<Rightarrow> bool" where
  "file_inv marshal path t0 fs p \<longleftrightarrow>
     queue_inv (psWorker p) \<and>
     (mget (psFiles p) path = mget fs path \<or>
      (\<exists>es. prefix es (wkHandled (psWorker p)) \<and> saved marshal (fold spendHandle es t0) (mget (psFiles p) path))) \<and>
     (psPhase p = Exited True \<longrightarrow> saved marshal (trackerOf t0 p) (mget (psFiles p) path))"

lemma flushSpend_saved:
  assumes "flushSpend marshal ops rngM rngT (Some path) t fs = (ok, fs')" and "range_perm rngM" and "range_perm rngT"
  shows "if ok then saved marshal t (mget fs' path) else mget fs' path = mget fs path"
proof -
  have save: "SaveJSON marshal ops path (spendSnapshot rngM rngT t) fs = (ok, fs')" using assms(1) by (simp add: flushSpend_def)
  have "mget fs' path \<noteq> None" if ok
    using save that by (auto simp: SaveJSON_def Let_def split: if_splits option.splits)
  with SaveJSON_cases [OF save] assms(2,3) show ?thesis unfolding saved_def by metis
qed

lemma file_inv_start: "file_inv marshal path t0 (ouFiles o') (startProcess o')"
  by (simp add: file_inv_def startProcess_def queue_inv_init)

lemma queue_inv_cancel: "queue_inv w \<Longrightarrow> queue_inv (w\<lparr>wkCancelled := b\<rparr>)"
  by (cases w) (auto simp: queue_inv_def)

lemma file_inv_step:
  "proc_step marshal (Some path) t0 p q \<Longrightarrow> file_inv marshal path t0 fs p \<Longrightarrow> file_inv marshal path t0 fs q"
proof (induction rule: proc_step.induct)
  case (work p w)
  from run_step_accepted [OF work(2)] have "prefix es (wkHandled (psWorker p)) \<Longrightarrow> prefix es (wkHandled w)" for es
    by (blast intro: prefix_order.order_trans)
  with work show ?case by (auto simp: file_inv_def dest: queue_inv_step)
next
  case (tick p rngM rngT ops)
  obtain ok fs' where f: "flushSpend marshal ops rngM rngT (Some path) (trackerOf t0 p) (psFiles p) = (ok, fs')" by fastforce
  then have fs': "snd (flushSpend marshal ops rngM rngT (Some path) (trackerOf t0 p) (psFiles p)) = fs'" by simp
  show ?case
  proof (cases ok)
    case True
    with flushSpend_saved [OF f tick(2,3)] have "saved marshal (fold spendHandle (wkHandled (psWorker p)) t0) (mget fs' path)"
      by (simp add: trackerOf_def)
    with tick(1,4) show ?thesis unfolding file_inv_def fs' by auto
  next
    case False
    with flushSpend_saved [OF f tick(2,3)] have "mget fs' path = mget (psFiles p) path" by simp
    with tick(1,4) show ?thesis unfolding file_inv_def fs' by auto
  qed
next
  case (signal p)
  then show ?case by (auto simp: file_inv_def trackerOf_def queue_inv_cancel)
next
  case (leave p rngM rngT ops ok fs')
  show ?case
  proof (cases ok)
    case True
    with flushSpend_saved [OF leave(4,2,3)] have "saved marshal (fold spendHandle (wkHandled (psWorker p)) t0) (mget fs' path)"
      by (simp add: trackerOf_def)
    with True leave(5) show ?thesis unfolding file_inv_def trackerOf_def by auto
  next
    case False
    with flushSpend_saved [OF leave(4,2,3)] have "mget fs' path = mget (psFiles p) path" by simp
    with False leave(5) show ?thesis unfolding file_inv_def by auto
  qed
qed

lemma file_inv_run:
  "(proc_step marshal (Some path) t0)\<^sup>*\<^sup>* (startProcess o') p \<Longrightarrow> file_inv marshal path t0 (ouFiles o') p"
  by (induction rule: rtranclp_induct) (auto intro: file_inv_start file_inv_step)

section \<open>What a restart recovers\<close>

text \<open>JSON decodes to the snapshot it was made of.\<close>

definition survives :: "(SpendSnapshot \<Rightarrow> string option) \<Rightarrow> (string \<Rightarrow> SpendSnapshot option) \<Rightarrow> SpendTracker \<Rightarrow> bool" where
  "survives marshal unmarshal t \<longleftrightarrow>
     (\<forall>rngM rngT d. range_perm rngM \<and> range_perm rngT \<and> marshal (spendSnapshot rngM rngT t) = Some d \<longrightarrow>
        unmarshal d = Some (spendSnapshot rngM rngT t))"

text \<open>Two trackers that answer alike: same entry for every model and every tenant.\<close>

definition same_spend :: "SpendTracker \<Rightarrow> SpendTracker \<Rightarrow> bool" where
  "same_spend t t' \<longleftrightarrow> mget (stByModel t) = mget (stByModel t') \<and> mget (stByTenant t) = mget (stByTenant t')"

lemma same_spend_cost:
  assumes "same_spend t t'" and "spendTrackerOK t" and "spendTrackerOK t'"
  shows "totalCost t = totalCost t'"
proof -
  have dist: "distinct (map fst (stByModel t))" "distinct (map fst (stByModel t'))"
    using assms(2,3) by (simp_all add: spendTrackerOK_def mwf_def)
  have "map_of (stByModel t) = map_of (stByModel t')" using assms(1) by (simp add: same_spend_def mget_def fun_eq_iff)
  then have "set (stByModel t) = set (stByModel t')" using map_of_inject_set [OF dist] by simp
  then have "mset (stByModel t) = mset (stByModel t')"
    using dist by (simp add: distinct_map set_eq_iff_mset_eq_distinct)
  then show ?thesis unfolding totalCost_def by (rule msum_perm)
qed

lemma mwf_fold_put: "mwf m \<Longrightarrow> mwf (fold (\<lambda>x. mput (f x) (g x)) xs m)"
  by (induction xs arbitrary: m) simp_all

lemma startSpend_OK: "spendTrackerOK (startSpend o' getenv)"
  by (auto simp: startSpend_def Restore_def spendTrackerOK_def newTracker_def Let_def intro!: mwf_fold_put split: sum.split)

lemma startSpend_file:
  assumes "spendFile o' getenv = Some path"
  shows "startSpend (o'\<lparr>ouFiles := fs\<rparr>) getenv =
    (case LoadJSON (ouSpendUnmarshal o') (ouReadable o') path fs of Inl e \<Rightarrow> newTracker | Inr s \<Rightarrow> Restore s newTracker)"
  using assms by (auto simp: startSpend_def spendFile_def Let_def split: if_splits)

lemma restart_unchanged:
  assumes "spendFile o' getenv = Some path" and "mget (psFiles p) path = mget (ouFiles o') path"
  shows "restarted o' getenv p = startSpend o' getenv"
  using startSpend_file [OF assms(1), of "psFiles p"] startSpend_file [OF assms(1), of "ouFiles o'"] assms(2)
  by (simp add: restarted_def LoadJSON_def)

lemma restart_saved:
  assumes "spendFile o' getenv = Some path" and "ouReadable o'" and "survives marshal (ouSpendUnmarshal o') t"
    and "saved marshal t (mget (psFiles p) path)" and "spendTrackerOK t"
  shows "same_spend (restarted o' getenv p) t"
proof -
  obtain rngM rngT d where perm: "range_perm rngM" "range_perm rngT"
    and d: "mget (psFiles p) path = Some d" "marshal (spendSnapshot rngM rngT t) = Some d"
    using assms(4) by (auto simp: saved_def)
  then have "ouSpendUnmarshal o' d = Some (spendSnapshot rngM rngT t)" using assms(3) unfolding survives_def by blast
  then have "restarted o' getenv p = Restore (spendSnapshot rngM rngT t) newTracker"
    using startSpend_file [OF assms(1), of "psFiles p"] d(1) assms(2) by (simp add: restarted_def LoadJSON_def)
  then show ?thesis using Restore_Snapshot [OF assms(5) perm] by (simp add: same_spend_def)
qed


section \<open>A run that loses an event\<close>

definition oneAttempt :: Event where
  "oneAttempt = \<lparr>qType = EventTypeAttempt, qDecision = None, qAttempt = Some
     \<lparr>aeRequestID = ''r'', aeTenantID = ''a'', aeProjectID = [], aeProviderID = ''openai'', aeModelID = ''m'',
      aeAttemptIndex = 0, aeSuccess = True, aeErrorCode = [], aeDurationMs = 1, aeInputTokens = 10,
      aeOutputTokens = 10, aeActualCostUSD = 1, aeEstimatedCostUSD = 0, aeFirstTokenMs = 0, aeAttemptedAt = 0\<rparr>\<rparr>"

definition allOK :: FileOps where
  "allOK = \<lparr>foMkdirOK = True, foWrite = \<lambda>_. None, foRenameOK = True\<rparr>"

text \<open>Shutting down does not wait for the worker: an accepted event can miss the last save.\<close>

definition lastState :: "Outside \<Rightarrow> string \<Rightarrow> Process" where
  "lastState o' path = \<lparr>psWorker = (offer oneAttempt (initWorker 0))\<lparr>wkCancelled := True\<rparr>,
     psFiles = snd (SaveJSON (\<lambda>_. Some ''{}'') allOK path (spendSnapshot (\<lambda>m. m) (\<lambda>m. m) newTracker) (ouFiles o')), psPhase = Exited True\<rparr>"

lemma run3: "r a b \<Longrightarrow> r b c \<Longrightarrow> r c d \<Longrightarrow> r\<^sup>*\<^sup>* a d"
  by (rule rtranclp.rtrancl_into_rtrancl [OF rtranclp.rtrancl_into_rtrancl [OF r_into_rtranclp]])

lemma shutdown_loses_queued_spend:
  assumes "startSpend o' getenv = newTracker"
  shows "(proc_step (\<lambda>_. Some ''{}'') (Some path) (startSpend o' getenv))\<^sup>*\<^sup>* (startProcess o') (lastState o' path) \<and>
    wkAccepted (psWorker (lastState o' path)) = [oneAttempt] \<and> wkHandled (psWorker (lastState o' path)) = []"
proof -
  let ?step = "proc_step (\<lambda>_. Some ''{}'') (Some path) newTracker"
  let ?p1 = "(startProcess o')\<lparr>psWorker := offer oneAttempt (initWorker 0)\<rparr>"
  let ?p2 = "?p1\<lparr>psWorker := (psWorker ?p1)\<lparr>wkCancelled := True\<rparr>, psPhase := Cancelled\<rparr>"
  have "?step (startProcess o') ?p1"
    by (rule proc_step.work) (simp_all add: startProcess_def run_step.enqueue, simp add: offer_def)
  moreover have "?step ?p1 ?p2" by (rule proc_step.signal) (simp add: startProcess_def)
  moreover have "?step ?p2 (?p2\<lparr>psFiles := psFiles (lastState o' path), psPhase := Exited True\<rparr>)"
    by (rule proc_step.leave [of _ "\<lambda>m. m" "\<lambda>m. m" _ allOK])
      (simp_all add: range_perm_id flushSpend_def lastState_def trackerOf_def startProcess_def offer_def initWorker_def
         SaveJSON_def allOK_def Let_def)
  moreover have "?p2\<lparr>psFiles := psFiles (lastState o' path), psPhase := Exited True\<rparr> = lastState o' path"
    by (simp add: lastState_def startProcess_def)
  ultimately have "?step\<^sup>*\<^sup>* (startProcess o') (lastState o' path)" using run3 [of ?step] by simp
  then show ?thesis using assms by (simp add: lastState_def offer_def initWorker_def NewQueue_def Let_def)
qed

section \<open>A run that loses nothing\<close>

lemma perm_small:
  assumes "range_perm rng"
  shows "rng [] = []" "rng [x] = [x]"
proof -
  have "mset (rng []) = mset []" "mset (rng [x]) = mset [x]" using assms unfolding range_perm_def by blast+
  then show "rng [] = []" "rng [x] = [x]" by (simp_all add: mset_single_iff)
qed

definition oneTracker :: SpendTracker where
  "oneTracker = spendHandle oneAttempt newTracker"

definition oneSnapshot :: SpendSnapshot where
  "oneSnapshot = spendSnapshot (\<lambda>m. m) (\<lambda>m. m) oneTracker"

lemma oneTracker_maps: "\<exists>a b. stByModel oneTracker = [(''m'', a)] \<and> stByTenant oneTracker = [(''a'', b)]"
  by (simp add: oneTracker_def oneAttempt_def spendHandle_def recordAttempt_def newTracker_def mput_def mget0_def mget_def Let_def)

definition miniMarshal :: "SpendSnapshot \<Rightarrow> string option" where
  "miniMarshal s = Some (if ssModels s = [] then [] else ''{}'')"

definition miniWorld :: "Outside \<Rightarrow> Outside" where
  "miniWorld o' = o'\<lparr>ouFiles := [], ouReadable := True,
     ouSpendUnmarshal := \<lambda>d. Some (if d = [] then emptySpendSnapshot else oneSnapshot), ouJoin := \<lambda>d f. d @ ''/'' @ f\<rparr>"

lemma snapshots: "range_perm rngM \<Longrightarrow> range_perm rngT \<Longrightarrow> spendSnapshot rngM rngT newTracker = emptySpendSnapshot"
  "range_perm rngM \<Longrightarrow> range_perm rngT \<Longrightarrow> spendSnapshot rngM rngT oneTracker = oneSnapshot"
  "ssModels oneSnapshot \<noteq> []"
  using oneTracker_maps
  by (auto simp: spendSnapshot_def emptySpendSnapshot_def oneSnapshot_def ByModel_def ByTenant_def newTracker_def perm_small
      sortModelRowsDesc_def sortTenantRowsDesc_def insertion_sort_def)

lemma mini_survives: "survives miniMarshal (ouSpendUnmarshal (miniWorld o')) newTracker" "survives miniMarshal (ouSpendUnmarshal (miniWorld o')) oneTracker"
  using snapshots by (auto simp: survives_def miniMarshal_def miniWorld_def emptySpendSnapshot_def)

definition doneWorker :: Worker where
  "doneWorker = (takeHead oneAttempt [] (offer oneAttempt (initWorker 0)))\<lparr>wkCancelled := True\<rparr>"

definition cleanExit :: "Outside \<Rightarrow> string \<Rightarrow> Process" where
  "cleanExit o' path = \<lparr>psWorker = doneWorker,
     psFiles = snd (SaveJSON miniMarshal allOK path (spendSnapshot (\<lambda>m. m) (\<lambda>m. m) oneTracker) (ouFiles o')), psPhase = Exited True\<rparr>"

lemma doneWorker_events: "wkAccepted doneWorker = [oneAttempt]" "wkHandled doneWorker = [oneAttempt]" "qBuf (wkQueue doneWorker) = []"
  by (simp_all add: doneWorker_def takeHead_def offer_def initWorker_def NewQueue_def Let_def)

lemma cleanExit_run: "(proc_step miniMarshal (Some path) newTracker)\<^sup>*\<^sup>* (startProcess o') (cleanExit o' path)"
proof -
  let ?step = "proc_step miniMarshal (Some path) newTracker"
  let ?w = "offer oneAttempt (initWorker 0)"
  let ?p1 = "(startProcess o')\<lparr>psWorker := ?w\<rparr>"
  let ?p2 = "?p1\<lparr>psWorker := takeHead oneAttempt [] ?w\<rparr>"
  let ?p3 = "?p2\<lparr>psWorker := (psWorker ?p2)\<lparr>wkCancelled := True\<rparr>, psPhase := Cancelled\<rparr>"
  have "?step (startProcess o') ?p1"
    by (rule proc_step.work) (simp_all add: startProcess_def run_step.enqueue, simp add: offer_def)
  moreover have "qBuf (wkQueue ?w) = oneAttempt # []" "wkMode ?w = Running"
    by (simp_all add: offer_def initWorker_def NewQueue_def Enqueue_def Let_def)
  then have "run_step (\<lambda>_. False) ?w (takeHead oneAttempt [] ?w)" by (intro run_step.handle)
  then have "?step ?p1 ?p2"
    by (intro proc_step.work) (simp_all add: startProcess_def, simp add: takeHead_def)
  moreover have "?step ?p2 ?p3" by (rule proc_step.signal) (simp add: startProcess_def)
  moreover have "trackerOf newTracker ?p3 = oneTracker"
    by (simp add: trackerOf_def takeHead_def offer_def initWorker_def oneTracker_def)
  then have "?step ?p3 (?p3\<lparr>psFiles := psFiles (cleanExit o' path), psPhase := Exited True\<rparr>)"
    by (intro proc_step.leave [of _ "\<lambda>m. m" "\<lambda>m. m" _ allOK])
      (simp_all add: range_perm_id flushSpend_def cleanExit_def startProcess_def SaveJSON_def allOK_def miniMarshal_def Let_def)
  moreover have "?p3\<lparr>psFiles := psFiles (cleanExit o' path), psPhase := Exited True\<rparr> = cleanExit o' path"
    by (simp add: cleanExit_def startProcess_def doneWorker_def)
  ultimately show ?thesis using run3 [of ?step] by (metis rtranclp.rtrancl_into_rtrancl)
qed


end
