(* ===== verification/Spec2Isabelle.thy ===== *)
theory Spec2Isabelle
  imports ChatLaws EngineProps PolicyProps ServiceProps QueueLaws RequestProps EvalProps Perceptron
    Profiles HintLaws ClientProps HandlerProps StartupProps CommandProps WireProps Lifecycle
begin

text \<open>
  A model of the routing gateway, an OpenAI-compatible proxy that chooses a model for every chat
  request. The code is under \<open>internal/\<close> and \<open>cmd/\<close> of the repository.

  \<^bold>\<open>The program.\<close> The server authenticates a request (\<open>auth\<close>, \<open>tenant\<close>, \<open>server/server.go\<close>),
  extracts features from its messages and classifies its task and risk (\<open>classifier\<close>), and builds a
  job descriptor (\<open>router/job.go\<close>). The policy of the tenant and project (\<open>policy\<close>) is
  evaluated on the job; the engine (\<open>engine\<close>) filters the models of the registry (\<open>registry\<close>) by
  the policy's constraints, the capabilities and the health of the providers (\<open>health\<close>), scores what
  is left and returns a decision with a fallback chain. The chat handler (\<open>server/chat.go\<close>) ties
  these together: it checks the budget, routes, calls the provider through its client
  (\<open>provider/openai.go\<close>), or streams from the first candidate that answers, and reports what happened.
  The retry loop (\<open>provider/retry.go\<close>) wraps a client. Decisions may be cached (\<open>decisioncache\<close>); events about decisions and attempts go through
  a bounded queue (\<open>eventlog\<close>) to the request log, the spend tracker (\<open>spend\<close>) and the budget ledger
  (\<open>budget\<close>); clients report outcomes (\<open>outcomes\<close>); reloads and key changes are audited (\<open>audit\<close>). The process
  (\<open>cmd/router\<close>) builds all of it from its environment. Beside the request path there are retention
  sweeps (\<open>retention\<close>), secret masking (\<open>secrets\<close>), evaluation runs (\<open>evals\<close>), policy tests
  (\<open>policy/runner.go\<close>), a trained classifier (\<open>classifier/experiment.go\<close>), model profiles (\<open>profiles\<close>)
  and the SDK (\<open>sdk\<close>).

  \<^bold>\<open>Conventions.\<close> A Go string is the list of its bytes; \<open>int\<close> and \<open>int64\<close> are \<open>int\<close> with the
  wrap-around written out (\<open>i64\<close>) where sums can grow, and \<open>64 word\<close> where a total is a sum modulo
  \<open>2 ^ 64\<close>; a \<open>float64\<close> is an exact rational; a nil pointer is \<open>None\<close>; an error is \<open>Inl\<close> of a
  sum; a map is an association list without duplicate keys (\<open>gomap\<close>), and ranging over it visits
  the entries in an order given by a permutation argument. Clocks, SHA-256, the YAML library (up
  to its nodes), JSON encoding, the HTTP client, \<open>net/url\<close>, the database, file system outcomes, \<open>BasicAuth\<close> and the unstable \<open>sort.Slice\<close> are
  arguments of the definitions that use them, with what is relied on as named hypotheses
  (\<open>slice_sorter\<close>, \<open>range_perm\<close>).

  \<^bold>\<open>Theories.\<close>
  \<^item> \<open>GoPrelude\<close>: strings, integers, maps, formatting, sorting. \<open>Buffers\<close>: the contract of a bounded
    buffer of recent items (locale \<open>recent_buffer\<close>, interpreted by the audit sink, the request log
    and the comparison tracker).
  \<^item> \<open>Registry\<close> (\<open>internal/registry\<close>): definitions, validation, snapshots, the store. \<open>Defaults\<close>: the
    built-in registries and the built-in runtime policy.
  \<^item> \<open>PolicyTypes\<close>, \<open>PolicyMerge\<close>, \<open>PolicyEval\<close>, \<open>PolicyCache\<close> (\<open>policy/types.go\<close>, \<open>compiled.go\<close>,
    \<open>runtime.go\<close>), \<open>PolicyParser\<close> (\<open>parser.go\<close>): the policy language. \<open>PolicyLaws\<close>, \<open>PolicyMatch\<close> and
    \<open>PolicyParserLaws\<close> say what evaluation, compilation and parsing compute.
  \<^item> \<open>RouterJob\<close>, \<open>NewJob\<close> (\<open>router/job.go\<close>), \<open>OpenAI\<close> (\<open>openai/types.go\<close>), \<open>RegexMatch\<close>,
    \<open>Features\<close>, \<open>Classifier\<close> (\<open>internal/classifier\<close>): from a request to its job descriptor. The
    regular expressions are data for a matcher with leftmost-first semantics.
  \<^item> \<open>Engine\<close> (\<open>internal/engine\<close>): \<open>Decide\<close> and everything it calls; \<open>EngineLaws\<close>: the filter decides
    \<open>routable\<close>, sorting and the fallback chain.
  \<^item> \<open>Health\<close>, \<open>EventLog\<close>, \<open>QueueLaws\<close>, \<open>Cost\<close>, \<open>Budget\<close>, \<open>Spend\<close>, \<open>DecisionCache\<close>, \<open>Outcomes\<close>,
    \<open>ProviderRetry\<close>, \<open>AuditTrail\<close>, \<open>Auth\<close>: the services around the engine. The worker of the event
    queue is a step relation over enqueues, handler calls, panics and cancellation; the
    accumulating handlers interpret the locale \<open>event_fold\<close>, whose totals do not depend on the
    order of the events.
  \<^item> \<open>ContextProc\<close> (\<open>internal/contextproc\<close>, \<open>provider/prompt_adapter.go\<close>), \<open>Secrets\<close>
    (\<open>internal/secrets\<close>), \<open>Chat\<close> (\<open>server/chat.go\<close>, \<open>server/mask.go\<close>): the chat handler as a function
    of the request and of what the providers, the clocks and the random source answer; its state holds
    the health tracker, the decision cache, the event queue, the audit entries and the list of provider
    calls. \<open>ChatLaws\<close> says which calls it makes, what it reports and which requests never reach a provider.
  \<^item> \<open>OpenAIClient\<close> (\<open>provider/openai.go\<close>, \<open>mock.go\<close>): the client of a provider. \<open>ClientProps\<close>: what
    is retried, and what becomes of the bytes of an event stream.
  \<^item> \<open>Handlers\<close> (the other files of \<open>internal/server\<close>) and \<open>HandlerProps\<close>: dry run, discovery, dashboard.
    \<open>Telemetry\<close> (\<open>eventlog/handler.go\<close>, \<open>internal/metrics\<close>, \<open>internal/middleware\<close>): metrics and log records.
  \<^item> \<open>Startup\<close> (\<open>cmd/router/main.go\<close>): from an environment to a running router. \<open>StartupProps\<close>: when it
    starts, who gets in, and that the conditions under which requests obey the policy hold for it. \<open>Lifecycle\<close>:
    the process as steps of its queue worker, ticker, signal and exit, and the spend a restart recovers.
  \<^item> \<open>Wire\<close> (frames and log lines of \<open>server/chat.go\<close>, the stream of \<open>provider/retry.go\<close>, deadlines of the
    context pipeline) and \<open>WireProps\<close>: what is written to a client, read again by the provider client.
  \<^item> \<open>Commands\<close> (the other programs under \<open>cmd/\<close>) and \<open>CommandProps\<close>: \<open>routerctl\<close> against the dry run, the
    workers of \<open>loadtest\<close> as a step relation over the requests they take and finish, its percentile and
    gate, \<open>eval-report\<close>, \<open>worker\<close>, \<open>mock-provider\<close>.
  \<^item> \<open>Sdk\<close> (\<open>internal/sdk\<close>), \<open>HintLaws\<close>: hints of a client, which arrive and which of them matter.
    \<open>Profiles\<close> (\<open>internal/profiles\<close>), \<open>Retention\<close> (\<open>internal/retention\<close>).
  \<^item> \<open>PolicyRunner\<close> (\<open>policy/runner.go\<close>), \<open>EvalData\<close>, \<open>EvalRunner\<close>, \<open>Frontier\<close> (\<open>internal/evals\<close>),
    \<open>EvalProps\<close>: policy tests, evaluation datasets and their runs, the cost and quality frontier.
    \<open>Experiment\<close> (\<open>classifier/experiment.go\<close>), \<open>Perceptron\<close>: the trained classifier and its mistake bound.
  \<^item> \<open>EngineProps\<close>, \<open>PolicyProps\<close>, \<open>ServiceProps\<close>, \<open>QueueLaws\<close>, \<open>RequestProps\<close>: properties of the
    parts named before. Every property is introduced by its number and followed, where it has
    hypotheses, by a witness on concrete data.

  \<^bold>\<open>Bounds.\<close> Loops over data are structural recursions. The retry loop counts its attempts up to the
  configured number (measure: the attempts left); the term search, the regular expression matcher and
  the reader of an event stream recurse on the text that is left; a run of the load test takes two steps per
  request. Nothing needs fuel.

  \<^bold>\<open>Not modelled.\<close> The text of the dashboard's HTML template, the prometheus library behind the metrics,
  where the log lines go, the parsing of command line flags, and of \<open>cmd/router\<close> the listening and the
  grace period of the HTTP server, and saves that overlap: I/O around the functions above. The example under \<open>examples/\<close>
  prints what \<open>Sdk\<close> builds.
\<close>

end
